(* ===== verification/Foc_Prelude.thy ===== *)
theory Foc_Prelude
  imports Main "HOL-Library.Word" "HOL-Library.Monad_Syntax"
begin

text \<open>
  Shared vocabulary of the development: the machine types, the checked operations on
  C++ \<open>int\<close> and \<open>std::vector\<close> (a result \<open>None\<close> stands for undefined behaviour of the
  source), counted \<open>for\<close> loops, the little-endian image of a 32-bit field, and the fact
  collections the component theories add to.
\<close>

unbundle bit_operations_syntax

type_synonym u8 = "8 word"
type_synonym u16 = "16 word"
type_synonym u32 = "32 word"

text \<open>
  A C++ \<open>float\<close> that the code only stores, copies or bit-casts is its IEEE bit pattern.
  Arithmetic on such values is a parameter of the definitions that use it.
\<close>

type_synonym f32 = "32 word"

text \<open>A continuation handed to an operation is known by a number.\<close>

type_synonym callback = nat

named_theorems vec_simps \<open>checked element access\<close>
named_theorems codec_simps \<open>lengths and slices of encoded fields\<close>

section \<open>Checked integers\<close>

definition int_max :: int where
  "int_max = 2147483647"

definition int_min :: int where
  "int_min = - 2147483648"

text \<open>Signed overflow of \<open>int\<close> is undefined behaviour: no result.\<close>

definition chk_int :: "int \<Rightarrow> int option" where
  "chk_int n = (if int_min \<le> n \<and> n \<le> int_max then Some n else None)"

lemma chk_int_Some [simp]: "chk_int n = Some m \<longleftrightarrow> m = n \<and> int_min \<le> n \<and> n \<le> int_max"
  by (auto simp: chk_int_def)

lemma chk_int_None [simp]: "chk_int n = None \<longleftrightarrow> n < int_min \<or> int_max < n"
  by (auto simp: chk_int_def)

section \<open>Checked element access\<close>

definition vec_get :: "'a list \<Rightarrow> int \<Rightarrow> 'a option" where
  "vec_get xs i = (if 0 \<le> i \<and> i < int (length xs) then Some (xs ! nat i) else None)"

definition vec_set :: "'a list \<Rightarrow> int \<Rightarrow> 'a \<Rightarrow> 'a list option" where
  "vec_set xs i x = (if 0 \<le> i \<and> i < int (length xs) then Some (xs[nat i := x]) else None)"

lemma vec_get_in [vec_simps]: "0 \<le> i \<Longrightarrow> i < int (length xs) \<Longrightarrow> vec_get xs i = Some (xs ! nat i)"
  by (simp add: vec_get_def)

lemma vec_set_in [vec_simps]: "0 \<le> i \<Longrightarrow> i < int (length xs) \<Longrightarrow> vec_set xs i x = Some (xs[nat i := x])"
  by (simp add: vec_set_def)

lemma vec_get_Some: "vec_get xs i = Some x \<longleftrightarrow> 0 \<le> i \<and> i < int (length xs) \<and> x = xs ! nat i"
  by (auto simp: vec_get_def)

lemma vec_set_Some: "vec_set xs i x = Some ys \<longleftrightarrow> 0 \<le> i \<and> i < int (length xs) \<and> ys = xs[nat i := x]"
  by (auto simp: vec_set_def)

lemma length_vec_set: "vec_set xs i x = Some ys \<Longrightarrow> length ys = length xs"
  by (auto simp: vec_set_def split: if_splits)

section \<open>Counted loops\<close>

text \<open>\<open>for (int i = lo; i < hi; ++i) body\<close>, where the body may have no result.\<close>

function for_up :: "int \<Rightarrow> int \<Rightarrow> (int \<Rightarrow> 's \<Rightarrow> 's option) \<Rightarrow> 's \<Rightarrow> 's option" where
  "for_up lo hi body s = (if lo < hi then (case body lo s of None \<Rightarrow> None | Some s' \<Rightarrow> for_up (lo + 1) hi body s') else Some s)"
  by pat_completeness auto
termination
  by (relation "measure (\<lambda>(lo, hi, body, s). nat (hi - lo))") auto

declare for_up.simps [simp del]

lemma for_up_stop [simp]: "hi \<le> lo \<Longrightarrow> for_up lo hi body s = Some s"
  by (subst for_up.simps) simp

lemma for_up_step: "lo < hi \<Longrightarrow> for_up lo hi body s = body lo s \<bind> for_up (lo + 1) hi body"
  by (subst for_up.simps) (simp split: option.split)

text \<open>The loop rule: a body that always has a result and keeps an indexed invariant.\<close>

lemma for_up_inv:
  assumes start: "P lo s" and bound: "lo \<le> hi"
    and body: "\<And>i s. lo \<le> i \<Longrightarrow> i < hi \<Longrightarrow> P i s \<Longrightarrow> \<exists>s'. body i s = Some s' \<and> P (i + 1) s'"
  shows "\<exists>s'. for_up lo hi body s = Some s' \<and> P hi s'"
  using assms
proof (induction lo hi body s rule: for_up.induct)
  case (1 lo hi body s)
  show ?case
  proof (cases "lo < hi")
    case True
    with "1.prems" obtain s' where s': "body lo s = Some s'" "P (lo + 1) s'" by blast
    have "\<exists>t. for_up (lo + 1) hi body s' = Some t \<and> P hi t"
      using "1.IH" [OF True s'(1) s'(2)] "1.prems"(3) True by simp
    with True s' show ?thesis by (simp add: for_up_step)
  next
    case False
    with "1.prems" have "lo = hi" by simp
    with "1.prems" show ?thesis by simp
  qed
qed

section \<open>Little-endian fields\<close>

text \<open>The bytes \<open>memcpy\<close> moves for a 4-byte field, on the little-endian targets.\<close>

definition le32 :: "u32 \<Rightarrow> u8 list" where
  "le32 w = [ucast w, ucast (drop_bit 8 w), ucast (drop_bit 16 w), ucast (drop_bit 24 w)]"

fun un_le32 :: "u8 list \<Rightarrow> u32" where
  "un_le32 (a # b # c # d # _) =
     ucast a OR push_bit 8 (ucast b) OR push_bit 16 (ucast c) OR push_bit 24 (ucast d)"
| "un_le32 _ = 0"

lemma length_le32 [simp, codec_simps]: "length (le32 w) = 4"
  by (simp add: le32_def)

lemma un_le32_le32 [simp]: "un_le32 (le32 w @ bs) = w"
proof (rule bit_word_eqI)
  fix n :: nat
  assume "n < LENGTH(32)"
  then consider "n < 8" | "8 \<le> n" "n < 16" | "16 \<le> n" "n < 24" | "24 \<le> n" "n < 32" by fastforce
  then show "bit (un_le32 (le32 w @ bs)) n \<longleftrightarrow> bit w n"
    by cases (auto simp: le32_def bit_simps)
qed

lemma un_le32_le32' [simp]: "un_le32 (le32 w) = w"
  using un_le32_le32 [of w "[]"] by simp

lemma bit_u8_high [simp]: "8 \<le> n \<Longrightarrow> \<not> bit (a :: u8) n"
  by (auto dest: bit_imp_le_length)

lemma le32_of_bytes: "le32 (un_le32 [a, b, c, d]) = [a, b, c, d]"
  unfolding le32_def
  by (auto intro!: bit_word_eqI simp: bit_simps)

lemma le32_un_le32: "length bs = 4 \<Longrightarrow> le32 (un_le32 bs) = bs"
  by (auto simp: numeral_eq_Suc length_Suc_conv simp del: un_le32.simps intro!: le32_of_bytes)

lemma le32_inject: "le32 v = le32 w \<longleftrightarrow> v = w"
  by (metis un_le32_le32')

section \<open>Reading fixed offsets of a byte image\<close>

definition word_at :: "u8 list \<Rightarrow> nat \<Rightarrow> u32" where
  "word_at bs k = un_le32 (take 4 (drop k bs))"

definition byte_at :: "u8 list \<Rightarrow> nat \<Rightarrow> u8" where
  "byte_at bs k = bs ! k"

lemma word_at_skip [codec_simps]: "length as \<le> k \<Longrightarrow> word_at (as @ bs) k = word_at bs (k - length as)"
  by (simp add: word_at_def)

lemma word_at_here [codec_simps]: "word_at (le32 w @ bs) 0 = w"
  by (simp add: word_at_def)

lemma word_at_end [codec_simps]: "word_at (le32 w) 0 = w"
  by (simp add: word_at_def)

lemma word_at_cons [codec_simps]: "0 < k \<Longrightarrow> word_at (b # bs) k = word_at bs (k - 1)"
  by (simp add: word_at_def drop_Cons')

lemma byte_at_skip [codec_simps]: "length as \<le> k \<Longrightarrow> byte_at (as @ bs) k = byte_at bs (k - length as)"
  by (simp add: byte_at_def nth_append)

lemma byte_at_cons [codec_simps]: "byte_at (b # bs) k = (if k = 0 then b else byte_at bs (k - 1))"
  by (simp add: byte_at_def nth_Cons')

lemma replicate_4: "replicate 4 x = [x, x, x, x]"
  by (simp add: numeral_eq_Suc)

lemma word_at_erased [codec_simps]: "4 \<le> n \<Longrightarrow> word_at (replicate n 0xFF) 0 = 0xFFFFFFFF"
  by (simp add: word_at_def min_absorb1 min_absorb2 replicate_4)

lemma le32_word_at: "k + 4 \<le> length bs \<Longrightarrow> le32 (word_at bs k) = take 4 (drop k bs)"
  unfolding word_at_def by (rule le32_un_le32) simp

lemma take_drop_split: "take m (drop k bs) @ drop (k + m) bs = drop k bs"
  by (metis add.commute append_take_drop_id drop_drop)

section \<open>Decimal numbers\<close>

text \<open>\<open>std::to_string\<close> of a non-negative \<open>int\<close>.\<close>

fun decimal :: "nat \<Rightarrow> u8 list" where
  "decimal n = (if n < 10 then [0x30 + word_of_nat n] else decimal (n div 10) @ [0x30 + word_of_nat (n mod 10)])"

declare decimal.simps [simp del]

definition is_digit :: "u8 \<Rightarrow> bool" where
  "is_digit b \<longleftrightarrow> 0x30 \<le> b \<and> b \<le> 0x39"

lemma digit_byte: "d < 10 \<Longrightarrow> is_digit (0x30 + word_of_nat d) \<and> uint (0x30 + word_of_nat d :: u8) = 0x30 + int d"
proof -
  assume "d < 10"
  then have "d = 0 \<or> d = 1 \<or> d = 2 \<or> d = 3 \<or> d = 4 \<or> d = 5 \<or> d = 6 \<or> d = 7 \<or> d = 8 \<or> d = 9" by presburger
  then show ?thesis by (elim disjE) (simp_all add: is_digit_def)
qed

lemma decimal_digits: "\<forall>b \<in> set (decimal n). is_digit b"
proof (induction n rule: decimal.induct)
  case (1 n)
  show ?case
  proof (cases "n < 10")
    case True
    with digit_byte [OF True] show ?thesis by (subst decimal.simps) simp
  next
    case False
    with 1 digit_byte [of "n mod 10"] show ?thesis by (subst decimal.simps) simp
  qed
qed

lemma decimal_nonempty: "decimal n \<noteq> []"
  by (subst decimal.simps) simp


end
