(* ===== verification/Nvm_Records.thy ===== *)
theory Nvm_Records
  imports Foc_Prelude
begin

text \<open>
  The persistent data of \<open>core/services/non_volatile_memory\<close>: \<open>CalibrationData\<close>,
  \<open>ConfigData\<close> and the packed storage record (magic, version, CRC-32, payload), with
  their byte images and the interface \<open>nvm_codec\<close> of a fixed-size payload. The images are
  those of \<open>memcpy\<close> on the padding-free structs of a little-endian target.
\<close>

section \<open>Payloads\<close>

record CalibrationData =
  rPhase :: f32
  lD :: f32
  lQ :: f32
  currentOffsetA :: f32
  currentOffsetB :: f32
  currentOffsetC :: f32
  inertia :: f32
  frictionCoulomb :: f32
  frictionViscous :: f32
  encoderZeroOffset :: u32
  kpCurrent :: f32
  kiCurrent :: f32
  kpVelocity :: f32
  kiVelocity :: f32
  encoderDirection :: u8
  polePairs :: u8
  reservedA :: u8
  reservedB :: u8

definition CalibrationData_init :: CalibrationData where
  "CalibrationData_init =
     \<lparr>rPhase = 0, lD = 0, lQ = 0, currentOffsetA = 0, currentOffsetB = 0, currentOffsetC = 0,
      inertia = 0, frictionCoulomb = 0, frictionViscous = 0, encoderZeroOffset = 0,
      kpCurrent = 0, kiCurrent = 0, kpVelocity = 0, kiVelocity = 0,
      encoderDirection = 0, polePairs = 0, reservedA = 0, reservedB = 0\<rparr>"

record ConfigData =
  canNodeId :: u32
  canBaudrate :: u32
  telemetryRateHz :: u32
  encoderResolution :: u32
  defaultControlMode :: u8
  configReservedA :: u8
  configReservedB :: u8
  configReservedC :: u8

definition MakeDefaultConfigData :: ConfigData where
  "MakeDefaultConfigData =
     \<lparr>canNodeId = 1, canBaudrate = 1000000, telemetryRateHz = 100, encoderResolution = 4000,
      defaultControlMode = 0, configReservedA = 0, configReservedB = 0, configReservedC = 0\<rparr>"

section \<open>Byte images\<close>

definition calibration_bytes :: "CalibrationData \<Rightarrow> u8 list" where
  "calibration_bytes d =
     le32 (rPhase d) @ le32 (lD d) @ le32 (lQ d) @
     le32 (currentOffsetA d) @ le32 (currentOffsetB d) @ le32 (currentOffsetC d) @
     le32 (inertia d) @ le32 (frictionCoulomb d) @ le32 (frictionViscous d) @
     le32 (encoderZeroOffset d) @ le32 (kpCurrent d) @ le32 (kiCurrent d) @
     le32 (kpVelocity d) @ le32 (kiVelocity d) @
     [encoderDirection d, polePairs d, reservedA d, reservedB d]"

definition calibration_of_bytes :: "u8 list \<Rightarrow> CalibrationData" where
  "calibration_of_bytes bs =
     \<lparr>rPhase = word_at bs 0, lD = word_at bs 4, lQ = word_at bs 8,
      currentOffsetA = word_at bs 12, currentOffsetB = word_at bs 16, currentOffsetC = word_at bs 20,
      inertia = word_at bs 24, frictionCoulomb = word_at bs 28, frictionViscous = word_at bs 32,
      encoderZeroOffset = word_at bs 36, kpCurrent = word_at bs 40, kiCurrent = word_at bs 44,
      kpVelocity = word_at bs 48, kiVelocity = word_at bs 52,
      encoderDirection = byte_at bs 56, polePairs = byte_at bs 57,
      reservedA = byte_at bs 58, reservedB = byte_at bs 59\<rparr>"

definition config_bytes :: "ConfigData \<Rightarrow> u8 list" where
  "config_bytes d =
     le32 (canNodeId d) @ le32 (canBaudrate d) @ le32 (telemetryRateHz d) @ le32 (encoderResolution d) @
     [defaultControlMode d, configReservedA d, configReservedB d, configReservedC d]"

definition config_of_bytes :: "u8 list \<Rightarrow> ConfigData" where
  "config_of_bytes bs =
     \<lparr>canNodeId = word_at bs 0, canBaudrate = word_at bs 4, telemetryRateHz = word_at bs 8,
      encoderResolution = word_at bs 12, defaultControlMode = byte_at bs 16,
      configReservedA = byte_at bs 17, configReservedB = byte_at bs 18, configReservedC = byte_at bs 19\<rparr>"

section \<open>Storage records\<close>

text \<open>\<open>CalibrationStorageRecord\<close> and \<open>ConfigStorageRecord\<close> differ in the payload only.\<close>

record 'd StorageRecord =
  magic :: u32
  version :: u8
  crc32 :: u32
  payload :: 'd

type_synonym CalibrationStorageRecord = "CalibrationData StorageRecord"
type_synonym ConfigStorageRecord = "ConfigData StorageRecord"

definition record_bytes :: "('d \<Rightarrow> u8 list) \<Rightarrow> 'd StorageRecord \<Rightarrow> u8 list" where
  "record_bytes enc r = le32 (magic r) @ [version r] @ le32 (crc32 r) @ enc (payload r)"

definition record_of_bytes :: "(u8 list \<Rightarrow> 'd) \<Rightarrow> u8 list \<Rightarrow> 'd StorageRecord" where
  "record_of_bytes dec bs =
     \<lparr>magic = word_at bs 0, version = byte_at bs 4, crc32 = word_at bs 5, payload = dec (drop 9 bs)\<rparr>"

definition CalibrationMagic :: u32 where "CalibrationMagic = 0xCAFEF00D"
definition ConfigMagic :: u32 where "ConfigMagic = 0xDEADBEEF"
definition CalibrationLayoutVersion :: u8 where "CalibrationLayoutVersion = 1"
definition ConfigLayoutVersion :: u8 where "ConfigLayoutVersion = 2"

definition calibrationRecordSize :: nat where "calibrationRecordSize = 4 + 1 + 4 + 60"
definition configRecordSize :: nat where "configRecordSize = 4 + 1 + 4 + 20"

section \<open>The interface of a payload\<close>

locale nvm_codec =
  fixes enc :: "'d \<Rightarrow> u8 list" and dec :: "u8 list \<Rightarrow> 'd" and size :: nat
  assumes length_enc: "length (enc d) = size"
    and dec_enc: "dec (enc d) = d"
    and enc_dec: "length bs = size \<Longrightarrow> enc (dec bs) = bs"
begin

lemma enc_inject: "enc d = enc d' \<longleftrightarrow> d = d'"
  by (metis dec_enc)

lemma length_record: "length (record_bytes enc r) = 9 + size"
  by (simp add: record_bytes_def length_enc)

lemma record_roundtrip: "record_of_bytes dec (record_bytes enc r) = r"
  by (simp add: record_bytes_def record_of_bytes_def codec_simps dec_enc)

lemma record_image:
  assumes "length bs = 9 + size"
  shows "record_bytes enc (record_of_bytes dec bs) = bs"
proof -
  have "[byte_at bs 4] = take 1 (drop 4 bs)"
    using assms by (simp add: byte_at_def take_Suc_conv_app_nth hd_drop_conv_nth take_Suc)
  moreover have "enc (dec (drop 9 bs)) = drop 9 bs"
    using assms by (simp add: enc_dec)
  moreover have "take 4 bs @ take 1 (drop 4 bs) @ take 4 (drop 5 bs) @ drop 9 bs = bs"
    using take_drop_split [of 4 5 bs] take_drop_split [of 1 4 bs] by simp
  ultimately show ?thesis
    using assms by (simp add: record_bytes_def record_of_bytes_def le32_word_at)
qed

lemma record_inject: "record_bytes enc r = record_bytes enc r' \<longleftrightarrow> r = r'"
  by (metis record_roundtrip)

end

lemma calibration_codec_length: "length (calibration_bytes d) = 60"
  by (simp add: calibration_bytes_def)

lemma calibration_codec_dec: "calibration_of_bytes (calibration_bytes d) = d"
  by (simp add: calibration_bytes_def calibration_of_bytes_def codec_simps)

lemma config_codec_length: "length (config_bytes d) = 20"
  by (simp add: config_bytes_def)

lemma config_codec_dec: "config_of_bytes (config_bytes d) = d"
  by (simp add: config_bytes_def config_of_bytes_def codec_simps)

text \<open>Re-encoding: the slices of a byte string joined in order are the string.\<close>

lemma cons_byte_at: "k < length bs \<Longrightarrow> byte_at bs k # drop (Suc k) bs = drop k bs"
  by (simp add: byte_at_def Cons_nth_drop_Suc)

lemma word_at_join: "k + 4 \<le> length bs \<Longrightarrow> le32 (word_at bs k) @ drop (k + 4) bs = drop k bs"
  by (simp only: le32_word_at take_drop_split)

lemma config_codec_enc:
  assumes "length bs = 20"
  shows "config_bytes (config_of_bytes bs) = bs"
proof -
  have tail: "[byte_at bs 16, byte_at bs 17, byte_at bs 18, byte_at bs 19] = drop 16 bs"
    using assms cons_byte_at [of 16 bs] cons_byte_at [of 17 bs] cons_byte_at [of 18 bs] cons_byte_at [of 19 bs]
    by simp
  show ?thesis
    using assms word_at_join [of 0 bs] word_at_join [of 4 bs] word_at_join [of 8 bs] word_at_join [of 12 bs]
    by (simp add: config_bytes_def config_of_bytes_def tail)
qed

lemma calibration_codec_enc:
  assumes "length bs = 60"
  shows "calibration_bytes (calibration_of_bytes bs) = bs"
proof -
  have tail: "[byte_at bs 56, byte_at bs 57, byte_at bs 58, byte_at bs 59] = drop 56 bs"
    using assms cons_byte_at [of 56 bs] cons_byte_at [of 57 bs] cons_byte_at [of 58 bs] cons_byte_at [of 59 bs]
    by simp
  have join: "le32 (word_at bs k) @ drop (k + 4) bs = drop k bs" if "k \<le> 56" for k
    using assms that by (intro word_at_join) simp
  show ?thesis
    using join [of 0] join [of 4] join [of 8] join [of 12] join [of 16] join [of 20] join [of 24]
      join [of 28] join [of 32] join [of 36] join [of 40] join [of 44] join [of 48] join [of 52]
    by (simp add: calibration_bytes_def calibration_of_bytes_def tail)
qed

interpretation cal_codec: nvm_codec calibration_bytes calibration_of_bytes 60
  by unfold_locales (simp_all add: calibration_codec_length calibration_codec_dec calibration_codec_enc)

interpretation cfg_codec: nvm_codec config_bytes config_of_bytes 20
  by unfold_locales (simp_all add: config_codec_length config_codec_dec config_codec_enc)

end
