(* ===== verification/Nvm_Region.thy ===== *)
theory Nvm_Region
  imports Foc_Prelude
begin

text \<open>
  The storage below the non-volatile memory service: the interfaces \<open>hal::Eeprom\<close> and
  \<open>services::NvmRegion\<close> as records of operations with their laws as locales, the in-memory
  \<open>EepromStub\<close> of the host and ST platforms, the adapter \<open>NvmEepromRegion\<close>, and the
  two regions \<open>Logic\<close> lays out. A failed \<open>really_assert\<close> is the result \<open>None\<close>; the
  completion callback of an operation is the return of its result.
\<close>

section \<open>The EEPROM driver interface\<close>

record 'm Eeprom =
  eeSize :: nat
  eeWriteBuffer :: "'m \<Rightarrow> u8 list \<Rightarrow> nat \<Rightarrow> 'm option"
  eeReadBuffer :: "'m \<Rightarrow> nat \<Rightarrow> nat \<Rightarrow> u8 list option"

locale eeprom_device =
  fixes E :: "'m Eeprom" and ok :: "'m \<Rightarrow> bool"
  assumes write_in: "ok m \<Longrightarrow> a + length bs \<le> eeSize E \<Longrightarrow> \<exists>m'. eeWriteBuffer E m bs a = Some m' \<and> ok m'"
    and read_in: "ok m \<Longrightarrow> a + n \<le> eeSize E \<Longrightarrow> \<exists>bs. eeReadBuffer E m n a = Some bs \<and> length bs = n"
    and read_written: "ok m \<Longrightarrow> eeWriteBuffer E m bs a = Some m' \<Longrightarrow> n \<le> length bs \<Longrightarrow>
      eeReadBuffer E m' n a = Some (take n bs)"
    and read_disjoint: "ok m \<Longrightarrow> eeWriteBuffer E m bs a = Some m' \<Longrightarrow> b + n \<le> a \<or> a + length bs \<le> b \<Longrightarrow>
      eeReadBuffer E m' n b = eeReadBuffer E m n b"

section \<open>EepromStub\<close>

definition stubSize :: nat where "stubSize = 512"

definition EepromStub_init :: "u8 list" where
  "EepromStub_init = replicate stubSize 0xFF"

definition EepromStub_WriteBuffer :: "u8 list \<Rightarrow> u8 list \<Rightarrow> nat \<Rightarrow> u8 list option" where
  "EepromStub_WriteBuffer storage buffer address =
     (if address \<le> stubSize \<and> length buffer \<le> stubSize - address
      then Some (take address storage @ buffer @ drop (address + length buffer) storage)
      else None)"

definition EepromStub_ReadBuffer :: "u8 list \<Rightarrow> nat \<Rightarrow> nat \<Rightarrow> u8 list option" where
  "EepromStub_ReadBuffer storage n address =
     (if address \<le> stubSize \<and> n \<le> stubSize - address
      then Some (take n (drop address storage))
      else None)"

definition EepromStub_Erase :: "u8 list \<Rightarrow> u8 list" where
  "EepromStub_Erase storage = replicate (length storage) 0xFF"

definition EepromStub :: "u8 list Eeprom" where
  "EepromStub = \<lparr>eeSize = stubSize, eeWriteBuffer = EepromStub_WriteBuffer, eeReadBuffer = EepromStub_ReadBuffer\<rparr>"

definition stub_ok :: "u8 list \<Rightarrow> bool" where
  "stub_ok storage \<longleftrightarrow> length storage = stubSize"

lemmas stub_defs = EepromStub_def EepromStub_WriteBuffer_def EepromStub_ReadBuffer_def stub_ok_def

interpretation stub: eeprom_device EepromStub stub_ok
proof (unfold_locales, goal_cases)
  case (1 m a bs)
  then show ?case by (auto simp: stub_defs)
next
  case (2 m a n)
  then show ?case by (auto simp: stub_defs)
next
  case (3 m bs a m' n)
  then show ?case by (auto simp: stub_defs split: if_splits)
next
  case (4 m bs a m' b n)
  have "take n (drop b (take a m @ bs @ drop (a + length bs) m)) = take n (drop b m)"
    if "length m = stubSize" "a + length bs \<le> stubSize"
    using 4(3) that by (auto intro!: nth_equalityI simp: nth_append)
  with 4 show ?case by (auto simp: stub_defs split: if_splits)
qed

lemma stub_ok_init: "stub_ok EepromStub_init"
  by (simp add: stub_ok_def EepromStub_init_def)

section \<open>The region interface\<close>

record 'm NvmRegion =
  regWrite :: "'m \<Rightarrow> u8 list \<Rightarrow> 'm option"
  regRead :: "'m \<Rightarrow> nat \<Rightarrow> u8 list option"
  regErase :: "'m \<Rightarrow> 'm option"
  regSize :: nat

locale nvm_region =
  fixes R :: "'m NvmRegion" and ok :: "'m \<Rightarrow> bool"
  assumes reg_write: "ok m \<Longrightarrow> length bs \<le> regSize R \<Longrightarrow>
      \<exists>m'. regWrite R m bs = Some m' \<and> ok m' \<and> regRead R m' (length bs) = Some bs"
    and reg_erase: "ok m \<Longrightarrow>
      \<exists>m'. regErase R m = Some m' \<and> ok m' \<and> (\<forall>n \<le> regSize R. regRead R m' n = Some (replicate n 0xFF))"
    and reg_read: "ok m \<Longrightarrow> n \<le> regSize R \<Longrightarrow> \<exists>bs. regRead R m n = Some bs \<and> length bs = n"

text \<open>Two regions of one medium that do not touch each other.\<close>

locale nvm_region_pair = A: nvm_region RA ok + B: nvm_region RB ok
  for RA :: "'m NvmRegion" and RB :: "'m NvmRegion" and ok :: "'m \<Rightarrow> bool" +
  assumes write_frame_AB: "ok m \<Longrightarrow> regWrite RA m bs = Some m' \<Longrightarrow> n \<le> regSize RB \<Longrightarrow> regRead RB m' n = regRead RB m n"
    and write_frame_BA: "ok m \<Longrightarrow> regWrite RB m bs = Some m' \<Longrightarrow> n \<le> regSize RA \<Longrightarrow> regRead RA m' n = regRead RA m n"
    and erase_frame_AB: "ok m \<Longrightarrow> regErase RA m = Some m' \<Longrightarrow> n \<le> regSize RB \<Longrightarrow> regRead RB m' n = regRead RB m n"
    and erase_frame_BA: "ok m \<Longrightarrow> regErase RB m = Some m' \<Longrightarrow> n \<le> regSize RA \<Longrightarrow> regRead RA m' n = regRead RA m n"

section \<open>NvmEepromRegion\<close>

record 'm NvmEepromRegion =
  eeprom :: "'m Eeprom"
  baseAddress :: nat
  regionSize :: nat
  eraseBuffer :: "u8 list"

definition maxRegionSize :: nat where "maxRegionSize = 256"

text \<open>The constructor: its three assertions in order, then the filled erase buffer.\<close>

definition NvmEepromRegion_new :: "'m Eeprom \<Rightarrow> nat \<Rightarrow> nat \<Rightarrow> 'm NvmEepromRegion option" where
  "NvmEepromRegion_new E base sz =
     (if \<not> sz \<le> maxRegionSize then None
      else if \<not> sz \<le> eeSize E then None
      else if \<not> base \<le> eeSize E - sz then None
      else Some \<lparr>eeprom = E, baseAddress = base, regionSize = sz, eraseBuffer = replicate maxRegionSize 0xFF\<rparr>)"

definition NvmEepromRegion_Write :: "'m NvmEepromRegion \<Rightarrow> 'm \<Rightarrow> u8 list \<Rightarrow> 'm option" where
  "NvmEepromRegion_Write r m data =
     (if length data \<le> regionSize r then eeWriteBuffer (eeprom r) m data (baseAddress r) else None)"

definition NvmEepromRegion_Read :: "'m NvmEepromRegion \<Rightarrow> 'm \<Rightarrow> nat \<Rightarrow> u8 list option" where
  "NvmEepromRegion_Read r m n =
     (if n \<le> regionSize r then eeReadBuffer (eeprom r) m n (baseAddress r) else None)"

definition NvmEepromRegion_Erase :: "'m NvmEepromRegion \<Rightarrow> 'm \<Rightarrow> 'm option" where
  "NvmEepromRegion_Erase r m = eeWriteBuffer (eeprom r) m (take (regionSize r) (eraseBuffer r)) (baseAddress r)"

definition NvmEepromRegion_Size :: "'m NvmEepromRegion \<Rightarrow> nat" where
  "NvmEepromRegion_Size r = regionSize r"

definition as_NvmRegion :: "'m NvmEepromRegion \<Rightarrow> 'm NvmRegion" where
  "as_NvmRegion r =
     \<lparr>regWrite = NvmEepromRegion_Write r, regRead = NvmEepromRegion_Read r,
      regErase = NvmEepromRegion_Erase r, regSize = NvmEepromRegion_Size r\<rparr>"

lemmas region_defs = as_NvmRegion_def NvmEepromRegion_Write_def NvmEepromRegion_Read_def
  NvmEepromRegion_Erase_def NvmEepromRegion_Size_def

lemma NvmEepromRegion_new_Some:
  "NvmEepromRegion_new E base sz = Some r \<longleftrightarrow>
     sz \<le> 256 \<and> base + sz \<le> eeSize E \<and>
     r = \<lparr>eeprom = E, baseAddress = base, regionSize = sz, eraseBuffer = replicate 256 0xFF\<rparr>"
  by (auto simp: NvmEepromRegion_new_def maxRegionSize_def)

context eeprom_device
begin

lemma region_implements:
  assumes "NvmEepromRegion_new E base sz = Some r"
  shows "nvm_region (as_NvmRegion r) ok"
proof (unfold_locales, goal_cases)
  case (1 m bs)
  then have len: "length bs \<le> sz" "base + length bs \<le> eeSize E"
    using assms by (auto simp: NvmEepromRegion_new_Some region_defs)
  obtain m' where m': "eeWriteBuffer E m bs base = Some m'" "ok m'"
    using write_in [OF 1(1) len(2)] by blast
  with read_written [OF 1(1) m'(1), of "length bs"] len assms show ?case
    by (auto simp: NvmEepromRegion_new_Some region_defs)
next
  case (2 m)
  let ?ff = "replicate sz 0xFF"
  have sz: "base + length ?ff \<le> eeSize E"
    using assms by (simp add: NvmEepromRegion_new_Some)
  obtain m' where m': "eeWriteBuffer E m ?ff base = Some m'" "ok m'"
    using write_in [OF 2 sz] by blast
  have "eeReadBuffer E m' n base = Some (replicate n 0xFF)" if "n \<le> sz" for n
    using read_written [OF 2 m'(1), of n] that by (simp add: min_absorb1)
  with m' assms show ?case
    by (auto simp: NvmEepromRegion_new_Some region_defs)
next
  case (3 m n)
  then have "base + n \<le> eeSize E" "n \<le> sz"
    using assms by (auto simp: NvmEepromRegion_new_Some region_defs)
  with read_in [OF 3(1), of base n] assms show ?case
    by (auto simp: NvmEepromRegion_new_Some region_defs)
qed

text \<open>Regions whose address ranges do not overlap never see each other's writes.\<close>

lemma disjoint_regions:
  assumes r: "NvmEepromRegion_new E base sz = Some r"
    and s: "NvmEepromRegion_new E base' sz' = Some s"
    and disj: "base + sz \<le> base' \<or> base' + sz' \<le> base"
  shows "nvm_region_pair (as_NvmRegion r) (as_NvmRegion s) ok"
  unfolding nvm_region_pair_def nvm_region_pair_axioms_def
proof (intro conjI allI impI region_implements [OF r] region_implements [OF s], goal_cases)
  case (1 m bs m' n)
  with disj r s show ?case
    by (auto simp: NvmEepromRegion_new_Some region_defs split: if_splits intro!: read_disjoint)
next
  case (2 m bs m' n)
  with disj r s show ?case
    by (auto simp: NvmEepromRegion_new_Some region_defs split: if_splits intro!: read_disjoint)
next
  case (3 m m' n)
  with disj r s show ?case
    by (auto simp: NvmEepromRegion_new_Some region_defs split: if_splits intro!: read_disjoint)
next
  case (4 m m' n)
  with disj r s show ?case
    by (auto simp: NvmEepromRegion_new_Some region_defs split: if_splits intro!: read_disjoint)
qed

end

section \<open>The regions of the application\<close>

text \<open>\<open>Logic\<close> places a calibration region at 0 and a configuration region at 128.\<close>

definition calibrationRegionOffset :: nat where "calibrationRegionOffset = 0"
definition calibrationRegionSize :: nat where "calibrationRegionSize = 128"
definition configRegionOffset :: nat where "configRegionOffset = calibrationRegionOffset + calibrationRegionSize"
definition configRegionSize :: nat where "configRegionSize = 128"

definition calibrationEepromRegion :: "'m Eeprom \<Rightarrow> 'm NvmEepromRegion option" where
  "calibrationEepromRegion E = NvmEepromRegion_new E calibrationRegionOffset calibrationRegionSize"

definition configEepromRegion :: "'m Eeprom \<Rightarrow> 'm NvmEepromRegion option" where
  "configEepromRegion E = NvmEepromRegion_new E configRegionOffset configRegionSize"

definition calibrationRegion :: "u8 list NvmRegion" where
  "calibrationRegion = as_NvmRegion (the (calibrationEepromRegion EepromStub))"

definition configRegion :: "u8 list NvmRegion" where
  "configRegion = as_NvmRegion (the (configEepromRegion EepromStub))"

lemmas layout_defs = calibrationEepromRegion_def configEepromRegion_def calibrationRegionOffset_def
  calibrationRegionSize_def configRegionOffset_def configRegionSize_def

lemma layout_fits:
  "\<exists>r. calibrationEepromRegion EepromStub = Some r" "\<exists>r. configEepromRegion EepromStub = Some r"
  by (simp_all add: layout_defs NvmEepromRegion_new_Some EepromStub_def stubSize_def)

lemma region_sizes [simp]: "regSize calibrationRegion = 128" "regSize configRegion = 128"
  by (simp_all add: calibrationRegion_def configRegion_def layout_defs region_defs
      NvmEepromRegion_new_def maxRegionSize_def EepromStub_def stubSize_def)

interpretation logic: nvm_region_pair calibrationRegion configRegion stub_ok
  unfolding calibrationRegion_def configRegion_def
proof (rule stub.disjoint_regions)
  show "NvmEepromRegion_new EepromStub 0 128 = Some (the (calibrationEepromRegion EepromStub))"
    using layout_fits(1) by (auto simp: layout_defs)
  show "NvmEepromRegion_new EepromStub 128 128 = Some (the (configEepromRegion EepromStub))"
    using layout_fits(2) by (auto simp: layout_defs)
qed simp

end
