(* ===== verification/Nvm_Impl.thy ===== *)
theory Nvm_Impl
  imports Nvm_Records Nvm_Region
begin

text \<open>
  \<open>NonVolatileMemoryImpl\<close>: the asynchronous save, load, invalidate, validity and format
  operations. An operation returns the new object and the effects it caused, in order:
  requests to a region (with the continuation the code passes as a lambda), stores through
  the caller's output pointer, and invocations of the caller's callbacks. A callback held in
  an \<open>AutoResetFunction\<close> is an option; firing it leaves \<open>None\<close>, and firing an empty one is
  undefined (the result \<open>None\<close> of the handler). The CRC-32 of the infrastructure library is
  the parameter \<open>crc\<close>.
\<close>

datatype NvmStatus = Ok | InvalidData | VersionMismatch | WriteFailed | HardwareFault

datatype region_id = CalibrationRegion | ConfigRegion

text \<open>The lambdas handed to \<open>NvmRegion\<close>.\<close>

datatype nvm_cont =
  AtCalibrationErased | AtCalibrationWritten | AtCalibrationReadBack | AtCalibrationReadForLoad
| AtCalibrationInvalidated | AtCalibrationReadForIsValid
| AtConfigErased | AtConfigWritten | AtConfigReadBack | AtConfigReadForLoad
| AtFormatCalibrationErased | AtFormatConfigErased

datatype nvm_request =
  EraseReq region_id nvm_cont
| WriteReq region_id "u8 list" nvm_cont
| ReadReq region_id nat nvm_cont

datatype nvm_effect =
  Request nvm_request
| StatusDone callback NvmStatus
| ValidDone callback bool
| StoreCalibration nat CalibrationData
| StoreConfig nat ConfigData

record NonVolatileMemoryImpl =
  calibrationBuffer :: "u8 list"
  calibrationReadBackBuffer :: "u8 list"
  configBuffer :: "u8 list"
  configReadBackBuffer :: "u8 list"
  onCalibrationDone :: "callback option"
  onConfigDone :: "callback option"
  onFormatDone :: "callback option"
  onIsCalibrationValidDone :: "callback option"
  pendingCalibrationOutput :: "nat option"
  pendingConfigOutput :: "nat option"

definition NonVolatileMemoryImpl_init :: NonVolatileMemoryImpl where
  "NonVolatileMemoryImpl_init =
     \<lparr>calibrationBuffer = replicate calibrationRecordSize 0,
      calibrationReadBackBuffer = replicate calibrationRecordSize 0,
      configBuffer = replicate configRecordSize 0,
      configReadBackBuffer = replicate configRecordSize 0,
      onCalibrationDone = None, onConfigDone = None, onFormatDone = None,
      onIsCalibrationValidDone = None,
      pendingCalibrationOutput = None, pendingConfigOutput = None\<rparr>"

type_synonym nvm_result = "NonVolatileMemoryImpl \<times> nvm_effect list"

section \<open>Firing the callbacks\<close>

definition fireCalibration :: "NvmStatus \<Rightarrow> NonVolatileMemoryImpl \<Rightarrow> nvm_result option" where
  "fireCalibration st n =
     (case onCalibrationDone n of None \<Rightarrow> None
      | Some cb \<Rightarrow> Some (n\<lparr>onCalibrationDone := None\<rparr>, [StatusDone cb st]))"

definition fireConfig :: "NvmStatus \<Rightarrow> NonVolatileMemoryImpl \<Rightarrow> nvm_result option" where
  "fireConfig st n =
     (case onConfigDone n of None \<Rightarrow> None
      | Some cb \<Rightarrow> Some (n\<lparr>onConfigDone := None\<rparr>, [StatusDone cb st]))"

definition fireFormat :: "NvmStatus \<Rightarrow> NonVolatileMemoryImpl \<Rightarrow> nvm_result option" where
  "fireFormat st n =
     (case onFormatDone n of None \<Rightarrow> None
      | Some cb \<Rightarrow> Some (n\<lparr>onFormatDone := None\<rparr>, [StatusDone cb st]))"

definition fireIsValid :: "bool \<Rightarrow> NonVolatileMemoryImpl \<Rightarrow> nvm_result option" where
  "fireIsValid v n =
     (case onIsCalibrationValidDone n of None \<Rightarrow> None
      | Some cb \<Rightarrow> Some (n\<lparr>onIsCalibrationValidDone := None\<rparr>, [ValidDone cb v]))"

section \<open>The calibration region\<close>

definition calibration_record :: "(u8 list \<Rightarrow> u32) \<Rightarrow> CalibrationData \<Rightarrow> CalibrationStorageRecord" where
  "calibration_record crc d =
     \<lparr>magic = CalibrationMagic, version = CalibrationLayoutVersion,
      crc32 = crc (calibration_bytes d), payload = d\<rparr>"

definition SaveCalibration ::
  "(u8 list \<Rightarrow> u32) \<Rightarrow> CalibrationData \<Rightarrow> callback \<Rightarrow> NonVolatileMemoryImpl \<Rightarrow> nvm_result" where
  "SaveCalibration crc d onDone n =
     (if onCalibrationDone n \<noteq> None then (n, [])
      else (n\<lparr>calibrationBuffer := record_bytes calibration_bytes (calibration_record crc d),
              onCalibrationDone := Some onDone\<rparr>,
            [Request (EraseReq CalibrationRegion AtCalibrationErased)]))"

definition OnCalibrationErased :: "NonVolatileMemoryImpl \<Rightarrow> nvm_result" where
  "OnCalibrationErased n = (n, [Request (WriteReq CalibrationRegion (calibrationBuffer n) AtCalibrationWritten)])"

definition OnCalibrationWritten :: "NonVolatileMemoryImpl \<Rightarrow> nvm_result" where
  "OnCalibrationWritten n =
     (n, [Request (ReadReq CalibrationRegion (length (calibrationReadBackBuffer n)) AtCalibrationReadBack)])"

definition OnCalibrationReadBack :: "NonVolatileMemoryImpl \<Rightarrow> nvm_result option" where
  "OnCalibrationReadBack n =
     (if calibrationBuffer n = calibrationReadBackBuffer n
      then fireCalibration Ok n else fireCalibration WriteFailed n)"

definition LoadCalibration :: "nat \<Rightarrow> callback \<Rightarrow> NonVolatileMemoryImpl \<Rightarrow> nvm_result" where
  "LoadCalibration out onDone n =
     (if onCalibrationDone n \<noteq> None then (n, [])
      else (n\<lparr>pendingCalibrationOutput := Some out, onCalibrationDone := Some onDone\<rparr>,
            [Request (ReadReq CalibrationRegion (length (calibrationReadBackBuffer n)) AtCalibrationReadForLoad)]))"

definition OnCalibrationReadForLoad :: "(u8 list \<Rightarrow> u32) \<Rightarrow> NonVolatileMemoryImpl \<Rightarrow> nvm_result option" where
  "OnCalibrationReadForLoad crc n =
     (let r = record_of_bytes calibration_of_bytes (calibrationReadBackBuffer n) in
      if magic r \<noteq> CalibrationMagic then fireCalibration InvalidData n
      else if version r \<noteq> CalibrationLayoutVersion then fireCalibration VersionMismatch n
      else if crc (calibration_bytes (payload r)) \<noteq> crc32 r then fireCalibration InvalidData n
      else (case pendingCalibrationOutput n of None \<Rightarrow> None
            | Some out \<Rightarrow> do { (n', es) \<leftarrow> fireCalibration Ok n; Some (n', StoreCalibration out (payload r) # es) }))"

definition InvalidateCalibration :: "callback \<Rightarrow> NonVolatileMemoryImpl \<Rightarrow> nvm_result" where
  "InvalidateCalibration onDone n =
     (if onCalibrationDone n \<noteq> None then (n, [])
      else (n\<lparr>onCalibrationDone := Some onDone\<rparr>, [Request (EraseReq CalibrationRegion AtCalibrationInvalidated)]))"

definition IsCalibrationValid :: "callback \<Rightarrow> NonVolatileMemoryImpl \<Rightarrow> nvm_result" where
  "IsCalibrationValid onDone n =
     (if onIsCalibrationValidDone n \<noteq> None then (n, [])
      else (n\<lparr>onIsCalibrationValidDone := Some onDone\<rparr>,
            [Request (ReadReq CalibrationRegion (length (calibrationReadBackBuffer n)) AtCalibrationReadForIsValid)]))"

definition OnCalibrationReadForIsValid :: "(u8 list \<Rightarrow> u32) \<Rightarrow> NonVolatileMemoryImpl \<Rightarrow> nvm_result option" where
  "OnCalibrationReadForIsValid crc n =
     (let r = record_of_bytes calibration_of_bytes (calibrationReadBackBuffer n) in
      if magic r \<noteq> CalibrationMagic \<or> version r \<noteq> CalibrationLayoutVersion then fireIsValid False n
      else fireIsValid (crc (calibration_bytes (payload r)) = crc32 r) n)"

section \<open>The configuration region\<close>

definition config_record :: "(u8 list \<Rightarrow> u32) \<Rightarrow> ConfigData \<Rightarrow> ConfigStorageRecord" where
  "config_record crc d =
     \<lparr>magic = ConfigMagic, version = ConfigLayoutVersion, crc32 = crc (config_bytes d), payload = d\<rparr>"

definition SaveConfig ::
  "(u8 list \<Rightarrow> u32) \<Rightarrow> ConfigData \<Rightarrow> callback \<Rightarrow> NonVolatileMemoryImpl \<Rightarrow> nvm_result" where
  "SaveConfig crc d onDone n =
     (if onConfigDone n \<noteq> None then (n, [])
      else (n\<lparr>configBuffer := record_bytes config_bytes (config_record crc d), onConfigDone := Some onDone\<rparr>,
            [Request (EraseReq ConfigRegion AtConfigErased)]))"

definition OnConfigErased :: "NonVolatileMemoryImpl \<Rightarrow> nvm_result" where
  "OnConfigErased n = (n, [Request (WriteReq ConfigRegion (configBuffer n) AtConfigWritten)])"

definition OnConfigWritten :: "NonVolatileMemoryImpl \<Rightarrow> nvm_result" where
  "OnConfigWritten n = (n, [Request (ReadReq ConfigRegion (length (configReadBackBuffer n)) AtConfigReadBack)])"

definition OnConfigReadBack :: "NonVolatileMemoryImpl \<Rightarrow> nvm_result option" where
  "OnConfigReadBack n =
     (if configBuffer n = configReadBackBuffer n then fireConfig Ok n else fireConfig WriteFailed n)"

definition LoadConfig :: "nat \<Rightarrow> callback \<Rightarrow> NonVolatileMemoryImpl \<Rightarrow> nvm_result" where
  "LoadConfig out onDone n =
     (if onConfigDone n \<noteq> None then (n, [])
      else (n\<lparr>pendingConfigOutput := Some out, onConfigDone := Some onDone\<rparr>,
            [Request (ReadReq ConfigRegion (length (configReadBackBuffer n)) AtConfigReadForLoad)]))"

text \<open>Each path of the source stores a configuration and then reports \<open>Ok\<close>.\<close>

definition deliverConfig :: "ConfigData \<Rightarrow> NonVolatileMemoryImpl \<Rightarrow> nvm_result option" where
  "deliverConfig d n =
     (case pendingConfigOutput n of None \<Rightarrow> None
      | Some out \<Rightarrow> do { (n', es) \<leftarrow> fireConfig Ok n; Some (n', StoreConfig out d # es) })"

definition OnConfigReadForLoad :: "(u8 list \<Rightarrow> u32) \<Rightarrow> NonVolatileMemoryImpl \<Rightarrow> nvm_result option" where
  "OnConfigReadForLoad crc n =
     (let r = record_of_bytes config_of_bytes (configReadBackBuffer n) in
      if magic r \<noteq> ConfigMagic \<or> version r \<noteq> ConfigLayoutVersion then deliverConfig MakeDefaultConfigData n
      else if crc (config_bytes (payload r)) \<noteq> crc32 r then deliverConfig MakeDefaultConfigData n
      else deliverConfig (payload r) n)"

definition ResetConfigToDefaults :: "(u8 list \<Rightarrow> u32) \<Rightarrow> callback \<Rightarrow> NonVolatileMemoryImpl \<Rightarrow> nvm_result" where
  "ResetConfigToDefaults crc onDone n = SaveConfig crc MakeDefaultConfigData onDone n"

section \<open>Format\<close>

definition Format :: "callback \<Rightarrow> NonVolatileMemoryImpl \<Rightarrow> nvm_result" where
  "Format onDone n =
     (if onFormatDone n \<noteq> None then (n, [])
      else (n\<lparr>onFormatDone := Some onDone\<rparr>, [Request (EraseReq CalibrationRegion AtFormatCalibrationErased)]))"

definition OnCalibrationSectorFormattedDuringFormat :: "NonVolatileMemoryImpl \<Rightarrow> nvm_result" where
  "OnCalibrationSectorFormattedDuringFormat n = (n, [Request (EraseReq ConfigRegion AtFormatConfigErased)])"

section \<open>Continuations\<close>

text \<open>What a completed request runs. A read has filled its buffer before its continuation.\<close>

fun resume :: "(u8 list \<Rightarrow> u32) \<Rightarrow> nvm_cont \<Rightarrow> NonVolatileMemoryImpl \<Rightarrow> nvm_result option" where
  "resume crc AtCalibrationErased n = Some (OnCalibrationErased n)"
| "resume crc AtCalibrationWritten n = Some (OnCalibrationWritten n)"
| "resume crc AtCalibrationReadBack n = OnCalibrationReadBack n"
| "resume crc AtCalibrationReadForLoad n = OnCalibrationReadForLoad crc n"
| "resume crc AtCalibrationInvalidated n = fireCalibration Ok n"
| "resume crc AtCalibrationReadForIsValid n = OnCalibrationReadForIsValid crc n"
| "resume crc AtConfigErased n = Some (OnConfigErased n)"
| "resume crc AtConfigWritten n = Some (OnConfigWritten n)"
| "resume crc AtConfigReadBack n = OnConfigReadBack n"
| "resume crc AtConfigReadForLoad n = OnConfigReadForLoad crc n"
| "resume crc AtFormatCalibrationErased n = Some (OnCalibrationSectorFormattedDuringFormat n)"
| "resume crc AtFormatConfigErased n = fireFormat Ok n"

fun fill_buffer :: "region_id \<Rightarrow> u8 list \<Rightarrow> NonVolatileMemoryImpl \<Rightarrow> NonVolatileMemoryImpl" where
  "fill_buffer CalibrationRegion bs n = n\<lparr>calibrationReadBackBuffer := bs\<rparr>"
| "fill_buffer ConfigRegion bs n = n\<lparr>configReadBackBuffer := bs\<rparr>"

text \<open>
  A region completes a request: the effect on the medium, then the continuation. \<open>CR\<close>
  and \<open>GR\<close> are the calibration and the configuration region.
\<close>

definition region_of :: "'m NvmRegion \<Rightarrow> 'm NvmRegion \<Rightarrow> region_id \<Rightarrow> 'm NvmRegion" where
  "region_of CR GR i = (case i of CalibrationRegion \<Rightarrow> CR | ConfigRegion \<Rightarrow> GR)"

fun complete ::
  "(u8 list \<Rightarrow> u32) \<Rightarrow> 'm NvmRegion \<Rightarrow> 'm NvmRegion \<Rightarrow> nvm_request \<Rightarrow> NonVolatileMemoryImpl \<Rightarrow> 'm
   \<Rightarrow> (nvm_result \<times> 'm) option" where
  "complete crc CR GR (EraseReq i k) n m =
     do { m' \<leftarrow> regErase (region_of CR GR i) m; r \<leftarrow> resume crc k n; Some (r, m') }"
| "complete crc CR GR (WriteReq i bs k) n m =
     do { m' \<leftarrow> regWrite (region_of CR GR i) m bs; r \<leftarrow> resume crc k n; Some (r, m') }"
| "complete crc CR GR (ReadReq i len k) n m =
     do { bs \<leftarrow> regRead (region_of CR GR i) m len; r \<leftarrow> resume crc k (fill_buffer i bs n); Some (r, m) }"

text \<open>
  Running the effects of one operation to quiescence: the result is the final object,
  the final medium and the caller's effects in order. One unit of fuel per request; the
  longest operation, a save, makes three.
\<close>

fun run ::
  "nat \<Rightarrow> (u8 list \<Rightarrow> u32) \<Rightarrow> 'm NvmRegion \<Rightarrow> 'm NvmRegion \<Rightarrow> nvm_effect list \<Rightarrow> NonVolatileMemoryImpl \<Rightarrow> 'm
   \<Rightarrow> (NonVolatileMemoryImpl \<times> 'm \<times> nvm_effect list) option" where
  "run fuel crc CR GR [] n m = Some (n, m, [])"
| "run 0 crc CR GR (Request q # es) n m = None"
| "run (Suc fuel) crc CR GR (Request q # es) n m =
     do { ((n', es'), m') \<leftarrow> complete crc CR GR q n m; run fuel crc CR GR (es @ es') n' m' }"
| "run fuel crc CR GR (e # es) n m =
     do { (n', m', out) \<leftarrow> run fuel crc CR GR es n m; Some (n', m', e # out) }"

definition perform ::
  "(u8 list \<Rightarrow> u32) \<Rightarrow> 'm NvmRegion \<Rightarrow> 'm NvmRegion \<Rightarrow> nvm_result \<Rightarrow> 'm
   \<Rightarrow> (NonVolatileMemoryImpl \<times> 'm \<times> nvm_effect list) option" where
  "perform crc CR GR r m = run 3 crc CR GR (snd r) (fst r) m"

end
