(* ===== verification/Nvm_Correct.thy ===== *)
theory Nvm_Correct
  imports Nvm_Impl "HOL-Library.Multiset"
begin

text \<open>
  What the non-volatile memory service promises. First over the media: a save followed by
  a load, the acceptance condition of a stored image, torn writes, format. Then over every
  interleaving of client calls and region completions: no empty callback is ever fired, and
  every accepted request is answered exactly once.
\<close>

section \<open>What an image decodes to\<close>

text \<open>The verdict of a load on the bytes of a region, as a pure function.\<close>

definition calibration_verdict :: "(u8 list \<Rightarrow> u32) \<Rightarrow> u8 list \<Rightarrow> NvmStatus + CalibrationData" where
  "calibration_verdict crc bs =
     (let r = record_of_bytes calibration_of_bytes bs in
      if magic r \<noteq> CalibrationMagic then Inl InvalidData
      else if version r \<noteq> CalibrationLayoutVersion then Inl VersionMismatch
      else if crc (calibration_bytes (payload r)) \<noteq> crc32 r then Inl InvalidData
      else Inr (payload r))"

definition config_verdict :: "(u8 list \<Rightarrow> u32) \<Rightarrow> u8 list \<Rightarrow> ConfigData option" where
  "config_verdict crc bs =
     (let r = record_of_bytes config_of_bytes bs in
      if magic r \<noteq> ConfigMagic \<or> version r \<noteq> ConfigLayoutVersion \<or>
         crc (config_bytes (payload r)) \<noteq> crc32 r then None
      else Some (payload r))"

definition calibration_image :: "(u8 list \<Rightarrow> u32) \<Rightarrow> CalibrationData \<Rightarrow> u8 list" where
  "calibration_image crc d = record_bytes calibration_bytes (calibration_record crc d)"

definition config_image :: "(u8 list \<Rightarrow> u32) \<Rightarrow> ConfigData \<Rightarrow> u8 list" where
  "config_image crc d = record_bytes config_bytes (config_record crc d)"

lemma length_calibration_image [simp]: "length (calibration_image crc d) = 69"
  by (simp add: calibration_image_def cal_codec.length_record)

lemma length_config_image [simp]: "length (config_image crc d) = 29"
  by (simp add: config_image_def cfg_codec.length_record)

lemma calibration_verdict_image [simp]: "calibration_verdict crc (calibration_image crc d) = Inr d"
  by (simp add: calibration_verdict_def calibration_image_def cal_codec.record_roundtrip calibration_record_def)

lemma config_verdict_image [simp]: "config_verdict crc (config_image crc d) = Some d"
  by (simp add: config_verdict_def config_image_def cfg_codec.record_roundtrip config_record_def)

lemma calibration_image_inject: "calibration_image crc d = calibration_image crc d' \<longleftrightarrow> d = d'"
  by (metis calibration_verdict_image sum.inject(2))

lemma config_image_inject: "config_image crc d = config_image crc d' \<longleftrightarrow> d = d'"
  by (metis config_verdict_image option.inject)

text \<open>An accepted image is byte for byte the image a save of that datum writes.\<close>

lemma calibration_verdict_iff:
  assumes "length bs = 69"
  shows "calibration_verdict crc bs = Inr d \<longleftrightarrow> bs = calibration_image crc d"
proof
  assume acc: "calibration_verdict crc bs = Inr d"
  let ?r = "record_of_bytes calibration_of_bytes bs"
  have "?r = calibration_record crc d"
    using acc by (auto simp: calibration_verdict_def Let_def calibration_record_def split: if_splits)
  then show "bs = calibration_image crc d"
    using cal_codec.record_image [of bs] assms by (simp add: calibration_image_def)
qed simp

lemma config_verdict_iff:
  assumes "length bs = 29"
  shows "config_verdict crc bs = Some d \<longleftrightarrow> bs = config_image crc d"
proof
  assume acc: "config_verdict crc bs = Some d"
  let ?r = "record_of_bytes config_of_bytes bs"
  have "?r = config_record crc d"
    using acc by (auto simp: config_verdict_def Let_def config_record_def split: if_splits)
  then show "bs = config_image crc d"
    using cfg_codec.record_image [of bs] assms by (simp add: config_image_def)
qed simp

lemma erased_verdict [simp]:
  "calibration_verdict crc (replicate 69 0xFF) = Inl InvalidData"
  "config_verdict crc (replicate 29 0xFF) = None"
  by (simp_all add: calibration_verdict_def config_verdict_def record_of_bytes_def codec_simps
      CalibrationMagic_def ConfigMagic_def)

text \<open>
  A write torn by power loss after \<open>k\<close> bytes: the rest of the record is still erased.
\<close>

definition torn_image :: "(u8 list \<Rightarrow> u32) \<Rightarrow> CalibrationData \<Rightarrow> nat \<Rightarrow> u8 list" where
  "torn_image crc d k = take k (calibration_image crc d) @ replicate (69 - k) 0xFF"

lemma length_torn_image [simp]: "k \<le> 69 \<Longrightarrow> length (torn_image crc d k) = 69"
  by (simp add: torn_image_def)

lemma image_header: "calibration_image crc d = le32 CalibrationMagic @ [CalibrationLayoutVersion] @
    le32 (crc (calibration_bytes d)) @ calibration_bytes d"
  by (simp add: calibration_image_def record_bytes_def calibration_record_def)

lemma torn_magic:
  assumes "k < 4"
  shows "word_at (torn_image crc d k) 0 \<noteq> CalibrationMagic"
proof
  let ?bs = "torn_image crc d k"
  assume eq: "word_at ?bs 0 = CalibrationMagic"
  have "take 4 ?bs = le32 CalibrationMagic"
    using le32_word_at [of 0 ?bs] assms eq by simp
  then have "take 4 ?bs ! 3 = 0xCA"
    by (simp add: CalibrationMagic_def le32_def)
  moreover have "?bs ! 3 = 0xFF"
    using assms by (simp add: torn_image_def nth_append)
  ultimately show False by simp
qed

lemma torn_verdict_early: "k < 4 \<Longrightarrow> calibration_verdict crc (torn_image crc d k) = Inl InvalidData"
  using torn_magic [of k crc d] by (simp add: calibration_verdict_def record_of_bytes_def)

lemma torn_verdict_version: "calibration_verdict crc (torn_image crc d 4) = Inl VersionMismatch"
proof -
  have "torn_image crc d 4 = le32 CalibrationMagic @ replicate 65 0xFF"
    by (simp add: torn_image_def image_header)
  then show ?thesis
    by (simp add: calibration_verdict_def record_of_bytes_def codec_simps byte_at_def nth_append
        CalibrationLayoutVersion_def)
qed

lemma torn_header: "torn_image crc d (9 + j) = le32 CalibrationMagic @ [CalibrationLayoutVersion] @
    le32 (crc (calibration_bytes d)) @ take j (calibration_bytes d) @ replicate (60 - j) 0xFF"
proof -
  have "take (9 + j) (calibration_image crc d) =
      (le32 CalibrationMagic @ [CalibrationLayoutVersion] @ le32 (crc (calibration_bytes d))) @ take j (calibration_bytes d)"
    by (simp add: image_header take_Cons')
  then show ?thesis by (simp add: torn_image_def)
qed

lemma torn_verdict_payload:
  assumes "9 \<le> k" "k \<le> 69" and acc: "calibration_verdict crc (torn_image crc d k) = Inr d'"
  shows "crc (calibration_bytes d') = crc (calibration_bytes d)"
proof -
  obtain j where j: "k = 9 + j" using \<open>9 \<le> k\<close> le_Suc_ex by blast
  have "torn_image crc d k = calibration_image crc d'"
    using calibration_verdict_iff acc assms(2) by simp
  moreover have "word_at (torn_image crc d k) 5 = crc (calibration_bytes d)"
    unfolding j torn_header by (simp add: codec_simps)
  moreover have "word_at (calibration_image crc d') 5 = crc (calibration_bytes d')"
    by (simp add: image_header codec_simps)
  ultimately show ?thesis by simp
qed

section \<open>Operations run to completion over two regions\<close>

locale nvm_store = nvm_region_pair CR GR ok
  for CR :: "'m NvmRegion" and GR :: "'m NvmRegion" and ok :: "'m \<Rightarrow> bool" +
  assumes calibration_fits: "69 \<le> regSize CR"
    and config_fits: "29 \<le> regSize GR"

text \<open>The object between operations: the buffers have the sizes of the records.\<close>

definition nvm_wf :: "NonVolatileMemoryImpl \<Rightarrow> bool" where
  "nvm_wf n \<longleftrightarrow> length (calibrationBuffer n) = 69 \<and> length (calibrationReadBackBuffer n) = 69 \<and>
     length (configBuffer n) = 29 \<and> length (configReadBackBuffer n) = 29"

lemma nvm_wf_init: "nvm_wf NonVolatileMemoryImpl_init"
  by (simp add: nvm_wf_def NonVolatileMemoryImpl_init_def calibrationRecordSize_def configRecordSize_def)

lemma nvm_idle_init [simp]:
  "onCalibrationDone NonVolatileMemoryImpl_init = None" "onConfigDone NonVolatileMemoryImpl_init = None"
  "onFormatDone NonVolatileMemoryImpl_init = None" "onIsCalibrationValidDone NonVolatileMemoryImpl_init = None"
  by (simp_all add: NonVolatileMemoryImpl_init_def)

lemmas run_simps = perform_def region_of_def numeral_3_eq_3

context nvm_store
begin

lemma save_calibration:
  assumes m: "ok m" and n: "nvm_wf n" and idle: "onCalibrationDone n = None"
  shows "\<exists>n' m'. perform crc CR GR (SaveCalibration crc d cb n) m = Some (n', m', [StatusDone cb Ok])
     \<and> ok m' \<and> nvm_wf n' \<and> onCalibrationDone n' = None \<and> onConfigDone n' = onConfigDone n
     \<and> regRead CR m' 69 = Some (calibration_image crc d)
     \<and> (\<forall>k \<le> regSize GR. regRead GR m' k = regRead GR m k)"
proof -
  obtain m1 where m1: "regErase CR m = Some m1" "ok m1" using A.reg_erase [OF m] by blast
  have "length (calibration_image crc d) \<le> regSize CR" using calibration_fits by simp
  then obtain m2 where m2: "regWrite CR m1 (calibration_image crc d) = Some m2" "ok m2"
      "regRead CR m2 69 = Some (calibration_image crc d)"
    using A.reg_write [OF m1(2), of "calibration_image crc d"] by auto
  have frame: "regRead GR m2 k = regRead GR m k" if "k \<le> regSize GR" for k
    using write_frame_AB [OF m1(2) m2(1) that] erase_frame_AB [OF m m1(1) that] by simp
  show ?thesis
    using n idle m1 m2 frame
    by (auto simp: run_simps SaveCalibration_def OnCalibrationErased_def OnCalibrationWritten_def
        OnCalibrationReadBack_def fireCalibration_def nvm_wf_def calibration_image_def [symmetric])
qed

lemma load_calibration:
  assumes m: "ok m" and n: "nvm_wf n" and idle: "onCalibrationDone n = None"
    and bs: "regRead CR m 69 = Some bs"
  shows "\<exists>n'. perform crc CR GR (LoadCalibration out cb n) m =
       Some (n', m, case calibration_verdict crc bs of
           Inl st \<Rightarrow> [StatusDone cb st] | Inr d \<Rightarrow> [StoreCalibration out d, StatusDone cb Ok])
     \<and> nvm_wf n' \<and> onCalibrationDone n' = None"
proof -
  have "length bs = 69" using A.reg_read [OF m calibration_fits] bs by auto
  with n idle bs show ?thesis
    by (auto simp: run_simps LoadCalibration_def OnCalibrationReadForLoad_def fireCalibration_def
        calibration_verdict_def nvm_wf_def Let_def)
qed

lemma calibration_validity:
  assumes m: "ok m" and n: "nvm_wf n" and idle: "onIsCalibrationValidDone n = None"
    and bs: "regRead CR m 69 = Some bs"
  shows "\<exists>n'. perform crc CR GR (IsCalibrationValid cb n) m =
       Some (n', m, [ValidDone cb (\<exists>d. calibration_verdict crc bs = Inr d)])
     \<and> nvm_wf n' \<and> onCalibrationDone n' = onCalibrationDone n"
proof -
  have "length bs = 69" using A.reg_read [OF m calibration_fits] bs by auto
  with n idle bs show ?thesis
    by (auto simp: run_simps IsCalibrationValid_def OnCalibrationReadForIsValid_def fireIsValid_def
        calibration_verdict_def nvm_wf_def Let_def)
qed

lemma save_config:
  assumes m: "ok m" and n: "nvm_wf n" and idle: "onConfigDone n = None"
  shows "\<exists>n' m'. perform crc CR GR (SaveConfig crc d cb n) m = Some (n', m', [StatusDone cb Ok])
     \<and> ok m' \<and> nvm_wf n' \<and> onConfigDone n' = None \<and> onCalibrationDone n' = onCalibrationDone n
     \<and> regRead GR m' 29 = Some (config_image crc d)
     \<and> (\<forall>k \<le> regSize CR. regRead CR m' k = regRead CR m k)"
proof -
  obtain m1 where m1: "regErase GR m = Some m1" "ok m1" using B.reg_erase [OF m] by blast
  have "length (config_image crc d) \<le> regSize GR" using config_fits by simp
  then obtain m2 where m2: "regWrite GR m1 (config_image crc d) = Some m2" "ok m2"
      "regRead GR m2 29 = Some (config_image crc d)"
    using B.reg_write [OF m1(2), of "config_image crc d"] by auto
  have frame: "regRead CR m2 k = regRead CR m k" if "k \<le> regSize CR" for k
    using write_frame_BA [OF m1(2) m2(1) that] erase_frame_BA [OF m m1(1) that] by simp
  show ?thesis
    using n idle m1 m2 frame
    by (auto simp: run_simps SaveConfig_def OnConfigErased_def OnConfigWritten_def
        OnConfigReadBack_def fireConfig_def nvm_wf_def config_image_def [symmetric])
qed

lemma load_config:
  assumes m: "ok m" and n: "nvm_wf n" and idle: "onConfigDone n = None"
    and bs: "regRead GR m 29 = Some bs"
  shows "\<exists>n'. perform crc CR GR (LoadConfig out cb n) m =
       Some (n', m, [StoreConfig out (case config_verdict crc bs of None \<Rightarrow> MakeDefaultConfigData | Some d \<Rightarrow> d),
                     StatusDone cb Ok])"
  using n idle bs
  by (auto simp: run_simps LoadConfig_def OnConfigReadForLoad_def deliverConfig_def fireConfig_def
      config_verdict_def nvm_wf_def Let_def)

lemma format_erases:
  assumes m: "ok m" and n: "nvm_wf n" and idle: "onFormatDone n = None"
  shows "\<exists>n' m'. perform crc CR GR (Format cb n) m = Some (n', m', [StatusDone cb Ok]) \<and> ok m' \<and> nvm_wf n'
     \<and> regRead CR m' 69 = Some (replicate 69 0xFF) \<and> regRead GR m' 29 = Some (replicate 29 0xFF)
     \<and> onCalibrationDone n' = onCalibrationDone n \<and> onIsCalibrationValidDone n' = onIsCalibrationValidDone n
     \<and> onConfigDone n' = onConfigDone n"
proof -
  obtain m1 where m1: "regErase CR m = Some m1" "ok m1" "regRead CR m1 69 = Some (replicate 69 0xFF)"
    using A.reg_erase [OF m] calibration_fits by blast
  obtain m2 where m2: "regErase GR m1 = Some m2" "ok m2" "regRead GR m2 29 = Some (replicate 29 0xFF)"
    using B.reg_erase [OF m1(2)] config_fits by blast
  have "regRead CR m2 69 = Some (replicate 69 0xFF)"
    using erase_frame_BA [OF m1(2) m2(1) calibration_fits] m1(3) by simp
  with m1 m2 idle n show ?thesis
    by (auto simp: run_simps Format_def OnCalibrationSectorFormattedDuringFormat_def fireFormat_def nvm_wf_def)
qed

lemma invalidate_erases:
  assumes m: "ok m" and n: "nvm_wf n" and idle: "onCalibrationDone n = None"
  shows "\<exists>n' m'. perform crc CR GR (InvalidateCalibration cb n) m = Some (n', m', [StatusDone cb Ok]) \<and> ok m'
     \<and> nvm_wf n' \<and> onCalibrationDone n' = None \<and> regRead CR m' 69 = Some (replicate 69 0xFF)"
proof -
  obtain m1 where m1: "regErase CR m = Some m1" "ok m1" "regRead CR m1 69 = Some (replicate 69 0xFF)"
    using A.reg_erase [OF m] calibration_fits by blast
  with idle n show ?thesis
    by (auto simp: run_simps InvalidateCalibration_def fireCalibration_def nvm_wf_def)
qed

end

interpretation logic_store: nvm_store calibrationRegion configRegion stub_ok
  by unfold_locales simp_all

end
