(* ===== verification/Nvm_Schedule.thy ===== *)
theory Nvm_Schedule
  imports Nvm_Correct
begin

text \<open>
  The service under any schedule: a client may call any operation at any time, and the
  regions may complete the outstanding requests in any order and with any bytes (a faulty
  medium included). Tracked beside the object are the outstanding requests, the callbacks
  accepted so far and the callbacks fired so far.
\<close>

datatype nvm_op =
  OpSaveCalibration CalibrationData callback
| OpLoadCalibration nat callback
| OpInvalidateCalibration callback
| OpIsCalibrationValid callback
| OpSaveConfig ConfigData callback
| OpLoadConfig nat callback
| OpResetConfigToDefaults callback
| OpFormat callback

fun call :: "(u8 list \<Rightarrow> u32) \<Rightarrow> nvm_op \<Rightarrow> NonVolatileMemoryImpl \<Rightarrow> nvm_result" where
  "call crc (OpSaveCalibration d cb) n = SaveCalibration crc d cb n"
| "call crc (OpLoadCalibration out cb) n = LoadCalibration out cb n"
| "call crc (OpInvalidateCalibration cb) n = InvalidateCalibration cb n"
| "call crc (OpIsCalibrationValid cb) n = IsCalibrationValid cb n"
| "call crc (OpSaveConfig d cb) n = SaveConfig crc d cb n"
| "call crc (OpLoadConfig out cb) n = LoadConfig out cb n"
| "call crc (OpResetConfigToDefaults cb) n = ResetConfigToDefaults crc cb n"
| "call crc (OpFormat cb) n = Format cb n"

text \<open>The four callback slots of the object.\<close>

datatype slot = CalibrationSlot | ConfigSlot | FormatSlot | ValidSlot

fun slot_callback :: "slot \<Rightarrow> NonVolatileMemoryImpl \<Rightarrow> callback option" where
  "slot_callback CalibrationSlot n = onCalibrationDone n"
| "slot_callback ConfigSlot n = onConfigDone n"
| "slot_callback FormatSlot n = onFormatDone n"
| "slot_callback ValidSlot n = onIsCalibrationValidDone n"

fun op_slot :: "nvm_op \<Rightarrow> slot" where
  "op_slot (OpSaveCalibration d cb) = CalibrationSlot"
| "op_slot (OpLoadCalibration out cb) = CalibrationSlot"
| "op_slot (OpInvalidateCalibration cb) = CalibrationSlot"
| "op_slot (OpIsCalibrationValid cb) = ValidSlot"
| "op_slot (OpSaveConfig d cb) = ConfigSlot"
| "op_slot (OpLoadConfig out cb) = ConfigSlot"
| "op_slot (OpResetConfigToDefaults cb) = ConfigSlot"
| "op_slot (OpFormat cb) = FormatSlot"

fun op_callback :: "nvm_op \<Rightarrow> callback" where
  "op_callback (OpSaveCalibration d cb) = cb"
| "op_callback (OpLoadCalibration out cb) = cb"
| "op_callback (OpInvalidateCalibration cb) = cb"
| "op_callback (OpIsCalibrationValid cb) = cb"
| "op_callback (OpSaveConfig d cb) = cb"
| "op_callback (OpLoadConfig out cb) = cb"
| "op_callback (OpResetConfigToDefaults cb) = cb"
| "op_callback (OpFormat cb) = cb"

definition accepted :: "nvm_op \<Rightarrow> NonVolatileMemoryImpl \<Rightarrow> callback list" where
  "accepted p n = (if slot_callback (op_slot p) n = None then [op_callback p] else [])"

fun cont_slot :: "nvm_cont \<Rightarrow> slot" where
  "cont_slot AtCalibrationErased = CalibrationSlot"
| "cont_slot AtCalibrationWritten = CalibrationSlot"
| "cont_slot AtCalibrationReadBack = CalibrationSlot"
| "cont_slot AtCalibrationReadForLoad = CalibrationSlot"
| "cont_slot AtCalibrationInvalidated = CalibrationSlot"
| "cont_slot AtCalibrationReadForIsValid = ValidSlot"
| "cont_slot AtConfigErased = ConfigSlot"
| "cont_slot AtConfigWritten = ConfigSlot"
| "cont_slot AtConfigReadBack = ConfigSlot"
| "cont_slot AtConfigReadForLoad = ConfigSlot"
| "cont_slot AtFormatCalibrationErased = FormatSlot"
| "cont_slot AtFormatConfigErased = FormatSlot"

fun cont_of :: "nvm_request \<Rightarrow> nvm_cont" where
  "cont_of (EraseReq i k) = k"
| "cont_of (WriteReq i bs k) = k"
| "cont_of (ReadReq i len k) = k"

text \<open>A completed read has filled its buffer with as many bytes as it asked for.\<close>

fun filled :: "nvm_request \<Rightarrow> u8 list \<Rightarrow> NonVolatileMemoryImpl \<Rightarrow> NonVolatileMemoryImpl" where
  "filled (ReadReq i len k) bs n = fill_buffer i bs n"
| "filled q bs n = n"

fun fits :: "nvm_request \<Rightarrow> u8 list \<Rightarrow> bool" where
  "fits (ReadReq i len k) bs \<longleftrightarrow> length bs = len"
| "fits q bs \<longleftrightarrow> True"

fun requests :: "nvm_effect list \<Rightarrow> nvm_request list" where
  "requests [] = []"
| "requests (Request q # es) = q # requests es"
| "requests (e # es) = requests es"

fun fired :: "nvm_effect list \<Rightarrow> callback list" where
  "fired [] = []"
| "fired (StatusDone cb st # es) = cb # fired es"
| "fired (ValidDone cb v # es) = cb # fired es"
| "fired (e # es) = fired es"

inductive nvm_reach ::
  "(u8 list \<Rightarrow> u32) \<Rightarrow> NonVolatileMemoryImpl \<Rightarrow> nvm_request list \<Rightarrow> callback list \<Rightarrow> callback list \<Rightarrow> bool"
  for crc where
  start: "nvm_reach crc NonVolatileMemoryImpl_init [] [] []"
| client: "nvm_reach crc n qs acc ans \<Longrightarrow> call crc p n = (n', es) \<Longrightarrow>
     nvm_reach crc n' (qs @ requests es) (acc @ accepted p n) (ans @ fired es)"
| finish: "nvm_reach crc n (xs @ q # ys) acc ans \<Longrightarrow> fits q bs \<Longrightarrow>
     resume crc (cont_of q) (filled q bs n) = Some (n', es) \<Longrightarrow>
     nvm_reach crc n' (xs @ ys @ requests es) acc (ans @ fired es)"

section \<open>The invariant\<close>

definition opt_mset :: "'a option \<Rightarrow> 'a multiset" where
  "opt_mset x = (case x of None \<Rightarrow> {#} | Some y \<Rightarrow> {#y#})"

lemma opt_mset_simps [simp]: "opt_mset None = {#}" "opt_mset (Some y) = {#y#}"
  by (simp_all add: opt_mset_def)

text \<open>The slots in use, and the callbacks in them.\<close>

definition occupied :: "NonVolatileMemoryImpl \<Rightarrow> slot multiset" where
  "occupied n =
     image_mset (\<lambda>_. CalibrationSlot) (opt_mset (onCalibrationDone n)) +
     image_mset (\<lambda>_. ConfigSlot) (opt_mset (onConfigDone n)) +
     image_mset (\<lambda>_. FormatSlot) (opt_mset (onFormatDone n)) +
     image_mset (\<lambda>_. ValidSlot) (opt_mset (onIsCalibrationValidDone n))"

definition waiting :: "NonVolatileMemoryImpl \<Rightarrow> callback multiset" where
  "waiting n = opt_mset (onCalibrationDone n) + opt_mset (onConfigDone n) +
     opt_mset (onFormatDone n) + opt_mset (onIsCalibrationValidDone n)"

text \<open>A request of the read continuations names the region its buffer belongs to.\<close>

fun well_aimed :: "NonVolatileMemoryImpl \<Rightarrow> nvm_request \<Rightarrow> bool" where
  "well_aimed n (ReadReq CalibrationRegion len k) \<longleftrightarrow> len = 69 \<and>
     k \<in> {AtCalibrationReadBack, AtCalibrationReadForLoad, AtCalibrationReadForIsValid} \<and>
     (k = AtCalibrationReadForLoad \<longrightarrow> pendingCalibrationOutput n \<noteq> None)"
| "well_aimed n (ReadReq ConfigRegion len k) \<longleftrightarrow> len = 29 \<and>
     k \<in> {AtConfigReadBack, AtConfigReadForLoad} \<and>
     (k = AtConfigReadForLoad \<longrightarrow> pendingConfigOutput n \<noteq> None)"
| "well_aimed n (WriteReq CalibrationRegion bs k) \<longleftrightarrow> length bs = 69 \<and> k = AtCalibrationWritten"
| "well_aimed n (WriteReq ConfigRegion bs k) \<longleftrightarrow> length bs = 29 \<and> k = AtConfigWritten"
| "well_aimed n (EraseReq CalibrationRegion k) \<longleftrightarrow>
     k \<in> {AtCalibrationErased, AtCalibrationInvalidated, AtFormatCalibrationErased}"
| "well_aimed n (EraseReq ConfigRegion k) \<longleftrightarrow> k \<in> {AtConfigErased, AtFormatConfigErased}"

definition nvm_inv :: "NonVolatileMemoryImpl \<Rightarrow> nvm_request list \<Rightarrow> callback list \<Rightarrow> callback list \<Rightarrow> bool" where
  "nvm_inv n qs acc ans \<longleftrightarrow> nvm_wf n \<and> (\<forall>q \<in> set qs. well_aimed n q) \<and>
     mset (map (cont_slot \<circ> cont_of) qs) = occupied n \<and> mset acc = mset ans + waiting n"

lemmas op_defs = SaveCalibration_def LoadCalibration_def InvalidateCalibration_def IsCalibrationValid_def
  SaveConfig_def LoadConfig_def ResetConfigToDefaults_def Format_def

lemmas step_defs = OnCalibrationErased_def OnCalibrationWritten_def OnCalibrationReadBack_def
  OnCalibrationReadForLoad_def OnCalibrationReadForIsValid_def OnConfigErased_def OnConfigWritten_def
  OnConfigReadBack_def OnConfigReadForLoad_def deliverConfig_def OnCalibrationSectorFormattedDuringFormat_def
  fireCalibration_def fireConfig_def fireFormat_def fireIsValid_def

lemma well_aimed_cong:
  "well_aimed n q \<Longrightarrow> pendingCalibrationOutput n = None \<or> pendingCalibrationOutput n' \<noteq> None \<Longrightarrow>
   pendingConfigOutput n = None \<or> pendingConfigOutput n' \<noteq> None \<Longrightarrow> well_aimed n' q"
  by (cases "(n, q)" rule: well_aimed.cases) auto

lemma nvm_inv_init: "nvm_inv NonVolatileMemoryImpl_init [] [] []"
  using nvm_wf_init by (simp add: nvm_inv_def occupied_def waiting_def NonVolatileMemoryImpl_init_def)

lemma call_busy: "slot_callback (op_slot p) n \<noteq> None \<Longrightarrow> call crc p n = (n, [])"
  by (cases p) (simp_all add: op_defs)

lemma call_outputs:
  assumes "call crc p n = (n', es)"
  shows "pendingCalibrationOutput n = None \<or> pendingCalibrationOutput n' \<noteq> None"
    "pendingConfigOutput n = None \<or> pendingConfigOutput n' \<noteq> None"
  using assms by (cases p; auto simp: op_defs split: if_splits)+

lemma call_idle_new:
  assumes wf: "nvm_wf n" and idle: "slot_callback (op_slot p) n = None" and c: "call crc p n = (n', es)"
  shows "nvm_wf n'" "\<forall>q \<in> set (requests es). well_aimed n' q"
    "occupied n' = occupied n + mset (map (cont_slot \<circ> cont_of) (requests es))"
    "waiting n' = add_mset (op_callback p) (waiting n)" "fired es = []"
  using assms length_calibration_image [of crc] length_config_image [of crc]
  by (cases p; auto simp: op_defs nvm_wf_def occupied_def waiting_def
        calibration_image_def config_image_def)+

lemma call_inv:
  assumes inv: "nvm_inv n qs acc ans" and c: "call crc p n = (n', es)"
  shows "nvm_inv n' (qs @ requests es) (acc @ accepted p n) (ans @ fired es)"
proof (cases "slot_callback (op_slot p) n = None")
  case True
  have aim: "\<forall>q \<in> set qs. well_aimed n' q"
    using inv call_outputs [OF c] well_aimed_cong unfolding nvm_inv_def by blast
  from inv have "nvm_wf n" by (simp add: nvm_inv_def)
  with call_idle_new [OF this True c] inv aim True show ?thesis
    by (auto simp: nvm_inv_def accepted_def)
next
  case False
  with c inv show ?thesis by (auto simp: call_busy [OF False] accepted_def)
qed

text \<open>A completion finds its slot occupied, so firing it is defined.\<close>

lemma slot_occupied: "s \<in># occupied n \<longleftrightarrow> slot_callback s n \<noteq> None"
  by (cases s) (auto simp: occupied_def opt_mset_def split: option.splits)

lemma outstanding_slot:
  assumes "nvm_inv n qs acc ans" and "q \<in> set qs"
  shows "slot_callback (cont_slot (cont_of q)) n \<noteq> None"
proof -
  have "cont_slot (cont_of q) \<in># mset (map (cont_slot \<circ> cont_of) qs)"
    using assms(2) by auto
  with assms(1) show ?thesis by (simp add: nvm_inv_def slot_occupied)
qed

text \<open>One completion: it succeeds, keeps the shape, and moves at most one callback out.\<close>

definition answers :: "NonVolatileMemoryImpl \<Rightarrow> slot \<Rightarrow> NonVolatileMemoryImpl \<Rightarrow> nvm_effect list \<Rightarrow> bool" where
  "answers n s n' es \<longleftrightarrow> nvm_wf n' \<and> (\<forall>q \<in> set (requests es). well_aimed n' q) \<and>
     pendingCalibrationOutput n' = pendingCalibrationOutput n \<and> pendingConfigOutput n' = pendingConfigOutput n \<and>
     occupied n = add_mset s (occupied n' - mset (map (cont_slot \<circ> cont_of) (requests es))) \<and>
     mset (map (cont_slot \<circ> cont_of) (requests es)) \<subseteq># occupied n' \<and>
     waiting n = waiting n' + mset (fired es)"

lemma resume_answers:
  assumes "nvm_wf n" and "well_aimed n q" and "fits q bs"
    and "slot_callback (cont_slot (cont_of q)) n \<noteq> None"
  shows "\<exists>n' es. resume crc (cont_of q) (filled q bs n) = Some (n', es) \<and>
     answers n (cont_slot (cont_of q)) n' es"
proof (cases q)
  case (EraseReq i k)
  with assms show ?thesis
    by (cases i) (auto simp: step_defs answers_def nvm_wf_def occupied_def waiting_def)
next
  case (WriteReq i ds k)
  with assms show ?thesis
    by (cases i) (auto simp: step_defs answers_def nvm_wf_def occupied_def waiting_def)
next
  case (ReadReq i len k)
  with assms show ?thesis
    by (cases i) (auto simp: step_defs Let_def answers_def nvm_wf_def occupied_def waiting_def)
qed

lemma finish_inv:
  assumes inv: "nvm_inv n (xs @ q # ys) acc ans" and fit: "fits q bs"
    and r: "resume crc (cont_of q) (filled q bs n) = Some (n', es)"
  shows "nvm_inv n' (xs @ ys @ requests es) acc (ans @ fired es)"
proof -
  have "answers n (cont_slot (cont_of q)) n' es"
    using resume_answers [of n q bs crc] outstanding_slot [OF inv, of q] inv fit r
    by (auto simp: nvm_inv_def)
  then have wf: "nvm_wf n'" and new: "\<forall>q \<in> set (requests es). well_aimed n' q"
    and outs: "pendingCalibrationOutput n' = pendingCalibrationOutput n" "pendingConfigOutput n' = pendingConfigOutput n"
    and occ: "occupied n = add_mset (cont_slot (cont_of q)) (occupied n' - mset (map (cont_slot \<circ> cont_of) (requests es)))"
    and sub: "mset (map (cont_slot \<circ> cont_of) (requests es)) \<subseteq># occupied n'"
    and wait: "waiting n = waiting n' + mset (fired es)"
    by (auto simp: answers_def)
  have aim': "well_aimed n' p" if "well_aimed n p" for p
    using that by (rule well_aimed_cong) (use outs in auto)
  have "\<forall>q \<in> set (xs @ ys). well_aimed n' q"
    using inv aim' by (auto simp: nvm_inv_def)
  moreover have "mset (map (cont_slot \<circ> cont_of) (xs @ ys)) + mset (map (cont_slot \<circ> cont_of) (requests es)) = occupied n'"
  proof -
    have "mset (map (cont_slot \<circ> cont_of) (xs @ ys)) = occupied n' - mset (map (cont_slot \<circ> cont_of) (requests es))"
      using inv occ by (simp add: nvm_inv_def)
    with sub show ?thesis by simp
  qed
  moreover have "mset acc = mset ans + waiting n" using inv by (simp add: nvm_inv_def)
  ultimately show ?thesis
    using wf new wait by (auto simp: nvm_inv_def add.assoc)
qed

lemma reach_inv: "nvm_reach crc n qs acc ans \<Longrightarrow> nvm_inv n qs acc ans"
proof (induction rule: nvm_reach.induct)
  case start
  show ?case by (rule nvm_inv_init)
next
  case (client n qs acc ans p n' es)
  then show ?case by (blast intro: call_inv)
next
  case (finish n xs q ys acc ans bs n' es)
  then show ?case by (blast intro: finish_inv)
qed

lemma reach_progress:
  assumes "nvm_reach crc n (xs @ q # ys) acc ans" and "fits q bs"
  shows "\<exists>n' es. resume crc (cont_of q) (filled q bs n) = Some (n', es)"
proof -
  from assms(1) have inv: "nvm_inv n (xs @ q # ys) acc ans" by (rule reach_inv)
  with outstanding_slot [OF inv, of q] assms(2) show ?thesis
    using resume_answers [of n q bs crc] by (auto simp: nvm_inv_def)
qed

section \<open>Draining\<close>

text \<open>Completions an outstanding request still needs before its callback fires.\<close>

fun cont_rank :: "nvm_cont \<Rightarrow> nat" where
  "cont_rank AtCalibrationErased = 3"
| "cont_rank AtCalibrationWritten = 2"
| "cont_rank AtConfigErased = 3"
| "cont_rank AtConfigWritten = 2"
| "cont_rank AtFormatCalibrationErased = 2"
| "cont_rank k = 1"

definition rank :: "nvm_request list \<Rightarrow> nat" where
  "rank qs = sum_list (map (cont_rank \<circ> cont_of) qs)"

lemma resume_rank:
  "resume crc k n = Some (n', es) \<Longrightarrow> rank (requests es) + 1 = cont_rank k"
  by (cases k) (auto simp: step_defs rank_def Let_def split: if_splits option.splits)

lemma bytes_fit: "\<exists>bs. fits q bs"
  by (cases q) (auto intro: exI [of _ "replicate (case q of ReadReq i len k \<Rightarrow> len | _ \<Rightarrow> 0) 0"])

lemma reach_drains:
  "nvm_reach crc n qs acc ans \<Longrightarrow> \<exists>n' ans'. nvm_reach crc n' [] acc ans'"
proof (induction "rank qs" arbitrary: n qs ans rule: less_induct)
  case less
  show ?case
  proof (cases qs)
    case Nil
    with less.prems show ?thesis by blast
  next
    case (Cons q ys)
    obtain bs where bs: "fits q bs" using bytes_fit by blast
    obtain n' es where r: "resume crc (cont_of q) (filled q bs n) = Some (n', es)"
      using reach_progress [of crc n "[]" q ys acc ans bs] less.prems Cons bs by auto
    have "nvm_reach crc n' (ys @ requests es) acc (ans @ fired es)"
      using nvm_reach.finish [of crc n "[]" q ys acc ans bs n' es] less.prems Cons bs r by simp
    moreover have "rank (ys @ requests es) < rank qs"
      using resume_rank [OF r] Cons by (simp add: rank_def)
    ultimately show ?thesis using less.hyps by blast
  qed
qed

end
