(* ===== verification/Nvm_Properties.thy ===== *)
theory Nvm_Properties
  imports Nvm_Schedule
begin

text \<open>
  The properties of the non-volatile memory service, over the two regions the application
  lays out on its EEPROM and over every schedule of calls and completions.
\<close>

section \<open>Media\<close>

text \<open>C5 (round trip). A calibration that is saved to the application's EEPROM layout reports
  \<open>Ok\<close>, and a following load reports \<open>Ok\<close> and stores exactly the saved data through the
  caller's output pointer, whatever the EEPROM held before and whatever the CRC function.\<close>

theorem nvm_save_then_load:
  assumes "stub_ok m" and "nvm_wf n" and "onCalibrationDone n = None"
  shows "\<exists>n1 m1 n2.
    perform crc calibrationRegion configRegion (SaveCalibration crc d cb n) m = Some (n1, m1, [StatusDone cb Ok]) \<and>
    perform crc calibrationRegion configRegion (LoadCalibration out cb' n1) m1 =
      Some (n2, m1, [StoreCalibration out d, StatusDone cb' Ok])"
proof -
  obtain n1 m1 where s: "perform crc calibrationRegion configRegion (SaveCalibration crc d cb n) m = Some (n1, m1, [StatusDone cb Ok])"
      and st: "stub_ok m1" "nvm_wf n1" "onCalibrationDone n1 = None"
      and rd: "regRead calibrationRegion m1 69 = Some (calibration_image crc d)"
    using logic_store.save_calibration [OF assms] by blast
  obtain n2 where "perform crc calibrationRegion configRegion (LoadCalibration out cb' n1) m1 =
      Some (n2, m1, [StoreCalibration out d, StatusDone cb' Ok])"
    using logic_store.load_calibration [OF st rd, of crc out cb'] by auto
  with s show ?thesis by blast
qed

theorem nvm_save_then_load_witness:
  "\<exists>n1 m1 n2.
    perform (\<lambda>_. 7) calibrationRegion configRegion
      (SaveCalibration (\<lambda>_. 7) (CalibrationData_init\<lparr>polePairs := 4\<rparr>) 1 NonVolatileMemoryImpl_init) EepromStub_init
      = Some (n1, m1, [StatusDone 1 Ok]) \<and>
    perform (\<lambda>_. 7) calibrationRegion configRegion (LoadCalibration 0 2 n1) m1
      = Some (n2, m1, [StoreCalibration 0 (CalibrationData_init\<lparr>polePairs := 4\<rparr>), StatusDone 2 Ok])"
  by (rule nvm_save_then_load) (simp_all add: stub_ok_init nvm_wf_init nvm_idle_init)

text \<open>C16 (acceptance). A load of an arbitrary EEPROM reports \<open>Ok\<close> and delivers \<open>d\<close> exactly when the
  69 bytes of the calibration region are the image a save of \<open>d\<close> writes (magic, version, CRC and
  payload); every other content is reported \<open>InvalidData\<close> or \<open>VersionMismatch\<close> and stores nothing.\<close>

theorem nvm_load_accepts_exactly:
  assumes "stub_ok m" and "nvm_wf n" and "onCalibrationDone n = None"
  shows "\<exists>bs n' es. regRead calibrationRegion m 69 = Some bs \<and>
    perform crc calibrationRegion configRegion (LoadCalibration out cb n) m = Some (n', m, es) \<and>
    (\<forall>d. es = [StoreCalibration out d, StatusDone cb Ok] \<longleftrightarrow> bs = calibration_image crc d) \<and>
    ((\<nexists>d. bs = calibration_image crc d) \<longrightarrow>
       es = [StatusDone cb InvalidData] \<or> es = [StatusDone cb VersionMismatch])"
proof -
  obtain bs where bs: "regRead calibrationRegion m 69 = Some bs" "length bs = 69"
    using logic.A.reg_read [OF assms(1), of 69] by auto
  have rejects: "calibration_verdict crc bs = Inl st \<Longrightarrow> st = InvalidData \<or> st = VersionMismatch" for st
    by (auto simp: calibration_verdict_def Let_def split: if_splits)
  obtain n' where run: "perform crc calibrationRegion configRegion (LoadCalibration out cb n) m =
      Some (n', m, case calibration_verdict crc bs of
           Inl st \<Rightarrow> [StatusDone cb st] | Inr d \<Rightarrow> [StoreCalibration out d, StatusDone cb Ok])"
    using logic_store.load_calibration [OF assms bs(1), of crc out cb] by blast
  show ?thesis
  proof (cases "calibration_verdict crc bs")
    case (Inl st)
    then have "bs \<noteq> calibration_image crc d" for d by auto
    with Inl run bs(1) rejects [OF Inl] show ?thesis by auto
  next
    case (Inr d)
    then have "bs = calibration_image crc d" using calibration_verdict_iff [OF bs(2)] by simp
    with Inr run bs(1) show ?thesis by (auto simp: calibration_image_inject)
  qed
qed

theorem nvm_load_accepts_exactly_witness:
  "\<exists>bs n' es. regRead calibrationRegion EepromStub_init 69 = Some bs \<and>
    perform (\<lambda>_. 7) calibrationRegion configRegion (LoadCalibration 0 1 NonVolatileMemoryImpl_init) EepromStub_init
      = Some (n', EepromStub_init, es) \<and>
    (\<forall>d. es = [StoreCalibration 0 d, StatusDone 1 Ok] \<longleftrightarrow> bs = calibration_image (\<lambda>_. 7) d) \<and>
    ((\<nexists>d. bs = calibration_image (\<lambda>_. 7) d) \<longrightarrow>
       es = [StatusDone 1 InvalidData] \<or> es = [StatusDone 1 VersionMismatch])"
  by (rule nvm_load_accepts_exactly) (simp_all add: stub_ok_init nvm_wf_init nvm_idle_init)


lemma stub_blank: "regRead calibrationRegion EepromStub_init 69 = Some (replicate 69 0xFF)"
  by (simp add: calibrationRegion_def layout_defs region_defs NvmEepromRegion_new_def maxRegionSize_def
      stub_defs EepromStub_init_def stubSize_def min_absorb1)


text \<open>Configuration. Loading the configuration always reports \<open>Ok\<close>: it delivers the stored data
  exactly when the region holds the image a save of that data writes, and the factory defaults in
  every other case. In particular a saved configuration survives a later calibration save.\<close>

lemma nvm_config_always_loads:
  assumes "stub_ok m" and "nvm_wf n" and "onConfigDone n = None"
  shows "\<exists>bs n' d. regRead configRegion m 29 = Some bs \<and>
    perform crc calibrationRegion configRegion (LoadConfig out cb n) m =
      Some (n', m, [StoreConfig out d, StatusDone cb Ok]) \<and>
    (\<forall>d'. bs = config_image crc d' \<longrightarrow> d = d') \<and>
    ((\<nexists>d'. bs = config_image crc d') \<longrightarrow> d = MakeDefaultConfigData)"
proof -
  obtain bs where bs: "regRead configRegion m 29 = Some bs" "length bs = 29"
    using logic.B.reg_read [OF assms(1), of 29] by auto
  obtain n' where run: "perform crc calibrationRegion configRegion (LoadConfig out cb n) m =
       Some (n', m, [StoreConfig out (case config_verdict crc bs of None \<Rightarrow> MakeDefaultConfigData | Some d \<Rightarrow> d),
                     StatusDone cb Ok])"
    using logic_store.load_config [OF assms bs(1), of crc out cb] by blast
  have "config_verdict crc bs = None \<or> (\<exists>d'. bs = config_image crc d')"
    using config_verdict_iff [OF bs(2), of crc] by (cases "config_verdict crc bs") auto
  with run bs(1) show ?thesis by auto
qed

lemma nvm_config_always_loads_witness:
  "\<exists>bs n' d. regRead configRegion EepromStub_init 29 = Some bs \<and>
    perform (\<lambda>_. 7) calibrationRegion configRegion (LoadConfig 0 1 NonVolatileMemoryImpl_init) EepromStub_init =
      Some (n', EepromStub_init, [StoreConfig 0 d, StatusDone 1 Ok]) \<and>
    (\<forall>d'. bs = config_image (\<lambda>_. 7) d' \<longrightarrow> d = d') \<and>
    ((\<nexists>d'. bs = config_image (\<lambda>_. 7) d') \<longrightarrow> d = MakeDefaultConfigData)"
  by (rule nvm_config_always_loads) (simp_all add: stub_ok_init nvm_wf_init)

text \<open>Isolation. Saving a calibration leaves a stored configuration intact and the other way
  round: after both saves, in either order, both loads return the saved data.\<close>

lemma nvm_regions_isolated:
  assumes m: "stub_ok m" and n: "nvm_wf n" and idle: "onCalibrationDone n = None" "onConfigDone n = None"
  shows "\<exists>n1 m1 n2 m2 n3 m3.
    perform crc calibrationRegion configRegion (SaveConfig crc g a n) m = Some (n1, m1, [StatusDone a Ok]) \<and>
    perform crc calibrationRegion configRegion (SaveCalibration crc d b n1) m1 = Some (n2, m2, [StatusDone b Ok]) \<and>
    regRead configRegion m2 29 = Some (config_image crc g) \<and>
    perform crc calibrationRegion configRegion (SaveConfig crc g' a n2) m2 = Some (n3, m3, [StatusDone a Ok]) \<and>
    regRead calibrationRegion m3 69 = Some (calibration_image crc d) \<and>
    regRead configRegion m3 29 = Some (config_image crc g')"
proof -
  obtain n1 m1 where s1: "perform crc calibrationRegion configRegion (SaveConfig crc g a n) m = Some (n1, m1, [StatusDone a Ok])"
      "stub_ok m1" "nvm_wf n1" "onConfigDone n1 = None" "onCalibrationDone n1 = None"
      "regRead configRegion m1 29 = Some (config_image crc g)"
    using logic_store.save_config [OF m n idle(2), of crc g a] idle(1) by auto
  obtain n2 m2 where s2: "perform crc calibrationRegion configRegion (SaveCalibration crc d b n1) m1 = Some (n2, m2, [StatusDone b Ok])"
      "stub_ok m2" "nvm_wf n2" "onConfigDone n2 = None"
      "regRead calibrationRegion m2 69 = Some (calibration_image crc d)"
      "regRead configRegion m2 29 = Some (config_image crc g)"
    using logic_store.save_calibration [OF s1(2,3,5), of crc d b] s1(4,6) by auto
  obtain n3 m3 where "perform crc calibrationRegion configRegion (SaveConfig crc g' a n2) m2 = Some (n3, m3, [StatusDone a Ok])"
      "regRead configRegion m3 29 = Some (config_image crc g')"
      "regRead calibrationRegion m3 69 = Some (calibration_image crc d)"
    using logic_store.save_config [OF s2(2,3,4), of crc g' a] s2(5) by auto
  with s1 s2 show ?thesis by blast
qed

lemma nvm_regions_isolated_witness:
  "\<exists>n1 m1 n2 m2 n3 m3.
    perform (\<lambda>_. 7) calibrationRegion configRegion (SaveConfig (\<lambda>_. 7) MakeDefaultConfigData 1 NonVolatileMemoryImpl_init) EepromStub_init
      = Some (n1, m1, [StatusDone 1 Ok]) \<and>
    perform (\<lambda>_. 7) calibrationRegion configRegion (SaveCalibration (\<lambda>_. 7) CalibrationData_init 2 n1) m1
      = Some (n2, m2, [StatusDone 2 Ok]) \<and>
    regRead configRegion m2 29 = Some (config_image (\<lambda>_. 7) MakeDefaultConfigData) \<and>
    perform (\<lambda>_. 7) calibrationRegion configRegion (SaveConfig (\<lambda>_. 7) (MakeDefaultConfigData\<lparr>canNodeId := 9\<rparr>) 1 n2) m2
      = Some (n3, m3, [StatusDone 1 Ok]) \<and>
    regRead calibrationRegion m3 69 = Some (calibration_image (\<lambda>_. 7) CalibrationData_init) \<and>
    regRead configRegion m3 29 = Some (config_image (\<lambda>_. 7) (MakeDefaultConfigData\<lparr>canNodeId := 9\<rparr>))"
  by (rule nvm_regions_isolated) (simp_all add: stub_ok_init nvm_wf_init)

text \<open>Format. A format, and an invalidation, report \<open>Ok\<close> and leave a calibration region that a
  validity check answers with false and a load with \<open>InvalidData\<close>.\<close>

lemma nvm_format_invalidates:
  assumes m: "stub_ok m" and n: "nvm_wf n"
    and idle: "onCalibrationDone n = None" "onFormatDone n = None" "onIsCalibrationValidDone n = None"
  shows "\<exists>n1 m1 n2 n3.
    perform crc calibrationRegion configRegion (Format a n) m = Some (n1, m1, [StatusDone a Ok]) \<and>
    perform crc calibrationRegion configRegion (IsCalibrationValid b n1) m1 = Some (n2, m1, [ValidDone b False]) \<and>
    perform crc calibrationRegion configRegion (LoadCalibration out b n1) m1 = Some (n3, m1, [StatusDone b InvalidData])"
proof -
  obtain n1 m1 where f: "perform crc calibrationRegion configRegion (Format a n) m = Some (n1, m1, [StatusDone a Ok])"
      and st: "stub_ok m1" "nvm_wf n1" "onCalibrationDone n1 = None" "onIsCalibrationValidDone n1 = None"
      and rd: "regRead calibrationRegion m1 69 = Some (replicate 69 0xFF)"
    using logic_store.format_erases [OF m n idle(2), of crc a] idle by auto
  obtain n2 where "perform crc calibrationRegion configRegion (IsCalibrationValid b n1) m1 = Some (n2, m1, [ValidDone b False])"
    using logic_store.calibration_validity [OF st(1,2,4) rd, of crc b] by auto
  moreover obtain n3 where "perform crc calibrationRegion configRegion (LoadCalibration out b n1) m1 = Some (n3, m1, [StatusDone b InvalidData])"
    using logic_store.load_calibration [OF st(1,2,3) rd, of crc out b] by auto
  ultimately show ?thesis using f by blast
qed

lemma nvm_format_invalidates_witness:
  "\<exists>n1 m1 n2 n3.
    perform (\<lambda>_. 7) calibrationRegion configRegion (Format 1 NonVolatileMemoryImpl_init) EepromStub_init = Some (n1, m1, [StatusDone 1 Ok]) \<and>
    perform (\<lambda>_. 7) calibrationRegion configRegion (IsCalibrationValid 2 n1) m1 = Some (n2, m1, [ValidDone 2 False]) \<and>
    perform (\<lambda>_. 7) calibrationRegion configRegion (LoadCalibration 0 2 n1) m1 = Some (n3, m1, [StatusDone 2 InvalidData])"
  by (rule nvm_format_invalidates) (simp_all add: stub_ok_init nvm_wf_init)

section \<open>Schedules\<close>



text \<open>Memory safety. Under every schedule each outstanding request can complete: the callback it
  fires is set and the output pointer it stores through is set. No empty function is called.\<close>

lemma nvm_completion_defined:
  assumes "nvm_reach crc n qs acc ans" and "q \<in> set qs" and "fits q bs"
  shows "resume crc (cont_of q) (filled q bs n) \<noteq> None"
proof -
  obtain xs ys where "qs = xs @ q # ys" using assms(2) by (meson split_list)
  with reach_progress [of crc n xs q ys acc ans bs] assms(1,3) show ?thesis by auto
qed

lemma nvm_completion_defined_witness:
  "\<exists>n. resume (\<lambda>_. 7) (cont_of (EraseReq CalibrationRegion AtCalibrationInvalidated))
      (filled (EraseReq CalibrationRegion AtCalibrationInvalidated) [] n) \<noteq> None"
proof -
  have "call (\<lambda>_. 7) (OpInvalidateCalibration 5) NonVolatileMemoryImpl_init =
      (NonVolatileMemoryImpl_init\<lparr>onCalibrationDone := Some 5\<rparr>, [Request (EraseReq CalibrationRegion AtCalibrationInvalidated)])"
    by (simp add: InvalidateCalibration_def)
  from nvm_reach.client [OF nvm_reach.start this]
  have "nvm_reach (\<lambda>_. 7) (NonVolatileMemoryImpl_init\<lparr>onCalibrationDone := Some 5\<rparr>)
      [EraseReq CalibrationRegion AtCalibrationInvalidated] [5] []"
    by (simp add: accepted_def)
  from nvm_completion_defined [OF this, of "EraseReq CalibrationRegion AtCalibrationInvalidated" "[]"]
  show ?thesis by auto
qed

text \<open>Busy. An operation on a slot whose previous operation has not finished is dropped: the
  object is unchanged, nothing is requested, and its callback, if it was never accepted before, is
  not among the callbacks that are fired when everything outstanding has completed.\<close>

lemma nvm_busy_is_dropped:
  assumes "nvm_reach crc n qs acc ans" and "slot_callback (op_slot p) n \<noteq> None" and "op_callback p \<notin> set acc"
  shows "call crc p n = (n, []) \<and>
    (\<exists>n' ans'. nvm_reach crc n' [] acc ans' \<and> op_callback p \<notin> set ans')"
proof -
  obtain n' ans' where q: "nvm_reach crc n' [] acc ans'"
    using reach_drains [OF assms(1)] by blast
  from reach_inv [OF this] have "set ans' \<subseteq> set acc"
    by (auto simp: nvm_inv_def dest!: arg_cong [where f = set_mset])
  with q assms(2,3) show ?thesis by (auto simp: call_busy)
qed

lemma nvm_busy_is_dropped_witness:
  "\<exists>n. call (\<lambda>_. 7) (OpSaveCalibration CalibrationData_init 6) n = (n, []) \<and>
    (\<exists>n' ans'. nvm_reach (\<lambda>_. 7) n' [] [5] ans' \<and> op_callback (OpSaveCalibration CalibrationData_init 6) \<notin> set ans')"
proof -
  have "call (\<lambda>_. 7) (OpInvalidateCalibration 5) NonVolatileMemoryImpl_init =
      (NonVolatileMemoryImpl_init\<lparr>onCalibrationDone := Some 5\<rparr>, [Request (EraseReq CalibrationRegion AtCalibrationInvalidated)])"
    by (simp add: InvalidateCalibration_def)
  from nvm_reach.client [OF nvm_reach.start this]
  have "nvm_reach (\<lambda>_. 7) (NonVolatileMemoryImpl_init\<lparr>onCalibrationDone := Some 5\<rparr>)
      [EraseReq CalibrationRegion AtCalibrationInvalidated] [5] []"
    by (simp add: accepted_def)
  from nvm_busy_is_dropped [OF this, of "OpSaveCalibration CalibrationData_init 6"]
  show ?thesis by auto
qed

end
