(* ===== verification/Sm_Model.thy ===== *)
theory Sm_Model
  imports Nvm_Impl
begin

text \<open>
  The motor state machine: \<open>FocStateMachineCommon\<close> with its three refinements
  \<open>TorqueStateMachine\<close>, \<open>SpeedStateMachine\<close> and \<open>PositionStateMachine\<close>
  (\<open>core/state_machine\<close>). A handler returns the new object and the effects in order. A request
  to a service is an effect; its completion arrives later as a \<open>sm_response\<close>. The source
  issues every such request as the last action of a handler, so a service that completes
  immediately behaves like one that completes right after the handler.
  \<open>std::get\<close> on the wrong alternative, and dereferencing an absent
  \<open>mechIdentPtr\<close>, have no result (\<open>None\<close>).
\<close>

section \<open>Data\<close>

datatype CalibrationStep = StepPolePairs | StepResistanceAndInductance | StepAlignment | StepFrictionAndInertia

datatype FaultCode =
  Overcurrent | Overvoltage | Overtemperature | EncoderLoss | WatchdogTimeout | HardwareFaultCode | CalibrationFailedCode

datatype State = Idle | Calibrating CalibrationStep CalibrationData | Ready CalibrationData | Enabled | Fault FaultCode

datatype CommandResult = CmdOk | Rejected | CalibrationFailed | NvmFailed | AbortedByFault

fun IsStopped :: "State \<Rightarrow> bool" where
  "IsStopped Idle = True"
| "IsStopped (Ready _) = True"
| "IsStopped _ = False"

fun is_calibrating :: "State \<Rightarrow> bool" where
  "is_calibrating (Calibrating _ _) = True"
| "is_calibrating _ = False"

fun is_ready :: "State \<Rightarrow> bool" where
  "is_ready (Ready _) = True"
| "is_ready _ = False"

fun is_fault :: "State \<Rightarrow> bool" where
  "is_fault (Fault _) = True"
| "is_fault _ = False"

text \<open>
  The three classes. A speed machine always has an identification service: the override or
  its own (\<open>ResolveMechIdent\<close>). A position machine has one only when the override is given.
\<close>

datatype sm_kind = TorqueStateMachine | SpeedStateMachine | PositionStateMachine bool

record FocStateMachine =
  smKind :: sm_kind
  currentState :: State
  lastFaultCode :: FaultCode
  calibrationData :: CalibrationData
  pendingCommandCallback :: "callback option"
  vdc :: f32
  baseFrequency :: u32
  mechTorqueConstant :: f32

definition FocStateMachine_init :: "sm_kind \<Rightarrow> f32 \<Rightarrow> u32 \<Rightarrow> f32 \<Rightarrow> FocStateMachine" where
  "FocStateMachine_init k v f kt =
     \<lparr>smKind = k, currentState = Idle, lastFaultCode = HardwareFaultCode,
      calibrationData = CalibrationData_init, pendingCommandCallback = None,
      vdc = v, baseFrequency = f, mechTorqueConstant = kt\<rparr>"

section \<open>Requests, responses, effects\<close>

datatype sm_request =
  EstimateNumberOfPolePairs
| EstimateResistanceAndInductance
| ForceAlignment nat
| EstimateFrictionAndInertia f32 nat
| NvmSave CalibrationData
| NvmInvalidate
| NvmIsValid
| NvmLoad

text \<open>A load that delivers data stores it through the reference before it reports.\<close>

datatype sm_response =
  PolePairsDone "nat option"
| ResistanceAndInductanceDone "f32 option" "f32 option"
| AlignmentDone "f32 option"
| FrictionAndInertiaDone "f32 option" "f32 option"
| SaveDone NvmStatus
| InvalidateDone NvmStatus
| ValidityDone bool
| LoadDone "CalibrationData option" NvmStatus

datatype sm_effect =
  Trace string
| TraceEstimates string f32 f32
| FocStart
| FocStop
| SetPolePairs nat
| EncoderSet f32
| SetPidBasedOnResistanceAndInductance f32 f32 f32 u32 f32
| SetPidBasedOnInertiaAndFriction f32 f32 f32 f32
| SetSpeedTunings f32 f32 f32 f32
| MechSetInitialEstimate f32 f32
| ElecSetInitialEstimate f32 f32
| MechSetTorqueConstant f32
| CmdDone callback CommandResult
| Ask sm_request

type_synonym sm_result = "FocStateMachine \<times> sm_effect list"

text \<open>The constants \<open>nyquistFactor = 15.0f\<close> and \<open>velocityBandwidthRadPerSec = 50.0f\<close>, as bit patterns.\<close>

definition nyquistFactor :: f32 where "nyquistFactor = 0x41700000"
definition velocityBandwidthRadPerSec :: f32 where "velocityBandwidthRadPerSec = 0x42480000"

section \<open>Mode hooks\<close>

text \<open>Virtual functions a torque machine inherits empty and the outer-loop machines override.\<close>

definition ApplyModeSpecificCalibration :: "FocStateMachine \<Rightarrow> CalibrationData \<Rightarrow> sm_effect list" where
  "ApplyModeSpecificCalibration s d =
     (if smKind s = TorqueStateMachine then []
      else [SetSpeedTunings (vdc s) (kpVelocity d) (kiVelocity d) 0,
            MechSetInitialEstimate (inertia d) (frictionViscous d),
            ElecSetInitialEstimate (rPhase d) (lD d)])"

definition PrepareForEnabled :: "FocStateMachine \<Rightarrow> sm_effect list" where
  "PrepareForEnabled s =
     (if smKind s = TorqueStateMachine then [] else [MechSetTorqueConstant (mechTorqueConstant s)])"

section \<open>Entering states\<close>

definition CompletePendingCommand :: "CommandResult \<Rightarrow> FocStateMachine \<Rightarrow> sm_result" where
  "CompletePendingCommand r s =
     (case pendingCommandCallback s of None \<Rightarrow> (s, [])
      | Some cb \<Rightarrow> (s\<lparr>pendingCommandCallback := None\<rparr>, [CmdDone cb r]))"

definition HasPendingCommand :: "FocStateMachine \<Rightarrow> bool" where
  "HasPendingCommand s \<longleftrightarrow> pendingCommandCallback s \<noteq> None"

definition IsCalibrating :: "CalibrationStep \<Rightarrow> FocStateMachine \<Rightarrow> bool" where
  "IsCalibrating expected s \<longleftrightarrow> (case currentState s of Calibrating step d \<Rightarrow> step = expected | _ \<Rightarrow> False)"

definition EnterReady :: "CalibrationData \<Rightarrow> FocStateMachine \<Rightarrow> sm_result" where
  "EnterReady d s = (s\<lparr>calibrationData := d, currentState := Ready d\<rparr>, [Trace ''[SM] Entering Ready''])"

definition EnterEnabled :: "FocStateMachine \<Rightarrow> sm_result" where
  "EnterEnabled s =
     (s\<lparr>currentState := Enabled\<rparr>, [Trace ''[SM] Entering Enabled''] @ PrepareForEnabled s @ [FocStart])"

definition EnterFault :: "FaultCode \<Rightarrow> FocStateMachine \<Rightarrow> sm_result" where
  "EnterFault code s =
     (let stop = (if currentState s = Enabled \<or> is_calibrating (currentState s) then [FocStop] else []);
          (s', es) = CompletePendingCommand AbortedByFault (s\<lparr>lastFaultCode := code, currentState := Fault code\<rparr>)
      in (s', [Trace ''[SM] Entering Fault''] @ stop @ es))"

text \<open>The failure branch every continuation shares: answer the command, then enter the fault.\<close>

definition CompleteAndFault :: "CommandResult \<Rightarrow> FaultCode \<Rightarrow> FocStateMachine \<Rightarrow> sm_result" where
  "CompleteAndFault r code s =
     (let (s', es) = CompletePendingCommand r s; (s'', es') = EnterFault code s' in (s'', es @ es'))"

section \<open>Calibration steps\<close>

definition RunPolePairsStep :: "FocStateMachine \<Rightarrow> sm_result option" where
  "RunPolePairsStep s =
     (case currentState s of
        Calibrating _ d \<Rightarrow> Some (s\<lparr>currentState := Calibrating StepPolePairs d\<rparr>,
          [Trace ''[SM] Identifying pole pairs'', Ask EstimateNumberOfPolePairs])
      | _ \<Rightarrow> None)"

definition EnterCalibrating :: "FocStateMachine \<Rightarrow> sm_result option" where
  "EnterCalibrating s =
     do { (s', es) \<leftarrow> RunPolePairsStep (s\<lparr>currentState := Calibrating StepPolePairs CalibrationData_init\<rparr>);
          Some (s', Trace ''[SM] Entering Calibrating'' # es) }"

definition RunResistanceAndInductanceStep :: "FocStateMachine \<Rightarrow> sm_result option" where
  "RunResistanceAndInductanceStep s =
     (case currentState s of
        Calibrating _ d \<Rightarrow> Some (s\<lparr>currentState := Calibrating StepResistanceAndInductance d\<rparr>,
          [Trace ''[SM] Identifying resistance and inductance'', Ask EstimateResistanceAndInductance])
      | _ \<Rightarrow> None)"

definition RunAlignmentStep :: "FocStateMachine \<Rightarrow> sm_result option" where
  "RunAlignmentStep s =
     (case currentState s of
        Calibrating _ d \<Rightarrow> Some (s\<lparr>currentState := Calibrating StepAlignment d\<rparr>,
          [Trace ''[SM] Aligning motor'', Ask (ForceAlignment (unat (polePairs d)))])
      | _ \<Rightarrow> None)"

definition HasMechIdent :: "FocStateMachine \<Rightarrow> bool" where
  "HasMechIdent s \<longleftrightarrow> (case smKind s of TorqueStateMachine \<Rightarrow> False | SpeedStateMachine \<Rightarrow> True
     | PositionStateMachine override \<Rightarrow> override)"

definition RunMechanicalIdentStep :: "FocStateMachine \<Rightarrow> sm_result option" where
  "RunMechanicalIdentStep s =
     (case currentState s of
        Calibrating _ d \<Rightarrow>
          if HasMechIdent s then Some (s\<lparr>currentState := Calibrating StepFrictionAndInertia d\<rparr>,
            [Trace ''[SM] Estimating mechanical parameters'',
             Ask (EstimateFrictionAndInertia (mechTorqueConstant s) (unat (polePairs d)))])
          else None
      | _ \<Rightarrow> None)"

definition OnCalibrationComplete :: "FocStateMachine \<Rightarrow> sm_result" where
  "OnCalibrationComplete s =
     (case currentState s of
        Calibrating _ d \<Rightarrow> (s, [Ask (NvmSave d)])
      | _ \<Rightarrow> (s, []))"

definition RunPostAlignmentStep :: "FocStateMachine \<Rightarrow> sm_result option" where
  "RunPostAlignmentStep s =
     (case smKind s of
        TorqueStateMachine \<Rightarrow> Some (OnCalibrationComplete s)
      | SpeedStateMachine \<Rightarrow> RunMechanicalIdentStep s
      | PositionStateMachine override \<Rightarrow>
          if \<not> override then Some (EnterFault CalibrationFailedCode s) else RunMechanicalIdentStep s)"

section \<open>Continuations\<close>

text \<open>Updating \<open>cal.pendingData\<close>; \<open>std::get\<close> has no result outside \<open>Calibrating\<close>.\<close>

definition with_pending :: "(CalibrationData \<Rightarrow> CalibrationData) \<Rightarrow> FocStateMachine \<Rightarrow> FocStateMachine option" where
  "with_pending f s =
     (case currentState s of Calibrating step d \<Rightarrow> Some (s\<lparr>currentState := Calibrating step (f d)\<rparr>) | _ \<Rightarrow> None)"

definition OnPolePairs :: "nat option \<Rightarrow> FocStateMachine \<Rightarrow> sm_result option" where
  "OnPolePairs res s =
     (if \<not> IsCalibrating StepPolePairs s then Some (s, [])
      else case res of
        None \<Rightarrow> Some (CompleteAndFault CalibrationFailed CalibrationFailedCode s)
      | Some n \<Rightarrow> do { s' \<leftarrow> with_pending (\<lambda>d. d\<lparr>polePairs := word_of_nat n\<rparr>) s; RunResistanceAndInductanceStep s' })"

definition OnResistanceAndInductance :: "f32 option \<Rightarrow> f32 option \<Rightarrow> FocStateMachine \<Rightarrow> sm_result option" where
  "OnResistanceAndInductance r l s =
     (if \<not> IsCalibrating StepResistanceAndInductance s then Some (s, [])
      else case (r, l) of
        (Some r', Some l') \<Rightarrow>
          do { s' \<leftarrow> with_pending (\<lambda>d. d\<lparr>rPhase := r', lD := l', lQ := l'\<rparr>) s; RunAlignmentStep s' }
      | _ \<Rightarrow> Some (CompleteAndFault CalibrationFailed CalibrationFailedCode s))"

definition OnAlignment :: "f32 option \<Rightarrow> FocStateMachine \<Rightarrow> sm_result option" where
  "OnAlignment angle s =
     (if \<not> IsCalibrating StepAlignment s then Some (s, [])
      else case angle of
        None \<Rightarrow> Some (CompleteAndFault CalibrationFailed CalibrationFailedCode s)
      | Some a \<Rightarrow> do { s' \<leftarrow> with_pending (\<lambda>d. d\<lparr>encoderZeroOffset := a\<rparr>) s; RunPostAlignmentStep s' })"

definition OnFrictionAndInertia ::
  "(f32 \<Rightarrow> f32 \<Rightarrow> f32) \<Rightarrow> f32 option \<Rightarrow> f32 option \<Rightarrow> FocStateMachine \<Rightarrow> sm_result option" where
  "OnFrictionAndInertia fmul fr j s =
     (if \<not> IsCalibrating StepFrictionAndInertia s then Some (s, [])
      else case (fr, j) of
        (Some fr', Some j') \<Rightarrow>
          do { s' \<leftarrow> with_pending (\<lambda>d. d\<lparr>inertia := j', frictionViscous := fr',
                 kpVelocity := fmul j' velocityBandwidthRadPerSec,
                 kiVelocity := fmul fr' velocityBandwidthRadPerSec\<rparr>) s;
               Some (OnCalibrationComplete s') }
      | _ \<Rightarrow> Some (CompleteAndFault CalibrationFailed CalibrationFailedCode s))"

text \<open>What applying a calibration sends to the controller and the encoder, before \<open>EnterReady\<close>.\<close>

definition ApplyCalibration :: "FocStateMachine \<Rightarrow> CalibrationData \<Rightarrow> sm_effect list" where
  "ApplyCalibration s d =
     [SetPolePairs (unat (polePairs d)), EncoderSet (encoderZeroOffset d),
      SetPidBasedOnResistanceAndInductance (vdc s) (rPhase d) (lD d) (baseFrequency s) nyquistFactor]
     @ ApplyModeSpecificCalibration s d"

definition OnCalibrationSaved :: "NvmStatus \<Rightarrow> FocStateMachine \<Rightarrow> sm_result" where
  "OnCalibrationSaved st s =
     (case currentState s of
        Calibrating _ d \<Rightarrow>
          if st \<noteq> Ok then CompleteAndFault NvmFailed CalibrationFailedCode s
          else (let (s', es) = EnterReady d s; (s'', es') = CompletePendingCommand CmdOk s'
                in (s'', ApplyCalibration s d @ es @ es'))
      | _ \<Rightarrow> (s, []))"

definition OnCalibrationInvalidated :: "NvmStatus \<Rightarrow> FocStateMachine \<Rightarrow> sm_result" where
  "OnCalibrationInvalidated st s =
     (if \<not> HasPendingCommand s \<or> \<not> IsStopped (currentState s) then (s, [])
      else if st \<noteq> Ok then CompleteAndFault NvmFailed HardwareFaultCode s
      else (let (s', es) = CompletePendingCommand CmdOk (s\<lparr>calibrationData := CalibrationData_init, currentState := Idle\<rparr>)
            in (s', Trace ''[SM] Calibration invalidated in NVM'' # es)))"

definition CheckNvmOnBoot :: "FocStateMachine \<Rightarrow> sm_result" where
  "CheckNvmOnBoot s = (s, [Ask NvmIsValid])"

definition OnBootValidity :: "bool \<Rightarrow> FocStateMachine \<Rightarrow> sm_result" where
  "OnBootValidity valid s =
     (if currentState s \<noteq> Idle then (s, [])
      else if \<not> valid then (s, [Trace ''[SM] NVM invalid, starting in Idle''])
      else (s, [Ask NvmLoad]))"

definition OnBootLoaded :: "NvmStatus \<Rightarrow> FocStateMachine \<Rightarrow> sm_result" where
  "OnBootLoaded st s =
     (if currentState s \<noteq> Idle then (s, [])
      else if st \<noteq> Ok then (s, [Trace ''[SM] NVM load failed, starting in Idle''])
      else (let d = calibrationData s; (s', es) = EnterReady d s in (s', ApplyCalibration s d @ es)))"

text \<open>Dispatch of a completion to the lambda that was passed with the request.\<close>

fun respond :: "(f32 \<Rightarrow> f32 \<Rightarrow> f32) \<Rightarrow> sm_response \<Rightarrow> FocStateMachine \<Rightarrow> sm_result option" where
  "respond fmul (PolePairsDone res) s = OnPolePairs res s"
| "respond fmul (ResistanceAndInductanceDone r l) s = OnResistanceAndInductance r l s"
| "respond fmul (AlignmentDone a) s = OnAlignment a s"
| "respond fmul (FrictionAndInertiaDone fr j) s = OnFrictionAndInertia fmul fr j s"
| "respond fmul (SaveDone st) s = Some (OnCalibrationSaved st s)"
| "respond fmul (InvalidateDone st) s = Some (OnCalibrationInvalidated st s)"
| "respond fmul (ValidityDone v) s = Some (OnBootValidity v s)"
| "respond fmul (LoadDone d st) s =
     Some (OnBootLoaded st (case d of None \<Rightarrow> s | Some d' \<Rightarrow> s\<lparr>calibrationData := d'\<rparr>))"

section \<open>Commands\<close>

definition CmdCalibrate :: "callback \<Rightarrow> FocStateMachine \<Rightarrow> sm_result option" where
  "CmdCalibrate onDone s =
     (if \<not> IsStopped (currentState s) \<or> HasPendingCommand s then Some (s, [CmdDone onDone Rejected])
      else EnterCalibrating (s\<lparr>pendingCommandCallback := Some onDone\<rparr>))"

definition CmdEnable :: "FocStateMachine \<Rightarrow> sm_result" where
  "CmdEnable s = (if \<not> is_ready (currentState s) then (s, []) else EnterEnabled s)"

definition CmdDisable :: "FocStateMachine \<Rightarrow> sm_result" where
  "CmdDisable s =
     (if currentState s \<noteq> Enabled then (s, [])
      else (let (s', es) = EnterReady (calibrationData s) s in (s', FocStop # es)))"

definition CmdClearFault :: "FocStateMachine \<Rightarrow> sm_result" where
  "CmdClearFault s =
     (if \<not> is_fault (currentState s) then (s, [])
      else (s\<lparr>currentState := Idle\<rparr>, [Trace ''[SM] Fault cleared'']))"

definition CmdClearCalibration :: "callback \<Rightarrow> FocStateMachine \<Rightarrow> sm_result" where
  "CmdClearCalibration onDone s =
     (if \<not> IsStopped (currentState s) \<or> HasPendingCommand s then (s, [CmdDone onDone Rejected])
      else (s\<lparr>pendingCommandCallback := Some onDone\<rparr>, [Ask NvmInvalidate]))"

definition CmdEmergencyStop :: "FocStateMachine \<Rightarrow> sm_result" where
  "CmdEmergencyStop s =
     (let wasActive = (currentState s = Enabled \<or> is_calibrating (currentState s));
          (s', es) = CompletePendingCommand AbortedByFault s
      in (if is_fault (currentState s') then s'
          else if wasActive then s'\<lparr>currentState := Idle\<rparr> else s',
          [FocStop, Trace ''[SM] Emergency stop''] @ es))"

section \<open>Online estimates\<close>

text \<open>\<open>std::isfinite\<close>, and \<open>x <= 0.0f\<close> for a finite \<open>x\<close>, on bit patterns.\<close>

definition isfinite :: "f32 \<Rightarrow> bool" where
  "isfinite x \<longleftrightarrow> drop_bit 23 x AND 0xFF \<noteq> 0xFF"

definition le_zero :: "f32 \<Rightarrow> bool" where
  "le_zero x \<longleftrightarrow> x = 0 \<or> bit x 31"

definition ApplyOnlineEstimates :: "f32 \<Rightarrow> f32 \<Rightarrow> f32 \<Rightarrow> f32 \<Rightarrow> FocStateMachine \<Rightarrow> sm_effect list" where
  "ApplyOnlineEstimates j b r l s =
     (if smKind s = TorqueStateMachine \<or> currentState s \<noteq> Enabled then []
      else
        (if \<not> isfinite j \<or> le_zero j \<or> \<not> isfinite b \<or> le_zero b
         then [TraceEstimates ''[SM] Skipping mechanical estimates: non-physical values'' j b]
         else [TraceEstimates ''[SM] Applying mechanical estimates'' j b,
               SetPidBasedOnInertiaAndFriction (vdc s) j b velocityBandwidthRadPerSec]) @
        (if \<not> isfinite r \<or> le_zero r \<or> \<not> isfinite l \<or> le_zero l
         then [TraceEstimates ''[SM] Skipping electrical estimates: non-physical values'' r l]
         else [TraceEstimates ''[SM] Applying electrical estimates'' r l,
               SetPidBasedOnResistanceAndInductance (vdc s) r l (baseFrequency s) nyquistFactor]))"

section \<open>Operations\<close>

text \<open>
  Everything the outside can do to the machine: the commands, the fault notification
  registered by \<open>RegisterFaultHandler\<close>, and the completion of a service request.
\<close>

datatype sm_event =
  Calibrate callback | Enable | Disable | ClearFault | ClearCalibration callback | EmergencyStop
| FaultRaised FaultCode
| Response sm_response

fun handle :: "(f32 \<Rightarrow> f32 \<Rightarrow> f32) \<Rightarrow> sm_event \<Rightarrow> FocStateMachine \<Rightarrow> sm_result option" where
  "handle fmul (Calibrate cb) s = CmdCalibrate cb s"
| "handle fmul Enable s = Some (CmdEnable s)"
| "handle fmul Disable s = Some (CmdDisable s)"
| "handle fmul ClearFault s = Some (CmdClearFault s)"
| "handle fmul (ClearCalibration cb) s = Some (CmdClearCalibration cb s)"
| "handle fmul EmergencyStop s = Some (CmdEmergencyStop s)"
| "handle fmul (FaultRaised c) s = Some (EnterFault c s)"
| "handle fmul (Response r) s = respond fmul r s"

text \<open>The console commands of \<open>RegisterLifecycleCliCommands\<close>: long name, short name, command.\<close>

definition lifecycle_cli :: "callback \<Rightarrow> (string \<times> string \<times> sm_event) list" where
  "lifecycle_cli ignored =
     [(''calibrate'', ''cal'', Calibrate ignored), (''enable'', ''en'', Enable), (''disable'', ''dis'', Disable),
      (''clear_fault'', ''cf'', ClearFault), (''clear_cal'', ''cc'', ClearCalibration ignored)]"

datatype TransitionPolicy = PolicyCli | PolicyAuto

definition RegisterCliIfNeeded :: "TransitionPolicy \<Rightarrow> callback \<Rightarrow> (string \<times> string \<times> sm_event) list" where
  "RegisterCliIfNeeded p ignored = (if p \<noteq> PolicyCli then [] else lifecycle_cli ignored)"

end
