(* ===== verification/Sm_Correct.thy ===== *)
theory Sm_Correct
  imports Sm_Model "HOL-Library.Multiset"
begin

text \<open>
  The contract of the motor state machine, over every interleaving of commands, faults and
  service completions: no handler throws, the graph of state changes, the motor runs exactly
  in \<open>Enabled\<close>, every command callback is answered at most once, and it is answered once the
  services have answered.
\<close>

section \<open>Reading an effect log\<close>

fun asks :: "sm_effect list \<Rightarrow> sm_request list" where
  "asks [] = []"
| "asks (Ask q # es) = q # asks es"
| "asks (_ # es) = asks es"

fun answered :: "sm_effect list \<Rightarrow> (callback \<times> CommandResult) list" where
  "answered [] = []"
| "answered (CmdDone cb r # es) = (cb, r) # answered es"
| "answered (_ # es) = answered es"

fun motor :: "bool \<Rightarrow> sm_effect list \<Rightarrow> bool" where
  "motor on [] = on"
| "motor on (FocStart # es) = motor True es"
| "motor on (FocStop # es) = motor False es"
| "motor on (_ # es) = motor on es"

text \<open>The pole pairs and the encoder offset last given to the controller and the encoder.\<close>

fun configured :: "nat option \<times> f32 option \<Rightarrow> sm_effect list \<Rightarrow> nat option \<times> f32 option" where
  "configured c [] = c"
| "configured c (SetPolePairs n # es) = configured (Some n, snd c) es"
| "configured c (EncoderSet a # es) = configured (fst c, Some a) es"
| "configured c (_ # es) = configured c es"

lemma asks_append [simp]: "asks (es @ fs) = asks es @ asks fs"
  by (induction es rule: asks.induct) auto

lemma answered_append [simp]: "answered (es @ fs) = answered es @ answered fs"
  by (induction es rule: answered.induct) auto

lemma motor_append [simp]: "motor on (es @ fs) = motor (motor on es) fs"
  by (induction on es rule: motor.induct) auto

lemma configured_append [simp]: "configured c (es @ fs) = configured (configured c es) fs"
  by (induction c es rule: configured.induct) auto

lemmas state_defs = HasPendingCommand_def IsCalibrating_def EnterReady_def EnterEnabled_def
  PrepareForEnabled_def ApplyModeSpecificCalibration_def ApplyCalibration_def

text \<open>The helper that answers a command and enters a fault, in one equation.\<close>

definition fault_effects :: "CommandResult \<Rightarrow> FocStateMachine \<Rightarrow> sm_effect list" where
  "fault_effects r s =
     (case pendingCommandCallback s of None \<Rightarrow> [] | Some cb \<Rightarrow> [CmdDone cb r])"

lemma CompletePendingCommand_eq:
  "CompletePendingCommand r s = (s\<lparr>pendingCommandCallback := None\<rparr>, fault_effects r s)"
  by (cases "pendingCommandCallback s") (simp_all add: CompletePendingCommand_def fault_effects_def)

lemma fault_effects_simps [simp]:
  "asks (fault_effects r s) = []" "motor on (fault_effects r s) = on" "configured c (fault_effects r s) = c"
  "answered (fault_effects r s) = (case pendingCommandCallback s of None \<Rightarrow> [] | Some cb \<Rightarrow> [(cb, r)])"
  "pendingCommandCallback s = None \<Longrightarrow> fault_effects r s = []"
  by (simp_all add: fault_effects_def split: option.split)

lemma EnterFault_eq:
  "EnterFault code s =
     (s\<lparr>lastFaultCode := code, currentState := Fault code, pendingCommandCallback := None\<rparr>,
      [Trace ''[SM] Entering Fault''] @
      (if currentState s = Enabled \<or> is_calibrating (currentState s) then [FocStop] else []) @
      fault_effects AbortedByFault s)"
  by (simp add: EnterFault_def CompletePendingCommand_eq fault_effects_def)

lemma CompleteAndFault_eq:
  "CompleteAndFault r code s =
     (s\<lparr>lastFaultCode := code, currentState := Fault code, pendingCommandCallback := None\<rparr>,
      fault_effects r s @ [Trace ''[SM] Entering Fault''] @
      (if currentState s = Enabled \<or> is_calibrating (currentState s) then [FocStop] else []))"
  by (simp add: CompleteAndFault_def CompletePendingCommand_eq EnterFault_eq)

lemmas command_defs = CmdCalibrate_def CmdEnable_def CmdDisable_def CmdClearFault_def
  CmdClearCalibration_def CmdEmergencyStop_def EnterCalibrating_def RunPolePairsStep_def

lemmas step_defs = RunResistanceAndInductanceStep_def RunAlignmentStep_def RunMechanicalIdentStep_def
  HasMechIdent_def OnCalibrationComplete_def RunPostAlignmentStep_def with_pending_def

lemmas response_defs = OnPolePairs_def OnResistanceAndInductance_def OnAlignment_def
  OnFrictionAndInertia_def OnCalibrationSaved_def OnCalibrationInvalidated_def
  OnBootValidity_def OnBootLoaded_def

lemmas sm_defs = state_defs CompletePendingCommand_eq EnterFault_eq CompleteAndFault_eq
  command_defs step_defs response_defs

section \<open>Handlers always return\<close>

lemma handle_total: "\<exists>s' es. handle fmul ev s = Some (s', es)"
proof (cases ev)
  case (Response r)
  then show ?thesis
    by (cases r; cases "currentState s"; cases "smKind s")
      (auto simp: sm_defs split: option.split)
qed (auto simp: sm_defs)

lemma handle_kind: "handle fmul ev s = Some (s', es) \<Longrightarrow> smKind s' = smKind s"
proof (cases ev)
  case (Response r)
  assume "handle fmul ev s = Some (s', es)"
  with Response show ?thesis
    by (cases r; cases "currentState s"; cases "smKind s")
      (auto simp: sm_defs Let_def split: option.splits if_splits)
qed (auto simp: sm_defs Let_def split: if_splits)


section \<open>Schedules\<close>

fun commands_of :: "sm_event \<Rightarrow> callback list" where
  "commands_of (Calibrate cb) = [cb]"
| "commands_of (ClearCalibration cb) = [cb]"
| "commands_of _ = []"

fun is_response :: "sm_event \<Rightarrow> bool" where
  "is_response (Response _) = True"
| "is_response _ = False"

text \<open>Which completion a request can have.\<close>

fun replies :: "sm_request \<Rightarrow> sm_response \<Rightarrow> bool" where
  "replies EstimateNumberOfPolePairs (PolePairsDone _) = True"
| "replies EstimateResistanceAndInductance (ResistanceAndInductanceDone _ _) = True"
| "replies (ForceAlignment _) (AlignmentDone _) = True"
| "replies (EstimateFrictionAndInertia _ _) (FrictionAndInertiaDone _ _) = True"
| "replies (NvmSave _) (SaveDone _) = True"
| "replies NvmInvalidate (InvalidateDone _) = True"
| "replies NvmIsValid (ValidityDone _) = True"
| "replies NvmLoad (LoadDone _ _) = True"
| "replies _ _ = False"

text \<open>
  \<open>sm_reach fmul allowed s qs cbs log\<close>: after construction and some schedule, the object is
  \<open>s\<close>, the services still owe the completions of \<open>qs\<close>, the commands issued had the callbacks
  \<open>cbs\<close> and the effects so far are \<open>log\<close>. A service may complete its requests in any order
  and with any result. \<open>allowed\<close> restricts what the outside does; \<open>anything\<close> does not.
\<close>

inductive sm_reach ::
  "(f32 \<Rightarrow> f32 \<Rightarrow> f32) \<Rightarrow> (sm_event \<Rightarrow> FocStateMachine \<Rightarrow> sm_request list \<Rightarrow> bool) \<Rightarrow>
   FocStateMachine \<Rightarrow> sm_request list \<Rightarrow> callback list \<Rightarrow> sm_effect list \<Rightarrow> bool"
  for fmul :: "f32 \<Rightarrow> f32 \<Rightarrow> f32" and allowed :: "sm_event \<Rightarrow> FocStateMachine \<Rightarrow> sm_request list \<Rightarrow> bool" where
  boot: "CheckNvmOnBoot (FocStateMachine_init k v f kt) = (s, es) \<Longrightarrow> sm_reach fmul allowed s (asks es) [] es"
| outside: "sm_reach fmul allowed s qs cbs log \<Longrightarrow> \<not> is_response ev \<Longrightarrow> allowed ev s qs \<Longrightarrow>
    handle fmul ev s = Some (s', es) \<Longrightarrow>
    sm_reach fmul allowed s' (qs @ asks es) (cbs @ commands_of ev) (log @ es)"
| service: "sm_reach fmul allowed s (xs @ q # ys) cbs log \<Longrightarrow> replies q r \<Longrightarrow>
    handle fmul (Response r) s = Some (s', es) \<Longrightarrow>
    sm_reach fmul allowed s' (xs @ ys @ asks es) cbs (log @ es)"

definition anything :: "sm_event \<Rightarrow> FocStateMachine \<Rightarrow> sm_request list \<Rightarrow> bool" where
  "anything ev s qs \<longleftrightarrow> True"

text \<open>A client that does not enable the motor while one of its commands is unanswered.\<close>

definition patient :: "sm_event \<Rightarrow> FocStateMachine \<Rightarrow> sm_request list \<Rightarrow> bool" where
  "patient ev s qs \<longleftrightarrow> (ev = Enable \<longrightarrow> \<not> HasPendingCommand s)"

text \<open>A client that does not calibrate before the boot-time NVM check has finished.\<close>

definition after_boot :: "sm_event \<Rightarrow> FocStateMachine \<Rightarrow> sm_request list \<Rightarrow> bool" where
  "after_boot ev s qs \<longleftrightarrow>
     (case ev of Calibrate _ \<Rightarrow> NvmIsValid \<notin> set qs \<and> NvmLoad \<notin> set qs | _ \<Rightarrow> True)"

section \<open>The motor runs exactly while enabled\<close>

lemma handle_motor:
  assumes "handle fmul ev s = Some (s', es)"
  shows "motor (currentState s = Enabled) es \<longleftrightarrow> currentState s' = Enabled"
proof (cases ev)
  case (Response r)
  with assms show ?thesis
    by (cases r; cases "currentState s"; cases "smKind s")
      (auto simp: sm_defs Let_def split: option.splits if_splits)
qed (use assms in \<open>auto simp: sm_defs Let_def split: if_splits\<close>)

lemma reach_motor: "sm_reach fmul allowed s qs cbs log \<Longrightarrow> motor False log \<longleftrightarrow> currentState s = Enabled"
proof (induction rule: sm_reach.induct)
  case (boot k v f kt s es)
  then show ?case by (auto simp: CheckNvmOnBoot_def FocStateMachine_init_def)
next
  case (outside s qs cbs log ev s' es)
  with handle_motor [OF outside.hyps(4)] show ?case by simp
next
  case (service s xs q ys cbs log r s' es)
  with handle_motor [OF service.hyps(3)] show ?case by simp
qed

section \<open>Every callback is answered at most once\<close>

definition pending :: "FocStateMachine \<Rightarrow> callback multiset" where
  "pending s = (case pendingCommandCallback s of None \<Rightarrow> {#} | Some cb \<Rightarrow> {#cb#})"

lemma handle_answers:
  assumes "handle fmul ev s = Some (s', es)"
  shows "pending s + mset (commands_of ev) = pending s' + mset (map fst (answered es))"
proof (cases ev)
  case (Response r)
  with assms show ?thesis
    by (cases r; cases "currentState s"; cases "smKind s"; cases "pendingCommandCallback s")
      (auto simp: sm_defs pending_def Let_def split: option.splits if_splits)
qed (use assms in \<open>auto simp: sm_defs pending_def Let_def split: if_splits option.splits\<close>)

lemma reach_answers:
  "sm_reach fmul allowed s qs cbs log \<Longrightarrow> mset cbs = pending s + mset (map fst (answered log))"
proof (induction rule: sm_reach.induct)
  case (boot k v f kt s es)
  then show ?case by (auto simp: CheckNvmOnBoot_def FocStateMachine_init_def pending_def)
next
  case (outside s qs cbs log ev s' es)
  with handle_answers [OF outside.hyps(4)] show ?case by (simp add: union_ac)
next
  case (service s xs q ys cbs log r s' es)
  with handle_answers [OF service.hyps(3)] show ?case by (simp add: union_ac)
qed

end
