(* ===== verification/Sm_Invariants.thy ===== *)
theory Sm_Invariants
  imports Sm_Correct
begin

text \<open>
  Invariants of the schedules of the motor state machine behind its liveness and
  configuration properties, and runs of a list of events.
\<close>

section \<open>Progress\<close>

fun for_step :: "CalibrationStep \<Rightarrow> sm_request \<Rightarrow> bool" where
  "for_step StepPolePairs EstimateNumberOfPolePairs = True"
| "for_step StepResistanceAndInductance EstimateResistanceAndInductance = True"
| "for_step StepAlignment (ForceAlignment _) = True"
| "for_step StepFrictionAndInertia (EstimateFrictionAndInertia _ _) = True"
| "for_step _ (NvmSave _) = True"
| "for_step _ _ = False"

text \<open>Whoever waits is owed a completion that moves the machine on.\<close>

definition served :: "FocStateMachine \<Rightarrow> sm_request list \<Rightarrow> bool" where
  "served s qs \<longleftrightarrow>
     (case currentState s of
        Calibrating step d \<Rightarrow> \<exists>q \<in> set qs. for_step step q
      | Enabled \<Rightarrow> \<not> HasPendingCommand s
      | Fault c \<Rightarrow> \<not> HasPendingCommand s
      | _ \<Rightarrow> HasPendingCommand s \<longrightarrow> NvmInvalidate \<in> set qs)"

lemma served_outside:
  assumes "served s qs" and "handle fmul ev s = Some (s', es)" and "patient ev s qs" and "\<not> is_response ev"
  shows "served s' (qs @ asks es)"
  using assms
  by (cases ev; cases "currentState s")
    (auto simp: sm_defs served_def patient_def Let_def split: if_splits)

lemma served_service:
  assumes "served s (xs @ q # ys)" and "handle fmul (Response r) s = Some (s', es)" and "replies q r"
  shows "served s' (xs @ ys @ asks es)"
proof (cases "currentState s")
  case (Calibrating step d)
  with assms show ?thesis
    by (cases q; cases r; cases step; cases "smKind s")
      (auto simp: sm_defs served_def Let_def split: option.splits if_splits)
qed (use assms in \<open>cases q; cases r; auto simp: sm_defs served_def Let_def split: option.splits if_splits\<close>)+

lemma reach_served: "sm_reach fmul patient s qs cbs log \<Longrightarrow> served s qs"
proof (induction rule: sm_reach.induct)
  case (boot k v f kt s es)
  then show ?case by (auto simp: CheckNvmOnBoot_def FocStateMachine_init_def served_def HasPendingCommand_def)
next
  case (outside s qs cbs log ev s' es)
  show ?case by (rule served_outside [OF outside.IH outside.hyps(4) outside.hyps(3) outside.hyps(2)])
next
  case (service s xs q ys cbs log r s' es)
  show ?case by (rule served_service [OF service.IH service.hyps(3) service.hyps(2)])
qed

text \<open>How many completions a request can still cause.\<close>

fun sm_work :: "sm_request \<Rightarrow> nat" where
  "sm_work EstimateNumberOfPolePairs = 5"
| "sm_work EstimateResistanceAndInductance = 4"
| "sm_work (ForceAlignment _) = 3"
| "sm_work (EstimateFrictionAndInertia _ _) = 2"
| "sm_work (NvmSave _) = 1"
| "sm_work NvmInvalidate = 1"
| "sm_work NvmIsValid = 2"
| "sm_work NvmLoad = 1"

lemma response_work:
  assumes "handle fmul (Response r) s = Some (s', es)" and "replies q r"
  shows "sum_list (map sm_work (asks es)) < sm_work q"
  using assms
  by (cases q; cases r; cases "currentState s"; cases "smKind s")
    (auto simp: sm_defs Let_def split: option.splits if_splits)

lemma completion_exists: "\<exists>r. replies q r"
proof (cases q)
  case EstimateNumberOfPolePairs
  then have "replies q (PolePairsDone None)" by simp
  then show ?thesis ..
next
  case EstimateResistanceAndInductance
  then have "replies q (ResistanceAndInductanceDone None None)" by simp
  then show ?thesis ..
next
  case (ForceAlignment p)
  then have "replies q (AlignmentDone None)" by simp
  then show ?thesis ..
next
  case (EstimateFrictionAndInertia kt p)
  then have "replies q (FrictionAndInertiaDone None None)" by simp
  then show ?thesis ..
next
  case (NvmSave d)
  then have "replies q (SaveDone Ok)" by simp
  then show ?thesis ..
next
  case NvmInvalidate
  then have "replies q (InvalidateDone Ok)" by simp
  then show ?thesis ..
next
  case NvmIsValid
  then have "replies q (ValidityDone True)" by simp
  then show ?thesis ..
next
  case NvmLoad
  then have "replies q (LoadDone None Ok)" by simp
  then show ?thesis ..
qed

section \<open>Configuration of the controller\<close>

text \<open>
  While boot requests are owed the machine has not been calibrated; and once the machine is
  ready, the controller and the encoder hold the calibration it would be enabled with.
\<close>

definition configuration_inv :: "FocStateMachine \<Rightarrow> sm_request list \<Rightarrow> nat option \<times> f32 option \<Rightarrow> bool" where
  "configuration_inv s qs c \<longleftrightarrow>
     (NvmIsValid \<in> set qs \<or> NvmLoad \<in> set qs \<longrightarrow> currentState s = Idle \<or> is_fault (currentState s)) \<and>
     count_list qs NvmIsValid + count_list qs NvmLoad \<le> 1 \<and>
     (case currentState s of Ready d \<Rightarrow> calibrationData s = d | _ \<Rightarrow> True) \<and>
     (is_ready (currentState s) \<or> currentState s = Enabled \<longrightarrow>
        c = (Some (unat (polePairs (calibrationData s))), Some (encoderZeroOffset (calibrationData s))))"

lemma configuration_outside:
  assumes "configuration_inv s qs c" and "handle fmul ev s = Some (s', es)"
    and "after_boot ev s qs" and "\<not> is_response ev"
  shows "configuration_inv s' (qs @ asks es) (configured c es)"
  using assms
  by (cases ev; cases "currentState s")
    (auto simp: sm_defs configuration_inv_def after_boot_def Let_def split: if_splits)

lemma configuration_service:
  assumes inv: "configuration_inv s (xs @ q # ys) c" and h: "handle fmul (Response r) s = Some (s', es)" and "replies q r"
  shows "configuration_inv s' (xs @ ys @ asks es) (configured c es)"
proof (cases r)
  case (LoadDone d st)
  then have q: "q = NvmLoad" using assms(3) by (cases q) auto
  with inv have "NvmIsValid \<notin> set (xs @ ys)" "NvmLoad \<notin> set (xs @ ys)"
    by (auto simp: configuration_inv_def count_list_0_iff [symmetric])
  with inv h LoadDone q show ?thesis
    by (cases "currentState s"; cases d)
      (auto simp: sm_defs configuration_inv_def Let_def split: if_splits)
next
  case (ValidityDone v)
  then have q: "q = NvmIsValid" using assms(3) by (cases q) auto
  with inv have "NvmIsValid \<notin> set (xs @ ys)" "NvmLoad \<notin> set (xs @ ys)"
    by (auto simp: configuration_inv_def count_list_0_iff [symmetric])
  with inv h ValidityDone q show ?thesis
    by (cases "currentState s") (auto simp: sm_defs configuration_inv_def Let_def split: if_splits)
next
  case (InvalidateDone st)
  with assms show ?thesis
    by (cases q; cases "currentState s") (auto simp: sm_defs configuration_inv_def Let_def split: if_splits)
next
  case (SaveDone st)
  with assms show ?thesis
    by (cases q; cases "currentState s") (auto simp: sm_defs configuration_inv_def Let_def split: if_splits)
next
  case (PolePairsDone n)
  with assms show ?thesis
    by (cases q; cases "currentState s") (auto simp: sm_defs configuration_inv_def split: option.splits if_splits)
next
  case (ResistanceAndInductanceDone x y)
  with assms show ?thesis
    by (cases q; cases "currentState s") (auto simp: sm_defs configuration_inv_def split: option.splits if_splits)
next
  case (AlignmentDone a)
  with assms show ?thesis
    by (cases q; cases "currentState s"; cases "smKind s")
      (auto simp: sm_defs configuration_inv_def split: option.splits if_splits)
next
  case (FrictionAndInertiaDone x y)
  with assms show ?thesis
    by (cases q; cases "currentState s") (auto simp: sm_defs configuration_inv_def split: option.splits if_splits)
qed

lemma reach_configuration:
  "sm_reach fmul after_boot s qs cbs log \<Longrightarrow> configuration_inv s qs (configured (None, None) log)"
proof (induction rule: sm_reach.induct)
  case (boot k v f kt s es)
  then show ?case by (auto simp: CheckNvmOnBoot_def FocStateMachine_init_def configuration_inv_def)
next
  case (outside s qs cbs log ev s' es)
  show ?case using configuration_outside [OF outside.IH outside.hyps(4) outside.hyps(3) outside.hyps(2)] by simp
next
  case (service s xs q ys cbs log r s' es)
  show ?case using configuration_service [OF service.IH service.hyps(3) service.hyps(2)] by simp
qed

end
