(* ===== verification/Sm_Properties.thy ===== *)
theory Sm_Properties
  imports Sm_Invariants
begin

text \<open>
  The properties of the motor state machine of the three control modes.
\<close>

section \<open>Single steps\<close>

text \<open>C8 (no exception). Every command, fault notification and service completion returns in every
  state: \<open>std::get\<close> is only reached while calibrating, and a position machine without an
  identification service never dereferences it.\<close>

theorem sm_handlers_return: "\<exists>s' es. handle fmul ev s = Some (s', es)"
  by (rule handle_total)

text \<open>C9 (state graph). The machine becomes enabled only by an enable command in \<open>Ready\<close>; it starts
  calibrating only by a calibrate command while stopped and with no command pending; it becomes
  ready only by disabling, by a successful save while calibrating, or by a successful load in
  \<open>Idle\<close>; and it leaves a fault only by a clear-fault command, to \<open>Idle\<close>, or for another fault.\<close>

theorem sm_state_graph:
  assumes "handle fmul ev s = Some (s', es)"
  shows "(currentState s' = Enabled \<longrightarrow> currentState s = Enabled \<or> (ev = Enable \<and> is_ready (currentState s))) \<and>
    (is_calibrating (currentState s') \<longrightarrow> is_calibrating (currentState s) \<or>
       ((\<exists>cb. ev = Calibrate cb) \<and> IsStopped (currentState s) \<and> \<not> HasPendingCommand s)) \<and>
    (is_ready (currentState s') \<longrightarrow> is_ready (currentState s) \<or>
       (ev = Disable \<and> currentState s = Enabled) \<or>
       (ev = Response (SaveDone Ok) \<and> is_calibrating (currentState s)) \<or>
       ((\<exists>d. ev = Response (LoadDone d Ok)) \<and> currentState s = Idle)) \<and>
    (is_fault (currentState s) \<longrightarrow> is_fault (currentState s') \<or> (ev = ClearFault \<and> currentState s' = Idle))"
proof (cases ev)
  case (Response r)
  with assms show ?thesis
    by (cases r; cases "currentState s"; cases "smKind s")
      (auto simp: sm_defs Let_def split: option.splits if_splits)
next
  case (Calibrate cb)
  with assms show ?thesis by (cases "currentState s") (auto simp: sm_defs split: if_splits)
next
  case (ClearCalibration cb)
  with assms show ?thesis by (cases "currentState s") (auto simp: sm_defs split: if_splits)
qed (use assms in \<open>cases "currentState s"; auto simp: sm_defs Let_def split: if_splits\<close>)+

theorem sm_state_graph_witness:
  "currentState (fst (CmdEnable ((FocStateMachine_init TorqueStateMachine 0 0 0)\<lparr>currentState := Ready CalibrationData_init\<rparr>))) = Enabled \<and>
   \<not> is_fault Enabled"
  using sm_state_graph [of "\<lambda>_ _. 0" Enable "(FocStateMachine_init TorqueStateMachine 0 0 0)\<lparr>currentState := Ready CalibrationData_init\<rparr>"]
  by (simp add: CmdEnable_def EnterEnabled_def)



text \<open>Online estimates. Online estimates reach a controller only while the motor is enabled and
  only when both values of the pair are finite and positive: each gain update carries physical
  values, and outside \<open>Enabled\<close> nothing is sent.\<close>

lemma sm_online_estimates_physical:
  "(currentState s \<noteq> Enabled \<longrightarrow> ApplyOnlineEstimates j b r l s = []) \<and>
   (\<forall>v j' b' w. SetPidBasedOnInertiaAndFriction v j' b' w \<in> set (ApplyOnlineEstimates j b r l s) \<longrightarrow>
      j' = j \<and> b' = b \<and> isfinite j \<and> \<not> le_zero j \<and> isfinite b \<and> \<not> le_zero b) \<and>
   (\<forall>v r' l' f n. SetPidBasedOnResistanceAndInductance v r' l' f n \<in> set (ApplyOnlineEstimates j b r l s) \<longrightarrow>
      r' = r \<and> l' = l \<and> isfinite r \<and> \<not> le_zero r \<and> isfinite l \<and> \<not> le_zero l)"
  by (auto simp: ApplyOnlineEstimates_def)

lemma sm_online_estimates_physical_witness:
  "\<not> le_zero 0x3F800000 \<and> SetPidBasedOnInertiaAndFriction 0 0x3F800000 0x3F800000 velocityBandwidthRadPerSec
     \<in> set (ApplyOnlineEstimates 0x3F800000 0x3F800000 0 0x7F800000
             ((FocStateMachine_init SpeedStateMachine 0 0 0)\<lparr>currentState := Enabled\<rparr>))"
proof -
  have "SetPidBasedOnInertiaAndFriction 0 0x3F800000 0x3F800000 velocityBandwidthRadPerSec
     \<in> set (ApplyOnlineEstimates 0x3F800000 0x3F800000 0 0x7F800000
             ((FocStateMachine_init SpeedStateMachine 0 0 0)\<lparr>currentState := Enabled\<rparr>))"
    by (simp add: ApplyOnlineEstimates_def isfinite_def le_zero_def FocStateMachine_init_def)
  with sm_online_estimates_physical show ?thesis by blast
qed

section \<open>A calibration from start to end\<close>

text \<open>Running a list of events, collecting the effects.\<close>

fun run_events :: "(f32 \<Rightarrow> f32 \<Rightarrow> f32) \<Rightarrow> sm_event list \<Rightarrow> FocStateMachine \<Rightarrow> sm_result option" where
  "run_events fmul [] s = Some (s, [])"
| "run_events fmul (ev # evs) s =
     do { (s', es) \<leftarrow> handle fmul ev s; (s'', es') \<leftarrow> run_events fmul evs s'; Some (s'', es @ es') }"

text \<open>The data a successful calibration stores.\<close>

definition measured_electrical :: "nat \<Rightarrow> f32 \<Rightarrow> f32 \<Rightarrow> f32 \<Rightarrow> CalibrationData" where
  "measured_electrical n r l a = CalibrationData_init
     \<lparr>polePairs := word_of_nat n, rPhase := r, lD := l, lQ := l, encoderZeroOffset := a\<rparr>"

definition measured_mechanical :: "(f32 \<Rightarrow> f32 \<Rightarrow> f32) \<Rightarrow> f32 \<Rightarrow> f32 \<Rightarrow> CalibrationData \<Rightarrow> CalibrationData" where
  "measured_mechanical fmul fr j d = d
     \<lparr>inertia := j, frictionViscous := fr, kpVelocity := fmul j velocityBandwidthRadPerSec,
      kiVelocity := fmul fr velocityBandwidthRadPerSec\<rparr>"

definition calibration_events :: "sm_kind \<Rightarrow> callback \<Rightarrow> nat \<Rightarrow> f32 \<Rightarrow> f32 \<Rightarrow> f32 \<Rightarrow> f32 \<Rightarrow> f32 \<Rightarrow> sm_event list" where
  "calibration_events k cb n r l a fr j =
     [Calibrate cb, Response (PolePairsDone (Some n)), Response (ResistanceAndInductanceDone (Some r) (Some l)),
      Response (AlignmentDone (Some a))] @
     (if k = TorqueStateMachine then [] else [Response (FrictionAndInertiaDone (Some fr) (Some j))])"

definition calibration_result :: "(f32 \<Rightarrow> f32 \<Rightarrow> f32) \<Rightarrow> sm_kind \<Rightarrow> nat \<Rightarrow> f32 \<Rightarrow> f32 \<Rightarrow> f32 \<Rightarrow> f32 \<Rightarrow> f32 \<Rightarrow> CalibrationData" where
  "calibration_result fmul k n r l a fr j =
     (if k = TorqueStateMachine then measured_electrical n r l a
      else measured_mechanical fmul fr j (measured_electrical n r l a))"

text \<open>C10 (calibration). From \<open>Idle\<close> or \<open>Ready\<close> with no command pending, a calibration whose steps all
  succeed identifies pole pairs, resistance and inductance, alignment and (outside torque mode)
  friction and inertia in this order, saves exactly the measured data, and on a successful save
  ends in \<open>Ready\<close> with that data applied to controller and encoder and the command answered
  \<open>ok\<close> once; on a failed save it ends in the calibration fault with \<open>nvmFailed\<close> and the motor
  stopped.\<close>

theorem sm_calibration_runs:
  assumes "IsStopped (currentState s)" and "\<not> HasPendingCommand s" and "smKind s \<noteq> PositionStateMachine False"
    and "d = calibration_result fmul (smKind s) n r l a fr j"
  shows "\<exists>s1 es1 s2 es2.
    run_events fmul (calibration_events (smKind s) cb n r l a fr j) s = Some (s1, es1) \<and>
    asks es1 = [EstimateNumberOfPolePairs, EstimateResistanceAndInductance, ForceAlignment (unat (polePairs d))] @
      (if smKind s = TorqueStateMachine then [] else [EstimateFrictionAndInertia (mechTorqueConstant s) (unat (polePairs d))]) @
      [NvmSave d] \<and>
    answered es1 = [] \<and> \<not> motor False es1 \<and>
    handle fmul (Response (SaveDone st)) s1 = Some (s2, es2) \<and>
    (if st = Ok then currentState s2 = Ready d \<and> calibrationData s2 = d \<and> answered es2 = [(cb, CmdOk)] \<and>
       configured (None, None) es2 = (Some (unat (polePairs d)), Some (encoderZeroOffset d))
     else currentState s2 = Fault CalibrationFailedCode \<and> answered es2 = [(cb, NvmFailed)] \<and> FocStop \<in> set es2)"
proof -
  have stopped: "\<not> is_calibrating (currentState s)" "currentState s \<noteq> Enabled"
    using assms(1) by (cases "currentState s"; simp)+
  show ?thesis
    using assms stopped
    by (cases "smKind s")
      (auto simp: sm_defs calibration_events_def calibration_result_def measured_electrical_def
        measured_mechanical_def Let_def fault_effects_def)
qed

theorem sm_calibration_runs_witness:
  "\<exists>s1 es1 s2 es2.
    run_events (\<lambda>x y. x) (calibration_events TorqueStateMachine 9 260 11 12 13 0 0) (FocStateMachine_init TorqueStateMachine 0 0 0) = Some (s1, es1) \<and>
    last (asks es1) = NvmSave (measured_electrical 4 11 12 13) \<and>
    handle (\<lambda>x y. x) (Response (SaveDone Ok)) s1 = Some (s2, es2) \<and> answered es2 = [(9, CmdOk)]"
proof -
  have four: "measured_electrical 260 11 12 13 = measured_electrical 4 11 12 13"
    by (simp add: measured_electrical_def)
  from sm_calibration_runs [of "FocStateMachine_init TorqueStateMachine 0 0 0" "measured_electrical 4 11 12 13" "\<lambda>x y. x" 260 11 12 13 0 0 9 Ok]
  show ?thesis
    by (force simp: FocStateMachine_init_def HasPendingCommand_def calibration_result_def four)
qed

section \<open>Schedules\<close>

text \<open>Playing a concrete schedule: what the outside does, and which owed request completes how.\<close>

datatype sm_act = Do sm_event | Complete nat sm_response

fun play :: "(f32 \<Rightarrow> f32 \<Rightarrow> f32) \<Rightarrow> (sm_event \<Rightarrow> FocStateMachine \<Rightarrow> sm_request list \<Rightarrow> bool) \<Rightarrow> sm_act list \<Rightarrow>
    FocStateMachine \<times> sm_request list \<times> callback list \<times> sm_effect list \<Rightarrow>
    (FocStateMachine \<times> sm_request list \<times> callback list \<times> sm_effect list) option" where
  "play fmul allowed [] c = Some c"
| "play fmul allowed (Do ev # acts) (s, qs, cbs, log) =
     (if is_response ev \<or> \<not> allowed ev s qs then None
      else do { (s', es) \<leftarrow> handle fmul ev s;
                play fmul allowed acts (s', qs @ asks es, cbs @ commands_of ev, log @ es) })"
| "play fmul allowed (Complete i r # acts) (s, qs, cbs, log) =
     (if i < length qs \<and> replies (qs ! i) r
      then do { (s', es) \<leftarrow> handle fmul (Response r) s;
                play fmul allowed acts (s', take i qs @ drop (Suc i) qs @ asks es, cbs, log @ es) }
      else None)"

lemma play_reach:
  "play fmul allowed acts (s, qs, cbs, log) = Some (s', qs', cbs', log') \<Longrightarrow>
   sm_reach fmul allowed s qs cbs log \<Longrightarrow> sm_reach fmul allowed s' qs' cbs' log'"
proof (induction fmul allowed acts "(s, qs, cbs, log)" arbitrary: s qs cbs log rule: play.induct)
  case (1 fmul allowed)
  then show ?case by simp
next
  case (2 fmul allowed ev acts s qs cbs log)
  obtain t es where h: "handle fmul ev s = Some (t, es)" using handle_total by blast
  with "2.prems"(1) have g: "\<not> is_response ev" "allowed ev s qs"
      and p: "play fmul allowed acts (t, qs @ asks es, cbs @ commands_of ev, log @ es) = Some (s', qs', cbs', log')"
    by (simp_all split: if_splits)
  show ?case
    using "2.hyps" [OF _ h refl p] g sm_reach.outside [OF "2.prems"(2) g h] by simp
next
  case (3 fmul allowed i r acts s qs cbs log)
  obtain t es where h: "handle fmul (Response r) s = Some (t, es)" using handle_total by blast
  with "3.prems"(1) have g: "i < length qs" "replies (qs ! i) r"
      and p: "play fmul allowed acts (t, take i qs @ drop (Suc i) qs @ asks es, cbs, log @ es) = Some (s', qs', cbs', log')"
    by (simp_all split: if_splits)
  from "3.prems"(2) g(1) have "sm_reach fmul allowed s (take i qs @ qs ! i # drop (Suc i) qs) cbs log"
    by (simp add: id_take_nth_drop [symmetric])
  from sm_reach.service [OF this g(2) h] "3.hyps" [OF _ h refl p] g show ?case by simp
qed

definition boot_state :: "sm_kind \<Rightarrow> FocStateMachine \<times> sm_request list \<times> callback list \<times> sm_effect list" where
  "boot_state k = (FocStateMachine_init k 0 0 0, [NvmIsValid], [], [Ask NvmIsValid])"

lemma play_boot:
  assumes "play fmul allowed acts (boot_state k) = Some (s, qs, cbs, log)"
  shows "sm_reach fmul allowed s qs cbs log"
proof (rule play_reach)
  show "play fmul allowed acts (FocStateMachine_init k 0 0 0, [NvmIsValid], [], [Ask NvmIsValid]) = Some (s, qs, cbs, log)"
    using assms by (simp add: boot_state_def)
  show "sm_reach fmul allowed (FocStateMachine_init k 0 0 0) [NvmIsValid] [] [Ask NvmIsValid]"
    using sm_reach.boot [of k 0 0 0] by (simp add: CheckNvmOnBoot_def)
qed

lemma empty_data [simp]: "polePairs CalibrationData_init = 0" "encoderZeroOffset CalibrationData_init = 0"
  by (simp_all add: CalibrationData_init_def)

lemmas play_defs = boot_state_def FocStateMachine_init_def sm_defs fault_effects_def
  anything_def patient_def after_boot_def Let_def

abbreviation boot_acts :: "sm_act list" where
  "boot_acts \<equiv> [Complete 0 (ValidityDone True), Complete 0 (LoadDone (Some CalibrationData_init) Ok)]"

text \<open>Motor. Under every schedule of commands, faults and service completions the motor is
  running exactly while the machine is in \<open>Enabled\<close>: each way out of it stops the controller.\<close>

lemma sm_motor_runs_iff_enabled:
  assumes "sm_reach fmul anything s qs cbs log"
  shows "motor False log \<longleftrightarrow> currentState s = Enabled"
  using assms by (rule reach_motor)

lemma sm_motor_runs_iff_enabled_witness:
  "\<exists>s log. play (\<lambda>_ _. 0) anything (boot_acts @ [Do Enable]) (boot_state TorqueStateMachine) = Some (s, [], [], log) \<and>
     currentState s = Enabled \<and> motor False log"
proof -
  obtain s log where p: "play (\<lambda>_ _. 0) anything (boot_acts @ [Do Enable]) (boot_state TorqueStateMachine) = Some (s, [], [], log)"
      "currentState s = Enabled"
    by (simp add: play_defs)
  with sm_motor_runs_iff_enabled [OF play_boot [OF p(1)]] show ?thesis by auto
qed

text \<open>C18 (configured). With a client that lets the boot-time check finish before it calibrates: whenever
  the machine is ready or enabled, the pole pairs and the encoder offset last given to the
  controller and the encoder are those of the calibration the machine holds.\<close>

theorem sm_enabled_is_configured:
  assumes "sm_reach fmul after_boot s qs cbs log" and "is_ready (currentState s) \<or> currentState s = Enabled"
  shows "configured (None, None) log =
    (Some (unat (polePairs (calibrationData s))), Some (encoderZeroOffset (calibrationData s)))"
  using reach_configuration [OF assms(1)] assms(2) by (auto simp: configuration_inv_def)

theorem sm_enabled_is_configured_witness:
  "\<exists>s log. play (\<lambda>_ _. 0) after_boot (boot_acts @ [Do Enable, Do Disable]) (boot_state SpeedStateMachine) = Some (s, [], [], log) \<and>
     is_ready (currentState s) \<and> configured (None, None) log = (Some (unat (polePairs (calibrationData s))), Some (encoderZeroOffset (calibrationData s)))"
proof -
  obtain s log where p: "play (\<lambda>_ _. 0) after_boot (boot_acts @ [Do Enable, Do Disable]) (boot_state SpeedStateMachine) = Some (s, [], [], log)"
      "is_ready (currentState s)"
    by (simp add: play_defs)
  with sm_enabled_is_configured [OF play_boot [OF p(1)]] show ?thesis by auto
qed



text \<open>Stranded command. The client's patience is needed: a clear-calibration command that is
  followed by an enable before the memory has answered is never answered. The memory's completion
  is dropped because the machine is not stopped, nothing is owed any more, and after a disable
  every further calibrate command is rejected.\<close>

lemma sm_enable_strands_clear:
  "\<exists>s log. sm_reach fmul anything s [] [3] log \<and> pendingCommandCallback s = Some 3 \<and>
     answered log = [] \<and> IsStopped (currentState s) \<and>
     (\<forall>cb. handle fmul (Calibrate cb) s = Some (s, [CmdDone cb Rejected]))"
proof -
  obtain s log where p: "play fmul anything (boot_acts @ [Do (ClearCalibration 3), Do Enable, Complete 0 (InvalidateDone Ok), Do Disable])
      (boot_state TorqueStateMachine) = Some (s, [], [3], log)"
    and s: "pendingCommandCallback s = Some 3" "answered log = []" "IsStopped (currentState s)"
    by (simp add: play_defs)
  have "\<forall>cb. handle fmul (Calibrate cb) s = Some (s, [CmdDone cb Rejected])"
    using s(1) by (simp add: CmdCalibrate_def HasPendingCommand_def)
  with s play_boot [OF p] show ?thesis by blast
qed

text \<open>Stale save. A save that is still being written when an emergency stop and a new calibrate
  command arrive completes the new calibration: before anything has been measured the machine
  reports \<open>ok\<close> and is ready with empty data, zero pole pairs among it, given to the controller.\<close>

lemma sm_stale_save_completes_calibration:
  "\<exists>s qs log. sm_reach fmul anything s qs [1, 2] log \<and>
     currentState s = Ready CalibrationData_init \<and> polePairs (calibrationData s) = 0 \<and>
     (2, CmdOk) \<in> set (answered log) \<and> fst (configured (None, None) log) = Some 0 \<and>
     qs = [EstimateNumberOfPolePairs] \<and> (\<exists>s' es. handle fmul Enable s = Some (s', es) \<and> currentState s' = Enabled)"
proof -
  obtain s qs log where p: "play fmul anything
      ([Complete 0 (ValidityDone False)] @ [Do (Calibrate 1), Complete 0 (PolePairsDone (Some 7)), Complete 0 (ResistanceAndInductanceDone (Some 5) (Some 6)),
        Complete 0 (AlignmentDone (Some 8)), Do EmergencyStop, Do (Calibrate 2), Complete 0 (SaveDone Ok)])
      (boot_state TorqueStateMachine) = Some (s, qs, [1, 2], log)"
    and s: "currentState s = Ready CalibrationData_init" "calibrationData s = CalibrationData_init"
      "(2, CmdOk) \<in> set (answered log)" "fst (configured (None, None) log) = Some 0" "qs = [EstimateNumberOfPolePairs]"
    by (simp add: play_defs)
  have "\<exists>s' es. handle fmul Enable s = Some (s', es) \<and> currentState s' = Enabled"
    using s(1) by (simp add: CmdEnable_def EnterEnabled_def)
  moreover have "polePairs (calibrationData s) = 0" using s(2) by simp
  ultimately show ?thesis using s(1,3,4,5) play_boot [OF p] by blast
qed

text \<open>A position machine without an identification service never asks for a save.\<close>

lemma position_step:
  assumes "smKind s = PositionStateMachine False" and "handle fmul ev s = Some (s', es)"
  shows "NvmSave d \<notin> set (asks es) \<or> IsCalibrating StepFrictionAndInertia s"
proof (cases ev)
  case (Response r)
  with assms show ?thesis
    by (cases r; cases "currentState s") (auto simp: sm_defs Let_def split: option.splits if_splits)
qed (use assms in \<open>auto simp: sm_defs Let_def split: if_splits\<close>)

lemma position_no_mechanical:
  assumes "smKind s = PositionStateMachine False" and "handle fmul ev s = Some (s', es)"
    and "\<not> IsCalibrating StepFrictionAndInertia s"
  shows "\<not> IsCalibrating StepFrictionAndInertia s'"
proof (cases ev)
  case (Response r)
  with assms show ?thesis
    by (cases r; cases "currentState s") (auto simp: sm_defs Let_def split: option.splits if_splits)
qed (use assms in \<open>auto simp: sm_defs Let_def split: if_splits\<close>)

lemma position_reach:
  "sm_reach fmul allowed s qs cbs log \<Longrightarrow> smKind s = PositionStateMachine False \<Longrightarrow>
   NvmSave d \<notin> set (asks log) \<and> \<not> IsCalibrating StepFrictionAndInertia s"
proof (induction rule: sm_reach.induct)
  case (boot k v f kt s es)
  then show ?case by (auto simp: CheckNvmOnBoot_def FocStateMachine_init_def IsCalibrating_def)
next
  case (outside s qs cbs log ev s' es)
  from outside.hyps(4) outside.prems have "smKind s = PositionStateMachine False" by (simp add: handle_kind)
  with outside.IH position_step [OF this outside.hyps(4)] position_no_mechanical [OF this outside.hyps(4)]
  show ?case by auto
next
  case (service s xs q ys cbs log r s' es)
  from service.hyps(3) service.prems have "smKind s = PositionStateMachine False" by (metis handle_kind)
  with service.IH position_step [OF this service.hyps(3)] position_no_mechanical [OF this service.hyps(3)]
  show ?case by auto
qed

text \<open>Position mode. Under every schedule a position machine without an identification service
  never saves a calibration: a successful alignment ends in the calibration fault, with the
  waiting command answered \<open>abortedByFault\<close>. It becomes ready from stored data only.\<close>

lemma sm_position_needs_mech_ident:
  assumes "sm_reach fmul anything s qs cbs log" and "smKind s = PositionStateMachine False"
  shows "NvmSave d \<notin> set (asks log) \<and>
    (IsCalibrating StepAlignment s \<longrightarrow>
       (\<exists>s' es. handle fmul (Response (AlignmentDone (Some a))) s = Some (s', es) \<and>
          currentState s' = Fault CalibrationFailedCode \<and>
          answered es = (case pendingCommandCallback s of None \<Rightarrow> [] | Some cb \<Rightarrow> [(cb, AbortedByFault)])))"
proof -
  have "IsCalibrating StepAlignment s \<Longrightarrow>
    (\<exists>s' es. handle fmul (Response (AlignmentDone (Some a))) s = Some (s', es) \<and>
       currentState s' = Fault CalibrationFailedCode \<and>
       answered es = (case pendingCommandCallback s of None \<Rightarrow> [] | Some cb \<Rightarrow> [(cb, AbortedByFault)]))"
    using assms(2) by (cases "currentState s") (auto simp: sm_defs fault_effects_def split: option.split)
  with position_reach [OF assms] show ?thesis by blast
qed

lemma sm_position_needs_mech_ident_witness:
  "\<exists>s log. play (\<lambda>_ _. 0) anything [Do (Calibrate 1), Complete 1 (PolePairsDone (Some 7)),
      Complete 1 (ResistanceAndInductanceDone (Some 5) (Some 6))] (boot_state (PositionStateMachine False))
      = Some (s, [NvmIsValid, ForceAlignment 7], [1], log) \<and>
     (\<exists>s' es. handle (\<lambda>_ _. 0) (Response (AlignmentDone (Some 8))) s = Some (s', es) \<and>
        currentState s' = Fault CalibrationFailedCode \<and> answered es = [(1, AbortedByFault)])"
proof -
  obtain s log where p: "play (\<lambda>_ _. 0) anything [Do (Calibrate 1), Complete 1 (PolePairsDone (Some 7)),
      Complete 1 (ResistanceAndInductanceDone (Some 5) (Some 6))] (boot_state (PositionStateMachine False))
      = Some (s, [NvmIsValid, ForceAlignment 7], [1], log)"
    and s: "smKind s = PositionStateMachine False" "IsCalibrating StepAlignment s" "pendingCommandCallback s = Some 1"
    by (simp add: play_defs)
  from sm_position_needs_mech_ident [OF play_boot [OF p] s(1), of CalibrationData_init 8] s(2,3) p
  show ?thesis by auto
qed

end
