(* ===== verification/Control_Mode.thy ===== *)
theory Control_Mode
  imports Sm_Correct
begin

text \<open>
  \<open>ControlMode.hpp\<close> and \<open>ControlModeStateMachine\<close>: the owner of the active motor state machine.
  Selecting a mode persists the configuration first and replaces the machine object when the
  save has succeeded. The objects are numbered: a service completion carries the number of the
  object whose lambda it runs, and a completion for an object that has been replaced has no
  result (\<open>None\<close>), because the lambda holds a dangling \<open>this\<close>.
\<close>

section \<open>Modes and results\<close>

datatype ControlMode = ModeTorque | ModeSpeed | ModePosition

datatype SelectResult = SelectOk | SelectBusy | SelectInvalidMode | SelectNvmFailed

fun mode_raw :: "ControlMode \<Rightarrow> u8" where
  "mode_raw ModeTorque = 0"
| "mode_raw ModeSpeed = 1"
| "mode_raw ModePosition = 2"

definition ControlModeFromRaw :: "u8 \<Rightarrow> ControlMode" where
  "ControlModeFromRaw raw = (if raw = 1 then ModeSpeed else if raw = 2 then ModePosition else ModeTorque)"

lemma ControlModeFromRaw_raw [simp]: "ControlModeFromRaw (mode_raw m) = m"
  by (cases m) (simp_all add: ControlModeFromRaw_def)

section \<open>The object\<close>

text \<open>
  \<open>activeSm\<close> is \<open>None\<close> for \<open>std::monostate\<close>. \<open>machineId\<close> counts the machines built so far.
  The rest of the last line are constants the machines are built from.
\<close>

record ControlModeStateMachine =
  cmConfig :: ConfigData
  pendingSelectMode :: ControlMode
  pendingSelectCallback :: "callback option"
  previousDefaultControlMode :: u8
  activeSm :: "FocStateMachine option"
  machineId :: nat
  mechIdentOverride :: bool
  hwVdc :: f32
  hwBaseFrequency :: u32
  calTorqueConstant :: f32

datatype cm_effect =
  Machine nat sm_effect
| SaveConfigReq ConfigData
| SelectDone callback SelectResult
| SetPointTorque f32 f32
| SetPointSpeed f32
| SetPointPosition f32
| SetCurrentTunings f32 "f32 \<times> f32 \<times> f32"
| SetSpeedPid f32 "f32 \<times> f32 \<times> f32"
| SetPositionTunings "f32 \<times> f32 \<times> f32"
| TraceMode string

type_synonym cm_result = "ControlModeStateMachine \<times> cm_effect list"

definition kind_of :: "bool \<Rightarrow> ControlMode \<Rightarrow> sm_kind" where
  "kind_of override mode = (case mode of ModeTorque \<Rightarrow> TorqueStateMachine | ModeSpeed \<Rightarrow> SpeedStateMachine
     | ModePosition \<Rightarrow> PositionStateMachine override)"

text \<open>Building a machine: its constructor ends with the boot-time NVM check.\<close>

definition new_machine :: "ControlModeStateMachine \<Rightarrow> ControlMode \<Rightarrow> sm_result" where
  "new_machine c mode =
     CheckNvmOnBoot (FocStateMachine_init (kind_of (mechIdentOverride c) mode)
       (hwVdc c) (hwBaseFrequency c) (calTorqueConstant c))"

definition Activate :: "ControlMode \<Rightarrow> ControlModeStateMachine \<Rightarrow> cm_result" where
  "Activate mode c =
     (let stop = (case activeSm c of None \<Rightarrow> [] | Some sm \<Rightarrow> map (Machine (machineId c)) (snd (CmdEmergencyStop sm)));
          (sm', es) = new_machine c mode
      in (c\<lparr>activeSm := Some sm', machineId := Suc (machineId c)\<rparr>,
          stop @ map (Machine (Suc (machineId c))) es))"

definition ControlModeStateMachine_new :: "ConfigData \<Rightarrow> bool \<Rightarrow> f32 \<Rightarrow> u32 \<Rightarrow> f32 \<Rightarrow> cm_result" where
  "ControlModeStateMachine_new cfg override v f kt =
     Activate (ControlModeFromRaw (defaultControlMode cfg))
       \<lparr>cmConfig = cfg, pendingSelectMode = ModeTorque, pendingSelectCallback = None,
        previousDefaultControlMode = 0, activeSm = None, machineId = 0,
        mechIdentOverride = override, hwVdc = v, hwBaseFrequency = f, calTorqueConstant = kt\<rparr>"

section \<open>Selecting a mode\<close>

text \<open>A failed \<open>really_assert\<close>, and \<open>ActiveStateMachine\<close> of \<open>std::monostate\<close>, are \<open>None\<close>.\<close>

definition Select :: "ControlMode \<Rightarrow> callback \<Rightarrow> ControlModeStateMachine \<Rightarrow> cm_result option" where
  "Select mode onDone c =
     (if pendingSelectCallback c \<noteq> None then None
      else case activeSm c of None \<Rightarrow> None
      | Some sm \<Rightarrow>
          if \<not> IsStopped (currentState sm) then Some (c, [SelectDone onDone SelectBusy])
          else (let cfg = (cmConfig c)\<lparr>defaultControlMode := mode_raw mode\<rparr> in
            Some (c\<lparr>previousDefaultControlMode := defaultControlMode (cmConfig c), cmConfig := cfg,
                    pendingSelectMode := mode, pendingSelectCallback := Some onDone\<rparr>,
                  [SaveConfigReq cfg])))"

text \<open>Firing an empty \<open>pendingSelectCallback\<close> is undefined.\<close>

definition FireSelect :: "SelectResult \<Rightarrow> ControlModeStateMachine \<Rightarrow> cm_result option" where
  "FireSelect r c =
     (case pendingSelectCallback c of None \<Rightarrow> None
      | Some cb \<Rightarrow> Some (c\<lparr>pendingSelectCallback := None\<rparr>, [SelectDone cb r]))"

definition OnSaveConfigDone :: "NvmStatus \<Rightarrow> ControlModeStateMachine \<Rightarrow> cm_result option" where
  "OnSaveConfigDone st c =
     (if st \<noteq> Ok
      then FireSelect SelectNvmFailed
             (c\<lparr>cmConfig := (cmConfig c)\<lparr>defaultControlMode := previousDefaultControlMode c\<rparr>\<rparr>)
      else (let (c', es) = Activate (pendingSelectMode c) c in
            do { (c'', es') \<leftarrow> FireSelect SelectOk c'; Some (c'', es @ es') }))"

fun mode_of_kind :: "sm_kind \<Rightarrow> ControlMode" where
  "mode_of_kind TorqueStateMachine = ModeTorque"
| "mode_of_kind SpeedStateMachine = ModeSpeed"
| "mode_of_kind (PositionStateMachine _) = ModePosition"

definition Active :: "ControlModeStateMachine \<Rightarrow> ControlMode" where
  "Active c = (case activeSm c of None \<Rightarrow> ModeTorque | Some sm \<Rightarrow> mode_of_kind (smKind sm))"

section \<open>Set points and gains\<close>

definition TrySetTorque :: "f32 \<Rightarrow> f32 \<Rightarrow> ControlModeStateMachine \<Rightarrow> bool \<times> cm_effect list" where
  "TrySetTorque d q c =
     (if activeSm c = None \<or> Active c \<noteq> ModeTorque then (False, []) else (True, [SetPointTorque d q]))"

definition TrySetSpeed :: "f32 \<Rightarrow> ControlModeStateMachine \<Rightarrow> bool \<times> cm_effect list" where
  "TrySetSpeed w c = (if Active c \<noteq> ModeSpeed then (False, []) else (True, [SetPointSpeed w]))"

definition TrySetPosition :: "f32 \<Rightarrow> ControlModeStateMachine \<Rightarrow> bool \<times> cm_effect list" where
  "TrySetPosition p c = (if Active c \<noteq> ModePosition then (False, []) else (True, [SetPointPosition p]))"

text \<open>The gains arrive as three numbers of the CAN library; \<open>cast\<close> is their conversion to float.\<close>

definition to_tunings :: "('v \<Rightarrow> f32) \<Rightarrow> 'v \<times> 'v \<times> 'v \<Rightarrow> f32 \<times> f32 \<times> f32" where
  "to_tunings cast g = (case g of (kp, ki, kd) \<Rightarrow> (cast kp, cast ki, cast kd))"

definition TrySetCurrentPidGains ::
  "('v \<Rightarrow> f32) \<Rightarrow> 'v \<times> 'v \<times> 'v \<Rightarrow> ControlModeStateMachine \<Rightarrow> bool \<times> cm_effect list" where
  "TrySetCurrentPidGains cast g c =
     (if activeSm c = None then (False, []) else (True, [SetCurrentTunings (hwVdc c) (to_tunings cast g)]))"

definition TrySetSpeedPidGains ::
  "('v \<Rightarrow> f32) \<Rightarrow> 'v \<times> 'v \<times> 'v \<Rightarrow> ControlModeStateMachine \<Rightarrow> bool \<times> cm_effect list" where
  "TrySetSpeedPidGains cast g c =
     (if Active c = ModeSpeed \<or> Active c = ModePosition
      then (True, [SetSpeedPid (hwVdc c) (to_tunings cast g)]) else (False, []))"

definition TrySetPositionPidGains ::
  "('v \<Rightarrow> f32) \<Rightarrow> 'v \<times> 'v \<times> 'v \<Rightarrow> ControlModeStateMachine \<Rightarrow> bool \<times> cm_effect list" where
  "TrySetPositionPidGains cast g c =
     (if Active c \<noteq> ModePosition then (False, []) else (True, [SetPositionTunings (to_tunings cast g)]))"

section \<open>Commands and completions\<close>

text \<open>A command to \<open>ActiveStateMachine()\<close>.\<close>

definition ToActive :: "(f32 \<Rightarrow> f32 \<Rightarrow> f32) \<Rightarrow> sm_event \<Rightarrow> ControlModeStateMachine \<Rightarrow> cm_result option" where
  "ToActive fmul ev c =
     do { sm \<leftarrow> activeSm c;
          (sm', es) \<leftarrow> handle fmul ev sm;
          Some (c\<lparr>activeSm := Some sm'\<rparr>, map (Machine (machineId c)) es) }"

text \<open>A service completes a request that machine number \<open>g\<close> made.\<close>

definition OnMachineResponse ::
  "(f32 \<Rightarrow> f32 \<Rightarrow> f32) \<Rightarrow> nat \<Rightarrow> sm_response \<Rightarrow> ControlModeStateMachine \<Rightarrow> cm_result option" where
  "OnMachineResponse fmul g r c = (if g \<noteq> machineId c then None else ToActive fmul (Response r) c)"

text \<open>The console: lifecycle commands, and the two commands of the control mode itself.\<close>

datatype cm_console = ConsoleLifecycle sm_event | ConsoleApplyEstimates | ConsoleActiveMode

definition RegisterCliCommands :: "callback \<Rightarrow> (string \<times> string \<times> cm_console) list" where
  "RegisterCliCommands ignored =
     map (\<lambda>(l, a, ev). (l, a, ConsoleLifecycle ev)) (lifecycle_cli ignored) @
     [(''apply_estimates'', ''ae'', ConsoleApplyEstimates), (''active_mode'', ''am'', ConsoleActiveMode)]"

text \<open>\<open>j b r l\<close> are the current values of the online estimators.\<close>

fun Console :: "(f32 \<Rightarrow> f32 \<Rightarrow> f32) \<Rightarrow> f32 \<Rightarrow> f32 \<Rightarrow> f32 \<Rightarrow> f32 \<Rightarrow> cm_console \<Rightarrow> ControlModeStateMachine \<Rightarrow> cm_result option" where
  "Console fmul j b r l (ConsoleLifecycle ev) c = ToActive fmul ev c"
| "Console fmul j b r l ConsoleApplyEstimates c =
     do { sm \<leftarrow> activeSm c; Some (c, map (Machine (machineId c)) (ApplyOnlineEstimates j b r l sm)) }"
| "Console fmul j b r l ConsoleActiveMode c =
     Some (c, [TraceMode (case Active c of ModeSpeed \<Rightarrow> ''Active mode: speed''
       | ModePosition \<Rightarrow> ''Active mode: position'' | ModeTorque \<Rightarrow> ''Active mode: torque'')])"

end
