(* ===== verification/Can_Bridge.thy ===== *)
theory Can_Bridge
  imports Control_Mode
begin

text \<open>
  \<open>FocMotorCanBridge\<close>: the CAN command handlers on top of the control mode. The message
  identifiers, acknowledgement and error codes are named as in the source; the numeric values
  of the three CAN modes, the conversion of gains and the scaling of set points belong to the
  CAN library and are parameters.
\<close>

record can_library =
  canTorque :: u8
  canSpeed :: u8
  canPosition :: u8
  currentOf :: "16 word \<Rightarrow> f32"
  speedOf :: "16 word \<Rightarrow> f32"
  positionOf :: "16 word \<Rightarrow> f32"
  gainOf :: "int \<Rightarrow> f32"

definition can_library_ok :: "can_library \<Rightarrow> bool" where
  "can_library_ok K \<longleftrightarrow> canTorque K \<noteq> canSpeed K \<and> canTorque K \<noteq> canPosition K \<and> canSpeed K \<noteq> canPosition K"

datatype foc_id =
  focSetPidCurrentId | focSetPidSpeedId | focSetPidPositionId | focIdentifyElectricalId
| focIdentifyMechanicalId | focRequestTelemetryId | focSetEncoderResolutionId
| focSelectControlModeId | focSetTorqueSetpointId | focSetSpeedSetpointId | focSetPositionSetpointId
| focConfigureTelemetryRateId

datatype CanAckStatus = AckSuccess | AckInvalidPayload | AckCategoryError | AckNotImplemented
datatype FocMotorCategoryError = ErrModeMismatch | ErrPersistenceFailed | ErrBusy

fun ToCanMode :: "can_library \<Rightarrow> ControlMode \<Rightarrow> u8" where
  "ToCanMode K ModeSpeed = canSpeed K"
| "ToCanMode K ModePosition = canPosition K"
| "ToCanMode K ModeTorque = canTorque K"

definition FromCanMode :: "can_library \<Rightarrow> u8 \<Rightarrow> ControlMode" where
  "FromCanMode K m =
     (if m = canSpeed K then ModeSpeed else if m = canPosition K then ModePosition else ModeTorque)"

fun ToAckStatus :: "SelectResult \<Rightarrow> CanAckStatus" where
  "ToAckStatus SelectOk = AckSuccess"
| "ToAckStatus SelectInvalidMode = AckInvalidPayload"
| "ToAckStatus SelectBusy = AckCategoryError"
| "ToAckStatus SelectNvmFailed = AckCategoryError"

fun ToCategoryError :: "SelectResult \<Rightarrow> FocMotorCategoryError" where
  "ToCategoryError SelectNvmFailed = ErrPersistenceFailed"
| "ToCategoryError _ = ErrBusy"

datatype bridge_effect =
  Control cm_effect
| OnDone callback
| OnModeResult callback u8
| SendCommandAck foc_id CanAckStatus
| SendCategoryError foc_id FocMotorCategoryError

record FocMotorCanBridge =
  bridgeMode :: ControlModeStateMachine
  bridgePendingSelect :: "callback option"

type_synonym bridge_result = "FocMotorCanBridge \<times> bridge_effect list"

text \<open>
  The commands of the category server. Each carries the callback it is to be answered with,
  except those the bridge answers with an acknowledgement only. The calibrate command of
  \<open>OnIdentifyElectrical\<close> ignores its result: its callback is the number \<open>ignored\<close>.
\<close>

datatype can_command =
  QueryMotorType callback | Start callback | Stop callback
| SetPidCurrent "int \<times> int \<times> int" callback | SetPidSpeed "int \<times> int \<times> int" callback
| SetPidPosition "int \<times> int \<times> int" callback
| IdentifyElectrical | IdentifyMechanical | RequestTelemetry | SetEncoderResolution
| SelectControlMode u8 callback
| SetTorqueSetpoint "16 word" callback | SetSpeedSetpoint "16 word" callback | SetPositionSetpoint "16 word" callback
| CanClearFault callback | CanEmergencyStop callback | ConfigureTelemetryRate

definition forward :: "(f32 \<Rightarrow> f32 \<Rightarrow> f32) \<Rightarrow> sm_event \<Rightarrow> bridge_effect \<Rightarrow> FocMotorCanBridge \<Rightarrow> bridge_result option" where
  "forward fmul ev answer b =
     do { (c, es) \<leftarrow> ToActive fmul ev (bridgeMode b);
          Some (b\<lparr>bridgeMode := c\<rparr>, map Control es @ [answer]) }"

definition try_set :: "bool \<times> cm_effect list \<Rightarrow> foc_id \<Rightarrow> callback \<Rightarrow> FocMotorCanBridge \<Rightarrow> bridge_result" where
  "try_set r i onDone b =
     (if fst r then (b, map Control (snd r) @ [OnDone onDone])
      else (b, [SendCategoryError i ErrModeMismatch]))"

text \<open>The lambda \<open>OnSelectControlMode\<close> passes to \<open>Select\<close>.\<close>

definition OnSelected :: "can_library \<Rightarrow> SelectResult \<Rightarrow> FocMotorCanBridge \<Rightarrow> bridge_result option" where
  "OnSelected K r b =
     (let b' = b\<lparr>bridgePendingSelect := None\<rparr> in
      if r = SelectOk
      then (case bridgePendingSelect b of None \<Rightarrow> None
            | Some cb \<Rightarrow> Some (b', [OnModeResult cb (ToCanMode K (Active (bridgeMode b)))]))
      else if r = SelectInvalidMode then Some (b', [SendCommandAck focSelectControlModeId AckInvalidPayload])
      else Some (b', [SendCategoryError focSelectControlModeId (ToCategoryError r)]))"

text \<open>The bridge's lambda is callback number 0 of the control mode; running it where it is fired.\<close>

fun run_selected :: "can_library \<Rightarrow> cm_effect list \<Rightarrow> FocMotorCanBridge \<Rightarrow> bridge_result option" where
  "run_selected K [] b = Some (b, [])"
| "run_selected K (SelectDone cb r # es) b =
     do { (b', fs) \<leftarrow> OnSelected K r b; (b'', gs) \<leftarrow> run_selected K es b'; Some (b'', fs @ gs) }"
| "run_selected K (e # es) b =
     do { (b', fs) \<leftarrow> run_selected K es b; Some (b', Control e # fs) }"

definition OnSelectControlMode :: "can_library \<Rightarrow> u8 \<Rightarrow> callback \<Rightarrow> FocMotorCanBridge \<Rightarrow> bridge_result option" where
  "OnSelectControlMode K m onActivated b =
     (if bridgePendingSelect b \<noteq> None then None
      else do { (c, es) \<leftarrow> Select (FromCanMode K m) 0 (bridgeMode b);
                run_selected K es (b\<lparr>bridgePendingSelect := Some onActivated, bridgeMode := c\<rparr>) })"

text \<open>The configuration save that a selection asked for completes.\<close>

definition bridge_config_saved :: "can_library \<Rightarrow> NvmStatus \<Rightarrow> FocMotorCanBridge \<Rightarrow> bridge_result option" where
  "bridge_config_saved K st b =
     do { (c, es) \<leftarrow> OnSaveConfigDone st (bridgeMode b);
          run_selected K es (b\<lparr>bridgeMode := c\<rparr>) }"

fun on_command :: "can_library \<Rightarrow> (f32 \<Rightarrow> f32 \<Rightarrow> f32) \<Rightarrow> callback \<Rightarrow> can_command \<Rightarrow> FocMotorCanBridge \<Rightarrow> bridge_result option" where
  "on_command K fmul ignored (QueryMotorType cb) b = Some (b, [OnModeResult cb (ToCanMode K (Active (bridgeMode b)))])"
| "on_command K fmul ignored (Start cb) b = forward fmul Enable (OnDone cb) b"
| "on_command K fmul ignored (Stop cb) b = forward fmul Disable (OnDone cb) b"
| "on_command K fmul ignored (SetPidCurrent g cb) b =
     Some (try_set (TrySetCurrentPidGains (gainOf K) g (bridgeMode b)) focSetPidCurrentId cb b)"
| "on_command K fmul ignored (SetPidSpeed g cb) b =
     Some (try_set (TrySetSpeedPidGains (gainOf K) g (bridgeMode b)) focSetPidSpeedId cb b)"
| "on_command K fmul ignored (SetPidPosition g cb) b =
     Some (try_set (TrySetPositionPidGains (gainOf K) g (bridgeMode b)) focSetPidPositionId cb b)"
| "on_command K fmul ignored IdentifyElectrical b =
     forward fmul (Calibrate ignored) (SendCommandAck focIdentifyElectricalId AckSuccess) b"
| "on_command K fmul ignored IdentifyMechanical b = Some (b, [SendCommandAck focIdentifyMechanicalId AckNotImplemented])"
| "on_command K fmul ignored RequestTelemetry b = Some (b, [SendCommandAck focRequestTelemetryId AckNotImplemented])"
| "on_command K fmul ignored SetEncoderResolution b = Some (b, [SendCommandAck focSetEncoderResolutionId AckNotImplemented])"
| "on_command K fmul ignored (SelectControlMode m cb) b = OnSelectControlMode K m cb b"
| "on_command K fmul ignored (SetTorqueSetpoint v cb) b =
     Some (try_set (TrySetTorque 0 (currentOf K v) (bridgeMode b)) focSetTorqueSetpointId cb b)"
| "on_command K fmul ignored (SetSpeedSetpoint v cb) b =
     Some (try_set (TrySetSpeed (speedOf K v) (bridgeMode b)) focSetSpeedSetpointId cb b)"
| "on_command K fmul ignored (SetPositionSetpoint v cb) b =
     Some (try_set (TrySetPosition (positionOf K v) (bridgeMode b)) focSetPositionSetpointId cb b)"
| "on_command K fmul ignored (CanClearFault cb) b = forward fmul ClearFault (OnDone cb) b"
| "on_command K fmul ignored (CanEmergencyStop cb) b = forward fmul EmergencyStop (OnDone cb) b"
| "on_command K fmul ignored ConfigureTelemetryRate b = Some (b, [SendCommandAck focConfigureTelemetryRateId AckNotImplemented])"

end
