(* ===== verification/Mode_Correct.thy ===== *)
theory Mode_Correct
  imports Can_Bridge
begin

text \<open>
  The interface \<open>FocStateMachineBase\<close> as a locale, with the motor state machine and the control
  mode as its two providers, and the schedules of the control mode: commands, selections,
  completions of configuration saves and of machine requests.
\<close>

section \<open>The life-cycle interface\<close>

text \<open>What \<open>FocStateMachineBase\<close> promises to the console and to the CAN bridge.\<close>

locale foc_lifecycle =
  fixes state :: "'m \<Rightarrow> State" and issue :: "sm_event \<Rightarrow> 'm \<Rightarrow> ('m \<times> sm_effect list) option" and good :: "'m \<Rightarrow> bool"
  assumes issue_total: "good m \<Longrightarrow> \<exists>m' es. issue ev m = Some (m', es) \<and> good m'"
    and issue_motor: "good m \<Longrightarrow> issue ev m = Some (m', es) \<Longrightarrow> motor (state m = Enabled) es \<longleftrightarrow> state m' = Enabled"
    and issue_enabled: "good m \<Longrightarrow> issue ev m = Some (m', es) \<Longrightarrow> state m' = Enabled \<Longrightarrow>
      state m = Enabled \<or> ev = Enable \<and> is_ready (state m)"
    and issue_stop: "good m \<Longrightarrow> issue EmergencyStop m = Some (m', es) \<Longrightarrow>
      state m' \<noteq> Enabled \<and> \<not> is_calibrating (state m')"

fun issue_all :: "(sm_event \<Rightarrow> 'm \<Rightarrow> ('m \<times> sm_effect list) option) \<Rightarrow> sm_event list \<Rightarrow> 'm \<Rightarrow> ('m \<times> sm_effect list) option" where
  "issue_all issue [] m = Some (m, [])"
| "issue_all issue (ev # evs) m =
     do { (m', es) \<leftarrow> issue ev m; (m'', es') \<leftarrow> issue_all issue evs m'; Some (m'', es @ es') }"

context foc_lifecycle
begin

lemma issue_all_total: "good m \<Longrightarrow> \<exists>m' es. issue_all issue evs m = Some (m', es) \<and> good m'"
proof (induction evs arbitrary: m)
  case (Cons ev evs)
  from issue_total [OF Cons.prems, of ev] obtain m1 es1 where "issue ev m = Some (m1, es1)" "good m1" by blast
  moreover from Cons.IH [OF this(2)] obtain m2 es2 where "issue_all issue evs m1 = Some (m2, es2)" "good m2" by blast
  ultimately show ?case by simp
qed simp

lemma issue_all_motor:
  "good m \<Longrightarrow> issue_all issue evs m = Some (m', es) \<Longrightarrow> motor (state m = Enabled) es \<longleftrightarrow> state m' = Enabled"
proof (induction evs arbitrary: m m' es)
  case (Cons ev evs)
  from issue_total [OF Cons.prems(1), of ev] obtain m1 es1 where s: "issue ev m = Some (m1, es1)" "good m1" by blast
  with Cons.prems(2) obtain es2 where r: "issue_all issue evs m1 = Some (m', es2)" "es = es1 @ es2"
    by (auto split: bind_splits)
  from Cons.IH [OF s(2) r(1)] issue_motor [OF Cons.prems(1) s(1)] r(2) show ?case by simp
qed simp

lemma issue_all_stop:
  assumes "good m" and "issue_all issue (evs @ [EmergencyStop]) m = Some (m', es)"
  shows "state m' \<noteq> Enabled \<and> \<not> is_calibrating (state m') \<and> \<not> motor (state m = Enabled) es"
proof -
  from issue_all_total [OF assms(1), of evs] obtain m1 es1 where s: "issue_all issue evs m = Some (m1, es1)" "good m1" by blast
  have "issue_all issue (evs @ [ev]) m = do { (m1, es1) \<leftarrow> issue_all issue evs m; (m2, es2) \<leftarrow> issue ev m1; Some (m2, es1 @ es2) }"
    for ev m by (induction evs arbitrary: m) (auto split: bind_splits intro!: bind_option_cong)
  with s assms(2) obtain es2 where "issue EmergencyStop m1 = Some (m', es2)"
    by (auto split: bind_splits)
  with issue_stop [OF s(2)] issue_all_motor [OF assms] show ?thesis by blast
qed

end

interpretation sm_lifecycle: foc_lifecycle currentState "handle fmul" "\<lambda>_. True"
  for fmul :: "f32 \<Rightarrow> f32 \<Rightarrow> f32"
proof (unfold_locales, goal_cases)
  case (1 m ev)
  then show ?case using handle_total by simp
next
  case (2 m ev m' es)
  then show ?case by (simp add: handle_motor)
next
  case (3 m ev m' es)
  then show ?case
  proof (cases ev)
    case (Response r)
    with 3 show ?thesis
      by (cases r; cases "currentState m"; cases "smKind m")
        (auto simp: sm_defs Let_def split: option.splits if_splits)
  qed (auto simp: sm_defs Let_def split: if_splits)
next
  case (4 m m' es)
  then show ?case by (cases "currentState m") (auto simp: CmdEmergencyStop_def CompletePendingCommand_eq)
qed

text \<open>The control mode provides the interface through its active machine.\<close>

fun machine_effects :: "cm_effect list \<Rightarrow> sm_effect list" where
  "machine_effects [] = []"
| "machine_effects (Machine g e # es) = e # machine_effects es"
| "machine_effects (_ # es) = machine_effects es"

lemma machine_effects_map [simp]: "machine_effects (map (Machine g) es) = es"
  by (induction es) simp_all

lemma machine_effects_append [simp]: "machine_effects (es @ fs) = machine_effects es @ machine_effects fs"
  by (induction es rule: machine_effects.induct) simp_all

definition cm_issue :: "(f32 \<Rightarrow> f32 \<Rightarrow> f32) \<Rightarrow> sm_event \<Rightarrow> ControlModeStateMachine \<Rightarrow> (ControlModeStateMachine \<times> sm_effect list) option" where
  "cm_issue fmul ev c = do { (c', es) \<leftarrow> ToActive fmul ev c; Some (c', machine_effects es) }"

definition cm_state :: "ControlModeStateMachine \<Rightarrow> State" where
  "cm_state c = (case activeSm c of None \<Rightarrow> Idle | Some sm \<Rightarrow> currentState sm)"

lemma cm_issue_Some:
  assumes "activeSm c = Some sm"
  shows "cm_issue fmul ev c = Some (c', es) \<longleftrightarrow>
    (\<exists>sm'. handle fmul ev sm = Some (sm', es) \<and> c' = c\<lparr>activeSm := Some sm'\<rparr>)"
  using assms handle_total [of fmul ev sm] by (auto simp: cm_issue_def ToActive_def)

interpretation cm_lifecycle: foc_lifecycle cm_state "cm_issue fmul" "\<lambda>c. activeSm c \<noteq> None"
  for fmul :: "f32 \<Rightarrow> f32 \<Rightarrow> f32"
proof (unfold_locales, goal_cases)
  case (1 m ev)
  then obtain sm where a: "activeSm m = Some sm" by auto
  with handle_total [of fmul ev sm] show ?case by (auto simp: cm_issue_Some [OF a])
next
  case (2 m ev m' es)
  then obtain sm where a: "activeSm m = Some sm" by auto
  with 2 show ?case by (auto simp: cm_issue_Some [OF a] cm_state_def dest: sm_lifecycle.issue_motor [rotated])
next
  case (3 m ev m' es)
  then obtain sm where a: "activeSm m = Some sm" by auto
  with 3 show ?case by (auto simp: cm_issue_Some [OF a] cm_state_def dest: sm_lifecycle.issue_enabled [rotated])
next
  case (4 m m' es)
  then obtain sm where a: "activeSm m = Some sm" by auto
  with 4 obtain sm' where "handle fmul EmergencyStop sm = Some (sm', es)" "m' = m\<lparr>activeSm := Some sm'\<rparr>"
    by (auto simp: cm_issue_Some [OF a] simp del: handle.simps)
  with sm_lifecycle.issue_stop [OF _ this(1)] show ?case by (simp add: cm_state_def)
qed

end
