(* ===== verification/Mode_Properties.thy ===== *)
theory Mode_Properties
  imports Mode_Correct
begin

text \<open>
  The properties of mode selection and of the CAN bridge: what a selection does, that the
  persisted mode and the active machine agree, that switching stops the motor, when a service
  completion reaches a machine that no longer exists, and how CAN commands are answered.
\<close>

section \<open>Effects of a selection\<close>

fun selected :: "cm_effect list \<Rightarrow> (callback \<times> SelectResult) list" where
  "selected [] = []"
| "selected (SelectDone cb r # es) = (cb, r) # selected es"
| "selected (_ # es) = selected es"

fun saves :: "cm_effect list \<Rightarrow> ConfigData list" where
  "saves [] = []"
| "saves (SaveConfigReq d # es) = d # saves es"
| "saves (_ # es) = saves es"

text \<open>The requests machines make, with the number of the machine.\<close>

fun machine_asks :: "cm_effect list \<Rightarrow> (nat \<times> sm_request) list" where
  "machine_asks [] = []"
| "machine_asks (Machine g (Ask q) # es) = (g, q) # machine_asks es"
| "machine_asks (_ # es) = machine_asks es"

lemma selected_append [simp]: "selected (es @ fs) = selected es @ selected fs"
  by (induction es rule: selected.induct) simp_all

lemma saves_append [simp]: "saves (es @ fs) = saves es @ saves fs"
  by (induction es rule: saves.induct) simp_all

lemma machine_asks_append [simp]: "machine_asks (es @ fs) = machine_asks es @ machine_asks fs"
  by (induction es rule: machine_asks.induct) simp_all

lemma machine_only [simp]: "selected (map (Machine g) es) = []" "saves (map (Machine g) es) = []"
  by (induction es) simp_all

lemma machine_asks_map [simp]: "machine_asks (map (Machine g) es) = map (Pair g) (asks es)"
  by (induction es rule: asks.induct) simp_all

lemma mode_of_kind_of [simp]: "mode_of_kind (kind_of override m) = m"
  by (cases m) (simp_all add: kind_of_def)

lemma estop_asks [simp]: "asks (snd (CmdEmergencyStop s)) = []" "\<not> motor on (snd (CmdEmergencyStop s))"
  by (simp_all add: CmdEmergencyStop_def CompletePendingCommand_eq)

lemmas activate_defs = Activate_def new_machine_def CheckNvmOnBoot_def FocStateMachine_init_def Let_def

lemma Activate_result:
  assumes "Activate mode c = (c', es)"
  shows "c' = c\<lparr>activeSm := activeSm c', machineId := Suc (machineId c)\<rparr>" and "Active c' = mode"
    and "activeSm c' \<noteq> None" and "cm_state c' = Idle"
    and "selected es = []" and "saves es = []" and "machine_asks es = [(Suc (machineId c), NvmIsValid)]"
    and "activeSm c \<noteq> None \<Longrightarrow> \<not> motor on (machine_effects es)"
    and "activeSm c = None \<Longrightarrow> motor on (machine_effects es) = on"
  using assms by (auto simp: activate_defs Active_def cm_state_def split: option.splits)

section \<open>Schedules of the control mode\<close>

text \<open>
  \<open>cm_reach fmul quiet c qs ss cbs log\<close>: \<open>qs\<close> are the machine requests and \<open>ss\<close> the
  configuration saves still to be completed, \<open>cbs\<close> the callbacks of all selections. With
  \<open>quiet\<close>, a successful save only completes when no machine request is outstanding.
\<close>

inductive cm_reach ::
  "(f32 \<Rightarrow> f32 \<Rightarrow> f32) \<Rightarrow> bool \<Rightarrow> ControlModeStateMachine \<Rightarrow> (nat \<times> sm_request) list \<Rightarrow> ConfigData list \<Rightarrow>
   callback list \<Rightarrow> cm_effect list \<Rightarrow> bool"
  for fmul :: "f32 \<Rightarrow> f32 \<Rightarrow> f32" and quiet :: bool where
  cm_boot: "ControlModeStateMachine_new cfg override v f kt = (c, es) \<Longrightarrow>
    cm_reach fmul quiet c (machine_asks es) (saves es) [] es"
| cm_command: "cm_reach fmul quiet c qs ss cbs log \<Longrightarrow> \<not> is_response ev \<Longrightarrow> ToActive fmul ev c = Some (c', es) \<Longrightarrow>
    cm_reach fmul quiet c' (qs @ machine_asks es) ss cbs (log @ es)"
| cm_select: "cm_reach fmul quiet c qs ss cbs log \<Longrightarrow> Select mode cb c = Some (c', es) \<Longrightarrow>
    cm_reach fmul quiet c' qs (ss @ saves es) (cbs @ [cb]) (log @ es)"
| cm_saved: "cm_reach fmul quiet c qs (xs @ d # ys) cbs log \<Longrightarrow> quiet \<longrightarrow> st = Ok \<longrightarrow> qs = [] \<Longrightarrow>
    OnSaveConfigDone st c = Some (c', es) \<Longrightarrow>
    cm_reach fmul quiet c' (qs @ machine_asks es) (xs @ ys) cbs (log @ es)"
| cm_response: "cm_reach fmul quiet c (xs @ (g, q) # ys) ss cbs log \<Longrightarrow> replies q r \<Longrightarrow>
    OnMachineResponse fmul g r c = Some (c', es) \<Longrightarrow>
    cm_reach fmul quiet c' (xs @ ys @ machine_asks es) ss cbs (log @ es)"

definition select_pending :: "ControlModeStateMachine \<Rightarrow> callback multiset" where
  "select_pending c = (case pendingSelectCallback c of None \<Rightarrow> {#} | Some cb \<Rightarrow> {#cb#})"

definition cm_inv :: "ControlModeStateMachine \<Rightarrow> ConfigData list \<Rightarrow> callback list \<Rightarrow> cm_effect list \<Rightarrow> bool" where
  "cm_inv c ss cbs log \<longleftrightarrow> activeSm c \<noteq> None \<and>
     (motor False (machine_effects log) \<longleftrightarrow> cm_state c = Enabled) \<and>
     mset cbs = select_pending c + mset (map fst (selected log)) \<and>
     (case pendingSelectCallback c of
        None \<Rightarrow> ss = [] \<and> ControlModeFromRaw (defaultControlMode (cmConfig c)) = Active c
      | Some cb \<Rightarrow> ss = [cmConfig c] \<and> ControlModeFromRaw (previousDefaultControlMode c) = Active c \<and>
          defaultControlMode (cmConfig c) = mode_raw (pendingSelectMode c))"

lemma Forward_eq:
  assumes "activeSm c = Some sm"
  shows "ToActive fmul ev c = Some (c', es) \<longleftrightarrow>
    (\<exists>sm' fs. handle fmul ev sm = Some (sm', fs) \<and> c' = c\<lparr>activeSm := Some sm'\<rparr> \<and> es = map (Machine (machineId c)) fs)"
  using assms handle_total [of fmul ev sm] by (auto simp: ToActive_def)

lemma cm_inv_forward:
  assumes "cm_inv c ss cbs log" and "ToActive fmul ev c = Some (c', es)"
  shows "cm_inv c' ss cbs (log @ es)"
proof -
  from assms(1) obtain sm where a: "activeSm c = Some sm" by (auto simp: cm_inv_def)
  with assms(2) obtain sm' fs where h: "handle fmul ev sm = Some (sm', fs)"
      and c': "c' = c\<lparr>activeSm := Some sm'\<rparr>" "es = map (Machine (machineId c)) fs"
    by (auto simp: Forward_eq [OF a])
  from h have "smKind sm' = smKind sm" by (rule handle_kind)
  moreover note handle_motor [OF h]
  ultimately show ?thesis
    using assms(1) a c' by (auto simp: cm_inv_def cm_state_def Active_def select_pending_def split: option.splits)
qed

lemma cm_inv_select:
  assumes "cm_inv c ss cbs log" and "Select mode cb c = Some (c', es)"
  shows "cm_inv c' (ss @ saves es) (cbs @ [cb]) (log @ es)"
  using assms
  by (auto simp: cm_inv_def Select_def cm_state_def Active_def select_pending_def Let_def split: if_splits option.splits)

lemma cm_inv_saved:
  assumes inv: "cm_inv c (xs @ d # ys) cbs log" and s: "OnSaveConfigDone st c = Some (c', es)"
  shows "cm_inv c' (xs @ ys) cbs (log @ es)"
proof -
  from inv obtain cb where p: "pendingSelectCallback c = Some cb"
    by (auto simp: cm_inv_def split: option.splits)
  with inv have nil: "xs = []" "ys = []" by (auto simp: cm_inv_def Cons_eq_append_conv append_eq_Cons_conv)
  show ?thesis
  proof (cases "st = Ok")
    case True
    obtain c1 es1 where a: "Activate (pendingSelectMode c) c = (c1, es1)" by fastforce
    note r = Activate_result [OF a]
    have eq: "pendingSelectCallback c1 = Some cb" "cmConfig c1 = cmConfig c"
      using p r(1) by (metis ControlModeStateMachine.select_convs ControlModeStateMachine.surjective ControlModeStateMachine.update_convs)+
    with True s a p have c': "c' = c1\<lparr>pendingSelectCallback := None\<rparr>" "es = es1 @ [SelectDone cb SelectOk]"
      by (auto simp: OnSaveConfigDone_def FireSelect_def)
    show ?thesis
      using inv p nil r eq c'
      by (auto simp: cm_inv_def select_pending_def cm_state_def Active_def)
  next
    case False
    with s p have "c' = c\<lparr>cmConfig := (cmConfig c)\<lparr>defaultControlMode := previousDefaultControlMode c\<rparr>, pendingSelectCallback := None\<rparr>"
        "es = [SelectDone cb SelectNvmFailed]"
      by (auto simp: OnSaveConfigDone_def FireSelect_def)
    then show ?thesis
      using inv p nil by (auto simp: cm_inv_def select_pending_def cm_state_def Active_def)
  qed
qed

lemma reach_cm_inv: "cm_reach fmul quiet c qs ss cbs log \<Longrightarrow> cm_inv c ss cbs log"
proof (induction rule: cm_reach.induct)
  case (cm_boot cfg override v f kt c es)
  then show ?case
    unfolding ControlModeStateMachine_new_def
    by (auto simp: activate_defs cm_inv_def select_pending_def cm_state_def Active_def)
next
  case (cm_command c qs ss cbs log ev c' es)
  then show ?case by (blast intro: cm_inv_forward)
next
  case (cm_select c qs ss cbs log mode cb c' es)
  then show ?case by (blast intro: cm_inv_select)
next
  case (cm_saved c qs xs d ys cbs log st c' es)
  then show ?case by (blast intro: cm_inv_saved)
next
  case (cm_response c xs g q ys ss cbs log r c' es)
  then show ?case by (auto simp: OnMachineResponse_def split: if_splits intro: cm_inv_forward)
qed

section \<open>Playing a schedule\<close>

datatype cm_action = CmCommand sm_event | CmSelect ControlMode callback | CmSaved NvmStatus | CmAnswer nat sm_response

type_synonym cm_config = "ControlModeStateMachine \<times> (nat \<times> sm_request) list \<times> ConfigData list \<times> callback list \<times> cm_effect list"

fun cm_act :: "(f32 \<Rightarrow> f32 \<Rightarrow> f32) \<Rightarrow> bool \<Rightarrow> cm_action \<Rightarrow> cm_config \<Rightarrow> cm_config option" where
  "cm_act fmul quiet (CmCommand ev) (c, qs, ss, cbs, log) =
     (if is_response ev then None
      else do { (c', es) \<leftarrow> ToActive fmul ev c; Some (c', qs @ machine_asks es, ss, cbs, log @ es) })"
| "cm_act fmul quiet (CmSelect mode cb) (c, qs, ss, cbs, log) =
     do { (c', es) \<leftarrow> Select mode cb c; Some (c', qs, ss @ saves es, cbs @ [cb], log @ es) }"
| "cm_act fmul quiet (CmSaved st) (c, qs, ss, cbs, log) =
     (if ss = [] \<or> (quiet \<and> st = Ok \<and> qs \<noteq> []) then None
      else do { (c', es) \<leftarrow> OnSaveConfigDone st c; Some (c', qs @ machine_asks es, tl ss, cbs, log @ es) })"
| "cm_act fmul quiet (CmAnswer i r) (c, qs, ss, cbs, log) =
     (if i < length qs \<and> replies (snd (qs ! i)) r
      then do { (c', es) \<leftarrow> OnMachineResponse fmul (fst (qs ! i)) r c;
                Some (c', take i qs @ drop (Suc i) qs @ machine_asks es, ss, cbs, log @ es) }
      else None)"

fun cm_play :: "(f32 \<Rightarrow> f32 \<Rightarrow> f32) \<Rightarrow> bool \<Rightarrow> cm_action list \<Rightarrow> cm_config \<Rightarrow> cm_config option" where
  "cm_play fmul quiet [] x = Some x"
| "cm_play fmul quiet (a # acts) x = do { y \<leftarrow> cm_act fmul quiet a x; cm_play fmul quiet acts y }"

definition cm_reached :: "(f32 \<Rightarrow> f32 \<Rightarrow> f32) \<Rightarrow> bool \<Rightarrow> cm_config \<Rightarrow> bool" where
  "cm_reached fmul quiet x = (case x of (c, qs, ss, cbs, log) \<Rightarrow> cm_reach fmul quiet c qs ss cbs log)"

lemma cm_act_reached:
  assumes "cm_reached fmul quiet x" and "cm_act fmul quiet a x = Some y"
  shows "cm_reached fmul quiet y"
proof (cases x)
  case (fields c qs ss cbs log)
  with assms(1) have r: "cm_reach fmul quiet c qs ss cbs log" by (simp add: cm_reached_def)
  show ?thesis
  proof (cases a)
    case (CmCommand ev)
    with fields assms(2) cm_reach.cm_command [OF r] show ?thesis
      by (auto simp: cm_reached_def split: if_splits bind_splits)
  next
    case (CmSelect mode cb)
    with fields assms(2) cm_reach.cm_select [OF r] show ?thesis
      by (auto simp: cm_reached_def split: bind_splits)
  next
    case (CmSaved st)
    with fields assms(2) obtain d ss' c' es where s: "ss = [] @ d # ss'" "quiet \<longrightarrow> st = Ok \<longrightarrow> qs = []"
        "OnSaveConfigDone st c = Some (c', es)" "y = (c', qs @ machine_asks es, ss', cbs, log @ es)"
      by (cases ss) (auto split: if_splits bind_splits)
    from cm_reach.cm_saved [OF r [unfolded s(1)] s(2,3)] s(4) show ?thesis by (simp add: cm_reached_def)
  next
    case (CmAnswer i r')
    with fields assms(2) obtain c' es where s: "i < length qs" "replies (snd (qs ! i)) r'"
        "OnMachineResponse fmul (fst (qs ! i)) r' c = Some (c', es)"
        "y = (c', take i qs @ drop (Suc i) qs @ machine_asks es, ss, cbs, log @ es)"
      by (auto split: if_splits bind_splits)
    from r s(1) have "cm_reach fmul quiet c (take i qs @ (fst (qs ! i), snd (qs ! i)) # drop (Suc i) qs) ss cbs log"
      by (simp add: id_take_nth_drop [symmetric])
    from cm_reach.cm_response [OF this s(2,3)] s(4) show ?thesis by (simp add: cm_reached_def)
  qed
qed

lemma cm_play_reached: "cm_reached fmul quiet x \<Longrightarrow> cm_play fmul quiet acts x = Some y \<Longrightarrow> cm_reached fmul quiet y"
  by (induction acts arbitrary: x) (auto split: bind_splits dest: cm_act_reached)

definition cm_start :: cm_config where
  "cm_start = (let (c, es) = ControlModeStateMachine_new MakeDefaultConfigData False 0 0 0
     in (c, machine_asks es, saves es, [], es))"

lemma cm_start_reached: "cm_reached fmul quiet cm_start"
  by (auto simp: cm_start_def cm_reached_def intro: cm_reach.cm_boot split: prod.split)

lemma cm_play_start: "cm_play fmul quiet acts cm_start = Some (c, qs, ss, cbs, log) \<Longrightarrow> cm_reach fmul quiet c qs ss cbs log"
  using cm_play_reached [OF cm_start_reached, of fmul quiet acts] by (auto simp: cm_reached_def)

lemmas cm_play_defs = cm_start_def ControlModeStateMachine_new_def activate_defs ToActive_def Select_def
  OnSaveConfigDone_def FireSelect_def OnMachineResponse_def sm_defs fault_effects_def kind_of_def
  MakeDefaultConfigData_def ControlModeFromRaw_def

section \<open>Properties of the control mode\<close>

text \<open>C12 (selection). A selection in a state that is not stopped is answered \<open>busy\<close> and changes nothing.
  Otherwise the new default mode is saved first; a failed save restores the configuration, keeps
  the active machine and is answered \<open>nvmFailed\<close>; a successful one stops the old machine,
  activates a fresh one of the selected mode that starts with the memory check, and is answered
  \<open>ok\<close>.\<close>

theorem cm_select_outcome:
  assumes "pendingSelectCallback c = None" and "activeSm c = Some sm"
  shows "(\<not> IsStopped (currentState sm) \<longrightarrow> Select mode cb c = Some (c, [SelectDone cb SelectBusy])) \<and>
    (IsStopped (currentState sm) \<longrightarrow>
      (\<exists>c1. Select mode cb c = Some (c1, [SaveConfigReq ((cmConfig c)\<lparr>defaultControlMode := mode_raw mode\<rparr>)]) \<and>
         activeSm c1 = activeSm c \<and>
         (\<exists>c2. OnSaveConfigDone WriteFailed c1 = Some (c2, [SelectDone cb SelectNvmFailed]) \<and>
            cmConfig c2 = cmConfig c \<and> activeSm c2 = activeSm c \<and> pendingSelectCallback c2 = None) \<and>
         (\<exists>c3 es. OnSaveConfigDone Ok c1 = Some (c3, es) \<and> Active c3 = mode \<and> cm_state c3 = Idle \<and>
            cmConfig c3 = (cmConfig c)\<lparr>defaultControlMode := mode_raw mode\<rparr> \<and> pendingSelectCallback c3 = None \<and>
            selected es = [(cb, SelectOk)] \<and> \<not> motor True (machine_effects es) \<and>
            machine_asks es = [(machineId c3, NvmIsValid)])))"
proof -
  have "motor True (snd (CmdEmergencyStop sm)) = False" by simp
  then show ?thesis
    using assms
    by (auto simp: Select_def OnSaveConfigDone_def FireSelect_def activate_defs Active_def cm_state_def)
qed

theorem cm_select_outcome_witness:
  "\<exists>c sm. activeSm c = Some sm \<and> Select ModeSpeed 4 c = Some (c, [SelectDone 4 SelectBusy])"
proof -
  let ?sm = "(FocStateMachine_init TorqueStateMachine 0 0 0)\<lparr>currentState := Enabled\<rparr>"
  let ?c = "(fst (ControlModeStateMachine_new MakeDefaultConfigData False 0 0 0))\<lparr>activeSm := Some ?sm\<rparr>"
  have "pendingSelectCallback ?c = None"
    by (simp add: ControlModeStateMachine_new_def activate_defs)
  from cm_select_outcome [OF this, of ?sm ModeSpeed 4]
  have "Select ModeSpeed 4 ?c = Some (?c, [SelectDone 4 SelectBusy])" by simp
  moreover have "activeSm ?c = Some ?sm" by simp
  ultimately show ?thesis by blast
qed

text \<open>C13 (agreement). Under every schedule the mode persisted by default and the active machine agree
  whenever no selection is pending; while one is pending, the configuration being saved names the
  selected mode and the value to roll back to names the active one. The motor runs exactly while
  the active machine is enabled, also across switches.\<close>

theorem cm_mode_matches_config:
  assumes "cm_reach fmul quiet c qs ss cbs log"
  shows "(pendingSelectCallback c = None \<longrightarrow> ControlModeFromRaw (defaultControlMode (cmConfig c)) = Active c) \<and>
    (pendingSelectCallback c \<noteq> None \<longrightarrow>
       ControlModeFromRaw (defaultControlMode (cmConfig c)) = pendingSelectMode c \<and>
       ControlModeFromRaw (previousDefaultControlMode c) = Active c \<and> ss = [cmConfig c]) \<and>
    (motor False (machine_effects log) \<longleftrightarrow> cm_state c = Enabled)"
  using reach_cm_inv [OF assms] by (auto simp: cm_inv_def split: option.splits)

theorem cm_mode_matches_config_witness:
  "\<exists>c qs log. cm_play (\<lambda>_ _. 0) False [CmSelect ModePosition 4, CmSaved Ok] cm_start = Some (c, qs, [], [4], log) \<and>
     Active c = ModePosition \<and> ControlModeFromRaw (defaultControlMode (cmConfig c)) = Active c"
proof -
  obtain c qs log where p: "cm_play (\<lambda>_ _. 0) False [CmSelect ModePosition 4, CmSaved Ok] cm_start = Some (c, qs, [], [4], log)"
      "Active c = ModePosition" "pendingSelectCallback c = None"
    by (simp add: cm_play_defs Active_def)
  with cm_mode_matches_config [OF cm_play_start [OF p(1)]] show ?thesis by auto
qed

text \<open>Selection answered. Under every schedule the selections made are those answered and the one
  pending; a pending selection is owed exactly one configuration save, whose completion, successful
  or not, is defined, answers it and leaves none pending.\<close>

lemma cm_select_answered_once:
  assumes "cm_reach fmul quiet c qs ss cbs log"
  shows "mset cbs = select_pending c + mset (map fst (selected log)) \<and>
    (pendingSelectCallback c = None \<longleftrightarrow> ss = []) \<and>
    (ss \<noteq> [] \<longrightarrow> length ss = 1 \<and>
      (\<exists>c' es. OnSaveConfigDone st c = Some (c', es) \<and> pendingSelectCallback c' = None \<and>
         mset cbs = mset (map fst (selected (log @ es)))))"
proof -
  note inv = reach_cm_inv [OF assms]
  have "\<exists>c' es. OnSaveConfigDone st c = Some (c', es) \<and> pendingSelectCallback c' = None \<and>
         mset cbs = mset (map fst (selected (log @ es)))" if p: "pendingSelectCallback c = Some cb" for cb
  proof (cases "st = Ok")
    case True
    obtain c1 es1 where a: "Activate (pendingSelectMode c) c = (c1, es1)" by fastforce
    note r = Activate_result [OF a]
    have "pendingSelectCallback c1 = Some cb"
      using p r(1) by (metis ControlModeStateMachine.select_convs ControlModeStateMachine.surjective ControlModeStateMachine.update_convs)
    with True a p r(5) inv show ?thesis
      by (auto simp: OnSaveConfigDone_def FireSelect_def cm_inv_def select_pending_def)
  next
    case False
    with p inv show ?thesis
      by (auto simp: OnSaveConfigDone_def FireSelect_def cm_inv_def select_pending_def)
  qed
  with inv show ?thesis by (auto simp: cm_inv_def split: option.splits)
qed

lemma cm_select_answered_once_witness:
  "\<exists>c qs ss log. cm_play (\<lambda>_ _. 0) False [CmSelect ModePosition 4] cm_start = Some (c, qs, ss, [4], log) \<and>
     length ss = 1 \<and> (\<exists>c' es. OnSaveConfigDone WriteFailed c = Some (c', es) \<and> pendingSelectCallback c' = None)"
proof -
  obtain c qs ss log where p: "cm_play (\<lambda>_ _. 0) False [CmSelect ModePosition 4] cm_start = Some (c, qs, ss, [4], log)" "ss \<noteq> []"
    by (simp add: cm_play_defs)
  with cm_select_answered_once [OF cm_play_start [OF p(1)], of WriteFailed] show ?thesis by auto
qed

text \<open>Stale completion. A machine request that outlives its machine: after an emergency stop during
  identification and a mode switch, the completion of the identification runs a lambda of the
  machine that was replaced.\<close>

lemma cm_completion_after_switch:
  "\<exists>c g q log. cm_reach fmul False c [(g, q), (machineId c, NvmIsValid)] [] [4] log \<and> g \<noteq> machineId c \<and>
     q = EstimateNumberOfPolePairs \<and> OnMachineResponse fmul g (PolePairsDone n) c = None"
proof -
  obtain c log where p: "cm_play fmul False [CmAnswer 0 (ValidityDone False), CmCommand (Calibrate 9),
      CmCommand EmergencyStop, CmSelect ModeSpeed 4, CmSaved Ok] cm_start
      = Some (c, [(1, EstimateNumberOfPolePairs), (2, NvmIsValid)], [], [4], log)" and g: "machineId c = 2"
    by (simp add: cm_play_defs)
  from g have "OnMachineResponse fmul 1 (PolePairsDone n) c = None" by (simp add: OnMachineResponse_def)
  moreover from g have "1 \<noteq> machineId c" by simp
  moreover have "cm_reach fmul False c [(1, EstimateNumberOfPolePairs), (machineId c, NvmIsValid)] [] [4] log"
    using cm_play_start [OF p] g by simp
  ultimately show ?thesis by blast
qed

lemma reach_quiet: "cm_reach fmul quiet c qs ss cbs log \<Longrightarrow> quiet \<Longrightarrow> \<forall>x \<in> set qs. fst x = machineId c"
proof (induction rule: cm_reach.induct)
  case (cm_boot cfg override v f kt c es)
  then show ?case by (auto simp: ControlModeStateMachine_new_def activate_defs)
next
  case (cm_command c qs ss cbs log ev c' es)
  from reach_cm_inv [OF cm_command.hyps(1)] obtain sm where a: "activeSm c = Some sm" by (auto simp: cm_inv_def)
  with cm_command show ?case by (auto simp: Forward_eq [OF a])
next
  case (cm_select c qs ss cbs log mode cb c' es)
  then show ?case by (auto simp: Select_def Let_def split: if_splits option.splits)
next
  case (cm_saved c qs xs d ys cbs log st c' es)
  show ?case
  proof (cases "st = Ok")
    case True
    with cm_saved.hyps(2) cm_saved.prems have "qs = []" by simp
    obtain c1 es1 where a: "Activate (pendingSelectMode c) c = (c1, es1)" by fastforce
    note r = Activate_result [OF a]
    have "machineId c1 = Suc (machineId c)"
      using r(1) by (metis ControlModeStateMachine.select_convs ControlModeStateMachine.surjective ControlModeStateMachine.update_convs)
    with True a r(7) \<open>qs = []\<close> cm_saved.hyps(3) show ?thesis
      by (auto simp: OnSaveConfigDone_def FireSelect_def split: option.splits)
  next
    case False
    with cm_saved show ?thesis by (auto simp: OnSaveConfigDone_def FireSelect_def split: option.splits)
  qed
next
  case (cm_response c xs g q ys ss cbs log r c' es)
  from reach_cm_inv [OF cm_response.hyps(1)] obtain sm where a: "activeSm c = Some sm" by (auto simp: cm_inv_def)
  with cm_response.hyps(3) obtain fs where "machineId c' = machineId c" "es = map (Machine (machineId c)) fs"
    by (auto simp: OnMachineResponse_def Forward_eq [OF a] split: if_splits)
  with cm_response.IH [OF cm_response.prems] show ?case by (simp add: ball_Un)
qed

text \<open>Quiet switch. When a successful configuration save only completes while no machine request is
  outstanding, every completion reaches the machine that asked, and is defined.\<close>

lemma cm_quiet_switch_is_safe:
  assumes "cm_reach fmul True c qs ss cbs log" and "(g, q) \<in> set qs"
  shows "g = machineId c \<and> OnMachineResponse fmul g r c \<noteq> None"
proof -
  from reach_cm_inv [OF assms(1)] obtain sm where a: "activeSm c = Some sm" by (auto simp: cm_inv_def)
  have g: "g = machineId c" using reach_quiet [OF assms(1)] assms(2) by auto
  obtain s' es where "handle fmul (Response r) sm = Some (s', es)" using handle_total by blast
  with a g show ?thesis by (simp add: OnMachineResponse_def ToActive_def)
qed

lemma cm_quiet_switch_is_safe_witness:
  "\<exists>c log. cm_play (\<lambda>_ _. 0) True [CmAnswer 0 (ValidityDone False), CmSelect ModeSpeed 4, CmSaved Ok] cm_start
      = Some (c, [(2, NvmIsValid)], [], [4], log) \<and> OnMachineResponse (\<lambda>_ _. 0) 2 (ValidityDone True) c \<noteq> None"
proof -
  obtain c log where p: "cm_play (\<lambda>_ _. 0) True [CmAnswer 0 (ValidityDone False), CmSelect ModeSpeed 4, CmSaved Ok] cm_start
      = Some (c, [(2, NvmIsValid)], [], [4], log)"
    by (simp add: cm_play_defs)
  with cm_quiet_switch_is_safe [OF cm_play_start [OF p], of 2 NvmIsValid "ValidityDone True"] show ?thesis by auto
qed

end
