(* ===== verification/Bridge_Properties.thy ===== *)
theory Bridge_Properties
  imports Mode_Properties
begin

text \<open>
  The properties of the CAN bridge: one answer per command, set points only in the matching
  mode, the emergency stop, and two ways the bridge answers differently from what happened.
\<close>

section \<open>Answers\<close>

fun is_answer :: "bridge_effect \<Rightarrow> bool" where
  "is_answer (Control e) = False"
| "is_answer _ = True"

definition bridge_ok :: "FocMotorCanBridge \<Rightarrow> bool" where
  "bridge_ok b \<longleftrightarrow> activeSm (bridgeMode b) \<noteq> None \<and>
     (bridgePendingSelect b = None \<longleftrightarrow> pendingSelectCallback (bridgeMode b) = None)"

text \<open>A CAN library with three distinct mode values, on which the properties are instantiated.\<close>

definition example_can :: can_library where
  "example_can = \<lparr>canTorque = 0, canSpeed = 1, canPosition = 2,
     currentOf = \<lambda>_. 0, speedOf = \<lambda>_. 0, positionOf = \<lambda>_. 0, gainOf = \<lambda>_. 0\<rparr>"

lemma filter_control [simp]: "filter is_answer (map Control es) = []"
  by (induction es) simp_all

lemma forward_answer:
  assumes "bridge_ok b"
  shows "\<exists>b' es. forward fmul ev a b = Some (b', map Control es @ [a]) \<and> bridge_ok b' \<and>
    bridgePendingSelect b' = bridgePendingSelect b"
proof -
  from assms obtain sm where a: "activeSm (bridgeMode b) = Some sm" by (auto simp: bridge_ok_def)
  obtain sm' fs where "handle fmul ev sm = Some (sm', fs)" using handle_total by blast
  with a assms show ?thesis by (auto simp: forward_def ToActive_def bridge_ok_def simp del: map_map)
qed

fun is_select :: "can_command \<Rightarrow> bool" where
  "is_select (SelectControlMode m cb) = True"
| "is_select _ = False"

lemma command_answer:
  assumes "bridge_ok b" and "\<not> is_select p"
  shows "\<exists>b' es. on_command K fmul ignored p b = Some (b', es) \<and> bridge_ok b' \<and> length (filter is_answer es) = 1"
proof -
  have fwd: "\<exists>b' es. forward fmul ev a b = Some (b', es) \<and> bridge_ok b' \<and> length (filter is_answer es) = 1"
    if "is_answer a" for ev a
    using forward_answer [OF assms(1), of fmul ev a] that by auto
  show ?thesis
    using assms fwd by (cases p) (simp_all add: try_set_def)
qed

lemma select_answer:
  assumes "bridge_ok b" and "bridgePendingSelect b = None"
  shows "\<exists>b' es. OnSelectControlMode K m cb b = Some (b', es) \<and> bridge_ok b' \<and>
    (if bridgePendingSelect b' = None then es = [SendCategoryError focSelectControlModeId ErrBusy]
     else filter is_answer es = [] \<and>
       (\<forall>st. \<exists>b'' fs. bridge_config_saved K st b' = Some (b'', fs) \<and> bridge_ok b'' \<and> bridgePendingSelect b'' = None \<and>
          filter is_answer fs = [if st = Ok then OnModeResult cb (ToCanMode K (FromCanMode K m))
                                 else SendCategoryError focSelectControlModeId ErrPersistenceFailed]))"
proof -
  from assms obtain sm where a: "activeSm (bridgeMode b) = Some sm" "pendingSelectCallback (bridgeMode b) = None"
    by (auto simp: bridge_ok_def)
  have run_machine: "run_selected K (map (Machine g) es @ fs) c = do { (c', gs) \<leftarrow> run_selected K fs c; Some (c', map (Control \<circ> Machine g) es @ gs) }"
    for g es fs c by (induction es) (auto split: bind_splits intro!: bind_option_cong)
  have no_answer: "filter is_answer (map (Control \<circ> Machine g) es) = []" for g es by (induction es) auto
  show ?thesis
  proof (cases "IsStopped (currentState sm)")
    case False
    with a assms show ?thesis
      by (simp add: OnSelectControlMode_def Select_def OnSelected_def bridge_ok_def)
  next
    case True
    with a assms show ?thesis
      by (auto simp: OnSelectControlMode_def Select_def OnSelected_def bridge_ok_def bridge_config_saved_def
          OnSaveConfigDone_def FireSelect_def activate_defs run_machine no_answer Active_def o_def)
  qed
qed

text \<open>C14 (one answer). With a machine active and no selection pending, every CAN command returns and is
  answered exactly once: at once, or for an accepted selection exactly when the configuration save
  completes, with the selected mode on success and with \<open>persistenceFailed\<close> otherwise.\<close>

theorem can_commands_answered:
  assumes "bridge_ok b" and "bridgePendingSelect b = None"
  shows "\<exists>b' es. on_command K fmul ignored p b = Some (b', es) \<and>
    (if bridgePendingSelect b' = None then length (filter is_answer es) = 1
     else (\<exists>m cb. p = SelectControlMode m cb \<and> filter is_answer es = [] \<and>
       (\<forall>st. \<exists>b'' fs. bridge_config_saved K st b' = Some (b'', fs) \<and> bridgePendingSelect b'' = None \<and>
          filter is_answer fs = [if st = Ok then OnModeResult cb (ToCanMode K (FromCanMode K m))
                                 else SendCategoryError focSelectControlModeId ErrPersistenceFailed])))"
proof (cases "is_select p")
  case True
  then obtain m cb where "p = SelectControlMode m cb" by (cases p) auto
  with select_answer [OF assms, of K m cb] show ?thesis by (force split: if_splits)
next
  case False
  obtain b' es where "on_command K fmul ignored p b = Some (b', es)" "length (filter is_answer es) = 1"
    using command_answer [OF assms(1) False] by blast
  moreover have "bridgePendingSelect b' = None"
    using calculation(1) False assms
    by (cases p) (auto simp: forward_def try_set_def split: bind_splits if_splits)
  ultimately show ?thesis by auto
qed

theorem can_commands_answered_witness:
  "\<exists>b b' es. on_command example_can (\<lambda>_ _. 0) 9 (SelectControlMode 1 5) b = Some (b', es) \<and> bridgePendingSelect b' \<noteq> None \<and>
     (\<exists>b'' fs. bridge_config_saved example_can WriteFailed b' = Some (b'', fs) \<and>
        filter is_answer fs = [SendCategoryError focSelectControlModeId ErrPersistenceFailed])"
proof -
  let ?b = "\<lparr>bridgeMode = fst cm_start, bridgePendingSelect = None\<rparr>"
  have ok: "bridge_ok ?b" "bridgePendingSelect ?b = None"
    by (simp_all add: bridge_ok_def cm_play_defs)
  obtain b' es where on: "on_command example_can (\<lambda>_ _. 0) 9 (SelectControlMode 1 5) ?b = Some (b', es)" "bridgePendingSelect b' \<noteq> None"
    by (simp add: OnSelectControlMode_def cm_play_defs)
  from can_commands_answered [OF ok, of example_can "\<lambda>_ _. 0" 9 "SelectControlMode 1 5"]
  obtain c' fs where c: "on_command example_can (\<lambda>_ _. 0) 9 (SelectControlMode 1 5) ?b = Some (c', fs)"
    and alt: "if bridgePendingSelect c' = None then length (filter is_answer fs) = 1
     else (\<exists>m cb. SelectControlMode 1 5 = SelectControlMode m cb \<and> filter is_answer fs = [] \<and>
       (\<forall>st. \<exists>b'' fs. bridge_config_saved example_can st c' = Some (b'', fs) \<and> bridgePendingSelect b'' = None \<and>
          filter is_answer fs = [if st = Ok then OnModeResult cb (ToCanMode example_can (FromCanMode example_can m))
                                 else SendCategoryError focSelectControlModeId ErrPersistenceFailed]))"
    by blast
  from c on(1) have "c' = b'" by simp
  with alt on(2) have "\<forall>st. \<exists>b'' fs. bridge_config_saved example_can st b' = Some (b'', fs) \<and> bridgePendingSelect b'' = None \<and>
          filter is_answer fs = [if st = Ok then OnModeResult 5 (ToCanMode example_can (FromCanMode example_can 1))
                                 else SendCategoryError focSelectControlModeId ErrPersistenceFailed]"
    by (simp only: if_False simp_thms can_command.inject) blast
  from spec [OF this, of WriteFailed] have "\<exists>b'' fs. bridge_config_saved example_can WriteFailed b' = Some (b'', fs) \<and>
        filter is_answer fs = [SendCategoryError focSelectControlModeId ErrPersistenceFailed]"
    by auto
  with on show ?thesis by blast
qed

text \<open>Modes on the wire. With a CAN library whose three mode values differ, a mode survives the
  trip over the bus in both directions, and a queried mode is the active one.\<close>

lemma can_mode_roundtrip:
  assumes "can_library_ok K"
  shows "FromCanMode K (ToCanMode K m) = m \<and>
    on_command K fmul ignored (QueryMotorType cb) b = Some (b, [OnModeResult cb (ToCanMode K (Active (bridgeMode b)))])"
  using assms by (cases m) (auto simp: FromCanMode_def can_library_ok_def)

lemma can_mode_roundtrip_witness:
  "\<exists>K. can_library_ok K \<and> FromCanMode K (ToCanMode K ModePosition) = ModePosition"
proof -
  let ?K = "\<lparr>canTorque = 0, canSpeed = 1, canPosition = 2, currentOf = \<lambda>_. 0, speedOf = \<lambda>_. 0, positionOf = \<lambda>_. 0, gainOf = \<lambda>_. 0\<rparr>"
  have "can_library_ok ?K" by (simp add: can_library_ok_def)
  with can_mode_roundtrip [OF this, of ModePosition] show ?thesis by blast
qed

text \<open>Set points. A set point reaches a controller exactly in the mode it is meant for, in which it
  is the only effect besides the answer; in any other mode the command is answered
  \<open>modeMismatch\<close> and nothing else happens.\<close>

lemma can_setpoints_match_mode:
  assumes "bridge_ok b"
  shows "on_command K fmul ignored (SetTorqueSetpoint v cb) b = Some (b,
      if Active (bridgeMode b) = ModeTorque then [Control (SetPointTorque 0 (currentOf K v)), OnDone cb]
      else [SendCategoryError focSetTorqueSetpointId ErrModeMismatch]) \<and>
    on_command K fmul ignored (SetSpeedSetpoint v cb) b = Some (b,
      if Active (bridgeMode b) = ModeSpeed then [Control (SetPointSpeed (speedOf K v)), OnDone cb]
      else [SendCategoryError focSetSpeedSetpointId ErrModeMismatch]) \<and>
    on_command K fmul ignored (SetPositionSetpoint v cb) b = Some (b,
      if Active (bridgeMode b) = ModePosition then [Control (SetPointPosition (positionOf K v)), OnDone cb]
      else [SendCategoryError focSetPositionSetpointId ErrModeMismatch])"
  using assms by (auto simp: try_set_def TrySetTorque_def TrySetSpeed_def TrySetPosition_def bridge_ok_def)

lemma can_setpoints_match_mode_witness:
  "on_command example_can (\<lambda>_ _. 0) 9 (SetSpeedSetpoint 100 3) \<lparr>bridgeMode = fst cm_start, bridgePendingSelect = None\<rparr> =
     Some (\<lparr>bridgeMode = fst cm_start, bridgePendingSelect = None\<rparr>, [SendCategoryError focSetSpeedSetpointId ErrModeMismatch])"
proof -
  let ?b = "\<lparr>bridgeMode = fst cm_start, bridgePendingSelect = None\<rparr>"
  have ok: "bridge_ok ?b" "Active (bridgeMode ?b) = ModeTorque"
    by (simp_all add: bridge_ok_def Active_def cm_play_defs)
  from can_setpoints_match_mode [OF ok(1), of example_can "\<lambda>_ _. 0" 9 100 3] ok(2) show ?thesis by simp
qed

section \<open>Life-cycle commands over CAN\<close>

text \<open>The CAN commands that are forwarded to the active machine.\<close>

fun lifecycle_command :: "can_command \<Rightarrow> sm_event option" where
  "lifecycle_command (Start cb) = Some Enable"
| "lifecycle_command (Stop cb) = Some Disable"
| "lifecycle_command (CanClearFault cb) = Some ClearFault"
| "lifecycle_command (CanEmergencyStop cb) = Some EmergencyStop"
| "lifecycle_command _ = None"

fun controls :: "bridge_effect list \<Rightarrow> cm_effect list" where
  "controls [] = []"
| "controls (Control e # es) = e # controls es"
| "controls (_ # es) = controls es"

lemma controls_append [simp]: "controls (es @ fs) = controls es @ controls fs"
  by (induction es rule: controls.induct) simp_all

lemma controls_map [simp]: "controls (map Control es) = es"
  by (induction es) simp_all

fun bridge_all ::
  "can_library \<Rightarrow> (f32 \<Rightarrow> f32 \<Rightarrow> f32) \<Rightarrow> callback \<Rightarrow> can_command list \<Rightarrow> FocMotorCanBridge \<Rightarrow> bridge_result option" where
  "bridge_all K fmul ignored [] b = Some (b, [])"
| "bridge_all K fmul ignored (p # ps) b =
     do { (b', es) \<leftarrow> on_command K fmul ignored p b; (b'', fs) \<leftarrow> bridge_all K fmul ignored ps b'; Some (b'', es @ fs) }"

lemma lifecycle_on_command:
  assumes "lifecycle_command p = Some ev" and "on_command K fmul ignored p b = Some (b', es)"
  shows "cm_issue fmul ev (bridgeMode b) = Some (bridgeMode b', machine_effects (controls es))"
  using assms by (cases p) (auto simp: forward_def cm_issue_def split: bind_splits)

lemma lifecycle_bridge_all:
  "map lifecycle_command ps = map Some evs \<Longrightarrow> bridge_all K fmul ignored ps b = Some (b', es) \<Longrightarrow>
   issue_all (cm_issue fmul) evs (bridgeMode b) = Some (bridgeMode b', machine_effects (controls es))"
proof (induction ps arbitrary: evs b es)
  case (Cons p ps)
  from Cons.prems(1) obtain ev evs' where e: "evs = ev # evs'" "lifecycle_command p = Some ev" "map lifecycle_command ps = map Some evs'"
    by (cases evs) auto
  from Cons.prems(2) obtain b1 es1 es2 where s: "on_command K fmul ignored p b = Some (b1, es1)"
      "bridge_all K fmul ignored ps b1 = Some (b', es2)" "es = es1 @ es2"
    by (auto split: bind_splits)
  from lifecycle_on_command [OF e(2) s(1)] Cons.IH [OF e(3) s(2)] e(1) s(3) show ?case by simp
qed simp



text \<open>Second selection. While a selection waits for the configuration save, a second select command
  from the bus fails an assertion of the bridge: it is neither answered nor refused as busy.\<close>

lemma can_second_select_asserts:
  "\<exists>b b' es. bridge_ok b \<and> on_command K fmul ignored (SelectControlMode m 1) b = Some (b', es) \<and> bridge_ok b' \<and>
     filter is_answer es = [] \<and> on_command K fmul ignored (SelectControlMode m' 2) b' = None"
proof -
  let ?b = "\<lparr>bridgeMode = fst cm_start, bridgePendingSelect = None\<rparr>"
  have ok: "bridge_ok ?b" by (simp add: bridge_ok_def cm_play_defs)
  obtain b' es where r: "on_command K fmul ignored (SelectControlMode m 1) ?b = Some (b', es)"
      "bridge_ok b'" "filter is_answer es = []" "bridgePendingSelect b' = Some 1"
    by (simp add: OnSelectControlMode_def cm_play_defs bridge_ok_def)
  then have "on_command K fmul ignored (SelectControlMode m' 2) b' = None"
    by (simp add: OnSelectControlMode_def)
  with ok r show ?thesis by blast
qed

text \<open>Identification acknowledged. The command that starts the electrical identification is
  acknowledged as successful whether or not the machine accepts it: in \<open>Enabled\<close>, \<open>Calibrating\<close>
  and \<open>Fault\<close> the machine rejects the calibration, asks no service for anything, and the
  acknowledgement is still \<open>success\<close>.\<close>

lemma can_identify_always_acknowledged:
  assumes "bridge_ok b" and "\<not> IsStopped (cm_state (bridgeMode b))"
  shows "\<exists>b' es. on_command K fmul ignored IdentifyElectrical b = Some (b', es) \<and>
    cm_state (bridgeMode b') = cm_state (bridgeMode b) \<and> machine_asks (controls es) = [] \<and>
    answered (machine_effects (controls es)) = [(ignored, Rejected)] \<and>
    filter is_answer es = [SendCommandAck focIdentifyElectricalId AckSuccess]"
proof -
  from assms obtain sm where "activeSm (bridgeMode b) = Some sm" "\<not> IsStopped (currentState sm)"
    by (auto simp: bridge_ok_def cm_state_def)
  then show ?thesis
    by (auto simp: forward_def ToActive_def CmdCalibrate_def cm_state_def)
qed

lemma can_identify_always_acknowledged_witness:
  "\<exists>b b' es. cm_state (bridgeMode b) = Enabled \<and> on_command K fmul 9 IdentifyElectrical b = Some (b', es) \<and>
     filter is_answer es = [SendCommandAck focIdentifyElectricalId AckSuccess]"
proof -
  let ?sm = "(FocStateMachine_init TorqueStateMachine 0 0 0)\<lparr>currentState := Enabled\<rparr>"
  let ?b = "\<lparr>bridgeMode = (fst cm_start)\<lparr>activeSm := Some ?sm\<rparr>, bridgePendingSelect = None\<rparr>"
  have ok: "bridge_ok ?b" and en: "cm_state (bridgeMode ?b) = Enabled"
    by (simp_all add: bridge_ok_def cm_state_def cm_play_defs)
  have "\<not> IsStopped (cm_state (bridgeMode ?b))" by (simp only: en IsStopped.simps not_False_eq_True)
  from can_identify_always_acknowledged [OF ok this, of K fmul 9] en show ?thesis by blast
qed

end
