(* ===== verification/Vt100_Parser.thy ===== *)
theory Vt100_Parser
  imports Foc_Prelude
begin

text \<open>
  The byte-level VT100 parser of the hardware bridge client
  (\<open>tools/hardware_bridge/client/terminal/Vt100Parser\<close>). A parser step returns the new parser
  and the callbacks it invokes, in order; a callback that is not set is skipped. Characters are
  bytes. Signed overflow while a parameter is accumulated is undefined behaviour (\<open>None\<close>).
\<close>

section \<open>Byte classes\<close>

definition ESC_BYTE :: u8 where "ESC_BYTE = 0x1B"
definition CAN_BYTE :: u8 where "CAN_BYTE = 0x18"
definition SUB_BYTE :: u8 where "SUB_BYTE = 0x1A"
definition BEL_BYTE :: u8 where "BEL_BYTE = 0x07"
definition DEL_BYTE :: u8 where "DEL_BYTE = 0x7F"

lemmas byte_consts = ESC_BYTE_def CAN_BYTE_def SUB_BYTE_def BEL_BYTE_def DEL_BYTE_def

definition IsC0Execute :: "u8 \<Rightarrow> bool" where
  "IsC0Execute b \<longleftrightarrow>
     (if b = ESC_BYTE \<or> b = CAN_BYTE \<or> b = SUB_BYTE then False
      else if b \<le> 0x17 then True
      else if b = 0x19 then True
      else if 0x1C \<le> b \<and> b \<le> 0x1F then True
      else False)"

definition IsIntermediate :: "u8 \<Rightarrow> bool" where
  "IsIntermediate b \<longleftrightarrow> 0x20 \<le> b \<and> b \<le> 0x2F"

definition IsParameter :: "u8 \<Rightarrow> bool" where
  "IsParameter b \<longleftrightarrow> (0x30 \<le> b \<and> b \<le> 0x39) \<or> b = 0x3B \<or> b = 0x3A"

definition IsPrivateMarker :: "u8 \<Rightarrow> bool" where
  "IsPrivateMarker b \<longleftrightarrow> 0x3C \<le> b \<and> b \<le> 0x3F"

definition IsFinal :: "u8 \<Rightarrow> bool" where
  "IsFinal b \<longleftrightarrow> 0x40 \<le> b \<and> b \<le> 0x7E"

section \<open>The parser object\<close>

datatype ParserState =
  Ground | Escape | CsiEntry | CsiParam | CsiIntermediate | OscString | OscStringEsc | Ignore

record ParserCallbacks =
  hasPrint :: bool
  hasExecute :: bool
  hasEscDispatch :: bool
  hasCsiDispatch :: bool
  hasOscDispatch :: bool

datatype parser_event =
  Print u32
| Execute u8
| EscDispatch u8 u8
| CsiDispatch u8 "int list" bool u8
| OscDispatch "u8 list"

record Vt100Parser =
  callbacks :: ParserCallbacks
  parserState :: ParserState
  params :: "u8 list"
  oscBuffer :: "u8 list"
  intermediate :: u8
  privateMarker :: bool

type_synonym parser_result = "Vt100Parser \<times> parser_event list"

definition Vt100Parser_new :: "ParserCallbacks \<Rightarrow> Vt100Parser" where
  "Vt100Parser_new cbs =
     \<lparr>callbacks = cbs, parserState = Ground, params = [], oscBuffer = [], intermediate = 0, privateMarker = False\<rparr>"

definition Parser_Reset :: "Vt100Parser \<Rightarrow> Vt100Parser" where
  "Parser_Reset p = p\<lparr>parserState := Ground, params := [], oscBuffer := [], intermediate := 0, privateMarker := False\<rparr>"

definition Transition :: "ParserState \<Rightarrow> Vt100Parser \<Rightarrow> Vt100Parser" where
  "Transition next p =
     (let p' = p\<lparr>parserState := next\<rparr> in
      if next = CsiEntry then p'\<lparr>params := [], intermediate := 0, privateMarker := False\<rparr>
      else if next = Escape then p'\<lparr>intermediate := 0\<rparr>
      else if next = OscString then p'\<lparr>oscBuffer := []\<rparr>
      else p')"

section \<open>Handlers\<close>

definition DoExecute :: "u8 \<Rightarrow> Vt100Parser \<Rightarrow> parser_result" where
  "DoExecute b p = (p, if hasExecute (callbacks p) then [Execute b] else [])"

text \<open>\<open>Anywhere\<close> has a result exactly when it consumes the byte.\<close>

definition Anywhere :: "u8 \<Rightarrow> Vt100Parser \<Rightarrow> Vt100Parser option" where
  "Anywhere b p =
     (if b = ESC_BYTE then Some (Transition Escape p)
      else if b = CAN_BYTE \<or> b = SUB_BYTE then Some (Transition Ground p)
      else None)"

definition HandleGround :: "u8 \<Rightarrow> Vt100Parser \<Rightarrow> parser_result" where
  "HandleGround b p =
     (if b = DEL_BYTE then (p, [])
      else if IsC0Execute b then DoExecute b p
      else if 0x20 \<le> b then (p, if hasPrint (callbacks p) then [Print (ucast b)] else [])
      else (p, []))"

definition HandleEscape :: "u8 \<Rightarrow> Vt100Parser \<Rightarrow> parser_result" where
  "HandleEscape b p =
     (if IsC0Execute b then DoExecute b p
      else if b = DEL_BYTE then (p, [])
      else if IsIntermediate b then (p\<lparr>intermediate := b\<rparr>, [])
      else if b = 0x5B then (Transition CsiEntry p, [])
      else if b = 0x5D then (Transition OscString p, [])
      else if b = 0x50 \<or> b = 0x58 \<or> b = 0x5E \<or> b = 0x5F then (Transition OscString p, [])
      else if b = 0x5C then (Transition Ground p, [])
      else if IsFinal b \<or> (0x30 \<le> b \<and> b \<le> 0x3F)
        then (Transition Ground p, if hasEscDispatch (callbacks p) then [EscDispatch b (intermediate p)] else [])
      else (p, []))"

text \<open>
  The loop of \<open>DispatchCsi\<close> over the collected parameter bytes: the values so far, the
  current value and whether it has a digit.
\<close>

fun parse_params :: "u8 list \<Rightarrow> int list \<Rightarrow> int \<Rightarrow> bool \<Rightarrow> (int list \<times> int \<times> bool) option" where
  "parse_params [] values current hasDigit = Some (values, current, hasDigit)"
| "parse_params (c # cs) values current hasDigit =
     (if 0x30 \<le> c \<and> c \<le> 0x39
      then do { t \<leftarrow> chk_int (current * 10);
                n \<leftarrow> chk_int (t + (uint c - 0x30));
                parse_params cs values n True }
      else if c = 0x3B then parse_params cs (values @ [if hasDigit then current else 0]) 0 False
      else parse_params cs values current hasDigit)"

definition DispatchCsi :: "u8 \<Rightarrow> Vt100Parser \<Rightarrow> parser_result option" where
  "DispatchCsi finalByte p =
     do { (values, current, hasDigit) \<leftarrow> parse_params (params p) [] 0 False;
          let values' = (if hasDigit \<or> params p \<noteq> [] then values @ [current] else values);
          Some (Transition Ground p,
                if hasCsiDispatch (callbacks p)
                then [CsiDispatch finalByte values' (privateMarker p) (intermediate p)] else []) }"

definition HandleCsiEntry :: "u8 \<Rightarrow> Vt100Parser \<Rightarrow> parser_result option" where
  "HandleCsiEntry b p =
     (if IsC0Execute b then Some (DoExecute b p)
      else if b = DEL_BYTE then Some (p, [])
      else if IsPrivateMarker b then Some (Transition CsiParam (p\<lparr>privateMarker := (b = 0x3F)\<rparr>), [])
      else if IsParameter b
        then Some (Transition CsiParam (p\<lparr>params := params p @ [if b = 0x3A then 0x3B else b]\<rparr>), [])
      else if IsIntermediate b then Some (Transition CsiIntermediate (p\<lparr>intermediate := b\<rparr>), [])
      else if IsFinal b then DispatchCsi b p
      else Some (Transition Ignore p, []))"

definition HandleCsiParam :: "u8 \<Rightarrow> Vt100Parser \<Rightarrow> parser_result option" where
  "HandleCsiParam b p =
     (if IsC0Execute b then Some (DoExecute b p)
      else if b = DEL_BYTE then Some (p, [])
      else if IsParameter b then Some (p\<lparr>params := params p @ [if b = 0x3A then 0x3B else b]\<rparr>, [])
      else if IsIntermediate b then Some (Transition CsiIntermediate (p\<lparr>intermediate := b\<rparr>), [])
      else if IsFinal b then DispatchCsi b p
      else Some (Transition Ignore p, []))"

definition HandleCsiIntermediate :: "u8 \<Rightarrow> Vt100Parser \<Rightarrow> parser_result option" where
  "HandleCsiIntermediate b p =
     (if IsC0Execute b then Some (DoExecute b p)
      else if b = DEL_BYTE then Some (p, [])
      else if IsIntermediate b then Some (p\<lparr>intermediate := b\<rparr>, [])
      else if IsFinal b then DispatchCsi b p
      else Some (Transition Ignore p, []))"

definition DispatchOsc :: "Vt100Parser \<Rightarrow> parser_result" where
  "DispatchOsc p =
     (Transition Ground p, if hasOscDispatch (callbacks p) then [OscDispatch (oscBuffer p)] else [])"

definition HandleOsc :: "u8 \<Rightarrow> Vt100Parser \<Rightarrow> parser_result" where
  "HandleOsc b p =
     (if b = BEL_BYTE then DispatchOsc p
      else if b = ESC_BYTE then (p\<lparr>parserState := OscStringEsc\<rparr>, [])
      else if b = CAN_BYTE \<or> b = SUB_BYTE then (Transition Ground p, [])
      else (p\<lparr>oscBuffer := oscBuffer p @ [b]\<rparr>, []))"

section \<open>One byte\<close>

text \<open>The part of \<open>FeedByte\<close> behind the generic transitions.\<close>

definition HandleByState :: "u8 \<Rightarrow> Vt100Parser \<Rightarrow> parser_result option" where
  "HandleByState b p =
     (case parserState p of
        Ground \<Rightarrow> Some (HandleGround b p)
      | Escape \<Rightarrow> Some (HandleEscape b p)
      | CsiEntry \<Rightarrow> HandleCsiEntry b p
      | CsiParam \<Rightarrow> HandleCsiParam b p
      | CsiIntermediate \<Rightarrow> HandleCsiIntermediate b p
      | Ignore \<Rightarrow> Some (if IsFinal b then Transition Ground p else p, [])
      | OscString \<Rightarrow> Some (p, [])
      | OscStringEsc \<Rightarrow> Some (p, []))"

text \<open>
  \<open>FeedByte\<close> and \<open>HandleOscEsc\<close> call each other: a byte that does not end an OSC string is
  fed again from the state \<open>Escape\<close>, so the recursion is one deep.
\<close>

function FeedByte :: "u8 \<Rightarrow> Vt100Parser \<Rightarrow> parser_result option"
  and HandleOscEsc :: "u8 \<Rightarrow> Vt100Parser \<Rightarrow> parser_result option" where
  "FeedByte b p =
     (if parserState p = OscString then Some (HandleOsc b p)
      else if parserState p = OscStringEsc then HandleOscEsc b p
      else case Anywhere b p of Some p' \<Rightarrow> Some (p', []) | None \<Rightarrow> HandleByState b p)"
| "HandleOscEsc b p =
     (if b = 0x5C then Some (DispatchOsc p) else FeedByte b (Transition Escape p))"
  by pat_completeness auto
termination
  by (relation "measure (\<lambda>x. case x of Inl (b, p) \<Rightarrow> if parserState p = OscStringEsc then 2 else 0 | Inr (b, p) \<Rightarrow> 1)")
    (auto simp: Transition_def Let_def)

declare FeedByte.simps [simp del] HandleOscEsc.simps [simp del]

fun Feed :: "u8 list \<Rightarrow> Vt100Parser \<Rightarrow> parser_result option" where
  "Feed [] p = Some (p, [])"
| "Feed (b # bs) p =
     do { (p', es) \<leftarrow> FeedByte b p; (p'', fs) \<leftarrow> Feed bs p'; Some (p'', es @ fs) }"

lemma Feed_append: "Feed (as @ bs) p = do { (p', es) \<leftarrow> Feed as p; (p'', fs) \<leftarrow> Feed bs p'; Some (p'', es @ fs) }"
  by (induction as arbitrary: p) (auto split: bind_splits intro!: bind_option_cong)

end
