(* ===== verification/Terminal_Screen.thy ===== *)
theory Terminal_Screen
  imports Foc_Prelude
begin

text \<open>
  The screen buffer of the terminal (\<open>TerminalTypes.hpp\<close>, \<open>TerminalScreen\<close>): a grid of cells
  with cursor, scroll region, tab stops, deferred wrap and scrollback. Indexing a vector out of
  range, and signed overflow where a caller's number is added to a coordinate, have no result
  (\<open>None\<close>). The other \<open>int\<close> computations stay between -1 and the screen size plus the tab
  interval, and are plain integers.
\<close>

section \<open>Types\<close>

datatype Color =
  DefaultColor | Black | Red | Green | Yellow | Blue | Magenta | Cyan | White
| BrightBlack | BrightRed | BrightGreen | BrightYellow | BrightBlue | BrightMagenta | BrightCyan | BrightWhite

record Rendition =
  foreground :: Color
  background :: Color
  bold :: bool
  faint :: bool
  italic :: bool
  underline :: bool
  blink :: bool
  inverse_video :: bool

definition Rendition_init :: Rendition where
  "Rendition_init = \<lparr>foreground = DefaultColor, background = DefaultColor, bold = False, faint = False,
     italic = False, underline = False, blink = False, inverse_video = False\<rparr>"

record Cell =
  codepoint :: u32
  rendition :: Rendition

record CursorPosition =
  cursorRow :: int
  cursorColumn :: int

definition CursorPosition_init :: CursorPosition where
  "CursorPosition_init = \<lparr>cursorRow = 0, cursorColumn = 0\<rparr>"

record Modes =
  autoWrap :: bool
  originMode :: bool
  lineFeedNewLine :: bool
  cursorVisible :: bool
  applicationCursorKeys :: bool
  applicationKeypad :: bool

definition Modes_init :: Modes where
  "Modes_init = \<lparr>autoWrap = True, originMode = False, lineFeedNewLine = False, cursorVisible = True,
     applicationCursorKeys = False, applicationKeypad = False\<rparr>"

record TerminalScreen =
  rows :: int
  cols :: int
  grid :: "Cell list list"
  cursor :: CursorPosition
  savedCursor :: CursorPosition
  currentRendition :: Rendition
  savedRendition :: Rendition
  tabStops :: "bool list"
  scrollTop :: int
  scrollBottom :: int
  pendingWrap :: bool
  modes :: Modes
  history :: "Cell list list"

definition maxHistory :: nat where "maxHistory = 1000"

definition defaultTabInterval :: int where "defaultTabInterval = 8"

abbreviation set_column :: "int \<Rightarrow> TerminalScreen \<Rightarrow> TerminalScreen" where
  "set_column c s \<equiv> s\<lparr>cursor := (cursor s)\<lparr>cursorColumn := c\<rparr>\<rparr>"

abbreviation set_row :: "int \<Rightarrow> TerminalScreen \<Rightarrow> TerminalScreen" where
  "set_row r s \<equiv> s\<lparr>cursor := (cursor s)\<lparr>cursorRow := r\<rparr>\<rparr>"

section \<open>Construction and reset\<close>

definition MakeBlankCell :: "TerminalScreen \<Rightarrow> Cell" where
  "MakeBlankCell s = \<lparr>codepoint = 0x20, rendition = currentRendition s\<rparr>"

definition MakeBlankRow :: "TerminalScreen \<Rightarrow> Cell list" where
  "MakeBlankRow s = replicate (nat (cols s)) (MakeBlankCell s)"

text \<open>\<open>for (int c = defaultTabInterval; c < cols; c += defaultTabInterval) tabStops[c] = true\<close>.\<close>

function set_tabs :: "int \<Rightarrow> int \<Rightarrow> bool list \<Rightarrow> bool list option" where
  "set_tabs c n ts =
     (if c < n then vec_set ts c True \<bind> set_tabs (c + defaultTabInterval) n else Some ts)"
  by pat_completeness auto
termination
  by (relation "measure (\<lambda>(c, n, ts). nat (n - c))") (auto simp: defaultTabInterval_def)

declare set_tabs.simps [simp del]

definition Reset :: "TerminalScreen \<Rightarrow> TerminalScreen option" where
  "Reset s =
     do { let s' = s\<lparr>currentRendition := Rendition_init, savedRendition := Rendition_init,
                     cursor := CursorPosition_init, savedCursor := CursorPosition_init, modes := Modes_init,
                     scrollTop := 0, scrollBottom := rows s - 1, pendingWrap := False\<rparr>;
          let g = replicate (nat (rows s)) (MakeBlankRow s');
          ts \<leftarrow> set_tabs defaultTabInterval (cols s) (replicate (nat (cols s)) False);
          Some (s'\<lparr>grid := g, tabStops := ts, history := []\<rparr>) }"

definition TerminalScreen_new :: "int \<Rightarrow> int \<Rightarrow> TerminalScreen option" where
  "TerminalScreen_new r c =
     Reset \<lparr>rows = (if r > 0 then r else 24), cols = (if c > 0 then c else 100), grid = [],
       cursor = CursorPosition_init, savedCursor = CursorPosition_init,
       currentRendition = Rendition_init, savedRendition = Rendition_init, tabStops = [],
       scrollTop = 0, scrollBottom = 0, pendingWrap = False, modes = Modes_init, history = []\<rparr>"

definition SoftReset :: "TerminalScreen \<Rightarrow> TerminalScreen" where
  "SoftReset s =
     s\<lparr>currentRendition := Rendition_init, savedRendition := Rendition_init, modes := Modes_init,
       scrollTop := 0, scrollBottom := rows s - 1, pendingWrap := False, savedCursor := CursorPosition_init\<rparr>"

definition At :: "TerminalScreen \<Rightarrow> int \<Rightarrow> int \<Rightarrow> Cell option" where
  "At s r c = do { row \<leftarrow> vec_get (grid s) r; vec_get row c }"

definition SetRendition :: "Rendition \<Rightarrow> TerminalScreen \<Rightarrow> TerminalScreen" where
  "SetRendition r s = s\<lparr>currentRendition := r\<rparr>"

definition ClearHistory :: "TerminalScreen \<Rightarrow> TerminalScreen" where
  "ClearHistory s = s\<lparr>history := []\<rparr>"

definition ClampCursor :: "TerminalScreen \<Rightarrow> TerminalScreen" where
  "ClampCursor s =
     (let r = (if cursorRow (cursor s) < 0 then 0 else cursorRow (cursor s));
          r' = (if r \<ge> rows s then rows s - 1 else r);
          c = (if cursorColumn (cursor s) < 0 then 0 else cursorColumn (cursor s));
          c' = (if c \<ge> cols s then cols s - 1 else c)
      in s\<lparr>cursor := \<lparr>cursorRow = r', cursorColumn = c'\<rparr>\<rparr>)"

section \<open>Cells and rows\<close>

text \<open>\<open>grid_[row][column] = x\<close>, and the loops over one row.\<close>

definition put_cell :: "int \<Rightarrow> int \<Rightarrow> Cell \<Rightarrow> TerminalScreen \<Rightarrow> TerminalScreen option" where
  "put_cell r c x s =
     do { row \<leftarrow> vec_get (grid s) r; row' \<leftarrow> vec_set row c x; g \<leftarrow> vec_set (grid s) r row'; Some (s\<lparr>grid := g\<rparr>) }"

definition eraseRow :: "Cell \<Rightarrow> int \<Rightarrow> int \<Rightarrow> int \<Rightarrow> TerminalScreen \<Rightarrow> TerminalScreen option" where
  "eraseRow blank r colFrom colTo s = for_up colFrom (colTo + 1) (\<lambda>c. put_cell r c blank) s"

text \<open>
  \<open>grid_[to] = std::move(grid_[from])\<close>: the moved-from row is left empty here; the standard
  leaves it unspecified, and the code overwrites it before it is read.
\<close>

definition move_row :: "int \<Rightarrow> int \<Rightarrow> TerminalScreen \<Rightarrow> TerminalScreen option" where
  "move_row from to s =
     do { row \<leftarrow> vec_get (grid s) from; g \<leftarrow> vec_set (grid s) from []; g' \<leftarrow> vec_set g to row; Some (s\<lparr>grid := g'\<rparr>) }"

definition blank_row :: "int \<Rightarrow> TerminalScreen \<Rightarrow> TerminalScreen option" where
  "blank_row r s = do { g \<leftarrow> vec_set (grid s) r (MakeBlankRow s); Some (s\<lparr>grid := g\<rparr>) }"

definition remember_row :: "int \<Rightarrow> TerminalScreen \<Rightarrow> TerminalScreen option" where
  "remember_row r s =
     do { row \<leftarrow> vec_get (grid s) r;
          let h = history s @ [row];
          Some (s\<lparr>history := drop (length h - maxHistory) h\<rparr>) }"

section \<open>Scrolling\<close>

definition ScrollUpInRegion :: "int \<Rightarrow> TerminalScreen \<Rightarrow> TerminalScreen option" where
  "ScrollUpInRegion n s =
     (let n1 = (if n < 1 then 1 else n);
          regionRows = scrollBottom s - scrollTop s + 1;
          n2 = (if n1 > regionRows then regionRows else n1);
          fullScreen = (scrollTop s = 0 \<and> scrollBottom s = rows s - 1)
      in for_up 0 n2 (\<lambda>_ s.
           do { s \<leftarrow> (if fullScreen then remember_row (scrollTop s) s else Some s);
                s \<leftarrow> for_up (scrollTop s) (scrollBottom s) (\<lambda>r. move_row (r + 1) r) s;
                blank_row (scrollBottom s) s }) s)"

text \<open>\<open>for (int r = scrollBottom_; r > scrollTop_; --r)\<close> runs over \<open>scrollBottom - k\<close> for growing \<open>k\<close>.\<close>

definition ScrollDownInRegion :: "int \<Rightarrow> TerminalScreen \<Rightarrow> TerminalScreen option" where
  "ScrollDownInRegion n s =
     (let n1 = (if n < 1 then 1 else n);
          regionRows = scrollBottom s - scrollTop s + 1;
          n2 = (if n1 > regionRows then regionRows else n1)
      in for_up 0 n2 (\<lambda>_ s.
           do { s \<leftarrow> for_up 0 (scrollBottom s - scrollTop s)
                      (\<lambda>k s. move_row (scrollBottom s - k - 1) (scrollBottom s - k) s) s;
                blank_row (scrollTop s) s }) s)"

section \<open>Format effectors\<close>

definition CarriageReturn :: "TerminalScreen \<Rightarrow> TerminalScreen" where
  "CarriageReturn s = (set_column 0 s)\<lparr>pendingWrap := False\<rparr>"

definition Index :: "TerminalScreen \<Rightarrow> TerminalScreen option" where
  "Index s0 =
     (let s = s0\<lparr>pendingWrap := False\<rparr> in
      if cursorRow (cursor s) = scrollBottom s then ScrollUpInRegion 1 s
      else if cursorRow (cursor s) < rows s - 1 then Some (set_row (cursorRow (cursor s) + 1) s)
      else Some s)"

definition LineFeed :: "TerminalScreen \<Rightarrow> TerminalScreen option" where
  "LineFeed s = do { s' \<leftarrow> Index s; Some (if lineFeedNewLine (modes s') then CarriageReturn s' else s') }"

definition NextLine :: "TerminalScreen \<Rightarrow> TerminalScreen option" where
  "NextLine s = do { s' \<leftarrow> Index s; Some (CarriageReturn s') }"

definition ReverseIndex :: "TerminalScreen \<Rightarrow> TerminalScreen option" where
  "ReverseIndex s0 =
     (let s = s0\<lparr>pendingWrap := False\<rparr> in
      if cursorRow (cursor s) = scrollTop s then ScrollDownInRegion 1 s
      else if cursorRow (cursor s) > 0 then Some (set_row (cursorRow (cursor s) - 1) s)
      else Some s)"

definition Backspace :: "TerminalScreen \<Rightarrow> TerminalScreen" where
  "Backspace s =
     (if cursorColumn (cursor s) > 0 then set_column (cursorColumn (cursor s) - 1) s else s)\<lparr>pendingWrap := False\<rparr>"

text \<open>The search of \<open>HorizontalTab\<close> for the next stop from column \<open>c\<close> on.\<close>

function next_tab :: "int \<Rightarrow> int \<Rightarrow> bool list \<Rightarrow> int option option" where
  "next_tab c n ts =
     (if c < n
      then (case vec_get ts c of None \<Rightarrow> None | Some t \<Rightarrow> if t then Some (Some c) else next_tab (c + 1) n ts)
      else Some None)"
  by pat_completeness auto
termination
  by (relation "measure (\<lambda>(c, n, ts). nat (n - c))") auto

declare next_tab.simps [simp del]

definition HorizontalTab :: "TerminalScreen \<Rightarrow> TerminalScreen option" where
  "HorizontalTab s0 =
     (let s = s0\<lparr>pendingWrap := False\<rparr> in
      do { stop \<leftarrow> next_tab (cursorColumn (cursor s) + 1) (cols s) (tabStops s);
           Some (set_column (case stop of Some c \<Rightarrow> c | None \<Rightarrow> cols s - 1) s) })"

definition Write :: "u32 \<Rightarrow> TerminalScreen \<Rightarrow> TerminalScreen option" where
  "Write ch s0 =
     do { s1 \<leftarrow> (if pendingWrap s0 \<and> autoWrap (modes s0) then Index (CarriageReturn s0) else Some s0);
          let s2 = s1\<lparr>pendingWrap := False\<rparr>;
          s3 \<leftarrow> put_cell (cursorRow (cursor s2)) (cursorColumn (cursor s2))
                  \<lparr>codepoint = ch, rendition = currentRendition s2\<rparr> s2;
          Some (if cursorColumn (cursor s3) + 1 \<ge> cols s3
                then set_column (cols s3 - 1) (s3\<lparr>pendingWrap := autoWrap (modes s3)\<rparr>)
                else set_column (cursorColumn (cursor s3) + 1) s3) }"

section \<open>Tab stops\<close>

definition SetHere :: "TerminalScreen \<Rightarrow> TerminalScreen option" where
  "SetHere s =
     (if 0 \<le> cursorColumn (cursor s) \<and> cursorColumn (cursor s) < cols s
      then do { ts \<leftarrow> vec_set (tabStops s) (cursorColumn (cursor s)) True; Some (s\<lparr>tabStops := ts\<rparr>) }
      else Some s)"

definition ClearHere :: "TerminalScreen \<Rightarrow> TerminalScreen option" where
  "ClearHere s =
     (if 0 \<le> cursorColumn (cursor s) \<and> cursorColumn (cursor s) < cols s
      then do { ts \<leftarrow> vec_set (tabStops s) (cursorColumn (cursor s)) False; Some (s\<lparr>tabStops := ts\<rparr>) }
      else Some s)"

definition ClearAll :: "TerminalScreen \<Rightarrow> TerminalScreen" where
  "ClearAll s = s\<lparr>tabStops := map (\<lambda>_. False) (tabStops s)\<rparr>"

section \<open>Cursor movement\<close>

text \<open>\<open>row - n\<close> cannot overflow for a row of the screen and \<open>n >= 1\<close>; \<open>row + n\<close> can.\<close>

definition Up :: "int \<Rightarrow> TerminalScreen \<Rightarrow> TerminalScreen option" where
  "Up n0 s0 =
     (let s = s0\<lparr>pendingWrap := False\<rparr>; n = (if n0 < 1 then 1 else n0) in
      do { r \<leftarrow> chk_int (cursorRow (cursor s) - n); Some (set_row (max (scrollTop s) r) s) })"

definition Down :: "int \<Rightarrow> TerminalScreen \<Rightarrow> TerminalScreen option" where
  "Down n0 s0 =
     (let s = s0\<lparr>pendingWrap := False\<rparr>; n = (if n0 < 1 then 1 else n0) in
      do { r \<leftarrow> chk_int (cursorRow (cursor s) + n); Some (set_row (min (scrollBottom s) r) s) })"

definition Forward :: "int \<Rightarrow> TerminalScreen \<Rightarrow> TerminalScreen option" where
  "Forward n0 s0 =
     (let s = s0\<lparr>pendingWrap := False\<rparr>; n = (if n0 < 1 then 1 else n0) in
      do { c \<leftarrow> chk_int (cursorColumn (cursor s) + n); Some (set_column (min (cols s - 1) c) s) })"

definition Backward :: "int \<Rightarrow> TerminalScreen \<Rightarrow> TerminalScreen option" where
  "Backward n0 s0 =
     (let s = s0\<lparr>pendingWrap := False\<rparr>; n = (if n0 < 1 then 1 else n0) in
      do { c \<leftarrow> chk_int (cursorColumn (cursor s) - n); Some (set_column (max 0 c) s) })"

definition MoveTo :: "int \<Rightarrow> int \<Rightarrow> TerminalScreen \<Rightarrow> TerminalScreen" where
  "MoveTo r0 c0 s =
     (let r = (if r0 < 1 then 1 else r0); c = (if c0 < 1 then 1 else c0) in
      ClampCursor (s\<lparr>pendingWrap := False, cursor := \<lparr>cursorRow = r - 1, cursorColumn = c - 1\<rparr>\<rparr>))"

definition MoveToColumn :: "int \<Rightarrow> TerminalScreen \<Rightarrow> TerminalScreen" where
  "MoveToColumn c0 s =
     (let c = (if c0 < 1 then 1 else c0) in
      set_column (min (cols s - 1) (c - 1)) (s\<lparr>pendingWrap := False\<rparr>))"

definition Save :: "TerminalScreen \<Rightarrow> TerminalScreen" where
  "Save s = s\<lparr>savedCursor := cursor s, savedRendition := currentRendition s\<rparr>"

definition Restore :: "TerminalScreen \<Rightarrow> TerminalScreen" where
  "Restore s =
     ClampCursor (s\<lparr>cursor := savedCursor s, currentRendition := savedRendition s, pendingWrap := False\<rparr>)"

section \<open>Erasing and the scroll region\<close>

definition EraseInDisplay :: "int \<Rightarrow> TerminalScreen \<Rightarrow> TerminalScreen option" where
  "EraseInDisplay mode s0 =
     (let s = s0\<lparr>pendingWrap := False\<rparr>; blank = MakeBlankCell s in
      if mode = 0 then
        do { s' \<leftarrow> eraseRow blank (cursorRow (cursor s)) (cursorColumn (cursor s)) (cols s - 1) s;
             for_up (cursorRow (cursor s) + 1) (rows s) (\<lambda>r. eraseRow blank r 0 (cols s - 1)) s' }
      else if mode = 1 then
        do { s' \<leftarrow> for_up 0 (cursorRow (cursor s)) (\<lambda>r. eraseRow blank r 0 (cols s - 1)) s;
             eraseRow blank (cursorRow (cursor s)) 0 (cursorColumn (cursor s)) s' }
      else if mode = 2 \<or> mode = 3 then
        do { s' \<leftarrow> for_up 0 (rows s) (\<lambda>r. eraseRow blank r 0 (cols s - 1)) s;
             Some (if mode = 3 then s'\<lparr>history := []\<rparr> else s') }
      else Some s)"

definition EraseInLine :: "int \<Rightarrow> TerminalScreen \<Rightarrow> TerminalScreen option" where
  "EraseInLine mode s0 =
     (let s = s0\<lparr>pendingWrap := False\<rparr>; blank = MakeBlankCell s; r = cursorRow (cursor s) in
      if mode = 0 then for_up (cursorColumn (cursor s)) (cols s) (\<lambda>c. put_cell r c blank) s
      else if mode = 1 then for_up 0 (cursorColumn (cursor s) + 1) (\<lambda>c. put_cell r c blank) s
      else if mode = 2 then for_up 0 (cols s) (\<lambda>c. put_cell r c blank) s
      else Some s)"

definition SetScrollRegion :: "int \<Rightarrow> int \<Rightarrow> TerminalScreen \<Rightarrow> TerminalScreen" where
  "SetScrollRegion top0 bottom0 s =
     (let top1 = (if top0 < 1 then 1 else top0);
          bottom1 = (if bottom0 < 1 \<or> bottom0 > rows s then rows s else bottom0);
          top = (if top1 \<ge> bottom1 then 1 else top1);
          bottom = (if top1 \<ge> bottom1 then rows s else bottom1)
      in s\<lparr>scrollTop := top - 1, scrollBottom := bottom - 1,
           cursor := \<lparr>cursorRow = top - 1, cursorColumn = 0\<rparr>, pendingWrap := False\<rparr>)"

text \<open>The text of a row, trailing spaces trimmed.\<close>

definition LineText :: "TerminalScreen \<Rightarrow> int \<Rightarrow> u8 list option" where
  "LineText s r =
     do { out \<leftarrow> for_up 0 (cols s) (\<lambda>c out.
            do { x \<leftarrow> At s r c; Some (out @ [if codepoint x \<le> 0x7F then ucast (codepoint x) else 0x3F]) }) [];
          Some (rev (dropWhile (\<lambda>b. b = 0x20) (rev out))) }"

end
