(* ===== verification/Vt100_Terminal.thy ===== *)
theory Vt100_Terminal
  imports Vt100_Parser Terminal_Screen
begin

text \<open>
  The terminal facade \<open>Vt100Terminal\<close>: it owns a parser whose callbacks are all set and a
  screen, interprets the parser's events on the screen and queues replies to the host.
\<close>

section \<open>Parameters and renditions\<close>

definition Param :: "int list \<Rightarrow> nat \<Rightarrow> int \<Rightarrow> int" where
  "Param ps i dflt = (if i \<ge> length ps then dflt else let v = ps ! i in if v = 0 then dflt else v)"

definition ParamRaw :: "int list \<Rightarrow> nat \<Rightarrow> int \<Rightarrow> int" where
  "ParamRaw ps i dflt = (if i \<ge> length ps then dflt else ps ! i)"

definition foregroundCodes :: "(int \<times> Color) list" where
  "foregroundCodes =
     [(30, Black), (31, Red), (32, Green), (33, Yellow), (34, Blue), (35, Magenta), (36, Cyan), (37, White),
      (39, DefaultColor), (90, BrightBlack), (91, BrightRed), (92, BrightGreen), (93, BrightYellow),
      (94, BrightBlue), (95, BrightMagenta), (96, BrightCyan), (97, BrightWhite)]"

definition backgroundCodes :: "(int \<times> Color) list" where
  "backgroundCodes =
     [(40, Black), (41, Red), (42, Green), (43, Yellow), (44, Blue), (45, Magenta), (46, Cyan), (47, White),
      (49, DefaultColor), (100, BrightBlack), (101, BrightRed), (102, BrightGreen), (103, BrightYellow),
      (104, BrightBlue), (105, BrightMagenta), (106, BrightCyan), (107, BrightWhite)]"

text \<open>The colour an \<open>ApplyColorCode\<close> stores, if the parameter is in its table.\<close>

definition ApplyColorCode :: "int \<Rightarrow> (int \<times> Color) list \<Rightarrow> Color option" where
  "ApplyColorCode parameter codes = map_of codes parameter"

definition ApplyStyleCode :: "int \<Rightarrow> Rendition \<Rightarrow> Rendition option" where
  "ApplyStyleCode parameter r =
     (if parameter = 0 then Some Rendition_init
      else if parameter = 1 then Some (r\<lparr>bold := True\<rparr>)
      else if parameter = 2 then Some (r\<lparr>faint := True\<rparr>)
      else if parameter = 3 then Some (r\<lparr>italic := True\<rparr>)
      else if parameter = 4 then Some (r\<lparr>underline := True\<rparr>)
      else if parameter = 5 then Some (r\<lparr>blink := True\<rparr>)
      else if parameter = 7 then Some (r\<lparr>inverse_video := True\<rparr>)
      else if parameter = 22 then Some (r\<lparr>bold := False, faint := False\<rparr>)
      else if parameter = 23 then Some (r\<lparr>italic := False\<rparr>)
      else if parameter = 24 then Some (r\<lparr>underline := False\<rparr>)
      else if parameter = 25 then Some (r\<lparr>blink := False\<rparr>)
      else if parameter = 27 then Some (r\<lparr>inverse_video := False\<rparr>)
      else None)"

definition ApplySgrParameter :: "int \<Rightarrow> Rendition \<Rightarrow> Rendition" where
  "ApplySgrParameter parameter r =
     (case ApplyStyleCode parameter r of
        Some r' \<Rightarrow> r'
      | None \<Rightarrow> (case ApplyColorCode parameter foregroundCodes of
          Some c \<Rightarrow> r\<lparr>foreground := c\<rparr>
        | None \<Rightarrow> (case ApplyColorCode parameter backgroundCodes of
            Some c \<Rightarrow> r\<lparr>background := c\<rparr>
          | None \<Rightarrow> r)))"

definition ApplySgr :: "int list \<Rightarrow> TerminalScreen \<Rightarrow> TerminalScreen" where
  "ApplySgr ps s =
     (if ps = [] then SetRendition Rendition_init s
      else SetRendition (fold ApplySgrParameter ps (currentRendition s)) s)"

definition FillScreenWithAlignmentPattern :: "TerminalScreen \<Rightarrow> TerminalScreen option" where
  "FillScreenWithAlignmentPattern s =
     do { s' \<leftarrow> for_up 0 (rows s) (\<lambda>r. for_up 0 (cols s) (\<lambda>c s. Write 0x45 (MoveTo (r + 1) (c + 1) s))) s;
          Some (MoveTo 1 1 s') }"

definition ApplyPrivateMode :: "bool \<Rightarrow> int \<Rightarrow> TerminalScreen \<Rightarrow> TerminalScreen" where
  "ApplyPrivateMode on parameter s =
     s\<lparr>modes :=
       (if parameter = 1 then (modes s)\<lparr>applicationCursorKeys := on\<rparr>
        else if parameter = 6 then (modes s)\<lparr>originMode := on\<rparr>
        else if parameter = 7 then (modes s)\<lparr>autoWrap := on\<rparr>
        else if parameter = 25 then (modes s)\<lparr>cursorVisible := on\<rparr>
        else modes s)\<rparr>"

definition ApplyAnsiMode :: "bool \<Rightarrow> int \<Rightarrow> TerminalScreen \<Rightarrow> TerminalScreen" where
  "ApplyAnsiMode on parameter s =
     s\<lparr>modes := (if parameter = 20 then (modes s)\<lparr>lineFeedNewLine := on\<rparr> else modes s)\<rparr>"

definition ApplyMode :: "int list \<Rightarrow> bool \<Rightarrow> bool \<Rightarrow> TerminalScreen \<Rightarrow> TerminalScreen" where
  "ApplyMode ps on private s = fold (if private then ApplyPrivateMode on else ApplyAnsiMode on) ps s"

section \<open>The terminal\<close>

record Vt100Terminal =
  screen :: TerminalScreen
  parser :: Vt100Parser
  outgoing :: "u8 list"
  deviceAttributesResponse :: "u8 list"

definition allCallbacks :: ParserCallbacks where
  "allCallbacks = \<lparr>hasPrint = True, hasExecute = True, hasEscDispatch = True, hasCsiDispatch = True, hasOscDispatch = True\<rparr>"

definition Vt100Terminal_new :: "int \<Rightarrow> int \<Rightarrow> Vt100Terminal option" where
  "Vt100Terminal_new r c =
     do { s \<leftarrow> TerminalScreen_new r c;
          Some \<lparr>screen = s, parser = Vt100Parser_new allCallbacks, outgoing = [],
                deviceAttributesResponse = [0x1B, 0x5B, 0x3F, 0x36, 0x63]\<rparr> }"

definition TakeOutgoing :: "Vt100Terminal \<Rightarrow> Vt100Terminal \<times> u8 list" where
  "TakeOutgoing t = (t\<lparr>outgoing := []\<rparr>, outgoing t)"

definition SetDeviceAttributesResponse :: "u8 list \<Rightarrow> Vt100Terminal \<Rightarrow> Vt100Terminal" where
  "SetDeviceAttributesResponse response t = t\<lparr>deviceAttributesResponse := response\<rparr>"

text \<open>Running a screen operation inside the terminal.\<close>

definition on_screen :: "(TerminalScreen \<Rightarrow> TerminalScreen option) \<Rightarrow> Vt100Terminal \<Rightarrow> Vt100Terminal option" where
  "on_screen f t = do { s \<leftarrow> f (screen t); Some (t\<lparr>screen := s\<rparr>) }"

definition send :: "u8 list \<Rightarrow> Vt100Terminal \<Rightarrow> Vt100Terminal" where
  "send bs t = t\<lparr>outgoing := outgoing t @ bs\<rparr>"

definition ReportCursorPosition :: "Vt100Terminal \<Rightarrow> Vt100Terminal" where
  "ReportCursorPosition t =
     (let c = cursor (screen t) in
      send ([0x1B, 0x5B] @ decimal (nat (cursorRow c + 1)) @ [0x3B] @ decimal (nat (cursorColumn c + 1)) @ [0x52]) t)"

definition ReportDeviceStatus :: "Vt100Terminal \<Rightarrow> Vt100Terminal" where
  "ReportDeviceStatus t = send [0x1B, 0x5B, 0x30, 0x6E] t"

definition ReportDeviceAttributes :: "Vt100Terminal \<Rightarrow> Vt100Terminal" where
  "ReportDeviceAttributes t = send (deviceAttributesResponse t) t"

section \<open>Events\<close>

definition OnPrint :: "u32 \<Rightarrow> Vt100Terminal \<Rightarrow> Vt100Terminal option" where
  "OnPrint ch = on_screen (Write ch)"

definition OnExecute :: "u8 \<Rightarrow> Vt100Terminal \<Rightarrow> Vt100Terminal option" where
  "OnExecute b t =
     (if b = 0x08 then on_screen (\<lambda>s. Some (Backspace s)) t
      else if b = 0x09 then on_screen HorizontalTab t
      else if b = 0x0A \<or> b = 0x0B \<or> b = 0x0C then on_screen LineFeed t
      else if b = 0x0D then on_screen (\<lambda>s. Some (CarriageReturn s)) t
      else Some t)"

definition OnEsc :: "u8 \<Rightarrow> u8 \<Rightarrow> Vt100Terminal \<Rightarrow> Vt100Terminal option" where
  "OnEsc finalByte imd t =
     (if imd = 0x28 \<or> imd = 0x29 \<or> imd = 0x2A \<or> imd = 0x2B then Some t
      else if imd = 0x23 then (if finalByte = 0x38 then on_screen FillScreenWithAlignmentPattern t else Some t)
      else if imd \<noteq> 0 then Some t
      else if finalByte = 0x44 then on_screen Index t
      else if finalByte = 0x45 then on_screen NextLine t
      else if finalByte = 0x4D then on_screen ReverseIndex t
      else if finalByte = 0x48 then on_screen SetHere t
      else if finalByte = 0x37 then on_screen (\<lambda>s. Some (Save s)) t
      else if finalByte = 0x38 then on_screen (\<lambda>s. Some (Restore s)) t
      else if finalByte = 0x63 then on_screen Reset t
      else if finalByte = 0x3D then on_screen (\<lambda>s. Some (s\<lparr>modes := (modes s)\<lparr>applicationKeypad := True\<rparr>\<rparr>)) t
      else if finalByte = 0x3E then on_screen (\<lambda>s. Some (s\<lparr>modes := (modes s)\<lparr>applicationKeypad := False\<rparr>\<rparr>)) t
      else if finalByte = 0x5A then Some (send (deviceAttributesResponse t) t)
      else Some t)"

definition OnCsi :: "u8 \<Rightarrow> int list \<Rightarrow> bool \<Rightarrow> u8 \<Rightarrow> Vt100Terminal \<Rightarrow> Vt100Terminal option" where
  "OnCsi finalByte ps private imd t =
     (if imd \<noteq> 0 then Some t
      else if finalByte = 0x41 then on_screen (Up (Param ps 0 1)) t
      else if finalByte = 0x42 then on_screen (Down (Param ps 0 1)) t
      else if finalByte = 0x43 then on_screen (Forward (Param ps 0 1)) t
      else if finalByte = 0x44 then on_screen (Backward (Param ps 0 1)) t
      else if finalByte = 0x45 then on_screen (\<lambda>s. do { s' \<leftarrow> Down (Param ps 0 1) s; Some (MoveToColumn 1 s') }) t
      else if finalByte = 0x46 then on_screen (\<lambda>s. do { s' \<leftarrow> Up (Param ps 0 1) s; Some (MoveToColumn 1 s') }) t
      else if finalByte = 0x47 then on_screen (\<lambda>s. Some (MoveToColumn (Param ps 0 1) s)) t
      else if finalByte = 0x48 \<or> finalByte = 0x66 then on_screen (\<lambda>s. Some (MoveTo (Param ps 0 1) (Param ps 1 1) s)) t
      else if finalByte = 0x4A then on_screen (EraseInDisplay (ParamRaw ps 0 0)) t
      else if finalByte = 0x4B then on_screen (EraseInLine (ParamRaw ps 0 0)) t
      else if finalByte = 0x67 then on_screen (if ParamRaw ps 0 0 = 3 then \<lambda>s. Some (ClearAll s) else ClearHere) t
      else if finalByte = 0x68 then on_screen (\<lambda>s. Some (ApplyMode ps True private s)) t
      else if finalByte = 0x6C then on_screen (\<lambda>s. Some (ApplyMode ps False private s)) t
      else if finalByte = 0x6D then on_screen (\<lambda>s. Some (ApplySgr ps s)) t
      else if finalByte = 0x6E then
        Some (if ParamRaw ps 0 0 = 5 then ReportDeviceStatus t
              else if ParamRaw ps 0 0 = 6 then ReportCursorPosition t else t)
      else if finalByte = 0x63 then Some (if \<not> private then ReportDeviceAttributes t else t)
      else if finalByte = 0x72 then
        on_screen (\<lambda>s. Some (SetScrollRegion (ParamRaw ps 0 1) (ParamRaw ps 1 (rows s)) s)) t
      else if finalByte = 0x73 then on_screen (\<lambda>s. Some (Save s)) t
      else if finalByte = 0x75 then on_screen (\<lambda>s. Some (Restore s)) t
      else Some t)"

definition OnOsc :: "u8 list \<Rightarrow> Vt100Terminal \<Rightarrow> Vt100Terminal option" where
  "OnOsc body t = Some t"

fun on_event :: "parser_event \<Rightarrow> Vt100Terminal \<Rightarrow> Vt100Terminal option" where
  "on_event (Print ch) t = OnPrint ch t"
| "on_event (Execute b) t = OnExecute b t"
| "on_event (EscDispatch f i) t = OnEsc f i t"
| "on_event (CsiDispatch f ps priv i) t = OnCsi f ps priv i t"
| "on_event (OscDispatch body) t = OnOsc body t"

fun on_events :: "parser_event list \<Rightarrow> Vt100Terminal \<Rightarrow> Vt100Terminal option" where
  "on_events [] t = Some t"
| "on_events (e # es) t = on_event e t \<bind> on_events es"

definition Terminal_FeedByte :: "u8 \<Rightarrow> Vt100Terminal \<Rightarrow> Vt100Terminal option" where
  "Terminal_FeedByte b t =
     do { (p, es) \<leftarrow> FeedByte b (parser t); on_events es (t\<lparr>parser := p\<rparr>) }"

fun Terminal_Feed :: "u8 list \<Rightarrow> Vt100Terminal \<Rightarrow> Vt100Terminal option" where
  "Terminal_Feed [] t = Some t"
| "Terminal_Feed (b # bs) t = Terminal_FeedByte b t \<bind> Terminal_Feed bs"

end
