(* ===== verification/Screen_Correct.thy ===== *)
theory Screen_Correct
  imports Terminal_Screen
begin

text \<open>
  The screen's invariant, and for every operation: on a well-formed screen it has a result, so
  no vector is indexed out of range, the result is well-formed, and for erasing, scrolling and
  writing exactly which cells change.
\<close>

section \<open>The invariant\<close>

definition on_screen_at :: "TerminalScreen \<Rightarrow> CursorPosition \<Rightarrow> bool" where
  "on_screen_at s p \<longleftrightarrow> 0 \<le> cursorRow p \<and> cursorRow p < rows s \<and> 0 \<le> cursorColumn p \<and> cursorColumn p < cols s"

definition grid_ok :: "TerminalScreen \<Rightarrow> Cell list list \<Rightarrow> bool" where
  "grid_ok s g \<longleftrightarrow> length g = nat (rows s) \<and> (\<forall>row \<in> set g. length row = nat (cols s))"

text \<open>The largest screen the bounds below are proved for; parameters up to it never overflow.\<close>

definition maxScreen :: int where "maxScreen = 1000000000"

definition screen_wf :: "TerminalScreen \<Rightarrow> bool" where
  "screen_wf s \<longleftrightarrow> 0 < rows s \<and> rows s \<le> maxScreen \<and> 0 < cols s \<and> cols s \<le> maxScreen \<and> grid_ok s (grid s) \<and>
     on_screen_at s (cursor s) \<and> on_screen_at s (savedCursor s) \<and>
     0 \<le> scrollTop s \<and> scrollTop s \<le> scrollBottom s \<and> scrollBottom s < rows s \<and>
     length (tabStops s) = nat (cols s) \<and>
     length (history s) \<le> maxHistory \<and> (\<forall>row \<in> set (history s). length row = nat (cols s)) \<and>
     (pendingWrap s \<longrightarrow> cursorColumn (cursor s) = cols s - 1)"

lemmas wf_defs = screen_wf_def on_screen_at_def grid_ok_def

text \<open>\<open>s'\<close> has a result that keeps the invariant.\<close>

definition fine :: "TerminalScreen option \<Rightarrow> bool" where
  "fine r \<longleftrightarrow> (\<exists>s. r = Some s \<and> screen_wf s)"

lemma fine_Some [simp]: "fine (Some s) \<longleftrightarrow> screen_wf s"
  by (simp add: fine_def)

lemma fine_bind: "fine r \<Longrightarrow> (\<And>s. r = Some s \<Longrightarrow> screen_wf s \<Longrightarrow> fine (f s)) \<Longrightarrow> fine (r \<bind> f)"
  by (auto simp: fine_def)

section \<open>Painting cells\<close>

abbreviation cell :: "TerminalScreen \<Rightarrow> int \<Rightarrow> int \<Rightarrow> Cell" where
  "cell s r c \<equiv> grid s ! nat r ! nat c"

definition inside :: "TerminalScreen \<Rightarrow> int \<Rightarrow> int \<Rightarrow> bool" where
  "inside s r c \<longleftrightarrow> 0 \<le> r \<and> r < rows s \<and> 0 \<le> c \<and> c < cols s"

text \<open>\<open>s'\<close> is \<open>s\<close> with the cells of the area painted \<open>x\<close>.\<close>

definition painted :: "(int \<Rightarrow> int \<Rightarrow> bool) \<Rightarrow> Cell \<Rightarrow> TerminalScreen \<Rightarrow> TerminalScreen \<Rightarrow> bool" where
  "painted area x s s' \<longleftrightarrow> s' = s\<lparr>grid := grid s'\<rparr> \<and> grid_ok s (grid s') \<and>
     (\<forall>i j. inside s i j \<longrightarrow> cell s' i j = (if area i j then x else cell s i j))"

lemma painted_none: "grid_ok s (grid s) \<Longrightarrow> (\<And>i j. inside s i j \<Longrightarrow> \<not> area i j) \<Longrightarrow> painted area x s s"
  by (simp add: painted_def)

lemma painted_same: "painted area x s s' \<Longrightarrow> rows s' = rows s \<and> cols s' = cols s \<and> cursor s' = cursor s \<and>
    currentRendition s' = currentRendition s \<and> history s' = history s \<and> grid_ok s' (grid s') \<and> inside s' = inside s"
  unfolding painted_def grid_ok_def inside_def fun_eq_iff
  by (metis TerminalScreen.select_convs(1,2,4,6,13) TerminalScreen.surjective TerminalScreen.update_convs(3))

lemma painted_trans:
  assumes "painted A x s s1" and "painted B x s1 s2"
    and "\<And>i j. inside s i j \<Longrightarrow> C i j \<longleftrightarrow> A i j \<or> B i j"
  shows "painted C x s s2"
proof -
  note same = painted_same [OF assms(1)]
  have "s2 = s\<lparr>grid := grid s2\<rparr>"
    using assms(1,2) unfolding painted_def
    by (metis TerminalScreen.select_convs(3) TerminalScreen.surjective TerminalScreen.update_convs(3))
  moreover have "grid_ok s (grid s2)"
    using assms(2) same by (simp add: painted_def grid_ok_def)
  moreover have "cell s2 i j = (if C i j then x else cell s i j)" if "inside s i j" for i j
    using assms that same by (auto simp: painted_def)
  ultimately show ?thesis by (simp add: painted_def)
qed

lemma put_cell_painted:
  assumes "grid_ok s (grid s)" and "inside s r c"
  shows "\<exists>s'. put_cell r c x s = Some s' \<and> painted (\<lambda>i j. i = r \<and> j = c) x s s'"
proof -
  have len: "length (grid s) = nat (rows s)" "nat r < length (grid s)" "length (grid s ! nat r) = nat (cols s)"
    using assms by (auto simp: grid_ok_def inside_def)
  let ?g = "(grid s)[nat r := (grid s ! nat r)[nat c := x]]"
  have "put_cell r c x s = Some (s\<lparr>grid := ?g\<rparr>)"
    using assms len by (simp add: put_cell_def inside_def vec_simps)
  moreover have "grid_ok s ?g"
    using assms len by (auto simp: grid_ok_def dest!: set_update_subset_insert [THEN subsetD])
  moreover have "?g ! nat i ! nat j = (if i = r \<and> j = c then x else cell s i j)" if "inside s i j" for i j
    using that assms len by (auto simp: inside_def nth_list_update)
  ultimately show ?thesis by (auto simp: painted_def)
qed

lemma eraseRow_painted:
  assumes ok: "grid_ok s (grid s)" and r: "0 \<le> r" "r < rows s" and a: "0 \<le> a" and b: "b < cols s" and ab: "a \<le> b + 1"
  shows "\<exists>s'. eraseRow x r a b s = Some s' \<and> painted (\<lambda>i j. i = r \<and> a \<le> j \<and> j \<le> b) x s s'"
proof -
  have "\<exists>s'. for_up a (b + 1) (\<lambda>c. put_cell r c x) s = Some s' \<and> painted (\<lambda>i j. i = r \<and> a \<le> j \<and> j < b + 1) x s s'"
  proof (rule for_up_inv [where P = "\<lambda>k s'. painted (\<lambda>i j. i = r \<and> a \<le> j \<and> j < k) x s s'"])
    show "painted (\<lambda>i j. i = r \<and> a \<le> j \<and> j < a) x s s" using ok by (simp add: painted_none)
  next
    fix k s1
    assume k: "a \<le> k" "k < b + 1" and p: "painted (\<lambda>i j. i = r \<and> a \<le> j \<and> j < k) x s s1"
    note same = painted_same [OF p]
    have "inside s1 r k" using same r a b k by (simp add: inside_def)
    then obtain s2 where s2: "put_cell r k x s1 = Some s2" "painted (\<lambda>i j. i = r \<and> j = k) x s1 s2"
      using put_cell_painted same by blast
    have "painted (\<lambda>i j. i = r \<and> a \<le> j \<and> j < k + 1) x s s2"
      by (rule painted_trans [OF p s2(2)]) (use k in auto)
    with s2(1) show "\<exists>s'. put_cell r k x s1 = Some s' \<and> painted (\<lambda>i j. i = r \<and> a \<le> j \<and> j < k + 1) x s s'"
      by blast
  qed (use ab in simp)
  then show ?thesis by (simp add: eraseRow_def)
qed

lemma erase_rows_painted:
  assumes ok: "grid_ok s (grid s)" and lo: "0 \<le> lo" "lo \<le> hi" "hi \<le> rows s" and c: "0 < cols s"
  shows "\<exists>s'. for_up lo hi (\<lambda>r. eraseRow x r 0 (cols s - 1)) s = Some s' \<and> painted (\<lambda>i j. lo \<le> i \<and> i < hi) x s s'"
proof (rule for_up_inv [where P = "\<lambda>k s'. painted (\<lambda>i j. lo \<le> i \<and> i < k) x s s'"])
  show "painted (\<lambda>i j. lo \<le> i \<and> i < lo) x s s" using ok by (simp add: painted_none)
next
  fix k s1
  assume k: "lo \<le> k" "k < hi" and p: "painted (\<lambda>i j. lo \<le> i \<and> i < k) x s s1"
  note same = painted_same [OF p]
  obtain s2 where s2: "eraseRow x k 0 (cols s - 1) s1 = Some s2"
      "painted (\<lambda>i j. i = k \<and> 0 \<le> j \<and> j \<le> cols s - 1) x s1 s2"
    using eraseRow_painted [of s1 k 0 "cols s - 1" x] same k lo c by auto
  have "painted (\<lambda>i j. lo \<le> i \<and> i < k + 1) x s s2"
    by (rule painted_trans [OF p s2(2)]) (use k in \<open>auto simp: inside_def\<close>)
  with s2(1) show "\<exists>s'. eraseRow x k 0 (cols s - 1) s1 = Some s' \<and> painted (\<lambda>i j. lo \<le> i \<and> i < k + 1) x s s'"
    by blast
qed (use lo in simp)

lemma painted_wf: "screen_wf s \<Longrightarrow> painted A x s s' \<Longrightarrow> screen_wf s'"
  unfolding painted_def
  by (erule conjE, erule ssubst) (simp add: wf_defs)

section \<open>Scrolling rows\<close>

lemma only_grid:
  assumes "s1 = s\<lparr>grid := grid s1\<rparr>"
  shows "s1\<lparr>grid := g\<rparr> = s\<lparr>grid := g\<rparr>"
proof -
  have "s1\<lparr>grid := g\<rparr> = (s\<lparr>grid := grid s1\<rparr>)\<lparr>grid := g\<rparr>" using arg_cong [OF assms] .
  then show ?thesis by simp
qed

lemma move_row_eq:
  assumes "length (grid s) = nat (rows s)" and "0 \<le> f" "f < rows s" "0 \<le> t" "t < rows s"
  shows "move_row f t s = Some (s\<lparr>grid := (grid s)[nat f := [], nat t := grid s ! nat f]\<rparr>)"
  using assms by (simp add: move_row_def vec_simps)

text \<open>Shifting the rows of \<open>[tp, bottom]\<close> up by one; the last one is a hole afterwards.\<close>

lemma shift_up:
  assumes len: "length (grid s) = nat (rows s)" and b: "0 \<le> tp" "tp \<le> bt" "bt < rows s"
  shows "\<exists>s'. for_up tp bt (\<lambda>r. move_row (r + 1) r) s = Some s' \<and> s' = s\<lparr>grid := grid s'\<rparr> \<and>
    length (grid s') = nat (rows s) \<and>
    (\<forall>i < nat (rows s). i \<noteq> nat bt \<longrightarrow> grid s' ! i = (if nat tp \<le> i \<and> i < nat bt then grid s ! Suc i else grid s ! i))"
proof (rule for_up_inv [where P = "\<lambda>k s'. s' = s\<lparr>grid := grid s'\<rparr> \<and> length (grid s') = nat (rows s) \<and>
    (\<forall>i < nat (rows s). i \<noteq> nat k \<longrightarrow> grid s' ! i = (if nat tp \<le> i \<and> i < nat k then grid s ! Suc i else grid s ! i))"])
  fix k s1
  assume k: "tp \<le> k" "k < bt" and p: "s1 = s\<lparr>grid := grid s1\<rparr> \<and> length (grid s1) = nat (rows s) \<and>
    (\<forall>i < nat (rows s). i \<noteq> nat k \<longrightarrow> grid s1 ! i = (if nat tp \<le> i \<and> i < nat k then grid s ! Suc i else grid s ! i))"
  have r: "rows s1 = rows s" using p by (metis TerminalScreen.select_convs(1) TerminalScreen.surjective TerminalScreen.update_convs(3))
  let ?s2 = "s1\<lparr>grid := (grid s1)[nat (k + 1) := [], nat k := grid s1 ! nat (k + 1)]\<rparr>"
  have n: "nat (k + 1) = Suc (nat k)" "Suc (nat k) < nat (rows s)" using k b by auto
  have "move_row (k + 1) k s1 = Some ?s2" using move_row_eq [of s1 "k + 1" k] p r k b by simp
  moreover have "?s2 = s\<lparr>grid := grid ?s2\<rparr>"
    using p by (metis TerminalScreen.select_convs(3) TerminalScreen.surjective TerminalScreen.update_convs(3))
  moreover have "grid s1 ! Suc (nat k) = grid s ! Suc (nat k)" using p n by simp
  ultimately show "\<exists>s'. move_row (k + 1) k s1 = Some s' \<and> s' = s\<lparr>grid := grid s'\<rparr> \<and> length (grid s') = nat (rows s) \<and>
    (\<forall>i < nat (rows s). i \<noteq> nat (k + 1) \<longrightarrow> grid s' ! i = (if nat tp \<le> i \<and> i < nat (k + 1) then grid s ! Suc i else grid s ! i))"
    using p n k b by (auto simp: nth_list_update less_Suc_eq)
qed (use len b in auto)

lemma shift_down:
  assumes len: "length (grid s) = nat (rows s)" and b: "0 \<le> tp" "tp \<le> bt" "bt < rows s"
    and sb: "scrollBottom s = bt"
  shows "\<exists>s'. for_up 0 (bt - tp) (\<lambda>k s. move_row (scrollBottom s - k - 1) (scrollBottom s - k) s) s = Some s' \<and>
    s' = s\<lparr>grid := grid s'\<rparr> \<and> length (grid s') = nat (rows s) \<and>
    (\<forall>i < nat (rows s). i \<noteq> nat tp \<longrightarrow> grid s' ! i = (if nat tp < i \<and> i \<le> nat bt then grid s ! (i - 1) else grid s ! i))"
proof -
  let ?P = "\<lambda>k s'. s' = s\<lparr>grid := grid s'\<rparr> \<and> length (grid s') = nat (rows s) \<and>
    (\<forall>i < nat (rows s). i \<noteq> nat (bt - k) \<longrightarrow> grid s' ! i = (if nat (bt - k) < i \<and> i \<le> nat bt then grid s ! (i - 1) else grid s ! i))"
  have "\<exists>s'. for_up 0 (bt - tp) (\<lambda>k s. move_row (scrollBottom s - k - 1) (scrollBottom s - k) s) s = Some s' \<and> ?P (bt - tp) s'"
  proof (rule for_up_inv [where P = ?P])
    fix k s1
    assume k: "0 \<le> k" "k < bt - tp" and p: "?P k s1"
    have r: "rows s1 = rows s" "scrollBottom s1 = bt"
      using p sb by (metis TerminalScreen.select_convs(1,10) TerminalScreen.surjective TerminalScreen.update_convs(3))+
    let ?s2 = "s1\<lparr>grid := (grid s1)[nat (bt - k - 1) := [], nat (bt - k) := grid s1 ! nat (bt - k - 1)]\<rparr>"
    have len1: "length (grid s1) = nat (rows s)" using p by blast
    have n: "nat (bt - k) = Suc (nat (bt - k - 1))" "Suc (nat (bt - k - 1)) < nat (rows s)" "bt - (k + 1) = bt - k - 1"
      using k b by auto
    have "move_row (scrollBottom s1 - k - 1) (scrollBottom s1 - k) s1 = Some ?s2"
      using move_row_eq [of s1 "bt - k - 1" "bt - k"] len1 r k b by simp
    moreover have "?s2 = s\<lparr>grid := grid ?s2\<rparr>"
    proof -
      from p have "s1 = s\<lparr>grid := grid s1\<rparr>" by blast
      from only_grid [OF this] show ?thesis by simp
    qed
    moreover have "length (grid ?s2) = nat (rows s)" using len1 by simp
    moreover have "grid ?s2 ! i = (if nat (bt - (k + 1)) < i \<and> i \<le> nat bt then grid s ! (i - 1) else grid s ! i)"
      if i: "i < nat (rows s)" "i \<noteq> nat (bt - (k + 1))" for i
    proof -
      define q where "q = nat (bt - k - 1)"
      have q: "nat (bt - k) = Suc q" "nat (bt - k - 1) = q" "nat (bt - (k + 1)) = q" "Suc q \<le> nat bt"
        using k b by (auto simp: q_def)
      have nth: "j < nat (rows s) \<Longrightarrow> j \<noteq> Suc q \<Longrightarrow> grid s1 ! j = (if Suc q < j \<and> j \<le> nat bt then grid s ! (j - 1) else grid s ! j)" for j
        using p q(1) by metis
      have "Suc q < nat (rows s)" "length (grid s1) = nat (rows s)" using n q len1 by auto
      with i q nth [of i] nth [of q] show ?thesis by (auto simp: nth_list_update)
    qed
    ultimately show "\<exists>s'. move_row (scrollBottom s1 - k - 1) (scrollBottom s1 - k) s1 = Some s' \<and> ?P (k + 1) s'"
      by blast
  qed (use len b in auto)
  then show ?thesis by simp
qed

text \<open>One line up, one line down.\<close>

definition line_up :: "TerminalScreen \<Rightarrow> TerminalScreen \<Rightarrow> bool" where
  "line_up s s' \<longleftrightarrow> grid_ok s (grid s') \<and> (\<forall>i < nat (rows s). grid s' ! i =
     (if nat (scrollTop s) \<le> i \<and> i < nat (scrollBottom s) then grid s ! Suc i
      else if i = nat (scrollBottom s) then MakeBlankRow s else grid s ! i))"

definition line_down :: "TerminalScreen \<Rightarrow> TerminalScreen \<Rightarrow> bool" where
  "line_down s s' \<longleftrightarrow> grid_ok s (grid s') \<and> (\<forall>i < nat (rows s). grid s' ! i =
     (if nat (scrollTop s) < i \<and> i \<le> nat (scrollBottom s) then grid s ! (i - 1)
      else if i = nat (scrollTop s) then MakeBlankRow s else grid s ! i))"

definition pushed :: "Cell list \<Rightarrow> Cell list list \<Rightarrow> Cell list list" where
  "pushed row h = drop (length (h @ [row]) - maxHistory) (h @ [row])"

lemma length_pushed: "length (pushed row h) \<le> maxHistory"
  by (simp add: pushed_def)

lemma set_pushed: "x \<in> set (pushed row h) \<Longrightarrow> x = row \<or> x \<in> set h"
  unfolding pushed_def by (drule in_set_dropD) auto

lemma rows_ok:
  assumes "length g' = length g" and "\<And>i. i < length g \<Longrightarrow> length (g' ! i) = n"
  shows "\<forall>row \<in> set g'. length row = n"
  using assms by (auto simp: in_set_conv_nth)

lemma scroll_up_step:
  assumes "screen_wf s"
  shows "\<exists>s'. do { s \<leftarrow> (if full then remember_row (scrollTop s) s else Some s);
                   s \<leftarrow> for_up (scrollTop s) (scrollBottom s) (\<lambda>r. move_row (r + 1) r) s;
                   blank_row (scrollBottom s) s } = Some s' \<and>
    s' = s\<lparr>grid := grid s', history := history s'\<rparr> \<and> line_up s s' \<and>
    history s' = (if full then pushed (grid s ! nat (scrollTop s)) (history s) else history s)"
proof -
  have len: "length (grid s) = nat (rows s)" and b: "0 \<le> scrollTop s" "scrollTop s \<le> scrollBottom s" "scrollBottom s < rows s"
    and each: "\<And>i. i < nat (rows s) \<Longrightarrow> length (grid s ! i) = nat (cols s)"
    using assms by (auto simp: wf_defs)
  define h where "h = (if full then pushed (grid s ! nat (scrollTop s)) (history s) else history s)"
  have 1: "(if full then remember_row (scrollTop s) s else Some s) = Some (s\<lparr>history := h\<rparr>)"
    using b len by (simp add: remember_row_def vec_simps h_def pushed_def)
  let ?s1 = "s\<lparr>history := h\<rparr>"
  from shift_up [of ?s1 "scrollTop s" "scrollBottom s"] len b
  obtain s2 where 2: "for_up (scrollTop s) (scrollBottom s) (\<lambda>r. move_row (r + 1) r) ?s1 = Some s2"
      "s2 = ?s1\<lparr>grid := grid s2\<rparr>" "length (grid s2) = nat (rows s)"
      "\<forall>i < nat (rows s). i \<noteq> nat (scrollBottom s) \<longrightarrow>
         grid s2 ! i = (if nat (scrollTop s) \<le> i \<and> i < nat (scrollBottom s) then grid s ! Suc i else grid s ! i)"
    by auto
  let ?g = "(grid s2)[nat (scrollBottom s) := MakeBlankRow s]"
  have same: "scrollBottom s2 = scrollBottom s" "MakeBlankRow s2 = MakeBlankRow s"
    by (subst 2(2), simp add: MakeBlankRow_def MakeBlankCell_def)+
  have 3: "blank_row (scrollBottom s2) s2 = Some (s\<lparr>history := h, grid := ?g\<rparr>)"
    using b 2(3) same only_grid [OF 2(2)] by (simp add: blank_row_def vec_simps)
  have nth: "?g ! i = (if nat (scrollTop s) \<le> i \<and> i < nat (scrollBottom s) then grid s ! Suc i
      else if i = nat (scrollBottom s) then MakeBlankRow s else grid s ! i)" if "i < nat (rows s)" for i
    using that 2(3,4) by (cases "i = nat (scrollBottom s)") auto
  have "length (?g ! i) = nat (cols s)" if "i < nat (rows s)" for i
    using nth [OF that] each that b by (auto simp: MakeBlankRow_def)
  then have "grid_ok s ?g"
    using rows_ok [of ?g "grid s" "nat (cols s)"] 2(3) len by (simp add: grid_ok_def)
  with nth have "line_up s (s\<lparr>history := h, grid := ?g\<rparr>)" by (simp add: line_up_def)
  with 1 2(1) 3 show ?thesis by (auto simp: h_def)
qed

lemma scroll_down_step:
  assumes "screen_wf s"
  shows "\<exists>s'. do { s \<leftarrow> for_up 0 (scrollBottom s - scrollTop s)
                      (\<lambda>k s. move_row (scrollBottom s - k - 1) (scrollBottom s - k) s) s;
                   blank_row (scrollTop s) s } = Some s' \<and>
    s' = s\<lparr>grid := grid s'\<rparr> \<and> line_down s s'"
proof -
  have len: "length (grid s) = nat (rows s)" and b: "0 \<le> scrollTop s" "scrollTop s \<le> scrollBottom s" "scrollBottom s < rows s"
    and each: "\<And>i. i < nat (rows s) \<Longrightarrow> length (grid s ! i) = nat (cols s)"
    using assms by (auto simp: wf_defs)
  from shift_down [OF len b refl]
  obtain s2 where 2: "for_up 0 (scrollBottom s - scrollTop s) (\<lambda>k s. move_row (scrollBottom s - k - 1) (scrollBottom s - k) s) s = Some s2"
      "s2 = s\<lparr>grid := grid s2\<rparr>" "length (grid s2) = nat (rows s)"
      "\<forall>i < nat (rows s). i \<noteq> nat (scrollTop s) \<longrightarrow>
         grid s2 ! i = (if nat (scrollTop s) < i \<and> i \<le> nat (scrollBottom s) then grid s ! (i - 1) else grid s ! i)"
    by blast
  let ?g = "(grid s2)[nat (scrollTop s) := MakeBlankRow s]"
  have same: "scrollTop s2 = scrollTop s" "MakeBlankRow s2 = MakeBlankRow s"
    by (subst 2(2), simp add: MakeBlankRow_def MakeBlankCell_def)+
  have 3: "blank_row (scrollTop s2) s2 = Some (s\<lparr>grid := ?g\<rparr>)"
    using b 2(3) same only_grid [OF 2(2)] by (simp add: blank_row_def vec_simps)
  have nth: "?g ! i = (if nat (scrollTop s) < i \<and> i \<le> nat (scrollBottom s) then grid s ! (i - 1)
      else if i = nat (scrollTop s) then MakeBlankRow s else grid s ! i)" if "i < nat (rows s)" for i
    using that 2(3,4) by (cases "i = nat (scrollTop s)") auto
  have "length (?g ! i) = nat (cols s)" if "i < nat (rows s)" for i
    using nth [OF that] each that b by (auto simp: MakeBlankRow_def)
  then have "grid_ok s ?g"
    using rows_ok [of ?g "grid s" "nat (cols s)"] 2(3) len by (simp add: grid_ok_def)
  with nth have "line_down s (s\<lparr>grid := ?g\<rparr>)" by (simp add: line_down_def)
  with 2(1) 3 show ?thesis by auto
qed

lemma scrolled_wf:
  assumes "screen_wf s" and "s' = s\<lparr>grid := grid s', history := history s'\<rparr>" and "grid_ok s (grid s')"
    and "length (history s') \<le> maxHistory" and "\<forall>row \<in> set (history s'). length row = nat (cols s)"
  shows "screen_wf s'"
proof -
  have "screen_wf (s\<lparr>grid := grid s', history := history s'\<rparr>)"
    using assms(1,3-5) by (simp add: wf_defs)
  with assms(2) show ?thesis by simp
qed

lemma top_row_length: "screen_wf s \<Longrightarrow> length (grid s ! nat (scrollTop s)) = nat (cols s)"
  by (auto simp: wf_defs)

lemma scroll_up_step_wf:
  assumes "screen_wf s" and "s' = s\<lparr>grid := grid s', history := history s'\<rparr>" and "line_up s s'"
    and "history s' = (if full then pushed (grid s ! nat (scrollTop s)) (history s) else history s)"
  shows "screen_wf s'"
proof (rule scrolled_wf [OF assms(1,2)])
  show "grid_ok s (grid s')" using assms(3) by (simp add: line_up_def)
  show "length (history s') \<le> maxHistory" using assms(1,4) length_pushed by (auto simp: screen_wf_def)
  show "\<forall>row \<in> set (history s'). length row = nat (cols s)"
    using assms(1,4) top_row_length [OF assms(1)] by (auto simp: screen_wf_def dest: set_pushed)
qed

lemma scroll_down_step_wf:
  assumes "screen_wf s" and "s' = s\<lparr>grid := grid s'\<rparr>" and "line_down s s'"
  shows "screen_wf s'"
proof -
  have h: "history s' = history s" by (subst assms(2)) simp
  have "s\<lparr>grid := grid s', history := history s'\<rparr> = s\<lparr>grid := grid s'\<rparr>" by (simp add: h)
  with assms(2) have "s' = s\<lparr>grid := grid s', history := history s'\<rparr>" by (rule trans [OF _ sym])
  from scrolled_wf [OF assms(1) this] assms(1,3) h show ?thesis by (auto simp: line_down_def screen_wf_def)
qed

text \<open>The scroll operations, for any number of lines.\<close>

lemma ScrollUp_fine:
  assumes "screen_wf s"
  shows "fine (ScrollUpInRegion n s)"
proof -
  have nn: "0 \<le> (if (if n < 1 then 1 else n) > scrollBottom s - scrollTop s + 1 then scrollBottom s - scrollTop s + 1 else (if n < 1 then 1 else n))"
    using assms by (auto simp: screen_wf_def)
  show ?thesis
    unfolding ScrollUpInRegion_def Let_def fine_def
    by (rule for_up_inv [where P = "\<lambda>_. screen_wf"])
      (use assms nn scroll_up_step scroll_up_step_wf in blast)+
qed

lemma ScrollDown_fine:
  assumes "screen_wf s"
  shows "fine (ScrollDownInRegion n s)"
proof -
  have nn: "0 \<le> (if (if n < 1 then 1 else n) > scrollBottom s - scrollTop s + 1 then scrollBottom s - scrollTop s + 1 else (if n < 1 then 1 else n))"
    using assms by (auto simp: screen_wf_def)
  show ?thesis
    unfolding ScrollDownInRegion_def Let_def fine_def
    by (rule for_up_inv [where P = "\<lambda>_. screen_wf"])
      (use assms nn scroll_down_step scroll_down_step_wf in blast)+
qed

lemma for_up_once: "for_up 0 1 body s = body 0 s"
  by (cases "body 0 s") (simp_all add: for_up_step)

lemma ScrollUp_one:
  assumes "screen_wf s"
  shows "\<exists>s'. ScrollUpInRegion 1 s = Some s' \<and> s' = s\<lparr>grid := grid s', history := history s'\<rparr> \<and> line_up s s' \<and>
    history s' = (if scrollTop s = 0 \<and> scrollBottom s = rows s - 1 then pushed (grid s ! 0) (history s) else history s)"
proof -
  have "\<not> 1 > scrollBottom s - scrollTop s + 1" using assms by (auto simp: screen_wf_def)
  then have "ScrollUpInRegion 1 s = do { s \<leftarrow> (if scrollTop s = 0 \<and> scrollBottom s = rows s - 1 then remember_row (scrollTop s) s else Some s);
                   s \<leftarrow> for_up (scrollTop s) (scrollBottom s) (\<lambda>r. move_row (r + 1) r) s;
                   blank_row (scrollBottom s) s }"
    by (simp add: ScrollUpInRegion_def Let_def for_up_once)
  with scroll_up_step [OF assms, of "scrollTop s = 0 \<and> scrollBottom s = rows s - 1"] show ?thesis by (auto split: if_splits)
qed

lemma ScrollDown_one:
  assumes "screen_wf s"
  shows "\<exists>s'. ScrollDownInRegion 1 s = Some s' \<and> s' = s\<lparr>grid := grid s'\<rparr> \<and> line_down s s'"
proof -
  have "\<not> 1 > scrollBottom s - scrollTop s + 1" using assms by (auto simp: screen_wf_def)
  then have "ScrollDownInRegion 1 s = do { s \<leftarrow> for_up 0 (scrollBottom s - scrollTop s)
                      (\<lambda>k s. move_row (scrollBottom s - k - 1) (scrollBottom s - k) s) s;
                   blank_row (scrollTop s) s }"
    by (simp add: ScrollDownInRegion_def Let_def for_up_once)
  with scroll_down_step [OF assms] show ?thesis by simp
qed

end
