(* ===== verification/Screen_Operations.thy ===== *)
theory Screen_Operations
  imports Screen_Correct
begin

text \<open>
  Every operation of the screen keeps the invariant and has a result. The facts are collected
  in \<open>screen_ops\<close> for the terminal on top.
\<close>

named_theorems screen_ops \<open>screen operations keep the invariant\<close>

lemma quiet_wf [simp]: "screen_wf s \<Longrightarrow> screen_wf (s\<lparr>pendingWrap := False\<rparr>)"
  by (simp add: wf_defs)

section \<open>Construction\<close>

lemma set_tabs_ok:
  "0 \<le> c \<Longrightarrow> n \<le> int (length ts) \<Longrightarrow> \<exists>ts'. set_tabs c n ts = Some ts' \<and> length ts' = length ts"
proof (induction c n ts rule: set_tabs.induct)
  case (1 c n ts)
  show ?case
  proof (cases "c < n")
    case True
    then have s: "vec_set ts c True = Some (ts[nat c := True])" using "1.prems" by (simp add: vec_simps)
    from "1.IH" [OF True s] "1.prems"
    have "\<exists>ts'. set_tabs (c + defaultTabInterval) n (ts[nat c := True]) = Some ts' \<and> length ts' = length ts"
      by (simp add: defaultTabInterval_def)
    with True s show ?thesis by (subst set_tabs.simps) simp
  next
    case False
    then show ?thesis by (subst set_tabs.simps) simp
  qed
qed

lemma Reset_ok:
  assumes "0 < rows s" "rows s \<le> maxScreen" "0 < cols s" "cols s \<le> maxScreen"
  shows "\<exists>s'. Reset s = Some s' \<and> screen_wf s' \<and> rows s' = rows s \<and> cols s' = cols s"
proof -
  obtain ts where "set_tabs defaultTabInterval (cols s) (replicate (nat (cols s)) False) = Some ts" "length ts = nat (cols s)"
    using set_tabs_ok [of defaultTabInterval "cols s" "replicate (nat (cols s)) False"] assms(3) by (auto simp: defaultTabInterval_def)
  with assms show ?thesis
    by (simp add: Reset_def Let_def wf_defs CursorPosition_init_def MakeBlankRow_def maxHistory_def)
qed

lemma Reset_fine [screen_ops]: "screen_wf s \<Longrightarrow> fine (Reset s)"
  using Reset_ok [of s] by (auto simp: fine_def screen_wf_def)

lemma TerminalScreen_new_fine: "r \<le> maxScreen \<Longrightarrow> c \<le> maxScreen \<Longrightarrow> fine (TerminalScreen_new r c)"
  unfolding TerminalScreen_new_def fine_def
  using Reset_ok [of "\<lparr>rows = (if r > 0 then r else 24), cols = (if c > 0 then c else 100), grid = [],
       cursor = CursorPosition_init, savedCursor = CursorPosition_init,
       currentRendition = Rendition_init, savedRendition = Rendition_init, tabStops = [],
       scrollTop = 0, scrollBottom = 0, pendingWrap = False, modes = Modes_init, history = []\<rparr>"]
  by (auto simp: maxScreen_def)

lemma SoftReset_wf [screen_ops]: "screen_wf s \<Longrightarrow> screen_wf (SoftReset s)"
  by (simp add: SoftReset_def wf_defs CursorPosition_init_def)

section \<open>Moving\<close>

lemma CarriageReturn_wf [screen_ops]: "screen_wf s \<Longrightarrow> screen_wf (CarriageReturn s)"
  by (simp add: CarriageReturn_def wf_defs)

lemma Backspace_wf [screen_ops]: "screen_wf s \<Longrightarrow> screen_wf (Backspace s)"
  by (simp add: Backspace_def wf_defs)

lemma move_row_wf: "screen_wf s \<Longrightarrow> 0 \<le> r \<Longrightarrow> r < rows s \<Longrightarrow> screen_wf (s\<lparr>pendingWrap := False, cursor := (cursor s)\<lparr>cursorRow := r\<rparr>\<rparr>)"
  by (simp add: wf_defs)

lemma move_column_wf: "screen_wf s \<Longrightarrow> 0 \<le> c \<Longrightarrow> c < cols s \<Longrightarrow> screen_wf (s\<lparr>pendingWrap := False, cursor := (cursor s)\<lparr>cursorColumn := c\<rparr>\<rparr>)"
  by (simp add: wf_defs)

lemma cursor_bounds:
  assumes "screen_wf s"
  shows "0 \<le> cursorRow (cursor s)" "cursorRow (cursor s) < rows s"
    "0 \<le> cursorColumn (cursor s)" "cursorColumn (cursor s) < cols s" "rows s \<le> maxScreen" "cols s \<le> maxScreen"
    "0 \<le> scrollTop s" "scrollTop s \<le> scrollBottom s" "scrollBottom s < rows s" "0 < cols s" "0 < rows s"
  using assms by (simp_all add: wf_defs)

lemmas int_bounds = chk_int_def int_max_def int_min_def maxScreen_def

lemma Up_fine [screen_ops]: "screen_wf s \<Longrightarrow> n \<le> maxScreen \<Longrightarrow> fine (Up n s)"
  using cursor_bounds [of s]
  by (auto simp: Up_def Let_def fine_def int_bounds intro!: move_row_wf)

lemma Backward_fine [screen_ops]: "screen_wf s \<Longrightarrow> n \<le> maxScreen \<Longrightarrow> fine (Backward n s)"
  using cursor_bounds [of s]
  by (auto simp: Backward_def Let_def fine_def int_bounds intro!: move_column_wf)

lemma Down_fine [screen_ops]: "screen_wf s \<Longrightarrow> n \<le> maxScreen \<Longrightarrow> fine (Down n s)"
  using cursor_bounds [of s]
  by (auto simp: Down_def Let_def fine_def int_bounds intro!: move_row_wf)

lemma Forward_fine [screen_ops]: "screen_wf s \<Longrightarrow> n \<le> maxScreen \<Longrightarrow> fine (Forward n s)"
  using cursor_bounds [of s]
  by (auto simp: Forward_def Let_def fine_def int_bounds intro!: move_column_wf)

lemmas clamp_defs = ClampCursor_def Let_def wf_defs

lemma MoveTo_wf [screen_ops]: "screen_wf s \<Longrightarrow> screen_wf (MoveTo r c s)"
  by (auto simp: MoveTo_def clamp_defs)

lemma MoveToColumn_wf [screen_ops]: "screen_wf s \<Longrightarrow> screen_wf (MoveToColumn c s)"
  by (auto simp: MoveToColumn_def Let_def wf_defs)

lemma Save_wf [screen_ops]: "screen_wf s \<Longrightarrow> screen_wf (Save s)"
  by (simp add: Save_def wf_defs)

lemma rendition_wf [simp]: "screen_wf (s\<lparr>currentRendition := r\<rparr>) = screen_wf s"
  by (simp add: wf_defs)

lemma Restore_wf [screen_ops]: "screen_wf s \<Longrightarrow> screen_wf (Restore s)"
  by (auto simp: Restore_def clamp_defs)

lemma SetScrollRegion_wf [screen_ops]: "screen_wf s \<Longrightarrow> screen_wf (SetScrollRegion t b s)"
  by (auto simp: SetScrollRegion_def Let_def wf_defs)

section \<open>Index, tabs, erase, write\<close>

lemma Index_fine [screen_ops]:
  assumes "screen_wf s"
  shows "fine (Index s)"
  using ScrollUp_fine [OF quiet_wf [OF assms], of 1] cursor_bounds [OF assms] assms
  by (auto simp: Index_def Let_def intro!: move_row_wf [OF assms])

lemma ReverseIndex_fine [screen_ops]:
  assumes "screen_wf s"
  shows "fine (ReverseIndex s)"
  using ScrollDown_fine [OF quiet_wf [OF assms], of 1] cursor_bounds [OF assms] assms
  by (auto simp: ReverseIndex_def Let_def intro!: move_row_wf [OF assms])

lemma LineFeed_fine [screen_ops]: "screen_wf s \<Longrightarrow> fine (LineFeed s)"
  unfolding LineFeed_def by (rule fine_bind) (auto intro: screen_ops)

lemma NextLine_fine [screen_ops]: "screen_wf s \<Longrightarrow> fine (NextLine s)"
  unfolding NextLine_def by (rule fine_bind) (auto intro: screen_ops)

lemma next_tab_ok:
  "0 \<le> c \<Longrightarrow> n \<le> int (length ts) \<Longrightarrow> \<exists>r. next_tab c n ts = Some r \<and> (\<forall>d. r = Some d \<longrightarrow> c \<le> d \<and> d < n)"
proof (induction c n ts rule: next_tab.induct)
  case (1 c n ts)
  show ?case
  proof (cases "c < n")
    case True
    then have s: "vec_get ts c = Some (ts ! nat c)" using "1.prems" by (simp add: vec_simps)
    show ?thesis
    proof (cases "ts ! nat c")
      case True
      with s \<open>c < n\<close> show ?thesis by (subst next_tab.simps) simp
    next
      case False
      from "1.IH" [OF True s False] "1.prems" obtain r where
        "next_tab (c + 1) n ts = Some r" "\<forall>d. r = Some d \<longrightarrow> c + 1 \<le> d \<and> d < n" by auto
      with s \<open>c < n\<close> False show ?thesis by (subst next_tab.simps) fastforce
    qed
  next
    case False
    then show ?thesis by (subst next_tab.simps) simp
  qed
qed

lemma HorizontalTab_fine [screen_ops]:
  assumes "screen_wf s"
  shows "fine (HorizontalTab s)"
proof -
  note b = cursor_bounds [OF assms]
  obtain r where r: "next_tab (cursorColumn (cursor s) + 1) (cols s) (tabStops s) = Some r"
      "\<forall>d. r = Some d \<longrightarrow> cursorColumn (cursor s) + 1 \<le> d \<and> d < cols s"
    using next_tab_ok [of "cursorColumn (cursor s) + 1" "cols s" "tabStops s"] b assms by (auto simp: wf_defs)
  show ?thesis
  proof (cases r)
    case None
    with r(1) b assms show ?thesis by (simp add: HorizontalTab_def Let_def move_column_wf)
  next
    case (Some d)
    with r b assms show ?thesis by (simp add: HorizontalTab_def Let_def move_column_wf)
  qed
qed

lemma SetHere_fine [screen_ops]: "screen_wf s \<Longrightarrow> fine (SetHere s)"
  by (auto simp: SetHere_def wf_defs vec_set_def)

lemma ClearHere_fine [screen_ops]: "screen_wf s \<Longrightarrow> fine (ClearHere s)"
  by (auto simp: ClearHere_def wf_defs vec_set_def)

lemma ClearAll_wf [screen_ops]: "screen_wf s \<Longrightarrow> screen_wf (ClearAll s)"
  by (simp add: ClearAll_def wf_defs)

lemma ClearHistory_wf [screen_ops]: "screen_wf s \<Longrightarrow> screen_wf (s\<lparr>history := []\<rparr>)"
  by (simp add: wf_defs maxHistory_def)

text \<open>The area an erase command blanks.\<close>

definition display_area :: "int \<Rightarrow> TerminalScreen \<Rightarrow> int \<Rightarrow> int \<Rightarrow> bool" where
  "display_area mode s i j \<longleftrightarrow>
     (let r = cursorRow (cursor s); c = cursorColumn (cursor s) in
      if mode = 0 then r < i \<or> (i = r \<and> c \<le> j)
      else if mode = 1 then i < r \<or> (i = r \<and> j \<le> c)
      else mode = 2 \<or> mode = 3)"

definition line_area :: "int \<Rightarrow> TerminalScreen \<Rightarrow> int \<Rightarrow> int \<Rightarrow> bool" where
  "line_area mode s i j \<longleftrightarrow>
     i = cursorRow (cursor s) \<and>
     (if mode = 0 then cursorColumn (cursor s) \<le> j
      else if mode = 1 then j \<le> cursorColumn (cursor s) else mode = 2)"

lemma EraseInLine_painted:
  assumes "screen_wf s"
  shows "\<exists>s'. EraseInLine mode s = Some s' \<and>
    painted (line_area mode s) (MakeBlankCell s) (s\<lparr>pendingWrap := False\<rparr>) s'"
proof -
  let ?s = "s\<lparr>pendingWrap := False\<rparr>" and ?r = "cursorRow (cursor s)" and ?c = "cursorColumn (cursor s)"
  note b = cursor_bounds [OF assms]
  have ok: "grid_ok ?s (grid ?s)" using assms by (simp add: wf_defs)
  have blank: "MakeBlankCell ?s = MakeBlankCell s" by (simp add: MakeBlankCell_def)
  have row: "\<exists>s'. for_up a n (\<lambda>k. put_cell ?r k (MakeBlankCell s)) ?s = Some s' \<and>
      painted (\<lambda>i j. i = ?r \<and> a \<le> j \<and> j < n) (MakeBlankCell s) ?s s'"
    if "0 \<le> a" "a \<le> n" "n \<le> cols s" for a n
    using eraseRow_painted [OF ok, of ?r a "n - 1" "MakeBlankCell s"] that b by (simp add: eraseRow_def)
  have area: "painted A x ?s s' \<Longrightarrow> (\<And>i j. inside ?s i j \<Longrightarrow> B i j = A i j) \<Longrightarrow> painted B x ?s s'" for A B x s'
    by (simp add: painted_def)
  consider "mode = 0" | "mode = 1" | "mode = 2" | "mode \<noteq> 0" "mode \<noteq> 1" "mode \<noteq> 2" by blast
  then show ?thesis
  proof cases
    case 1
    obtain s' where s': "for_up ?c (cols s) (\<lambda>k. put_cell ?r k (MakeBlankCell s)) ?s = Some s'"
        "painted (\<lambda>i j. i = ?r \<and> ?c \<le> j \<and> j < cols s) (MakeBlankCell s) ?s s'"
      using row [of ?c "cols s"] b by auto
    have "painted (line_area mode s) (MakeBlankCell s) ?s s'"
      by (rule area [OF s'(2)]) (simp add: 1 line_area_def inside_def)
    with 1 s'(1) show ?thesis by (simp add: EraseInLine_def Let_def blank)
  next
    case 2
    obtain s' where s': "for_up 0 (?c + 1) (\<lambda>k. put_cell ?r k (MakeBlankCell s)) ?s = Some s'"
        "painted (\<lambda>i j. i = ?r \<and> 0 \<le> j \<and> j < ?c + 1) (MakeBlankCell s) ?s s'"
      using row [of 0 "?c + 1"] b by auto
    have "painted (line_area mode s) (MakeBlankCell s) ?s s'"
      by (rule area [OF s'(2)]) (auto simp: 2 line_area_def inside_def)
    with 2 s'(1) show ?thesis by (simp add: EraseInLine_def Let_def blank)
  next
    case 3
    obtain s' where s': "for_up 0 (cols s) (\<lambda>k. put_cell ?r k (MakeBlankCell s)) ?s = Some s'"
        "painted (\<lambda>i j. i = ?r \<and> 0 \<le> j \<and> j < cols s) (MakeBlankCell s) ?s s'"
      using row [of 0 "cols s"] b by auto
    have "painted (line_area mode s) (MakeBlankCell s) ?s s'"
      by (rule area [OF s'(2)]) (simp add: 3 line_area_def inside_def)
    with 3 s'(1) show ?thesis by (simp add: EraseInLine_def Let_def blank)
  next
    case 4
    have "painted (line_area mode s) (MakeBlankCell s) ?s ?s"
      using painted_none [OF ok] 4 by (simp add: line_area_def)
    with 4 show ?thesis by (simp add: EraseInLine_def Let_def)
  qed
qed

lemma EraseInLine_fine [screen_ops]: "screen_wf s \<Longrightarrow> fine (EraseInLine mode s)"
  unfolding fine_def using EraseInLine_painted painted_wf quiet_wf by blast

lemma EraseInDisplay_painted:
  assumes "screen_wf s"
  shows "\<exists>s'. EraseInDisplay mode s = Some (if mode = 3 then s'\<lparr>history := []\<rparr> else s') \<and>
    painted (display_area mode s) (MakeBlankCell s) (s\<lparr>pendingWrap := False\<rparr>) s'"
proof -
  let ?s = "s\<lparr>pendingWrap := False\<rparr>" and ?r = "cursorRow (cursor s)" and ?c = "cursorColumn (cursor s)"
  let ?x = "MakeBlankCell s"
  note b = cursor_bounds [OF assms]
  have ok: "grid_ok ?s (grid ?s)" using assms by (simp add: wf_defs)
  have blank: "MakeBlankCell ?s = ?x" by (simp add: MakeBlankCell_def)
  have area: "painted A x ?s s' \<Longrightarrow> (\<And>i j. inside ?s i j \<Longrightarrow> B i j = A i j) \<Longrightarrow> painted B x ?s s'" for A B x s'
    by (simp add: painted_def)
  consider "mode = 0" | "mode = 1" | "mode = 2 \<or> mode = 3" | "mode \<noteq> 0" "mode \<noteq> 1" "mode \<noteq> 2" "mode \<noteq> 3" by blast
  then show ?thesis
  proof cases
    case 1
    obtain s1 where s1: "eraseRow ?x ?r ?c (cols s - 1) ?s = Some s1"
        "painted (\<lambda>i j. i = ?r \<and> ?c \<le> j \<and> j \<le> cols s - 1) ?x ?s s1"
      using eraseRow_painted [OF ok, of ?r ?c "cols s - 1" ?x] b by auto
    note same = painted_same [OF s1(2)]
    obtain s2 where s2: "for_up (?r + 1) (rows s) (\<lambda>r. eraseRow ?x r 0 (cols s - 1)) s1 = Some s2"
        "painted (\<lambda>i j. ?r + 1 \<le> i \<and> i < rows s) ?x s1 s2"
      using erase_rows_painted [of s1 "?r + 1" "rows s" ?x] same b by auto
    have "painted (display_area mode s) ?x ?s s2"
      by (rule painted_trans [OF s1(2) s2(2)]) (auto simp: 1 display_area_def inside_def)
    with 1 s1(1) s2(1) show ?thesis by (simp add: EraseInDisplay_def Let_def blank)
  next
    case 2
    obtain s1 where s1: "for_up 0 ?r (\<lambda>r. eraseRow ?x r 0 (cols s - 1)) ?s = Some s1"
        "painted (\<lambda>i j. 0 \<le> i \<and> i < ?r) ?x ?s s1"
      using erase_rows_painted [OF ok, of 0 ?r ?x] b by auto
    note same = painted_same [OF s1(2)]
    obtain s2 where s2: "eraseRow ?x ?r 0 ?c s1 = Some s2" "painted (\<lambda>i j. i = ?r \<and> 0 \<le> j \<and> j \<le> ?c) ?x s1 s2"
      using eraseRow_painted [of s1 ?r 0 ?c ?x] same b by auto
    have "painted (display_area mode s) ?x ?s s2"
      by (rule painted_trans [OF s1(2) s2(2)]) (auto simp: 2 display_area_def inside_def)
    with 2 s1(1) s2(1) show ?thesis by (simp add: EraseInDisplay_def Let_def blank)
  next
    case 3
    obtain s1 where s1: "for_up 0 (rows s) (\<lambda>r. eraseRow ?x r 0 (cols s - 1)) ?s = Some s1"
        "painted (\<lambda>i j. 0 \<le> i \<and> i < rows s) ?x ?s s1"
      using erase_rows_painted [OF ok, of 0 "rows s" ?x] b by auto
    have "painted (display_area mode s) ?x ?s s1"
      by (rule area [OF s1(2)]) (use 3 in \<open>auto simp: display_area_def inside_def\<close>)
    with 3 s1(1) show ?thesis by (auto simp: EraseInDisplay_def Let_def blank)
  next
    case 4
    have "painted (display_area mode s) ?x ?s ?s"
      using painted_none [OF ok] 4 by (simp add: display_area_def)
    with 4 show ?thesis by (simp add: EraseInDisplay_def Let_def)
  qed
qed

lemma EraseInDisplay_fine [screen_ops]: "screen_wf s \<Longrightarrow> fine (EraseInDisplay mode s)"
proof -
  assume wf: "screen_wf s"
  obtain s' where s': "EraseInDisplay mode s = Some (if mode = 3 then s'\<lparr>history := []\<rparr> else s')"
      "painted (display_area mode s) (MakeBlankCell s) (s\<lparr>pendingWrap := False\<rparr>) s'"
    using EraseInDisplay_painted [OF wf] by blast
  have "screen_wf s'" by (rule painted_wf [OF quiet_wf [OF wf] s'(2)])
  with s'(1) ClearHistory_wf show ?thesis by simp
qed

text \<open>A character is written at the cursor, after the deferred wrap.\<close>

lemma Write_step:
  assumes "screen_wf s"
  shows "\<exists>s'. put_cell (cursorRow (cursor s)) (cursorColumn (cursor s)) x (s\<lparr>pendingWrap := False\<rparr>) = Some s' \<and>
    painted (\<lambda>i j. i = cursorRow (cursor s) \<and> j = cursorColumn (cursor s)) x (s\<lparr>pendingWrap := False\<rparr>) s'"
proof (rule put_cell_painted)
  show "grid_ok (s\<lparr>pendingWrap := False\<rparr>) (grid (s\<lparr>pendingWrap := False\<rparr>))" using assms by (simp add: wf_defs)
  show "inside (s\<lparr>pendingWrap := False\<rparr>) (cursorRow (cursor s)) (cursorColumn (cursor s))"
    using assms by (simp add: wf_defs inside_def)
qed

definition advance :: "TerminalScreen \<Rightarrow> TerminalScreen" where
  "advance s =
     (if cursorColumn (cursor s) + 1 \<ge> cols s
      then set_column (cols s - 1) (s\<lparr>pendingWrap := autoWrap (modes s)\<rparr>)
      else set_column (cursorColumn (cursor s) + 1) s)"

lemma advance_wf: "screen_wf s \<Longrightarrow> \<not> pendingWrap s \<Longrightarrow> screen_wf (advance s)"
  by (auto simp: advance_def wf_defs)

lemma Write_fine [screen_ops]:
  assumes "screen_wf s"
  shows "fine (Write ch s)"
proof -
  have put: "fine (do { s3 \<leftarrow> put_cell (cursorRow (cursor s1)) (cursorColumn (cursor s1)) x (s1\<lparr>pendingWrap := False\<rparr>);
      Some (advance s3) })" if wf: "screen_wf s1" for s1 x
  proof -
    obtain s3 where s3: "put_cell (cursorRow (cursor s1)) (cursorColumn (cursor s1)) x (s1\<lparr>pendingWrap := False\<rparr>) = Some s3"
        "painted (\<lambda>i j. i = cursorRow (cursor s1) \<and> j = cursorColumn (cursor s1)) x (s1\<lparr>pendingWrap := False\<rparr>) s3"
      using Write_step [OF wf] by blast
    have "screen_wf s3" by (rule painted_wf [OF quiet_wf [OF wf] s3(2)])
    moreover have "\<not> pendingWrap s3"
    proof -
      from s3(2) have e: "s3 = s1\<lparr>pendingWrap := False\<rparr>\<lparr>grid := grid s3\<rparr>" by (simp only: painted_def)
      show ?thesis by (subst e) simp
    qed
    ultimately show ?thesis using s3(1) advance_wf by simp
  qed
  have "fine (if pendingWrap s \<and> autoWrap (modes s) then Index (CarriageReturn s) else Some s)"
    using assms by (auto intro: screen_ops)
  then show ?thesis
    unfolding Write_def Let_def
    by (rule fine_bind) (use put in \<open>simp add: advance_def\<close>)
qed

end
