(* ===== verification/Terminal_Correct.thy ===== *)
theory Terminal_Correct
  imports Vt100_Terminal Screen_Operations
begin

text \<open>
  The parser and the terminal: parameters with few digits never overflow, a control sequence is
  parsed back into its parameters, the parser resynchronises, and every byte keeps the
  terminal well-formed.
\<close>

section \<open>Byte classes\<close>

lemmas class_defs = IsC0Execute_def IsIntermediate_def IsParameter_def IsPrivateMarker_def IsFinal_def
  byte_consts is_digit_def

lemma digit_class: "is_digit b \<Longrightarrow> \<not> IsC0Execute b \<and> b \<noteq> DEL_BYTE \<and> IsParameter b \<and> \<not> IsPrivateMarker b"
  by (auto simp: class_defs word_le_def split: if_splits)

lemma parameter_class: "IsParameter b \<Longrightarrow> \<not> IsPrivateMarker b"
  by (auto simp: class_defs word_le_def)

lemmas handler_defs = HandleByState_def HandleGround_def HandleEscape_def HandleCsiEntry_def HandleCsiParam_def
  HandleCsiIntermediate_def HandleOsc_def DispatchOsc_def DoExecute_def Transition_def

section \<open>Runs of digits\<close>

text \<open>Every run of digits is shorter than ten; \<open>k\<close> digits have just been seen.\<close>

fun runs_ok :: "nat \<Rightarrow> u8 list \<Rightarrow> bool" where
  "runs_ok k [] = True"
| "runs_ok k (c # cs) =
     (if is_digit c then k < 9 \<and> runs_ok (k + 1) cs else if c = 0x3B then runs_ok 0 cs else runs_ok k cs)"

fun last_run :: "nat \<Rightarrow> u8 list \<Rightarrow> nat" where
  "last_run k [] = k"
| "last_run k (c # cs) = (if is_digit c then last_run (k + 1) cs else if c = 0x3B then last_run 0 cs else last_run k cs)"

lemma runs_ok_snoc: "runs_ok k (cs @ [c]) \<longleftrightarrow> runs_ok k cs \<and> (is_digit c \<longrightarrow> last_run k cs < 9)"
  by (induction cs arbitrary: k) auto

lemma last_run_snoc: "last_run k (cs @ [c]) = (if is_digit c then last_run k cs + 1 else if c = 0x3B then 0 else last_run k cs)"
  by (induction cs arbitrary: k) auto

definition small :: "int \<Rightarrow> bool" where
  "small v \<longleftrightarrow> 0 \<le> v \<and> v < maxScreen"

lemma digit_value: "is_digit c \<Longrightarrow> 0 \<le> uint c - 0x30 \<and> uint c - 0x30 \<le> 9"
  by (simp add: is_digit_def word_le_def)

lemma parse_params_small:
  assumes "runs_ok k cs" and "k \<le> 9" and "0 \<le> cur" and "cur < 10 ^ k" and "\<forall>v \<in> set vs. small v"
  shows "\<exists>vs' cur' h'. parse_params cs vs cur h = Some (vs', cur', h') \<and> (\<forall>v \<in> set vs'. small v) \<and> small cur'"
  using assms
proof (induction cs arbitrary: k vs cur h)
  case Nil
  have "(10::int) ^ k \<le> 10 ^ 9" using Nil.prems(2) by (rule power_increasing) simp
  with Nil show ?case by (simp add: small_def maxScreen_def)
next
  case (Cons c cs)
  have ten: "(10::int) ^ k \<le> 10 ^ 9" using Cons.prems(2) by (rule power_increasing) simp
  with Cons.prems(3,4) have cur_small: "small cur" by (simp add: small_def maxScreen_def)
  consider "is_digit c" | "\<not> is_digit c" "c = 0x3B" | "\<not> is_digit c" "c \<noteq> 0x3B" by blast
  then show ?case
  proof cases
    case 1
    then have k: "k < 9" "runs_ok (k + 1) cs" using Cons.prems(1) by simp_all
    let ?n = "cur * 10 + (uint c - 0x30)"
    note d = digit_value [OF 1]
    have "(10::int) ^ k \<le> 10 ^ 8" using k(1) by (intro power_increasing) auto
    then have b: "cur < 100000000" using Cons.prems(4) by simp
    have n: "0 \<le> ?n" "?n < 10 ^ (k + 1)" using Cons.prems(3,4) d by auto
    from Cons.IH [OF k(2) _ n Cons.prems(5), of True] k(1)
    obtain vs' cur' h' where "parse_params cs vs ?n True = Some (vs', cur', h')" "\<forall>v \<in> set vs'. small v" "small cur'"
      by auto
    moreover have "chk_int (cur * 10) = Some (cur * 10)" "chk_int ?n = Some ?n"
      using b d Cons.prems(3) by (auto simp: int_max_def int_min_def)
    ultimately show ?thesis using 1 by (simp add: is_digit_def del: chk_int_Some)
  next
    case 2
    have "\<forall>v \<in> set (vs @ [if h then cur else 0]). small v"
      using Cons.prems(5) cur_small by (auto simp: small_def maxScreen_def)
    with 2 Cons.IH [of 0 0 "vs @ [if h then cur else 0]" False] Cons.prems(1) show ?thesis
      by (simp add: is_digit_def)
  next
    case 3
    then have r: "runs_ok k cs" using Cons.prems(1) by simp
    have "parse_params (c # cs) vs cur h = parse_params cs vs cur h"
      using 3 by (simp only: is_digit_def parse_params.simps if_False simp_thms)
    with Cons.IH [OF r Cons.prems(2-5), of h] show ?thesis by simp
  qed
qed

section \<open>Parser invariant\<close>

text \<open>The same condition on the bytes of the input: control bytes do not end a run.\<close>

fun short_runs :: "nat \<Rightarrow> u8 list \<Rightarrow> bool" where
  "short_runs k [] = True"
| "short_runs k (b # bs) =
     (if is_digit b then k < 9 \<and> short_runs (k + 1) bs
      else if IsC0Execute b \<or> b = DEL_BYTE then short_runs k bs
      else short_runs 0 bs)"

definition next_run :: "nat \<Rightarrow> u8 \<Rightarrow> nat" where
  "next_run k b = (if is_digit b then k + 1 else if IsC0Execute b \<or> b = DEL_BYTE then k else 0)"

definition parser_inv :: "nat \<Rightarrow> Vt100Parser \<Rightarrow> bool" where
  "parser_inv k p \<longleftrightarrow> runs_ok 0 (params p) \<and> (parserState p = CsiParam \<longrightarrow> last_run 0 (params p) \<le> k) \<and>
     (parserState p = CsiEntry \<longrightarrow> params p = [])"

fun event_ok :: "parser_event \<Rightarrow> bool" where
  "event_ok (CsiDispatch f vs priv i) = (\<forall>v \<in> set vs. small v)"
| "event_ok _ = True"

lemma DispatchCsi_ok:
  assumes "runs_ok 0 (params p)"
  shows "\<exists>p' es. DispatchCsi f p = Some (p', es) \<and> parser_inv k p' \<and> (\<forall>e \<in> set es. event_ok e) \<and> parserState p' = Ground"
proof -
  obtain vs cur h where "parse_params (params p) [] 0 False = Some (vs, cur, h)" "\<forall>v \<in> set vs. small v" "small cur"
    using parse_params_small [OF assms, of 0 "[]" False] by auto
  with assms show ?thesis by (auto simp: DispatchCsi_def Let_def Transition_def parser_inv_def)
qed

text \<open>One handler at a time.\<close>

definition steps_ok :: "nat \<Rightarrow> parser_result option \<Rightarrow> bool" where
  "steps_ok k r \<longleftrightarrow> (\<exists>p es. r = Some (p, es) \<and> parser_inv k p \<and> (\<forall>e \<in> set es. event_ok e))"

lemma steps_ok_Some: "steps_ok k (Some (p, es)) \<longleftrightarrow> parser_inv k p \<and> (\<forall>e \<in> set es. event_ok e)"
  by (simp add: steps_ok_def)

lemma steps_ok_dispatch: "runs_ok 0 (params p) \<Longrightarrow> steps_ok k (DispatchCsi f p)"
  using DispatchCsi_ok unfolding steps_ok_def by blast

lemma steps_ok_execute: "IsC0Execute b \<Longrightarrow> parser_inv k p \<Longrightarrow> steps_ok k (Some (DoExecute b p))"
  by (simp add: DoExecute_def steps_ok_Some)

lemma next_run_C0: "IsC0Execute b \<or> b = DEL_BYTE \<Longrightarrow> next_run k b = k"
  by (auto simp: next_run_def dest: digit_class)

lemma HandleCsiParam_ok:
  assumes inv: "parser_inv k p" and st: "parserState p = CsiParam" and k: "is_digit b \<longrightarrow> k < 9"
  shows "steps_ok (next_run k b) (HandleCsiParam b p)"
proof -
  have runs: "runs_ok 0 (params p)" "last_run 0 (params p) \<le> k" using inv st by (simp_all add: parser_inv_def)
  consider "IsC0Execute b" | "\<not> IsC0Execute b" "b = DEL_BYTE"
    | "\<not> IsC0Execute b" "b \<noteq> DEL_BYTE" "IsParameter b"
    | "\<not> IsC0Execute b" "b \<noteq> DEL_BYTE" "\<not> IsParameter b" by blast
  then show ?thesis
  proof cases
    case 1
    then show ?thesis using inv by (simp add: HandleCsiParam_def steps_ok_execute next_run_C0)
  next
    case 2
    then show ?thesis using inv by (simp add: HandleCsiParam_def steps_ok_Some next_run_C0)
  next
    case 3
    let ?c = "if b = 0x3A then 0x3B else b"
    have cls: "is_digit b \<or> ?c = 0x3B" "is_digit ?c \<longleftrightarrow> is_digit b"
      using 3 by (auto simp: IsParameter_def is_digit_def)
    have "runs_ok 0 (params p @ [?c])" using runs k cls(2) by (auto simp: runs_ok_snoc)
    moreover have "last_run 0 (params p @ [?c]) \<le> next_run k b"
      using runs cls 3 by (auto simp: last_run_snoc next_run_def)
    ultimately show ?thesis
      using 3 st by (simp add: HandleCsiParam_def steps_ok_Some parser_inv_def)
  next
    case 4
    then show ?thesis
      using runs(1) by (auto simp: HandleCsiParam_def steps_ok_Some parser_inv_def Transition_def steps_ok_dispatch)
  qed
qed

lemma HandleCsiEntry_ok:
  assumes inv: "parser_inv k p" and st: "parserState p = CsiEntry" and k: "is_digit b \<longrightarrow> k < 9"
  shows "steps_ok (next_run k b) (HandleCsiEntry b p)"
proof -
  have empty: "params p = []" using inv st by (simp add: parser_inv_def)
  consider "IsC0Execute b" | "\<not> IsC0Execute b" "b = DEL_BYTE"
    | "\<not> IsC0Execute b" "b \<noteq> DEL_BYTE" "IsParameter b" | "\<not> IsC0Execute b" "b \<noteq> DEL_BYTE" "\<not> IsParameter b" by blast
  then show ?thesis
  proof cases
    case 1
    then show ?thesis using inv by (simp add: HandleCsiEntry_def steps_ok_execute next_run_C0)
  next
    case 2
    then show ?thesis using inv by (simp add: HandleCsiEntry_def steps_ok_Some next_run_C0)
  next
    case 3
    have "is_digit b \<or> b = 0x3A \<or> b = 0x3B" "\<not> IsPrivateMarker b"
      using 3 parameter_class by (auto simp: IsParameter_def is_digit_def)
    with 3 empty show ?thesis
      by (auto simp: HandleCsiEntry_def steps_ok_Some parser_inv_def Transition_def next_run_def is_digit_def)
  next
    case 4
    then show ?thesis
      using empty by (auto simp: HandleCsiEntry_def steps_ok_Some parser_inv_def Transition_def steps_ok_dispatch)
  qed
qed

lemma HandleCsiIntermediate_ok:
  assumes "parser_inv k p" and "parserState p = CsiIntermediate"
  shows "steps_ok k' (HandleCsiIntermediate b p)"
  using assms
  by (auto simp: HandleCsiIntermediate_def steps_ok_Some parser_inv_def Transition_def steps_ok_dispatch DoExecute_def)

lemma plain_ok:
  assumes "parser_inv k p" and "parserState p \<in> {Ground, Escape, Ignore, OscString, OscStringEsc}"
  shows "steps_ok k' (HandleByState b p)"
  using assms
  by (auto simp: HandleByState_def HandleGround_def HandleEscape_def steps_ok_Some parser_inv_def Transition_def
      DoExecute_def Let_def)

lemma HandleByState_ok:
  assumes "parser_inv k p" and "is_digit b \<longrightarrow> k < 9"
  shows "steps_ok (next_run k b) (HandleByState b p)"
proof (cases "parserState p")
  case CsiEntry
  with HandleCsiEntry_ok assms show ?thesis by (simp add: HandleByState_def)
next
  case CsiParam
  with HandleCsiParam_ok assms show ?thesis by (simp add: HandleByState_def)
next
  case CsiIntermediate
  with HandleCsiIntermediate_ok assms show ?thesis by (simp add: HandleByState_def)
qed (use plain_ok assms in simp_all)

text \<open>\<open>FeedByte\<close> with the mutual recursion unfolded.\<close>

lemma FeedByte_eq:
  "FeedByte b p =
     (if parserState p = OscString then Some (HandleOsc b p)
      else if parserState p = OscStringEsc then
        (if b = 0x5C then Some (DispatchOsc p)
         else case Anywhere b (Transition Escape p) of Some p' \<Rightarrow> Some (p', []) | None \<Rightarrow> HandleByState b (Transition Escape p))
      else case Anywhere b p of Some p' \<Rightarrow> Some (p', []) | None \<Rightarrow> HandleByState b p)"
proof -
  have "parserState (Transition Escape p) = Escape" by (simp add: Transition_def Let_def)
  then show ?thesis
    by (subst FeedByte.simps, subst HandleOscEsc.simps, subst FeedByte.simps) simp
qed

lemma Anywhere_ok: "parser_inv k p \<Longrightarrow> Anywhere b p = Some p' \<Longrightarrow> parser_inv k' p'"
  by (auto simp: Anywhere_def parser_inv_def Transition_def split: if_splits)

lemma FeedByte_ok:
  assumes inv: "parser_inv k p" and k: "is_digit b \<longrightarrow> k < 9"
  shows "steps_ok (next_run k b) (FeedByte b p)"
proof -
  have esc: "parser_inv k (Transition Escape p)" using inv by (simp add: parser_inv_def Transition_def)
  have osc: "steps_ok (next_run k b) (Some (HandleOsc b p))" "steps_ok (next_run k b) (Some (DispatchOsc p))"
    if "parserState p = OscString \<or> parserState p = OscStringEsc"
    using inv that by (auto simp: HandleOsc_def DispatchOsc_def steps_ok_Some parser_inv_def Transition_def)
  show ?thesis
    unfolding FeedByte_eq
    using osc HandleByState_ok [OF inv k] HandleByState_ok [OF esc k] Anywhere_ok [OF inv] Anywhere_ok [OF esc]
    by (auto simp: steps_ok_Some split: option.split)
qed

section \<open>Terminal invariant\<close>

definition terminal_inv :: "nat \<Rightarrow> Vt100Terminal \<Rightarrow> bool" where
  "terminal_inv k t \<longleftrightarrow> screen_wf (screen t) \<and> parser_inv k (parser t)"

lemma small_le: "small v \<Longrightarrow> v \<le> maxScreen"
  by (simp add: small_def)

lemma Param_small: "\<forall>v \<in> set ps. small v \<Longrightarrow> d \<le> maxScreen \<Longrightarrow> Param ps i d \<le> maxScreen"
  by (auto simp: Param_def Let_def small_le)

lemma Param_1: "\<forall>v \<in> set ps. small v \<Longrightarrow> Param ps i 1 \<le> maxScreen"
  by (rule Param_small) (simp_all add: maxScreen_def)

lemma on_screen_fine:
  assumes "fine (f (screen t))"
  shows "\<exists>t'. on_screen f t = Some t' \<and> screen_wf (screen t') \<and> parser t' = parser t"
  using assms by (auto simp: on_screen_def fine_def)

lemma SetRendition_wf [screen_ops]: "screen_wf s \<Longrightarrow> screen_wf (SetRendition r s)"
  by (simp add: SetRendition_def)

lemma ApplySgr_wf [screen_ops]: "screen_wf s \<Longrightarrow> screen_wf (ApplySgr ps s)"
  by (simp add: ApplySgr_def SetRendition_def)

lemma modes_wf [simp]: "screen_wf (s\<lparr>modes := m\<rparr>) = screen_wf s"
  by (simp add: wf_defs)

lemma ApplyMode_wf [screen_ops]: "screen_wf s \<Longrightarrow> screen_wf (ApplyMode ps on private s)"
  unfolding ApplyMode_def
  by (induction ps arbitrary: s) (auto simp: ApplyPrivateMode_def ApplyAnsiMode_def)

lemma fill_rows_fine:
  assumes "screen_wf s" and "0 \<le> hi"
  shows "fine (for_up 0 hi (\<lambda>c s. Write ch (MoveTo r (c + 1) s)) s)"
  unfolding fine_def
  by (rule for_up_inv [where P = "\<lambda>_. screen_wf"]) (use assms screen_ops in \<open>auto simp: fine_def\<close>)

lemma FillScreen_fine [screen_ops]:
  assumes "screen_wf s"
  shows "fine (FillScreenWithAlignmentPattern s)"
proof -
  note b = cursor_bounds [OF assms]
  have "\<exists>s'. for_up 0 (rows s) (\<lambda>r. for_up 0 (cols s) (\<lambda>c s. Write 0x45 (MoveTo (r + 1) (c + 1) s))) s = Some s' \<and> screen_wf s'"
    by (rule for_up_inv [where P = "\<lambda>_. screen_wf"])
      (use assms b fill_rows_fine [of _ "cols s"] in \<open>auto simp: fine_def\<close>)
  then show ?thesis by (auto simp: FillScreenWithAlignmentPattern_def intro: screen_ops)
qed

lemma then_column_fine: "fine r \<Longrightarrow> fine (do { s' \<leftarrow> r; Some (MoveToColumn c s') })"
  by (rule fine_bind) (auto intro: screen_ops)

lemma OnExecute_inv:
  assumes "screen_wf (screen t)"
  shows "\<exists>t'. OnExecute b t = Some t' \<and> screen_wf (screen t') \<and> parser t' = parser t"
  unfolding OnExecute_def
  using assms by (auto intro!: on_screen_fine screen_ops)

lemma OnEsc_inv:
  assumes "screen_wf (screen t)"
  shows "\<exists>t'. OnEsc f i t = Some t' \<and> screen_wf (screen t') \<and> parser t' = parser t"
  unfolding OnEsc_def
  using assms by (auto simp: send_def intro!: on_screen_fine screen_ops)

lemma OnCsi_inv:
  assumes "screen_wf (screen t)" and "\<forall>v \<in> set ps. small v"
  shows "\<exists>t'. OnCsi f ps priv i t = Some t' \<and> screen_wf (screen t') \<and> parser t' = parser t"
  unfolding OnCsi_def
  using assms Param_1 [OF assms(2)]
  by (auto simp: send_def ReportDeviceStatus_def ReportCursorPosition_def ReportDeviceAttributes_def Let_def
      intro!: on_screen_fine screen_ops then_column_fine)

lemma on_event_inv:
  assumes "screen_wf (screen t)" and "event_ok e"
  shows "\<exists>t'. on_event e t = Some t' \<and> screen_wf (screen t') \<and> parser t' = parser t"
  using assms OnExecute_inv OnEsc_inv OnCsi_inv
  by (cases e) (auto simp: OnPrint_def OnOsc_def intro!: on_screen_fine screen_ops)

lemma on_events_inv:
  "screen_wf (screen t) \<Longrightarrow> \<forall>e \<in> set es. event_ok e \<Longrightarrow>
   \<exists>t'. on_events es t = Some t' \<and> screen_wf (screen t') \<and> parser t' = parser t"
proof (induction es arbitrary: t)
  case (Cons e es)
  from on_event_inv [of t e] Cons.prems obtain t1 where t1: "on_event e t = Some t1" "screen_wf (screen t1)" "parser t1 = parser t"
    by auto
  from Cons.IH [OF t1(2)] Cons.prems(2) t1 show ?case by auto
qed simp

lemma Terminal_FeedByte_inv:
  assumes inv: "terminal_inv k t" and k: "is_digit b \<longrightarrow> k < 9"
  shows "\<exists>t'. Terminal_FeedByte b t = Some t' \<and> terminal_inv (next_run k b) t'"
proof -
  from FeedByte_ok [of k "parser t" b] inv k obtain p es where
    f: "FeedByte b (parser t) = Some (p, es)" "parser_inv (next_run k b) p" "\<forall>e \<in> set es. event_ok e"
    by (auto simp: terminal_inv_def steps_ok_def)
  from on_events_inv [of "t\<lparr>parser := p\<rparr>" es] f inv obtain t' where
    "on_events es (t\<lparr>parser := p\<rparr>) = Some t'" "screen_wf (screen t')" "parser t' = p"
    by (auto simp: terminal_inv_def)
  with f show ?thesis by (auto simp: Terminal_FeedByte_def terminal_inv_def)
qed

lemma Terminal_Feed_inv:
  "terminal_inv k t \<Longrightarrow> short_runs k bs \<Longrightarrow> \<exists>t' k'. Terminal_Feed bs t = Some t' \<and> terminal_inv k' t'"
proof (induction bs arbitrary: k t)
  case Nil
  then show ?case by auto
next
  case (Cons b bs)
  have k: "is_digit b \<longrightarrow> k < 9" "short_runs (next_run k b) bs"
    using Cons.prems(2) by (auto simp: next_run_def split: if_splits)
  from Terminal_FeedByte_inv [OF Cons.prems(1) k(1)] obtain t1 where
    "Terminal_FeedByte b t = Some t1" "terminal_inv (next_run k b) t1" by blast
  with Cons.IH [OF _ k(2)] show ?case by auto
qed

lemma parser_inv_new: "parser_inv 0 (Vt100Parser_new cbs)"
  by (simp add: parser_inv_def Vt100Parser_new_def)

lemma Terminal_new_inv:
  assumes "r \<le> maxScreen" and "c \<le> maxScreen"
  shows "\<exists>t. Vt100Terminal_new r c = Some t \<and> terminal_inv 0 t"
  using TerminalScreen_new_fine [OF assms] parser_inv_new
  by (auto simp: Vt100Terminal_new_def fine_def terminal_inv_def)

section \<open>Decimal round trip\<close>

lemma parse_params_append:
  "parse_params (cs @ ds) vs cur h = do { (vs', cur', h') \<leftarrow> parse_params cs vs cur h; parse_params ds vs' cur' h' }"
  by (induction cs arbitrary: vs cur h) (auto split: bind_splits intro!: bind_option_cong)

lemma parse_digit:
  assumes "d < 10" and "0 \<le> cur" and "cur * 10 + int d \<le> int_max"
  shows "parse_params [0x30 + word_of_nat d] vs cur h = Some (vs, cur * 10 + int d, True)"
  using assms digit_byte [OF assms(1)]
  by (auto simp: is_digit_def chk_int_def int_max_def int_min_def)

text \<open>The printed digits of \<open>n\<close> are read back as \<open>n\<close>.\<close>

lemma parse_decimal:
  "int n \<le> int_max \<Longrightarrow> parse_params (decimal n) vs 0 h = Some (vs, int n, True)"
proof (induction n rule: decimal.induct)
  case (1 n)
  show ?case
  proof (cases "n < 10")
    case True
    with "1.prems" parse_digit [of n 0 vs h] show ?thesis by (subst decimal.simps) simp
  next
    case False
    have le: "int (n div 10) \<le> int_max" using "1.prems" by (metis div_le_dividend of_nat_le_iff order_trans)
    have eq: "int (n div 10) * 10 + int (n mod 10) = int n"
      by (metis mult.commute mult_div_mod_eq of_nat_add of_nat_mult of_nat_numeral)
    have "parse_params [0x30 + word_of_nat (n mod 10)] vs (int (n div 10)) True = Some (vs, int n, True)"
      using parse_digit [of "n mod 10" "int (n div 10)" vs True] "1.prems" eq by simp
    with "1.IH" [OF False le] False show ?thesis by (subst decimal.simps) (simp add: parse_params_append)
  qed
qed

text \<open>Parameters separated by semicolons.\<close>

fun joined :: "nat list \<Rightarrow> u8 list" where
  "joined [] = []"
| "joined [n] = decimal n"
| "joined (n # ns) = decimal n @ [0x3B] @ joined ns"

lemma parse_joined:
  "ns \<noteq> [] \<Longrightarrow> \<forall>n \<in> set ns. int n \<le> int_max \<Longrightarrow>
   parse_params (joined ns) vs 0 h = Some (vs @ map int (butlast ns), int (last ns), True)"
proof (induction ns arbitrary: vs h rule: joined.induct)
  case (2 n)
  then show ?case by (simp add: parse_decimal)
next
  case (3 n m ns)
  have "parse_params (joined (m # ns)) (vs @ [int n]) 0 False = Some ((vs @ [int n]) @ map int (butlast (m # ns)), int (last (m # ns)), True)"
    using "3.IH" "3.prems" by simp
  with "3.prems" show ?case by (simp add: parse_params_append parse_decimal)
qed simp

lemma joined_bytes: "\<forall>b \<in> set (joined ns). is_digit b \<or> b = 0x3B"
  by (induction ns rule: joined.induct) (use decimal_digits in auto)

lemma joined_nonempty: "ns \<noteq> [] \<Longrightarrow> joined ns \<noteq> []"
  by (cases ns rule: joined.cases) (simp_all add: decimal_nonempty)

text \<open>Collecting parameter bytes.\<close>

lemma collect_params:
  "parserState p = CsiParam \<Longrightarrow> \<forall>b \<in> set bs. is_digit b \<or> b = 0x3B \<Longrightarrow>
   Feed bs p = Some (p\<lparr>params := params p @ bs\<rparr>, [])"
proof (induction bs arbitrary: p)
  case (Cons b bs)
  have b: "is_digit b \<or> b = 0x3B" using Cons.prems(2) by simp
  then have c: "IsParameter b" "\<not> IsC0Execute b" "b \<noteq> DEL_BYTE" "b \<noteq> 0x3A" "b \<noteq> ESC_BYTE" "b \<noteq> CAN_BYTE" "b \<noteq> SUB_BYTE"
    by (auto simp: class_defs word_le_def)
  have "FeedByte b p = Some (p\<lparr>params := params p @ [b]\<rparr>, [])"
    using c Cons.prems(1) by (simp add: FeedByte_eq Anywhere_def HandleByState_def HandleCsiParam_def)
  with Cons show ?case by simp
qed simp

end
