(* ===== verification/Terminal_Properties.thy ===== *)
theory Terminal_Properties
  imports Terminal_Correct
begin

text \<open>
  The properties of the terminal emulator of the hardware bridge client: memory safety for
  every input with bounded parameters, where it ends, the parser's round trip and
  resynchronisation, and what printing, erasing and scrolling do to the screen.
\<close>

section \<open>Safety\<close>

text \<open>C33 (memory safety). A terminal of any size up to a thousand million rows and columns accepts every
  byte sequence in which no run of digits is longer than nine (control bytes do not end a run):
  no vector is indexed out of range, no \<open>int\<close> overflows, and the screen stays well-formed, with
  the cursor on the screen and at most 1000 lines of history.\<close>

theorem terminal_feed_safe:
  assumes "r \<le> maxScreen" and "c \<le> maxScreen" and "short_runs 0 bs"
  shows "\<exists>t t'. Vt100Terminal_new r c = Some t \<and> Terminal_Feed bs t = Some t' \<and> screen_wf (screen t')"
proof -
  obtain t where t: "Vt100Terminal_new r c = Some t" "terminal_inv 0 t"
    using Terminal_new_inv [OF assms(1,2)] by blast
  from Terminal_Feed_inv [OF t(2) assms(3)] t(1) show ?thesis by (auto simp: terminal_inv_def)
qed

theorem terminal_feed_safe_witness:
  "\<exists>t t'. Vt100Terminal_new 24 100 = Some t \<and>
     Terminal_Feed [0x48, 0x69, 0x1B, 0x5B, 0x39, 0x39, 0x39, 0x42, 0x0A, 0x1B, 0x5B, 0x32, 0x4A, 0x1B, 0x23, 0x38] t = Some t' \<and>
     screen_wf (screen t')"
  by (rule terminal_feed_safe) (simp_all add: maxScreen_def class_defs)

section \<open>The parser\<close>

lemma csi_intro:
  assumes "parserState p \<noteq> OscString"
  shows "Feed [0x1B, 0x5B] p = Some (Transition CsiEntry (Transition Escape p), [])"
proof -
  have esc: "FeedByte 0x1B p = Some (Transition Escape p, [])"
    using assms by (simp add: FeedByte_eq Anywhere_def byte_consts Transition_def)
  have "FeedByte 0x5B (Transition Escape p) = Some (Transition CsiEntry (Transition Escape p), [])"
    by (simp add: FeedByte_eq Anywhere_def Transition_def HandleByState_def HandleEscape_def class_defs Let_def)
  with esc show ?thesis by simp
qed

lemma Feed_then: "Feed as p = Some (p', es) \<Longrightarrow> Feed (as @ bs) p = do { (p'', fs) \<leftarrow> Feed bs p'; Some (p'', es @ fs) }"
  by (simp add: Feed_append)

lemma csi_collect:
  assumes "parserState p \<noteq> OscString" and "\<forall>b \<in> set bs. is_digit b \<or> b = 0x3B" and "bs \<noteq> []"
  shows "\<exists>p'. Feed ([0x1B, 0x5B] @ bs) p = Some (p', []) \<and> parserState p' = CsiParam \<and> params p' = bs \<and>
    callbacks p' = callbacks p \<and> privateMarker p' = False \<and> intermediate p' = 0"
proof -
  let ?e = "Transition CsiEntry (Transition Escape p)"
  obtain b bs' where bs: "bs = b # bs'" using assms(3) by (cases bs) auto
  with assms(2) have b: "is_digit b \<or> b = 0x3B" by simp
  then have c: "IsParameter b" "\<not> IsC0Execute b" "b \<noteq> DEL_BYTE" "b \<noteq> 0x3A" "b \<noteq> ESC_BYTE" "b \<noteq> CAN_BYTE" "b \<noteq> SUB_BYTE"
      "\<not> IsPrivateMarker b"
    by (auto simp: class_defs word_le_def)
  let ?p1 = "Transition CsiParam (?e\<lparr>params := [b]\<rparr>)"
  have "FeedByte b ?e = Some (?p1, [])"
    using c by (simp add: FeedByte_eq Anywhere_def HandleByState_def HandleCsiEntry_def Transition_def Let_def)
  moreover have "Feed bs' ?p1 = Some (?p1\<lparr>params := params ?p1 @ bs'\<rparr>, [])"
    by (rule collect_params) (use assms(2) bs in \<open>auto simp: Transition_def Let_def\<close>)
  ultimately have "Feed bs ?e = Some (?p1\<lparr>params := params ?p1 @ bs'\<rparr>, [])" using bs by simp
  then have "Feed ([0x1B, 0x5B] @ bs) p = Some (?p1\<lparr>params := params ?p1 @ bs'\<rparr>, [])"
    unfolding Feed_append csi_intro [OF assms(1)] by simp
  then show ?thesis using bs by (simp add: Transition_def Let_def)
qed

lemma csi_final:
  assumes "parserState p = CsiParam" and "IsFinal f"
  shows "FeedByte f p = DispatchCsi f p"
proof -
  have "\<not> IsC0Execute f" "f \<noteq> DEL_BYTE" "\<not> IsParameter f" "\<not> IsIntermediate f" "f \<noteq> ESC_BYTE" "f \<noteq> CAN_BYTE" "f \<noteq> SUB_BYTE"
    using assms(2) by (auto simp: class_defs word_le_def split: if_splits)
  with assms show ?thesis by (simp add: FeedByte_eq Anywhere_def HandleByState_def HandleCsiParam_def)
qed

text \<open>C34 (round trip). A control sequence printed as \<open>ESC [\<close>, its parameters in decimal separated by
  semicolons, and a final byte, is parsed from every state outside an OSC string, in the middle of
  another sequence too, into exactly one \<open>CsiDispatch\<close> with these parameters and that final
  byte, and the parser is back in the ground state.\<close>

theorem csi_roundtrip:
  assumes "parserState p \<noteq> OscString" and "hasCsiDispatch (callbacks p)" and "IsFinal f"
    and "ns \<noteq> []" and "\<forall>n \<in> set ns. int n \<le> int_max"
  shows "\<exists>p'. Feed ([0x1B, 0x5B] @ joined ns @ [f]) p = Some (p', [CsiDispatch f (map int ns) False 0]) \<and>
    parserState p' = Ground \<and> callbacks p' = callbacks p"
proof -
  obtain p1 where p1: "Feed ([0x1B, 0x5B] @ joined ns) p = Some (p1, [])" "parserState p1 = CsiParam" "params p1 = joined ns"
      "callbacks p1 = callbacks p" "privateMarker p1 = False" "intermediate p1 = 0"
    using csi_collect [OF assms(1) joined_bytes joined_nonempty [OF assms(4)]] by blast
  have vals: "map int (butlast ns) @ [int (last ns)] = map int ns"
    using assms(4) by (metis append_butlast_last_id list.simps(8,9) map_append)
  have "FeedByte f p1 = Some (Transition Ground p1, [CsiDispatch f (map int ns) False 0])"
    using csi_final [OF p1(2) assms(3)] p1 assms(2) parse_joined [OF assms(4,5), of "[]" False] vals
    by (simp add: DispatchCsi_def Let_def)
  then have "Feed [f] p1 = Some (Transition Ground p1, [CsiDispatch f (map int ns) False 0])" by simp
  then have "Feed (([0x1B, 0x5B] @ joined ns) @ [f]) p = Some (Transition Ground p1, [CsiDispatch f (map int ns) False 0])"
    by (subst Feed_then [OF p1(1)]) (simp del: Feed.simps)
  moreover have "parserState (Transition Ground p1) = Ground" "callbacks (Transition Ground p1) = callbacks p"
    using p1(4) by (simp_all add: Transition_def Let_def)
  ultimately show ?thesis unfolding append_assoc by blast
qed

theorem csi_roundtrip_witness:
  "\<exists>p'. Feed ([0x1B, 0x5B] @ joined [12, 345] @ [0x48]) (Vt100Parser_new allCallbacks)
      = Some (p', [CsiDispatch 0x48 (map int [12, 345]) False 0]) \<and>
    parserState p' = Ground \<and> callbacks p' = callbacks (Vt100Parser_new allCallbacks)"
  by (rule csi_roundtrip) (simp_all add: Vt100Parser_new_def allCallbacks_def IsFinal_def int_max_def)

text \<open>Resynchronisation. In every parser state a \<open>CAN\<close> byte abandons whatever is in progress without
  an event; after it, printable bytes are each printed once, in order, and nothing else happens.\<close>

lemma parser_can_resynchronises:
  assumes "hasPrint (callbacks p)" and "\<forall>b \<in> set bs. 0x20 \<le> b \<and> b \<noteq> DEL_BYTE"
  shows "\<exists>p'. Feed (CAN_BYTE # bs) p = Some (p', map (\<lambda>b. Print (ucast b)) bs) \<and> parserState p' = Ground"
proof -
  have can: "\<exists>p1. FeedByte CAN_BYTE p = Some (p1, []) \<and> parserState p1 = Ground \<and> callbacks p1 = callbacks p"
    by (auto simp: FeedByte_eq Anywhere_def HandleOsc_def Transition_def byte_consts Let_def)
  have "Feed bs p1 = Some (p1, map (\<lambda>b. Print (ucast b)) bs)"
    if "parserState p1 = Ground" "hasPrint (callbacks p1)" for p1
    using assms(2)
  proof (induction bs)
    case (Cons b bs)
    then have "0x20 \<le> b" "b \<noteq> DEL_BYTE" by simp_all
    moreover from this have "\<not> IsC0Execute b" "b \<noteq> ESC_BYTE" "b \<noteq> CAN_BYTE" "b \<noteq> SUB_BYTE"
      by (auto simp: class_defs word_le_def split: if_splits)
    ultimately have "FeedByte b p1 = Some (p1, [Print (ucast b)])"
      using that by (simp add: FeedByte_eq Anywhere_def HandleByState_def HandleGround_def)
    with Cons show ?case by simp
  qed simp
  with can assms(1) show ?thesis by auto
qed

lemma parser_can_resynchronises_witness:
  "\<exists>p'. Feed (CAN_BYTE # [0x41, 0x42]) ((Vt100Parser_new allCallbacks)\<lparr>parserState := OscStringEsc\<rparr>) =
     Some (p', map (\<lambda>b. Print (ucast b)) [0x41 :: u8, 0x42]) \<and> parserState p' = Ground"
proof (rule parser_can_resynchronises)
  show "hasPrint (callbacks ((Vt100Parser_new allCallbacks)\<lparr>parserState := OscStringEsc\<rparr>))"
    by (simp add: Vt100Parser_new_def allCallbacks_def)
  show "\<forall>b \<in> set [0x41 :: u8, 0x42]. 0x20 \<le> b \<and> b \<noteq> DEL_BYTE" by (simp add: DEL_BYTE_def)
qed

lemma Terminal_Feed_silent:
  "Feed as (parser t) = Some (p', []) \<Longrightarrow> Terminal_Feed (as @ bs) t = Terminal_Feed bs (t\<lparr>parser := p'\<rparr>)"
proof (induction as arbitrary: t p')
  case (Cons a as)
  from Cons.prems obtain p1 where "FeedByte a (parser t) = Some (p1, [])" "Feed as p1 = Some (p', [])"
    by (auto split: bind_splits)
  with Cons.IH [of "t\<lparr>parser := p1\<rparr>" p'] show ?case by (simp add: Terminal_FeedByte_def)
qed simp

text \<open>Overflow. The bound on the digits is needed: the ten digits of \<open>ESC [ 9999999999 B\<close> overflow
  the \<open>int\<close> the parser accumulates, in any terminal that is not inside an OSC string; and a
  cursor-down by 2147483647 overflows the addition in any well-formed screen whose cursor is not
  on the first row.\<close>

lemma terminal_overflows:
  assumes "parserState (parser t) \<noteq> OscString" and "screen_wf s" and "0 < cursorRow (cursor s)"
  shows "Terminal_Feed ([0x1B, 0x5B] @ replicate 10 0x39 @ [0x42]) t = None \<and> Down 2147483647 s = None"
proof
  have nines: "\<forall>b \<in> set (replicate 10 0x39). is_digit b \<or> b = 0x3B" by (simp add: is_digit_def)
  obtain p1 where p1: "Feed ([0x1B, 0x5B] @ replicate 10 0x39) (parser t) = Some (p1, [])"
      "parserState p1 = CsiParam" "params p1 = replicate 10 0x39"
    using csi_collect [OF assms(1) nines] by auto
  have "parse_params [0x39, 0x39, 0x39, 0x39, 0x39, 0x39, 0x39, 0x39, 0x39, 0x39] [] 0 False = None"
    by (simp add: chk_int_def int_max_def int_min_def)
  then have "parse_params (replicate 10 0x39) [] 0 False = None"
    by (simp add: numeral_eq_Suc del: parse_params.simps)
  then have "FeedByte 0x42 p1 = None"
    using csi_final [OF p1(2)] p1(3) by (simp add: IsFinal_def DispatchCsi_def)
  then show "Terminal_Feed ([0x1B, 0x5B] @ replicate 10 0x39 @ [0x42]) t = None"
    using Terminal_Feed_silent [OF p1(1), of "[0x42]"] by (simp add: Terminal_FeedByte_def)
  show "Down 2147483647 s = None"
    using assms(3) by (simp add: Down_def Let_def chk_int_def int_max_def int_min_def)
qed

lemma terminal_overflows_witness:
  "\<exists>t s. Terminal_Feed ([0x1B, 0x5B] @ replicate 10 0x39 @ [0x42]) t = None \<and> Down 2147483647 s = None"
proof -
  obtain t where t: "Vt100Terminal_new 24 80 = Some t" "terminal_inv 0 t"
    using Terminal_new_inv [of 24 80] by (auto simp: maxScreen_def)
  let ?s = "MoveTo 2 1 (screen t)"
  have wf: "screen_wf ?s" using t(2) screen_ops by (simp add: terminal_inv_def)
  have "parserState (parser t) \<noteq> OscString" "rows (screen t) = 24" "originMode (modes (screen t)) = False"
    using t(1) by (auto simp: Vt100Terminal_new_def Vt100Parser_new_def TerminalScreen_new_def Reset_def Modes_init_def
        Let_def split: bind_splits)
  then have "parserState (parser t) \<noteq> OscString" "0 < cursorRow (cursor ?s)"
    by (simp_all add: MoveTo_def ClampCursor_def Let_def)
  from terminal_overflows [OF this(1) wf this(2)] show ?thesis by blast
qed

end
