(* ===== verification/Terminal_Effects.thy ===== *)
theory Terminal_Effects
  imports Terminal_Properties
begin

text \<open>
  What bytes do to the screen: printed text, erased areas, line feeds with scrolling and history,
  and the cursor report a host can feed back.
\<close>

section \<open>A command sequence in the terminal\<close>

lemma on_events_nil: "on_events [] = Some"
  by (rule ext) simp

lemma Terminal_Feed_nil: "Terminal_Feed [] = Some"
  by (rule ext) simp

lemma csi_command:
  assumes "parserState (parser t) \<noteq> OscString" and "callbacks (parser t) = allCallbacks" and "IsFinal f"
    and "ns \<noteq> []" and "\<forall>n \<in> set ns. int n \<le> int_max"
  shows "\<exists>p'. Terminal_Feed ([0x1B, 0x5B] @ joined ns @ [f]) t = OnCsi f (map int ns) False 0 (t\<lparr>parser := p'\<rparr>) \<and>
    parserState p' = Ground \<and> callbacks p' = allCallbacks"
proof -
  obtain p1 where p1: "Feed ([0x1B, 0x5B] @ joined ns) (parser t) = Some (p1, [])" "parserState p1 = CsiParam" "params p1 = joined ns"
      "callbacks p1 = callbacks (parser t)" "privateMarker p1 = False" "intermediate p1 = 0"
    using csi_collect [OF assms(1) joined_bytes joined_nonempty [OF assms(4)]] by blast
  have vals: "map int (butlast ns) @ [int (last ns)] = map int ns"
    using assms(4) by (metis append_butlast_last_id list.simps(8,9) map_append)
  have "FeedByte f p1 = Some (Transition Ground p1, [CsiDispatch f (map int ns) False 0])"
    using csi_final [OF p1(2) assms(3)] p1 assms(2) parse_joined [OF assms(4,5), of "[]" False] vals
    by (simp add: DispatchCsi_def Let_def allCallbacks_def)
  then have "Terminal_FeedByte f (t\<lparr>parser := p1\<rparr>) = OnCsi f (map int ns) False 0 (t\<lparr>parser := Transition Ground p1\<rparr>)"
    by (simp add: Terminal_FeedByte_def on_events_nil)
  moreover have "Terminal_Feed (([0x1B, 0x5B] @ joined ns) @ [f]) t = Terminal_FeedByte f (t\<lparr>parser := p1\<rparr>)"
    by (subst Terminal_Feed_silent [OF p1(1)]) (simp add: Terminal_Feed_nil)
  moreover have "parserState (Transition Ground p1) = Ground" "callbacks (Transition Ground p1) = allCallbacks"
    using p1(4) assms(2) by (simp_all add: Transition_def Let_def)
  ultimately show ?thesis unfolding append_assoc by metis
qed

text \<open>The bytes of a cursor report, and the move command that carries the same position.\<close>

definition cursor_report :: "CursorPosition \<Rightarrow> u8 list" where
  "cursor_report c = [0x1B, 0x5B] @ joined [nat (cursorRow c + 1), nat (cursorColumn c + 1)] @ [0x52]"

definition cursor_move :: "CursorPosition \<Rightarrow> u8 list" where
  "cursor_move c = [0x1B, 0x5B] @ joined [nat (cursorRow c + 1), nat (cursorColumn c + 1)] @ [0x48]"

lemma decimal_6: "decimal 6 = [0x36]"
  by (subst decimal.simps) simp

text \<open>Round trip of the cursor report. A terminal asked for its cursor position by \<open>ESC [ 6 n\<close>
  queues exactly one report and leaves the screen alone; a terminal of the same size that is fed
  the reported position as a cursor move puts its cursor at the same place.\<close>

lemma cursor_report_roundtrip:
  assumes "screen_wf (screen t)" and "parserState (parser t) \<noteq> OscString" and "callbacks (parser t) = allCallbacks"
    and "parserState (parser u) \<noteq> OscString" and "callbacks (parser u) = allCallbacks"
    and "rows (screen u) = rows (screen t)" and "cols (screen u) = cols (screen t)"
  shows "\<exists>t' u'. Terminal_Feed [0x1B, 0x5B, 0x36, 0x6E] t = Some t' \<and> screen t' = screen t \<and>
    outgoing t' = outgoing t @ cursor_report (cursor (screen t)) \<and>
    Terminal_Feed (cursor_move (cursor (screen t))) u = Some u' \<and>
    cursor (screen u') = cursor (screen t) \<and> grid (screen u') = grid (screen u)"
proof -
  let ?c = "cursor (screen t)"
  note b = cursor_bounds [OF assms(1)]
  obtain p' where p': "Terminal_Feed ([0x1B, 0x5B] @ joined [6] @ [0x6E]) t = OnCsi 0x6E (map int [6]) False 0 (t\<lparr>parser := p'\<rparr>)"
    using csi_command [where f = "0x6E" and ns = "[6]", OF assms(2,3)] by (auto simp: IsFinal_def int_max_def)
  have q: "Terminal_Feed [0x1B, 0x5B, 0x36, 0x6E] t = Some (ReportCursorPosition (t\<lparr>parser := p'\<rparr>))"
    using p' by (simp add: decimal_6 OnCsi_def ParamRaw_def del: Terminal_Feed.simps)
  let ?ns = "[nat (cursorRow ?c + 1), nat (cursorColumn ?c + 1)]"
  have small: "\<forall>n \<in> set ?ns. int n \<le> int_max" using b by (simp add: int_max_def maxScreen_def nat_le_iff)
  obtain p2 where p2: "Terminal_Feed (cursor_move ?c) u = OnCsi 0x48 (map int ?ns) False 0 (u\<lparr>parser := p2\<rparr>)"
    using csi_command [where f = "0x48" and ns = ?ns, OF assms(4,5)] small unfolding cursor_move_def by (auto simp: IsFinal_def)
  have vals: "map int ?ns = [cursorRow ?c + 1, cursorColumn ?c + 1]" using b by simp
  have m: "Terminal_Feed (cursor_move ?c) u
      = Some (u\<lparr>parser := p2, screen := MoveTo (cursorRow ?c + 1) (cursorColumn ?c + 1) (screen u)\<rparr>)"
    unfolding p2 vals using b by (simp add: OnCsi_def on_screen_def Param_def Let_def)
  have at: "cursor (MoveTo (cursorRow ?c + 1) (cursorColumn ?c + 1) (screen u)) = ?c"
      "grid (MoveTo (cursorRow ?c + 1) (cursorColumn ?c + 1) (screen u)) = grid (screen u)"
    using b assms(6,7) by (simp_all add: MoveTo_def ClampCursor_def Let_def)
  show ?thesis
    using q m at by (auto simp: ReportCursorPosition_def send_def cursor_report_def Let_def)
qed

lemma cursor_report_roundtrip_witness:
  "\<exists>t u t' u'. Terminal_Feed [0x1B, 0x5B, 0x36, 0x6E] t = Some t' \<and> screen t' = screen t \<and>
    outgoing t' = outgoing t @ cursor_report (cursor (screen t)) \<and>
    Terminal_Feed (cursor_move (cursor (screen t))) u = Some u' \<and>
    cursor (screen u') = cursor (screen t) \<and> grid (screen u') = grid (screen u)"
proof -
  obtain t where t: "Vt100Terminal_new 24 80 = Some t" "terminal_inv 0 t"
    using Terminal_new_inv [of 24 80] by (auto simp: maxScreen_def)
  then have p: "parser t = Vt100Parser_new allCallbacks" by (auto simp: Vt100Terminal_new_def split: bind_splits)
  from cursor_report_roundtrip [of t t] t(2) show ?thesis
    by (auto simp: terminal_inv_def p Vt100Parser_new_def)
qed

section \<open>Erasing\<close>

text \<open>Erasing. Erase in line and erase in display return, replace exactly the cells of their area by
  blanks in the current rendition, and change nothing else of the screen but the deferred wrap and,
  for display mode 3, the history.\<close>

lemma erase_exact:
  assumes "screen_wf s"
  shows "\<exists>s1 s2. EraseInLine mode s = Some s1 \<and> painted (line_area mode s) (MakeBlankCell s) (s\<lparr>pendingWrap := False\<rparr>) s1 \<and>
    EraseInDisplay mode s = Some (if mode = 3 then s2\<lparr>history := []\<rparr> else s2) \<and>
    painted (display_area mode s) (MakeBlankCell s) (s\<lparr>pendingWrap := False\<rparr>) s2"
  using EraseInLine_painted [OF assms] EraseInDisplay_painted [OF assms] by blast

lemma fresh_screen: "\<exists>s. TerminalScreen_new 24 80 = Some s \<and> screen_wf s \<and> \<not> pendingWrap s \<and> cursor s = CursorPosition_init \<and>
    rows s = 24 \<and> cols s = 80 \<and> scrollTop s = 0 \<and> scrollBottom s = 23"
  using Reset_ok [of "\<lparr>rows = 24, cols = 80, grid = [],
       cursor = CursorPosition_init, savedCursor = CursorPosition_init,
       currentRendition = Rendition_init, savedRendition = Rendition_init, tabStops = [],
       scrollTop = 0, scrollBottom = 0, pendingWrap = False, modes = Modes_init, history = []\<rparr>"]
  by (auto simp: TerminalScreen_new_def maxScreen_def Reset_def Let_def split: bind_splits)

lemma erase_exact_witness:
  "\<exists>s s1 s2. EraseInLine 0 s = Some s1 \<and> painted (line_area 0 s) (MakeBlankCell s) (s\<lparr>pendingWrap := False\<rparr>) s1 \<and>
    EraseInDisplay 0 s = Some (if (0 :: int) = 3 then s2\<lparr>history := []\<rparr> else s2) \<and>
    painted (display_area 0 s) (MakeBlankCell s) (s\<lparr>pendingWrap := False\<rparr>) s2"
  using fresh_screen erase_exact [where mode = 0] by blast

section \<open>Line feed\<close>

text \<open>Line feed. A line feed above the bottom of the scroll region moves the cursor down one row and
  leaves the text alone. On the bottom row of the region the region's lines move up by one, a blank
  line enters at the bottom, the lines outside the region stay, and the line that leaves is appended
  to the history exactly when the region is the whole screen.\<close>

lemma index_scrolls:
  assumes "screen_wf s"
  shows "\<exists>s'. Index s = Some s' \<and>
    (if cursorRow (cursor s) = scrollBottom s
     then line_up s s' \<and> cursor s' = cursor s \<and>
       history s' = (if scrollTop s = 0 \<and> scrollBottom s = rows s - 1 then pushed (grid s ! 0) (history s) else history s)
     else grid s' = grid s \<and> history s' = history s \<and>
       cursorRow (cursor s') = min (cursorRow (cursor s) + 1) (rows s - 1) \<and>
       cursorColumn (cursor s') = cursorColumn (cursor s))"
proof (cases "cursorRow (cursor s) = scrollBottom s")
  case True
  let ?s = "s\<lparr>pendingWrap := False\<rparr>"
  obtain s' where s': "ScrollUpInRegion 1 ?s = Some s'" "s' = ?s\<lparr>grid := grid s', history := history s'\<rparr>" "line_up ?s s'"
      "history s' = (if scrollTop ?s = 0 \<and> scrollBottom ?s = rows ?s - 1 then pushed (grid ?s ! 0) (history ?s) else history ?s)"
    using ScrollUp_one [OF quiet_wf [OF assms]] by blast
  have "cursor s' = cursor s" by (subst s'(2)) simp
  moreover have "Index s = Some s'" using True s'(1) by (simp add: Index_def Let_def)
  moreover have "line_up s s'" using s'(3) by (simp add: line_up_def grid_ok_def MakeBlankRow_def MakeBlankCell_def)
  ultimately show ?thesis using True s'(4) by simp
next
  case False
  with cursor_bounds [OF assms] show ?thesis by (auto simp: Index_def Let_def)
qed

lemma index_scrolls_witness:
  "\<exists>s s'. cursorRow (cursor s) = scrollBottom s \<and> Index s = Some s' \<and> line_up s s' \<and> history s' = pushed (grid s ! 0) (history s)"
proof -
  obtain s where s: "screen_wf s" "rows s = 24" "scrollTop s = 0" "scrollBottom s = 23"
    using fresh_screen by blast
  let ?s = "set_row 23 s"
  have wf: "screen_wf ?s" and c: "cursorRow (cursor ?s) = scrollBottom ?s" using s by (simp_all add: wf_defs)
  obtain s' where "Index ?s = Some s'" "line_up ?s s'" "history s' = pushed (grid ?s ! 0) (history ?s)"
    using index_scrolls [OF wf] c s by auto
  with c show ?thesis by blast
qed

section \<open>Text\<close>

fun write_all :: "u8 list \<Rightarrow> TerminalScreen \<Rightarrow> TerminalScreen option" where
  "write_all [] s = Some s"
| "write_all (b # bs) s = Write (ucast b) s \<bind> write_all bs"

text \<open>The screen \<open>s'\<close> shows \<open>bs\<close> from the cursor of \<open>s\<close> on and agrees with \<open>s\<close> elsewhere.\<close>

definition shows_text :: "u8 list \<Rightarrow> TerminalScreen \<Rightarrow> TerminalScreen \<Rightarrow> bool" where
  "shows_text bs s s' \<longleftrightarrow>
     (\<forall>i j. inside s i j \<longrightarrow> cell s' i j =
       (if i = cursorRow (cursor s) \<and> cursorColumn (cursor s) \<le> j \<and> j < cursorColumn (cursor s) + int (length bs)
        then \<lparr>codepoint = ucast (bs ! nat (j - cursorColumn (cursor s))), rendition = currentRendition s\<rparr>
        else cell s i j)) \<and>
     cursorRow (cursor s') = cursorRow (cursor s) \<and>
     cursorColumn (cursor s') = min (cols s - 1) (cursorColumn (cursor s) + int (length bs)) \<and>
     (bs \<noteq> [] \<longrightarrow> pendingWrap s' = (autoWrap (modes s) \<and> cursorColumn (cursor s) + int (length bs) = cols s))"

lemma Write_here:
  assumes "screen_wf s" and "\<not> pendingWrap s"
  shows "\<exists>s'. Write ch s = Some s' \<and> screen_wf s' \<and> rows s' = rows s \<and> cols s' = cols s \<and> modes s' = modes s \<and>
    currentRendition s' = currentRendition s \<and>
    cursor s' = (cursor s)\<lparr>cursorColumn := min (cols s - 1) (cursorColumn (cursor s) + 1)\<rparr> \<and>
    pendingWrap s' = (autoWrap (modes s) \<and> cursorColumn (cursor s) + 1 = cols s) \<and>
    (\<forall>i j. inside s i j \<longrightarrow> cell s' i j =
      (if i = cursorRow (cursor s) \<and> j = cursorColumn (cursor s)
       then \<lparr>codepoint = ch, rendition = currentRendition s\<rparr> else cell s i j))"
proof -
  let ?x = "\<lparr>codepoint = ch, rendition = currentRendition s\<rparr>" and ?s = "s\<lparr>pendingWrap := False\<rparr>"
  obtain s3 where s3: "put_cell (cursorRow (cursor s)) (cursorColumn (cursor s)) ?x ?s = Some s3"
      "painted (\<lambda>i j. i = cursorRow (cursor s) \<and> j = cursorColumn (cursor s)) ?x ?s s3"
    using Write_step [OF assms(1)] by blast
  have w: "Write ch s = Some (advance s3)"
    using assms(2) s3(1) by (simp add: Write_def Let_def advance_def)
  have e: "s3 = ?s\<lparr>grid := grid s3\<rparr>" using s3(2) by (simp only: painted_def)
  have same: "rows s3 = rows s" "cols s3 = cols s" "modes s3 = modes s" "currentRendition s3 = currentRendition s"
      "cursor s3 = cursor s" "pendingWrap s3 = False"
    by (subst e, simp)+
  have "screen_wf (advance s3)"
    by (rule advance_wf) (use painted_wf [OF quiet_wf [OF assms(1)] s3(2)] same in simp_all)
  moreover have "\<forall>i j. inside s i j \<longrightarrow> cell s3 i j =
      (if i = cursorRow (cursor s) \<and> j = cursorColumn (cursor s) then ?x else cell s i j)"
    using s3(2) by (simp add: painted_def inside_def)
  ultimately show ?thesis
    using w same cursor_bounds [OF assms(1)] by (auto simp: advance_def)
qed

lemma write_all_shows:
  assumes "screen_wf s" and "\<not> pendingWrap s" and "cursorColumn (cursor s) + int (length bs) \<le> cols s"
  shows "\<exists>s'. write_all bs s = Some s' \<and> screen_wf s' \<and> shows_text bs s s'"
  using assms
proof (induction bs arbitrary: s)
  case Nil
  then show ?case using cursor_bounds [OF Nil.prems(1)] by (auto simp: shows_text_def)
next
  case (Cons b bs)
  obtain s1 where s1: "Write (ucast b) s = Some s1" "screen_wf s1" "rows s1 = rows s" "cols s1 = cols s" "modes s1 = modes s"
      "currentRendition s1 = currentRendition s"
      "cursor s1 = (cursor s)\<lparr>cursorColumn := min (cols s - 1) (cursorColumn (cursor s) + 1)\<rparr>"
      "pendingWrap s1 = (autoWrap (modes s) \<and> cursorColumn (cursor s) + 1 = cols s)"
      "\<forall>i j. inside s i j \<longrightarrow> cell s1 i j =
        (if i = cursorRow (cursor s) \<and> j = cursorColumn (cursor s)
         then \<lparr>codepoint = ucast b, rendition = currentRendition s\<rparr> else cell s i j)"
    using Write_here [OF Cons.prems(1,2)] by blast
  have ins: "inside s1 = inside s" using s1(3,4) by (simp add: inside_def fun_eq_iff)
  show ?case
  proof (cases bs)
    case Nil
    then show ?thesis using s1 by (auto simp: shows_text_def)
  next
    case (Cons b' bs')
    then have col: "cursorColumn (cursor s1) = cursorColumn (cursor s) + 1" "\<not> pendingWrap s1"
      using Cons.prems(3) s1(7,8) by auto
    then have "cursorColumn (cursor s1) + int (length bs) \<le> cols s1" using Cons.prems(3) s1(4) by simp
    then obtain s' where s': "write_all bs s1 = Some s'" "screen_wf s'" "shows_text bs s1 s'"
      using Cons.IH [OF s1(2) col(2)] by blast
    have "shows_text (b # bs) s s'"
      unfolding shows_text_def
    proof (intro conjI allI impI)
      fix i j assume ij: "inside s i j"
      let ?c = "cursorColumn (cursor s)"
      have next_nth: "(b # bs) ! nat (j - ?c) = bs ! nat (j - (?c + 1))" if "?c < j"
      proof -
        have "nat (j - ?c) = Suc (nat (j - (?c + 1)))" using that by simp
        then show ?thesis by simp
      qed
      have head: "(b # bs) ! nat (j - ?c) = b" if "j = ?c" using that by simp
      have "cell s' i j = (if i = cursorRow (cursor s) \<and> ?c + 1 \<le> j \<and> j < ?c + 1 + int (length bs)
          then \<lparr>codepoint = ucast (bs ! nat (j - (?c + 1))), rendition = currentRendition s\<rparr> else cell s1 i j)"
        using s'(3) ij ins col(1) s1(6,7) by (simp add: shows_text_def)
      moreover have "cell s1 i j = (if i = cursorRow (cursor s) \<and> j = ?c
          then \<lparr>codepoint = ucast b, rendition = currentRendition s\<rparr> else cell s i j)"
        using s1(9) ij by blast
      ultimately show "cell s' i j =
       (if i = cursorRow (cursor s) \<and> ?c \<le> j \<and> j < ?c + int (length (b # bs))
        then \<lparr>codepoint = ucast ((b # bs) ! nat (j - ?c)), rendition = currentRendition s\<rparr>
        else cell s i j)"
        using next_nth head by (cases "j < ?c"; cases "j = ?c") (simp_all del: nth.simps)
    qed (use s'(3) col(1) s1 Cons in \<open>auto simp: shows_text_def\<close>)
    with s1(1) s'(1,2) show ?thesis by auto
  qed
qed

lemma print_byte:
  assumes "parserState p = Ground" and "hasPrint (callbacks p)" and "0x20 \<le> b" and "b \<noteq> DEL_BYTE"
  shows "FeedByte b p = Some (p, [Print (ucast b)])"
proof -
  have "\<not> IsC0Execute b" "b \<noteq> ESC_BYTE" "b \<noteq> CAN_BYTE" "b \<noteq> SUB_BYTE"
    using assms(3) by (auto simp: class_defs word_le_def split: if_splits)
  with assms show ?thesis by (simp add: FeedByte_eq Anywhere_def HandleByState_def HandleGround_def)
qed

lemma feed_text:
  assumes "parserState (parser t) = Ground" and "hasPrint (callbacks (parser t))" and "\<forall>b \<in> set bs. 0x20 \<le> b \<and> b \<noteq> DEL_BYTE"
  shows "Terminal_Feed bs t = on_screen (write_all bs) t"
  using assms
proof (induction bs arbitrary: t)
  case Nil
  then show ?case by (simp add: on_screen_def)
next
  case (Cons b bs)
  have "Terminal_FeedByte b t = on_screen (Write (ucast b)) t"
    using print_byte [OF Cons.prems(1,2), of b] Cons.prems(3)
    by (simp add: Terminal_FeedByte_def OnPrint_def on_screen_def)
  with Cons show ?case by (cases "Write (ucast b) (screen t)") (simp_all add: on_screen_def)
qed

text \<open>Text. Printable bytes that fit the rest of the line are shown from the cursor on, in order and
  in the current rendition; no other cell changes, the cursor ends behind the text, and a full line
  leaves it on the last column with the wrap deferred when auto wrap is on.\<close>

lemma text_is_shown:
  assumes "screen_wf (screen t)" and "\<not> pendingWrap (screen t)" and "parserState (parser t) = Ground"
    and "callbacks (parser t) = allCallbacks" and "\<forall>b \<in> set bs. 0x20 \<le> b \<and> b \<noteq> DEL_BYTE"
    and "cursorColumn (cursor (screen t)) + int (length bs) \<le> cols (screen t)"
  shows "\<exists>t'. Terminal_Feed bs t = Some t' \<and> shows_text bs (screen t) (screen t') \<and>
    parser t' = parser t \<and> outgoing t' = outgoing t"
proof -
  have "hasPrint (callbacks (parser t))" using assms(4) by (simp add: allCallbacks_def)
  then have "Terminal_Feed bs t = on_screen (write_all bs) t" by (rule feed_text [OF assms(3) _ assms(5)])
  with write_all_shows [OF assms(1,2,6)] show ?thesis by (auto simp: on_screen_def)
qed

lemma text_is_shown_witness:
  "\<exists>t t'. Terminal_Feed [0x48, 0x69] t = Some t' \<and> shows_text [0x48, 0x69] (screen t) (screen t') \<and>
    parser t' = parser t \<and> outgoing t' = outgoing t"
proof -
  obtain s where s: "screen_wf s" "\<not> pendingWrap s" "cursor s = CursorPosition_init" "cols s = 80"
    using fresh_screen by blast
  let ?t = "\<lparr>screen = s, parser = Vt100Parser_new allCallbacks, outgoing = [], deviceAttributesResponse = []\<rparr>"
  have "\<exists>t'. Terminal_Feed [0x48, 0x69] ?t = Some t' \<and> shows_text [0x48, 0x69] (screen ?t) (screen t') \<and>
    parser t' = parser ?t \<and> outgoing t' = outgoing ?t"
    by (rule text_is_shown) (use s in \<open>simp_all add: Vt100Parser_new_def CursorPosition_init_def DEL_BYTE_def\<close>)
  then show ?thesis by blast
qed

end
