(* ===== verification/Tcp_Client.thy ===== *)
theory Tcp_Client
  imports Foc_Prelude "HOL-Library.Multiset"
begin

text \<open>
  What the two TCP clients of the hardware bridge share: the base class \<open>TcpClient\<close>
  (\<open>tools/hardware_bridge/client/common/TcpClientBase\<close>), the calls they make, and the contract
  that every completion callback handed in is called exactly once. The connection library
  (embedded-infra-lib) is not in the tree: its calls into the client are the events of the
  client, its completions (the stream size it offers, the segments it has received) are arguments,
  and the calls the client makes on it are effects. A client that calls back into the same
  object from a callback is not modelled.
\<close>

section \<open>Effects\<close>

text \<open>A CAN identifier as its accessors show it: \<open>Is29BitId\<close> and the value.\<close>

record CanId =
  is29BitId :: bool
  idBits :: u32

datatype tcp_effect =
  FactoryConnect
| CreatedObserver
| NotifyConnected
| NotifyDisconnected
| AbortAndDestroy
| RequestSendStream nat
| WriteStream "u8 list"
| AckReceived
| ThrowBridgeConnectionException
| SendDone callback bool
| SerialDone callback
| ReceivedFrame callback CanId "u8 list"
| ReceivedData callback "u8 list"

fun completes :: "tcp_effect \<Rightarrow> callback multiset" where
  "completes (SendDone cb success) = {#cb#}"
| "completes (SerialDone cb) = {#cb#}"
| "completes _ = {#}"

definition completions :: "tcp_effect list \<Rightarrow> callback multiset" where
  "completions es = sum_list (map completes es)"

lemma completions_simps [simp]: "completions [] = {#}" "completions (e # es) = completes e + completions es"
    "completions (es @ fs) = completions es + completions fs"
  by (simp_all add: completions_def)

fun written :: "tcp_effect list \<Rightarrow> u8 list" where
  "written [] = []"
| "written (WriteStream bs # es) = bs @ written es"
| "written (_ # es) = written es"

lemma written_append [simp]: "written (es @ fs) = written es @ written fs"
  by (induction es rule: written.induct) simp_all

text \<open>A completion callback that is set is known by its number.\<close>

definition mset_option :: "callback option \<Rightarrow> callback multiset" where
  "mset_option c = (case c of Some cb \<Rightarrow> {#cb#} | None \<Rightarrow> {#})"

lemma mset_option_simps [simp]: "mset_option None = {#}" "mset_option (Some cb) = {#cb#}"
  by (simp_all add: mset_option_def)

section \<open>TcpClient\<close>

record 'ip TcpClient =
  connected :: bool
  address :: 'ip
  port :: u16

text \<open>
  The hook \<open>OnDisconnected\<close> of the derived class runs between the assignment and the
  notification of the observers.
\<close>

definition HandleDisconnected ::
    "(bool \<Rightarrow> ('ip, 'x) TcpClient_scheme \<Rightarrow> ('ip, 'x) TcpClient_scheme \<times> tcp_effect list) \<Rightarrow> bool \<Rightarrow>
     ('ip, 'x) TcpClient_scheme \<Rightarrow> ('ip, 'x) TcpClient_scheme \<times> tcp_effect list" where
  "HandleDisconnected onDisconnected clearConnectionHandler c =
     (let (c', es) = onDisconnected clearConnectionHandler (c\<lparr>connected := False\<rparr>) in (c', es @ [NotifyDisconnected]))"

definition ConnectionEstablished ::
    "(('ip, 'x) TcpClient_scheme \<Rightarrow> (('ip, 'x) TcpClient_scheme \<times> tcp_effect list) option) \<Rightarrow>
     ('ip, 'x) TcpClient_scheme \<Rightarrow> (('ip, 'x) TcpClient_scheme \<times> tcp_effect list) option" where
  "ConnectionEstablished onConnectionEstablished c =
     do { (c', es) \<leftarrow> onConnectionEstablished (c\<lparr>connected := True\<rparr>); Some (c', es @ [NotifyConnected]) }"

text \<open>The trace output of \<open>ConnectionFailed\<close> is left out; \<open>OnConnectionFailed\<close> is not overridden.\<close>

definition ConnectionFailed ::
    "(bool \<Rightarrow> ('ip, 'x) TcpClient_scheme \<Rightarrow> ('ip, 'x) TcpClient_scheme \<times> tcp_effect list) \<Rightarrow>
     ('ip, 'x) TcpClient_scheme \<Rightarrow> ('ip, 'x) TcpClient_scheme \<times> tcp_effect list" where
  "ConnectionFailed onDisconnected c = HandleDisconnected onDisconnected True c"

section \<open>The completion contract\<close>

text \<open>Running a list of events.\<close>

fun run_tcp :: "('e \<Rightarrow> 's \<Rightarrow> ('s \<times> tcp_effect list) option) \<Rightarrow> 'e list \<Rightarrow> 's \<Rightarrow> ('s \<times> tcp_effect list) option" where
  "run_tcp step [] s = Some (s, [])"
| "run_tcp step (e # evs) s =
     do { (s', es) \<leftarrow> step e s; (s'', fs) \<leftarrow> run_tcp step evs s'; Some (s'', es @ fs) }"

lemma run_tcp_append:
  "run_tcp step (as @ bs) s = do { (s', es) \<leftarrow> run_tcp step as s; (s'', fs) \<leftarrow> run_tcp step bs s'; Some (s'', es @ fs) }"
  by (induction as arbitrary: s) (auto split: bind_splits intro!: bind_option_cong)

lemma run_tcp_snoc:
  "run_tcp step as s = Some (s', es) \<Longrightarrow> step e s' = Some (s'', fs) \<Longrightarrow> run_tcp step (as @ [e]) s = Some (s'', es @ fs)"
  by (simp add: run_tcp_append)

text \<open>
  A service that is handed a callback with some events, holds it while it waits, and calls it:
  each step accounts for every callback, and a disconnected service waits for nothing.
\<close>

locale completing =
  fixes step :: "'e \<Rightarrow> 's \<Rightarrow> ('s \<times> tcp_effect list) option" and good :: "'s \<Rightarrow> bool"
    and issued :: "'e \<Rightarrow> callback multiset" and waiting :: "'s \<Rightarrow> callback multiset" and drops :: "'e \<Rightarrow> bool"
  assumes step_good: "good s \<Longrightarrow> step e s = Some (s', es) \<Longrightarrow> good s'"
    and step_accounts: "good s \<Longrightarrow> step e s = Some (s', es) \<Longrightarrow> issued e + waiting s = completions es + waiting s'"
    and step_drops: "good s \<Longrightarrow> drops e \<Longrightarrow> step e s = Some (s', es) \<Longrightarrow> waiting s' = {#}"
begin

lemma run_good: "good s \<Longrightarrow> run_tcp step evs s = Some (s', es) \<Longrightarrow> good s'"
  by (induction evs arbitrary: s es) (simp, fastforce split: bind_splits dest: step_good)

lemma run_accounts:
  "good s \<Longrightarrow> run_tcp step evs s = Some (s', es) \<Longrightarrow> sum_list (map issued evs) + waiting s = completions es + waiting s'"
proof (induction evs arbitrary: s es)
  case (Cons e evs)
  from Cons.prems(2) obtain s1 es1 es2 where st: "step e s = Some (s1, es1)" "run_tcp step evs s1 = Some (s', es2)" "es = es1 @ es2"
    by (auto split: bind_splits)
  have "issued e + waiting s = completions es1 + waiting s1" by (rule step_accounts [OF Cons.prems(1) st(1)])
  moreover have "sum_list (map issued evs) + waiting s1 = completions es2 + waiting s'"
    by (rule Cons.IH [OF step_good [OF Cons.prems(1) st(1)] st(2)])
  ultimately have "(issued e + waiting s) + (sum_list (map issued evs) + waiting s1) =
      (completions es1 + waiting s1) + (completions es2 + waiting s')" by simp
  then show ?case using st(3) by (simp add: ac_simps)
qed simp

lemma run_answers_all:
  assumes "good s" and "run_tcp step (evs @ [e]) s = Some (s', es)" and "drops e"
  shows "completions es = sum_list (map issued (evs @ [e])) + waiting s"
proof -
  from assms(2) obtain s1 es1 es2 where st: "run_tcp step evs s = Some (s1, es1)" "step e s1 = Some (s', es2)"
    by (auto simp: run_tcp_append split: bind_splits)
  have "waiting s' = {#}" by (rule step_drops [OF run_good [OF assms(1) st(1)] assms(3) st(2)])
  with run_accounts [OF assms(1,2)] show ?thesis by simp
qed

end

end
