(* ===== verification/Tcp_Canbus.thy ===== *)
theory Tcp_Canbus
  imports Tcp_Client
begin

text \<open>
  The CAN bus of the hardware bridge client (\<open>TcpClientCanbus\<close>): CAN frames as 16-byte blocks on
  a TCP stream. A step returns the new client and the calls it makes; \<open>None\<close> stands for an
  assertion of the library or an access through a null pointer.
\<close>

section \<open>Frames\<close>

definition canFrameSize :: nat where "canFrameSize = 16"
definition canEffFlag :: u32 where "canEffFlag = 0x80000000"
definition canErrFlag :: u32 where "canErrFlag = 0x20000000"

definition EncodeFrame :: "CanId \<Rightarrow> u8 list \<Rightarrow> u8 list" where
  "EncodeFrame cid data =
     (let canId = (if is29BitId cid then idBits cid OR canEffFlag else idBits cid);
          n = min (length data) 8
      in [ucast (canId AND 0xFF), ucast (drop_bit 8 canId AND 0xFF), ucast (drop_bit 16 canId AND 0xFF),
          ucast (drop_bit 24 canId AND 0xFF), word_of_nat n, 0, 0, 0] @ take n data @ replicate (8 - n) 0)"

text \<open>\<open>DecodeFrame\<close> reads \<open>raw[0]\<close> to \<open>raw[15]\<close>; no result stands for \<open>return false\<close>.\<close>

definition DecodeFrame :: "u8 list \<Rightarrow> (CanId \<times> u8 list) option" where
  "DecodeFrame raw =
     (let canId = ucast (raw ! 0) OR push_bit 8 (ucast (raw ! 1)) OR push_bit 16 (ucast (raw ! 2)) OR push_bit 24 (ucast (raw ! 3))
      in if canId AND canErrFlag \<noteq> 0 then None
         else (let isExtended = (canId AND canEffFlag \<noteq> 0); arbId = canId AND 0x1FFFFFFF; dlc = min (raw ! 4) 8
               in Some (\<lparr>is29BitId = isExtended, idBits = arbId\<rparr>, map (\<lambda>i. raw ! (8 + i)) [0..<unat dlc])))"

section \<open>State\<close>

record CanConnection =
  pendingSendFrame :: "u8 list"
  pendingSendOnDone :: "callback option"
  receiveAccumulator :: "u8 list"
  accumulatedBytes :: nat

definition CanConnection_new :: CanConnection where
  "CanConnection_new = \<lparr>pendingSendFrame = replicate canFrameSize 0, pendingSendOnDone = None,
     receiveAccumulator = replicate canFrameSize 0, accumulatedBytes = 0\<rparr>"

text \<open>
  The handler object lives in \<open>connectionHandler\<close> as long as the client
  (\<open>connectionHandlerPtr\<close>) or the connection holds a pointer to it.
\<close>

record 'ip TcpClientCanbus = "'ip TcpClient" +
  connectionHandler :: "CanConnection option"
  connectionHandlerPtr :: bool
  connectionHolds :: bool
  receiveCallback :: "callback option"

type_synonym 'ip can_result = "('ip TcpClientCanbus \<times> tcp_effect list) option"

definition TcpClientCanbus_new :: "'ip \<Rightarrow> u16 \<Rightarrow> 'ip TcpClientCanbus \<times> tcp_effect list" where
  "TcpClientCanbus_new ip p =
     (\<lparr>connected = False, address = ip, port = p, connectionHandler = None, connectionHandlerPtr = False,
       connectionHolds = False, receiveCallback = None\<rparr>, [FactoryConnect])"

definition drop_unreferenced :: "'ip TcpClientCanbus \<Rightarrow> 'ip TcpClientCanbus" where
  "drop_unreferenced c =
     (if connectionHandlerPtr c \<or> connectionHolds c then c else c\<lparr>connectionHandler := None\<rparr>)"

section \<open>The connection handler\<close>

definition Can_RequestSend :: "nat \<Rightarrow> CanId \<Rightarrow> u8 list \<Rightarrow> callback option \<Rightarrow> CanConnection \<Rightarrow> CanConnection \<times> tcp_effect list" where
  "Can_RequestSend maxSendStreamSize cid data onDone h =
     (if pendingSendOnDone h \<noteq> None then (h, case onDone of Some cb \<Rightarrow> [SendDone cb False] | None \<Rightarrow> [])
      else if maxSendStreamSize < canFrameSize then (h, case onDone of Some cb \<Rightarrow> [SendDone cb False] | None \<Rightarrow> [])
      else (h\<lparr>pendingSendFrame := EncodeFrame cid data, pendingSendOnDone := onDone\<rparr>, [RequestSendStream canFrameSize]))"

definition Can_SendStreamAvailable :: "CanConnection \<Rightarrow> CanConnection \<times> tcp_effect list" where
  "Can_SendStreamAvailable h =
     (case pendingSendOnDone h of
        None \<Rightarrow> (h, [])
      | Some cb \<Rightarrow> (h\<lparr>pendingSendOnDone := None\<rparr>, [WriteStream (take canFrameSize (pendingSendFrame h)), SendDone cb True]))"

definition Can_FailPendingSend :: "bool \<Rightarrow> CanConnection \<Rightarrow> CanConnection \<times> tcp_effect list" where
  "Can_FailPendingSend success h =
     (case pendingSendOnDone h of
        None \<Rightarrow> (h, [])
      | Some cb \<Rightarrow> (h\<lparr>pendingSendOnDone := None\<rparr>, [SendDone cb success]))"

text \<open>
  The loop of \<open>DataReceived\<close>. The stream is the list of its contiguous segments;
  \<open>ContiguousRange\<close> takes at most as many bytes as asked for from the first one. The result
  is the handler, the frames delivered, and whether the malformed-frame exception was thrown.
  A \<open>memcpy\<close> beyond the accumulator has no result.
\<close>

function receive_loop :: "callback option \<Rightarrow> u8 list list \<Rightarrow> CanConnection \<Rightarrow> (CanConnection \<times> tcp_effect list \<times> bool) option" where
  "receive_loop cb [] h = Some (h, [], False)"
| "receive_loop cb (seg # segs) h =
     (if seg = [] then receive_loop cb segs h
      else if canFrameSize < accumulatedBytes h then None
      else let n = accumulatedBytes h; chunk = take (canFrameSize - n) seg; rest = drop (canFrameSize - n) seg # segs in
        if chunk = [] then Some (h, [], False)
        else let acc = take n (receiveAccumulator h) @ chunk @ drop (n + length chunk) (receiveAccumulator h);
                 h1 = h\<lparr>receiveAccumulator := acc, accumulatedBytes := n + length chunk\<rparr> in
          if canFrameSize \<le> n + length chunk
          then (case DecodeFrame acc of
              None \<Rightarrow> Some (h1, [AbortAndDestroy, ThrowBridgeConnectionException], True)
            | Some (cid, msg) \<Rightarrow>
                do { (h2, es, thrown) \<leftarrow> receive_loop cb rest (h1\<lparr>accumulatedBytes := 0\<rparr>);
                     Some (h2, (case cb of Some k \<Rightarrow> [ReceivedFrame k cid msg] | None \<Rightarrow> []) @ es, thrown) })
          else receive_loop cb rest h1)"
  by pat_completeness auto
termination
  by (relation "measure (\<lambda>(cb, segs, h). sum_list (map length segs) + length segs)") auto

declare receive_loop.simps [simp del]

definition Can_DataReceived :: "callback option \<Rightarrow> u8 list list \<Rightarrow> CanConnection \<Rightarrow> (CanConnection \<times> tcp_effect list) option" where
  "Can_DataReceived cb segs h =
     do { (h', es, thrown) \<leftarrow> receive_loop cb segs h; Some (h', es @ (if thrown then [] else [AckReceived])) }"

section \<open>The client\<close>

definition Can_OnConnectionEstablished :: "'ip TcpClientCanbus \<Rightarrow> 'ip can_result" where
  "Can_OnConnectionEstablished c =
     (if connectionHandler c \<noteq> None then None
      else Some (c\<lparr>connectionHandler := Some CanConnection_new, connectionHandlerPtr := True, connectionHolds := True\<rparr>,
                 [CreatedObserver]))"

definition Can_OnDisconnected :: "bool \<Rightarrow> 'ip TcpClientCanbus \<Rightarrow> 'ip TcpClientCanbus \<times> tcp_effect list" where
  "Can_OnDisconnected clearConnectionHandler c =
     (let (c1, es) = (case connectionHandler c of
            Some h \<Rightarrow> if connectionHandlerPtr c
                      then (let (h', fs) = Can_FailPendingSend False h in (c\<lparr>connectionHandler := Some h'\<rparr>, fs)) else (c, [])
          | None \<Rightarrow> (c, []))
      in (if clearConnectionHandler then drop_unreferenced (c1\<lparr>connectionHandlerPtr := False\<rparr>) else c1, es))"

text \<open>A call on the handler object.\<close>

definition on_can_handler :: "(CanConnection \<Rightarrow> (CanConnection \<times> tcp_effect list) option) \<Rightarrow> 'ip TcpClientCanbus \<Rightarrow> 'ip can_result" where
  "on_can_handler f c =
     (case connectionHandler c of
        None \<Rightarrow> None
      | Some h \<Rightarrow> do { (h', es) \<leftarrow> f h; Some (c\<lparr>connectionHandler := Some h'\<rparr>, es) })"

definition Can_SendData :: "nat \<Rightarrow> CanId \<Rightarrow> u8 list \<Rightarrow> callback option \<Rightarrow> 'ip TcpClientCanbus \<Rightarrow> 'ip can_result" where
  "Can_SendData maxSendStreamSize cid data actionOnCompletion c =
     (if connected c \<and> connectionHandler c \<noteq> None
      then on_can_handler (\<lambda>h. Some (Can_RequestSend maxSendStreamSize cid data actionOnCompletion h)) c
      else Some (c, case actionOnCompletion of Some cb \<Rightarrow> [SendDone cb False] | None \<Rightarrow> []))"

definition Can_ReceiveData :: "callback option \<Rightarrow> 'ip TcpClientCanbus \<Rightarrow> 'ip TcpClientCanbus" where
  "Can_ReceiveData receivedAction c = c\<lparr>receiveCallback := receivedAction\<rparr>"

section \<open>Events\<close>

text \<open>
  The calls of the user (\<open>CanSend\<close> with the size the connection offers, \<open>CanReceive\<close>), of the
  connection factory, and of the connection on the handler it holds. \<open>Detaching\<close> ends with the
  connection giving up its pointer.
\<close>

datatype can_event =
  CanSend nat CanId "u8 list" "callback option"
| CanReceive "callback option"
| CanEstablished
| CanConnectFailed
| CanStreamAvailable
| CanDataReceived "u8 list list"
| CanClose
| CanAbort
| CanDetaching

fun can_step :: "can_event \<Rightarrow> 'ip TcpClientCanbus \<Rightarrow> 'ip can_result" where
  "can_step (CanSend m cid data cb) c = Can_SendData m cid data cb c"
| "can_step (CanReceive cb) c = Some (Can_ReceiveData cb c, [])"
| "can_step CanEstablished c = ConnectionEstablished Can_OnConnectionEstablished c"
| "can_step CanConnectFailed c = Some (ConnectionFailed Can_OnDisconnected c)"
| "can_step CanStreamAvailable c =
     (if connectionHolds c then on_can_handler (\<lambda>h. Some (Can_SendStreamAvailable h)) c else None)"
| "can_step (CanDataReceived segs) c =
     (if connectionHolds c then on_can_handler (Can_DataReceived (receiveCallback c) segs) c else None)"
| "can_step CanClose c = (if connectionHolds c then Some (HandleDisconnected Can_OnDisconnected False c) else None)"
| "can_step CanAbort c = (if connectionHolds c then Some (HandleDisconnected Can_OnDisconnected False c) else None)"
| "can_step CanDetaching c =
     (if connectionHolds c
      then (let (c', es) = HandleDisconnected Can_OnDisconnected True c
            in Some (drop_unreferenced (c'\<lparr>connectionHolds := False\<rparr>), es))
      else None)"

text \<open>The destructor.\<close>

definition Can_destroy :: "'ip TcpClientCanbus \<Rightarrow> tcp_effect list" where
  "Can_destroy c = (if connectionHandlerPtr c then [AbortAndDestroy] else [])"

end
