(* ===== verification/Tcp_Canbus_Correct.thy ===== *)
theory Tcp_Canbus_Correct
  imports Tcp_Canbus
begin

text \<open>
  Frames survive encoding, the receive loop reassembles them from any segmentation of the
  stream, and the client keeps its invariant and accounts for every completion callback.
\<close>

section \<open>Frame round trip\<close>

definition valid_id :: "CanId \<Rightarrow> bool" where
  "valid_id i \<longleftrightarrow> idBits i < (if is29BitId i then 0x20000000 else 0x800)"

definition valid_frame :: "CanId \<times> u8 list \<Rightarrow> bool" where
  "valid_frame f \<longleftrightarrow> valid_id (fst f) \<and> length (snd f) \<le> 8"

lemma bytes_of_id:
  "ucast (ucast (w AND 0xFF) :: u8) OR push_bit 8 (ucast (ucast (drop_bit 8 w AND 0xFF) :: u8))
     OR push_bit 16 (ucast (ucast (drop_bit 16 w AND 0xFF) :: u8)) OR push_bit 24 (ucast (ucast (drop_bit 24 w AND 0xFF) :: u8)) = (w :: u32)"
proof -
  have m: "(0xFF :: u32) = mask 8" by (simp add: mask_eq_exp_minus_1)
  show ?thesis
    unfolding m
  proof (rule bit_word_eqI)
    fix n :: nat
    assume "n < LENGTH(32)"
    then consider "n < 8" | "8 \<le> n" "n < 16" | "16 \<le> n" "n < 24" | "24 \<le> n" "n < 32" by fastforce
    then show "bit (ucast (ucast (w AND mask 8) :: u8) OR push_bit 8 (ucast (ucast (drop_bit 8 w AND mask 8) :: u8))
        OR push_bit 16 (ucast (ucast (drop_bit 16 w AND mask 8) :: u8))
        OR push_bit 24 (ucast (ucast (drop_bit 24 w AND mask 8) :: u8)) :: u32) n \<longleftrightarrow> bit w n"
      by cases (auto simp: bit_simps)
  qed
qed

lemma id_flags:
  assumes "w < (0x20000000 :: u32)"
  shows "w AND canErrFlag = 0" "w AND canEffFlag = 0" "w AND 0x1FFFFFFF = w"
    "(w OR canEffFlag) AND canErrFlag = 0" "(w OR canEffFlag) AND canEffFlag \<noteq> 0" "(w OR canEffFlag) AND 0x1FFFFFFF = w"
proof -
  have t: "take_bit 29 w = w" using assms less_mask_eq [of w 29] by (simp add: take_bit_eq_mask)
  then have low: "bit w n \<Longrightarrow> n < 29" for n by (metis bit_take_bit_iff)
  have e: "canErrFlag = 2 ^ 29" "canEffFlag = 2 ^ 31" "(0x1FFFFFFF :: u32) = mask 29"
    by (simp_all add: canErrFlag_def canEffFlag_def mask_eq_exp_minus_1)
  have flags: "bit canErrFlag n \<longleftrightarrow> n = 29" "bit canEffFlag n \<longleftrightarrow> n = 31" "bit (0x1FFFFFFF :: u32) n \<longleftrightarrow> n < 29" for n
    unfolding e bit_exp_iff bit_mask_iff by auto
  have no: "\<not> bit w 29" "\<not> bit w 31" using low [of 29] low [of 31] by auto
  show "w AND canErrFlag = 0" "w AND canEffFlag = 0" "(w OR canEffFlag) AND canErrFlag = 0"
    by (auto intro!: bit_word_eqI simp: bit_and_iff bit_or_iff flags no)
  have m: "v AND 0x1FFFFFFF = take_bit 29 v" for v :: u32 by (simp only: take_bit_eq_mask e(3))
  show "w AND 0x1FFFFFFF = w" "(w OR canEffFlag) AND 0x1FFFFFFF = w"
    unfolding m using t by (simp_all add: canEffFlag_def)
  have "bit ((w OR canEffFlag) AND canEffFlag) 31" by (simp add: bit_and_iff bit_or_iff flags)
  then show "(w OR canEffFlag) AND canEffFlag \<noteq> 0" by auto
qed

lemma length_EncodeFrame [simp]: "length (EncodeFrame i d) = 16"
  by (simp add: EncodeFrame_def Let_def)

lemma encoded_data:
  assumes "length d \<le> 8"
  shows "map (\<lambda>k. ([a0, a1, a2, a3, a4, a5, a6, a7] @ d @ zs) ! (8 + k)) [0..<length d] = d"
  by (rule nth_equalityI) (simp_all add: nth_append)

lemma decode_encode:
  assumes "valid_frame (i, d)"
  shows "DecodeFrame (EncodeFrame i d) = Some (i, d)"
proof -
  let ?w = "if is29BitId i then idBits i OR canEffFlag else idBits i"
  have len: "length d \<le> 8" and w: "idBits i < 0x20000000"
    using assms by (auto simp: valid_frame_def valid_id_def split: if_splits elim: order_less_trans)
  have dlc: "min (word_of_nat (length d)) 8 = (word_of_nat (length d) :: u8)" "unat (word_of_nat (length d) :: u8) = length d"
    using len by (simp_all add: min_def word_le_nat_alt unat_of_nat)
  have flags: "?w AND canErrFlag = 0" "(?w AND canEffFlag \<noteq> 0) = is29BitId i" "?w AND 0x1FFFFFFF = idBits i"
    using id_flags [OF w] by auto
  have e: "EncodeFrame i d = [ucast (?w AND 0xFF), ucast (drop_bit 8 ?w AND 0xFF), ucast (drop_bit 16 ?w AND 0xFF),
          ucast (drop_bit 24 ?w AND 0xFF), word_of_nat (length d), 0, 0, 0] @ d @ replicate (8 - length d) 0"
    using len by (simp add: EncodeFrame_def Let_def min_absorb1)
  have "DecodeFrame (EncodeFrame i d) =
      (if ?w AND canErrFlag \<noteq> 0 then None
       else Some (\<lparr>is29BitId = (?w AND canEffFlag \<noteq> 0), idBits = ?w AND 0x1FFFFFFF\<rparr>,
         map (\<lambda>k. EncodeFrame i d ! (8 + k)) [0..<length d]))"
    unfolding DecodeFrame_def Let_def
    by (simp add: e bytes_of_id dlc del: if_split)
  also have "\<dots> = Some (i, d)"
    using flags encoded_data [OF len] by (simp add: e)
  finally show ?thesis .
qed

section \<open>Reassembly\<close>

text \<open>The whole stream at once: the calls made for it, the bytes left over, and whether it ended in an exception.\<close>

fun deliver :: "callback option \<Rightarrow> CanId \<Rightarrow> u8 list \<Rightarrow> tcp_effect list" where
  "deliver (Some k) i d = [ReceivedFrame k i d]"
| "deliver None i d = []"

function consume :: "callback option \<Rightarrow> u8 list \<Rightarrow> tcp_effect list \<times> u8 list \<times> bool" where
  "consume cb bs =
     (if length bs < 16 then ([], bs, False)
      else case DecodeFrame (take 16 bs) of
          None \<Rightarrow> ([AbortAndDestroy, ThrowBridgeConnectionException], take 16 bs, True)
        | Some (i, d) \<Rightarrow> (let (es, r, thrown) = consume cb (drop 16 bs) in (deliver cb i d @ es, r, thrown)))"
  by pat_completeness auto
termination
  by (relation "measure (\<lambda>(cb, bs). length bs)") auto

declare consume.simps [simp del]

lemma consume_short: "length bs < 16 \<Longrightarrow> consume cb bs = ([], bs, False)"
  by (subst consume.simps) simp

lemma consume_block:
  "length b = 16 \<Longrightarrow> consume cb (b @ bs) =
     (case DecodeFrame b of None \<Rightarrow> ([AbortAndDestroy, ThrowBridgeConnectionException], b, True)
      | Some (i, d) \<Rightarrow> (let (es, r, thrown) = consume cb bs in (deliver cb i d @ es, r, thrown)))"
  using append_eq_conv_conj [of b bs "b @ bs"] by (subst consume.simps) (simp split: option.split)

definition collected :: "CanConnection \<Rightarrow> u8 list" where
  "collected h = take (accumulatedBytes h) (receiveAccumulator h)"

definition acc_ok :: "CanConnection \<Rightarrow> bool" where
  "acc_ok h \<longleftrightarrow> length (receiveAccumulator h) = 16 \<and> accumulatedBytes h \<le> 16"

text \<open>What a receive leaves alone.\<close>

definition same_send :: "CanConnection \<Rightarrow> CanConnection \<Rightarrow> bool" where
  "same_send h h' \<longleftrightarrow> pendingSendFrame h' = pendingSendFrame h \<and> pendingSendOnDone h' = pendingSendOnDone h"

lemma receive_loop_segment:
  assumes ok: "acc_ok h" and below: "accumulatedBytes h < 16" and ne: "seg \<noteq> []"
    and out: "consume cb (collected h @ concat (seg # segs)) = (es, r, thrown)"
    and IH: "\<And>segs' h' es r thrown. sum_list (map length segs') + length segs' < length seg + sum_list (map length segs) + Suc (length segs) \<Longrightarrow>
      acc_ok h' \<Longrightarrow> accumulatedBytes h' < 16 \<Longrightarrow> consume cb (collected h' @ concat segs') = (es, r, thrown) \<Longrightarrow>
      \<exists>h''. receive_loop cb segs' h' = Some (h'', es, thrown) \<and> acc_ok h'' \<and> same_send h' h'' \<and>
        collected h'' = r \<and> (\<not> thrown \<longrightarrow> accumulatedBytes h'' < 16)"
  shows "\<exists>h'. receive_loop cb (seg # segs) h = Some (h', es, thrown) \<and> acc_ok h' \<and> same_send h h' \<and>
    collected h' = r \<and> (\<not> thrown \<longrightarrow> accumulatedBytes h' < 16)"
proof -
  let ?n = "accumulatedBytes h" and ?a = "receiveAccumulator h"
  let ?chunk = "take (16 - ?n) seg" and ?rest = "drop (16 - ?n) seg # segs"
  let ?acc = "take ?n ?a @ ?chunk @ drop (?n + length ?chunk) ?a"
  let ?h1 = "h\<lparr>receiveAccumulator := ?acc, accumulatedBytes := ?n + length ?chunk\<rparr>"
  have n: "?n < 16" "length ?a = 16" using ok below by (simp_all add: acc_ok_def)
  have nonempty: "?chunk \<noteq> []" using n ne by simp
  have smaller: "sum_list (map length ?rest) + length ?rest < length seg + sum_list (map length segs) + Suc (length segs)"
    using n ne by (cases seg) auto
  have eq: "receive_loop cb (seg # segs) h =
      (if 16 \<le> ?n + length ?chunk then (case DecodeFrame ?acc of
            None \<Rightarrow> Some (?h1, [AbortAndDestroy, ThrowBridgeConnectionException], True)
          | Some (cid, msg) \<Rightarrow>
              do { (h2, es, thrown) \<leftarrow> receive_loop cb ?rest (?h1\<lparr>accumulatedBytes := 0\<rparr>);
                   Some (h2, (case cb of Some k \<Rightarrow> [ReceivedFrame k cid msg] | None \<Rightarrow> []) @ es, thrown) })
       else receive_loop cb ?rest ?h1)"
  proof -
    have "\<not> 16 < ?n" using n by simp
    with ne nonempty show ?thesis by (subst receive_loop.simps) (simp only: Let_def canFrameSize_def if_False)
  qed
  show ?thesis
  proof (cases "16 \<le> ?n + length ?chunk")
    case full: True
    then have len: "length ?chunk = 16 - ?n" "length ?acc = 16" using n by auto
    have acc: "?acc = collected h @ ?chunk" using len n by (simp add: collected_def)
    have split: "collected h @ concat (seg # segs) = ?acc @ concat ?rest" unfolding acc by simp
    note cons = consume_block [OF len(2), of cb "concat ?rest"]
    show ?thesis
    proof (cases "DecodeFrame ?acc")
      case None
      then have o: "es = [AbortAndDestroy, ThrowBridgeConnectionException]" "r = ?acc" "thrown = True"
        using out cons unfolding split by simp_all
      have "collected ?h1 = ?acc" "acc_ok ?h1" using len n by (simp_all add: collected_def acc_ok_def)
      moreover have "receive_loop cb (seg # segs) h = Some (?h1, es, thrown)"
        unfolding eq o by (simp only: full if_True None option.case)
      moreover have "same_send h ?h1" by (simp add: same_send_def)
      ultimately show ?thesis unfolding o by blast
    next
      case (Some f)
      obtain i d where f: "f = (i, d)" by (cases f) auto
      obtain es1 r1 t1 where c1: "consume cb (concat ?rest) = (es1, r1, t1)" by (cases "consume cb (concat ?rest)") blast
      then have o: "es = deliver cb i d @ es1" "r = r1" "thrown = t1"
        using out cons Some f unfolding split by simp_all
      let ?h2 = "?h1\<lparr>accumulatedBytes := 0\<rparr>"
      have "acc_ok ?h2" "accumulatedBytes ?h2 < 16" "collected ?h2 = []"
        using len by (simp_all add: acc_ok_def collected_def)
      then have "consume cb (collected ?h2 @ concat ?rest) = (es1, r1, t1)" using c1 by (simp only: append_Nil)
      with IH [OF smaller \<open>acc_ok ?h2\<close> \<open>accumulatedBytes ?h2 < 16\<close>] obtain h' where h': "receive_loop cb ?rest ?h2 = Some (h', es1, t1)" "acc_ok h'" "same_send ?h2 h'"
          "collected h' = r1" "\<not> t1 \<longrightarrow> accumulatedBytes h' < 16"
        by blast
      have "receive_loop cb (seg # segs) h = Some (h', es, thrown)"
        unfolding eq by (simp only: full if_True Some f option.case prod.case h'(1) bind.bind_lunit) (cases cb; simp add: o)
      moreover have "same_send h h'" using h'(3) by (simp add: same_send_def)
      ultimately show ?thesis using h' o by blast
    qed
  next
    case part: False
    then have whole: "?chunk = seg" "drop (16 - ?n) seg = []" by auto
    have "collected ?h1 @ concat ?rest = collected h @ concat (seg # segs)" using n whole by (simp add: collected_def)
    then have "consume cb (collected ?h1 @ concat ?rest) = (es, r, thrown)" using out by (simp only:)
    moreover have "acc_ok ?h1" "accumulatedBytes ?h1 < 16" using n part by (simp_all add: acc_ok_def)
    ultimately obtain h' where "receive_loop cb ?rest ?h1 = Some (h', es, thrown)" "acc_ok h'" "same_send ?h1 h'"
        "collected h' = r" "\<not> thrown \<longrightarrow> accumulatedBytes h' < 16"
      using IH [OF smaller] by blast
    moreover have "same_send h h'" using calculation(3) by (simp add: same_send_def)
    moreover have "receive_loop cb (seg # segs) h = receive_loop cb ?rest ?h1"
      unfolding eq by (simp only: part if_False)
    ultimately show ?thesis by metis
  qed
qed

lemma receive_loop_consume:
  assumes "acc_ok h" and "accumulatedBytes h < 16" and "consume cb (collected h @ concat segs) = (es, r, thrown)"
  shows "\<exists>h'. receive_loop cb segs h = Some (h', es, thrown) \<and> acc_ok h' \<and> same_send h h' \<and>
    collected h' = r \<and> (\<not> thrown \<longrightarrow> accumulatedBytes h' < 16)"
  using assms
proof (induction "sum_list (map length segs) + length segs" arbitrary: segs h es r thrown rule: less_induct)
  case less
  show ?case
  proof (cases segs)
    case Nil
    from less.prems have "length (collected h) < 16" by (simp add: acc_ok_def collected_def)
    with less.prems Nil show ?thesis by (simp add: consume_short receive_loop.simps same_send_def)
  next
    case (Cons seg segs')
    show ?thesis
    proof (cases "seg = []")
      case True
      with less.prems less.hyps [of segs' h es r thrown] Cons show ?thesis by (subst Cons, subst receive_loop.simps) simp
    next
      case False
      show ?thesis
        unfolding Cons
        by (rule receive_loop_segment [OF less.prems(1,2) False]) (use less.prems(3) Cons less.hyps in auto)
    qed
  qed
qed

section \<open>The client\<close>

text \<open>
  The handler object exists exactly while somebody points to it, and only a connected client
  holds a pending send.
\<close>

definition can_wf :: "'ip TcpClientCanbus \<Rightarrow> bool" where
  "can_wf c \<longleftrightarrow> (connectionHandler c \<noteq> None \<longleftrightarrow> connectionHandlerPtr c \<or> connectionHolds c) \<and>
     (connected c \<longrightarrow> connectionHandlerPtr c) \<and>
     (\<forall>h. connectionHandler c = Some h \<longrightarrow> acc_ok h \<and> length (pendingSendFrame h) = 16 \<and>
        (pendingSendOnDone h \<noteq> None \<longrightarrow> connected c))"

fun can_issued :: "can_event \<Rightarrow> callback multiset" where
  "can_issued (CanSend m i d cb) = mset_option cb"
| "can_issued _ = {#}"

definition can_waiting :: "'ip TcpClientCanbus \<Rightarrow> callback multiset" where
  "can_waiting c = (case connectionHandler c of None \<Rightarrow> {#} | Some h \<Rightarrow> mset_option (pendingSendOnDone h))"

fun can_drops :: "can_event \<Rightarrow> bool" where
  "can_drops CanConnectFailed = True"
| "can_drops CanClose = True"
| "can_drops CanAbort = True"
| "can_drops CanDetaching = True"
| "can_drops _ = False"

text \<open>The calls the connection library may make: on the handler it holds, and one establishment at a time.\<close>

fun can_allowed :: "can_event \<Rightarrow> 'ip TcpClientCanbus \<Rightarrow> bool" where
  "can_allowed (CanSend m i d cb) c = True"
| "can_allowed (CanReceive cb) c = True"
| "can_allowed CanConnectFailed c = True"
| "can_allowed CanEstablished c = (connectionHandler c = None)"
| "can_allowed _ c = connectionHolds c"

lemma can_wf_new: "can_wf (fst (TcpClientCanbus_new ip p))"
  by (simp add: TcpClientCanbus_new_def can_wf_def)

lemma completions_done [simp]: "completions (case cb of None \<Rightarrow> [] | Some k \<Rightarrow> [SendDone k b]) = mset_option cb"
  by (cases cb) simp_all

lemma Can_DataReceived_ok:
  assumes "acc_ok h"
  shows "\<exists>h' es. Can_DataReceived cb segs h = Some (h', es) \<and> acc_ok h' \<and> same_send h h' \<and> completions es = {#} \<and> written es = []"
proof -
  have no_answers: "consume cb bs = (es, r, t) \<Longrightarrow> completions es = {#} \<and> written es = []" for bs es r t
  proof (induction cb bs arbitrary: es r t rule: consume.induct)
    case (1 cb bs)
    have d: "completions (deliver cb i d) = {#}" "written (deliver cb i d) = []" for i d by (cases cb; simp)+
    from 1 show ?case
      unfolding consume.simps [of cb bs] by (auto simp: d split: if_splits option.splits prod.splits)
  qed
  show ?thesis
  proof (cases "accumulatedBytes h < 16")
    case True
    obtain es r t where c: "consume cb (collected h @ concat segs) = (es, r, t)" by (cases "consume cb (collected h @ concat segs)") blast
    from receive_loop_consume [OF assms True c] no_answers [OF c] show ?thesis
      by (auto simp: Can_DataReceived_def)
  next
    case False
    then have full: "accumulatedBytes h = 16" using assms by (simp add: acc_ok_def)
    have "receive_loop cb segs h = Some (h, [], False)"
      by (induction segs) (simp_all add: receive_loop.simps full canFrameSize_def)
    with assms show ?thesis by (simp add: Can_DataReceived_def same_send_def)
  qed
qed

lemmas can_defs = HandleDisconnected_def ConnectionFailed_def ConnectionEstablished_def Can_OnDisconnected_def
  Can_OnConnectionEstablished_def Can_FailPendingSend_def drop_unreferenced_def on_can_handler_def can_waiting_def can_wf_def

lemma can_step_ok:
  assumes "can_wf c" and "can_allowed e c"
  shows "\<exists>c' es. can_step e c = Some (c', es) \<and> can_wf c' \<and> can_issued e + can_waiting c = completions es + can_waiting c' \<and>
    (can_drops e \<longrightarrow> can_waiting c' = {#})"
proof (cases e)
  case (CanSend m i d cb)
  with assms show ?thesis
    by (cases "connectionHandler c")
      (auto simp: Can_SendData_def Can_RequestSend_def can_defs acc_ok_def split: option.split)
next
  case (CanDataReceived segs)
  with assms obtain h where h: "connectionHandler c = Some h" "acc_ok h" by (auto simp: can_wf_def)
  obtain h' es where "Can_DataReceived (receiveCallback c) segs h = Some (h', es)" "acc_ok h'" "same_send h h'" "completions es = {#}"
    using Can_DataReceived_ok [OF h(2)] by blast
  with CanDataReceived assms h show ?thesis by (auto simp: can_defs same_send_def)
next
  case CanStreamAvailable
  with assms obtain h where "connectionHandler c = Some h" by (auto simp: can_wf_def)
  with CanStreamAvailable assms show ?thesis
    by (cases "pendingSendOnDone h") (auto simp: can_defs Can_SendStreamAvailable_def acc_ok_def)
qed (use assms in \<open>auto simp: can_defs Can_ReceiveData_def CanConnection_new_def canFrameSize_def acc_ok_def
       split: option.splits prod.splits\<close>)

lemma can_step_allowed: "can_step e c = Some r \<Longrightarrow> can_wf c \<Longrightarrow> can_allowed e c"
  by (cases e) (auto simp: can_defs split: if_splits bind_splits)

interpretation can_bus: completing can_step can_wf can_issued can_waiting can_drops
proof (unfold_locales, goal_cases)
  case (1 s e s' es)
  with can_step_ok [OF 1(1) can_step_allowed [OF 1(2,1)]] show ?case by auto
next
  case (2 s e s' es)
  with can_step_ok [OF 2(1) can_step_allowed [OF 2(2,1)]] show ?case by auto
next
  case (3 s e s' es)
  with can_step_ok [OF 3(1) can_step_allowed [OF 3(3,1)]] show ?case by auto
qed

end
