(* ===== verification/Tcp_Serial.thy ===== *)
theory Tcp_Serial
  imports Tcp_Client
begin

text \<open>
  The serial port of the hardware bridge client (\<open>TcpClientSerial\<close>): a byte stream that is
  sent in chunks of the size the connection offers, with one send queued while the connection is
  down. \<open>None\<close> stands for an assertion of the library or an access through a null pointer.
\<close>

section \<open>State\<close>

record SerialConnection =
  pendingSendData :: "u8 list"
  pendingSendOffset :: nat
  serialSendOnDone :: "callback option"

definition SerialConnection_new :: SerialConnection where
  "SerialConnection_new = \<lparr>pendingSendData = [], pendingSendOffset = 0, serialSendOnDone = None\<rparr>"

record 'ip TcpClientSerial = "'ip TcpClient" +
  serialHandler :: "SerialConnection option"
  serialHandlerPtr :: bool
  serialHolds :: bool
  serialReceive :: "callback option"
  queuedSendData :: "u8 list"
  queuedSendOnDone :: "callback option"

type_synonym 'ip serial_result = "('ip TcpClientSerial \<times> tcp_effect list) option"

definition TcpClientSerial_new :: "'ip \<Rightarrow> u16 \<Rightarrow> 'ip TcpClientSerial \<times> tcp_effect list" where
  "TcpClientSerial_new ip p =
     (\<lparr>connected = False, address = ip, port = p, serialHandler = None, serialHandlerPtr = False,
       serialHolds = False, serialReceive = None, queuedSendData = [], queuedSendOnDone = None\<rparr>, [FactoryConnect])"

definition serial_drop_unreferenced :: "'ip TcpClientSerial \<Rightarrow> 'ip TcpClientSerial" where
  "serial_drop_unreferenced c =
     (if serialHandlerPtr c \<or> serialHolds c then c else c\<lparr>serialHandler := None\<rparr>)"

text \<open>Calling a completion that may not be set.\<close>

definition serial_done :: "callback option \<Rightarrow> tcp_effect list" where
  "serial_done onDone = (case onDone of None \<Rightarrow> [] | Some cb \<Rightarrow> [SerialDone cb])"

section \<open>The connection handler\<close>

definition RequestNextSendChunk :: "nat \<Rightarrow> SerialConnection \<Rightarrow> tcp_effect list" where
  "RequestNextSendChunk maxSendStreamSize h =
     (if length (pendingSendData h) \<le> pendingSendOffset h then []
      else [RequestSendStream (min (length (pendingSendData h) - pendingSendOffset h) maxSendStreamSize)])"

definition Serial_RequestSend :: "nat \<Rightarrow> u8 list \<Rightarrow> callback option \<Rightarrow> SerialConnection \<Rightarrow> SerialConnection \<times> tcp_effect list" where
  "Serial_RequestSend maxSendStreamSize data onDone h =
     (if serialSendOnDone h \<noteq> None then (h, serial_done onDone)
      else if data = [] then (h, serial_done onDone)
      else (let h' = h\<lparr>pendingSendData := data, pendingSendOffset := 0, serialSendOnDone := onDone\<rparr>
            in (h', RequestNextSendChunk maxSendStreamSize h')))"

definition Serial_SendStreamAvailable :: "nat \<Rightarrow> SerialConnection \<Rightarrow> SerialConnection \<times> tcp_effect list" where
  "Serial_SendStreamAvailable maxSendStreamSize h =
     (if pendingSendData h = [] then (h, [])
      else let remainingBytes = length (pendingSendData h) - pendingSendOffset h;
               chunkSize = min remainingBytes maxSendStreamSize;
               chunk = WriteStream (take chunkSize (drop (pendingSendOffset h) (pendingSendData h)));
               h1 = h\<lparr>pendingSendOffset := pendingSendOffset h + chunkSize\<rparr>
           in if pendingSendOffset h1 < length (pendingSendData h1)
              then (h1, chunk # RequestNextSendChunk maxSendStreamSize h1)
              else (h1\<lparr>pendingSendData := [], pendingSendOffset := 0, serialSendOnDone := None\<rparr>,
                    chunk # serial_done (serialSendOnDone h1)))"

definition Serial_FailPendingSend :: "SerialConnection \<Rightarrow> SerialConnection \<times> tcp_effect list" where
  "Serial_FailPendingSend h =
     (h\<lparr>pendingSendData := [], pendingSendOffset := 0, serialSendOnDone := None\<rparr>, serial_done (serialSendOnDone h))"

text \<open>Every non-empty segment of the received stream is handed to the callback.\<close>

definition Serial_DataReceived :: "callback option \<Rightarrow> u8 list list \<Rightarrow> tcp_effect list" where
  "Serial_DataReceived cb segs =
     (case cb of None \<Rightarrow> [] | Some k \<Rightarrow> map (ReceivedData k) (filter (\<lambda>s. s \<noteq> []) segs)) @ [AckReceived]"

section \<open>The client\<close>

definition on_serial_handler :: "(SerialConnection \<Rightarrow> SerialConnection \<times> tcp_effect list) \<Rightarrow> 'ip TcpClientSerial \<Rightarrow> 'ip serial_result" where
  "on_serial_handler f c =
     (case serialHandler c of
        None \<Rightarrow> None
      | Some h \<Rightarrow> (let (h', es) = f h in Some (c\<lparr>serialHandler := Some h'\<rparr>, es)))"

definition Serial_SendData :: "nat \<Rightarrow> u8 list \<Rightarrow> callback option \<Rightarrow> 'ip TcpClientSerial \<Rightarrow> 'ip serial_result" where
  "Serial_SendData maxSendStreamSize data actionOnCompletion c =
     (if connected c \<and> serialHandler c \<noteq> None
      then on_serial_handler (Serial_RequestSend maxSendStreamSize data actionOnCompletion) c
      else Some (c\<lparr>queuedSendData := data, queuedSendOnDone := actionOnCompletion\<rparr>, serial_done (queuedSendOnDone c)))"

definition Serial_ReceiveData :: "callback option \<Rightarrow> 'ip TcpClientSerial \<Rightarrow> 'ip TcpClientSerial" where
  "Serial_ReceiveData dataReceived c = c\<lparr>serialReceive := dataReceived\<rparr>"

definition Serial_OnConnectionEstablished :: "nat \<Rightarrow> 'ip TcpClientSerial \<Rightarrow> 'ip serial_result" where
  "Serial_OnConnectionEstablished maxSendStreamSize c0 =
     (if serialHandler c0 \<noteq> None then None
      else let c = c0\<lparr>serialHandler := Some SerialConnection_new, serialHandlerPtr := True, serialHolds := True\<rparr> in
        if serialHandlerPtr c \<and> (queuedSendData c \<noteq> [] \<or> queuedSendOnDone c \<noteq> None)
        then do { (c', es) \<leftarrow> on_serial_handler (Serial_RequestSend maxSendStreamSize (queuedSendData c) (queuedSendOnDone c)) c;
                  Some (c'\<lparr>queuedSendData := [], queuedSendOnDone := None\<rparr>, CreatedObserver # es) }
        else Some (c, [CreatedObserver]))"

definition Serial_OnDisconnected :: "bool \<Rightarrow> 'ip TcpClientSerial \<Rightarrow> 'ip TcpClientSerial \<times> tcp_effect list" where
  "Serial_OnDisconnected clearConnectionHandler c0 =
     (let es = serial_done (queuedSendOnDone c0);
          c = c0\<lparr>queuedSendOnDone := None, queuedSendData := []\<rparr>;
          (c1, fs) = (case serialHandler c of
            Some h \<Rightarrow> if serialHandlerPtr c
                      then (let (h', fs) = Serial_FailPendingSend h in (c\<lparr>serialHandler := Some h'\<rparr>, fs)) else (c, [])
          | None \<Rightarrow> (c, []))
      in (if clearConnectionHandler then serial_drop_unreferenced (c1\<lparr>serialHandlerPtr := False\<rparr>) else c1, es @ fs))"

section \<open>Events\<close>

datatype serial_event =
  SerialSend nat "u8 list" "callback option"
| SerialReceive "callback option"
| SerialEstablished nat
| SerialConnectFailed
| SerialStreamAvailable nat
| SerialDataReceived "u8 list list"
| SerialClose
| SerialAbort
| SerialDetaching

fun serial_step :: "serial_event \<Rightarrow> 'ip TcpClientSerial \<Rightarrow> 'ip serial_result" where
  "serial_step (SerialSend m data cb) c = Serial_SendData m data cb c"
| "serial_step (SerialReceive cb) c = Some (Serial_ReceiveData cb c, [])"
| "serial_step (SerialEstablished m) c = ConnectionEstablished (Serial_OnConnectionEstablished m) c"
| "serial_step SerialConnectFailed c = Some (ConnectionFailed Serial_OnDisconnected c)"
| "serial_step (SerialStreamAvailable m) c =
     (if serialHolds c then on_serial_handler (Serial_SendStreamAvailable m) c else None)"
| "serial_step (SerialDataReceived segs) c =
     (if serialHolds c then on_serial_handler (\<lambda>h. (h, Serial_DataReceived (serialReceive c) segs)) c else None)"
| "serial_step SerialClose c = (if serialHolds c then Some (HandleDisconnected Serial_OnDisconnected False c) else None)"
| "serial_step SerialAbort c = (if serialHolds c then Some (HandleDisconnected Serial_OnDisconnected False c) else None)"
| "serial_step SerialDetaching c =
     (if serialHolds c
      then (let (c', es) = HandleDisconnected Serial_OnDisconnected True c
            in Some (serial_drop_unreferenced (c'\<lparr>serialHolds := False\<rparr>), es))
      else None)"

definition Serial_destroy :: "'ip TcpClientSerial \<Rightarrow> tcp_effect list" where
  "Serial_destroy c = (if serialHandlerPtr c then [AbortAndDestroy] else [])"

section \<open>Sends are completed exactly once\<close>

definition serial_wf :: "'ip TcpClientSerial \<Rightarrow> bool" where
  "serial_wf c \<longleftrightarrow> (serialHandler c \<noteq> None \<longleftrightarrow> serialHandlerPtr c \<or> serialHolds c) \<and>
     (connected c \<longrightarrow> serialHandlerPtr c \<and> queuedSendOnDone c = None) \<and>
     (\<forall>h. serialHandler c = Some h \<longrightarrow>
        (serialSendOnDone h \<noteq> None \<longrightarrow> connected c \<and> pendingSendData h \<noteq> []) \<and>
        (pendingSendData h \<noteq> [] \<longrightarrow> pendingSendOffset h < length (pendingSendData h)))"

fun serial_issued :: "serial_event \<Rightarrow> callback multiset" where
  "serial_issued (SerialSend m d cb) = mset_option cb"
| "serial_issued _ = {#}"

definition serial_waiting :: "'ip TcpClientSerial \<Rightarrow> callback multiset" where
  "serial_waiting c = mset_option (queuedSendOnDone c) +
     (case serialHandler c of None \<Rightarrow> {#} | Some h \<Rightarrow> mset_option (serialSendOnDone h))"

fun serial_drops :: "serial_event \<Rightarrow> bool" where
  "serial_drops SerialConnectFailed = True"
| "serial_drops SerialClose = True"
| "serial_drops SerialAbort = True"
| "serial_drops SerialDetaching = True"
| "serial_drops _ = False"

fun serial_allowed :: "serial_event \<Rightarrow> 'ip TcpClientSerial \<Rightarrow> bool" where
  "serial_allowed (SerialSend m d cb) c = True"
| "serial_allowed (SerialReceive cb) c = True"
| "serial_allowed SerialConnectFailed c = True"
| "serial_allowed (SerialEstablished m) c = (serialHandler c = None)"
| "serial_allowed _ c = serialHolds c"

lemma serial_wf_new: "serial_wf (fst (TcpClientSerial_new ip p))"
  by (simp add: TcpClientSerial_new_def serial_wf_def)

lemma completions_serial_done [simp]: "completions (serial_done cb) = mset_option cb"
  by (cases cb) (simp_all add: serial_done_def)

lemma completions_chunk [simp]: "completions (RequestNextSendChunk m h) = {#}"
  by (simp add: RequestNextSendChunk_def)

lemma completions_received [simp]: "completions (Serial_DataReceived cb segs) = {#}"
proof -
  have "completions (map (ReceivedData k) xs) = {#}" for k xs by (induction xs) simp_all
  then show ?thesis by (simp add: Serial_DataReceived_def split: option.split)
qed

lemmas serial_defs = HandleDisconnected_def ConnectionFailed_def ConnectionEstablished_def Serial_OnDisconnected_def
  Serial_OnConnectionEstablished_def Serial_FailPendingSend_def serial_drop_unreferenced_def on_serial_handler_def
  serial_waiting_def serial_wf_def Serial_RequestSend_def Serial_SendData_def Serial_ReceiveData_def
  SerialConnection_new_def Let_def

lemma serial_step_ok:
  assumes "serial_wf c" and "serial_allowed e c"
  shows "\<exists>c' es. serial_step e c = Some (c', es) \<and> serial_wf c' \<and>
    serial_issued e + serial_waiting c = completions es + serial_waiting c' \<and> (serial_drops e \<longrightarrow> serial_waiting c' = {#})"
proof (cases e)
  case (SerialSend m d cb)
  with assms show ?thesis by (cases "serialHandler c") (auto simp: serial_defs)
next
  case (SerialEstablished m)
  with assms show ?thesis by (auto simp: serial_defs)
next
  case (SerialStreamAvailable m)
  with assms obtain h where "serialHandler c = Some h" by (auto simp: serial_wf_def)
  with SerialStreamAvailable assms show ?thesis
    by (auto simp: serial_defs Serial_SendStreamAvailable_def)
qed (use assms in \<open>auto simp: serial_defs split: option.splits prod.splits\<close>)

lemma serial_step_allowed: "serial_step e c = Some r \<Longrightarrow> serial_wf c \<Longrightarrow> serial_allowed e c"
  by (cases e) (auto simp: serial_defs split: if_splits bind_splits)

interpretation serial_port: completing serial_step serial_wf serial_issued serial_waiting serial_drops
proof (unfold_locales, goal_cases)
  case (1 s e s' es)
  with serial_step_ok [OF 1(1) serial_step_allowed [OF 1(2,1)]] show ?case by auto
next
  case (2 s e s' es)
  with serial_step_ok [OF 2(1) serial_step_allowed [OF 2(2,1)]] show ?case by auto
next
  case (3 s e s' es)
  with serial_step_ok [OF 3(1) serial_step_allowed [OF 3(3,1)]] show ?case by auto
qed

section \<open>Sending in chunks\<close>

definition serial_idle :: "SerialConnection \<Rightarrow> bool" where
  "serial_idle h \<longleftrightarrow> pendingSendData h = [] \<and> serialSendOnDone h = None"

lemma written_serial_done [simp]: "written (serial_done cb) = []"
  by (simp add: serial_done_def split: option.split)

lemma written_chunk [simp]: "written (RequestNextSendChunk m h) = []"
  by (simp add: RequestNextSendChunk_def)

lemma idle_drain:
  assumes "serialHolds c" and "serialHandler c = Some h" and "serial_idle h"
  shows "run_tcp serial_step (map SerialStreamAvailable ms) c = Some (c, [])"
proof -
  have "serial_step (SerialStreamAvailable m) c = Some (c, [])" for m
    using assms by (simp add: on_serial_handler_def Serial_SendStreamAvailable_def serial_idle_def)
  then show ?thesis by (induction ms) simp_all
qed

text \<open>Whatever positive sizes the connection offers, the rest of the data is written in order and then completed once.\<close>

lemma serial_drain:
  assumes "serialHolds c" and "serialHandler c = Some h" and "pendingSendOffset h < length (pendingSendData h)"
    and "\<forall>m \<in> set ms. 0 < m" and "length (pendingSendData h) \<le> pendingSendOffset h + sum_list ms"
  shows "\<exists>c' h' es. run_tcp serial_step (map SerialStreamAvailable ms) c = Some (c', es) \<and>
    written es = drop (pendingSendOffset h) (pendingSendData h) \<and> completions es = mset_option (serialSendOnDone h) \<and>
    c' = c\<lparr>serialHandler := Some h'\<rparr> \<and> serial_idle h'"
  using assms
proof (induction ms arbitrary: c h)
  case (Cons m ms)
  let ?d = "pendingSendData h" and ?o = "pendingSendOffset h"
  let ?n = "min (length ?d - ?o) m"
  let ?h1 = "h\<lparr>pendingSendOffset := ?o + ?n\<rparr>"
  have ne: "?d \<noteq> []" using Cons.prems(3) by auto
  show ?case
  proof (cases "?o + ?n < length ?d")
    case True
    then have n: "?n = m" by simp
    with True have below: "?o + m < length ?d" by (simp only:)
    let ?c1 = "c\<lparr>serialHandler := Some ?h1\<rparr>"
    let ?fs = "WriteStream (take ?n (drop ?o ?d)) # RequestNextSendChunk m ?h1"
    have st: "serial_step (SerialStreamAvailable m) c = Some (?c1, ?fs)"
      using Cons.prems(1,2) ne below n by (simp add: on_serial_handler_def Serial_SendStreamAvailable_def Let_def)
    obtain c' h' es where r: "run_tcp serial_step (map SerialStreamAvailable ms) ?c1 = Some (c', es)"
        "written es = drop (?o + ?n) ?d" "completions es = mset_option (serialSendOnDone h)"
        "c' = c\<lparr>serialHandler := Some h'\<rparr>" "serial_idle h'"
      using Cons.IH [of ?c1 ?h1] Cons.prems True n by auto
    have "written (?fs @ es) = drop ?o ?d"
      using r(2) by simp (metis add.commute append_take_drop_id drop_drop)
    moreover have "run_tcp serial_step (map SerialStreamAvailable (m # ms)) c = Some (c', ?fs @ es)"
      using st r(1) by simp
    moreover have "completions (?fs @ es) = mset_option (serialSendOnDone h)" using r(3) by simp
    ultimately show ?thesis using r(4,5) by blast
  next
    case False
    let ?h2 = "?h1\<lparr>pendingSendData := [], pendingSendOffset := 0, serialSendOnDone := None\<rparr>"
    let ?c1 = "c\<lparr>serialHandler := Some ?h2\<rparr>"
    let ?fs = "WriteStream (take ?n (drop ?o ?d)) # serial_done (serialSendOnDone h)"
    have st: "serial_step (SerialStreamAvailable m) c = Some (?c1, ?fs)"
      using Cons.prems(1-3) ne False by (simp add: on_serial_handler_def Serial_SendStreamAvailable_def Let_def)
    have "run_tcp serial_step (map SerialStreamAvailable ms) ?c1 = Some (?c1, [])"
      by (rule idle_drain [of _ ?h2]) (use Cons.prems(1) in \<open>simp_all add: serial_idle_def\<close>)
    then have "run_tcp serial_step (map SerialStreamAvailable (m # ms)) c = Some (?c1, ?fs)"
      using st by simp
    moreover have "written ?fs = drop ?o ?d" using False by simp
    moreover have "completions ?fs = mset_option (serialSendOnDone h)" by simp
    moreover have "serial_idle ?h2" by (simp add: serial_idle_def)
    ultimately show ?thesis by blast
  qed
qed simp

end
