(* ===== verification/Parse_IPv4.thy ===== *)
theory Parse_IPv4
  imports Foc_Prelude
begin

text \<open>
  \<open>ParseIPv4\<close> of the hardware bridge client: a \<open>std::sscanf\<close> of four \<open>%u\<close> separated by dots,
  the octet bounds, and the check that the whole string was consumed. A number that
  \<open>unsigned int\<close> cannot represent is undefined behaviour of \<open>sscanf\<close> (\<open>None\<close>); a number with
  a minus sign is negated in \<open>unsigned int\<close>.
\<close>

datatype bridge_error = BridgeArgumentException "u8 list"

definition is_space :: "u8 \<Rightarrow> bool" where
  "is_space b \<longleftrightarrow> b = 0x20 \<or> (0x09 \<le> b \<and> b \<le> 0x0D)"

fun digits_value :: "int \<Rightarrow> u8 list \<Rightarrow> int" where
  "digits_value v [] = v"
| "digits_value v (d # ds) = digits_value (v * 10 + (uint d - 0x30)) ds"

text \<open>
  \<open>%u\<close>: the number and the rest of the input, or a failed match (\<open>Some None\<close>).
\<close>

definition scan_unsigned :: "u8 list \<Rightarrow> (int \<times> u8 list) option option" where
  "scan_unsigned bs =
     (let bs1 = dropWhile is_space bs;
          negative = (bs1 \<noteq> [] \<and> hd bs1 = 0x2D);
          bs2 = (if bs1 \<noteq> [] \<and> (hd bs1 = 0x2D \<or> hd bs1 = 0x2B) then tl bs1 else bs1);
          ds = takeWhile is_digit bs2;
          v = digits_value 0 ds
      in if ds = [] then Some None
         else if 0xFFFFFFFF < v then None
         else Some (Some (if negative then (- v) mod 0x100000000 else v, drop (length ds) bs2)))"

text \<open>The literal dot of the format.\<close>

fun scan_dot :: "u8 list \<Rightarrow> u8 list option" where
  "scan_dot (b # bs) = (if b = 0x2E then Some bs else None)"
| "scan_dot [] = None"

text \<open>The conversions of the format in order, and what is left behind \<open>%n\<close>.\<close>

fun scan_octets :: "nat \<Rightarrow> u8 list \<Rightarrow> (int list \<times> u8 list) option option" where
  "scan_octets 0 bs = Some (Some ([], bs))"
| "scan_octets (Suc n) bs =
     (case scan_unsigned bs of
        None \<Rightarrow> None
      | Some None \<Rightarrow> Some None
      | Some (Some (v, rest)) \<Rightarrow>
          (case (if n = 0 then Some rest else scan_dot rest) of
             None \<Rightarrow> Some None
           | Some rest' \<Rightarrow>
               (case scan_octets n rest' of
                  None \<Rightarrow> None
                | Some None \<Rightarrow> Some None
                | Some (Some (vs, r)) \<Rightarrow> Some (Some (v # vs, r)))))"

text \<open>\<open>c_str\<close> ends at the first zero byte, the comparison of the length does not.\<close>

definition ParseIPv4 :: "u8 list \<Rightarrow> (bridge_error + u8 list) option" where
  "ParseIPv4 host =
     (let str = takeWhile (\<lambda>b. b \<noteq> 0) host in
      case scan_octets 4 str of
        None \<Rightarrow> None
      | Some None \<Rightarrow> Some (Inl (BridgeArgumentException host))
      | Some (Some (vs, rest)) \<Rightarrow>
          Some (if (\<exists>v \<in> set vs. 255 < v) \<or> length str - length rest \<noteq> length host
                then Inl (BridgeArgumentException host) else Inr (map word_of_int vs)))"

text \<open>An address in its usual notation.\<close>

definition dotted :: "u8 list \<Rightarrow> u8 list" where
  "dotted a = decimal (unat (a ! 0)) @ [0x2E] @ decimal (unat (a ! 1)) @ [0x2E] @ decimal (unat (a ! 2)) @ [0x2E] @ decimal (unat (a ! 3))"

lemma digits_value_append: "digits_value v (ds @ es) = digits_value (digits_value v ds) es"
  by (induction ds arbitrary: v) simp_all

lemma digits_value_decimal: "digits_value 0 (decimal n) = int n"
proof (induction n rule: decimal.induct)
  case (1 n)
  show ?case
  proof (cases "n < 10")
    case True
    with digit_byte [OF True] show ?thesis by (subst decimal.simps) simp
  next
    case False
    have eq: "int (n div 10) * 10 + int (n mod 10) = int n"
      by (metis mult.commute mult_div_mod_eq of_nat_add of_nat_mult of_nat_numeral)
    with 1 False digit_byte [of "n mod 10"] show ?thesis by (subst decimal.simps) (simp add: digits_value_append)
  qed
qed

lemma digit_no_space: "is_digit b \<Longrightarrow> \<not> is_space b \<and> b \<noteq> 0x2D \<and> b \<noteq> 0x2B \<and> b \<noteq> 0"
  by (auto simp: is_digit_def is_space_def word_le_def)

lemma scan_decimal:
  assumes "n \<le> 0xFFFFFFFF" and "rest = [] \<or> \<not> is_digit (hd rest)"
  shows "scan_unsigned (decimal n @ rest) = Some (Some (int n, rest))"
proof -
  obtain d ds where d: "decimal n = d # ds" using decimal_nonempty by (cases "decimal n") auto
  then have first: "is_digit d" using decimal_digits [of n] by auto
  have "takeWhile is_digit (decimal n @ rest) = decimal n"
    using decimal_digits [of n] assms(2) by (cases rest) (auto simp: takeWhile_append2)
  moreover have "dropWhile is_space (decimal n @ rest) = decimal n @ rest" using digit_no_space [OF first] d by simp
  ultimately show ?thesis
    using digit_no_space [OF first] d assms(1) digits_value_decimal [of n]
    by (simp add: scan_unsigned_def Let_def)
qed

lemma dot_no_digit: "\<not> is_digit 0x2E"
  by (simp add: is_digit_def)

lemma parse_dotted:
  assumes "length a = 4"
  shows "ParseIPv4 (dotted a) = Some (Inr a)"
proof -
  obtain o0 o1 o2 o3 where a: "a = [o0, o1, o2, o3]"
    using assms by (auto simp: numeral_eq_Suc length_Suc_conv)
  have b: "unat w \<le> 255" for w :: u8 using unsigned_less [where ?'a = nat, of w] by simp
  have le: "unat w \<le> 0xFFFFFFFF" for w :: u8 using b [of w] by simp
  have scan: "scan_unsigned (decimal (unat w) @ 0x2E # rest) = Some (Some (int (unat w), 0x2E # rest))"
      "scan_unsigned (decimal (unat w)) = Some (Some (int (unat w), []))" for rest and w :: u8
    using scan_decimal [OF le, of "0x2E # rest" w] scan_decimal [OF le, of "[]" w] dot_no_digit by simp_all
  have nz: "takeWhile (\<lambda>b. b \<noteq> 0) (decimal n @ rest) = decimal n @ takeWhile (\<lambda>b. b \<noteq> 0) rest" for n rest
    using decimal_digits [of n] digit_no_space by (intro takeWhile_append2) auto
  have nz': "takeWhile (\<lambda>b. b \<noteq> 0) (decimal n) = decimal n" for n using nz [of n "[]"] by simp
  have str: "takeWhile (\<lambda>b. b \<noteq> 0) (dotted a) = dotted a"
    by (simp add: dotted_def nz nz')
  have "scan_octets 4 (dotted a) = Some (Some (map (\<lambda>w. int (unat w)) a, []))"
    by (simp add: dotted_def a scan numeral_eq_Suc)
  moreover have "\<not> (\<exists>v \<in> set (map (\<lambda>w. int (unat w)) a). 255 < v)"
  proof -
    have "uint w \<le> 255" for w :: u8 using unsigned_less [where ?'a = int, of w] by simp
    then show ?thesis by (simp add: a not_less)
  qed
  moreover have "map word_of_int (map (\<lambda>w. int (unat w)) a) = a" by (simp add: a)
  ultimately show ?thesis unfolding ParseIPv4_def Let_def str by simp
qed

end
