(* ===== verification/Tcp_Properties.thy ===== *)
theory Tcp_Properties
  imports Tcp_Canbus_Correct Tcp_Serial Parse_IPv4
begin

text \<open>
  The properties of the TCP clients of the hardware bridge: CAN frames survive the byte stream in
  any segmentation, sends go out unchanged, and every completion callback is called exactly once.
\<close>

section \<open>CAN\<close>

lemma consume_frames:
  "\<forall>f \<in> set fs. valid_frame f \<Longrightarrow>
   consume (Some k) (concat (map (\<lambda>(i, d). EncodeFrame i d) fs)) = (map (\<lambda>(i, d). ReceivedFrame k i d) fs, [], False)"
proof (induction fs)
  case Nil
  show ?case by (simp add: consume_short)
next
  case (Cons f fs)
  obtain i d where f: "f = (i, d)" by (cases f) auto
  with Cons.prems have "DecodeFrame (EncodeFrame i d) = Some (i, d)" using decode_encode by simp
  with Cons f show ?case by (simp add: consume_block)
qed

text \<open>Receiving piece by piece is receiving the whole stream.\<close>

lemma consume_append:
  "consume cb as = (es, r, False) \<Longrightarrow>
   consume cb (as @ bs) = (let (fs, r', thrown) = consume cb (r @ bs) in (es @ fs, r', thrown)) \<and> length r < 16"
proof (induction cb as arbitrary: es r rule: consume.induct)
  case (1 cb as)
  show ?case
  proof (cases "length as < 16")
    case True
    with "1.prems" show ?thesis by (simp add: consume_short)
  next
    case False
    define b as' where "b = take 16 as" and "as' = drop 16 as"
    then have as: "as = b @ as'" "length b = 16" "take 16 as = b" "drop 16 as = as'" using False by auto
    from "1.prems" as obtain i d es' where d: "DecodeFrame b = Some (i, d)" "consume cb as' = (es', r, False)" "es = deliver cb i d @ es'"
      by (auto simp: consume_block split: option.splits prod.splits)
    from "1.IH" [OF False, of "(i, d)" i d es' r] d as
    have "consume cb (as' @ bs) = (let (fs, r', thrown) = consume cb (r @ bs) in (es' @ fs, r', thrown))" "length r < 16"
      by simp_all
    with d as show ?thesis by (simp add: consume_block split: prod.split)
  qed
qed

lemma consume_stop: "consume cb as = (es, r, True) \<Longrightarrow> \<exists>es' r'. consume cb (as @ bs) = (es', r', True)"
proof (induction cb as arbitrary: es r rule: consume.induct)
  case (1 cb as)
  show ?case
  proof (cases "length as < 16")
    case True
    with "1.prems" show ?thesis by (simp add: consume_short)
  next
    case False
    define b as' where "b = take 16 as" and "as' = drop 16 as"
    then have as: "as = b @ as'" "length b = 16" "take 16 as = b" "drop 16 as = as'" using False by auto
    show ?thesis
    proof (cases "DecodeFrame b")
      case None
      with as show ?thesis by (simp add: consume_block)
    next
      case (Some f)
      obtain i d where f: "f = (i, d)" by (cases f) auto
      obtain es' r' t' where c: "consume cb as' = (es', r', t')" by (cases "consume cb as'") blast
      have "consume cb as = (deliver cb i d @ es', r', t')"
        unfolding as(1) consume_block [OF as(2)] by (simp add: Some f c)
      with "1.prems" have "t'" by simp
      with "1.IH" [OF False _ f [symmetric], of es' r'] Some c as(3,4)
      obtain xs q where "consume cb (as' @ bs) = (xs, q, True)" by auto
      then show ?thesis unfolding as(1) append_assoc consume_block [OF as(2)] by (simp add: Some f)
    qed
  qed
qed

lemma consume_no_ack: "consume cb bs = (es, r, t) \<Longrightarrow> AckReceived \<notin> set es"
proof (induction cb bs arbitrary: es r t rule: consume.induct)
  case (1 cb bs)
  have d: "AckReceived \<notin> set (deliver cb i d)" for i d by (cases cb) simp_all
  from 1 show ?case unfolding consume.simps [of cb bs] by (auto simp: d split: if_splits option.splits prod.splits)
qed

lemma same_handler: "connectionHandler c = Some h \<Longrightarrow> c = c\<lparr>connectionHandler := Some h\<rparr>"
  by (cases c) simp

lemma replicate_6: "replicate 6 x = [x, x, x, x, x, x]"
  by (simp add: numeral_eq_Suc)

lemma receives:
  assumes "connectionHolds c" and "connectionHandler c = Some h" and "acc_ok h" and "accumulatedBytes h < 16"
    and "consume (receiveCallback c) (collected h @ concat (map concat segss)) = (es, r, False)"
  shows "\<exists>c' h' fs. run_tcp can_step (map CanDataReceived segss) c = Some (c', fs) \<and>
    filter (\<lambda>e. e \<noteq> AckReceived) fs = es \<and> length (filter (\<lambda>e. e = AckReceived) fs) = length segss \<and>
    c' = c\<lparr>connectionHandler := Some h'\<rparr> \<and> same_send h h' \<and> acc_ok h' \<and> collected h' = r \<and> accumulatedBytes h' < 16"
  using assms
proof (induction segss arbitrary: c h es)
  case Nil
  have "length (collected h) < 16" using Nil.prems(3,4) by (simp add: acc_ok_def collected_def)
  with Nil.prems(5) have e: "es = []" "r = collected h" by (simp_all add: consume_short)
  show ?case
    unfolding e
    by (intro exI [of _ c] exI [of _ h] exI [of _ "[]"] conjI same_handler [OF Nil.prems(2)])
      (simp_all add: same_send_def Nil.prems(3,4))
next
  case (Cons segs segss)
  let ?cb = "receiveCallback c" and ?as = "collected h @ concat segs"
  obtain es1 r1 t1 where c1: "consume ?cb ?as = (es1, r1, t1)" by (cases "consume ?cb ?as") blast
  have "\<not> t1"
  proof
    assume "t1"
    with consume_stop [of ?cb ?as es1 r1 "concat (map concat segss)"] c1 Cons.prems(5) show False by simp
  qed
  with c1 have c1: "consume ?cb ?as = (es1, r1, False)" by simp
  obtain h1 where h1: "receive_loop ?cb segs h = Some (h1, es1, False)" "acc_ok h1" "same_send h h1" "collected h1 = r1"
      "accumulatedBytes h1 < 16"
    using receive_loop_consume [OF Cons.prems(3,4) c1] by auto
  let ?c1 = "c\<lparr>connectionHandler := Some h1\<rparr>"
  have st: "can_step (CanDataReceived segs) c = Some (?c1, es1 @ [AckReceived])"
    using Cons.prems(1,2) h1(1) by (simp add: on_can_handler_def Can_DataReceived_def)
  obtain es2 r2 where c2: "consume ?cb (r1 @ concat (map concat segss)) = (es2, r2, False)" "es = es1 @ es2" "r = r2"
    using consume_append [OF c1, of "concat (map concat segss)"] Cons.prems(5) by (auto split: prod.splits)
  obtain c' h' fs where r: "run_tcp can_step (map CanDataReceived segss) ?c1 = Some (c', fs)"
      "filter (\<lambda>e. e \<noteq> AckReceived) fs = es2" "length (filter (\<lambda>e. e = AckReceived) fs) = length segss"
      "c' = ?c1\<lparr>connectionHandler := Some h'\<rparr>" "same_send h1 h'" "acc_ok h'" "collected h' = r" "accumulatedBytes h' < 16"
    using Cons.IH [of ?c1 h1 es2] Cons.prems(1) h1 c2 by auto
  have "AckReceived \<notin> set es1" by (rule consume_no_ack [OF c1])
  then have "filter (\<lambda>e. e \<noteq> AckReceived) es1 = es1" "filter (\<lambda>e. e = AckReceived) es1 = []"
    by (auto simp: filter_id_conv filter_empty_conv)
  with st r h1(3) c2(2) show ?case by (auto simp: same_send_def)
qed

text \<open>C36 (reassembly). However the network cuts the byte stream of well-formed CAN frames into
  receives and each receive into segments, a fresh connection delivers exactly these frames, in
  order, with their identifiers and data, acknowledges every receive and throws nothing.\<close>

theorem can_stream_reassembled:
  assumes "connectionHolds c" and "connectionHandler c = Some CanConnection_new" and "receiveCallback c = Some k"
    and "\<forall>f \<in> set fs. valid_frame f"
    and "concat (map concat segss) = concat (map (\<lambda>(i, d). EncodeFrame i d) fs)"
  shows "\<exists>c' es. run_tcp can_step (map CanDataReceived segss) c = Some (c', es) \<and>
    filter (\<lambda>e. e \<noteq> AckReceived) es = map (\<lambda>(i, d). ReceivedFrame k i d) fs \<and>
    length (filter (\<lambda>e. e = AckReceived) es) = length segss"
proof -
  have fresh: "acc_ok CanConnection_new" "accumulatedBytes CanConnection_new < 16" "collected CanConnection_new = []"
    by (simp_all add: CanConnection_new_def acc_ok_def collected_def canFrameSize_def)
  have "consume (receiveCallback c) (collected CanConnection_new @ concat (map concat segss)) =
      (map (\<lambda>(i, d). ReceivedFrame k i d) fs, [], False)"
    using consume_frames [OF assms(4), of k] assms(3,5) fresh(3) by simp
  from receives [OF assms(1,2) fresh(1,2) this] show ?thesis by blast
qed

definition established :: "callback option \<Rightarrow> unit TcpClientCanbus" where
  "established cb = \<lparr>connected = True, address = (), port = 5000, connectionHandler = Some CanConnection_new,
     connectionHandlerPtr = True, connectionHolds = True, receiveCallback = cb\<rparr>"

theorem can_stream_reassembled_witness:
  "\<exists>c' es. run_tcp can_step (map CanDataReceived
      [[[0x23, 0x01], [0, 0, 2, 0, 0, 0]], [], [[0xAA, 0xBB, 0, 0, 0, 0, 0, 0]]]) (established (Some 7)) = Some (c', es) \<and>
    filter (\<lambda>e. e \<noteq> AckReceived) es = map (\<lambda>(i, d). ReceivedFrame 7 i d) [(\<lparr>is29BitId = False, idBits = 0x123\<rparr>, [0xAA, 0xBB])] \<and>
    length (filter (\<lambda>e. e = AckReceived) es) = length [[[0x23 :: u8, 0x01], [0, 0, 2, 0, 0, 0]], [], [[0xAA, 0xBB, 0, 0, 0, 0, 0, 0]]]"
  by (rule can_stream_reassembled)
    (simp_all add: established_def valid_frame_def valid_id_def EncodeFrame_def Let_def replicate_6)

lemma consume_written: "consume cb bs = (es, r, t) \<Longrightarrow> written es = []"
proof (induction cb bs arbitrary: es r t rule: consume.induct)
  case (1 cb bs)
  have d: "written (deliver cb i d) = []" for i d by (cases cb) simp_all
  from 1 show ?case unfolding consume.simps [of cb bs] by (auto simp: d split: if_splits option.splits prod.splits)
qed

text \<open>What may happen between a send and the stream: receives, a new receive callback, further sends.\<close>

fun harmless :: "can_event \<Rightarrow> bool" where
  "harmless (CanSend m i d cb) = True"
| "harmless (CanReceive cb) = True"
| "harmless (CanDataReceived segs) = True"
| "harmless _ = False"

definition sending :: "callback \<Rightarrow> u8 list \<Rightarrow> 'ip TcpClientCanbus \<Rightarrow> bool" where
  "sending k frame c \<longleftrightarrow> connected c \<and> connectionHolds c \<and> (\<exists>h. connectionHandler c = Some h \<and> acc_ok h \<and>
     pendingSendOnDone h = Some k \<and> pendingSendFrame h = frame)"

lemma sending_step:
  assumes "sending k frame c" and "harmless e"
  shows "\<exists>c' es. can_step e c = Some (c', es) \<and> sending k frame c' \<and> written es = [] \<and> completions es = can_issued e"
proof (cases e)
  case (CanSend m i d cb)
  with assms show ?thesis
    by (cases cb) (auto simp: sending_def Can_SendData_def on_can_handler_def Can_RequestSend_def)
next
  case (CanReceive cb)
  with assms show ?thesis by (simp add: sending_def Can_ReceiveData_def)
next
  case (CanDataReceived segs)
  obtain h where h: "connectionHandler c = Some h" "acc_ok h" using assms(1) by (auto simp: sending_def)
  obtain h' es where d: "Can_DataReceived (receiveCallback c) segs h = Some (h', es)" "acc_ok h'" "same_send h h'" "completions es = {#}"
      "written es = []"
    using Can_DataReceived_ok [OF h(2)] by blast
  with CanDataReceived h assms(1) show ?thesis by (auto simp: sending_def on_can_handler_def same_send_def)
qed (use assms in simp_all)

lemma sending_run:
  "sending k frame c \<Longrightarrow> \<forall>e \<in> set evs. harmless e \<Longrightarrow>
   \<exists>c' es. run_tcp can_step evs c = Some (c', es) \<and> sending k frame c' \<and> written es = [] \<and> completions es = sum_list (map can_issued evs)"
proof (induction evs arbitrary: c)
  case (Cons e evs)
  obtain c1 es1 where s1: "can_step e c = Some (c1, es1)" "sending k frame c1" "written es1 = []" "completions es1 = can_issued e"
    using sending_step [OF Cons.prems(1), of e] Cons.prems(2) by (auto simp del: can_step.simps)
  with Cons.IH [OF s1(2)] Cons.prems(2) show ?case by (auto simp del: can_step.simps)
qed simp

text \<open>Send. A send with a completion callback on an idle connection is written as exactly its frame and
  reported successful when the stream becomes available; whatever is received and whatever further
  sends are tried in between, these are refused at once and nothing else is written. A send
  without a callback, although accepted, is never written.\<close>

lemma can_send_delivers:
  assumes "can_wf c" and "connected c" and "connectionHolds c" and "connectionHandler c = Some h" and "pendingSendOnDone h = None"
    and "canFrameSize \<le> m" and "\<forall>e \<in> set between. harmless e"
  shows "\<exists>c1 c2 es. run_tcp can_step (CanSend m i d (Some k) # between) c = Some (c1, es) \<and>
    written es = [] \<and> completions es = sum_list (map can_issued between) \<and>
    can_step CanStreamAvailable c1 = Some (c2, [WriteStream (EncodeFrame i d), SendDone k True]) \<and>
    (\<exists>c3. run_tcp can_step [CanSend m i d None, CanStreamAvailable] c = Some (c3, [RequestSendStream canFrameSize]))"
proof -
  let ?h1 = "h\<lparr>pendingSendFrame := EncodeFrame i d, pendingSendOnDone := Some k\<rparr>"
  let ?c1 = "c\<lparr>connectionHandler := Some ?h1\<rparr>"
  have st: "can_step (CanSend m i d (Some k)) c = Some (?c1, [RequestSendStream canFrameSize])"
    using assms(2,4,5,6) by (simp add: Can_SendData_def on_can_handler_def Can_RequestSend_def)
  have "acc_ok h" using assms(1,4) by (simp add: can_wf_def)
  then have "sending k (EncodeFrame i d) ?c1" using assms(2,3) by (simp add: sending_def acc_ok_def)
  then obtain c1 es where r: "run_tcp can_step between ?c1 = Some (c1, es)" "sending k (EncodeFrame i d) c1" "written es = []"
      "completions es = sum_list (map can_issued between)"
    using sending_run [OF _ assms(7)] by blast
  obtain c2 where c2: "can_step CanStreamAvailable c1 = Some (c2, [WriteStream (EncodeFrame i d), SendDone k True])"
    using r(2) by (auto simp: sending_def on_can_handler_def Can_SendStreamAvailable_def canFrameSize_def)
  have "\<exists>c3. run_tcp can_step [CanSend m i d None, CanStreamAvailable] c = Some (c3, [RequestSendStream canFrameSize])"
    using assms(2-6) by (simp add: Can_SendData_def on_can_handler_def Can_RequestSend_def Can_SendStreamAvailable_def)
  with st r c2 show ?thesis by simp
qed

lemma established_wf: "can_wf (established cb)" "connected (established cb)" "connectionHolds (established cb)"
    "connectionHandler (established cb) = Some CanConnection_new" "pendingSendOnDone CanConnection_new = None"
  by (simp_all add: established_def can_wf_def acc_ok_def CanConnection_new_def canFrameSize_def)

lemma can_send_delivers_witness:
  "\<exists>c1 c2 es. run_tcp can_step (CanSend 512 \<lparr>is29BitId = True, idBits = 0x1234\<rparr> [1, 2] (Some 3) #
      [CanReceive None, CanDataReceived [[0xFF]], CanSend 512 \<lparr>is29BitId = False, idBits = 5\<rparr> [] (Some 4)]) (established None) = Some (c1, es) \<and>
    written es = [] \<and> completions es = sum_list (map can_issued
      [CanReceive None, CanDataReceived [[0xFF]], CanSend 512 \<lparr>is29BitId = False, idBits = 5\<rparr> [] (Some 4)]) \<and>
    can_step CanStreamAvailable c1 = Some (c2, [WriteStream (EncodeFrame \<lparr>is29BitId = True, idBits = 0x1234\<rparr> [1, 2]), SendDone 3 True]) \<and>
    (\<exists>c3. run_tcp can_step [CanSend 512 \<lparr>is29BitId = True, idBits = 0x1234\<rparr> [1, 2] None, CanStreamAvailable] (established None)
      = Some (c3, [RequestSendStream canFrameSize]))"
  by (rule can_send_delivers [OF established_wf]) (simp_all add: canFrameSize_def)

section \<open>Completions\<close>

text \<open>C38 (completions). From construction on, under every order of sends, receives, stream offers,
  connection losses and reconnections the connection library may produce, the CAN client and the
  serial client have called the completions of all sends handed to them except those they still
  hold, each exactly once; after a failed, closed, aborted or detached connection none is held.\<close>

theorem tcp_sends_completed_once:
  assumes "run_tcp can_step cevs (fst (TcpClientCanbus_new ip p)) = Some (c, es)"
    and "run_tcp serial_step sevs (fst (TcpClientSerial_new ip p)) = Some (s, fs)"
  shows "sum_list (map can_issued cevs) = completions es + can_waiting c \<and>
    sum_list (map serial_issued sevs) = completions fs + serial_waiting s \<and>
    (\<forall>e c' es'. can_drops e \<longrightarrow> can_step e c = Some (c', es') \<longrightarrow> completions (es @ es') = sum_list (map can_issued (cevs @ [e]))) \<and>
    (\<forall>e s' fs'. serial_drops e \<longrightarrow> serial_step e s = Some (s', fs') \<longrightarrow> completions (fs @ fs') = sum_list (map serial_issued (sevs @ [e])))"
proof -
  have start: "can_waiting (fst (TcpClientCanbus_new ip p)) = {#}" "serial_waiting (fst (TcpClientSerial_new ip p)) = {#}"
    by (simp_all add: TcpClientCanbus_new_def can_waiting_def TcpClientSerial_new_def serial_waiting_def)
  have "completions (es @ es') = sum_list (map can_issued (cevs @ [e]))"
    if "can_drops e" "can_step e c = Some (c', es')" for e c' es'
    using can_bus.run_answers_all [OF can_wf_new run_tcp_snoc [OF assms(1) that(2)] that(1)] start(1) by simp
  moreover have "completions (fs @ fs') = sum_list (map serial_issued (sevs @ [e]))"
    if "serial_drops e" "serial_step e s = Some (s', fs')" for e s' fs'
    using serial_port.run_answers_all [OF serial_wf_new run_tcp_snoc [OF assms(2) that(2)] that(1)] start(2) by simp
  ultimately show ?thesis
    using can_bus.run_accounts [OF can_wf_new assms(1)] serial_port.run_accounts [OF serial_wf_new assms(2)] start
    by auto
qed

lemma can_demo_run:
  "\<exists>c es. run_tcp can_step [CanSend 512 i d (Some 1), CanEstablished, CanSend 512 i d (Some 2)] (fst (TcpClientCanbus_new () 5000)) = Some (c, es)"
  by (simp add: TcpClientCanbus_new_def Can_SendData_def can_defs Can_RequestSend_def CanConnection_new_def)

lemma serial_demo_run:
  "\<exists>s fs. run_tcp serial_step [SerialSend 512 [1] (Some 1), SerialEstablished 512] (fst (TcpClientSerial_new () 5000)) = Some (s, fs)"
  by (simp add: TcpClientSerial_new_def serial_defs)

theorem tcp_sends_completed_once_witness:
  "\<exists>c es s fs. sum_list (map can_issued [CanSend 512 \<lparr>is29BitId = False, idBits = 5\<rparr> [] (Some 1), CanEstablished,
      CanSend 512 \<lparr>is29BitId = False, idBits = 5\<rparr> [] (Some 2)]) = completions es + can_waiting (c :: unit TcpClientCanbus) \<and>
    sum_list (map serial_issued [SerialSend 512 [1] (Some 1), SerialEstablished 512]) = completions fs + serial_waiting (s :: unit TcpClientSerial)"
proof -
  obtain c es where c: "run_tcp can_step [CanSend 512 \<lparr>is29BitId = False, idBits = 5\<rparr> [] (Some 1), CanEstablished,
      CanSend 512 \<lparr>is29BitId = False, idBits = 5\<rparr> [] (Some 2)] (fst (TcpClientCanbus_new () 5000)) = Some (c, es)"
    using can_demo_run by blast
  obtain s fs where s: "run_tcp serial_step [SerialSend 512 [1] (Some 1), SerialEstablished 512] (fst (TcpClientSerial_new () 5000)) = Some (s, fs)"
    using serial_demo_run by blast
  from tcp_sends_completed_once [OF c s] show ?thesis by blast
qed

section \<open>The serial stream\<close>

lemma serial_sends:
  assumes "serialHolds c" and "serialHandler c = Some \<lparr>pendingSendData = data, pendingSendOffset = 0, serialSendOnDone = Some k\<rparr>"
    and "data \<noteq> []" and "\<forall>m \<in> set ms. 0 < m" and "length data \<le> sum_list ms"
  shows "\<exists>c' h' es. run_tcp serial_step (map SerialStreamAvailable ms) c = Some (c', es) \<and>
    written es = data \<and> completions es = {#k#} \<and> serialHandler c' = Some h' \<and> serial_idle h'"
  using serial_drain [OF assms(1,2) _ assms(4)] assms(3,5) by auto

text \<open>Serial stream. Data sent on an idle connection is written completely and in order in pieces of
  whatever positive sizes the connection offers, and completed once; while the connection is down
  only the latest data is kept, is sent in the same way when the connection comes up, and the
  replaced send is completed although none of its bytes is ever written.\<close>

lemma serial_send_streams:
  assumes "serial_wf c" and "connected c" and "serialHolds c" and "serialHandler c = Some h" and "serial_idle h"
    and "serial_wf u" and "\<not> connected u" and "serialHandler u = None" and "queuedSendOnDone u = None"
    and "data \<noteq> []" and "\<forall>m \<in> set ms. 0 < m" and "length data \<le> sum_list ms"
  shows "(\<exists>c' h' es. run_tcp serial_step (SerialSend m data (Some k) # map SerialStreamAvailable ms) c = Some (c', es) \<and>
      written es = data \<and> completions es = {#k#} \<and> serialHandler c' = Some h' \<and> serial_idle h') \<and>
    (\<exists>u' h' es. run_tcp serial_step ([SerialSend m lost (Some j), SerialSend m data (Some k), SerialEstablished m] @
      map SerialStreamAvailable ms) u = Some (u', es) \<and>
      written es = data \<and> completions es = {#j, k#} \<and> serialHandler u' = Some h' \<and> serial_idle h')"
proof -
  have new: "h\<lparr>pendingSendData := data, pendingSendOffset := 0, serialSendOnDone := Some k\<rparr>
      = \<lparr>pendingSendData = data, pendingSendOffset = 0, serialSendOnDone = Some k\<rparr>" for h :: SerialConnection
    by (cases h) simp
  let ?c1 = "c\<lparr>serialHandler := Some \<lparr>pendingSendData = data, pendingSendOffset = 0, serialSendOnDone = Some k\<rparr>\<rparr>"
  let ?r = "RequestNextSendChunk m \<lparr>pendingSendData = data, pendingSendOffset = 0, serialSendOnDone = Some k\<rparr>"
  have "serial_step (SerialSend m data (Some k)) c = Some (?c1, ?r)"
    using assms(2,4,5,10) new by (simp add: Serial_SendData_def on_serial_handler_def Serial_RequestSend_def RequestNextSendChunk_def serial_idle_def Let_def)
  moreover obtain c' h' es where "run_tcp serial_step (map SerialStreamAvailable ms) ?c1 = Some (c', es)"
      "written es = data" "completions es = {#k#}" "serialHandler c' = Some h'" "serial_idle h'"
    using serial_sends [of ?c1 data k, OF _ _ assms(10-12)] assms(3) by auto
  ultimately have one: "\<exists>c' h' es. run_tcp serial_step (SerialSend m data (Some k) # map SerialStreamAvailable ms) c = Some (c', es) \<and>
      written es = data \<and> completions es = {#k#} \<and> serialHandler c' = Some h' \<and> serial_idle h'"
    by auto
  obtain u1 where u1: "run_tcp serial_step [SerialSend m lost (Some j), SerialSend m data (Some k), SerialEstablished m] u
      = Some (u1, [SerialDone j, CreatedObserver] @ ?r @ [NotifyConnected])"
      "serialHolds u1" "serialHandler u1 = Some \<lparr>pendingSendData = data, pendingSendOffset = 0, serialSendOnDone = Some k\<rparr>"
    using assms(7-10) by (simp add: serial_defs serial_done_def)
  obtain u' h' es where "run_tcp serial_step (map SerialStreamAvailable ms) u1 = Some (u', es)"
      "written es = data" "completions es = {#k#}" "serialHandler u' = Some h'" "serial_idle h'"
    using serial_sends [OF u1(2,3) assms(10-12)] by blast
  then have "run_tcp serial_step ([SerialSend m lost (Some j), SerialSend m data (Some k), SerialEstablished m] @
      map SerialStreamAvailable ms) u = Some (u', ([SerialDone j, CreatedObserver] @ ?r @ [NotifyConnected]) @ es)"
      "written (([SerialDone j, CreatedObserver] @ ?r @ [NotifyConnected]) @ es) = data"
      "completions (([SerialDone j, CreatedObserver] @ ?r @ [NotifyConnected]) @ es) = {#j, k#}"
    unfolding run_tcp_append u1(1) by simp_all
  with one \<open>serialHandler u' = Some h'\<close> \<open>serial_idle h'\<close> show ?thesis by blast
qed

definition serial_up :: "unit TcpClientSerial" where
  "serial_up = \<lparr>connected = True, address = (), port = 5001, serialHandler = Some SerialConnection_new, serialHandlerPtr = True,
     serialHolds = True, serialReceive = None, queuedSendData = [], queuedSendOnDone = None\<rparr>"

lemma serial_up_ok: "serial_wf serial_up" "connected serial_up" "serialHolds serial_up" "serialHandler serial_up = Some SerialConnection_new"
    "serial_idle SerialConnection_new"
  by (simp_all add: serial_up_def serial_wf_def SerialConnection_new_def serial_idle_def)

lemma serial_fresh: "serial_wf (fst (TcpClientSerial_new ip p))" "\<not> connected (fst (TcpClientSerial_new ip p))"
    "serialHandler (fst (TcpClientSerial_new ip p)) = None" "queuedSendOnDone (fst (TcpClientSerial_new ip p)) = None"
  by (simp_all add: TcpClientSerial_new_def serial_wf_def)

lemma serial_send_streams_witness:
  "(\<exists>c' h' es. run_tcp serial_step (SerialSend 4 [1, 2, 3, 4, 5] (Some 8) # map SerialStreamAvailable [4, 4]) serial_up = Some (c', es) \<and>
      written es = [1, 2, 3, 4, 5] \<and> completions es = {#8#} \<and> serialHandler c' = Some h' \<and> serial_idle h') \<and>
    (\<exists>u' h' es. run_tcp serial_step ([SerialSend 4 [9] (Some 7), SerialSend 4 [1, 2, 3, 4, 5] (Some 8), SerialEstablished 4] @
      map SerialStreamAvailable [4, 4]) (fst (TcpClientSerial_new () 5001)) = Some (u', es) \<and>
      written es = [1, 2, 3, 4, 5] \<and> completions es = {#7, 8#} \<and> serialHandler u' = Some h' \<and> serial_idle h')"
  by (rule serial_send_streams [OF serial_up_ok serial_fresh]) simp_all

text \<open>Truncated send. A send without a completion callback does not make the connection busy: the next
  send replaces what is left of it, so the peer sees a prefix of the first data followed by the
  second.\<close>

lemma serial_silent_send_truncated:
  assumes "connected c" and "serialHolds c" and "serialHandler c = Some h" and "serial_idle h"
    and "0 < m" and "m < length data" and "data' \<noteq> []" and "length data' \<le> m"
  shows "\<exists>c' es. run_tcp serial_step [SerialSend m data None, SerialStreamAvailable m, SerialSend m data' (Some k), SerialStreamAvailable m] c
      = Some (c', es) \<and> written es = take m data @ data' \<and> completions es = {#k#}"
proof -
  have "data \<noteq> []" using assms(6) by auto
  then show ?thesis
    using assms
    by (simp add: Serial_SendData_def on_serial_handler_def Serial_RequestSend_def Serial_SendStreamAvailable_def serial_idle_def Let_def
        RequestNextSendChunk_def serial_done_def)
qed

lemma serial_silent_send_truncated_witness:
  "\<exists>c' es. run_tcp serial_step [SerialSend 2 [1, 2, 3] None, SerialStreamAvailable 2, SerialSend 2 [4] (Some 6), SerialStreamAvailable 2] serial_up
      = Some (c', es) \<and> written es = take 2 [1, 2, 3] @ [4] \<and> completions es = {#6#}"
  by (rule serial_silent_send_truncated [OF serial_up_ok(2-5)]) simp_all

section \<open>Addresses\<close>

text \<open>Addresses. Every IPv4 address in its usual notation is parsed back into its octets. The parser is
  laxer than that: numbers with signs and leading spaces are accepted, and an octet of ten digits
  is undefined behaviour rather than an argument exception.\<close>

lemma ipv4_roundtrip:
  assumes "length a = 4"
  shows "ParseIPv4 (dotted a) = Some (Inr a) \<and>
    ParseIPv4 [0x20, 0x2B, 0x31, 0x2E, 0x20, 0x32, 0x2E, 0x33, 0x2E, 0x34] = Some (Inr [1, 2, 3, 4]) \<and>
    ParseIPv4 (replicate 10 0x39) = None"
proof (intro conjI)
  have four: "scan_octets 4 = scan_octets (Suc (Suc (Suc (Suc 0))))" by (simp add: numeral_eq_Suc del: scan_octets.simps)
  show "ParseIPv4 (dotted a) = Some (Inr a)" by (rule parse_dotted [OF assms])
  show "ParseIPv4 [0x20, 0x2B, 0x31, 0x2E, 0x20, 0x32, 0x2E, 0x33, 0x2E, 0x34] = Some (Inr [1, 2, 3, 4])"
    by (simp add: ParseIPv4_def four scan_unsigned_def is_space_def is_digit_def Let_def)
  have ten: "replicate 10 x = [x, x, x, x, x, x, x, x, x, x]" for x :: u8 by (simp add: numeral_eq_Suc)
  have "scan_unsigned [0x39, 0x39, 0x39, 0x39, 0x39, 0x39, 0x39, 0x39, 0x39, 0x39] = None"
    by (simp add: scan_unsigned_def is_space_def is_digit_def Let_def)
  then show "ParseIPv4 (replicate 10 0x39) = None"
    by (simp add: ten ParseIPv4_def four)
qed

lemma ipv4_roundtrip_witness: "ParseIPv4 (dotted [192, 168, 1, 100]) = Some (Inr [192, 168, 1, 100])"
  using ipv4_roundtrip [of "[192, 168, 1, 100]"] by simp

end
