(* ===== verification/Foc_Float.thy ===== *)
theory Foc_Float
  imports Foc_Prelude Complex_Main
begin

text \<open>
  Floating-point arithmetic as a parameter. The control code is compiled with \<open>fast-math\<close>, so the
  result of an operation is not fixed by the source. The definitions take the operations on
  \<open>float\<close> as a record; properties that hold under any rounding are proved from the order
  laws of the locale \<open>float_order\<close>, algebraic properties on \<open>exact\<close>, the arithmetic without
  rounding. Infinities and NaN are outside these laws.
\<close>

section \<open>The operations\<close>

text \<open>A literal is its digits and the number of digits after the point: \<open>0.5f\<close> is \<open>flit A 5 1\<close>.
  \<open>ftoint\<close> is the conversion to an integer type before its range check, with \<open>None\<close> for a value that
  has no integer part.\<close>

record 'f float_arith =
  fadd :: "'f \<Rightarrow> 'f \<Rightarrow> 'f"
  fsub :: "'f \<Rightarrow> 'f \<Rightarrow> 'f"
  ftimes :: "'f \<Rightarrow> 'f \<Rightarrow> 'f"
  fdiv :: "'f \<Rightarrow> 'f \<Rightarrow> 'f"
  fneg :: "'f \<Rightarrow> 'f"
  flt :: "'f \<Rightarrow> 'f \<Rightarrow> bool"
  fofint :: "int \<Rightarrow> 'f"
  ftoint :: "'f \<Rightarrow> int option"
  flit :: "int \<Rightarrow> nat \<Rightarrow> 'f"
  fpi :: 'f
  finv_sqrt3 :: 'f
  fcos :: "'f \<Rightarrow> 'f"
  fsin :: "'f \<Rightarrow> 'f"
  ffloor :: "'f \<Rightarrow> 'f"
  fround :: "'f \<Rightarrow> 'f"

text \<open>\<open>std::max\<close> and \<open>std::min\<close> of an initializer list, and \<open>std::clamp\<close>, by their comparisons.\<close>

definition max2 :: "'f float_arith \<Rightarrow> 'f \<Rightarrow> 'f \<Rightarrow> 'f" where
  "max2 A x y = (if flt A x y then y else x)"

definition min2 :: "'f float_arith \<Rightarrow> 'f \<Rightarrow> 'f \<Rightarrow> 'f" where
  "min2 A x y = (if flt A y x then y else x)"

definition clamp :: "'f float_arith \<Rightarrow> 'f \<Rightarrow> 'f \<Rightarrow> 'f \<Rightarrow> 'f" where
  "clamp A v lo hi = (if flt A v lo then lo else if flt A hi v then hi else v)"

definition float_abs :: "'f float_arith \<Rightarrow> 'f \<Rightarrow> 'f" where
  "float_abs A x = (if flt A x (flit A 0 1) then fneg A x else x)"

text \<open>A conversion to an integer type is undefined when the integer part does not fit.\<close>

definition cast_int :: "'f float_arith \<Rightarrow> int \<Rightarrow> int \<Rightarrow> 'f \<Rightarrow> int option" where
  "cast_int A lo hi x = do { n \<leftarrow> ftoint A x; if lo \<le> n \<and> n \<le> hi then Some n else None }"

abbreviation cast_uint8 :: "'f float_arith \<Rightarrow> 'f \<Rightarrow> int option" where
  "cast_uint8 A \<equiv> cast_int A 0 255"

abbreviation cast_int32 :: "'f float_arith \<Rightarrow> 'f \<Rightarrow> int option" where
  "cast_int32 A \<equiv> cast_int A int_min int_max"

section \<open>Laws that survive rounding\<close>

abbreviation fle :: "'f float_arith \<Rightarrow> 'f \<Rightarrow> 'f \<Rightarrow> bool" where
  "fle A x y \<equiv> \<not> flt A y x"

text \<open>Correctly rounded operations on numbers are monotone, and the comparisons order them up to the
  two zeros. The small literals of the duty-cycle computation are exact.\<close>

locale float_order =
  fixes A :: "'f float_arith"
  assumes flt_asym: "flt A x y \<Longrightarrow> \<not> flt A y x"
    and fle_trans: "fle A x y \<Longrightarrow> fle A y z \<Longrightarrow> fle A x z"
    and ftimes_mono: "fle A x y \<Longrightarrow> fle A (ftimes A x (flit A 1000 1)) (ftimes A y (flit A 1000 1))"
    and fadd_mono: "fle A x y \<Longrightarrow> fle A (fadd A x (flit A 5 1)) (fadd A y (flit A 5 1))"
    and ftoint_mono: "fle A x y \<Longrightarrow> fle A y z \<Longrightarrow> ftoint A x = Some l \<Longrightarrow> ftoint A z = Some u \<Longrightarrow>
      \<exists>n. ftoint A y = Some n \<and> l \<le> n \<and> n \<le> u"
    and zero_le_one: "fle A (flit A 0 1) (flit A 10 1)"
    and zero_le_hundred: "fle A (flit A 0 1) (flit A 1000 1)"
    and ftoint_zero: "ftoint A (flit A 0 1) = Some 0"
    and ftoint_hundred: "ftoint A (flit A 1000 1) = Some 100"
    and percent_zero: "ftoint A (fadd A (ftimes A (flit A 0 1) (flit A 1000 1)) (flit A 5 1)) = Some 0"
    and percent_one: "ftoint A (fadd A (ftimes A (flit A 10 1) (flit A 1000 1)) (flit A 5 1)) = Some 100"
begin

lemma fle_refl: "fle A x x"
  using flt_asym by blast

lemma clamp_bounds:
  assumes "fle A lo hi"
  shows "fle A lo (clamp A v lo hi) \<and> fle A (clamp A v lo hi) hi"
  using assms flt_asym by (auto simp: clamp_def)

lemma clamped_percent:
  obtains n where "cast_uint8 A (clamp A x (flit A 0 1) (flit A 1000 1)) = Some n" "0 \<le> n" "n \<le> 100"
proof -
  obtain n where "ftoint A (clamp A x (flit A 0 1) (flit A 1000 1)) = Some n" "0 \<le> n" "n \<le> 100"
    using ftoint_mono clamp_bounds [OF zero_le_hundred] ftoint_zero ftoint_hundred by meson
  then show ?thesis by (intro that) (auto simp: cast_int_def)
qed

lemma percent_bounds:
  assumes "fle A (flit A 0 1) x" and "fle A x (flit A 10 1)"
  obtains n where "cast_uint8 A (fadd A (ftimes A x (flit A 1000 1)) (flit A 5 1)) = Some n" "0 \<le> n" "n \<le> 100"
proof -
  obtain n where "ftoint A (fadd A (ftimes A x (flit A 1000 1)) (flit A 5 1)) = Some n" "0 \<le> n" "n \<le> 100"
    using ftoint_mono [OF fadd_mono [OF ftimes_mono [OF assms(1)]] fadd_mono [OF ftimes_mono [OF assms(2)]] percent_zero percent_one]
    by blast
  then show ?thesis by (intro that) (auto simp: cast_int_def)
qed

end

section \<open>Exact arithmetic\<close>

definition truncate_real :: "real \<Rightarrow> int" where
  "truncate_real x = (if x < 0 then - \<lfloor>- x\<rfloor> else \<lfloor>x\<rfloor>)"

definition exact :: "real float_arith" where
  "exact = \<lparr>fadd = (+), fsub = (-), ftimes = (*), fdiv = (/), fneg = uminus, flt = (<), fofint = of_int,
     ftoint = \<lambda>x. Some (truncate_real x), flit = \<lambda>m e. of_int m / 10 ^ e, fpi = pi, finv_sqrt3 = 1 / sqrt 3,
     fcos = cos, fsin = sin, ffloor = (\<lambda>x. of_int \<lfloor>x\<rfloor>), fround = (\<lambda>x. of_int (truncate_real (if x < 0 then x - 1 / 2 else x + 1 / 2)))\<rparr>"

lemma exact_simps [simp]:
  "fadd exact x y = x + y" "fsub exact x y = x - y" "ftimes exact x y = x * y" "fdiv exact x y = x / y"
  "fneg exact x = - x" "flt exact x y \<longleftrightarrow> x < y" "fofint exact i = of_int i"
  "ftoint exact x = Some (truncate_real x)" "flit exact m e = of_int m / 10 ^ e"
  "fpi exact = pi" "finv_sqrt3 exact = 1 / sqrt 3" "fcos exact x = cos x" "fsin exact x = sin x"
  "ffloor exact x = of_int \<lfloor>x\<rfloor>"
  by (simp_all add: exact_def)

lemma exact_minmax [simp]: "max2 exact x y = max x y" "min2 exact x y = min x y"
  by (simp_all add: max2_def min2_def max_def min_def)

lemma exact_abs [simp]: "float_abs exact x = \<bar>x\<bar>"
  by (simp add: float_abs_def)

text \<open>\<open>std::round\<close> rounds halves away from zero.\<close>

lemma exact_round: "0 \<le> x \<Longrightarrow> fround exact x = of_int \<lfloor>x + 1 / 2\<rfloor>"
  by (simp add: exact_def truncate_real_def)

lemma exact_clamp: "lo \<le> hi \<Longrightarrow> clamp exact v lo hi = max lo (min v hi)"
  by (simp add: clamp_def max_def min_def)

lemma truncate_mono: "x \<le> y \<Longrightarrow> truncate_real x \<le> truncate_real y"
proof -
  assume "x \<le> y"
  then have "\<lfloor>- y\<rfloor> \<le> \<lfloor>- x\<rfloor>" "\<lfloor>x\<rfloor> \<le> \<lfloor>y\<rfloor>" by (simp_all add: floor_mono)
  moreover have "- \<lfloor>- x\<rfloor> \<le> \<lfloor>y\<rfloor>" if "x < 0" "\<not> y < 0"
  proof -
    from that have "0 \<le> \<lfloor>- x\<rfloor>" "0 \<le> \<lfloor>y\<rfloor>" by simp_all
    then show ?thesis by linarith
  qed
  ultimately show ?thesis using \<open>x \<le> y\<close> by (simp add: truncate_real_def)
qed

interpretation exact_order: float_order exact
proof unfold_locales
  fix x y z :: real and l u :: int
  assume "\<not> flt exact y x" "\<not> flt exact z y" "ftoint exact x = Some l" "ftoint exact z = Some u"
  then show "\<exists>n. ftoint exact y = Some n \<and> l \<le> n \<and> n \<le> u"
    using truncate_mono by auto
qed (auto simp: truncate_real_def)

end
