(* ===== verification/Foc_Transforms.thy ===== *)
theory Foc_Transforms
  imports Foc_Float
begin

text \<open>
  The arithmetic kernels of field-oriented control: \<open>TransformsClarkePark.cpp\<close>,
  \<open>SpaceVectorModulation.cpp\<close>, the table-driven sine of \<open>TrigonometricImpl.hpp\<close> and the angle
  wrap-around of \<open>FocHelpers.hpp\<close>, operation by operation over the float arithmetic \<open>A\<close>.
\<close>

section \<open>Clarke and Park transforms\<close>

record 'f ThreePhase =
  phaseA :: 'f
  phaseB :: 'f
  phaseC :: 'f

record 'f TwoPhase =
  alphaAxis :: 'f
  betaAxis :: 'f

record 'f RotatingFrame =
  dAxis :: 'f
  qAxis :: 'f

definition oneHalf :: "'f float_arith \<Rightarrow> 'f" where
  "oneHalf A = flit A 5 1"

definition twoThirds :: "'f float_arith \<Rightarrow> 'f" where
  "twoThirds A = flit A 666666667 9"

definition sqrt3Div2 :: "'f float_arith \<Rightarrow> 'f" where
  "sqrt3Div2 A = flit A 8660254037 10"

definition Clarke_Forward :: "'f float_arith \<Rightarrow> 'f ThreePhase \<Rightarrow> 'f TwoPhase" where
  "Clarke_Forward A input =
     (let a = phaseA input; b = phaseB input; c = phaseC input; bc_sum = fadd A b c
      in \<lparr>alphaAxis = ftimes A (twoThirds A) (fsub A a (ftimes A (oneHalf A) bc_sum)),
          betaAxis = ftimes A (finv_sqrt3 A) (fsub A b c)\<rparr>)"

definition Clarke_Inverse :: "'f float_arith \<Rightarrow> 'f TwoPhase \<Rightarrow> 'f ThreePhase" where
  "Clarke_Inverse A input =
     (let al = alphaAxis input; be = betaAxis input;
          alpha_half = ftimes A (oneHalf A) al; beta_sqrt3_half = ftimes A (sqrt3Div2 A) be
      in \<lparr>phaseA = al, phaseB = fadd A (fneg A alpha_half) beta_sqrt3_half,
          phaseC = fsub A (fneg A alpha_half) beta_sqrt3_half\<rparr>)"

definition Park_Forward :: "'f float_arith \<Rightarrow> 'f TwoPhase \<Rightarrow> 'f \<Rightarrow> 'f \<Rightarrow> 'f RotatingFrame" where
  "Park_Forward A input cosTheta sinTheta =
     (let al = alphaAxis input; be = betaAxis input;
          alpha_cos = ftimes A al cosTheta; beta_sin = ftimes A be sinTheta;
          alpha_sin = ftimes A al sinTheta; beta_cos = ftimes A be cosTheta
      in \<lparr>dAxis = fadd A alpha_cos beta_sin, qAxis = fadd A (fneg A alpha_sin) beta_cos\<rparr>)"

definition Park_Inverse :: "'f float_arith \<Rightarrow> 'f RotatingFrame \<Rightarrow> 'f \<Rightarrow> 'f \<Rightarrow> 'f TwoPhase" where
  "Park_Inverse A input cosTheta sinTheta =
     (let d = dAxis input; q = qAxis input;
          d_cos = ftimes A d cosTheta; q_sin = ftimes A q sinTheta;
          d_sin = ftimes A d sinTheta; q_cos = ftimes A q cosTheta
      in \<lparr>alphaAxis = fsub A d_cos q_sin, betaAxis = fadd A d_sin q_cos\<rparr>)"

definition ClarkePark_Forward :: "'f float_arith \<Rightarrow> 'f ThreePhase \<Rightarrow> 'f \<Rightarrow> 'f \<Rightarrow> 'f RotatingFrame" where
  "ClarkePark_Forward A input cosTheta sinTheta = Park_Forward A (Clarke_Forward A input) cosTheta sinTheta"

definition ClarkePark_Inverse :: "'f float_arith \<Rightarrow> 'f RotatingFrame \<Rightarrow> 'f \<Rightarrow> 'f \<Rightarrow> 'f ThreePhase" where
  "ClarkePark_Inverse A input cosTheta sinTheta = Clarke_Inverse A (Park_Inverse A input cosTheta sinTheta)"

section \<open>Space vector modulation\<close>

record 'f SvmOutput =
  dutyA :: 'f
  dutyB :: 'f
  dutyC :: 'f

definition svmInvSqrt3 :: "'f float_arith \<Rightarrow> 'f" where
  "svmInvSqrt3 A = flit A 577350269189625 15"

definition svmSqrt3Div2 :: "'f float_arith \<Rightarrow> 'f" where
  "svmSqrt3Div2 A = flit A 866025403784438 15"

definition Clip :: "'f float_arith \<Rightarrow> 'f \<Rightarrow> 'f" where
  "Clip A dutyCycle = clamp A (fadd A (ftimes A dutyCycle (svmInvSqrt3 A)) (flit A 5 1)) (flit A 0 1) (flit A 10 1)"

definition Generate :: "'f float_arith \<Rightarrow> 'f TwoPhase \<Rightarrow> 'f SvmOutput" where
  "Generate A voltagePhase =
     (let al = alphaAxis voltagePhase; be = betaAxis voltagePhase; half = flit A 5 1;
          alpha_half = ftimes A al half; beta_sqrt3 = ftimes A be (svmSqrt3Div2 A);
          vA = al;
          vB = fadd A (fneg A alpha_half) beta_sqrt3;
          vC = fsub A (fneg A alpha_half) beta_sqrt3;
          vMax = max2 A (max2 A vA vB) vC;
          vMin = min2 A (min2 A vA vB) vC;
          vCommon = ftimes A (fadd A vMax vMin) (fneg A half)
      in \<lparr>dutyA = Clip A (fadd A vA vCommon), dutyB = Clip A (fadd A vB vCommon), dutyC = Clip A (fadd A vC vCommon)\<rparr>)"

section \<open>Table-driven sine\<close>

text \<open>The entries of \<open>sineLUT\<close> in units of \<open>10 ^ -7\<close>.\<close>

definition sineTable :: "int list" where
  "sineTable = [
   0, 122715, 245412, 368072, 490677, 613207, 735646, 857973,
   980171, 1102222, 1224107, 1345807, 1467305, 1588581, 1709619, 1830399,
   1950903, 2071114, 2191012, 2310581, 2429802, 2548656, 2667128, 2785197,
   2902847, 3020059, 3136817, 3253103, 3368899, 3484187, 3598950, 3713172,
   3826834, 3939920, 4052413, 4164296, 4275551, 4386163, 4496113, 4605387,
   4713967, 4821838, 4928982, 5035384, 5141027, 5245897, 5349976, 5453249,
   5555702, 5657318, 5758082, 5857979, 5956993, 6055110, 6152316, 6248595,
   6343933, 6438316, 6531728, 6624157, 6715590, 6806013, 6895405, 6983750,
   7071068, 7157308, 7242471, 7326542, 7409511, 7491364, 7572088, 7651673,
   7730105, 7807372, 7883464, 7958369, 8032075, 8104572, 8175848, 8245893,
   8314696, 8382247, 8448536, 8513552, 8577286, 8639729, 8700870, 8760701,
   8819213, 8876396, 8932243, 8986745, 9039893, 9091680, 9142098, 9191139,
   9238795, 9285060, 9329928, 9373390, 9415441, 9456073, 9495282, 9533061,
   9569403, 9604305, 9637761, 9669765, 9700313, 9729400, 9757021, 9783174,
   9807853, 9831055, 9852776, 9873014, 9891765, 9909026, 9924795, 9939070,
   9951847, 9963126, 9972905, 9981181, 9987955, 9993224, 9996988, 9999247,
   10000000, 9999247, 9996988, 9993224, 9987955, 9981181, 9972905, 9963126,
   9951847, 9939070, 9924795, 9909026, 9891765, 9873014, 9852776, 9831055,
   9807853, 9783174, 9757021, 9729400, 9700313, 9669765, 9637761, 9604305,
   9569403, 9533061, 9495282, 9456073, 9415441, 9373390, 9329928, 9285060,
   9238795, 9191139, 9142098, 9091680, 9039893, 8986745, 8932243, 8876396,
   8819213, 8760701, 8700870, 8639729, 8577286, 8513552, 8448536, 8382247,
   8314696, 8245893, 8175848, 8104572, 8032075, 7958369, 7883464, 7807372,
   7730105, 7651673, 7572088, 7491364, 7409511, 7326542, 7242471, 7157308,
   7071068, 6983750, 6895405, 6806013, 6715590, 6624157, 6531728, 6438316,
   6343933, 6248595, 6152316, 6055110, 5956993, 5857979, 5758082, 5657318,
   5555702, 5453249, 5349976, 5245897, 5141027, 5035384, 4928982, 4821838,
   4713967, 4605387, 4496113, 4386163, 4275551, 4164296, 4052413, 3939920,
   3826834, 3713172, 3598950, 3484187, 3368899, 3253103, 3136817, 3020059,
   2902847, 2785197, 2667128, 2548656, 2429802, 2310581, 2191012, 2071114,
   1950903, 1830399, 1709619, 1588581, 1467305, 1345807, 1224107, 1102222,
   980171, 857973, 735646, 613207, 490677, 368072, 245412, 122715,
   0, - 122715, - 245412, - 368072, - 490677, - 613207, - 735646, - 857973,
   - 980171, - 1102222, - 1224107, - 1345807, - 1467305, - 1588581, - 1709619, - 1830399,
   - 1950903, - 2071114, - 2191012, - 2310581, - 2429802, - 2548656, - 2667128, - 2785197,
   - 2902847, - 3020059, - 3136817, - 3253103, - 3368899, - 3484187, - 3598950, - 3713172,
   - 3826834, - 3939920, - 4052413, - 4164296, - 4275551, - 4386163, - 4496113, - 4605387,
   - 4713967, - 4821838, - 4928982, - 5035384, - 5141027, - 5245897, - 5349976, - 5453249,
   - 5555702, - 5657318, - 5758082, - 5857979, - 5956993, - 6055110, - 6152316, - 6248595,
   - 6343933, - 6438316, - 6531728, - 6624157, - 6715590, - 6806013, - 6895405, - 6983750,
   - 7071068, - 7157308, - 7242471, - 7326542, - 7409511, - 7491364, - 7572088, - 7651673,
   - 7730105, - 7807372, - 7883464, - 7958369, - 8032075, - 8104572, - 8175848, - 8245893,
   - 8314696, - 8382247, - 8448536, - 8513552, - 8577286, - 8639729, - 8700870, - 8760701,
   - 8819213, - 8876396, - 8932243, - 8986745, - 9039893, - 9091680, - 9142098, - 9191139,
   - 9238795, - 9285060, - 9329928, - 9373390, - 9415441, - 9456073, - 9495282, - 9533061,
   - 9569403, - 9604305, - 9637761, - 9669765, - 9700313, - 9729400, - 9757021, - 9783174,
   - 9807853, - 9831055, - 9852776, - 9873014, - 9891765, - 9909026, - 9924795, - 9939070,
   - 9951847, - 9963126, - 9972905, - 9981181, - 9987955, - 9993224, - 9996988, - 9999247,
   - 10000000, - 9999247, - 9996988, - 9993224, - 9987955, - 9981181, - 9972905, - 9963126,
   - 9951847, - 9939070, - 9924795, - 9909026, - 9891765, - 9873014, - 9852776, - 9831055,
   - 9807853, - 9783174, - 9757021, - 9729400, - 9700313, - 9669765, - 9637761, - 9604305,
   - 9569403, - 9533061, - 9495282, - 9456073, - 9415441, - 9373390, - 9329928, - 9285060,
   - 9238795, - 9191139, - 9142098, - 9091680, - 9039893, - 8986745, - 8932243, - 8876396,
   - 8819213, - 8760701, - 8700870, - 8639729, - 8577286, - 8513552, - 8448536, - 8382247,
   - 8314696, - 8245893, - 8175848, - 8104572, - 8032075, - 7958369, - 7883464, - 7807372,
   - 7730105, - 7651673, - 7572088, - 7491364, - 7409511, - 7326542, - 7242471, - 7157308,
   - 7071068, - 6983750, - 6895405, - 6806013, - 6715590, - 6624157, - 6531728, - 6438316,
   - 6343933, - 6248595, - 6152316, - 6055110, - 5956993, - 5857979, - 5758082, - 5657318,
   - 5555702, - 5453249, - 5349976, - 5245897, - 5141027, - 5035384, - 4928982, - 4821838,
   - 4713967, - 4605387, - 4496113, - 4386163, - 4275551, - 4164296, - 4052413, - 3939920,
   - 3826834, - 3713172, - 3598950, - 3484187, - 3368899, - 3253103, - 3136817, - 3020059,
   - 2902847, - 2785197, - 2667128, - 2548656, - 2429802, - 2310581, - 2191012, - 2071114,
   - 1950903, - 1830399, - 1709619, - 1588581, - 1467305, - 1345807, - 1224107, - 1102222,
   - 980171, - 857973, - 735646, - 613207, - 490677, - 368072, - 245412, - 122715]"

definition sineLUT :: "'f float_arith \<Rightarrow> 'f list" where
  "sineLUT A = map (\<lambda>m. flit A m 7) sineTable"

definition two_pi :: "'f float_arith \<Rightarrow> 'f" where
  "two_pi A = ftimes A (flit A 20 1) (fpi A)"

definition pi_over_2 :: "'f float_arith \<Rightarrow> 'f" where
  "pi_over_2 A = ftimes A (fpi A) (flit A 5 1)"

definition lutMask :: nat where
  "lutMask = 511"

definition lutScale :: "'f float_arith \<Rightarrow> 'f" where
  "lutScale A = fdiv A (fofint A (int (length sineTable))) (two_pi A)"

definition Sine :: "'f float_arith \<Rightarrow> 'f \<Rightarrow> 'f option" where
  "Sine A angle = do {
     let scaledAngle = ftimes A angle (lutScale A);
     i \<leftarrow> cast_int32 A scaledAngle;
     floored \<leftarrow> chk_int (i - (if flt A scaledAngle (fofint A i) then 1 else 0));
     let fraction = fsub A scaledAngle (fofint A floored);
     let index = unat (word_of_int floored :: u32) AND lutMask;
     let nextIndex = (index + 1) AND lutMask;
     Some (fadd A (sineLUT A ! index) (ftimes A fraction (fsub A (sineLUT A ! nextIndex) (sineLUT A ! index)))) }"

definition Cosine :: "'f float_arith \<Rightarrow> 'f \<Rightarrow> 'f option" where
  "Cosine A angle = Sine A (fadd A angle (pi_over_2 A))"

section \<open>Angle wrap-around\<close>

definition PositionWithWrapAround :: "'f float_arith \<Rightarrow> 'f \<Rightarrow> 'f" where
  "PositionWithWrapAround A position =
     (let p = fpi A; two_p = ftimes A (flit A 20 1) p
      in if flt A p position then fsub A position two_p
         else if flt A position (fneg A p) then fadd A position two_p
         else position)"

section \<open>Indexing\<close>

lemma length_sineTable [simp]: "length sineTable = 512"
  by (simp add: sineTable_def)

lemma length_sineLUT [simp]: "length (sineLUT A) = 512"
  by (simp add: sineLUT_def)

lemma and_lutMask: "n AND lutMask = n mod 512"
proof -
  have "lutMask = mask 9" by (simp add: lutMask_def mask_eq_exp_minus_1)
  then have "n AND lutMask = take_bit 9 n" by (simp only: take_bit_eq_mask)
  then show ?thesis by (simp add: take_bit_eq_mod)
qed

lemma lut_index: "unat (word_of_int i :: u32) AND lutMask = nat (i mod 512)"
proof -
  have "int (unat (word_of_int i :: u32)) = i mod 2 ^ 32"
    by (simp add: uint_nat [symmetric] uint_word_of_int)
  then have "int (unat (word_of_int i :: u32) mod 512) = i mod 2 ^ 32 mod 512" by (simp add: zmod_int)
  also have "\<dots> = i mod 512" by (simp add: mod_mod_cancel)
  finally show ?thesis by (simp add: and_lutMask)
qed

end
