(* ===== verification/Foc_Sine.thy ===== *)
theory Foc_Sine
  imports Foc_Transforms
begin

text \<open>
  Accuracy of the sine table and of its interpolation. The values at the 512 grid angles are
  approximated by an integer rotation whose error is bounded; the table is compared with it by
  evaluation, and linear interpolation adds at most \<open>1 - cos (\<pi>/512)\<close> and a term of third order.
\<close>

section \<open>The first grid angle\<close>

lemma half_angle:
  assumes "0 \<le> x" "x \<le> pi" "lo \<le> cos x" "cos x \<le> hi" "2 * l\<^sup>2 \<le> 1 + lo" "1 + hi \<le> 2 * h\<^sup>2" "0 \<le> h"
  shows "l \<le> cos (x / 2) \<and> cos (x / 2) \<le> h"
proof -
  have c: "cos x = 2 * (cos (x / 2))\<^sup>2 - 1" using cos_double_cos [of "x / 2"] by simp
  have pos: "0 \<le> cos (x / 2)" using assms(1,2) by (intro cos_ge_zero) auto
  have "l\<^sup>2 \<le> (cos (x / 2))\<^sup>2" "(cos (x / 2))\<^sup>2 \<le> h\<^sup>2" using assms(3-6) c by linarith+
  then show ?thesis using pos assms(7) by (auto intro: power2_le_imp_le)
qed

lemma cos_pi_4_bounds: "70710678118654752440 / 10 ^ 20 \<le> cos (pi / 4) \<and> cos (pi / 4) \<le> 70710678118654752441 / 10 ^ 20"
proof -
  have "141421356237309504880 / 10 ^ 20 \<le> sqrt 2" by (rule real_le_rsqrt) (simp add: power2_eq_square)
  moreover have "sqrt 2 \<le> 141421356237309504882 / 10 ^ 20" by (rule real_le_lsqrt) (simp_all add: power2_eq_square)
  ultimately show ?thesis by (simp add: cos_45)
qed

text \<open>Each halving of the angle keeps twenty digits.\<close>

lemma cos_halving:
  assumes "l / 10 ^ 20 \<le> cos (pi / n) \<and> cos (pi / n) \<le> h / 10 ^ 20" and "1 \<le> n"
    and "2 * l'\<^sup>2 \<le> 10 ^ 20 * (10 ^ 20 + l)" "10 ^ 20 * (10 ^ 20 + h) \<le> 2 * h'\<^sup>2" "0 \<le> h'"
  shows "l' / 10 ^ 20 \<le> cos (pi / (2 * n)) \<and> cos (pi / (2 * n)) \<le> h' / 10 ^ 20"
proof -
  have "0 \<le> pi / n" "pi / n \<le> pi" using assms(2) by (simp_all add: field_simps)
  from half_angle [OF this conjunct1 [OF assms(1)] conjunct2 [OF assms(1)], of "l' / 10 ^ 20" "h' / 10 ^ 20"] assms(3-5)
  show ?thesis by (simp add: power_divide field_simps)
qed

lemma cos_pi_8_bounds: "92387953251128675612 / 10 ^ 20 \<le> cos (pi / 8) \<and> cos (pi / 8) \<le> 92387953251128675614 / 10 ^ 20"
  using cos_halving [OF cos_pi_4_bounds, of 92387953251128675612 92387953251128675614] by simp

lemma cos_pi_16_bounds: "98078528040323044912 / 10 ^ 20 \<le> cos (pi / 16) \<and> cos (pi / 16) \<le> 98078528040323044913 / 10 ^ 20"
  using cos_halving [OF cos_pi_8_bounds, of 98078528040323044912 98078528040323044913] by simp

lemma cos_pi_32_bounds: "99518472667219688624 / 10 ^ 20 \<le> cos (pi / 32) \<and> cos (pi / 32) \<le> 99518472667219688625 / 10 ^ 20"
  using cos_halving [OF cos_pi_16_bounds, of 99518472667219688624 99518472667219688625] by simp

lemma cos_pi_64_bounds: "99879545620517239271 / 10 ^ 20 \<le> cos (pi / 64) \<and> cos (pi / 64) \<le> 99879545620517239272 / 10 ^ 20"
  using cos_halving [OF cos_pi_32_bounds, of 99879545620517239271 99879545620517239272] by simp

lemma cos_pi_128_bounds: "99969881869620422011 / 10 ^ 20 \<le> cos (pi / 128) \<and> cos (pi / 128) \<le> 99969881869620422012 / 10 ^ 20"
  using cos_halving [OF cos_pi_64_bounds, of 99969881869620422011 99969881869620422012] by simp

lemma cos_pi_256_bounds: "99992470183914454092 / 10 ^ 20 \<le> cos (pi / 256) \<and> cos (pi / 256) \<le> 99992470183914454093 / 10 ^ 20"
  using cos_halving [OF cos_pi_128_bounds, of 99992470183914454092 99992470183914454093] by simp

lemma cos_pi_512_bounds: "99998117528260114265 / 10 ^ 20 \<le> cos (pi / 512) \<and> cos (pi / 512) \<le> 99998117528260114266 / 10 ^ 20"
  using cos_halving [OF cos_pi_256_bounds, of 99998117528260114265 99998117528260114266] by simp

section \<open>An integer rotation\<close>

abbreviation grid_angle :: real where
  "grid_angle \<equiv> pi / 256"

text \<open>One step turns by the grid angle, in units of \<open>10 ^ -13\<close>.\<close>

definition turn :: "int \<times> int \<Rightarrow> int \<times> int" where
  "turn v = ((fst v * 9999247018391 + snd v * 122715382857) div 10000000000000,
             (snd v * 9999247018391 - fst v * 122715382857) div 10000000000000)"

lemma grid_cos: "\<bar>9999247018391 / 10 ^ 13 - cos grid_angle\<bar> \<le> 1 / 10 ^ 13"
  using cos_pi_256_bounds by (simp add: abs_le_iff)

lemma grid_sin: "\<bar>122715382857 / 10 ^ 13 - sin grid_angle\<bar> \<le> 1 / 10 ^ 13"
proof -
  have sq: "(sin grid_angle)\<^sup>2 = (1 - cos (pi / 128)) / 2"
    using cos_double_sin [of grid_angle] by simp
  have pos: "0 \<le> sin grid_angle" by (intro sin_ge_zero) auto
  have "(122715382857 / 10 ^ 13)\<^sup>2 \<le> (sin grid_angle)\<^sup>2" "(sin grid_angle)\<^sup>2 \<le> (122715382858 / 10 ^ 13)\<^sup>2"
    unfolding sq using cos_pi_128_bounds by (simp_all add: power2_eq_square)
  then have "122715382857 / 10 ^ 13 \<le> sin grid_angle" "sin grid_angle \<le> 122715382858 / 10 ^ 13"
    using pos by (auto intro: power2_le_imp_le)
  then show ?thesis by (simp add: abs_le_iff)
qed

definition near :: "real \<Rightarrow> int \<times> int \<Rightarrow> real \<Rightarrow> bool" where
  "near e v x \<longleftrightarrow> \<bar>fst v / 10 ^ 13 - sin x\<bar> \<le> e \<and> \<bar>snd v / 10 ^ 13 - cos x\<bar> \<le> e"

lemma div_near: "\<bar>real_of_int (n div 10000000000000) / 10 ^ 13 - n / 10 ^ 26\<bar> \<le> 1 / 10 ^ 13"
proof -
  have "n = 10000000000000 * (n div 10000000000000) + n mod 10000000000000" by simp
  then have "real_of_int n = 10000000000000 * real_of_int (n div 10000000000000) + real_of_int (n mod 10000000000000)"
    by (metis of_int_add of_int_mult of_int_numeral)
  then have "real_of_int (n div 10000000000000) / 10 ^ 13 - n / 10 ^ 26 = - (real_of_int (n mod 10000000000000) / 10 ^ 26)"
    by (simp add: add_divide_distrib)
  moreover have "0 \<le> real_of_int (n mod 10000000000000)" "real_of_int (n mod 10000000000000) \<le> 10000000000000"
    using pos_mod_bound [of 10000000000000 n] pos_mod_sign [of 10000000000000 n] by linarith+
  ultimately show ?thesis by simp
qed

text \<open>A product of an approximation with a bounded factor.\<close>

lemma product_error:
  fixes a b x y :: real
  assumes "\<bar>a - x\<bar> \<le> e" "\<bar>b - y\<bar> \<le> d" "\<bar>x\<bar> \<le> 1" "\<bar>b\<bar> \<le> m"
  shows "\<bar>a * b - x * y\<bar> \<le> e * m + d"
proof -
  have "a * b - x * y = (a - x) * b + x * (b - y)" by (simp add: algebra_simps)
  then have "\<bar>a * b - x * y\<bar> \<le> \<bar>a - x\<bar> * \<bar>b\<bar> + \<bar>x\<bar> * \<bar>b - y\<bar>"
    by (metis abs_mult abs_triangle_ineq)
  also have "\<dots> \<le> e * m + 1 * d" using assms by (intro add_mono mult_mono) auto
  finally show ?thesis by simp
qed

lemma error_trans:
  fixes x y z :: real
  assumes "\<bar>x - y\<bar> \<le> a" "\<bar>y - z\<bar> \<le> b"
  shows "\<bar>x - z\<bar> \<le> a + b"
  using assms by linarith

lemma lower_from_error:
  fixes x y :: real
  assumes "l \<le> x" "\<bar>x - y\<bar> \<le> e"
  shows "l - e \<le> y"
  using assms by linarith

lemma sum_error:
  fixes q u w x y :: real
  assumes "\<bar>q - (u + w)\<bar> \<le> a" "\<bar>u - x\<bar> \<le> b" "\<bar>w - y\<bar> \<le> c"
  shows "\<bar>q - (x + y)\<bar> \<le> a + b + c"
  using assms by linarith

lemma diff_error:
  fixes q u w x y :: real
  assumes "\<bar>q - (u - w)\<bar> \<le> a" "\<bar>u - x\<bar> \<le> b" "\<bar>w - y\<bar> \<le> c"
  shows "\<bar>q - (x - y)\<bar> \<le> a + b + c"
  using assms by linarith

lemma turn_near:
  assumes "near e v x"
  shows "near (10123 / 10000 * e + 1 / 10 ^ 12) (turn v) (x + grid_angle)"
proof -
  have s: "\<bar>fst v / 10 ^ 13 - sin x\<bar> \<le> e" and c: "\<bar>snd v / 10 ^ 13 - cos x\<bar> \<le> e" using assms by (auto simp: near_def)
  have b1: "\<bar>(9999247018391 / 10 ^ 13 :: real)\<bar> \<le> 1" and b2: "\<bar>(122715382857 / 10 ^ 13 :: real)\<bar> \<le> 123 / 10000" by simp_all
  note s1 = product_error [OF s grid_cos abs_sin_le_one b1] and s2 = product_error [OF c grid_sin abs_cos_le_one b2]
    and c1 = product_error [OF c grid_cos abs_cos_le_one b1] and c2 = product_error [OF s grid_sin abs_sin_le_one b2]
  let ?n = "fst v * 9999247018391 + snd v * 122715382857" and ?m = "snd v * 9999247018391 - fst v * 122715382857"
  have n: "real_of_int ?n / 10 ^ 26 = fst v / 10 ^ 13 * (9999247018391 / 10 ^ 13) + snd v / 10 ^ 13 * (122715382857 / 10 ^ 13)"
    and m: "real_of_int ?m / 10 ^ 26 = snd v / 10 ^ 13 * (9999247018391 / 10 ^ 13) - fst v / 10 ^ 13 * (122715382857 / 10 ^ 13)"
    by (simp_all add: add_divide_distrib diff_divide_distrib)
  have "\<bar>real_of_int (fst (turn v)) / 10 ^ 13 - sin (x + grid_angle)\<bar> \<le> 10123 / 10000 * e + 1 / 10 ^ 12"
    using sum_error [OF div_near [of ?n, unfolded n] s1 s2] unfolding sin_add turn_def by simp
  moreover have "\<bar>real_of_int (snd (turn v)) / 10 ^ 13 - cos (x + grid_angle)\<bar> \<le> 10123 / 10000 * e + 1 / 10 ^ 12"
    using diff_error [OF div_near [of ?m, unfolded m] c1 c2] unfolding cos_add turn_def by simp
  ultimately show ?thesis by (simp add: near_def)
qed

section \<open>The table\<close>

definition turn_error :: "nat \<Rightarrow> real" where
  "turn_error k = ((10123 / 10000) ^ k - 1) / (123 / 10000) / 10 ^ 12"

lemma turns_near: "near (turn_error k) ((turn ^^ k) (0, 10000000000000)) (k * grid_angle)"
proof (induction k)
  case 0
  show ?case by (simp add: near_def turn_error_def)
next
  case (Suc k)
  have "10123 / 10000 * turn_error k + 1 / 10 ^ 12 = turn_error (Suc k)" by (simp add: turn_error_def field_simps)
  with turn_near [OF Suc] show ?case by (simp add: algebra_simps add_divide_distrib)
qed

lemma turn_error_small: "k \<le> 128 \<Longrightarrow> turn_error k \<le> 1 / 10 ^ 9"
proof -
  assume "k \<le> 128"
  then have "(10123 / 10000 :: real) ^ k \<le> (10123 / 10000) ^ 128" by (rule power_increasing) simp
  also have "(10123 / 10000 :: real) ^ 128 = ((10123 / 10000) ^ 8) ^ 16" by (simp only: power_mult [symmetric]) simp
  also have "\<dots> \<le> (1103 / 1000) ^ 16" by (intro power_mono) (simp_all add: power_divide)
  also have "\<dots> \<le> 1 + 10 ^ 3 * (123 / 10000)" by (simp add: power_divide)
  finally show ?thesis by (simp add: turn_error_def)
qed

fun follows :: "int \<times> int \<Rightarrow> int list \<Rightarrow> bool" where
  "follows v [] \<longleftrightarrow> True"
| "follows v (m # ms) \<longleftrightarrow> \<bar>m * 1000000 - fst v\<bar> \<le> 12500000 \<and> follows (turn v) ms"

lemma follows_nth: "follows v ms \<Longrightarrow> k < length ms \<Longrightarrow> \<bar>ms ! k * 1000000 - fst ((turn ^^ k) v)\<bar> \<le> 12500000"
proof (induction v ms arbitrary: k rule: follows.induct)
  case (2 v m ms)
  then show ?case by (cases k) (auto simp: funpow_Suc_right simp del: funpow.simps)
qed simp

lemma table_follows: "follows (0, 10000000000000) (take 129 sineTable)"
  by code_simp

lemma table_mirrored: "take 129 (drop 128 sineTable) = rev (take 129 sineTable)"
  by code_simp

lemma table_antisymmetric: "drop 256 sineTable = map uminus (take 256 sineTable)"
  by code_simp

text \<open>The value of an entry, and its distance from the sine of its angle.\<close>

definition entry :: "nat \<Rightarrow> real" where
  "entry k = sineTable ! k / 10 ^ 7"

abbreviation table_tolerance :: real where
  "table_tolerance \<equiv> 1251 / 1000000000"

lemma entry_first:
  assumes "k \<le> 128"
  shows "\<bar>entry k - sin (k * grid_angle)\<bar> \<le> table_tolerance"
proof -
  from follows_nth [OF table_follows, of k] assms
  have "\<bar>sineTable ! k * 1000000 - fst ((turn ^^ k) (0, 10000000000000))\<bar> \<le> 12500000" by simp
  then have a: "\<bar>entry k - fst ((turn ^^ k) (0, 10000000000000)) / 10 ^ 13\<bar> \<le> 1250 / 1000000000"
    by (simp add: entry_def abs_le_iff field_simps)
  have b: "\<bar>fst ((turn ^^ k) (0, 10000000000000)) / 10 ^ 13 - sin (k * grid_angle)\<bar> \<le> 1 / 10 ^ 9"
    using turns_near [of k] turn_error_small [OF assms] by (simp add: near_def)
  show ?thesis using error_trans [OF a b] by simp
qed

lemma entry_mirror: "k \<le> 128 \<Longrightarrow> entry (128 + k) = entry (128 - k)"
  using arg_cong [OF table_mirrored, of "\<lambda>xs. xs ! k"] by (simp add: entry_def rev_nth)

lemma entry_negate: "k < 256 \<Longrightarrow> entry (256 + k) = - entry k"
  using arg_cong [OF table_antisymmetric, of "\<lambda>xs. xs ! k"] by (simp add: entry_def)

lemma entry_half:
  assumes "k \<le> 256"
  shows "\<bar>entry k - sin (k * grid_angle)\<bar> \<le> table_tolerance"
proof (cases "k \<le> 128")
  case False
  with assms have "entry k = entry (256 - k)" using entry_mirror [of "k - 128"] by simp
  moreover have "sin (k * grid_angle) = sin (real (256 - k) * grid_angle)"
  proof -
    have "real (256 - k) * grid_angle = pi - k * grid_angle" using assms by (simp add: of_nat_diff field_simps)
    then show ?thesis by (simp only: sin_pi_minus)
  qed
  ultimately show ?thesis using False entry_first [of "256 - k"] by simp
qed (rule entry_first)

lemma entry_accurate:
  assumes "k < 512"
  shows "\<bar>entry k - sin (k * grid_angle)\<bar> \<le> table_tolerance"
proof (cases "k \<le> 256")
  case False
  with assms have "entry k = - entry (k - 256)" using entry_negate [of "k - 256"] by simp
  moreover have "sin (k * grid_angle) = - sin (real (k - 256) * grid_angle)"
  proof -
    have "k * grid_angle = real (k - 256) * grid_angle + pi" using False by (simp add: of_nat_diff field_simps)
    then show ?thesis by (simp only: sin_periodic_pi)
  qed
  ultimately show ?thesis using assms entry_half [of "k - 256"] by (simp only: abs_le_iff) linarith
qed (rule entry_half)

text \<open>The entry for \<open>63\<close> differs from the sine in its sixth digit.\<close>

lemma entry_63: "1148 / 1000000000 \<le> sin (63 * grid_angle) - entry 63"
proof -
  have "follows (0, 10000000000000) (take 63 sineTable @ [6983774])" by code_simp
  from follows_nth [OF this, of 63]
  have "\<bar>6983774 * 1000000 - fst ((turn ^^ 63) (0, 10000000000000))\<bar> \<le> 12500000" by (simp add: nth_append)
  then have "6983761500000 / 10 ^ 13 \<le> fst ((turn ^^ 63) (0, 10000000000000)) / 10 ^ 13" by (intro divide_right_mono) (linarith, simp)
  moreover have "\<bar>fst ((turn ^^ 63) (0, 10000000000000)) / 10 ^ 13 - sin (63 * grid_angle)\<bar> \<le> 1 / 10 ^ 9"
    using turns_near [of 63] turn_error_small [of 63] by (simp add: near_def)
  ultimately have "6983761500000 / 10 ^ 13 - 1 / 10 ^ 9 \<le> sin (63 * grid_angle)" by (rule lower_from_error)
  moreover have "entry 63 = 6983750 / 10 ^ 7" by (simp add: entry_def sineTable_def)
  ultimately show ?thesis by simp
qed

section \<open>Linear interpolation\<close>

lemma x_cos_x_le_sin:
  fixes x :: real
  assumes "0 \<le> x" "x \<le> pi"
  shows "x * cos x \<le> sin x"
proof -
  let ?f = "\<lambda>x. sin x - x * cos x"
  have "\<exists>y. DERIV ?f u :> y \<and> 0 \<le> y" if "0 \<le> u" "u \<le> x" for u
  proof (intro exI conjI)
    show "DERIV ?f u :> u * sin u" by (auto intro!: derivative_eq_intros)
    show "0 \<le> u * sin u" using that assms by (intro mult_nonneg_nonneg sin_ge_zero) auto
  qed
  from DERIV_nonneg_imp_nondecreasing [OF assms(1) this] show ?thesis by simp
qed

text \<open>A chord scaled by \<open>g\<close> stays close to the sine of the scaled angle.\<close>

lemma scaled_sin:
  fixes g h :: real
  assumes "0 \<le> g" "g \<le> 1" "0 \<le> h" "h \<le> 1"
  shows "\<bar>g * sin h - sin (g * h)\<bar> \<le> h * (1 - cos h)"
proof -
  have le: "0 \<le> g * h" "g * h \<le> h" using assms by (simp_all add: mult_left_le_one_le)
  have "h \<le> pi" using assms pi_ge_two by linarith
  have "cos h \<le> cos (g * h)" using le \<open>h \<le> pi\<close> by (intro cos_monotone_0_pi_le) auto
  then have "g * h * cos h \<le> g * h * cos (g * h)" using le by (intro mult_left_mono) auto
  also have "\<dots> \<le> sin (g * h)" using le \<open>h \<le> pi\<close> by (intro x_cos_x_le_sin) auto
  finally have low: "g * h * cos h \<le> sin (g * h)" .
  have "g * (h * cos h) \<le> g * sin h" "g * sin h \<le> g * h"
    using assms x_cos_x_le_sin [of h] sin_x_le_x [of h] \<open>h \<le> pi\<close> by (auto intro: mult_left_mono)
  moreover have "sin (g * h) \<le> g * h" using le by (intro sin_x_le_x)
  ultimately have "\<bar>g * sin h - sin (g * h)\<bar> \<le> g * h * (1 - cos h)" using low by (simp add: algebra_simps)
  also have "\<dots> \<le> h * (1 - cos h)" using le by (intro mult_right_mono) auto
  finally show ?thesis .
qed

lemma scaled_sin_signed:
  fixes g h :: real
  assumes "\<bar>g\<bar> \<le> 1" "0 \<le> h" "h \<le> 1"
  shows "\<bar>g * sin h - sin (g * h)\<bar> \<le> h * (1 - cos h)"
  using assms scaled_sin [of g h] scaled_sin [of "- g" h] by (cases "0 \<le> g") (simp_all add: abs_if split: if_splits)

lemma interpolation_error:
  fixes a f h :: real
  assumes "0 \<le> f" "f \<le> 1" "0 \<le> h" "h \<le> 1"
  shows "\<bar>(1 - f) * sin a + f * sin (a + 2 * h) - sin (a + 2 * h * f)\<bar> \<le> (1 + h) * (1 - cos h)"
proof -
  define m g where "m = a + h" and "g = 2 * f - 1"
  have g: "\<bar>g\<bar> \<le> 1" using assms by (simp add: g_def abs_le_iff)
  have angles: "a = m - h" "a + 2 * h = m + h" "a + 2 * h * f = m + g * h" by (simp_all add: m_def g_def algebra_simps)
  have split: "(1 - f) * sin (m - h) + f * sin (m + h) - sin (m + g * h) =
      sin m * (cos h - cos (g * h)) + cos m * (g * sin h - sin (g * h))"
    unfolding sin_add sin_diff g_def by (simp add: algebra_simps)
  have first: "\<bar>sin m * (cos h - cos (g * h))\<bar> \<le> 1 * (1 - cos h)"
  proof -
    have "\<bar>g * h\<bar> \<le> h" using g assms by (simp add: abs_mult mult_left_le_one_le)
    then have "cos h \<le> cos \<bar>g * h\<bar>" using assms pi_ge_two by (intro cos_monotone_0_pi_le) auto
    then have "cos h \<le> cos (g * h)" by (simp only: cos_abs_real)
    then show ?thesis unfolding abs_mult by (intro mult_mono) (auto simp: abs_le_iff)
  qed
  have second: "\<bar>cos m * (g * sin h - sin (g * h))\<bar> \<le> 1 * (h * (1 - cos h))"
    unfolding abs_mult using scaled_sin_signed [OF g assms(3,4)] by (intro mult_mono) auto
  have "(1 + h) * (1 - cos h) = 1 * (1 - cos h) + 1 * (h * (1 - cos h))" by (simp add: algebra_simps)
  then show ?thesis
    unfolding angles(2,3) unfolding angles(1) split
    by (simp only: order_trans [OF abs_triangle_ineq add_mono [OF first second]])
qed

section \<open>The interpolated sine\<close>

text \<open>The truncation and its correction are the floor, also below zero.\<close>

lemma corrected_truncation: "truncate_real x - (if x < of_int (truncate_real x) then 1 else 0) = \<lfloor>x\<rfloor>"
proof (cases "x < 0")
  case True
  then have t: "truncate_real x = \<lceil>x\<rceil>" by (simp add: truncate_real_def ceiling_def)
  show ?thesis
  proof (cases "x < of_int \<lceil>x\<rceil>")
    case True
    then have "\<lfloor>x\<rfloor> = \<lceil>x\<rceil> - 1" by (intro floor_unique) (linarith+)
    with True t show ?thesis by simp
  next
    case False
    then have "x = of_int \<lceil>x\<rceil>" by linarith
    then have "\<lfloor>x\<rfloor> = \<lceil>x\<rceil>" by (metis floor_of_int)
    with False t show ?thesis by simp
  qed
qed (simp add: truncate_real_def not_less)

definition lut :: "int \<Rightarrow> real" where
  "lut k = entry (nat (k mod 512))"

lemma lut_accurate: "\<bar>lut k - sin (k * grid_angle)\<bar> \<le> table_tolerance"
proof -
  have "k * grid_angle = (k mod 512) * grid_angle + 2 * pi * (k div 512)"
  proof -
    have "k = 512 * (k div 512) + k mod 512" by simp
    then have "real_of_int k = 512 * real_of_int (k div 512) + real_of_int (k mod 512)"
      by (metis of_int_add of_int_mult of_int_numeral)
    then show ?thesis by (simp add: field_simps)
  qed
  then have "sin (k * grid_angle) = sin ((k mod 512) * grid_angle)" using sin_cos_eq_iff by blast
  moreover have "real_of_int (k mod 512) = real (nat (k mod 512))" by simp
  ultimately have "sin (k * grid_angle) = sin (nat (k mod 512) * grid_angle)" by (simp only:)
  moreover have "nat (k mod 512) < 512" by (simp add: nat_less_iff)
  ultimately show ?thesis using entry_accurate unfolding lut_def by (simp only:)
qed

lemma sineLUT_exact: "n < 512 \<Longrightarrow> sineLUT exact ! n = entry n"
  by (simp add: sineLUT_def entry_def)

lemma next_index: "Suc (nat (k mod 512)) AND lutMask = nat ((k + 1) mod 512)"
proof -
  have "int (Suc (nat (k mod 512)) mod 512) = (k mod 512 + 1) mod 512" by (simp add: zmod_int add.commute)
  also have "\<dots> = (k + 1) mod 512" by (simp add: mod_simps)
  finally show ?thesis by (simp add: and_lutMask)
qed

lemma Sine_exact:
  assumes "\<bar>angle * (256 / pi)\<bar> \<le> 2147483646"
  shows "Sine exact angle = (let x = angle * (256 / pi); k = \<lfloor>x\<rfloor> in Some (lut k + (x - k) * (lut (k + 1) - lut k)))"
proof -
  define x where "x = angle * (256 / pi)"
  have scale: "ftimes exact angle (lutScale exact) = x" by (simp add: lutScale_def two_pi_def x_def)
  have "\<bar>x\<bar> \<le> 2147483646" using assms by (simp only: x_def)
  then have "\<lfloor>x\<rfloor> \<ge> - 2147483646" "\<lfloor>x\<rfloor> \<le> 2147483646" by linarith+
  moreover have "truncate_real x = \<lfloor>x\<rfloor> \<or> truncate_real x = \<lfloor>x\<rfloor> + 1"
    using corrected_truncation [of x] by (auto split: if_splits)
  ultimately have "int_min \<le> truncate_real x" "truncate_real x \<le> int_max" "int_min \<le> \<lfloor>x\<rfloor>" "\<lfloor>x\<rfloor> \<le> int_max"
    unfolding int_min_def int_max_def by linarith+
  then have cast: "cast_int32 exact x = Some (truncate_real x)"
      and chk: "chk_int (truncate_real x - (if x < of_int (truncate_real x) then 1 else 0)) = Some \<lfloor>x\<rfloor>"
    unfolding corrected_truncation by (simp_all add: cast_int_def)
  show ?thesis
    unfolding Sine_def Let_def scale x_def [symmetric] cast
    by (simp add: chk lut_index next_index sineLUT_exact nat_less_iff lut_def del: chk_int_Some)
qed

text \<open>The tolerance of the whole computation: the table and the chord.\<close>

abbreviation sine_tolerance :: real where
  "sine_tolerance \<equiv> 21 / 1000000"

lemma Sine_accurate:
  assumes "\<bar>angle * (256 / pi)\<bar> \<le> 2147483646"
  shows "\<exists>s. Sine exact angle = Some s \<and> \<bar>s - sin angle\<bar> \<le> sine_tolerance"
proof -
  define x k f where "x = angle * (256 / pi)" and "k = \<lfloor>x\<rfloor>" and "f = x - k"
  have f: "0 \<le> f" "f \<le> 1" unfolding f_def k_def by linarith+
  define h where "h = pi / 512"
  have h: "0 \<le> h" "h \<le> 1 / 100" "h \<le> 1" using pi_less_4 by (simp_all add: h_def)
  have angle: "k * grid_angle + 2 * h * f = angle" and nxt: "k * grid_angle + 2 * h = (k + 1) * grid_angle"
    by (simp_all add: f_def x_def h_def field_simps)
  have chord: "\<bar>(1 - f) * sin (k * grid_angle) + f * sin ((k + 1) * grid_angle) - sin angle\<bar> \<le> 192 / 10000000"
  proof -
    have "1 - cos h \<le> 19 / 1000000" using cos_pi_512_bounds by (simp add: h_def)
    then have "(1 + h) * (1 - cos h) \<le> (1 + 1 / 100) * (19 / 1000000)" using h by (intro mult_mono) auto
    then show ?thesis using interpolation_error [OF f h(1,3), of "k * grid_angle"] unfolding angle nxt by simp
  qed
  have "\<bar>((1 - f) * lut k + f * lut (k + 1)) - ((1 - f) * sin (k * grid_angle) + f * sin ((k + 1) * grid_angle))\<bar>
      \<le> (1 - f) * table_tolerance + f * table_tolerance"
  proof -
    have "((1 - f) * lut k + f * lut (k + 1)) - ((1 - f) * sin (k * grid_angle) + f * sin ((k + 1) * grid_angle)) =
        (1 - f) * (lut k - sin (k * grid_angle)) + f * (lut (k + 1) - sin ((k + 1) * grid_angle))"
      by (simp add: algebra_simps)
    also have "\<bar>\<dots>\<bar> \<le> \<bar>(1 - f) * (lut k - sin (k * grid_angle))\<bar> + \<bar>f * (lut (k + 1) - sin ((k + 1) * grid_angle))\<bar>"
      by (rule abs_triangle_ineq)
    also have "\<dots> \<le> (1 - f) * table_tolerance + f * table_tolerance"
      unfolding abs_mult using f lut_accurate [of k] lut_accurate [of "k + 1"] by (intro add_mono mult_mono) auto
    finally show ?thesis .
  qed
  also have "(1 - f) * table_tolerance + f * table_tolerance = table_tolerance" unfolding distrib_right [symmetric] by simp
  finally have table: "\<bar>((1 - f) * lut k + f * lut (k + 1)) - ((1 - f) * sin (k * grid_angle) + f * sin ((k + 1) * grid_angle))\<bar> \<le> table_tolerance" .
  have "Sine exact angle = Some ((1 - f) * lut k + f * lut (k + 1))"
    using Sine_exact [OF assms] by (simp add: Let_def x_def k_def f_def algebra_simps)
  with error_trans [OF table chord] show ?thesis by simp
qed

end
