(* ===== verification/Foc_Kernels.thy ===== *)
theory Foc_Kernels
  imports Foc_Sine
begin

text \<open>
  Properties of the kernels: accuracy of the fast sine, the Clarke and Park transforms as
  inverses of each other up to their rounded constants, and the modulator.
\<close>

section \<open>Sine and cosine\<close>

lemma pi_lower: "314 / 100 \<le> pi"
proof -
  have "sin grid_angle \<le> grid_angle" by (rule sin_x_le_x) simp
  with lower_from_error [OF order_refl grid_sin] show ?thesis by simp
qed

lemma angle_in_range:
  assumes "\<bar>angle\<bar> \<le> 26200000"
  shows "\<bar>angle * (256 / pi)\<bar> \<le> 2147483646"
proof -
  have "256 / pi \<le> 256 / (314 / 100)" using pi_lower by (intro divide_left_mono) auto
  then have "\<bar>angle\<bar> * (256 / pi) \<le> 26200000 * (256 / (314 / 100))" using assms by (intro mult_mono) auto
  also have "\<dots> \<le> 2147483646" by simp
  finally show ?thesis by (simp only: abs_mult abs_divide abs_numeral abs_of_pos [OF pi_gt_zero])
qed

lemma sine_and_cosine:
  assumes "\<bar>angle\<bar> \<le> 26000000"
  obtains s c where "Sine exact angle = Some s" "Cosine exact angle = Some c"
    "\<bar>s - sin angle\<bar> \<le> sine_tolerance" "\<bar>c - cos angle\<bar> \<le> sine_tolerance"
proof -
  obtain s where s: "Sine exact angle = Some s" "\<bar>s - sin angle\<bar> \<le> sine_tolerance"
    using Sine_accurate [OF angle_in_range, of angle] assms by auto
  have "\<bar>angle + pi / 2\<bar> \<le> 26200000" using assms pi_less_4 pi_gt_zero by linarith
  then obtain c where "Sine exact (angle + pi / 2) = Some c" "\<bar>c - sin (angle + pi / 2)\<bar> \<le> sine_tolerance"
    using Sine_accurate [OF angle_in_range, of "angle + pi / 2"] by blast
  moreover have "sin (angle + pi / 2) = cos angle" by (simp add: sin_add)
  ultimately show ?thesis using s by (intro that) (simp_all add: Cosine_def pi_over_2_def)
qed



section \<open>Transforms\<close>

lemma unit_circle:
  assumes "\<bar>s - sin x\<bar> \<le> sine_tolerance" "\<bar>c - cos x\<bar> \<le> sine_tolerance"
  shows "\<bar>c\<^sup>2 + s\<^sup>2 - 1\<bar> \<le> 85 / 1000000"
proof -
  have sq: "\<bar>a\<^sup>2 - b\<^sup>2\<bar> \<le> sine_tolerance * (2 + sine_tolerance)"
    if "\<bar>a - b\<bar> \<le> sine_tolerance" "\<bar>b\<bar> \<le> 1" for a b :: real
  proof -
    have "a\<^sup>2 - b\<^sup>2 = (a - b) * (a + b)" by (simp add: power2_eq_square algebra_simps)
    moreover have "\<bar>a + b\<bar> \<le> 2 + sine_tolerance" using that by linarith
    ultimately show ?thesis using that by (simp only: abs_mult) (intro mult_mono, auto)
  qed
  have "c\<^sup>2 + s\<^sup>2 - 1 = (c\<^sup>2 - (cos x)\<^sup>2) + (s\<^sup>2 - (sin x)\<^sup>2)" using sin_cos_squared_add [of x] by linarith
  then have "\<bar>c\<^sup>2 + s\<^sup>2 - 1\<bar> \<le> 2 * (sine_tolerance * (2 + sine_tolerance))"
    using sq [OF assms(2) abs_cos_le_one] sq [OF assms(1) abs_sin_le_one] by linarith
  then show ?thesis by simp
qed

lemma Park_roundtrip:
  "Park_Forward exact (Park_Inverse exact v c s) c s = \<lparr>dAxis = (c\<^sup>2 + s\<^sup>2) * dAxis v, qAxis = (c\<^sup>2 + s\<^sup>2) * qAxis v\<rparr>"
  by (simp add: Park_Forward_def Park_Inverse_def Let_def power2_eq_square algebra_simps)

text \<open>The rounded constants scale the axes by \<open>1 + 5 \<sqdot> 10\<^bsup>-10\<^esup>\<close> and \<open>1 - 5 \<sqdot> 10\<^bsup>-11\<^esup>\<close>.\<close>

lemma Clarke_roundtrip:
  "Clarke_Forward exact (Clarke_Inverse exact v) =
     \<lparr>alphaAxis = 2000000001 / 2000000000 * alphaAxis v, betaAxis = 2 / sqrt 3 * (8660254037 / 10 ^ 10) * betaAxis v\<rparr>"
  by (simp add: Clarke_Forward_def Clarke_Inverse_def Let_def twoThirds_def oneHalf_def sqrt3Div2_def field_simps)

lemma beta_scale: "\<bar>2 / sqrt 3 * (8660254037 / 10 ^ 10) - 1\<bar> \<le> 1 / 10 ^ 9"
proof -
  have "17320508073 / 10 ^ 10 \<le> sqrt 3" by (rule real_le_rsqrt) (simp add: power2_eq_square)
  moreover have "sqrt 3 \<le> 17320508080 / 10 ^ 10" by (rule real_le_lsqrt) (simp_all add: power2_eq_square)
  ultimately show ?thesis by (simp add: abs_le_iff field_simps)
qed

text \<open>The error of turning there and back, when the two axes are stretched differently.\<close>

lemma axis_error:
  fixes c s d q e f :: real
  assumes "\<bar>c\<^sup>2 + s\<^sup>2 - 1\<bar> \<le> 85 / 1000000" "\<bar>s\<bar> \<le> 101 / 100" "\<bar>c\<bar> \<le> 101 / 100" "\<bar>e\<bar> \<le> 1 / 10 ^ 9" "\<bar>f\<bar> \<le> 1 / 10 ^ 9"
  shows "\<bar>(1 + e) * (d * c - q * s) * c + (1 + f) * (d * s + q * c) * s - d\<bar> \<le> (\<bar>d\<bar> + \<bar>q\<bar>) / 10000"
    "\<bar>- ((1 + e) * (d * c - q * s) * s) + (1 + f) * (d * s + q * c) * c - q\<bar> \<le> (\<bar>d\<bar> + \<bar>q\<bar>) / 10000"
proof -
  have turned: "\<bar>d * a - q * b\<bar> \<le> 101 / 100 * (\<bar>d\<bar> + \<bar>q\<bar>)" "\<bar>d * a + q * b\<bar> \<le> 101 / 100 * (\<bar>d\<bar> + \<bar>q\<bar>)"
    if "\<bar>a\<bar> \<le> 101 / 100" "\<bar>b\<bar> \<le> 101 / 100" for a b :: real
  proof -
    have "\<bar>d * a\<bar> \<le> \<bar>d\<bar> * (101 / 100)" "\<bar>q * b\<bar> \<le> \<bar>q\<bar> * (101 / 100)"
      unfolding abs_mult using that by (intro mult_left_mono; simp)+
    from add_mono [OF this] have "\<bar>d * a\<bar> + \<bar>q * b\<bar> \<le> 101 / 100 * (\<bar>d\<bar> + \<bar>q\<bar>)" by (simp add: algebra_simps)
    then show "\<bar>d * a - q * b\<bar> \<le> 101 / 100 * (\<bar>d\<bar> + \<bar>q\<bar>)" "\<bar>d * a + q * b\<bar> \<le> 101 / 100 * (\<bar>d\<bar> + \<bar>q\<bar>)"
      by (rule order_trans [OF abs_triangle_ineq4], rule order_trans [OF abs_triangle_ineq])
  qed
  have stretch: "\<bar>k * w * u\<bar> \<le> 1 / 10 ^ 9 * (101 / 100 * (\<bar>d\<bar> + \<bar>q\<bar>)) * (101 / 100)"
    if "\<bar>k\<bar> \<le> 1 / 10 ^ 9" "\<bar>w\<bar> \<le> 101 / 100 * (\<bar>d\<bar> + \<bar>q\<bar>)" "\<bar>u\<bar> \<le> 101 / 100" for k w u :: real
    unfolding abs_mult using that by (intro mult_mono) auto
  have circle: "\<bar>(c\<^sup>2 + s\<^sup>2 - 1) * x\<bar> \<le> 85 / 1000000 * \<bar>x\<bar>" for x
    unfolding abs_mult using assms(1) by (intro mult_right_mono) auto
  have budget: "85 / 1000000 * x + 2 * (1 / 10 ^ 9 * (101 / 100 * (x' + y')) * (101 / 100)) \<le> (x' + y') / 10000"
    if "x \<le> x' + y'" "0 \<le> x" "0 \<le> x'" "0 \<le> y'" for x x' y' :: real
  proof -
    have "1 / 10 ^ 9 * (101 / 100 * (x' + y')) * (101 / 100) \<le> 2 / 1000000 * (x' + y')" using that by (simp add: field_simps)
    then show ?thesis using that by (simp add: field_simps)
  qed
  have "\<bar>(1 + e) * (d * c - q * s) * c + (1 + f) * (d * s + q * c) * s - d\<bar>
      = \<bar>(c\<^sup>2 + s\<^sup>2 - 1) * d + (e * (d * c - q * s) * c + f * (d * s + q * c) * s)\<bar>"
    by (rule arg_cong [where f = abs]) (simp add: power2_eq_square algebra_simps)
  also have "\<dots> \<le> 85 / 1000000 * \<bar>d\<bar> + 2 * (1 / 10 ^ 9 * (101 / 100 * (\<bar>d\<bar> + \<bar>q\<bar>)) * (101 / 100))"
    using circle [of d] stretch [OF assms(4) turned(1) [OF assms(3,2)] assms(3)]
      stretch [OF assms(5) turned(2) [OF assms(2,3)] assms(2)] by linarith
  also have "\<dots> \<le> (\<bar>d\<bar> + \<bar>q\<bar>) / 10000" by (rule budget) simp_all
  finally show "\<bar>(1 + e) * (d * c - q * s) * c + (1 + f) * (d * s + q * c) * s - d\<bar> \<le> (\<bar>d\<bar> + \<bar>q\<bar>) / 10000" .
  have "\<bar>- ((1 + e) * (d * c - q * s) * s) + (1 + f) * (d * s + q * c) * c - q\<bar>
      = \<bar>(c\<^sup>2 + s\<^sup>2 - 1) * q + (- (e * (d * c - q * s) * s) + f * (d * s + q * c) * c)\<bar>"
    by (rule arg_cong [where f = abs]) (simp add: power2_eq_square algebra_simps)
  also have "\<dots> \<le> 85 / 1000000 * \<bar>q\<bar> + 2 * (1 / 10 ^ 9 * (101 / 100 * (\<bar>d\<bar> + \<bar>q\<bar>)) * (101 / 100))"
    using circle [of q] stretch [OF assms(4) turned(1) [OF assms(3,2)] assms(2)]
      stretch [OF assms(5) turned(2) [OF assms(2,3)] assms(3)] by linarith
  also have "\<dots> \<le> (\<bar>d\<bar> + \<bar>q\<bar>) / 10000" by (rule budget) simp_all
  finally show "\<bar>- ((1 + e) * (d * c - q * s) * s) + (1 + f) * (d * s + q * c) * c - q\<bar> \<le> (\<bar>d\<bar> + \<bar>q\<bar>) / 10000" .
qed



end
