(* ===== verification/Foc_Loop.thy ===== *)
theory Foc_Loop
  imports Foc_Transforms
begin

text \<open>
  The controllers: \<open>FocTorqueImpl\<close>, the shared \<open>FocWithSpeedLoop\<close>, \<open>FocSpeedImpl\<close> and
  \<open>FocPositionImpl\<close>, the automatic gains, and \<open>LowPriorityInterruptImpl\<close>. The incremental PID is a
  class of another repository: its operations are the record \<open>pid_class\<close>. A result \<open>None\<close> is a failed
  assertion or undefined behaviour.
\<close>

section \<open>Interfaces\<close>

record 'f PidTunings =
  tuneKp :: 'f
  tuneKi :: 'f
  tuneKd :: 'f

record ('p, 'f) pid_class =
  pidNew :: "'f PidTunings \<Rightarrow> 'f \<times> 'f \<Rightarrow> 'p"
  pidEnable :: "'p \<Rightarrow> 'p"
  pidDisable :: "'p \<Rightarrow> 'p"
  pidSetPoint :: "'f \<Rightarrow> 'p \<Rightarrow> 'p"
  pidSetTunings :: "'f PidTunings \<Rightarrow> 'p \<Rightarrow> 'p"
  pidProcess :: "'f \<Rightarrow> 'p \<Rightarrow> 'f \<times> 'p"

record 'f PhaseCurrents =
  currentA :: 'f
  currentB :: 'f
  currentC :: 'f

record PhasePwmDutyCycles =
  pwmA :: u8
  pwmB :: u8
  pwmC :: u8

text \<open>Calls of other objects: the low-priority interrupt and the two online estimators.\<close>

datatype 'f loop_effect =
    TriggerLowPriority
  | MechanicalUpdate "'f PhaseCurrents" 'f 'f
  | ElectricalUpdate 'f 'f 'f 'f

definition zero_tunings :: "'f float_arith \<Rightarrow> 'f PidTunings" where
  "zero_tunings A = \<lparr>tuneKp = flit A 0 1, tuneKi = flit A 0 1, tuneKd = flit A 0 1\<rparr>"

text \<open>A PID with zero gains and symmetric limits.\<close>

definition new_pid :: "'f float_arith \<Rightarrow> ('p, 'f) pid_class \<Rightarrow> 'f \<Rightarrow> 'p" where
  "new_pid A P limit = pidNew P (zero_tunings A) (fneg A limit, limit)"

definition ToThreePhase :: "'f PhaseCurrents \<Rightarrow> 'f ThreePhase" where
  "ToThreePhase i = \<lparr>phaseA = currentA i, phaseB = currentB i, phaseC = currentC i\<rparr>"

definition ToPercent :: "'f float_arith \<Rightarrow> 'f \<Rightarrow> u8 option" where
  "ToPercent A x = map_option word_of_int (cast_uint8 A (fadd A (ftimes A x (flit A 1000 1)) (flit A 5 1)))"

definition ToDutyCycles :: "'f float_arith \<Rightarrow> 'f SvmOutput \<Rightarrow> PhasePwmDutyCycles option" where
  "ToDutyCycles A output = do {
     a \<leftarrow> ToPercent A (dutyA output);
     b \<leftarrow> ToPercent A (dutyB output);
     c \<leftarrow> ToPercent A (dutyC output);
     Some \<lparr>pwmA = a, pwmB = b, pwmC = c\<rparr> }"

section \<open>Torque\<close>

record ('p, 'f) FocTorqueImpl =
  torqueD :: 'p
  torqueQ :: 'p
  torquePolePairs :: 'f
  lastTorqueSetPoint :: "'f \<times> 'f"

definition FocTorqueImpl_init :: "'f float_arith \<Rightarrow> ('p, 'f) pid_class \<Rightarrow> ('p, 'f) FocTorqueImpl" where
  "FocTorqueImpl_init A P = \<lparr>torqueD = new_pid A P (flit A 10 1), torqueQ = new_pid A P (flit A 10 1),
     torquePolePairs = flit A 0 1, lastTorqueSetPoint = (flit A 0 1, flit A 0 1)\<rparr>"

definition Torque_SetPoint :: "('p, 'f) pid_class \<Rightarrow> 'f \<times> 'f \<Rightarrow> ('p, 'f) FocTorqueImpl \<Rightarrow> ('p, 'f) FocTorqueImpl" where
  "Torque_SetPoint P setPoint t = t\<lparr>lastTorqueSetPoint := setPoint,
     torqueD := pidSetPoint P (fst setPoint) (torqueD t), torqueQ := pidSetPoint P (snd setPoint) (torqueQ t)\<rparr>"

definition Torque_Enable :: "('p, 'f) pid_class \<Rightarrow> ('p, 'f) FocTorqueImpl \<Rightarrow> ('p, 'f) FocTorqueImpl" where
  "Torque_Enable P t = Torque_SetPoint P (lastTorqueSetPoint t)
     (t\<lparr>torqueD := pidEnable P (torqueD t), torqueQ := pidEnable P (torqueQ t)\<rparr>)"

definition Torque_Disable :: "('p, 'f) pid_class \<Rightarrow> ('p, 'f) FocTorqueImpl \<Rightarrow> ('p, 'f) FocTorqueImpl" where
  "Torque_Disable P t = t\<lparr>torqueD := pidDisable P (torqueD t), torqueQ := pidDisable P (torqueQ t)\<rparr>"

definition Torque_SetPolePairs :: "'f float_arith \<Rightarrow> nat \<Rightarrow> ('p, 'f) FocTorqueImpl \<Rightarrow> ('p, 'f) FocTorqueImpl" where
  "Torque_SetPolePairs A n t = t\<lparr>torquePolePairs := fofint A (int n)\<rparr>"

definition scale_tunings :: "'f float_arith \<Rightarrow> 'f \<Rightarrow> 'f \<Rightarrow> 'f \<Rightarrow> 'f PidTunings \<Rightarrow> 'f PidTunings" where
  "scale_tunings A x y z g = \<lparr>tuneKp = ftimes A (tuneKp g) x, tuneKi = ftimes A (tuneKi g) y, tuneKd = ftimes A (tuneKd g) z\<rparr>"

definition Torque_SetCurrentTunings ::
    "'f float_arith \<Rightarrow> ('p, 'f) pid_class \<Rightarrow> 'f \<Rightarrow> 'f PidTunings \<times> 'f PidTunings \<Rightarrow> ('p, 'f) FocTorqueImpl \<Rightarrow> ('p, 'f) FocTorqueImpl" where
  "Torque_SetCurrentTunings A P Vdc tunings t =
     (let k = fdiv A (flit A 10 1) (ftimes A (svmInvSqrt3 A) Vdc)
      in t\<lparr>torqueD := pidSetTunings P (scale_tunings A k k k (fst tunings)) (torqueD t),
           torqueQ := pidSetTunings P (scale_tunings A k k k (snd tunings)) (torqueQ t)\<rparr>)"

definition Torque_Calculate ::
    "'f float_arith \<Rightarrow> ('p, 'f) pid_class \<Rightarrow> 'f PhaseCurrents \<Rightarrow> 'f \<Rightarrow> ('p, 'f) FocTorqueImpl \<Rightarrow>
      (('p, 'f) FocTorqueImpl \<times> PhasePwmDutyCycles) option" where
  "Torque_Calculate A P currentPhases position t = do {
     let electricalAngle = ftimes A position (torquePolePairs t);
     cosTheta \<leftarrow> Cosine A electricalAngle;
     sinTheta \<leftarrow> Sine A electricalAngle;
     let idAndIq = Park_Forward A (Clarke_Forward A (ToThreePhase currentPhases)) cosTheta sinTheta;
     let (vd, d) = pidProcess P (dAxis idAndIq) (torqueD t);
     let (vq, q) = pidProcess P (qAxis idAndIq) (torqueQ t);
     duties \<leftarrow> ToDutyCycles A (Generate A (Park_Inverse A \<lparr>dAxis = vd, qAxis = vq\<rparr> cosTheta sinTheta));
     Some (t\<lparr>torqueD := d, torqueQ := q\<rparr>, duties) }"

section \<open>The shared speed loop\<close>

record 'f EstimatorSnapshot =
  snapCurrents :: "'f PhaseCurrents"
  snapAngle :: 'f
  snapId :: 'f
  snapIq :: 'f
  snapVd :: 'f

record ('p, 'f) FocWithSpeedLoop =
  speedPid :: 'p
  innerD :: 'p
  innerQ :: 'p
  currentMechanicalAngle :: 'f
  previousSpeedPosition :: 'f
  lastSpeedPidOutput :: 'f
  loopDt :: 'f
  speedDt :: 'f
  prescaler :: u32
  triggerCounter :: u32
  loopPolePairs :: 'f
  vdcInvScale :: 'f
  hasMechEstimator :: bool
  hasElecEstimator :: bool
  snapshots :: "'f EstimatorSnapshot list"
  readyIndex :: u8

definition empty_snapshot :: "'f float_arith \<Rightarrow> 'f EstimatorSnapshot" where
  "empty_snapshot A = (let z = flit A 0 1 in
     \<lparr>snapCurrents = \<lparr>currentA = z, currentB = z, currentC = z\<rparr>, snapAngle = z, snapId = z, snapIq = z, snapVd = z\<rparr>)"

text \<open>The member initialisers run before the assertions of the body, the integer division among them.\<close>

definition FocWithSpeedLoop_new ::
    "'f float_arith \<Rightarrow> ('p, 'f) pid_class \<Rightarrow> 'f \<Rightarrow> u32 \<Rightarrow> u32 \<Rightarrow> ('p, 'f) FocWithSpeedLoop option" where
  "FocWithSpeedLoop_new A P maxCurrent baseFrequency lowPriorityFrequency =
     (if lowPriorityFrequency = 0 then None
      else if \<not> (flt A (flit A 0 1) maxCurrent \<and> 0 < lowPriorityFrequency \<and> lowPriorityFrequency \<le> baseFrequency \<and>
                 baseFrequency mod lowPriorityFrequency = 0) then None
      else Some \<lparr>speedPid = pidEnable P (new_pid A P maxCurrent),
        innerD = pidEnable P (new_pid A P (flit A 10 1)), innerQ = pidEnable P (new_pid A P (flit A 10 1)),
        currentMechanicalAngle = flit A 0 1, previousSpeedPosition = flit A 0 1, lastSpeedPidOutput = flit A 0 1,
        loopDt = fdiv A (flit A 10 1) (fofint A (uint baseFrequency)),
        speedDt = fdiv A (flit A 10 1) (fofint A (uint lowPriorityFrequency)),
        prescaler = baseFrequency div lowPriorityFrequency, triggerCounter = 0,
        loopPolePairs = flit A 0 1, vdcInvScale = flit A 10 1,
        hasMechEstimator = False, hasElecEstimator = False,
        snapshots = [empty_snapshot A, empty_snapshot A], readyIndex = 0\<rparr>)"

type_synonym ('p, 'f, 'z) speed_loop = "('p, 'f, 'z) FocWithSpeedLoop_scheme"

definition SetPolePairsImpl :: "'f float_arith \<Rightarrow> nat \<Rightarrow> ('p, 'f, 'z) speed_loop \<Rightarrow> ('p, 'f, 'z) speed_loop" where
  "SetPolePairsImpl A pole l = l\<lparr>loopPolePairs := fofint A (int pole)\<rparr>"

definition SetCurrentTuningsImpl ::
    "'f float_arith \<Rightarrow> ('p, 'f) pid_class \<Rightarrow> 'f \<Rightarrow> 'f PidTunings \<times> 'f PidTunings \<Rightarrow> ('p, 'f, 'z) speed_loop \<Rightarrow> ('p, 'f, 'z) speed_loop" where
  "SetCurrentTuningsImpl A P Vdc tunings l =
     (let k = fdiv A (flit A 10 1) (ftimes A (svmInvSqrt3 A) Vdc);
          scale_dt = ftimes A k (loopDt l); scale_inv_dt = fdiv A k (loopDt l)
      in l\<lparr>innerD := pidSetTunings P (scale_tunings A k scale_dt scale_inv_dt (fst tunings)) (innerD l),
           innerQ := pidSetTunings P (scale_tunings A k scale_dt scale_inv_dt (snd tunings)) (innerQ l),
           vdcInvScale := ftimes A (svmInvSqrt3 A) Vdc\<rparr>)"

definition discretise :: "'f float_arith \<Rightarrow> 'f \<Rightarrow> 'f PidTunings \<Rightarrow> 'f PidTunings" where
  "discretise A dt g = \<lparr>tuneKp = tuneKp g, tuneKi = ftimes A (tuneKi g) dt, tuneKd = fdiv A (tuneKd g) dt\<rparr>"

definition SetSpeedTuningsImpl ::
    "'f float_arith \<Rightarrow> ('p, 'f) pid_class \<Rightarrow> 'f PidTunings \<Rightarrow> ('p, 'f, 'z) speed_loop \<Rightarrow> ('p, 'f, 'z) speed_loop" where
  "SetSpeedTuningsImpl A P speedTuning l = l\<lparr>speedPid := pidSetTunings P (discretise A (speedDt l) speedTuning) (speedPid l)\<rparr>"

definition EnableSpeedLoop :: "'f float_arith \<Rightarrow> ('p, 'f) pid_class \<Rightarrow> ('p, 'f, 'z) speed_loop \<Rightarrow> ('p, 'f, 'z) speed_loop" where
  "EnableSpeedLoop A P l = l\<lparr>speedPid := pidEnable P (speedPid l), innerD := pidEnable P (innerD l), innerQ := pidEnable P (innerQ l),
     currentMechanicalAngle := flit A 0 1, previousSpeedPosition := flit A 0 1, lastSpeedPidOutput := flit A 0 1, triggerCounter := 0\<rparr>"

definition DisableSpeedLoop :: "('p, 'f) pid_class \<Rightarrow> ('p, 'f, 'z) speed_loop \<Rightarrow> ('p, 'f, 'z) speed_loop" where
  "DisableSpeedLoop P l = l\<lparr>speedPid := pidDisable P (speedPid l), innerD := pidDisable P (innerD l), innerQ := pidDisable P (innerQ l)\<rparr>"

text \<open>The snapshot is written to the slot that is not ready and then published.\<close>

definition publish :: "'f EstimatorSnapshot \<Rightarrow> ('p, 'f, 'z) speed_loop \<Rightarrow> ('p, 'f, 'z) speed_loop" where
  "publish snapshot l =
     (let writeSlot = 1 - readyIndex l
      in l\<lparr>snapshots := (snapshots l)[unat writeSlot := snapshot], readyIndex := writeSlot\<rparr>)"

definition CalculateInnerLoop ::
    "'f float_arith \<Rightarrow> ('p, 'f) pid_class \<Rightarrow> 'f PhaseCurrents \<Rightarrow> 'f \<Rightarrow> ('p, 'f, 'z) speed_loop \<Rightarrow>
      (('p, 'f, 'z) speed_loop \<times> PhasePwmDutyCycles \<times> 'f loop_effect list) option" where
  "CalculateInnerLoop A P currentPhases position l = do {
     let electricalAngle = ftimes A position (loopPolePairs l);
     let l = l\<lparr>currentMechanicalAngle := position\<rparr>;
     cosTheta \<leftarrow> Cosine A electricalAngle;
     sinTheta \<leftarrow> Sine A electricalAngle;
     let l = l\<lparr>innerQ := pidSetPoint P (lastSpeedPidOutput l) (innerQ l)\<rparr>;
     let idAndIq = Park_Forward A (Clarke_Forward A (ToThreePhase currentPhases)) cosTheta sinTheta;
     let (normalizedVd, d) = pidProcess P (dAxis idAndIq) (innerD l);
     let (normalizedVq, q) = pidProcess P (qAxis idAndIq) (innerQ l);
     let output = Generate A (Park_Inverse A \<lparr>dAxis = normalizedVd, qAxis = normalizedVq\<rparr> cosTheta sinTheta);
     let l = l\<lparr>innerD := d, innerQ := q, triggerCounter := triggerCounter l + 1\<rparr>;
     let (l, es) =
       (if prescaler l \<le> triggerCounter l
        then (publish \<lparr>snapCurrents = currentPhases, snapAngle = electricalAngle, snapId = dAxis idAndIq,
                snapIq = qAxis idAndIq, snapVd = normalizedVd\<rparr> (l\<lparr>triggerCounter := 0\<rparr>), [TriggerLowPriority])
        else (l, []));
     duties \<leftarrow> ToDutyCycles A output;
     Some (l, duties, es) }"

definition UpdateOnlineMechanicalEstimator :: "'f \<Rightarrow> ('p, 'f, 'z) speed_loop \<Rightarrow> 'f loop_effect list" where
  "UpdateOnlineMechanicalEstimator mechanicalSpeed l =
     (if \<not> hasMechEstimator l then []
      else let snapshot = snapshots l ! unat (readyIndex l)
           in [MechanicalUpdate (snapCurrents snapshot) mechanicalSpeed (snapAngle snapshot)])"

definition UpdateOnlineElectricalEstimator :: "'f float_arith \<Rightarrow> 'f \<Rightarrow> ('p, 'f, 'z) speed_loop \<Rightarrow> 'f loop_effect list" where
  "UpdateOnlineElectricalEstimator A electricalSpeed l =
     (if \<not> hasElecEstimator l then []
      else let snapshot = snapshots l ! unat (readyIndex l); physicalVd = ftimes A (snapVd snapshot) (vdcInvScale l)
           in [ElectricalUpdate physicalVd (snapId snapshot) (snapIq snapshot) electricalSpeed])"

definition SetOnlineMechanicalEstimatorImpl :: "('p, 'f, 'z) speed_loop \<Rightarrow> ('p, 'f, 'z) speed_loop" where
  "SetOnlineMechanicalEstimatorImpl l = l\<lparr>hasMechEstimator := True\<rparr>"

definition SetOnlineElectricalEstimatorImpl :: "('p, 'f, 'z) speed_loop \<Rightarrow> ('p, 'f, 'z) speed_loop" where
  "SetOnlineElectricalEstimatorImpl l = l\<lparr>hasElecEstimator := True\<rparr>"

section \<open>Speed and position\<close>

record ('p, 'f) FocSpeedImpl = "('p, 'f) FocWithSpeedLoop" +
  lastSpeedSetPoint :: 'f
  outerLoopFrequency :: u32

definition Speed_SetPoint :: "'f float_arith \<Rightarrow> ('p, 'f) pid_class \<Rightarrow> 'f \<Rightarrow> ('p, 'f) FocSpeedImpl \<Rightarrow> ('p, 'f) FocSpeedImpl" where
  "Speed_SetPoint A P point f = f\<lparr>lastSpeedSetPoint := point, speedPid := pidSetPoint P point (speedPid f),
     innerD := pidSetPoint P (flit A 0 1) (innerD f)\<rparr>"

definition FocSpeedImpl_new ::
    "'f float_arith \<Rightarrow> ('p, 'f) pid_class \<Rightarrow> 'f \<Rightarrow> u32 \<Rightarrow> u32 \<Rightarrow> ('p, 'f) FocSpeedImpl option" where
  "FocSpeedImpl_new A P maxCurrent baseFrequency lowPriorityFrequency =
     map_option (\<lambda>l. FocWithSpeedLoop.extend l (FocSpeedImpl.fields (flit A 0 1) lowPriorityFrequency))
       (FocWithSpeedLoop_new A P maxCurrent baseFrequency lowPriorityFrequency)"

definition Speed_Enable :: "'f float_arith \<Rightarrow> ('p, 'f) pid_class \<Rightarrow> ('p, 'f) FocSpeedImpl \<Rightarrow> ('p, 'f) FocSpeedImpl" where
  "Speed_Enable A P f = Speed_SetPoint A P (lastSpeedSetPoint f) (EnableSpeedLoop A P f)"

text \<open>The speed estimate, and the handler that the low-priority interrupt runs.\<close>

definition mechanical_speed :: "'f float_arith \<Rightarrow> ('p, 'f, 'z) speed_loop \<Rightarrow> 'f" where
  "mechanical_speed A l = fdiv A (PositionWithWrapAround A (fsub A (currentMechanicalAngle l) (previousSpeedPosition l))) (speedDt l)"

definition latch_position :: "('p, 'f, 'z) speed_loop \<Rightarrow> ('p, 'f, 'z) speed_loop" where
  "latch_position l = l\<lparr>previousSpeedPosition := currentMechanicalAngle l\<rparr>"

definition finish_handler :: "'f float_arith \<Rightarrow> ('p, 'f) pid_class \<Rightarrow> 'f \<Rightarrow> ('p, 'f, 'z) speed_loop \<Rightarrow> ('p, 'f, 'z) speed_loop \<times> 'f loop_effect list" where
  "finish_handler A P speed l =
     (let (output, pid) = pidProcess P speed (speedPid l);
          l = l\<lparr>speedPid := pid, lastSpeedPidOutput := output\<rparr>
      in (l, UpdateOnlineMechanicalEstimator speed l @ UpdateOnlineElectricalEstimator A (ftimes A speed (loopPolePairs l)) l))"

definition Speed_LowPriorityHandler ::
    "'f float_arith \<Rightarrow> ('p, 'f) pid_class \<Rightarrow> ('p, 'f) FocSpeedImpl \<Rightarrow> ('p, 'f) FocSpeedImpl \<times> 'f loop_effect list" where
  "Speed_LowPriorityHandler A P f = finish_handler A P (mechanical_speed A f) (latch_position f)"

record ('p, 'f) FocPositionImpl = "('p, 'f) FocWithSpeedLoop" +
  positionPid :: 'p
  lastPositionSetPoint :: 'f

definition FocPositionImpl_new ::
    "'f float_arith \<Rightarrow> ('p, 'f) pid_class \<Rightarrow> 'f \<Rightarrow> u32 \<Rightarrow> u32 \<Rightarrow> ('p, 'f) FocPositionImpl option" where
  "FocPositionImpl_new A P maxCurrent baseFrequency lowPriorityFrequency =
     map_option (\<lambda>l. FocWithSpeedLoop.extend l (FocPositionImpl.fields (pidEnable P (new_pid A P (flit A 10000 1))) (flit A 0 1)))
       (FocWithSpeedLoop_new A P maxCurrent baseFrequency lowPriorityFrequency)"

definition Position_SetPoint :: "'f float_arith \<Rightarrow> ('p, 'f) pid_class \<Rightarrow> 'f \<Rightarrow> ('p, 'f) FocPositionImpl \<Rightarrow> ('p, 'f) FocPositionImpl" where
  "Position_SetPoint A P point f = f\<lparr>lastPositionSetPoint := point, positionPid := pidSetPoint P point (positionPid f),
     innerD := pidSetPoint P (flit A 0 1) (innerD f)\<rparr>"

definition Position_SetPositionTunings ::
    "'f float_arith \<Rightarrow> ('p, 'f) pid_class \<Rightarrow> 'f PidTunings \<Rightarrow> ('p, 'f) FocPositionImpl \<Rightarrow> ('p, 'f) FocPositionImpl" where
  "Position_SetPositionTunings A P tuning f = f\<lparr>positionPid := pidSetTunings P (discretise A (speedDt f) tuning) (positionPid f)\<rparr>"

definition Position_Enable :: "'f float_arith \<Rightarrow> ('p, 'f) pid_class \<Rightarrow> ('p, 'f) FocPositionImpl \<Rightarrow> ('p, 'f) FocPositionImpl" where
  "Position_Enable A P f = Position_SetPoint A P (lastPositionSetPoint f) (EnableSpeedLoop A P (f\<lparr>positionPid := pidEnable P (positionPid f)\<rparr>))"

definition Position_Disable :: "('p, 'f) pid_class \<Rightarrow> ('p, 'f) FocPositionImpl \<Rightarrow> ('p, 'f) FocPositionImpl" where
  "Position_Disable P f = DisableSpeedLoop P (f\<lparr>positionPid := pidDisable P (positionPid f)\<rparr>)"

definition Position_LowPriorityHandler ::
    "'f float_arith \<Rightarrow> ('p, 'f) pid_class \<Rightarrow> ('p, 'f) FocPositionImpl \<Rightarrow> ('p, 'f) FocPositionImpl \<times> 'f loop_effect list" where
  "Position_LowPriorityHandler A P f =
     (let speed = mechanical_speed A f;
          f = latch_position f;
          (speedReference, pid) = pidProcess P (currentMechanicalAngle f) (positionPid f);
          f = f\<lparr>positionPid := pid\<rparr>;
          f = f\<lparr>speedPid := pidSetPoint P speedReference (speedPid f)\<rparr>
      in finish_handler A P speed f)"

section \<open>Automatic gains\<close>

definition CurrentLoopBandwidth :: "'f float_arith \<Rightarrow> u32 \<Rightarrow> 'f \<Rightarrow> 'f" where
  "CurrentLoopBandwidth A baseFrequency nyquist =
     ftimes A (ftimes A (fdiv A (fofint A (uint baseFrequency)) nyquist) (flit A 20 1)) (fpi A)"

text \<open>The tunings handed to \<open>SetCurrentTunings\<close> and \<open>SetSpeedTunings\<close>.\<close>

definition current_gains :: "'f float_arith \<Rightarrow> 'f \<Rightarrow> 'f \<Rightarrow> u32 \<Rightarrow> 'f \<Rightarrow> 'f PidTunings \<times> 'f PidTunings" where
  "current_gains A resistance inductance baseFrequency nyquist =
     (let wc = CurrentLoopBandwidth A baseFrequency nyquist;
          kp = ftimes A (ftimes A inductance (flit A 1 3)) wc; ki = ftimes A resistance wc;
          g = \<lparr>tuneKp = kp, tuneKi = ki, tuneKd = flit A 0 1\<rparr>
      in (g, g))"

definition speed_gains :: "'f float_arith \<Rightarrow> 'f \<Rightarrow> 'f \<Rightarrow> 'f \<Rightarrow> 'f PidTunings" where
  "speed_gains A inertia friction bandwidth =
     \<lparr>tuneKp = ftimes A inertia bandwidth, tuneKi = ftimes A friction bandwidth, tuneKd = flit A 0 1\<rparr>"

end
