(* ===== verification/Foc_Modulation.thy ===== *)
theory Foc_Modulation
  imports Foc_Transforms
begin

text \<open>
  Space vector modulation and angle wrap-around: bounds under any rounding, and the exact
  behaviour without rounding.
\<close>

section \<open>Duty cycles\<close>

context float_order
begin

lemma Clip_bounds: "fle A (flit A 0 1) (Clip A x) \<and> fle A (Clip A x) (flit A 10 1)"
  unfolding Clip_def by (rule clamp_bounds [OF zero_le_one])

lemma Clip_percent:
  obtains n where "cast_uint8 A (fadd A (ftimes A (Clip A x) (flit A 1000 1)) (flit A 5 1)) = Some n" "0 \<le> n" "n \<le> 100"
  using percent_bounds Clip_bounds by blast

end

section \<open>Without rounding\<close>

text \<open>The three phase voltages the modulator works with.\<close>

definition phase_voltages :: "real TwoPhase \<Rightarrow> real ThreePhase" where
  "phase_voltages v = \<lparr>phaseA = alphaAxis v,
     phaseB = - (alphaAxis v / 2) + svmSqrt3Div2 exact * betaAxis v,
     phaseC = - (alphaAxis v / 2) - svmSqrt3Div2 exact * betaAxis v\<rparr>"

lemma Clip_exact: "Clip exact x = max 0 (min (x * svmInvSqrt3 exact + 1 / 2) 1)"
  by (simp add: Clip_def clamp_def max_def min_def)

lemma Clip_unit: "Clip exact x \<in> {0..1}"
  by (simp add: Clip_exact)

lemma line_voltage:
  fixes a b p q k :: real
  assumes "a\<^sup>2 + b\<^sup>2 \<le> 1" and "(p\<^sup>2 + q\<^sup>2) * k\<^sup>2 \<le> 1"
  shows "\<bar>(p * a + q * b) * k\<bar> \<le> 1"
proof -
  have "(p * a + q * b)\<^sup>2 + (p * b - q * a)\<^sup>2 = (p\<^sup>2 + q\<^sup>2) * (a\<^sup>2 + b\<^sup>2)" by (simp add: power2_eq_square algebra_simps)
  then have "(p * a + q * b)\<^sup>2 \<le> (p\<^sup>2 + q\<^sup>2) * (a\<^sup>2 + b\<^sup>2)" using zero_le_power2 [of "p * b - q * a"] by linarith
  also have "\<dots> \<le> (p\<^sup>2 + q\<^sup>2) * 1" using assms(1) by (intro mult_left_mono) auto
  finally have "(p * a + q * b)\<^sup>2 * k\<^sup>2 \<le> (p\<^sup>2 + q\<^sup>2) * k\<^sup>2" by (intro mult_right_mono) auto
  with assms(2) have "((p * a + q * b) * k)\<^sup>2 \<le> 1" by (simp add: power_mult_distrib)
  then show ?thesis by (simp add: abs_square_le_1)
qed

definition centre :: "real \<Rightarrow> real \<Rightarrow> real \<Rightarrow> real" where
  "centre x y z = - ((max (max x y) z + min (min x y) z) / 2)"

lemma centred:
  assumes "\<bar>x - y\<bar> \<le> 1" "\<bar>y - z\<bar> \<le> 1" "\<bar>x - z\<bar> \<le> 1"
  defines "m \<equiv> centre x y z + 1 / 2"
  shows "0 \<le> x + m" "x + m \<le> 1" "0 \<le> y + m" "y + m \<le> 1" "0 \<le> z + m" "z + m \<le> 1"
    "max (x + m) (max (y + m) (z + m)) + min (x + m) (min (y + m) (z + m)) = 1"
proof -
  define M n where "M = max (max x y) z" and "n = min (min x y) z"
  have bounds: "x \<le> M" "y \<le> M" "z \<le> M" "n \<le> x" "n \<le> y" "n \<le> z" by (simp_all add: M_def n_def)
  have "M - n \<le> 1" using assms(1-3) by (auto simp: M_def n_def max_def min_def)
  moreover have m: "m = - ((M + n) / 2) + 1 / 2" by (simp add: m_def centre_def M_def n_def)
  ultimately show "0 \<le> x + m" "x + m \<le> 1" "0 \<le> y + m" "y + m \<le> 1" "0 \<le> z + m" "z + m \<le> 1"
    using bounds by (simp_all add: field_simps)
  have "max (x + m) (max (y + m) (z + m)) = M + m" "min (x + m) (min (y + m) (z + m)) = n + m"
    by (simp_all add: M_def n_def max_add_distrib_left min_add_distrib_left max.assoc min.assoc)
  then show "max (x + m) (max (y + m) (z + m)) + min (x + m) (min (y + m) (z + m)) = 1" by (simp add: m)
qed

text \<open>C31 (modulation). For a voltage inside the unit circle nothing is clipped: the differences of the
  duty cycles are the line voltages times the modulator's \<open>1/\<surd>3\<close>, the largest and the smallest duty
  cycle are placed symmetrically about one half, and all lie between 0 and 1. The bounds hold for
  every voltage.\<close>

theorem modulation_is_linear:
  assumes "(alphaAxis v)\<^sup>2 + (betaAxis v)\<^sup>2 \<le> 1"
  shows "let d = Generate exact v; p = phase_voltages v; k = svmInvSqrt3 exact in
    dutyA d - dutyB d = (phaseA p - phaseB p) * k \<and> dutyB d - dutyC d = (phaseB p - phaseC p) * k \<and>
    max (dutyA d) (max (dutyB d) (dutyC d)) + min (dutyA d) (min (dutyB d) (dutyC d)) = 1 \<and>
    {dutyA (Generate exact w), dutyB (Generate exact w), dutyC (Generate exact w)} \<subseteq> {0..1}"
proof -
  define a b c k where "a = phaseA (phase_voltages v)" and "b = phaseB (phase_voltages v)"
    and "c = phaseC (phase_voltages v)" and "k = svmInvSqrt3 exact"
  note defs = a_def b_def c_def k_def phase_voltages_def svmInvSqrt3_def svmSqrt3Div2_def
  have k: "0 < k" by (simp add: k_def svmInvSqrt3_def)
  define m where "m = (max (max a b) c + min (min a b) c) * - (1 / 2)"
  have gen: "Generate exact v = \<lparr>dutyA = Clip exact (a + m), dutyB = Clip exact (b + m), dutyC = Clip exact (c + m)\<rparr>"
    by (simp add: Generate_def Let_def m_def a_def b_def c_def phase_voltages_def mult.commute)
  have "\<bar>(a - b) * k\<bar> \<le> 1" "\<bar>(b - c) * k\<bar> \<le> 1" "\<bar>(a - c) * k\<bar> \<le> 1"
    using line_voltage [OF assms, of "3 / 2" "- 866025403784438 / 10 ^ 15" k]
      line_voltage [OF assms, of 0 "2 * 866025403784438 / 10 ^ 15" k]
      line_voltage [OF assms, of "3 / 2" "866025403784438 / 10 ^ 15" k]
    by (simp_all add: defs power2_eq_square algebra_simps)
  then have near: "\<bar>a * k - b * k\<bar> \<le> 1" "\<bar>b * k - c * k\<bar> \<le> 1" "\<bar>a * k - c * k\<bar> \<le> 1"
    by (simp_all only: left_diff_distrib)
  have "max (max (a * k) (b * k)) (c * k) = max (max a b) c * k" "min (min (a * k) (b * k)) (c * k) = min (min a b) c * k"
    using k by (simp_all add: max_mult_distrib_right min_mult_distrib_right)
  then have m: "m * k = centre (a * k) (b * k) (c * k)" by (simp add: m_def centre_def algebra_simps)
  have clip: "Clip exact (x + m) = max 0 (min (x * k + centre (a * k) (b * k) (c * k) + 1 / 2) 1)" for x
    unfolding Clip_exact k_def [symmetric] distrib_right m ..
  have linear: "dutyA (Generate exact v) = a * k + centre (a * k) (b * k) (c * k) + 1 / 2"
      "dutyB (Generate exact v) = b * k + centre (a * k) (b * k) (c * k) + 1 / 2"
      "dutyC (Generate exact v) = c * k + centre (a * k) (b * k) (c * k) + 1 / 2"
    using centred(1-6) [OF near] by (simp_all add: gen clip)
  have "{dutyA (Generate exact w), dutyB (Generate exact w), dutyC (Generate exact w)} \<subseteq> {0..1}"
    by (simp only: Generate_def Let_def SvmOutput.simps insert_subset Clip_unit empty_subsetI simp_thms)
  then show ?thesis
    unfolding Let_def linear a_def [symmetric] b_def [symmetric] c_def [symmetric] k_def [symmetric]
    using centred(7) [OF near] by (simp add: left_diff_distrib)
qed

theorem modulation_is_linear_witness:
  "dutyA (Generate exact \<lparr>alphaAxis = 3 / 5, betaAxis = 4 / 5\<rparr>) - dutyB (Generate exact \<lparr>alphaAxis = 3 / 5, betaAxis = 4 / 5\<rparr>) =
     (9 / 10 - 4 / 5 * (866025403784438 / 10 ^ 15)) * (577350269189625 / 10 ^ 15)"
  using modulation_is_linear [of "\<lparr>alphaAxis = 3 / 5, betaAxis = 4 / 5\<rparr>" "\<lparr>alphaAxis = 3 / 5, betaAxis = 4 / 5\<rparr>"]
  by (simp add: Let_def power2_eq_square phase_voltages_def svmInvSqrt3_def svmSqrt3Div2_def)

section \<open>Wrap-around\<close>

text \<open>The difference of two angles of one turn is brought back to one turn, and is changed by a whole
  turn only.\<close>

lemma wrap_exact:
  assumes "\<bar>p\<bar> \<le> 3 * pi"
  shows "\<bar>PositionWithWrapAround exact p\<bar> \<le> pi \<and>
    (\<exists>n \<in> {-1, 0, 1}. PositionWithWrapAround exact p = p + 2 * pi * n) \<and>
    (\<bar>p\<bar> \<le> pi \<longrightarrow> PositionWithWrapAround exact p = p)"
  using assms by (auto simp: PositionWithWrapAround_def Let_def abs_le_iff)

end
