(* ===== verification/Foc_Runner.thy ===== *)
theory Foc_Runner
  imports Foc_Loop Foc_Modulation
begin

text \<open>
  The runner (\<open>Runner.cpp\<close>, \<open>FocController.hpp\<close>) between the inverter and a controller, over the
  interface \<open>FocBase\<close>: the locale \<open>foc_base\<close>. The torque, speed and position controllers provide it
  under any arithmetic with the order laws.
\<close>

section \<open>The interface\<close>

definition duty_ok :: "PhasePwmDutyCycles \<Rightarrow> bool" where
  "duty_ok d \<longleftrightarrow> pwmA d \<le> 100 \<and> pwmB d \<le> 100 \<and> pwmC d \<le> 100"

datatype ('s, 'c, 'a) runner_event =
    RunnerEnable
  | RunnerDisable
  | CurrentsReady 'c 'a
  | Reconfigure "'s \<Rightarrow> 's"

datatype 'e runner_effect =
    ReadyRegistered u32
  | FocEnabled
  | FocDisabled
  | InverterStarted
  | InverterStopped
  | EncoderRead
  | PwmOutput PhasePwmDutyCycles
  | LoopEffect 'e

text \<open>The constructor registers the current callback; the destructor disables.\<close>

definition Runner_new :: "u32 \<Rightarrow> 'e runner_effect list" where
  "Runner_new baseFrequency = [ReadyRegistered baseFrequency]"

definition Runner_Enable :: "('s \<Rightarrow> 's) \<Rightarrow> 's \<Rightarrow> 's \<times> 'e runner_effect list" where
  "Runner_Enable enable foc = (enable foc, [FocEnabled, InverterStarted])"

definition Runner_Disable :: "('s \<Rightarrow> 's) \<Rightarrow> 's \<Rightarrow> 's \<times> 'e runner_effect list" where
  "Runner_Disable disable foc = (disable foc, [InverterStopped, FocDisabled])"

definition Runner_Currents ::
    "('c \<Rightarrow> 'a \<Rightarrow> 's \<Rightarrow> ('s \<times> PhasePwmDutyCycles \<times> 'e list) option) \<Rightarrow> 'c \<Rightarrow> 'a \<Rightarrow> 's \<Rightarrow> ('s \<times> 'e runner_effect list) option" where
  "Runner_Currents calculate currentPhases position foc = do {
     (foc, dutyCycles, es) \<leftarrow> calculate currentPhases position foc;
     Some (foc, [EncoderRead] @ map LoopEffect es @ [PwmOutput dutyCycles]) }"

definition Runner_destroy :: "('s \<Rightarrow> 's) \<Rightarrow> 's \<Rightarrow> 's \<times> 'e runner_effect list" where
  "Runner_destroy disable foc = Runner_Disable disable foc"

fun runner_step ::
    "('c \<Rightarrow> 'a \<Rightarrow> 's \<Rightarrow> ('s \<times> PhasePwmDutyCycles \<times> 'e list) option) \<Rightarrow> ('s \<Rightarrow> 's) \<Rightarrow> ('s \<Rightarrow> 's) \<Rightarrow>
      ('s, 'c, 'a) runner_event \<Rightarrow> 's \<Rightarrow> ('s \<times> 'e runner_effect list) option" where
  "runner_step calculate enable disable RunnerEnable foc = Some (Runner_Enable enable foc)"
| "runner_step calculate enable disable RunnerDisable foc = Some (Runner_Disable disable foc)"
| "runner_step calculate enable disable (CurrentsReady c a) foc = Runner_Currents calculate c a foc"
| "runner_step calculate enable disable (Reconfigure f) foc = Some (f foc, [])"

fun runner_steps ::
    "('c \<Rightarrow> 'a \<Rightarrow> 's \<Rightarrow> ('s \<times> PhasePwmDutyCycles \<times> 'e list) option) \<Rightarrow> ('s \<Rightarrow> 's) \<Rightarrow> ('s \<Rightarrow> 's) \<Rightarrow>
      ('s, 'c, 'a) runner_event list \<Rightarrow> 's \<Rightarrow> ('s \<times> 'e runner_effect list) option" where
  "runner_steps calculate enable disable [] foc = Some (foc, [])"
| "runner_steps calculate enable disable (ev # evs) foc = do {
     (foc, es) \<leftarrow> runner_step calculate enable disable ev foc;
     (foc, fs) \<leftarrow> runner_steps calculate enable disable evs foc;
     Some (foc, es @ fs) }"

section \<open>The monitor\<close>

text \<open>Follows a trace with the state of the controller and of the inverter. The inverter may only be on
  while the controller is enabled, and every output must be a percentage.\<close>

fun supervised :: "bool \<times> bool \<Rightarrow> 'e runner_effect list \<Rightarrow> (bool \<times> bool) option" where
  "supervised s [] = Some s"
| "supervised (foc, drive) (FocEnabled # es) = supervised (True, drive) es"
| "supervised (foc, drive) (FocDisabled # es) = (if drive then None else supervised (False, drive) es)"
| "supervised (foc, drive) (InverterStarted # es) = (if foc then supervised (foc, True) es else None)"
| "supervised (foc, drive) (InverterStopped # es) = supervised (foc, False) es"
| "supervised s (PwmOutput d # es) = (if duty_ok d then supervised s es else None)"
| "supervised s (ReadyRegistered f # es) = supervised s es"
| "supervised s (EncoderRead # es) = supervised s es"
| "supervised s (LoopEffect e # es) = supervised s es"

lemma supervised_append: "supervised s (es @ fs) = supervised s es \<bind> (\<lambda>s'. supervised s' fs)"
  by (induction s es rule: supervised.induct) auto

lemma supervised_loop: "supervised s (map LoopEffect es) = Some s"
  by (induction es) (cases s; simp)+

locale foc_base =
  fixes calculate :: "'c \<Rightarrow> 'a \<Rightarrow> 's \<Rightarrow> ('s \<times> PhasePwmDutyCycles \<times> 'e list) option"
    and enable disable :: "'s \<Rightarrow> 's"
  assumes calculate_duty: "calculate c a s = Some (s', d, es) \<Longrightarrow> duty_ok d"
begin

lemma step_supervised:
  assumes "runner_step calculate enable disable ev s = Some (s', es)" and "drive \<longrightarrow> foc"
  shows "\<exists>st. supervised (foc, drive) es = Some st \<and> (snd st \<longrightarrow> fst st)"
  using assms
  by (cases ev) (auto simp: Runner_Enable_def Runner_Disable_def Runner_Currents_def supervised_append supervised_loop simp del: split_paired_Ex
      dest: calculate_duty split: bind_splits)

lemma steps_supervised:
  assumes "runner_steps calculate enable disable evs s = Some (s', es)" and "drive \<longrightarrow> foc"
  shows "\<exists>st. supervised (foc, drive) es = Some st \<and> (snd st \<longrightarrow> fst st)"
  using assms
proof (induction evs arbitrary: s foc drive es)
  case (Cons ev evs)
  from Cons.prems(1) obtain t es1 fs where step: "runner_step calculate enable disable ev s = Some (t, es1)"
      and rest: "runner_steps calculate enable disable evs t = Some (s', fs)" and es: "es = es1 @ fs"
    by (auto split: bind_splits)
  from step_supervised [OF step Cons.prems(2)] obtain f1 i1
    where "supervised (foc, drive) es1 = Some (f1, i1)" "i1 \<longrightarrow> f1" by (metis prod.collapse)
  with Cons.IH [OF rest this(2)] es show ?case by (simp add: supervised_append)
qed simp

text \<open>Whatever happened before, the destructor leaves both off.\<close>

lemma destroyed:
  assumes "runner_steps calculate enable disable evs s = Some (s', es)"
  shows "supervised (False, False) (Runner_new f @ es @ snd (Runner_destroy disable s')) = Some (False, False)"
proof -
  obtain foc drive where "supervised (False, False) es = Some (foc, drive)"
    using steps_supervised [OF assms, of False False] by (metis prod.collapse)
  then show ?thesis
    by (simp add: supervised_append Runner_new_def Runner_destroy_def Runner_Disable_def)
qed

end

section \<open>Providers\<close>

definition torque_calculate ::
    "'f float_arith \<Rightarrow> ('p, 'f) pid_class \<Rightarrow> 'f PhaseCurrents \<Rightarrow> 'f \<Rightarrow> ('p, 'f) FocTorqueImpl \<Rightarrow>
      (('p, 'f) FocTorqueImpl \<times> PhasePwmDutyCycles \<times> 'f loop_effect list) option" where
  "torque_calculate A P c a t = map_option (\<lambda>(t', d). (t', d, [])) (Torque_Calculate A P c a t)"

context float_order
begin

lemma ToPercent_Clip:
  obtains n where "ToPercent A (Clip A x) = Some n" "n \<le> 100"
proof -
  obtain n where n: "cast_uint8 A (fadd A (ftimes A (Clip A x) (flit A 1000 1)) (flit A 5 1)) = Some n" "0 \<le> n" "n \<le> 100"
    using Clip_percent by blast
  then have "(word_of_int n :: u8) \<le> 100" by (simp add: word_le_def uint_word_of_int)
  with n show ?thesis by (intro that) (simp add: ToPercent_def)
qed

lemma Generate_duties: "\<exists>d. ToDutyCycles A (Generate A v) = Some d \<and> duty_ok d"
proof -
  obtain x y z where g: "Generate A v = \<lparr>dutyA = Clip A x, dutyB = Clip A y, dutyC = Clip A z\<rparr>"
    unfolding Generate_def Let_def by blast
  obtain a where a: "ToPercent A (Clip A x) = Some a" "a \<le> 100" by (rule ToPercent_Clip)
  obtain b where b: "ToPercent A (Clip A y) = Some b" "b \<le> 100" by (rule ToPercent_Clip)
  obtain c where c: "ToPercent A (Clip A z) = Some c" "c \<le> 100" by (rule ToPercent_Clip)
  from a b c show ?thesis by (simp add: g ToDutyCycles_def duty_ok_def)
qed

lemma torque_duty: "Torque_Calculate A P c a t = Some (t', d) \<Longrightarrow> duty_ok d"
  using Generate_duties
  by (auto simp: Torque_Calculate_def Let_def split: bind_splits prod.splits) (metis option.inject)

lemma inner_duty: "CalculateInnerLoop A P c a l = Some (l', d, es) \<Longrightarrow> duty_ok d"
  using Generate_duties
  by (auto simp: CalculateInnerLoop_def Let_def split: bind_splits prod.splits if_splits) (metis option.inject)+

end

sublocale float_order \<subseteq> torque: foc_base "torque_calculate A P" "Torque_Enable P" "Torque_Disable P" for P
  by unfold_locales (auto simp: torque_calculate_def dest: torque_duty)

sublocale float_order \<subseteq> speed: foc_base "CalculateInnerLoop A P" "Speed_Enable A P" "DisableSpeedLoop P" for P
  by unfold_locales (rule inner_duty)

sublocale float_order \<subseteq> position: foc_base "CalculateInnerLoop A P" "Position_Enable A P" "Position_Disable P" for P
  by unfold_locales (rule inner_duty)

text \<open>A current sample is processed exactly when the fast sine has a value; nothing else can fail.\<close>

context float_order
begin

lemma Generate_not_None: "ToDutyCycles A (Generate A v) \<noteq> None"
  using Generate_duties [of v] by auto

lemma inner_defined:
  "CalculateInnerLoop A P c a l \<noteq> None \<longleftrightarrow>
     Cosine A (ftimes A a (loopPolePairs l)) \<noteq> None \<and> Sine A (ftimes A a (loopPolePairs l)) \<noteq> None"
  by (auto simp: Generate_not_None CalculateInnerLoop_def Let_def split: bind_splits prod.splits)

lemma torque_defined:
  "Torque_Calculate A P c a t \<noteq> None \<longleftrightarrow>
     Cosine A (ftimes A a (torquePolePairs t)) \<noteq> None \<and> Sine A (ftimes A a (torquePolePairs t)) \<noteq> None"
  by (auto simp: Generate_not_None Torque_Calculate_def Let_def split: bind_splits prod.splits)

lemmas torque_destroyed = torque.destroyed
lemmas speed_destroyed = speed.destroyed
lemmas position_destroyed = position.destroyed

end

section \<open>An instance\<close>

text \<open>A proportional controller, for examples.\<close>

definition proportional :: "(real, real) pid_class" where
  "proportional = \<lparr>pidNew = \<lambda>_ _. 0, pidEnable = (\<lambda>_. 0), pidDisable = (\<lambda>_. 0), pidSetPoint = (\<lambda>x _. x),
     pidSetTunings = (\<lambda>_ p. p), pidProcess = (\<lambda>x p. (max (- 1) (min (p - x) 1), p))\<rparr>"

lemma Sine_zero: "Sine exact 0 = Some 0" "Cosine exact 0 = Some 1"
  by (simp_all add: Let_def chk_int_def Sine_def Cosine_def pi_over_2_def lutScale_def two_pi_def cast_int_def truncate_real_def
      int_min_def int_max_def and_lutMask sineLUT_def sineTable_def)

definition no_current :: "real PhaseCurrents" where
  "no_current = \<lparr>currentA = 0, currentB = 0, currentC = 0\<rparr>"

end
