(* ===== verification/Foc_Outer_Loop.thy ===== *)
theory Foc_Outer_Loop
  imports Foc_Runner
begin

text \<open>
  The rate of the outer loop and the double buffer between the inner loop, which runs in an
  interrupt, and the low-priority handler it preempts.
\<close>

section \<open>Runs of the inner loop\<close>

fun inner_calls ::
    "'f float_arith \<Rightarrow> ('p, 'f) pid_class \<Rightarrow> ('f PhaseCurrents \<times> 'f) list \<Rightarrow> ('p, 'f, 'z) speed_loop \<Rightarrow>
      (('p, 'f, 'z) speed_loop \<times> 'f loop_effect list) option" where
  "inner_calls A P [] l = Some (l, [])"
| "inner_calls A P ((c, a) # cs) l = do {
     (l, d, es) \<leftarrow> CalculateInnerLoop A P c a l;
     (l, fs) \<leftarrow> inner_calls A P cs l;
     Some (l, es @ fs) }"

definition loop_wf :: "('p, 'f, 'z) speed_loop \<Rightarrow> bool" where
  "loop_wf l \<longleftrightarrow> length (snapshots l) = 2 \<and> readyIndex l \<le> 1 \<and> triggerCounter l < prescaler l"

text \<open>What a call leaves alone, and what it does to the counter and the buffers.\<close>

lemma inner_step:
  assumes "CalculateInnerLoop A P c a l = Some (l', d, es)"
  shows "prescaler l' = prescaler l \<and> speedDt l' = speedDt l \<and> previousSpeedPosition l' = previousSpeedPosition l \<and>
    currentMechanicalAngle l' = a \<and> loopPolePairs l' = loopPolePairs l \<and>
    (if prescaler l \<le> triggerCounter l + 1
     then triggerCounter l' = 0 \<and> es = [TriggerLowPriority] \<and> readyIndex l' = 1 - readyIndex l \<and>
       (\<exists>s. snapCurrents s = c \<and> snapshots l' = (snapshots l)[unat (1 - readyIndex l) := s])
     else triggerCounter l' = triggerCounter l + 1 \<and> es = [] \<and> readyIndex l' = readyIndex l \<and> snapshots l' = snapshots l)"
  using assms
  by (auto simp: CalculateInnerLoop_def Let_def publish_def split: bind_splits prod.splits if_splits
      intro!: exI [of _ "\<lparr>snapCurrents = c, snapAngle = _, snapId = _, snapIq = _, snapVd = _\<rparr>"])

lemma inner_calls_append:
  "inner_calls A P (cs @ ds) l = do { (l, es) \<leftarrow> inner_calls A P cs l; (l, fs) \<leftarrow> inner_calls A P ds l; Some (l, es @ fs) }"
  by (induction A P cs l rule: inner_calls.induct) (auto split: bind_splits prod.splits)

lemma ready_flip: "r \<le> 1 \<Longrightarrow> (1 :: u8) - r \<le> 1 \<and> 1 - (1 - r) = r \<and> (r = 0 \<or> r = 1)"
proof -
  assume "r \<le> 1"
  then have "unat r \<le> 1" by (simp add: word_le_nat_alt)
  then have "unat r = 0 \<or> unat r = 1" by linarith
  then have "r = 0 \<or> r = 1" by (metis unat_eq_zero unat_1 word_unat_eq_iff)
  then show ?thesis by auto
qed

lemma trigger_due:
  assumes "loop_wf l"
  shows "prescaler l \<le> triggerCounter l + 1 \<longleftrightarrow> unat (triggerCounter l) + 1 = unat (prescaler l)"
    and "unat (triggerCounter l + 1) = unat (triggerCounter l) + 1"
proof -
  have lt: "unat (triggerCounter l) < unat (prescaler l)" using assms by (simp add: loop_wf_def word_less_nat_alt)
  moreover have "unat (prescaler l) < 2 ^ 32" by (rule order_less_le_trans [OF unsigned_less]) simp
  ultimately have "unat (triggerCounter l) + 1 < 2 ^ 32" by linarith
  then show inc: "unat (triggerCounter l + 1) = unat (triggerCounter l) + 1" by (simp add: unat_word_ariths)
  show "prescaler l \<le> triggerCounter l + 1 \<longleftrightarrow> unat (triggerCounter l) + 1 = unat (prescaler l)"
    using lt inc by (auto simp: word_le_nat_alt)
qed

lemma inner_step_wf:
  assumes "loop_wf l" and "CalculateInnerLoop A P c a l = Some (l', d, es)"
  shows "loop_wf l'" and "prescaler l' = prescaler l"
    and "unat (triggerCounter l') = (unat (triggerCounter l) + 1) mod unat (prescaler l)"
    and "length (filter (\<lambda>e. e = TriggerLowPriority) es) = (unat (triggerCounter l) + 1) div unat (prescaler l)"
proof -
  note step = inner_step [OF assms(2)] and due = trigger_due [OF assms(1)]
  have lt: "unat (triggerCounter l) < unat (prescaler l)" using assms(1) by (simp add: loop_wf_def word_less_nat_alt)
  have flip: "(1 :: u8) - readyIndex l \<le> 1" using assms(1) ready_flip by (simp add: loop_wf_def)
  show "prescaler l' = prescaler l" using step by simp
  show "loop_wf l'"
    using assms(1) step flip by (auto simp: loop_wf_def word_gt_0 not_le split: if_splits)
  show "unat (triggerCounter l') = (unat (triggerCounter l) + 1) mod unat (prescaler l)"
    "length (filter (\<lambda>e. e = TriggerLowPriority) es) = (unat (triggerCounter l) + 1) div unat (prescaler l)"
    using step lt due by (auto split: if_splits)
qed

lemma inner_calls_count:
  assumes "loop_wf l" and "inner_calls A P cs l = Some (l', es)"
  shows "loop_wf l' \<and> prescaler l' = prescaler l \<and>
    unat (triggerCounter l') = (unat (triggerCounter l) + length cs) mod unat (prescaler l) \<and>
    length (filter (\<lambda>e. e = TriggerLowPriority) es) = (unat (triggerCounter l) + length cs) div unat (prescaler l)"
  using assms
proof (induction cs arbitrary: l es)
  case Nil
  then show ?case by (simp add: loop_wf_def word_less_nat_alt)
next
  case (Cons ca cs)
  obtain c a where ca: "ca = (c, a)" by (cases ca)
  from Cons.prems(2) obtain l1 d es1 es2 where step: "CalculateInnerLoop A P c a l = Some (l1, d, es1)"
      and rest: "inner_calls A P cs l1 = Some (l', es2)" and es: "es = es1 @ es2"
    by (auto simp: ca split: bind_splits)
  note one = inner_step_wf [OF Cons.prems(1) step]
  note IH = Cons.IH [OF one(1) rest]
  let ?p = "unat (prescaler l)" and ?t = "unat (triggerCounter l)"
  have p: "0 < ?p" using Cons.prems(1) by (simp add: loop_wf_def word_less_nat_alt)
  have "((?t + 1) mod ?p + length cs) mod ?p = (?t + length (ca # cs)) mod ?p" by (simp add: mod_simps)
  moreover have "(?t + 1) div ?p + ((?t + 1) mod ?p + length cs) div ?p = (?t + length (ca # cs)) div ?p"
  proof -
    have "?t + length (ca # cs) = ?p * ((?t + 1) div ?p) + ((?t + 1) mod ?p + length cs)" by simp
    then show ?thesis using p by (metis div_mult_self4 not_gr_zero)
  qed
  ultimately show ?case using IH one by (simp add: es)
qed

section \<open>The rate\<close>

lemma new_loop:
  assumes "FocWithSpeedLoop_new A P maxCurrent baseFrequency lowPriorityFrequency = Some l"
  shows "loop_wf l" "unat (triggerCounter l) = 0" "unat (prescaler l) * unat lowPriorityFrequency = unat baseFrequency"
proof -
  from assms have c: "0 < lowPriorityFrequency" "lowPriorityFrequency \<le> baseFrequency" "baseFrequency mod lowPriorityFrequency = 0"
      and l: "prescaler l = baseFrequency div lowPriorityFrequency" "triggerCounter l = 0" "readyIndex l = 0" "length (snapshots l) = 2"
    by (auto simp: FocWithSpeedLoop_new_def split: if_splits)
  have "unat baseFrequency mod unat lowPriorityFrequency = 0" using c(3) by (metis unat_mod unsigned_0)
  then show rate: "unat (prescaler l) * unat lowPriorityFrequency = unat baseFrequency"
    by (simp add: l unat_div) (metis add.right_neutral div_mult_mod_eq)
  show "unat (triggerCounter l) = 0" by (simp add: l)
  have "0 < unat baseFrequency" using c(1,2) by (simp add: word_less_nat_alt word_le_nat_alt)
  with rate have "0 < unat (prescaler l)" by (metis mult_is_0 not_gr_zero)
  then show "loop_wf l" by (simp add: loop_wf_def l(2-4) word_less_nat_alt)
qed

text \<open>C25 (outer-loop rate). In a speed or position controller that the constructor accepts, the
  low-priority interrupt is triggered exactly \<open>lowPriorityFrequency\<close> times in any run of
  \<open>baseFrequency\<close> current samples, wherever the counter stands at its start; counted from an enable,
  \<open>n\<close> samples trigger it \<open>n div prescaler\<close> times. A frequency of zero reaches the integer division of
  the initialiser before the assertion that forbids it.\<close>

theorem outer_loop_rate:
  assumes new: "FocWithSpeedLoop_new A P maxCurrent baseFrequency lowPriorityFrequency = Some l0"
    and before: "inner_calls A P bs l0 = Some (l, es0)"
    and second: "length cs = unat baseFrequency" "inner_calls A P cs l = Some (l', es)"
    and enabled: "inner_calls A P ds (EnableSpeedLoop A P l) = Some (l'', fs)"
  shows "length (filter (\<lambda>e. e = TriggerLowPriority) es) = unat lowPriorityFrequency \<and>
    length (filter (\<lambda>e. e = TriggerLowPriority) fs) = length ds div unat (prescaler l) \<and>
    FocWithSpeedLoop_new A P maxCurrent baseFrequency 0 = None"
proof -
  note l = new_loop [OF new]
  have wf: "loop_wf l" and p: "prescaler l = prescaler l0" using inner_calls_count [OF l(1) before] by simp_all
  have "unat (triggerCounter l) < unat (prescaler l)" using wf by (simp add: loop_wf_def word_less_nat_alt)
  moreover have "length cs = unat (prescaler l) * unat lowPriorityFrequency" using l(3) second(1) p by simp
  ultimately have "(unat (triggerCounter l) + length cs) div unat (prescaler l) = unat lowPriorityFrequency" by simp
  moreover have "loop_wf (EnableSpeedLoop A P l)" using wf by (auto simp: loop_wf_def EnableSpeedLoop_def word_gt_0)
  from inner_calls_count [OF this enabled]
  have "length (filter (\<lambda>e. e = TriggerLowPriority) fs) = length ds div unat (prescaler l)" by (simp add: EnableSpeedLoop_def)
  ultimately show ?thesis using inner_calls_count [OF wf second(2)] by (simp add: FocWithSpeedLoop_new_def)
qed

text \<open>With no pole pairs set, every angle is in range and every call has a result.\<close>

lemma inner_calls_defined:
  assumes "loopPolePairs l = 0"
  shows "\<exists>l' es. inner_calls exact P cs l = Some (l', es) \<and> loopPolePairs l' = 0"
  using assms
proof (induction cs arbitrary: l)
  case (Cons ca cs)
  obtain c a where ca: "ca = (c, a)" by (cases ca)
  obtain l1 d es where "CalculateInnerLoop exact P c a l = Some (l1, d, es)"
    using exact_order.inner_defined [of P c a l] Sine_zero Cons.prems by auto
  moreover from inner_step [OF this] have "loopPolePairs l1 = 0" using Cons.prems by simp
  ultimately show ?case using Cons.IH by (fastforce simp: ca)
qed simp

theorem outer_loop_rate_witness:
  "\<exists>l0 l' es. FocWithSpeedLoop_new exact proportional 15 20000 1000 = Some l0 \<and>
     inner_calls exact proportional (replicate 20000 (no_current, 0)) l0 = Some (l', es) \<and>
     length (filter (\<lambda>e. e = TriggerLowPriority) es) = 1000"
proof -
  obtain l0 where l0: "FocWithSpeedLoop_new exact proportional 15 20000 1000 = Some l0" "loopPolePairs l0 = 0"
    by (simp add: FocWithSpeedLoop_new_def)
  obtain l' es where run: "inner_calls exact proportional (replicate 20000 (no_current, 0)) l0 = Some (l', es)"
    using inner_calls_defined [OF l0(2)] by blast
  have "length (filter (\<lambda>e. e = TriggerLowPriority) es) = unat (1000 :: u32)"
    using outer_loop_rate [OF l0(1) inner_calls.simps(1) _ run inner_calls.simps(1)] by simp
  with l0 run show ?thesis by simp
qed

section \<open>Snapshots under preemption\<close>

text \<open>The handler takes a reference to the ready slot and copies its fields one by one; before each
  field the inner loop may run.\<close>

fun read_fields ::
    "'f float_arith \<Rightarrow> ('p, 'f) pid_class \<Rightarrow> nat \<Rightarrow> (('f PhaseCurrents \<times> 'f) list \<times> ('f EstimatorSnapshot \<Rightarrow> 'v)) list \<Rightarrow>
      ('p, 'f, 'z) speed_loop \<Rightarrow> ('v list \<times> ('p, 'f, 'z) speed_loop) option" where
  "read_fields A P slot [] l = Some ([], l)"
| "read_fields A P slot ((calls, g) # rs) l = do {
     (l, es) \<leftarrow> inner_calls A P calls l;
     (vs, l') \<leftarrow> read_fields A P slot rs l;
     Some (g (snapshots l ! slot) # vs, l') }"

text \<open>Before the counter has gone round twice, only the other slot has been written.\<close>

lemma ready_slot_kept:
  assumes "loop_wf l" and "inner_calls A P cs l = Some (l', es)"
  shows "(unat (triggerCounter l) + length cs < unat (prescaler l) \<longrightarrow> readyIndex l' = readyIndex l \<and> snapshots l' = snapshots l) \<and>
    (unat (triggerCounter l) + length cs < 2 * unat (prescaler l) \<longrightarrow>
       snapshots l' ! unat (readyIndex l) = snapshots l ! unat (readyIndex l))"
  using assms
proof (induction cs arbitrary: l es)
  case (Cons ca cs)
  obtain c a where ca: "ca = (c, a)" by (cases ca)
  from Cons.prems(2) obtain l1 d es1 es2 where step: "CalculateInnerLoop A P c a l = Some (l1, d, es1)"
      and rest: "inner_calls A P cs l1 = Some (l', es2)" and es: "es = es1 @ es2"
    by (auto simp: ca split: bind_splits)
  note one = inner_step_wf [OF Cons.prems(1) step] and IH = Cons.IH [OF inner_step_wf(1) [OF Cons.prems(1) step] rest]
  note due = trigger_due [OF Cons.prems(1)] and st = inner_step [OF step]
  have t: "unat (triggerCounter l) < unat (prescaler l)" using Cons.prems(1) by (simp add: loop_wf_def word_less_nat_alt)
  show ?case
  proof (cases "prescaler l \<le> triggerCounter l + 1")
    case False
    with st due t have "readyIndex l1 = readyIndex l" "snapshots l1 = snapshots l" "unat (triggerCounter l1) = unat (triggerCounter l) + 1"
      by simp_all
    with IH one(2) show ?thesis by simp
  next
    case True
    then obtain s where s: "snapshots l1 = (snapshots l)[unat (1 - readyIndex l) := s]" "unat (triggerCounter l1) = 0" using st by auto
    have "readyIndex l = 0 \<or> readyIndex l = 1" using ready_flip Cons.prems(1) by (simp add: loop_wf_def)
    then have "snapshots l1 ! unat (readyIndex l) = snapshots l ! unat (readyIndex l)" by (auto simp: s)
    moreover have "snapshots l' = snapshots l1" if "length cs < unat (prescaler l)"
      using IH that s(2) one(2) by simp
    ultimately show ?thesis using True due(1) by auto
  qed
qed simp

lemma read_fields_kept:
  assumes "loop_wf l0" and "inner_calls A P pre l0 = Some (l, es)"
    and "length pre + length (concat (map fst rs)) \<le> unat (prescaler l0)"
    and "read_fields A P (unat (readyIndex l0)) rs l = Some (vs, l')"
  shows "vs = map (\<lambda>(cs, g). g (snapshots l0 ! unat (readyIndex l0))) rs"
  using assms(2-)
proof (induction rs arbitrary: pre l es vs)
  case (Cons r rs)
  obtain cs g where r: "r = (cs, g)" by (cases r)
  from Cons.prems(3) obtain l1 es1 vs' where calls: "inner_calls A P cs l = Some (l1, es1)"
      and rest: "read_fields A P (unat (readyIndex l0)) rs l1 = Some (vs', l')"
      and vs: "vs = g (snapshots l1 ! unat (readyIndex l0)) # vs'"
    by (auto simp: r split: bind_splits)
  have run: "inner_calls A P (pre @ cs) l0 = Some (l1, es @ es1)"
    using Cons.prems(1) calls by (simp add: inner_calls_append)
  have "unat (triggerCounter l0) < unat (prescaler l0)" using assms(1) by (simp add: loop_wf_def word_less_nat_alt)
  moreover have "length (pre @ cs) \<le> unat (prescaler l0)" using Cons.prems(2) r by simp
  ultimately have "snapshots l1 ! unat (readyIndex l0) = snapshots l0 ! unat (readyIndex l0)"
    using ready_slot_kept [OF assms(1) run] by simp
  moreover have "vs' = map (\<lambda>(cs, g). g (snapshots l0 ! unat (readyIndex l0))) rs"
    using Cons.IH [OF run _ rest] Cons.prems(2) r by simp
  ultimately show ?case by (simp add: vs r)
qed simp

definition unit_currents :: "real PhaseCurrents" where
  "unit_currents = \<lparr>currentA = 1, currentB = 1, currentC = 1\<rparr>"

lemma torn_snapshot:
  "\<exists>k k'. FocWithSpeedLoop_new exact proportional 15 20000 20000 = Some k \<and>
     read_fields exact proportional 0
       [([], currentA \<circ> snapCurrents), ([(unit_currents, 0), (unit_currents, 0)], currentB \<circ> snapCurrents)] k = Some ([0, 1], k')"
proof -
  obtain k where k: "FocWithSpeedLoop_new exact proportional 15 20000 20000 = Some k" "loopPolePairs k = 0" "prescaler k = 1"
      "triggerCounter k = 0" "readyIndex k = 0" "snapshots k = [empty_snapshot exact, empty_snapshot exact]"
    by (simp add: FocWithSpeedLoop_new_def)
  obtain k1 d es where one: "CalculateInnerLoop exact proportional unit_currents 0 k = Some (k1, d, es)"
    using exact_order.inner_defined [of proportional unit_currents 0 k] Sine_zero k(2) by auto
  note s1 = inner_step [OF this]
  obtain k2 d' es' where two: "CalculateInnerLoop exact proportional unit_currents 0 k1 = Some (k2, d', es')"
    using exact_order.inner_defined [of proportional unit_currents 0 k1] Sine_zero k(2) s1 by auto
  note s2 = inner_step [OF this]
  have "snapCurrents (snapshots k2 ! 0) = unit_currents" using s1 s2 k by auto
  then show ?thesis using k one two by (auto simp: empty_snapshot_def Let_def unit_currents_def)
qed



end
