(* ===== verification/Motor_Alignment.thy ===== *)
theory Motor_Alignment
  imports Foc_Runner
begin

text \<open>
  The services of the calibration share the inverter with the controllers: its calls are the
  effects of this theory. The alignment service (\<open>MotorAlignmentImpl.cpp\<close>) drives the rotor to the
  electrical angle zero and waits until the encoder has settled.
\<close>

section \<open>The shared inverter\<close>

text \<open>The inverter keeps one callback for current samples: what \<open>PhaseCurrentsReady\<close> last gave it.\<close>

datatype current_handler = IgnoreCurrents | RunnerLoop | AlignmentSampling | ResistanceSampling | MechanicalSampling

datatype 'f service_answer =
    OffsetIs "'f option"
  | ResistanceAndInductanceIs "('f \<times> 'f) option"
  | PolePairsIs "int option"
  | FrictionAndInertiaIs "('f \<times> 'f) option"

datatype 'f drive_effect =
    PhaseCurrentsReady u32 current_handler
  | ThreePhasePwmOutput PhasePwmDutyCycles
  | DriverStart
  | DriverStop
  | StartTimer nat
  | CancelTimer
  | EnableController
  | SetSpeed 'f
  | ServiceDone callback "'f service_answer"

fun service_answers :: "'f drive_effect list \<Rightarrow> (callback \<times> 'f service_answer) list" where
  "service_answers [] = []"
| "service_answers (ServiceDone cb r # es) = (cb, r) # service_answers es"
| "service_answers (e # es) = service_answers es"

lemma service_answers_append [simp]: "service_answers (es @ fs) = service_answers es @ service_answers fs"
  by (induction es rule: service_answers.induct) simp_all

text \<open>\<open>NormalizedDutyCycles\<close>, the same in the alignment and the electrical identification.\<close>

definition CentredDuty :: "'f float_arith \<Rightarrow> 'f \<Rightarrow> u8 option" where
  "CentredDuty A v = map_option word_of_int
     (cast_uint8 A (clamp A (fadd A (flit A 500 1) (ftimes A v (flit A 500 1))) (flit A 0 1) (flit A 1000 1)))"

definition NormalizedDutyCycles :: "'f float_arith \<Rightarrow> 'f ThreePhase \<Rightarrow> PhasePwmDutyCycles option" where
  "NormalizedDutyCycles A voltages = do {
     a \<leftarrow> CentredDuty A (phaseA voltages);
     b \<leftarrow> CentredDuty A (phaseB voltages);
     c \<leftarrow> CentredDuty A (phaseC voltages);
     Some \<lparr>pwmA = a, pwmB = b, pwmC = c\<rparr> }"

text \<open>The voltage vector of a given length (in percent) at an electrical angle.\<close>

definition VoltageAtAngle :: "'f float_arith \<Rightarrow> u8 \<Rightarrow> 'f \<Rightarrow> PhasePwmDutyCycles option" where
  "VoltageAtAngle A percent electricalAngle =
     (let voltage = fdiv A (fofint A (uint percent)) (flit A 1000 1)
      in NormalizedDutyCycles A (ClarkePark_Inverse A \<lparr>dAxis = voltage, qAxis = flit A 0 1\<rparr>
           (fcos A electricalAngle) (fsin A electricalAngle)))"

context float_order
begin

lemma CentredDuty_ok:
  obtains n where "CentredDuty A v = Some n" "n \<le> 100"
proof -
  obtain n where "cast_uint8 A (clamp A (fadd A (flit A 500 1) (ftimes A v (flit A 500 1))) (flit A 0 1) (flit A 1000 1)) = Some n"
      "0 \<le> n" "n \<le> 100"
    by (rule clamped_percent)
  then show ?thesis by (intro that [of "word_of_int n"]) (simp_all add: CentredDuty_def word_le_def uint_word_of_int)
qed

lemma NormalizedDutyCycles_ok:
  obtains d where "NormalizedDutyCycles A v = Some d" "duty_ok d"
proof -
  obtain a b c where "CentredDuty A (phaseA v) = Some a" "a \<le> 100" "CentredDuty A (phaseB v) = Some b" "b \<le> 100"
      "CentredDuty A (phaseC v) = Some c" "c \<le> 100"
    by (meson CentredDuty_ok)
  then show ?thesis by (intro that [of "\<lparr>pwmA = a, pwmB = b, pwmC = c\<rparr>"]) (simp_all add: NormalizedDutyCycles_def duty_ok_def)
qed

lemma VoltageAtAngle_ok:
  obtains d where "VoltageAtAngle A p x = Some d" "duty_ok d"
  unfolding VoltageAtAngle_def Let_def using NormalizedDutyCycles_ok by blast

end

section \<open>Alignment\<close>

record 'f AlignmentConfig =
  alignVoltagePercent :: u8
  alignSamplingFrequency :: u32
  maxSamples :: nat
  settledThreshold :: 'f
  settledCount :: nat

definition AlignmentConfig_default :: "'f float_arith \<Rightarrow> 'f AlignmentConfig" where
  "AlignmentConfig_default A = \<lparr>alignVoltagePercent = 20, alignSamplingFrequency = 1000, maxSamples = 500,
     settledThreshold = flit A 1 3, settledCount = 10\<rparr>"

record 'f MotorAlignmentImpl =
  alignmentConfig :: "'f AlignmentConfig"
  alignPolePairs :: nat
  currentSampleIndex :: nat
  consecutiveSettledSamples :: nat
  alignPreviousPosition :: 'f
  alignedPosition :: 'f
  onAlignmentDone :: "callback option"

definition MotorAlignmentImpl_init :: "'f float_arith \<Rightarrow> 'f MotorAlignmentImpl" where
  "MotorAlignmentImpl_init A = \<lparr>alignmentConfig = AlignmentConfig_default A, alignPolePairs = 1, currentSampleIndex = 0,
     consecutiveSettledSamples = 0, alignPreviousPosition = flit A 0 1, alignedPosition = flit A 0 1, onAlignmentDone = None\<rparr>"

text \<open>The encoder reads of an operation are its arguments.\<close>

definition ApplyAlignmentVoltage :: "'f float_arith \<Rightarrow> 'f MotorAlignmentImpl \<Rightarrow> 'f drive_effect list option" where
  "ApplyAlignmentVoltage A m = do {
     d \<leftarrow> VoltageAtAngle A (alignVoltagePercent (alignmentConfig m)) (flit A 0 1);
     Some [DriverStop, ThreePhasePwmOutput d, PhaseCurrentsReady (alignSamplingFrequency (alignmentConfig m)) AlignmentSampling] }"

definition ForceAlignment ::
    "'f float_arith \<Rightarrow> nat \<Rightarrow> 'f AlignmentConfig \<Rightarrow> callback \<Rightarrow> 'f \<Rightarrow> 'f MotorAlignmentImpl \<Rightarrow>
      ('f MotorAlignmentImpl \<times> 'f drive_effect list) option" where
  "ForceAlignment A polePairs config onDone position m =
     (if onAlignmentDone m \<noteq> None then Some (m, [])
      else do {
        let m = m\<lparr>alignPolePairs := polePairs, alignmentConfig := config, onAlignmentDone := Some onDone,
              currentSampleIndex := 0, consecutiveSettledSamples := 0, alignPreviousPosition := position\<rparr>;
        es \<leftarrow> ApplyAlignmentVoltage A m;
        Some (m, es) })"

definition CalculateAlignmentOffset ::
    "'f float_arith \<Rightarrow> 'f \<Rightarrow> 'f MotorAlignmentImpl \<Rightarrow> 'f MotorAlignmentImpl \<times> 'f drive_effect list" where
  "CalculateAlignmentOffset A position m =
     (let m = m\<lparr>alignedPosition := position\<rparr>
      in case onAlignmentDone m of
           None \<Rightarrow> (m, [DriverStop])
         | Some cb \<Rightarrow> (m\<lparr>onAlignmentDone := None\<rparr>,
             [DriverStop, ServiceDone cb (OffsetIs (Some (ftimes A (alignedPosition m) (fofint A (int (alignPolePairs m))))))]))"

definition FailToConverge :: "'f MotorAlignmentImpl \<Rightarrow> 'f MotorAlignmentImpl \<times> 'f drive_effect list" where
  "FailToConverge m = (case onAlignmentDone m of
       None \<Rightarrow> (m, [DriverStop])
     | Some cb \<Rightarrow> (m\<lparr>onAlignmentDone := None\<rparr>, [DriverStop, ServiceDone cb (OffsetIs None)]))"

definition ProcessPosition ::
    "'f float_arith \<Rightarrow> 'f \<Rightarrow> 'f \<Rightarrow> 'f MotorAlignmentImpl \<Rightarrow> 'f MotorAlignmentImpl \<times> 'f drive_effect list" where
  "ProcessPosition A currentPosition rereadPosition m =
     (let positionChange = float_abs A (fsub A currentPosition (alignPreviousPosition m));
          (m, es) =
            (if flt A positionChange (settledThreshold (alignmentConfig m))
             then let m = m\<lparr>consecutiveSettledSamples := consecutiveSettledSamples m + 1\<rparr>
                  in if settledCount (alignmentConfig m) \<le> consecutiveSettledSamples m
                     then CalculateAlignmentOffset A rereadPosition m else (m, [])
             else (m\<lparr>consecutiveSettledSamples := 0\<rparr>, []))
      in (m\<lparr>alignPreviousPosition := currentPosition\<rparr>, es))"

text \<open>The current callback: one sample, with the encoder positions it reads.\<close>

definition AlignmentSample ::
    "'f float_arith \<Rightarrow> 'f \<times> 'f \<Rightarrow> 'f MotorAlignmentImpl \<Rightarrow> 'f MotorAlignmentImpl \<times> 'f drive_effect list" where
  "AlignmentSample A positions m =
     (let m = m\<lparr>currentSampleIndex := currentSampleIndex m + 1\<rparr>
      in if maxSamples (alignmentConfig m) \<le> currentSampleIndex m then FailToConverge m
         else ProcessPosition A (fst positions) (snd positions) m)"

fun AlignmentSamples ::
    "'f float_arith \<Rightarrow> ('f \<times> 'f) list \<Rightarrow> 'f MotorAlignmentImpl \<Rightarrow> 'f MotorAlignmentImpl \<times> 'f drive_effect list" where
  "AlignmentSamples A [] m = (m, [])"
| "AlignmentSamples A (p # ps) m =
     (let (m1, es) = AlignmentSample A p m; (m2, fs) = AlignmentSamples A ps m1 in (m2, es @ fs))"

end
