(* ===== verification/Alignment_Correct.thy ===== *)
theory Alignment_Correct
  imports Motor_Alignment
begin

text \<open>
  The alignment answers exactly once, and with the declared outcome: the first sample that ends a
  long enough run of settled samples, or no convergence.
\<close>

section \<open>Runs of settled samples\<close>

definition settled_run :: "(nat \<Rightarrow> bool) \<Rightarrow> nat \<Rightarrow> nat" where
  "settled_run settled k = length (takeWhile settled (rev [1..<Suc k]))"

lemma settled_run_0 [simp]: "settled_run d 0 = 0"
  by (simp add: settled_run_def)

lemma settled_run_Suc: "settled_run d (Suc k) = (if d (Suc k) then Suc (settled_run d k) else 0)"
  by (simp add: settled_run_def)

text \<open>The first index from 1 to \<open>n\<close>, below a bound, with a property.\<close>

definition first_upto :: "(nat \<Rightarrow> bool) \<Rightarrow> nat \<Rightarrow> nat \<Rightarrow> nat option" where
  "first_upto p bound n = find p [1..<min bound (Suc n)]"

lemma find_snoc: "find p (xs @ [x]) = (case find p xs of None \<Rightarrow> if p x then Some x else None | Some y \<Rightarrow> Some y)"
  by (induction xs) auto

lemma first_upto_0 [simp]: "first_upto p bound 0 = None"
  by (simp add: first_upto_def upt_conv_Nil)

lemma first_upto_Suc:
  "first_upto p bound (Suc n) =
     (case first_upto p bound n of None \<Rightarrow> if Suc n < bound \<and> p (Suc n) then Some (Suc n) else None | Some k \<Rightarrow> Some k)"
proof (cases "Suc n < bound")
  case True
  then have b: "min bound (Suc (Suc n)) = Suc (Suc n)" "min bound (Suc n) = Suc n" by simp_all
  have "[1..<Suc (Suc n)] = [1..<Suc n] @ [Suc n]" by simp
  then show ?thesis using True unfolding first_upto_def b by (simp only: find_snoc simp_thms)
next
  case False
  then have "min bound (Suc (Suc n)) = bound" "min bound (Suc n) = bound" by simp_all
  with False show ?thesis by (simp add: first_upto_def split: option.split)
qed

text \<open>Position \<open>k\<close> of a run from \<open>p0\<close>, whether its sample is settled, and whether it ends the alignment.\<close>

definition position_at :: "'f \<Rightarrow> ('f \<times> 'f) list \<Rightarrow> nat \<Rightarrow> 'f" where
  "position_at p0 ps k = (p0 # map fst ps) ! k"

definition settled_at :: "'f float_arith \<Rightarrow> 'f AlignmentConfig \<Rightarrow> 'f \<Rightarrow> ('f \<times> 'f) list \<Rightarrow> nat \<Rightarrow> bool" where
  "settled_at A config p0 ps k \<longleftrightarrow>
     flt A (float_abs A (fsub A (position_at p0 ps k) (position_at p0 ps (k - 1)))) (settledThreshold config)"

definition aligned_at :: "'f float_arith \<Rightarrow> 'f AlignmentConfig \<Rightarrow> 'f \<Rightarrow> ('f \<times> 'f) list \<Rightarrow> nat \<Rightarrow> bool" where
  "aligned_at A config p0 ps k \<longleftrightarrow> max 1 (settledCount config) \<le> settled_run (settled_at A config p0 ps) k"

definition expected_offset ::
    "'f float_arith \<Rightarrow> nat \<Rightarrow> 'f AlignmentConfig \<Rightarrow> callback \<Rightarrow> 'f \<Rightarrow> ('f \<times> 'f) list \<Rightarrow> nat \<Rightarrow> (callback \<times> 'f service_answer) list" where
  "expected_offset A np config cb p0 ps n =
     (case first_upto (aligned_at A config p0 ps) (maxSamples config) n of
        Some k \<Rightarrow> [(cb, OffsetIs (Some (ftimes A (snd (ps ! (k - 1))) (fofint A (int np)))))]
      | None \<Rightarrow> if maxSamples config \<le> n \<and> 0 < n then [(cb, OffsetIs None)] else [])"

section \<open>The samples\<close>

lemma AlignmentSamples_snoc:
  "AlignmentSamples A (ps @ [p]) m =
     (let (m1, es) = AlignmentSamples A ps m; (m2, fs) = AlignmentSample A p m1 in (m2, es @ fs))"
  by (induction ps arbitrary: m) (simp_all add: Let_def split: prod.splits)

text \<open>Once answered, further samples answer nothing.\<close>

lemma AlignmentSample_idle:
  assumes "onAlignmentDone m = None" and "AlignmentSample A p m = (m', es)"
  shows "onAlignmentDone m' = None \<and> service_answers es = []"
  using assms
  by (auto simp: AlignmentSample_def ProcessPosition_def FailToConverge_def CalculateAlignmentOffset_def Let_def split: if_splits)

definition waiting_at ::
    "'f float_arith \<Rightarrow> nat \<Rightarrow> 'f AlignmentConfig \<Rightarrow> callback \<Rightarrow> 'f \<Rightarrow> ('f \<times> 'f) list \<Rightarrow> nat \<Rightarrow> 'f MotorAlignmentImpl \<Rightarrow> bool" where
  "waiting_at A np config cb p0 ps n m \<longleftrightarrow> onAlignmentDone m = Some cb \<and> currentSampleIndex m = n \<and>
     consecutiveSettledSamples m = settled_run (settled_at A config p0 ps) n \<and> alignPreviousPosition m = position_at p0 ps n \<and>
     alignmentConfig m = config \<and> alignPolePairs m = np"

lemma AlignmentSample_waiting:
  assumes "waiting_at A np config cb p0 ps n m" and "n < length ps" and "AlignmentSample A (ps ! n) m = (m', es)"
  shows "if maxSamples config \<le> Suc n then onAlignmentDone m' = None \<and> service_answers es = [(cb, OffsetIs None)]
    else if aligned_at A config p0 ps (Suc n)
      then onAlignmentDone m' = None \<and> service_answers es = [(cb, OffsetIs (Some (ftimes A (snd (ps ! n)) (fofint A (int np)))))]
      else waiting_at A np config cb p0 ps (Suc n) m' \<and> service_answers es = []"
proof -
  have "settled_at A config p0 ps (Suc n) \<longleftrightarrow>
      flt A (float_abs A (fsub A (fst (ps ! n)) (position_at p0 ps n))) (settledThreshold config)"
    using assms(2) by (simp add: settled_at_def position_at_def)
  moreover have "position_at p0 ps (Suc n) = fst (ps ! n)" using assms(2) by (simp add: position_at_def)
  ultimately show ?thesis
    using assms(1,3)
    by (auto simp: AlignmentSample_def ProcessPosition_def FailToConverge_def CalculateAlignmentOffset_def Let_def
        waiting_at_def aligned_at_def settled_run_Suc split: if_splits)
qed

lemma AlignmentSamples_outcome:
  assumes "waiting_at A np config cb p0 ps 0 m0" and "n \<le> length ps" and "AlignmentSamples A (take n ps) m0 = (m, es)"
  shows "service_answers es = expected_offset A np config cb p0 ps n \<and>
    (if expected_offset A np config cb p0 ps n = [] then waiting_at A np config cb p0 ps n m else onAlignmentDone m = None)"
  using assms(2,3)
proof (induction n arbitrary: m es)
  case 0
  then show ?case using assms(1) by (simp add: expected_offset_def)
next
  case (Suc n)
  obtain m1 es1 where first: "AlignmentSamples A (take n ps) m0 = (m1, es1)" by fastforce
  obtain m2 es2 where second: "AlignmentSample A (ps ! n) m1 = (m2, es2)" by fastforce
  from Suc.prems have run: "m = m2" "es = es1 @ es2"
    using AlignmentSamples_snoc [of A "take n ps" "ps ! n" m0] first second by (simp_all add: take_Suc_conv_app_nth)
  have IH: "service_answers es1 = expected_offset A np config cb p0 ps n"
      "if expected_offset A np config cb p0 ps n = [] then waiting_at A np config cb p0 ps n m1 else onAlignmentDone m1 = None"
    using Suc.IH [OF _ first] Suc.prems(1) by simp_all
  show ?case
  proof (cases "expected_offset A np config cb p0 ps n = []")
    case False
    with IH(2) AlignmentSample_idle [OF _ second] have "onAlignmentDone m2 = None" "service_answers es2 = []" by simp_all
    moreover have "expected_offset A np config cb p0 ps (Suc n) = expected_offset A np config cb p0 ps n"
      using False by (auto simp: expected_offset_def first_upto_Suc split: option.splits if_splits)
    ultimately show ?thesis using False IH(1) run by simp
  next
    case True
    with IH(2) have w: "waiting_at A np config cb p0 ps n m1" by simp
    have "n < length ps" using Suc.prems(1) by simp
    note out = AlignmentSample_waiting [OF w this second]
    have "first_upto (aligned_at A config p0 ps) (maxSamples config) n = None" "\<not> (maxSamples config \<le> n \<and> 0 < n)"
      using True by (simp_all add: expected_offset_def split: option.splits if_splits)
    then have "expected_offset A np config cb p0 ps (Suc n) =
        (if maxSamples config \<le> Suc n then [(cb, OffsetIs None)]
         else if aligned_at A config p0 ps (Suc n) then [(cb, OffsetIs (Some (ftimes A (snd (ps ! n)) (fofint A (int np)))))] else [])"
      by (simp add: expected_offset_def first_upto_Suc)
    with out True IH(1) run show ?thesis by (auto split: if_splits)
  qed
qed

section \<open>The service\<close>

lemma ForceAlignment_waiting:
  assumes "onAlignmentDone m = None" and "ForceAlignment A np config cb p0 m = Some (m0, es0)"
  shows "waiting_at A np config cb p0 ps 0 m0 \<and> service_answers es0 = []"
  using assms by (auto simp: ForceAlignment_def ApplyAlignmentVoltage_def waiting_at_def position_at_def Let_def split: bind_splits)

text \<open>C19 (alignment). Under any arithmetic that keeps the order laws an idle alignment accepts a request.
  Its answer is the position read at the first sample, before \<open>maxSamples\<close>, that ends a run of
  \<open>settledCount\<close> samples each within the threshold of the one before, times the pole pairs; without such a
  sample it is \<open>nullopt\<close> at sample \<open>maxSamples\<close>. So \<open>max 1 maxSamples\<close> samples always answer exactly once,
  and a request made meanwhile is neither answered nor reported.\<close>

theorem alignment_outcome:
  assumes "float_order A" and idle: "onAlignmentDone m = None"
  shows "\<exists>m0 es0. ForceAlignment A np config cb p0 m = Some (m0, es0) \<and> service_answers es0 = [] \<and>
    (let (m1, es) = AlignmentSamples A ps m0 in
       service_answers es = expected_offset A np config cb p0 ps (length ps) \<and>
       (if max 1 (maxSamples config) \<le> length ps then length (service_answers es) = 1 \<and> onAlignmentDone m1 = None
        else onAlignmentDone m1 = Some cb \<or> length (service_answers es) = 1)) \<and>
    (\<forall>np' config' cb' p0'. ForceAlignment A np' config' cb' p0' m0 = Some (m0, []))"
proof -
  obtain d where "VoltageAtAngle A (alignVoltagePercent config) (flit A 0 1) = Some d"
    using float_order.VoltageAtAngle_ok [OF assms(1)] by blast
  then obtain m0 es0 where start: "ForceAlignment A np config cb p0 m = Some (m0, es0)"
    using idle by (simp add: ForceAlignment_def ApplyAlignmentVoltage_def Let_def)
  note w = ForceAlignment_waiting [OF idle start]
  obtain m1 es where run: "AlignmentSamples A ps m0 = (m1, es)" by fastforce
  then have "AlignmentSamples A (take (length ps) ps) m0 = (m1, es)" by simp
  from AlignmentSamples_outcome [OF conjunct1 [OF w] order_refl this]
  have out: "service_answers es = expected_offset A np config cb p0 ps (length ps)"
      "if expected_offset A np config cb p0 ps (length ps) = [] then waiting_at A np config cb p0 ps (length ps) m1 else onAlignmentDone m1 = None"
    by simp_all
  have len: "length (expected_offset A np config cb p0 ps (length ps)) \<le> 1"
    "max 1 (maxSamples config) \<le> length ps \<Longrightarrow> expected_offset A np config cb p0 ps (length ps) \<noteq> []"
    by (auto simp: expected_offset_def split: option.splits)
  have busy: "ForceAlignment A np' config' cb' p0' m0 = Some (m0, [])" for np' config' cb' p0'
    using w by (simp add: ForceAlignment_def waiting_at_def)
  have "if max 1 (maxSamples config) \<le> length ps then length (service_answers es) = 1 \<and> onAlignmentDone m1 = None
        else onAlignmentDone m1 = Some cb \<or> length (service_answers es) = 1"
    using out len by (cases "expected_offset A np config cb p0 ps (length ps)") (auto simp: waiting_at_def split: if_splits)
  with start run out(1) w busy show ?thesis by auto
qed

theorem alignment_outcome_witness:
  "\<exists>m0 es0 m1 es. ForceAlignment exact 4 \<lparr>alignVoltagePercent = 20, alignSamplingFrequency = 1000, maxSamples = 3, settledThreshold = 1, settledCount = 1\<rparr>
       9 (5 :: real) (MotorAlignmentImpl_init exact) = Some (m0, es0) \<and>
     AlignmentSamples exact [(2, 2), (2, 3), (2, 2)] m0 = (m1, es) \<and> service_answers es = [(9, OffsetIs (Some 12))]"
proof -
  let ?c = "\<lparr>alignVoltagePercent = 20, alignSamplingFrequency = 1000, maxSamples = 3, settledThreshold = 1 :: real, settledCount = 1\<rparr>"
  have idle: "onAlignmentDone (MotorAlignmentImpl_init exact) = None" by (simp add: MotorAlignmentImpl_init_def)
  let ?ps = "[(2, 2), (2, 3), (2, 2)] :: (real \<times> real) list"
  have e: "expected_offset exact 4 ?c 9 5 ?ps (length ?ps) = [(9, OffsetIs (Some 12))]"
    by (simp add: expected_offset_def first_upto_def upt_rec aligned_at_def settled_run_def settled_at_def position_at_def)
  obtain m0 es0 where s: "ForceAlignment exact 4 ?c 9 5 (MotorAlignmentImpl_init exact) = Some (m0, es0)"
      and r: "case AlignmentSamples exact ?ps m0 of (m1, es) \<Rightarrow> service_answers es = expected_offset exact 4 ?c 9 5 ?ps (length ?ps)"
    using alignment_outcome [OF exact_order.float_order_axioms idle, of 4 ?c 9 5 ?ps] unfolding Let_def case_prod_beta by blast
  obtain m1 es where run: "AlignmentSamples exact ?ps m0 = (m1, es)" by fastforce
  have "service_answers es = [(9, OffsetIs (Some 12))]" using r unfolding run e by simp
  with s run show ?thesis by blast
qed

end
