(* ===== verification/Electrical_Ident.thy ===== *)
theory Electrical_Ident
  imports Motor_Alignment
begin

text \<open>
  The electrical identification (\<open>ElectricalParametersIdentificationImpl.cpp\<close>): resistance and
  inductance from a current step, the number of pole pairs from a slow rotation of the field. A call
  of an empty completion and an insertion into a full bounded container have no result.
\<close>

section \<open>Configuration and state\<close>

datatype WindingConfiguration = Wye | Delta

record ResistanceAndInductanceConfig =
  testVoltagePercent :: u8
  settleTime :: nat
  windingConfig :: WindingConfiguration

record PolePairsConfig =
  ppVoltagePercent :: u8
  electricalRevolutions :: nat
  settleTimeBetweenSteps :: nat

datatype settle_timer = SettleResistance | SettleStep

record 'f ElectricalParametersIdentificationImpl =
  resistanceAndInductanceConfig :: ResistanceAndInductanceConfig
  polePairsConfig :: PolePairsConfig
  identVdc :: 'f
  currentSamples :: "'f list"
  filteredCurrentSample :: "'f list"
  stepIndex :: nat
  initialPosition :: 'f
  stepPreviousPosition :: 'f
  accumulatedRotation :: 'f
  onResistanceAndInductanceDone :: "callback option"
  onPolePairsDone :: "callback option"
  settleTimer :: "settle_timer option"

definition ElectricalIdent_new :: "'f float_arith \<Rightarrow> 'f \<Rightarrow> 'f ElectricalParametersIdentificationImpl" where
  "ElectricalIdent_new A vdc = \<lparr>
     resistanceAndInductanceConfig = \<lparr>testVoltagePercent = 15, settleTime = 2000000000, windingConfig = Wye\<rparr>,
     polePairsConfig = \<lparr>ppVoltagePercent = 10, electricalRevolutions = 5, settleTimeBetweenSteps = 50000000\<rparr>,
     identVdc = vdc, currentSamples = [], filteredCurrentSample = [], stepIndex = 0,
     initialPosition = flit A 0 1, stepPreviousPosition = flit A 0 1, accumulatedRotation = flit A 0 1,
     onResistanceAndInductanceDone = None, onPolePairsDone = None, settleTimer = None\<rparr>"

definition neutralDuty :: u8 where "neutralDuty = 1"
definition inductanceSamplesSize :: nat where "inductanceSamplesSize = 128"
definition averageFilter :: nat where "averageFilter = 5"
definition stepsPerRevolution :: nat where "stepsPerRevolution = 12"
definition identSamplingFrequency :: u32 where "identSamplingFrequency = 10000"

definition identSamplingPeriod :: "'f float_arith \<Rightarrow> 'f" where
  "identSamplingPeriod A = fdiv A (flit A 10 1) (fofint A (uint identSamplingFrequency))"

definition anglePerStep :: "'f float_arith \<Rightarrow> 'f" where
  "anglePerStep A = fdiv A (two_pi A) (fofint A (int stepsPerRevolution))"

definition minRotationThreshold :: "'f float_arith \<Rightarrow> 'f" where
  "minRotationThreshold A = fdiv A (fpi A) (flit A 20 1)"

section \<open>Resistance and inductance\<close>

definition AverageAndRemoveFront :: "'f float_arith \<Rightarrow> 'f list \<Rightarrow> 'f \<times> 'f list" where
  "AverageAndRemoveFront A deque =
     (fdiv A (foldl (fadd A) (flit A 0 1) deque) (fofint A (int (length deque))), tl deque)"

definition GetSteadyStateCurrent :: "'f float_arith \<Rightarrow> 'f list \<Rightarrow> 'f option" where
  "GetSteadyStateCurrent A samples = do {
     lastQuarter \<leftarrow> cast_int A 0 4294967295 (ftimes A (fofint A (int (length samples))) (flit A 9 1));
     if nat lastQuarter \<le> length samples
     then Some (fdiv A (foldl (fadd A) (flit A 0 1) (drop (nat lastQuarter) samples))
                  (fofint A (int (length samples - nat lastQuarter))))
     else None }"

definition GetTauFromCurrentSamples :: "'f float_arith \<Rightarrow> 'f list \<Rightarrow> 'f \<Rightarrow> 'f option" where
  "GetTauFromCurrentSamples A samples steadyStateCurrent =
     (let targetCurrent = ftimes A (flit A 632 3) steadyStateCurrent
      in map_option (\<lambda>i. fofint A (int (if averageFilter \<le> i then i - averageFilter else i)))
           (find (\<lambda>i. \<not> flt A (samples ! i) targetCurrent) [0..<length samples]))"

definition CalculateResistance :: "'f float_arith \<Rightarrow> 'f \<Rightarrow> 'f \<Rightarrow> 'f" where
  "CalculateResistance A voltage current = fdiv A voltage current"

definition CalculateInductance :: "'f float_arith \<Rightarrow> 'f \<Rightarrow> 'f \<Rightarrow> 'f" where
  "CalculateInductance A resistance tau =
     ftimes A (ftimes A (ftimes A resistance tau) (identSamplingPeriod A)) (flit A 10000 1)"

text \<open>The completion resets itself when called.\<close>

definition resistance_done ::
    "('f \<times> 'f) option \<Rightarrow> 'f ElectricalParametersIdentificationImpl \<Rightarrow>
      ('f ElectricalParametersIdentificationImpl \<times> 'f drive_effect list) option" where
  "resistance_done r s = (case onResistanceAndInductanceDone s of
       None \<Rightarrow> None
     | Some cb \<Rightarrow> Some (s\<lparr>onResistanceAndInductanceDone := None\<rparr>, [ServiceDone cb (ResistanceAndInductanceIs r)]))"

definition AnalyzeInductanceMeasures ::
    "'f float_arith \<Rightarrow> 'f ElectricalParametersIdentificationImpl \<Rightarrow>
      ('f ElectricalParametersIdentificationImpl \<times> 'f drive_effect list) option" where
  "AnalyzeInductanceMeasures A s = do {
     steadyStateCurrent \<leftarrow> GetSteadyStateCurrent A (filteredCurrentSample s);
     (s, es) \<leftarrow>
       (if \<not> flt A (flit A 0 1) steadyStateCurrent then resistance_done None s
        else let tau = GetTauFromCurrentSamples A (filteredCurrentSample s) steadyStateCurrent;
                 resistance = CalculateResistance A
                   (fdiv A (ftimes A (fofint A (uint (testVoltagePercent (resistanceAndInductanceConfig s)))) (identVdc s)) (flit A 1000 1))
                   steadyStateCurrent
             in map_option (\<lambda>(s, es). (s\<lparr>filteredCurrentSample := []\<rparr>, es))
                  (resistance_done (map_option (\<lambda>t. (resistance, CalculateInductance A resistance t)) tau) s));
     Some (s, DriverStop # es) }"

definition EstimateResistanceAndInductance ::
    "ResistanceAndInductanceConfig \<Rightarrow> callback \<Rightarrow> 'f ElectricalParametersIdentificationImpl \<Rightarrow>
      'f ElectricalParametersIdentificationImpl \<times> 'f drive_effect list" where
  "EstimateResistanceAndInductance config onDone s =
     (s\<lparr>resistanceAndInductanceConfig := config, onResistanceAndInductanceDone := Some onDone,
        currentSamples := [], filteredCurrentSample := [], settleTimer := Some SettleResistance\<rparr>,
      [PhaseCurrentsReady identSamplingFrequency IgnoreCurrents,
       ThreePhasePwmOutput \<lparr>pwmA = neutralDuty, pwmB = neutralDuty, pwmC = neutralDuty\<rparr>,
       StartTimer (settleTime config)])"

definition ResistanceSettled ::
    "'f ElectricalParametersIdentificationImpl \<Rightarrow> 'f ElectricalParametersIdentificationImpl \<times> 'f drive_effect list" where
  "ResistanceSettled s = (s,
     [PhaseCurrentsReady identSamplingFrequency ResistanceSampling,
      ThreePhasePwmOutput \<lparr>pwmA = testVoltagePercent (resistanceAndInductanceConfig s), pwmB = neutralDuty, pwmC = neutralDuty\<rparr>])"

text \<open>The current callback of the measurement.\<close>

definition ResistanceSample ::
    "'f float_arith \<Rightarrow> 'f \<Rightarrow> 'f ElectricalParametersIdentificationImpl \<Rightarrow>
      ('f ElectricalParametersIdentificationImpl \<times> 'f drive_effect list) option" where
  "ResistanceSample A current s = do {
     s \<leftarrow> (if length (currentSamples s) < averageFilter then Some (s\<lparr>currentSamples := currentSamples s @ [current]\<rparr>) else None);
     s \<leftarrow> (if length (currentSamples s) = averageFilter
          then let (average, rest) = AverageAndRemoveFront A (currentSamples s)
               in if length (filteredCurrentSample s) < inductanceSamplesSize - averageFilter
                  then Some (s\<lparr>currentSamples := rest, filteredCurrentSample := filteredCurrentSample s @ [average]\<rparr>)
                  else None
          else Some s);
     if length (filteredCurrentSample s) = inductanceSamplesSize - averageFilter
     then AnalyzeInductanceMeasures A s
     else Some (s, []) }"

fun ResistanceSamples ::
    "'f float_arith \<Rightarrow> 'f list \<Rightarrow> 'f ElectricalParametersIdentificationImpl \<Rightarrow>
      ('f ElectricalParametersIdentificationImpl \<times> 'f drive_effect list) option" where
  "ResistanceSamples A [] s = Some (s, [])"
| "ResistanceSamples A (i # is) s = do {
     (s, es) \<leftarrow> ResistanceSample A i s;
     (s, fs) \<leftarrow> ResistanceSamples A is s;
     Some (s, es @ fs) }"

section \<open>Pole pairs\<close>

definition CalculatePolePairs ::
    "'f float_arith \<Rightarrow> 'f ElectricalParametersIdentificationImpl \<Rightarrow>
      ('f ElectricalParametersIdentificationImpl \<times> 'f drive_effect list) option" where
  "CalculatePolePairs A s =
     (case onPolePairsDone s of
        None \<Rightarrow> Some (s, [DriverStop])
      | Some cb \<Rightarrow>
          let mechanicalRotation = float_abs A (accumulatedRotation s)
          in if flt A (minRotationThreshold A) mechanicalRotation
             then do {
               let revolutions = fofint A (int (electricalRevolutions (polePairsConfig s)));
               let mechanicalRevolutions = fdiv A mechanicalRotation (two_pi A);
               polePairs \<leftarrow> cast_int A 0 4294967295 (fround A (fdiv A revolutions mechanicalRevolutions));
               Some (s\<lparr>onPolePairsDone := None\<rparr>, [DriverStop, ServiceDone cb (PolePairsIs (Some polePairs))]) }
             else Some (s\<lparr>onPolePairsDone := None\<rparr>, [DriverStop, ServiceDone cb (PolePairsIs None)]))"

definition RunPolePairLogic ::
    "'f float_arith \<Rightarrow> 'f ElectricalParametersIdentificationImpl \<Rightarrow>
      ('f ElectricalParametersIdentificationImpl \<times> 'f drive_effect list) option" where
  "RunPolePairLogic A s = do {
     let electricalAngle = ftimes A (fofint A (int (stepIndex s))) (anglePerStep A);
     d \<leftarrow> VoltageAtAngle A (ppVoltagePercent (polePairsConfig s)) electricalAngle;
     Some (s\<lparr>settleTimer := Some SettleStep\<rparr>,
       [ThreePhasePwmOutput d, StartTimer (settleTimeBetweenSteps (polePairsConfig s))]) }"

definition ApplyNextElectricalAngle ::
    "'f float_arith \<Rightarrow> 'f ElectricalParametersIdentificationImpl \<Rightarrow>
      ('f ElectricalParametersIdentificationImpl \<times> 'f drive_effect list) option" where
  "ApplyNextElectricalAngle A s =
     (let totalSteps = electricalRevolutions (polePairsConfig s) * stepsPerRevolution
      in if stepIndex s < totalSteps then RunPolePairLogic A s else CalculatePolePairs A s)"

definition EstimateNumberOfPolePairs_impl ::
    "'f float_arith \<Rightarrow> PolePairsConfig \<Rightarrow> callback \<Rightarrow> 'f \<Rightarrow> 'f ElectricalParametersIdentificationImpl \<Rightarrow>
      ('f ElectricalParametersIdentificationImpl \<times> 'f drive_effect list) option" where
  "EstimateNumberOfPolePairs_impl A config onDone position s = do {
     let s = s\<lparr>polePairsConfig := config, onPolePairsDone := Some onDone, stepIndex := 0, accumulatedRotation := flit A 0 1,
           initialPosition := position, stepPreviousPosition := position\<rparr>;
     (s, es) \<leftarrow> ApplyNextElectricalAngle A s;
     Some (s, PhaseCurrentsReady identSamplingFrequency IgnoreCurrents # es) }"

definition wrap_delta :: "'f float_arith \<Rightarrow> 'f \<Rightarrow> 'f" where
  "wrap_delta A delta = fsub A delta (ftimes A (two_pi A) (ffloor A (fdiv A (fadd A delta (fpi A)) (two_pi A))))"

definition PolePairStep ::
    "'f float_arith \<Rightarrow> 'f \<Rightarrow> 'f ElectricalParametersIdentificationImpl \<Rightarrow>
      ('f ElectricalParametersIdentificationImpl \<times> 'f drive_effect list) option" where
  "PolePairStep A currentPosition s =
     (let delta = wrap_delta A (fsub A currentPosition (stepPreviousPosition s))
      in ApplyNextElectricalAngle A (s\<lparr>accumulatedRotation := fadd A (accumulatedRotation s) delta,
           stepPreviousPosition := currentPosition, stepIndex := stepIndex s + 1\<rparr>))"

text \<open>The single-shot timer both procedures share.\<close>

definition SettleTimerExpired ::
    "'f float_arith \<Rightarrow> 'f \<Rightarrow> 'f ElectricalParametersIdentificationImpl \<Rightarrow>
      ('f ElectricalParametersIdentificationImpl \<times> 'f drive_effect list) option" where
  "SettleTimerExpired A position s = (case settleTimer s of
       None \<Rightarrow> Some (s, [])
     | Some SettleResistance \<Rightarrow> Some (ResistanceSettled (s\<lparr>settleTimer := None\<rparr>))
     | Some SettleStep \<Rightarrow> PolePairStep A position (s\<lparr>settleTimer := None\<rparr>))"

fun SettleTimerExpirations ::
    "'f float_arith \<Rightarrow> 'f list \<Rightarrow> 'f ElectricalParametersIdentificationImpl \<Rightarrow>
      ('f ElectricalParametersIdentificationImpl \<times> 'f drive_effect list) option" where
  "SettleTimerExpirations A [] s = Some (s, [])"
| "SettleTimerExpirations A (p # ps) s = do {
     (s, es) \<leftarrow> SettleTimerExpired A p s;
     (s, fs) \<leftarrow> SettleTimerExpirations A ps s;
     Some (s, es @ fs) }"

end
