(* ===== verification/Electrical_Correct.thy ===== *)
theory Electrical_Correct
  imports Electrical_Ident
begin

text \<open>
  What the electrical identification measures, in exact arithmetic: the pole pairs from the net
  rotation of the shaft, the resistance from the mean of the last filtered currents.
\<close>

section \<open>Pole pairs\<close>

text \<open>An encoder reading is the shaft angle up to whole turns.\<close>

lemma wrap_delta_exact:
  assumes "- pi \<le> y - x" and "y - x < pi"
  shows "wrap_delta exact ((y + 2 * pi * of_int m) - (x + 2 * pi * of_int n)) = y - x"
proof -
  let ?d = "(y + 2 * pi * of_int m) - (x + 2 * pi * of_int n)"
  have "(?d + pi) / (2 * pi) = (y - x + pi) / (2 * pi) + of_int (m - n)" by (simp add: field_simps)
  moreover have "\<lfloor>(y - x + pi) / (2 * pi)\<rfloor> = 0" using assms by (intro floor_unique) (simp_all add: field_simps)
  ultimately have "\<lfloor>(?d + pi) / (2 * pi)\<rfloor> = m - n" by (simp only: floor_add_int) simp
  moreover have "wrap_delta exact ?d = ?d - 2 * pi * of_int \<lfloor>(?d + pi) / (2 * pi)\<rfloor>"
    by (simp add: wrap_delta_def two_pi_def)
  ultimately show ?thesis by (simp only: of_int_diff) (simp add: algebra_simps)
qed

definition stepping ::
    "PolePairsConfig \<Rightarrow> callback \<Rightarrow> (nat \<Rightarrow> real) \<Rightarrow> (nat \<Rightarrow> int) \<Rightarrow> nat \<Rightarrow> real ElectricalParametersIdentificationImpl \<Rightarrow> bool" where
  "stepping config cb \<theta> m k s \<longleftrightarrow> polePairsConfig s = config \<and> onPolePairsDone s = Some cb \<and> stepIndex s = k \<and>
     settleTimer s = Some SettleStep \<and> accumulatedRotation s = \<theta> k - \<theta> 0 \<and>
     stepPreviousPosition s = \<theta> k + 2 * pi * of_int (m k)"

lemma RunPolePairLogic_exact:
  obtains d where "RunPolePairLogic exact s = Some (s\<lparr>settleTimer := Some SettleStep\<rparr>,
    [ThreePhasePwmOutput d, StartTimer (settleTimeBetweenSteps (polePairsConfig s))])"
proof -
  obtain d where "VoltageAtAngle exact (ppVoltagePercent (polePairsConfig s)) (real (stepIndex s) * anglePerStep exact) = Some d"
    by (rule exact_order.VoltageAtAngle_ok)
  then show ?thesis by (intro that) (simp add: RunPolePairLogic_def)
qed

lemma first_step:
  assumes "0 < electricalRevolutions config"
  shows "\<exists>s' es. EstimateNumberOfPolePairs_impl exact config cb (\<theta> 0 + 2 * pi * of_int (m 0)) s = Some (s', es) \<and>
    stepping config cb \<theta> m 0 s' \<and> service_answers es = []"
proof -
  let ?p = "\<theta> 0 + 2 * pi * of_int (m 0)"
  let ?s = "s\<lparr>polePairsConfig := config, onPolePairsDone := Some cb, stepIndex := 0, accumulatedRotation := 0,
           initialPosition := ?p, stepPreviousPosition := ?p\<rparr>"
  obtain d where "RunPolePairLogic exact ?s = Some (?s\<lparr>settleTimer := Some SettleStep\<rparr>,
      [ThreePhasePwmOutput d, StartTimer (settleTimeBetweenSteps (polePairsConfig ?s))])"
    by (rule RunPolePairLogic_exact)
  with assms show ?thesis
    by (simp add: EstimateNumberOfPolePairs_impl_def ApplyNextElectricalAngle_def Let_def stepsPerRevolution_def stepping_def)
qed

text \<open>The answer for a net rotation, and a step.\<close>

definition pole_pairs_answer :: "PolePairsConfig \<Rightarrow> real \<Rightarrow> int option" where
  "pole_pairs_answer config rotation =
     (if pi / 2 < \<bar>rotation\<bar>
      then Some \<lfloor>electricalRevolutions config / (\<bar>rotation\<bar> / (2 * pi)) + 1 / 2\<rfloor> else None)"

lemma CalculatePolePairs_exact:
  assumes "onPolePairsDone s = Some cb" and "electricalRevolutions (polePairsConfig s) \<le> 1000000000"
  shows "CalculatePolePairs exact s = Some (s\<lparr>onPolePairsDone := None\<rparr>,
    [DriverStop, ServiceDone cb (PolePairsIs (pole_pairs_answer (polePairsConfig s) (accumulatedRotation s)))])"
proof (cases "pi / 2 < \<bar>accumulatedRotation s\<bar>")
  case True
  then have rot: "accumulatedRotation s \<noteq> 0" using pi_gt_zero by auto
  define x where "x = electricalRevolutions (polePairsConfig s) / (\<bar>accumulatedRotation s\<bar> / (2 * pi))"
  have "x \<le> real (electricalRevolutions (polePairsConfig s)) / (1 / 4)"
    unfolding x_def using True rot by (intro divide_left_mono) (simp_all add: field_simps)
  then have x: "0 \<le> x" "x \<le> 4000000000" using assms(2) by (simp_all add: x_def)
  then have "0 \<le> \<lfloor>x + 1 / 2\<rfloor>" "\<lfloor>x + 1 / 2\<rfloor> \<le> 4294967295" by linarith+
  then have "cast_int exact 0 4294967295 (fround exact x) = Some \<lfloor>x + 1 / 2\<rfloor>"
    by (simp add: cast_int_def exact_round [OF x(1)] truncate_real_def)
  with True assms(1) show ?thesis
    by (simp add: CalculatePolePairs_def Let_def minRotationThreshold_def two_pi_def pole_pairs_answer_def x_def)
qed (simp add: CalculatePolePairs_def Let_def minRotationThreshold_def pole_pairs_answer_def assms(1))

lemma one_step:
  assumes "stepping config cb \<theta> m k s" and "- pi \<le> \<theta> (Suc k) - \<theta> k" "\<theta> (Suc k) - \<theta> k < pi"
    and "electricalRevolutions config \<le> 1000000000"
  shows "\<exists>s' es. SettleTimerExpired exact (\<theta> (Suc k) + 2 * pi * of_int (m (Suc k))) s = Some (s', es) \<and>
    (if Suc k < electricalRevolutions config * 12 then stepping config cb \<theta> m (Suc k) s' \<and> service_answers es = []
     else settleTimer s' = None \<and> onPolePairsDone s' = None \<and>
       es = [DriverStop, ServiceDone cb (PolePairsIs (pole_pairs_answer config (\<theta> (Suc k) - \<theta> 0)))])"
proof -
  let ?p = "\<theta> (Suc k) + 2 * pi * of_int (m (Suc k))"
  let ?s = "s\<lparr>settleTimer := None, accumulatedRotation := \<theta> (Suc k) - \<theta> 0, stepPreviousPosition := ?p, stepIndex := Suc k\<rparr>"
  have "SettleTimerExpired exact ?p s = ApplyNextElectricalAngle exact ?s"
    using assms(1) wrap_delta_exact [OF assms(2,3), of "m (Suc k)" "m k"]
    by (simp add: SettleTimerExpired_def PolePairStep_def Let_def stepping_def)
  moreover have "\<exists>d. RunPolePairLogic exact ?s = Some (?s\<lparr>settleTimer := Some SettleStep\<rparr>,
      [ThreePhasePwmOutput d, StartTimer (settleTimeBetweenSteps (polePairsConfig ?s))])"
    using RunPolePairLogic_exact [of ?s] by metis
  moreover have "CalculatePolePairs exact ?s = Some (?s\<lparr>onPolePairsDone := None\<rparr>,
      [DriverStop, ServiceDone cb (PolePairsIs (pole_pairs_answer config (\<theta> (Suc k) - \<theta> 0)))])"
    using CalculatePolePairs_exact [of ?s cb] assms(1,4) by (simp add: stepping_def)
  ultimately show ?thesis
    using assms(1) by (auto simp: ApplyNextElectricalAngle_def Let_def stepsPerRevolution_def stepping_def)
qed

lemma SettleTimerExpirations_append:
  "SettleTimerExpirations A (ps @ qs) s = do {
     (s, es) \<leftarrow> SettleTimerExpirations A ps s; (s, fs) \<leftarrow> SettleTimerExpirations A qs s; Some (s, es @ fs) }"
  by (induction A ps s rule: SettleTimerExpirations.induct) (auto split: bind_splits prod.splits)

lemma steps_before_last:
  assumes start: "stepping config cb \<theta> m 0 s"
    and slow: "\<forall>k. - pi \<le> \<theta> (Suc k) - \<theta> k \<and> \<theta> (Suc k) - \<theta> k < pi"
    and revs: "electricalRevolutions config \<le> 1000000000" and n: "n < electricalRevolutions config * 12"
  shows "\<exists>s' es. SettleTimerExpirations exact (map (\<lambda>k. \<theta> k + 2 * pi * of_int (m k)) [1..<Suc n]) s = Some (s', es) \<and>
    stepping config cb \<theta> m n s' \<and> service_answers es = []"
  using n
proof (induction n)
  case 0
  then show ?case using start by simp
next
  case (Suc n)
  then obtain s1 es1 where run: "SettleTimerExpirations exact (map (\<lambda>k. \<theta> k + 2 * pi * of_int (m k)) [1..<Suc n]) s = Some (s1, es1)"
      and st: "stepping config cb \<theta> m n s1" "service_answers es1 = []" by auto
  from one_step [OF st(1)] slow revs Suc.prems obtain s2 es2 where
    "SettleTimerExpired exact (\<theta> (Suc n) + 2 * pi * of_int (m (Suc n))) s1 = Some (s2, es2)"
    "stepping config cb \<theta> m (Suc n) s2" "service_answers es2 = []" by fastforce
  moreover have "[1..<Suc (Suc n)] = [1..<Suc n] @ [Suc n]" by simp
  ultimately show ?case using run st(2) by (simp only: map_append SettleTimerExpirations_append) simp
qed


text \<open>A motor of \<open>pp\<close> pole pairs whose rotor starts \<open>j\<close> electrical turns ahead of the phase A axis and then
  follows the field. The first step only aligns it, so it turns by \<open>revolutions - 1/12 - j\<close> electrical turns.\<close>

definition ideal_motor :: "nat \<Rightarrow> real \<Rightarrow> nat \<Rightarrow> real" where
  "ideal_motor pp j k = (if k = 0 then j else (k - 1) / 12) * (2 * pi / pp)"

lemma ideal_motor_slow:
  assumes "0 < pp" "- (1 / 2) < j" "j \<le> 1 / 2"
  shows "- pi \<le> ideal_motor pp j (Suc k) - ideal_motor pp j k \<and> ideal_motor pp j (Suc k) - ideal_motor pp j k < pi"
proof -
  let ?e = "2 * pi / real pp"
  have e: "0 < ?e" "?e \<le> 2 * pi" using assms(1) by (simp_all add: field_simps)
  have turned: "- pi \<le> x * ?e \<and> x * ?e < pi" if "- (1 / 2) \<le> x" "x < 1 / 2" for x
  proof -
    have "x * ?e < 1 / 2 * ?e" using that e by (intro mult_strict_right_mono) auto
    moreover have "- (1 / 2) * ?e \<le> x * ?e" using that e by (intro mult_right_mono) auto
    ultimately show ?thesis using e by linarith
  qed
  have "ideal_motor pp j (Suc k) - ideal_motor pp j k = (if k = 0 then - j else 1 / 12) * ?e"
    by (cases k) (simp_all add: ideal_motor_def add_divide_distrib algebra_simps)
  then show ?thesis using turned [of "- j"] turned [of "1 / 12"] assms(2,3) by simp
qed

text \<open>A motor of four pole pairs that starts almost half an electrical turn ahead is measured as five.\<close>

lemma four_pole_pairs_measured_as_five:
  "pole_pairs_answer \<lparr>ppVoltagePercent = 10, electricalRevolutions = 5, settleTimeBetweenSteps = 50\<rparr>
     (ideal_motor 4 (49 / 100) 60 - ideal_motor 4 (49 / 100) 0) = Some 5"
proof -
  have turn: "ideal_motor 4 (49 / 100) 60 - ideal_motor 4 (49 / 100) 0 = (664 / 300) * pi"
    by (simp add: ideal_motor_def)
  have "\<lfloor>5 / ((664 / 300) * pi / (2 * pi)) + 1 / 2 :: real\<rfloor> = 5" by simp
  then show ?thesis by (simp add: pole_pairs_answer_def turn abs_mult)
qed


end
