(* ===== verification/Resistance_Correct.thy ===== *)
theory Resistance_Correct
  imports Electrical_Ident
begin

text \<open>
  The resistance and inductance measurement: 127 current samples are averaged over windows of five
  and analysed once; what the answer is, and what a sample after a failed measurement does.
\<close>

section \<open>The averaging window\<close>

definition window :: "'f float_arith \<Rightarrow> 'f list \<Rightarrow> nat \<Rightarrow> 'f" where
  "window A is j = fdiv A (foldl (fadd A) (flit A 0 1) (take 5 (drop j is))) (fofint A 5)"

definition measuring :: "'f float_arith \<Rightarrow> ResistanceAndInductanceConfig \<Rightarrow> 'f \<Rightarrow> callback \<Rightarrow> 'f list \<Rightarrow> nat \<Rightarrow>
    'f ElectricalParametersIdentificationImpl \<Rightarrow> bool" where
  "measuring A config vdc cb is n s \<longleftrightarrow> currentSamples s = drop (n - 4) (take n is) \<and>
     filteredCurrentSample s = map (window A is) [0..<n - 4] \<and> onResistanceAndInductanceDone s = Some cb \<and>
     resistanceAndInductanceConfig s = config \<and> identVdc s = vdc"

lemma last_window:
  assumes "4 \<le> n" "n < length is"
  shows "drop (n - 4) (take n is) @ [is ! n] = take 5 (drop (n - 4) is)"
    and "tl (take 5 (drop (n - 4) is)) = drop (Suc n - 4) (take (Suc n) is)"
proof -
  have e: "n - 3 = Suc (n - 4)" using assms(1) by simp
  have "drop (n - 4) (take n is) @ [is ! n] = drop (n - 4) (take (Suc n) is)"
    using assms by (simp add: take_Suc_conv_app_nth)
  also have "\<dots> = take (Suc n - (n - 4)) (drop (n - 4) is)" by (rule drop_take)
  also have "Suc n - (n - 4) = 5" using assms by simp
  finally show w: "drop (n - 4) (take n is) @ [is ! n] = take 5 (drop (n - 4) is)" .
  have "tl (drop (n - 4) (take (Suc n) is)) = drop (Suc n - 4) (take (Suc n) is)"
    by (simp add: e drop_Suc tl_drop)
  moreover have "take 5 (drop (n - 4) is) = drop (n - 4) (take (Suc n) is)"
    using assms by (simp add: w [symmetric] take_Suc_conv_app_nth)
  ultimately show "tl (take 5 (drop (n - 4) is)) = drop (Suc n - 4) (take (Suc n) is)" by simp
qed

lemma ResistanceSample_measuring:
  assumes m: "measuring A config vdc cb is n s" and n: "n < length is" "n \<le> 126"
  shows "\<exists>s'. measuring A config vdc cb is (Suc n) s' \<and>
    ResistanceSample A (is ! n) s = (if n = 126 then AnalyzeInductanceMeasures A s' else Some (s', []))"
proof (cases "n < 4")
  case True
  then have "measuring A config vdc cb is (Suc n) (s\<lparr>currentSamples := currentSamples s @ [is ! n]\<rparr>)"
    using m n by (simp add: measuring_def take_Suc_conv_app_nth)
  moreover have "ResistanceSample A (is ! n) s = Some (s\<lparr>currentSamples := currentSamples s @ [is ! n]\<rparr>, [])"
    using m n True by (simp add: ResistanceSample_def measuring_def averageFilter_def inductanceSamplesSize_def)
  ultimately show ?thesis using True by auto
next
  case False
  then have four: "4 \<le> n" by simp
  note w = last_window [OF four n(1)]
  define r where "r = drop (Suc n - 4) (take (Suc n) is)"
  define w5 where "w5 = take 5 (drop (n - 4) is)"
  let ?s = "s\<lparr>currentSamples := r, filteredCurrentSample := filteredCurrentSample s @ [window A is (n - 4)]\<rparr>"
  have len: "length (currentSamples s) = 4" "length (filteredCurrentSample s) = n - 4"
    using m four n(1) by (simp_all add: measuring_def)
  have "length w5 = 5" using four n(1) by (simp add: w5_def)
  moreover have "currentSamples s @ [is ! n] = w5" using m w(1) by (simp add: measuring_def w5_def)
  moreover have "AverageAndRemoveFront A w5 = (window A is (n - 4), r)"
    using \<open>length w5 = 5\<close> w(2) by (simp add: AverageAndRemoveFront_def window_def r_def w5_def [symmetric] del: length_take)
  moreover have "n - 4 < 123" "n - 4 = 122 \<longleftrightarrow> n = 126" using four n(2) by auto
  ultimately have "ResistanceSample A (is ! n) s = (if n = 126 then AnalyzeInductanceMeasures A ?s else Some (?s, []))"
    using len by (simp add: ResistanceSample_def averageFilter_def inductanceSamplesSize_def)
  moreover have "Suc n - 4 = Suc (n - 4)" using four by simp
  then have "measuring A config vdc cb is (Suc n) ?s" using m by (simp add: measuring_def r_def)
  ultimately show ?thesis by blast
qed

section \<open>The measurement\<close>

lemma ResistanceSamples_append:
  "ResistanceSamples A (xs @ ys) s = do {
     (s, es) \<leftarrow> ResistanceSamples A xs s; (s, fs) \<leftarrow> ResistanceSamples A ys s; Some (s, es @ fs) }"
  by (induction A xs s rule: ResistanceSamples.induct) (auto split: bind_splits prod.splits)

lemma before_last_sample:
  assumes "measuring A config vdc cb is 0 s" "length is = 127" "k \<le> 126"
  shows "\<exists>s'. ResistanceSamples A (take k is) s = Some (s', []) \<and> measuring A config vdc cb is k s'"
  using assms(3)
proof (induction k)
  case 0
  then show ?case using assms(1) by simp
next
  case (Suc k)
  then obtain s1 where s1: "ResistanceSamples A (take k is) s = Some (s1, [])" "measuring A config vdc cb is k s1" by auto
  from ResistanceSample_measuring [OF s1(2)] Suc.prems assms(2) obtain s2 where
    "measuring A config vdc cb is (Suc k) s2" "ResistanceSample A (is ! k) s1 = Some (s2, [])" by auto
  moreover have "take (Suc k) is = take k is @ [is ! k]" using Suc.prems assms(2) by (simp add: take_Suc_conv_app_nth)
  ultimately show ?case using s1(1) by (simp only: ResistanceSamples_append) simp
qed

text \<open>The analysis of 123 filtered currents.\<close>

definition steady_current :: "real list \<Rightarrow> real" where
  "steady_current fs = sum_list (drop 110 fs) / 13"

definition resistance_answer :: "ResistanceAndInductanceConfig \<Rightarrow> real \<Rightarrow> real list \<Rightarrow> (real \<times> real) option" where
  "resistance_answer config vdc fs =
     (let current = steady_current fs; R = real_of_int (uint (testVoltagePercent config)) * vdc / 100 / current
      in if current \<le> 0 then None
         else map_option (\<lambda>i. (R, R * real (if 5 \<le> i then i - 5 else i) / 10000 * 1000))
                (find (\<lambda>i. 632 / 1000 * current \<le> fs ! i) [0..<length fs]))"

lemma foldl_sum_list: "foldl (fadd exact) a xs = a + sum_list xs"
  by (induction xs arbitrary: a) (simp_all add: add.assoc)

lemma GetSteadyStateCurrent_exact:
  assumes "length fs = 123"
  shows "GetSteadyStateCurrent exact fs = Some (steady_current fs)"
  using assms by (simp add: GetSteadyStateCurrent_def cast_int_def truncate_real_def foldl_sum_list steady_current_def)

lemma GetTau_exact:
  "GetTauFromCurrentSamples exact fs c =
     map_option (\<lambda>i. real (if 5 \<le> i then i - 5 else i)) (find (\<lambda>i. 632 / 1000 * c \<le> fs ! i) [0..<length fs])"
  by (simp add: GetTauFromCurrentSamples_def Let_def averageFilter_def not_less cong: if_cong)

lemma analysis:
  assumes "length (filteredCurrentSample s) = 123" and "onResistanceAndInductanceDone s = Some cb"
  shows "\<exists>s'. AnalyzeInductanceMeasures exact s = Some (s', [DriverStop, ServiceDone cb (ResistanceAndInductanceIs
      (resistance_answer (resistanceAndInductanceConfig s) (identVdc s) (filteredCurrentSample s)))]) \<and>
    onResistanceAndInductanceDone s' = None \<and> currentSamples s' = currentSamples s \<and>
    (steady_current (filteredCurrentSample s) \<le> 0 \<longrightarrow> length (filteredCurrentSample s') = 123)"
proof -
  let ?c = "steady_current (filteredCurrentSample s)"
  show ?thesis
  proof (cases "?c \<le> 0")
    case True
    then show ?thesis using assms
      by (simp add: AnalyzeInductanceMeasures_def GetSteadyStateCurrent_exact resistance_done_def resistance_answer_def)
  next
    case False
    then show ?thesis using assms
      by (simp add: AnalyzeInductanceMeasures_def GetSteadyStateCurrent_exact GetTau_exact resistance_done_def resistance_answer_def
          Let_def CalculateResistance_def CalculateInductance_def identSamplingPeriod_def identSamplingFrequency_def
          option.map_comp comp_def mult_ac)
  qed
qed

text \<open>A positive current crosses the threshold, since one of the samples is at least their mean.\<close>

lemma above_mean:
  assumes "xs \<noteq> []" "\<forall>x\<in>set xs. x < (c::real)"
  shows "sum_list xs < c * length xs"
  using assms
proof (induction xs)
  case (Cons x xs)
  then show ?case by (cases xs) (auto simp: algebra_simps intro: add_strict_mono)
qed simp

lemma positive_current_answers:
  assumes "length fs = 123" "0 < steady_current fs"
  shows "resistance_answer config vdc fs \<noteq> None"
proof -
  let ?t = "632 / 1000 * steady_current fs"
  have "\<exists>i<123. ?t \<le> fs ! i"
  proof (rule ccontr)
    assume "\<not> ?thesis"
    then have "\<forall>x\<in>set (drop 110 fs). x < ?t" using assms(1) by (auto simp: in_set_conv_nth not_le)
    moreover have "drop 110 fs \<noteq> []" using assms(1) by simp
    ultimately have "sum_list (drop 110 fs) < ?t * length (drop 110 fs)" by (rule above_mean [rotated])
    then have "steady_current fs < ?t" using assms(1) by (simp add: steady_current_def)
    with assms(2) show False by simp
  qed
  then show ?thesis using assms by (auto simp: resistance_answer_def Let_def find_None_iff)
qed

text \<open>After a failed measurement the vector of filtered currents stays full.\<close>

lemma sample_into_full_vector:
  assumes "length (currentSamples s) = 4" "length (filteredCurrentSample s) = 123"
  shows "ResistanceSample A i s = None"
  using assms by (simp add: ResistanceSample_def averageFilter_def inductanceSamplesSize_def AverageAndRemoveFront_def)

text \<open>C21 (resistance and inductance). A measurement is answered exactly once, at the 127th current sample
  after the settle time, together with the stop of the inverter: \<open>nullopt\<close> when the mean of the last
  thirteen filtered currents is not positive, otherwise the applied voltage over that mean, and that
  resistance times the time to 63.2 percent of it. After a measurement that failed, the filtered currents
  are still there, and the next sample does not fit into their vector.\<close>

theorem resistance_measured:
  assumes "length is = 127" and "fs = map (window exact is) [0..<123]"
  shows "\<exists>s0 es0 s1 es1 s2. EstimateResistanceAndInductance config cb s = (s0, es0) \<and>
    SettleTimerExpired exact position s0 = Some (s1, es1) \<and> service_answers (es0 @ es1) = [] \<and>
    (\<forall>k\<le>126. \<exists>s'. ResistanceSamples exact (take k is) s1 = Some (s', [])) \<and>
    ResistanceSamples exact is s1 =
      Some (s2, [DriverStop, ServiceDone cb (ResistanceAndInductanceIs (resistance_answer config (identVdc s) fs))]) \<and>
    (resistance_answer config (identVdc s) fs = None \<longleftrightarrow> steady_current fs \<le> 0) \<and>
    onResistanceAndInductanceDone s2 = None \<and>
    (steady_current fs \<le> 0 \<longrightarrow> (\<forall>i. ResistanceSample exact i s2 = None))"
proof -
  obtain s0 es0 where start: "EstimateResistanceAndInductance config cb s = (s0, es0)" by fastforce
  obtain s1 es1 where settled: "SettleTimerExpired exact position s0 = Some (s1, es1)" and quiet: "service_answers (es0 @ es1) = []"
      and m0: "measuring exact config (identVdc s) cb is 0 s1"
    using start by (auto simp: EstimateResistanceAndInductance_def SettleTimerExpired_def ResistanceSettled_def measuring_def)
  note before = before_last_sample [OF m0 assms(1)]
  from before [of 126] obtain s' where s': "ResistanceSamples exact (take 126 is) s1 = Some (s', [])"
      "measuring exact config (identVdc s) cb is 126 s'" by auto
  from ResistanceSample_measuring [OF s'(2)] assms(1) obtain t where
    t: "measuring exact config (identVdc s) cb is 127 t" "ResistanceSample exact (is ! 126) s' = AnalyzeInductanceMeasures exact t"
    by auto
  then have fs: "filteredCurrentSample t = fs" "length fs = 123" "length (currentSamples t) = 4"
    using assms by (auto simp: measuring_def)
  from analysis [of t cb] t(1) fs obtain s2 where
    s2: "AnalyzeInductanceMeasures exact t =
        Some (s2, [DriverStop, ServiceDone cb (ResistanceAndInductanceIs (resistance_answer config (identVdc s) fs))])"
      "onResistanceAndInductanceDone s2 = None" "length (currentSamples s2) = 4"
      "steady_current fs \<le> 0 \<longrightarrow> length (filteredCurrentSample s2) = 123"
    by (auto simp: measuring_def)
  have "is = take 126 is @ [is ! 126]" using assms(1) by (simp add: take_Suc_conv_app_nth [symmetric])
  then have "ResistanceSamples exact is s1 =
      Some (s2, [DriverStop, ServiceDone cb (ResistanceAndInductanceIs (resistance_answer config (identVdc s) fs))])"
    using s'(1) t(2) s2(1) ResistanceSamples_append [of exact "take 126 is" "[is ! 126]" s1] by simp
  moreover have "resistance_answer config (identVdc s) fs = None \<longleftrightarrow> steady_current fs \<le> 0"
    using positive_current_answers [OF fs(2)] by (auto simp: resistance_answer_def Let_def not_le)
  moreover have "steady_current fs \<le> 0 \<longrightarrow> (\<forall>i. ResistanceSample exact i s2 = None)"
    using s2(3,4) by (auto intro: sample_into_full_vector)
  moreover have "\<forall>k\<le>126. \<exists>s'. ResistanceSamples exact (take k is) s1 = Some (s', [])" using before by blast
  ultimately show ?thesis using start settled quiet s2(2)
    by - ((rule exI)+, intro conjI, assumption+)
qed

lemma constant_windows: "map (window exact (replicate 127 c)) [0..<123] = replicate 123 c"
proof (rule nth_equalityI)
  fix i assume "i < length (map (window exact (replicate 127 c)) [0..<123])"
  then have "i < 123" "min (127 - i) 5 = 5" by auto
  then show "map (window exact (replicate 127 c)) [0..<123] ! i = replicate 123 c ! i"
    by (simp add: window_def foldl_sum_list sum_list_replicate)
qed simp

lemma constant_steady: "steady_current (replicate 123 c) = c"
  by (simp add: steady_current_def sum_list_replicate)

text \<open>At a constant 2 A from 15 percent of 24 V the resistance is 1.8 ohm and nothing rises; without current the
  answer is \<open>nullopt\<close> and the next sample has no result.\<close>

theorem resistance_measured_witness:
  "(\<exists>s0 es0 s1 es1 s2. EstimateResistanceAndInductance \<lparr>testVoltagePercent = 15, settleTime = 2, windingConfig = Wye\<rparr> 4 (ElectricalIdent_new exact 24) = (s0, es0) \<and>
      SettleTimerExpired exact 0 s0 = Some (s1, es1) \<and>
      ResistanceSamples exact (replicate 127 2) s1 = Some (s2, [DriverStop, ServiceDone 4 (ResistanceAndInductanceIs (Some (18 / 10, 0)))])) \<and>
   (\<exists>s0 es0 s1 es1 s2. EstimateResistanceAndInductance \<lparr>testVoltagePercent = 15, settleTime = 2, windingConfig = Wye\<rparr> 4 (ElectricalIdent_new exact 24) = (s0, es0) \<and>
      SettleTimerExpired exact 0 s0 = Some (s1, es1) \<and>
      ResistanceSamples exact (replicate 127 0) s1 = Some (s2, [DriverStop, ServiceDone 4 (ResistanceAndInductanceIs None)]) \<and>
      ResistanceSample exact 0 s2 = None)"
proof -
  let ?c = "\<lparr>testVoltagePercent = 15, settleTime = 2, windingConfig = Wye\<rparr>"
  have "find (\<lambda>i. 632 / 1000 * 2 \<le> replicate 123 (2::real) ! i) [0..<123] = Some 0"
    by (simp add: upt_conv_Cons)
  then have two: "resistance_answer ?c 24 (replicate 123 2) = Some (18 / 10, 0)"
    by (simp add: resistance_answer_def constant_steady)
  have none: "resistance_answer ?c 24 (replicate 123 0) = None" by (simp add: resistance_answer_def constant_steady)
  have vdc: "identVdc (ElectricalIdent_new exact 24) = 24" by (simp add: ElectricalIdent_new_def)
  show ?thesis
    using resistance_measured [OF _ constant_windows [symmetric], of 2 ?c 4 "ElectricalIdent_new exact 24" 0]
      resistance_measured [OF _ constant_windows [symmetric], of 0 ?c 4 "ElectricalIdent_new exact 24" 0]
    unfolding vdc two none constant_steady by (intro conjI) (simp, fastforce)+
qed

end
