(* ===== verification/Mechanical_Ident.thy ===== *)
theory Mechanical_Ident
  imports Motor_Alignment
begin

text \<open>
  The identification of friction and inertia (\<open>MechanicalParametersIdentificationImpl.cpp\<close>) and the
  estimators that follow the parameters while the motor runs
  (\<open>RealTimeResistanceAndInductanceEstimator.cpp\<close>, \<open>RealTimeFrictionAndInertiaEstimator.cpp\<close>). The
  recursive least squares are a class of another repository: its operations are the record \<open>rls_class\<close>.
\<close>

section \<open>Recursive least squares\<close>

text \<open>\<open>MakeRegressor\<close> takes the acceleration and the speed. \<open>rlsConverged\<close> says that
  \<open>EvaluateConvergence\<close> answers \<open>converged\<close>.\<close>

record ('r, 'm, 'f) rls_class =
  rlsNew :: "'f \<Rightarrow> 'f \<Rightarrow> 'r"
  rlsMakeRegressor :: "'f \<Rightarrow> 'f \<Rightarrow> 'f list"
  rlsUpdate :: "'f list \<Rightarrow> 'f \<Rightarrow> 'r \<Rightarrow> 'r \<times> 'm"
  rlsConverged :: "'m \<Rightarrow> 'f \<Rightarrow> 'f \<Rightarrow> bool"
  rlsCoefficient :: "'r \<Rightarrow> nat \<Rightarrow> 'f"
  rlsSetCoefficients :: "'f list \<Rightarrow> 'r \<Rightarrow> 'r"

section \<open>The identification\<close>

record 'f MechanicalConfig =
  targetSpeed :: 'f
  forgettingFactor :: 'f
  identTimeout :: nat

definition MechanicalConfig_default :: "'f float_arith \<Rightarrow> 'f MechanicalConfig" where
  "MechanicalConfig_default A = \<lparr>targetSpeed = flit A 5236 2, forgettingFactor = flit A 998 3, identTimeout = 5000000000\<rparr>"

record ('r, 'f) MechanicalParametersIdentificationImpl =
  mechSamplingPeriod :: 'f
  mechConfig :: "'f MechanicalConfig"
  onMechanicalDone :: "callback option"
  mechRls :: "'r option"
  mechPreviousPosition :: 'f
  mechPreviousSpeed :: 'f
  mechPolePairs :: 'f
  timeoutArmed :: bool

definition MechanicalIdent_new :: "'f float_arith \<Rightarrow> u32 \<Rightarrow> ('r, 'f) MechanicalParametersIdentificationImpl" where
  "MechanicalIdent_new A outerFrequency = \<lparr>
     mechSamplingPeriod = fdiv A (flit A 10 1) (fofint A (uint outerFrequency)),
     mechConfig = MechanicalConfig_default A, onMechanicalDone = None, mechRls = None,
     mechPreviousPosition = flit A 0 1, mechPreviousSpeed = flit A 0 1, mechPolePairs = flit A 10 1, timeoutArmed = False\<rparr>"

definition EstimateFrictionAndInertia ::
    "'f float_arith \<Rightarrow> ('r, 'm, 'f) rls_class \<Rightarrow> nat \<Rightarrow> 'f MechanicalConfig \<Rightarrow> callback \<Rightarrow> 'f \<Rightarrow>
      ('r, 'f) MechanicalParametersIdentificationImpl \<Rightarrow> ('r, 'f) MechanicalParametersIdentificationImpl \<times> 'f drive_effect list" where
  "EstimateFrictionAndInertia A R numberOfPolePairs config onDone position s =
     (s\<lparr>mechConfig := config, onMechanicalDone := Some onDone, mechPreviousPosition := position, mechPreviousSpeed := flit A 0 1,
        mechPolePairs := fofint A (int numberOfPolePairs), mechRls := Some (rlsNew R (flit A 10000 1) (forgettingFactor config)),
        timeoutArmed := True\<rparr>,
      [EnableController, SetSpeed (targetSpeed config), PhaseCurrentsReady 10000 MechanicalSampling, StartTimer (identTimeout config)])"

definition MechanicalTimeout ::
    "('r, 'f) MechanicalParametersIdentificationImpl \<Rightarrow>
      (('r, 'f) MechanicalParametersIdentificationImpl \<times> 'f drive_effect list) option" where
  "MechanicalTimeout s =
     (if \<not> timeoutArmed s then Some (s, [])
      else do {
        cb \<leftarrow> onMechanicalDone s;
        Some (s\<lparr>timeoutArmed := False, onMechanicalDone := None\<rparr>,
          [PhaseCurrentsReady 10000 IgnoreCurrents, ServiceDone cb (FrictionAndInertiaIs None)]) })"

text \<open>The current callback, which has captured the torque constant. It reads the encoder twice.\<close>

definition OnSamplingUpdate ::
    "'f float_arith \<Rightarrow> ('r, 'm, 'f) rls_class \<Rightarrow> 'f PhaseCurrents \<Rightarrow> 'f \<Rightarrow> 'f \<times> 'f \<Rightarrow>
      ('r, 'f) MechanicalParametersIdentificationImpl \<Rightarrow>
      (('r, 'f) MechanicalParametersIdentificationImpl \<times> 'f drive_effect list) option" where
  "OnSamplingUpdate A R currents torqueConstant positions s = do {
     let mechanicalPos = fst positions;
     let electricalAngle = ftimes A mechanicalPos (mechPolePairs s);
     cosTheta \<leftarrow> Cosine A electricalAngle;
     sinTheta \<leftarrow> Sine A electricalAngle;
     let rotatingFrame = ClarkePark_Forward A (ToThreePhase currents) cosTheta sinTheta;
     let speed = fdiv A (fsub A (snd positions) (mechPreviousPosition s)) (mechSamplingPeriod s);
     let acceleration = fdiv A (fsub A speed (mechPreviousSpeed s)) (mechSamplingPeriod s);
     let torque = ftimes A (qAxis rotatingFrame) torqueConstant;
     rls \<leftarrow> mechRls s;
     let (rls, metrics) = rlsUpdate R (rlsMakeRegressor R acceleration speed) torque rls;
     let s = s\<lparr>mechRls := Some rls\<rparr>;
     (s, es) \<leftarrow>
       (if rlsConverged R metrics (flit A 1 4) (flit A 1 2)
        then do {
          cb \<leftarrow> onMechanicalDone s;
          Some (s\<lparr>timeoutArmed := False, onMechanicalDone := None\<rparr>,
            [CancelTimer, PhaseCurrentsReady 10000 IgnoreCurrents,
             ServiceDone cb (FrictionAndInertiaIs (Some (rlsCoefficient R rls 2, rlsCoefficient R rls 1)))]) }
        else Some (s, []));
     Some (s\<lparr>mechPreviousPosition := mechanicalPos, mechPreviousSpeed := speed\<rparr>, es) }"

section \<open>Resistance and inductance while running\<close>

record ('r, 'f) RealTimeResistanceAndInductanceEstimator =
  elecRls :: 'r
  elecSamplingPeriod :: 'f
  previousId :: 'f
  currentResistance :: 'f
  currentInductance :: 'f

definition persistenceOfExcitationThreshold :: "'f float_arith \<Rightarrow> 'f" where
  "persistenceOfExcitationThreshold A = flit A 1 6"

definition ElecEstimator_new ::
    "'f float_arith \<Rightarrow> ('r, 'm, 'f) rls_class \<Rightarrow> 'f \<Rightarrow> u32 \<Rightarrow> ('r, 'f) RealTimeResistanceAndInductanceEstimator" where
  "ElecEstimator_new A R factor samplingFrequency = \<lparr>
     elecRls = rlsNew R (flit A 10000 1) factor,
     elecSamplingPeriod = fdiv A (flit A 10 1) (fofint A (uint samplingFrequency)),
     previousId = flit A 0 1, currentResistance = flit A 0 1, currentInductance = flit A 0 1\<rparr>"

definition ElecEstimator_Update ::
    "'f float_arith \<Rightarrow> ('r, 'm, 'f) rls_class \<Rightarrow> 'f \<Rightarrow> 'f \<Rightarrow> 'f \<Rightarrow> 'f \<Rightarrow>
      ('r, 'f) RealTimeResistanceAndInductanceEstimator \<Rightarrow> ('r, 'f) RealTimeResistanceAndInductanceEstimator" where
  "ElecEstimator_Update A R vd i_d i_q electricalSpeed e =
     (let dIdDt = fdiv A (fsub A i_d (previousId e)) (elecSamplingPeriod e);
          e = e\<lparr>previousId := i_d\<rparr>;
          regressor0 = i_d;
          regressor1 = fsub A dIdDt (ftimes A electricalSpeed i_q);
          phiNormSq = fadd A (ftimes A regressor0 regressor0) (ftimes A regressor1 regressor1);
          e = (if flt A phiNormSq (persistenceOfExcitationThreshold A) then e
               else e\<lparr>elecRls := fst (rlsUpdate R [regressor0, regressor1] vd (elecRls e))\<rparr>)
      in e\<lparr>currentResistance := rlsCoefficient R (elecRls e) 0,
           currentInductance := ftimes A (rlsCoefficient R (elecRls e) 1) (flit A 10000 1)\<rparr>)"

definition ElecEstimator_Seed ::
    "'f float_arith \<Rightarrow> ('r, 'm, 'f) rls_class \<Rightarrow> 'f \<Rightarrow> 'f \<Rightarrow>
      ('r, 'f) RealTimeResistanceAndInductanceEstimator \<Rightarrow> ('r, 'f) RealTimeResistanceAndInductanceEstimator" where
  "ElecEstimator_Seed A R resistance inductance e =
     e\<lparr>elecRls := rlsSetCoefficients R [resistance, fdiv A inductance (flit A 10000 1)] (elecRls e), previousId := flit A 0 1\<rparr>"

definition ElecEstimator_SetInitialEstimate ::
    "'f float_arith \<Rightarrow> ('r, 'm, 'f) rls_class \<Rightarrow> 'f \<Rightarrow> 'f \<Rightarrow>
      ('r, 'f) RealTimeResistanceAndInductanceEstimator \<Rightarrow> ('r, 'f) RealTimeResistanceAndInductanceEstimator" where
  "ElecEstimator_SetInitialEstimate A R resistance inductance e =
     ElecEstimator_Seed A R resistance inductance (e\<lparr>currentResistance := resistance, currentInductance := inductance\<rparr>)"

section \<open>Friction and inertia while running\<close>

record ('r, 'f) RealTimeFrictionAndInertiaEstimator =
  mechEstFrequency :: 'f
  mechEstRls :: "'r option"
  mechEstPreviousSpeed :: 'f
  mechEstTorqueConstant :: 'f
  currentInertia :: 'f
  currentFriction :: 'f

definition MechEstimator_new ::
    "'f float_arith \<Rightarrow> ('r, 'm, 'f) rls_class \<Rightarrow> 'f \<Rightarrow> u32 \<Rightarrow> ('r, 'f) RealTimeFrictionAndInertiaEstimator" where
  "MechEstimator_new A R factor samplingFrequency = \<lparr>
     mechEstFrequency = fofint A (uint samplingFrequency), mechEstRls = Some (rlsNew R (flit A 10000 1) factor),
     mechEstPreviousSpeed = flit A 0 1, mechEstTorqueConstant = flit A 10 1,
     currentInertia = flit A 0 1, currentFriction = flit A 0 1\<rparr>"

text \<open>The answer is the inertia, the friction and the metrics.\<close>

definition MechEstimator_UpdateWith ::
    "'f float_arith \<Rightarrow> ('r, 'm, 'f) rls_class \<Rightarrow> 'f PhaseCurrents \<Rightarrow> 'f \<Rightarrow> 'f \<Rightarrow> 'f \<Rightarrow>
      ('r, 'f) RealTimeFrictionAndInertiaEstimator \<Rightarrow>
      (('f \<times> 'f \<times> 'm) \<times> ('r, 'f) RealTimeFrictionAndInertiaEstimator) option" where
  "MechEstimator_UpdateWith A R currentPhases speed electricalAngle targetTorque e = do {
     cosTheta \<leftarrow> Cosine A electricalAngle;
     sinTheta \<leftarrow> Sine A electricalAngle;
     let rotatingFrame = ClarkePark_Forward A (ToThreePhase currentPhases) cosTheta sinTheta;
     let acceleration = ftimes A (fsub A speed (mechEstPreviousSpeed e)) (mechEstFrequency e);
     let torque = ftimes A (qAxis rotatingFrame) targetTorque;
     rls \<leftarrow> mechEstRls e;
     let (rls, metrics) = rlsUpdate R (rlsMakeRegressor R acceleration speed) torque rls;
     Some ((rlsCoefficient R rls 1, rlsCoefficient R rls 2, metrics),
       e\<lparr>mechEstRls := Some rls, mechEstPreviousSpeed := speed\<rparr>) }"

definition MechEstimator_Seed ::
    "'f float_arith \<Rightarrow> ('r, 'm, 'f) rls_class \<Rightarrow> 'f \<Rightarrow> 'f \<Rightarrow>
      ('r, 'f) RealTimeFrictionAndInertiaEstimator \<Rightarrow> ('r, 'f) RealTimeFrictionAndInertiaEstimator" where
  "MechEstimator_Seed A R inertia friction e = (case mechEstRls e of
       None \<Rightarrow> e
     | Some rls \<Rightarrow> e\<lparr>mechEstRls := Some (rlsSetCoefficients R [flit A 0 1, inertia, friction] rls)\<rparr>)"

definition MechEstimator_SetTorqueConstant ::
    "'f \<Rightarrow> ('r, 'f) RealTimeFrictionAndInertiaEstimator \<Rightarrow> ('r, 'f) RealTimeFrictionAndInertiaEstimator" where
  "MechEstimator_SetTorqueConstant kt e = e\<lparr>mechEstTorqueConstant := kt\<rparr>"

definition MechEstimator_SetInitialEstimate ::
    "'f float_arith \<Rightarrow> ('r, 'm, 'f) rls_class \<Rightarrow> 'f \<Rightarrow> 'f \<Rightarrow>
      ('r, 'f) RealTimeFrictionAndInertiaEstimator \<Rightarrow> ('r, 'f) RealTimeFrictionAndInertiaEstimator" where
  "MechEstimator_SetInitialEstimate A R inertia friction e =
     MechEstimator_Seed A R inertia friction (e\<lparr>currentInertia := inertia, currentFriction := friction\<rparr>)"

definition MechEstimator_Update ::
    "'f float_arith \<Rightarrow> ('r, 'm, 'f) rls_class \<Rightarrow> 'f PhaseCurrents \<Rightarrow> 'f \<Rightarrow> 'f \<Rightarrow>
      ('r, 'f) RealTimeFrictionAndInertiaEstimator \<Rightarrow> ('r, 'f) RealTimeFrictionAndInertiaEstimator option" where
  "MechEstimator_Update A R currentPhases speed electricalAngle e = do {
     ((inertia, friction, metrics), e) \<leftarrow>
       MechEstimator_UpdateWith A R currentPhases speed electricalAngle (mechEstTorqueConstant e) e;
     Some (e\<lparr>currentInertia := inertia, currentFriction := friction\<rparr>) }"

end
