(* ===== verification/Drive_Model.thy ===== *)
theory Drive_Model
  imports Electrical_Ident Mechanical_Ident
begin

text \<open>
  The drive: a speed controller with its runner (\<open>FocController.hpp\<close>) and the three calibration
  services on one inverter (\<open>PlatformFactoryImpl.cpp\<close> of the TI targets). The inverter has one
  callback for current samples. Every call that an operation makes reaches the inverter and the
  controller in the order of its effects.
\<close>

section \<open>The inverter\<close>

text \<open>The last current callback, the frequency given to the PWM, and its percentages when it is started.\<close>

record Inverter =
  onPhaseCurrentsReady :: "current_handler option"
  pwmGeneratorFrequency :: u32
  pwmStarted :: "PhasePwmDutyCycles option"

definition Inverter_PhaseCurrentsReady :: "u32 \<Rightarrow> current_handler \<Rightarrow> Inverter \<Rightarrow> Inverter" where
  "Inverter_PhaseCurrentsReady frequency onDone i = i\<lparr>onPhaseCurrentsReady := Some onDone, pwmGeneratorFrequency := frequency\<rparr>"

definition Inverter_ThreePhasePwmOutput :: "PhasePwmDutyCycles \<Rightarrow> Inverter \<Rightarrow> Inverter" where
  "Inverter_ThreePhasePwmOutput dutyPhases i = i\<lparr>pwmStarted := Some dutyPhases\<rparr>"

definition Inverter_Start :: "Inverter \<Rightarrow> Inverter" where
  "Inverter_Start i = i\<lparr>pwmStarted := Some \<lparr>pwmA = 1, pwmB = 1, pwmC = 1\<rparr>\<rparr>"

definition Inverter_Stop :: "Inverter \<Rightarrow> Inverter" where
  "Inverter_Stop i = i\<lparr>pwmStarted := None\<rparr>"

fun inverter_call :: "'f drive_effect \<Rightarrow> Inverter \<Rightarrow> Inverter" where
  "inverter_call (PhaseCurrentsReady f h) i = Inverter_PhaseCurrentsReady f h i"
| "inverter_call (ThreePhasePwmOutput d) i = Inverter_ThreePhasePwmOutput d i"
| "inverter_call DriverStart i = Inverter_Start i"
| "inverter_call DriverStop i = Inverter_Stop i"
| "inverter_call _ i = i"

fun drive_effects :: "'e runner_effect \<Rightarrow> 'f drive_effect list" where
  "drive_effects (ReadyRegistered f) = [PhaseCurrentsReady f RunnerLoop]"
| "drive_effects InverterStarted = [DriverStart]"
| "drive_effects InverterStopped = [DriverStop]"
| "drive_effects (PwmOutput d) = [ThreePhasePwmOutput d]"
| "drive_effects _ = []"

section \<open>The drive\<close>

record ('p, 'r, 'f) Drive =
  inverter :: Inverter
  alignmentService :: "'f MotorAlignmentImpl"
  electricalService :: "'f ElectricalParametersIdentificationImpl"
  mechanicalService :: "('r, 'f) MechanicalParametersIdentificationImpl"
  speedController :: "('p, 'f) FocSpeedImpl"
  capturedTorqueConstant :: 'f

fun controller_call ::
    "'f float_arith \<Rightarrow> ('p, 'f) pid_class \<Rightarrow> 'f drive_effect \<Rightarrow> ('p, 'f) FocSpeedImpl \<Rightarrow> ('p, 'f) FocSpeedImpl" where
  "controller_call A P EnableController foc = Speed_Enable A P foc"
| "controller_call A P (SetSpeed v) foc = Speed_SetPoint A P v foc"
| "controller_call A P _ foc = foc"

definition drive_calls ::
    "'f float_arith \<Rightarrow> ('p, 'f) pid_class \<Rightarrow> 'f drive_effect list \<Rightarrow> ('p, 'r, 'f) Drive \<Rightarrow> ('p, 'r, 'f) Drive" where
  "drive_calls A P es d = d\<lparr>inverter := fold inverter_call es (inverter d),
     speedController := fold (controller_call A P) es (speedController d)\<rparr>"

text \<open>Construction: the runner registers its callback last.\<close>

definition Drive_new ::
    "'f float_arith \<Rightarrow> ('p, 'f) pid_class \<Rightarrow> 'f \<Rightarrow> 'f \<Rightarrow> u32 \<Rightarrow> u32 \<Rightarrow> ('p, 'r, 'f) Drive option" where
  "Drive_new A P vdc maxCurrent frequency outerFrequency = do {
     foc \<leftarrow> FocSpeedImpl_new A P maxCurrent frequency outerFrequency;
     Some (drive_calls A P (concat (map drive_effects (Runner_new frequency :: 'f loop_effect runner_effect list)))
       \<lparr>inverter = \<lparr>onPhaseCurrentsReady = None, pwmGeneratorFrequency = frequency, pwmStarted = None\<rparr>,
        alignmentService = MotorAlignmentImpl_init A, electricalService = ElectricalIdent_new A vdc,
        mechanicalService = MechanicalIdent_new A outerFrequency, speedController = foc, capturedTorqueConstant = flit A 0 1\<rparr>) }"

datatype 'f drive_event =
    Sample "'f PhaseCurrents" "'f \<times> 'f"
  | ControllerStart
  | ControllerStop
  | Align nat "'f AlignmentConfig" callback 'f
  | MeasureResistance ResistanceAndInductanceConfig callback
  | MeasurePolePairs PolePairsConfig callback 'f
  | MeasureFriction 'f nat "'f MechanicalConfig" callback 'f
  | SettleTimer 'f
  | TimeoutTimer

text \<open>A sample goes to the callback of the inverter; an empty one cannot be called.\<close>

definition drive_sample ::
    "'f float_arith \<Rightarrow> ('p, 'f) pid_class \<Rightarrow> ('r, 'm, 'f) rls_class \<Rightarrow> 'f PhaseCurrents \<Rightarrow> 'f \<times> 'f \<Rightarrow>
      ('p, 'r, 'f) Drive \<Rightarrow> (('p, 'r, 'f) Drive \<times> 'f drive_effect list) option" where
  "drive_sample A P R currents positions d = (case onPhaseCurrentsReady (inverter d) of
       None \<Rightarrow> None
     | Some IgnoreCurrents \<Rightarrow> Some (d, [])
     | Some RunnerLoop \<Rightarrow> do {
         (foc, es) \<leftarrow> Runner_Currents (CalculateInnerLoop A P) currents (fst positions) (speedController d);
         Some (d\<lparr>speedController := foc\<rparr>, concat (map drive_effects es)) }
     | Some AlignmentSampling \<Rightarrow>
         (let (m, es) = AlignmentSample A positions (alignmentService d) in Some (d\<lparr>alignmentService := m\<rparr>, es))
     | Some ResistanceSampling \<Rightarrow> do {
         (s, es) \<leftarrow> ResistanceSample A (currentA currents) (electricalService d);
         Some (d\<lparr>electricalService := s\<rparr>, es) }
     | Some MechanicalSampling \<Rightarrow> do {
         (s, es) \<leftarrow> OnSamplingUpdate A R currents (capturedTorqueConstant d) positions (mechanicalService d);
         Some (d\<lparr>mechanicalService := s\<rparr>, es) })"

fun drive_operation ::
    "'f float_arith \<Rightarrow> ('p, 'f) pid_class \<Rightarrow> ('r, 'm, 'f) rls_class \<Rightarrow> 'f drive_event \<Rightarrow>
      ('p, 'r, 'f) Drive \<Rightarrow> (('p, 'r, 'f) Drive \<times> 'f drive_effect list) option" where
  "drive_operation A P R (Sample c p) d = drive_sample A P R c p d"
| "drive_operation A P R ControllerStart d =
     (let (foc, es) = Runner_Enable (Speed_Enable A P) (speedController d)
      in Some (d\<lparr>speedController := foc\<rparr>, concat (map drive_effects (es :: 'f loop_effect runner_effect list))))"
| "drive_operation A P R ControllerStop d =
     (let (foc, es) = Runner_Disable (DisableSpeedLoop P) (speedController d)
      in Some (d\<lparr>speedController := foc\<rparr>, concat (map drive_effects (es :: 'f loop_effect runner_effect list))))"
| "drive_operation A P R (Align n config cb p) d = do {
     (m, es) \<leftarrow> ForceAlignment A n config cb p (alignmentService d);
     Some (d\<lparr>alignmentService := m\<rparr>, es) }"
| "drive_operation A P R (MeasureResistance config cb) d =
     (let (s, es) = EstimateResistanceAndInductance config cb (electricalService d) in Some (d\<lparr>electricalService := s\<rparr>, es))"
| "drive_operation A P R (MeasurePolePairs config cb p) d = do {
     (s, es) \<leftarrow> EstimateNumberOfPolePairs_impl A config cb p (electricalService d);
     Some (d\<lparr>electricalService := s\<rparr>, es) }"
| "drive_operation A P R (MeasureFriction kt n config cb p) d =
     (let (s, es) = EstimateFrictionAndInertia A R n config cb p (mechanicalService d)
      in Some (d\<lparr>mechanicalService := s, capturedTorqueConstant := kt\<rparr>, es))"
| "drive_operation A P R (SettleTimer p) d = do {
     (s, es) \<leftarrow> SettleTimerExpired A p (electricalService d);
     Some (d\<lparr>electricalService := s\<rparr>, es) }"
| "drive_operation A P R TimeoutTimer d = do {
     (s, es) \<leftarrow> MechanicalTimeout (mechanicalService d);
     Some (d\<lparr>mechanicalService := s\<rparr>, es) }"

definition drive_step ::
    "'f float_arith \<Rightarrow> ('p, 'f) pid_class \<Rightarrow> ('r, 'm, 'f) rls_class \<Rightarrow> 'f drive_event \<Rightarrow>
      ('p, 'r, 'f) Drive \<Rightarrow> (('p, 'r, 'f) Drive \<times> 'f drive_effect list) option" where
  "drive_step A P R ev d = map_option (\<lambda>(d, es). (drive_calls A P es d, es)) (drive_operation A P R ev d)"

fun drive_run ::
    "'f float_arith \<Rightarrow> ('p, 'f) pid_class \<Rightarrow> ('r, 'm, 'f) rls_class \<Rightarrow> 'f drive_event list \<Rightarrow>
      ('p, 'r, 'f) Drive \<Rightarrow> (('p, 'r, 'f) Drive \<times> 'f drive_effect list) option" where
  "drive_run A P R [] d = Some (d, [])"
| "drive_run A P R (ev # evs) d = do {
     (d, es) \<leftarrow> drive_step A P R ev d;
     (d, fs) \<leftarrow> drive_run A P R evs d;
     Some (d, es @ fs) }"

end
