(* ===== verification/Drive_Correct.thy ===== *)
theory Drive_Correct
  imports Drive_Model
begin

text \<open>
  Who gets the current samples. A service that takes the callback of the inverter never gives it back to
  the runner (locale \<open>drive_client\<close>), so a controller that is started after a calibration sees no sample;
  the mechanical identification turns a controller on that drives nothing.
\<close>

section \<open>Clients of the inverter\<close>

definition leaves_runner_out :: "'f drive_effect list \<Rightarrow> bool" where
  "leaves_runner_out es \<longleftrightarrow> (\<forall>e\<in>set es. \<forall>f. e \<noteq> PhaseCurrentsReady f RunnerLoop)"

definition leaves_controller :: "'f drive_effect list \<Rightarrow> bool" where
  "leaves_controller es \<longleftrightarrow> EnableController \<notin> set es \<and> (\<forall>v. SetSpeed v \<notin> set es)"

definition runner_listens :: "('p, 'r, 'f) Drive \<Rightarrow> bool" where
  "runner_listens d \<longleftrightarrow> onPhaseCurrentsReady (inverter d) = Some RunnerLoop"

lemma inverter_fields [simp]:
  "onPhaseCurrentsReady (Inverter_PhaseCurrentsReady f h i) = Some h" "pwmStarted (Inverter_PhaseCurrentsReady f h i) = pwmStarted i"
  "onPhaseCurrentsReady (Inverter_ThreePhasePwmOutput p i) = onPhaseCurrentsReady i" "pwmStarted (Inverter_ThreePhasePwmOutput p i) = Some p"
  "onPhaseCurrentsReady (Inverter_Start i) = onPhaseCurrentsReady i" "pwmStarted (Inverter_Start i) = Some \<lparr>pwmA = 1, pwmB = 1, pwmC = 1\<rparr>"
  "onPhaseCurrentsReady (Inverter_Stop i) = onPhaseCurrentsReady i" "pwmStarted (Inverter_Stop i) = None"
  by (simp_all add: Inverter_PhaseCurrentsReady_def Inverter_ThreePhasePwmOutput_def Inverter_Start_def Inverter_Stop_def)

lemma fold_inverter_slot:
  assumes "leaves_runner_out es" and "onPhaseCurrentsReady i \<noteq> Some RunnerLoop"
  shows "onPhaseCurrentsReady (fold inverter_call es i) \<noteq> Some RunnerLoop"
  using assms
proof (induction es arbitrary: i)
  case (Cons e es)
  then have "onPhaseCurrentsReady (inverter_call e i) \<noteq> Some RunnerLoop"
    by (cases e) (auto simp: leaves_runner_out_def)
  with Cons show ?case by (simp add: leaves_runner_out_def)
qed simp

lemma fold_controller_same: "leaves_controller es \<Longrightarrow> fold (controller_call A P) es foc = foc"
proof (induction es)
  case (Cons e es)
  then show ?case by (cases e) (auto simp: leaves_controller_def)
qed simp

lemma drive_calls_simps [simp]:
  "inverter (drive_calls A P es d) = fold inverter_call es (inverter d)"
  "speedController (drive_calls A P es d) = fold (controller_call A P) es (speedController d)"
  "alignmentService (drive_calls A P es d) = alignmentService d"
  "electricalService (drive_calls A P es d) = electricalService d"
  "mechanicalService (drive_calls A P es d) = mechanicalService d"
  "capturedTorqueConstant (drive_calls A P es d) = capturedTorqueConstant d"
  by (simp_all add: drive_calls_def)

text \<open>The contract of an operation of a client, and of one that leaves the controller alone too.\<close>

locale drive_client =
  fixes operation :: "'x \<Rightarrow> 's \<Rightarrow> ('s \<times> 'f drive_effect list) option"
  assumes leaves_runner: "operation x s = Some (s', es) \<Longrightarrow> leaves_runner_out es"
begin

lemma keeps_runner_out:
  assumes "operation x s = Some (s', es)" and "\<not> runner_listens d"
  shows "\<not> runner_listens (drive_calls A P es d)"
  using fold_inverter_slot [OF leaves_runner [OF assms(1)]] assms(2) by (simp add: runner_listens_def)

end

locale passive_client = drive_client +
  assumes leaves_foc: "operation x s = Some (s', es) \<Longrightarrow> leaves_controller es"
begin

lemma keeps_controller:
  "operation x s = Some (s', es) \<Longrightarrow> speedController (drive_calls A P es d) = speedController d"
  using fold_controller_same leaves_foc by fastforce

lemma keeps:
  "operation x s = Some (s', es) \<Longrightarrow> \<not> runner_listens d \<Longrightarrow>
     \<not> runner_listens (drive_calls A P es d) \<and> speedController (drive_calls A P es d) = speedController d"
  using keeps_runner_out keeps_controller by blast

end

lemmas client_defs = leaves_runner_out_def leaves_controller_def

interpretation alignment_request: passive_client "\<lambda>(n, config, cb, p). ForceAlignment A n config cb p"
  by unfold_locales
    (auto simp: ForceAlignment_def ApplyAlignmentVoltage_def client_defs Let_def split: bind_splits if_splits)

interpretation alignment_sample: passive_client "\<lambda>p m. Some (AlignmentSample A p m)"
  by unfold_locales
    (auto simp: AlignmentSample_def ProcessPosition_def CalculateAlignmentOffset_def FailToConverge_def client_defs Let_def
      split: if_splits option.splits prod.splits)

interpretation resistance_request: passive_client "\<lambda>(config, cb) s. Some (EstimateResistanceAndInductance config cb s)"
  by unfold_locales (auto simp: EstimateResistanceAndInductance_def client_defs)

interpretation resistance_sample: passive_client "ResistanceSample A"
  by unfold_locales
    (auto simp: ResistanceSample_def AnalyzeInductanceMeasures_def resistance_done_def client_defs Let_def
      split: bind_splits if_splits option.splits prod.splits)

lemma next_angle_client:
  assumes "ApplyNextElectricalAngle A s = Some (s', es)"
  shows "leaves_runner_out es" and "leaves_controller es"
  using assms
  by (auto simp: ApplyNextElectricalAngle_def RunPolePairLogic_def CalculatePolePairs_def client_defs Let_def
      split: bind_splits if_splits option.splits)

interpretation pole_pairs_request: passive_client "\<lambda>(config, cb, p). EstimateNumberOfPolePairs_impl A config cb p"
  using next_angle_client
  by unfold_locales (fastforce simp: EstimateNumberOfPolePairs_impl_def client_defs Let_def split: bind_splits)+

interpretation settle_timer_client: passive_client "SettleTimerExpired A"
  using next_angle_client
  by unfold_locales
    (fastforce simp: SettleTimerExpired_def ResistanceSettled_def PolePairStep_def client_defs Let_def
      split: option.splits settle_timer.splits)+

interpretation friction_request: drive_client "\<lambda>(n, config, cb, p) s. Some (EstimateFrictionAndInertia A R n config cb p s)"
  by unfold_locales (auto simp: EstimateFrictionAndInertia_def client_defs)

interpretation friction_sample: passive_client "\<lambda>(c, kt, p). OnSamplingUpdate A R c kt p"
  by unfold_locales
    (auto simp: OnSamplingUpdate_def client_defs Let_def split: bind_splits if_splits prod.splits)

interpretation friction_timeout: passive_client "\<lambda>(_ :: unit). MechanicalTimeout"
  by unfold_locales (auto simp: MechanicalTimeout_def client_defs split: bind_splits if_splits)

section \<open>The controller after a calibration\<close>

text \<open>What the operations themselves ask of the controller, and which requests take the callback.\<close>

fun controller_operation ::
    "'f float_arith \<Rightarrow> ('p, 'f) pid_class \<Rightarrow> 'f drive_event \<Rightarrow> ('p, 'f) FocSpeedImpl \<Rightarrow> ('p, 'f) FocSpeedImpl" where
  "controller_operation A P ControllerStart foc = Speed_Enable A P foc"
| "controller_operation A P ControllerStop foc = DisableSpeedLoop P foc"
| "controller_operation A P (MeasureFriction kt n config cb p) foc = Speed_SetPoint A P (targetSpeed config) (Speed_Enable A P foc)"
| "controller_operation A P _ foc = foc"

fun calibration_request :: "('p, 'r, 'f) Drive \<Rightarrow> 'f drive_event \<Rightarrow> bool" where
  "calibration_request d (Align n config cb p) \<longleftrightarrow> onAlignmentDone (alignmentService d) = None"
| "calibration_request d (MeasureResistance config cb) \<longleftrightarrow> True"
| "calibration_request d (MeasurePolePairs config cb p) \<longleftrightarrow> True"
| "calibration_request d (MeasureFriction kt n config cb p) \<longleftrightarrow> True"
| "calibration_request d _ \<longleftrightarrow> False"

lemma runner_listens_update [simp]:
  "runner_listens (d\<lparr>alignmentService := m\<rparr>) = runner_listens d" "runner_listens (d\<lparr>electricalService := e\<rparr>) = runner_listens d"
  "runner_listens (d\<lparr>mechanicalService := s\<rparr>) = runner_listens d" "runner_listens (d\<lparr>speedController := foc\<rparr>) = runner_listens d"
  "runner_listens (d\<lparr>capturedTorqueConstant := kt\<rparr>) = runner_listens d"
  by (simp_all add: runner_listens_def)

lemma sample_without_runner:
  assumes "drive_sample A P R c p d = Some (d1, es)" and "\<not> runner_listens d"
  shows "\<not> runner_listens (drive_calls A P es d1) \<and> speedController (drive_calls A P es d1) = speedController d"
proof -
  from assms obtain h where h: "onPhaseCurrentsReady (inverter d) = Some h" "h \<noteq> RunnerLoop"
    by (auto simp: drive_sample_def runner_listens_def split: option.splits)
  show ?thesis
  proof (cases h)
    case IgnoreCurrents
    with assms h show ?thesis by (auto simp: drive_sample_def drive_calls_def)
  next
    case AlignmentSampling
    with assms(1) h(1) obtain m where "AlignmentSample A p (alignmentService d) = (m, es)" "d1 = d\<lparr>alignmentService := m\<rparr>"
      by (auto simp: drive_sample_def split: prod.splits)
    with alignment_sample.keeps [of A p "alignmentService d" m es d1 A P] assms(2) show ?thesis by simp
  next
    case ResistanceSampling
    with assms(1) h(1) obtain s where "ResistanceSample A (currentA c) (electricalService d) = Some (s, es)" "d1 = d\<lparr>electricalService := s\<rparr>"
      by (auto simp: drive_sample_def split: bind_splits)
    with resistance_sample.keeps [of A "currentA c" "electricalService d" s es d1 A P] assms(2) show ?thesis by simp
  next
    case MechanicalSampling
    with assms(1) h(1) obtain s where "OnSamplingUpdate A R c (capturedTorqueConstant d) p (mechanicalService d) = Some (s, es)"
        "d1 = d\<lparr>mechanicalService := s\<rparr>"
      by (auto simp: drive_sample_def split: bind_splits)
    with friction_sample.keeps [of A R "(c, capturedTorqueConstant d, p)" "mechanicalService d" s es d1 A P] assms(2) show ?thesis by simp
  qed (use h in simp)
qed

lemma step_without_runner:
  assumes "drive_step A P R ev d = Some (d', es)" and "\<not> runner_listens d"
  shows "\<not> runner_listens d' \<and> speedController d' = controller_operation A P ev (speedController d)"
proof -
  from assms(1) obtain d1 where op: "drive_operation A P R ev d = Some (d1, es)" and d': "d' = drive_calls A P es d1"
    by (auto simp: drive_step_def)
  show ?thesis
  proof (cases ev)
    case (Sample c p)
    with op assms(2) d' show ?thesis using sample_without_runner by fastforce
  next
    case ControllerStart
    with op assms(2) d' show ?thesis by (auto simp: Runner_Enable_def runner_listens_def)
  next
    case ControllerStop
    with op assms(2) d' show ?thesis by (auto simp: Runner_Disable_def runner_listens_def)
  next
    case (Align n config cb p)
    with op obtain m where "ForceAlignment A n config cb p (alignmentService d) = Some (m, es)" "d1 = d\<lparr>alignmentService := m\<rparr>"
      by (auto split: bind_splits)
    with alignment_request.keeps [of A "(n, config, cb, p)" "alignmentService d" m es d1 A P] assms(2) d' Align show ?thesis by simp
  next
    case (MeasureResistance config cb)
    with op assms(2) d' show ?thesis
      using resistance_request.keeps [of "(config, cb)" "electricalService d" _ es d1 A P] by (auto split: prod.splits)
  next
    case (MeasurePolePairs config cb p)
    with op obtain s where "EstimateNumberOfPolePairs_impl A config cb p (electricalService d) = Some (s, es)" "d1 = d\<lparr>electricalService := s\<rparr>"
      by (auto split: bind_splits)
    with pole_pairs_request.keeps [of A "(config, cb, p)" "electricalService d" s es d1 A P] assms(2) d' MeasurePolePairs show ?thesis by simp
  next
    case (MeasureFriction kt n config cb p)
    with op d' show ?thesis by (auto simp: EstimateFrictionAndInertia_def runner_listens_def)
  next
    case (SettleTimer p)
    with op obtain s where "SettleTimerExpired A p (electricalService d) = Some (s, es)" "d1 = d\<lparr>electricalService := s\<rparr>"
      by (auto split: bind_splits)
    with settle_timer_client.keeps [of A p "electricalService d" s es d1 A P] assms(2) d' SettleTimer show ?thesis by simp
  next
    case TimeoutTimer
    with op obtain s where "MechanicalTimeout (mechanicalService d) = Some (s, es)" "d1 = d\<lparr>mechanicalService := s\<rparr>"
      by (auto split: bind_splits)
    with friction_timeout.keeps [of "mechanicalService d" s es d1 A P] assms(2) d' TimeoutTimer show ?thesis by simp
  qed
qed

lemma run_without_runner:
  assumes "drive_run A P R evs d = Some (d', es)" and "\<not> runner_listens d"
  shows "\<not> runner_listens d' \<and> speedController d' = fold (controller_operation A P) evs (speedController d)"
  using assms
proof (induction evs arbitrary: d es)
  case (Cons ev evs)
  from Cons.prems(1) obtain d1 fs gs where "drive_step A P R ev d = Some (d1, fs)" "drive_run A P R evs d1 = Some (d', gs)"
    by (auto split: bind_splits)
  with step_without_runner [of A P R ev d d1 fs] Cons.prems(2) Cons.IH [of d1 gs] show ?case by simp
qed simp

text \<open>A calibration request takes the callback, whoever had it.\<close>

lemma registered:
  assumes "leaves_runner_out es" and "PhaseCurrentsReady f h \<in> set es"
  shows "onPhaseCurrentsReady (fold inverter_call es i) \<noteq> Some RunnerLoop"
proof -
  obtain xs ys where "es = xs @ PhaseCurrentsReady f h # ys" using assms(2) by (meson split_list)
  moreover from this assms(1) have "h \<noteq> RunnerLoop" "leaves_runner_out ys" by (auto simp: leaves_runner_out_def)
  ultimately show ?thesis by (simp add: fold_inverter_slot)
qed

lemma request_takes_callback:
  assumes "calibration_request d ev" and "drive_step A P R ev d = Some (d', es)"
  shows "\<not> runner_listens d' \<and> speedController d' = controller_operation A P ev (speedController d)"
proof -
  from assms(2) obtain d1 where op: "drive_operation A P R ev d = Some (d1, es)" and d': "d' = drive_calls A P es d1"
    by (auto simp: drive_step_def)
  show ?thesis
  proof (cases ev)
    case (Align n config cb p)
    with op obtain m where m: "ForceAlignment A n config cb p (alignmentService d) = Some (m, es)" "d1 = d\<lparr>alignmentService := m\<rparr>"
      by (auto split: bind_splits)
    moreover have "PhaseCurrentsReady (alignSamplingFrequency config) AlignmentSampling \<in> set es"
      using m(1) assms(1) Align by (auto simp: ForceAlignment_def ApplyAlignmentVoltage_def Let_def split: bind_splits)
    ultimately show ?thesis
      using alignment_request.leaves_runner [of A "(n, config, cb, p)"] alignment_request.keeps_controller [of A "(n, config, cb, p)"] d' Align
      by (fastforce simp: runner_listens_def registered)
  next
    case (MeasureResistance config cb)
    with op d' show ?thesis by (auto simp: EstimateResistanceAndInductance_def runner_listens_def)
  next
    case (MeasurePolePairs config cb p)
    with op obtain s where s: "EstimateNumberOfPolePairs_impl A config cb p (electricalService d) = Some (s, es)"
        "d1 = d\<lparr>electricalService := s\<rparr>"
      by (auto split: bind_splits)
    moreover have "PhaseCurrentsReady identSamplingFrequency IgnoreCurrents \<in> set es"
      using s(1) by (auto simp: EstimateNumberOfPolePairs_impl_def Let_def split: bind_splits)
    ultimately show ?thesis
      using pole_pairs_request.leaves_runner [of A "(config, cb, p)"] pole_pairs_request.keeps_controller [of A "(config, cb, p)"] d' MeasurePolePairs
      by (fastforce simp: runner_listens_def registered)
  next
    case (MeasureFriction kt n config cb p)
    with op d' show ?thesis by (auto simp: EstimateFrictionAndInertia_def runner_listens_def)
  qed (use assms(1) in simp_all)
qed

text \<open>C3 (lost samples). The inverter has one callback for current samples, and the runner registers its own
  only when it is constructed. After a calibration request that is accepted, no sequence of operations gives it
  back: the controller is enabled and disabled as before, but none of the samples reaches it.\<close>

theorem samples_lost_after_calibration:
  assumes "drive_run A P R (ev # evs) d = Some (d', es)" and "calibration_request d ev"
  shows "onPhaseCurrentsReady (inverter d') \<noteq> Some RunnerLoop \<and>
    speedController d' = fold (controller_operation A P) (ev # evs) (speedController d)"
proof -
  from assms(1) obtain d1 fs gs where "drive_step A P R ev d = Some (d1, fs)" "drive_run A P R evs d1 = Some (d', gs)"
    by (auto split: bind_splits)
  with request_takes_callback [OF assms(2)] run_without_runner show ?thesis by (fastforce simp: runner_listens_def)
qed

text \<open>Until the first calibration the controller keeps the callback.\<close>

lemma loop_effects_silent [simp]: "concat (map (drive_effects \<circ> LoopEffect) es) = []"
  by (induction es) simp_all

lemma step_with_runner:
  assumes "drive_step A P R ev d = Some (d', es)" and "runner_listens d" and "\<not> calibration_request d ev"
    and "settleTimer (electricalService d) = None" "\<not> timeoutArmed (mechanicalService d)"
  shows "runner_listens d' \<and> settleTimer (electricalService d') = None \<and> \<not> timeoutArmed (mechanicalService d')"
  using assms
  by (cases ev)
    (auto simp: drive_step_def drive_sample_def Runner_Currents_def Runner_Enable_def Runner_Disable_def ForceAlignment_def SettleTimerExpired_def
      MechanicalTimeout_def runner_listens_def Let_def split: bind_splits prod.splits)

section \<open>Enabled after an alignment\<close>

lemma answered_alignment:
  assumes "AlignmentSample A p m = (m', es)" and "service_answers es \<noteq> []"
  shows "onAlignmentDone m' = None \<and> alignmentConfig m' = alignmentConfig m \<and>
    (maxSamples (alignmentConfig m') \<le> currentSampleIndex m' \<or>
     settledCount (alignmentConfig m') \<le> consecutiveSettledSamples m' \<and> alignPreviousPosition m' = fst p)"
  using assms
  by (auto simp: AlignmentSample_def ProcessPosition_def CalculateAlignmentOffset_def FailToConverge_def Let_def
      split: if_splits option.splits)

lemma sample_after_answer:
  assumes "onAlignmentDone m = None"
    and "maxSamples (alignmentConfig m) \<le> currentSampleIndex m \<or>
      settledCount (alignmentConfig m) \<le> consecutiveSettledSamples m \<and>
      flt A (float_abs A (fsub A (fst p) (alignPreviousPosition m))) (settledThreshold (alignmentConfig m))"
  shows "\<exists>m'. AlignmentSample A p m = (m', [DriverStop])"
  using assms by (auto simp: AlignmentSample_def ProcessPosition_def CalculateAlignmentOffset_def FailToConverge_def Let_def)

lemma alignment_answer_effects:
  assumes "AlignmentSample A p m = (m', es)"
  shows "PhaseCurrentsReady f h \<notin> set es"
  using assms
  by (auto simp: AlignmentSample_def ProcessPosition_def CalculateAlignmentOffset_def FailToConverge_def Let_def
      split: if_splits option.splits)

lemma same_callback:
  "(\<And>f h. PhaseCurrentsReady f h \<notin> set es) \<Longrightarrow> onPhaseCurrentsReady (fold inverter_call es i) = onPhaseCurrentsReady i"
proof (induction es arbitrary: i)
  case (Cons e es)
  then show ?case by (cases e) auto
qed simp

text \<open>Enabled after an alignment. The sample that answers an alignment leaves its callback in place.
  When the controller is started next, the first sample at which the encoder has not moved is taken for
  another settled one, and stops the inverter; the controller stays enabled.\<close>

lemma enabled_after_alignment_is_stopped:
  assumes "onPhaseCurrentsReady (inverter d) = Some AlignmentSampling"
    and "drive_step A P R (Sample c0 p0) d = Some (d1, es)" and "service_answers es \<noteq> []"
    and "flt A (float_abs A (fsub A p (fst p0))) (settledThreshold (alignmentConfig (alignmentService d)))"
  shows "\<exists>d2. drive_run A P R [ControllerStart, Sample c (p, q)] d1 = Some (d2, [DriverStart, DriverStop]) \<and>
    pwmStarted (inverter d2) = None \<and> speedController d2 = Speed_Enable A P (speedController d1)"
proof -
  obtain m where m: "AlignmentSample A p0 (alignmentService d) = (m, es)" and d1: "d1 = drive_calls A P es (d\<lparr>alignmentService := m\<rparr>)"
    using assms(1,2) by (auto simp: drive_step_def drive_sample_def split: prod.splits)
  have "onPhaseCurrentsReady (inverter d1) = Some AlignmentSampling"
    using same_callback [OF alignment_answer_effects [OF m]] assms(1) by (simp add: d1)
  moreover obtain m' where "AlignmentSample A (p, q) m = (m', [DriverStop])"
    using answered_alignment [OF m assms(3)] sample_after_answer [of m A "(p, q)"] assms(4) by auto
  ultimately show ?thesis by (simp add: drive_step_def drive_sample_def Runner_Enable_def d1)
qed

section \<open>The mechanical identification\<close>

text \<open>What the estimator is fed and answers, sample by sample.\<close>

fun friction_outcome ::
    "'f float_arith \<Rightarrow> ('r, 'm, 'f) rls_class \<Rightarrow> 'f \<Rightarrow> 'f \<Rightarrow> 'f \<Rightarrow> 'f \<Rightarrow> 'f \<Rightarrow> 'r \<Rightarrow> 'f drive_event list \<Rightarrow> ('f \<times> 'f) option option" where
  "friction_outcome A R kt np T p0 v0 rls (TimeoutTimer # evs) = Some None"
| "friction_outcome A R kt np T p0 v0 rls (Sample c (p, q) # evs) =
     (let e = ftimes A p np;
          i = ClarkePark_Forward A (ToThreePhase c) (the (Cosine A e)) (the (Sine A e));
          v = fdiv A (fsub A q p0) T;
          (rls, metrics) = rlsUpdate R (rlsMakeRegressor R (fdiv A (fsub A v v0) T) v) (ftimes A (qAxis i) kt) rls
      in if rlsConverged R metrics (flit A 1 4) (flit A 1 2) then Some (Some (rlsCoefficient R rls 2, rlsCoefficient R rls 1))
         else friction_outcome A R kt np T p v rls evs)"
| "friction_outcome A R kt np T p0 v0 rls _ = None"

fun observed_by :: "'f float_arith \<Rightarrow> 'f \<Rightarrow> 'f drive_event \<Rightarrow> bool" where
  "observed_by A np (Sample c (p, q)) \<longleftrightarrow> Cosine A (ftimes A p np) \<noteq> None \<and> Sine A (ftimes A p np) \<noteq> None"
| "observed_by A np TimeoutTimer \<longleftrightarrow> True"
| "observed_by A np _ \<longleftrightarrow> False"

lemma after_identification:
  assumes "onPhaseCurrentsReady (inverter d) = Some IgnoreCurrents" "\<not> timeoutArmed (mechanicalService d)"
    and "\<forall>ev\<in>set evs. observed_by A np ev"
  shows "drive_run A P R evs d = Some (d, [])"
  using assms(3)
proof (induction evs)
  case (Cons ev evs)
  then have "drive_step A P R ev d = Some (d, [])"
    using assms(1,2) by (cases ev) (auto simp: drive_step_def drive_sample_def MechanicalTimeout_def drive_calls_def)
  with Cons show ?case by simp
qed simp

definition identifying :: "callback \<Rightarrow> 'f \<Rightarrow> 'f \<Rightarrow> 'f \<Rightarrow> 'f \<Rightarrow> 'f \<Rightarrow> 'r \<Rightarrow> ('p, 'r, 'f) Drive \<Rightarrow> bool" where
  "identifying cb kt np T p0 v0 rls d \<longleftrightarrow> (let s = mechanicalService d in
     onPhaseCurrentsReady (inverter d) = Some MechanicalSampling \<and> timeoutArmed s \<and> onMechanicalDone s = Some cb \<and>
     mechRls s = Some rls \<and> mechPolePairs s = np \<and> mechSamplingPeriod s = T \<and> mechPreviousPosition s = p0 \<and>
     mechPreviousSpeed s = v0 \<and> capturedTorqueConstant d = kt)"

definition friction_answer :: "callback \<Rightarrow> ('f \<times> 'f) option option \<Rightarrow> (callback \<times> 'f service_answer) list" where
  "friction_answer cb r = (case r of None \<Rightarrow> [] | Some x \<Rightarrow> [(cb, FrictionAndInertiaIs x)])"

lemma identification_timeout:
  assumes "identifying cb kt np T p0 v0 rls d"
  shows "\<exists>d1. drive_step A P R TimeoutTimer d = Some (d1, [PhaseCurrentsReady 10000 IgnoreCurrents, ServiceDone cb (FrictionAndInertiaIs None)]) \<and>
    onPhaseCurrentsReady (inverter d1) = Some IgnoreCurrents \<and> \<not> timeoutArmed (mechanicalService d1) \<and>
    pwmStarted (inverter d1) = pwmStarted (inverter d) \<and> speedController d1 = speedController d"
  using assms by (simp add: identifying_def Let_def drive_step_def MechanicalTimeout_def)

lemma identification_sample:
  assumes "identifying cb kt np T p0 v0 rls d" and "Cosine A (ftimes A p np) = Some x" "Sine A (ftimes A p np) = Some y"
    and "rlsUpdate R (rlsMakeRegressor R (fdiv A (fsub A (fdiv A (fsub A q p0) T) v0) T) (fdiv A (fsub A q p0) T))
      (ftimes A (qAxis (ClarkePark_Forward A (ToThreePhase c) x y)) kt) rls = (rls1, metrics)"
  shows "\<exists>d1 es. drive_step A P R (Sample c (p, q)) d = Some (d1, es) \<and>
    pwmStarted (inverter d1) = pwmStarted (inverter d) \<and> speedController d1 = speedController d \<and>
    (if rlsConverged R metrics (flit A 1 4) (flit A 1 2)
     then service_answers es = [(cb, FrictionAndInertiaIs (Some (rlsCoefficient R rls1 2, rlsCoefficient R rls1 1)))] \<and>
       onPhaseCurrentsReady (inverter d1) = Some IgnoreCurrents \<and> \<not> timeoutArmed (mechanicalService d1)
     else service_answers es = [] \<and> identifying cb kt np T p (fdiv A (fsub A q p0) T) rls1 d1)"
  using assms by (auto simp: identifying_def Let_def drive_step_def drive_sample_def OnSamplingUpdate_def)

lemma identification_run:
  assumes "identifying cb kt np T p0 v0 rls d" and "\<forall>ev\<in>set evs. observed_by A np ev"
  shows "\<exists>d' es. drive_run A P R evs d = Some (d', es) \<and>
    service_answers es = friction_answer cb (friction_outcome A R kt np T p0 v0 rls evs) \<and>
    pwmStarted (inverter d') = pwmStarted (inverter d) \<and> speedController d' = speedController d \<and>
    onPhaseCurrentsReady (inverter d') =
      Some (if friction_outcome A R kt np T p0 v0 rls evs = None then MechanicalSampling else IgnoreCurrents)"
  using assms
proof (induction evs arbitrary: d p0 v0 rls)
  case Nil
  then show ?case by (simp add: identifying_def friction_answer_def Let_def)
next
  case (Cons ev evs)
  then have rest: "\<forall>ev\<in>set evs. observed_by A np ev" by simp
  show ?case
  proof (cases ev)
    case TimeoutTimer
    from identification_timeout [OF Cons.prems(1), of A P R] obtain d1 where
      d1: "drive_step A P R TimeoutTimer d = Some (d1, [PhaseCurrentsReady 10000 IgnoreCurrents, ServiceDone cb (FrictionAndInertiaIs None)])"
        "onPhaseCurrentsReady (inverter d1) = Some IgnoreCurrents" "\<not> timeoutArmed (mechanicalService d1)"
        "pwmStarted (inverter d1) = pwmStarted (inverter d)" "speedController d1 = speedController d" by blast
    then have "drive_run A P R evs d1 = Some (d1, [])" by (intro after_identification [OF d1(2,3) rest])
    with d1 show ?thesis by (simp add: TimeoutTimer friction_answer_def)
  next
    case (Sample c p2)
    obtain p q where p2: "p2 = (p, q)" by fastforce
    with Cons.prems(2) Sample obtain x y where xy: "Cosine A (ftimes A p np) = Some x" "Sine A (ftimes A p np) = Some y" by auto
    let ?v = "fdiv A (fsub A q p0) T"
    obtain rls1 metrics where u: "rlsUpdate R (rlsMakeRegressor R (fdiv A (fsub A ?v v0) T) ?v)
        (ftimes A (qAxis (ClarkePark_Forward A (ToThreePhase c) x y)) kt) rls = (rls1, metrics)" by fastforce
    from identification_sample [OF Cons.prems(1) xy u, of P] obtain d1 es1 where
      step: "drive_step A P R ev d = Some (d1, es1)" "pwmStarted (inverter d1) = pwmStarted (inverter d)" "speedController d1 = speedController d"
      and out: "if rlsConverged R metrics (flit A 1 4) (flit A 1 2)
        then service_answers es1 = [(cb, FrictionAndInertiaIs (Some (rlsCoefficient R rls1 2, rlsCoefficient R rls1 1)))] \<and>
          onPhaseCurrentsReady (inverter d1) = Some IgnoreCurrents \<and> \<not> timeoutArmed (mechanicalService d1)
        else service_answers es1 = [] \<and> identifying cb kt np T p ?v rls1 d1"
      unfolding Sample p2 by blast
    show ?thesis
    proof (cases "rlsConverged R metrics (flit A 1 4) (flit A 1 2)")
      case True
      with out have "drive_run A P R evs d1 = Some (d1, [])" using after_identification [of d1 evs A np P R] rest by simp
      with True out step u xy show ?thesis by (simp add: Sample p2 friction_answer_def Let_def)
    next
      case False
      with out have "identifying cb kt np T p ?v rls1 d1" "service_answers es1 = []" by simp_all
      with Cons.IH [OF this(1) rest] step u xy False show ?thesis by (auto simp: Sample p2 Let_def)
    qed
  qed (use Cons.prems(2) in auto)
qed

text \<open>C22 (mechanical identification). The identification enables the speed controller and takes the current
  callback away from it. While it runs, the duty cycles stay what they were: the motor is not driven. With
  angles in the range of the fast sine it answers exactly once, with the estimate at the first sample that
  converges or with \<open>nullopt\<close> at the timeout, whichever is first, and not at all before; then the samples are
  ignored. The controller is still enabled afterwards.\<close>

theorem mechanical_identification:
  assumes "\<forall>ev\<in>set evs. observed_by A (fofint A (int n)) ev"
    and "r = friction_outcome A R kt (fofint A (int n)) (mechSamplingPeriod (mechanicalService d)) p0 (flit A 0 1)
      (rlsNew R (flit A 10000 1) (forgettingFactor config)) evs"
  shows "\<exists>d' es. drive_run A P R (MeasureFriction kt n config cb p0 # evs) d = Some (d', es) \<and>
    service_answers es = friction_answer cb r \<and> pwmStarted (inverter d') = pwmStarted (inverter d) \<and>
    speedController d' = Speed_SetPoint A P (targetSpeed config) (Speed_Enable A P (speedController d)) \<and>
    onPhaseCurrentsReady (inverter d') = Some (if r = None then MechanicalSampling else IgnoreCurrents)"
proof -
  obtain d1 es1 where step: "drive_step A P R (MeasureFriction kt n config cb p0) d = Some (d1, es1)"
      and d1: "service_answers es1 = []" "pwmStarted (inverter d1) = pwmStarted (inverter d)"
        "speedController d1 = Speed_SetPoint A P (targetSpeed config) (Speed_Enable A P (speedController d))"
        "identifying cb kt (fofint A (int n)) (mechSamplingPeriod (mechanicalService d)) p0 (flit A 0 1)
          (rlsNew R (flit A 10000 1) (forgettingFactor config)) d1"
    by (simp add: drive_step_def EstimateFrictionAndInertia_def identifying_def Let_def)
  obtain d2 es2 where "drive_run A P R evs d1 = Some (d2, es2)" "service_answers es2 = friction_answer cb r"
      "pwmStarted (inverter d2) = pwmStarted (inverter d1)" "speedController d2 = speedController d1"
      "onPhaseCurrentsReady (inverter d2) = Some (if r = None then MechanicalSampling else IgnoreCurrents)"
    using identification_run [OF d1(4) assms(1), of P R] assms(2) by blast
  with step d1 show ?thesis by simp
qed

section \<open>An instance\<close>

text \<open>An estimator that converges at the third update, and a drive that was just constructed.\<close>

definition counting_rls :: "(nat, nat, real) rls_class" where
  "counting_rls = \<lparr>rlsNew = \<lambda>_ _. 0, rlsMakeRegressor = \<lambda>a v. [1, a, v], rlsUpdate = \<lambda>_ _ r. (r + 1, r + 1),
     rlsConverged = \<lambda>m _ _. 3 \<le> m, rlsCoefficient = \<lambda>_ i. real i, rlsSetCoefficients = \<lambda>_ r. r\<rparr>"

definition new_drive :: "(real, nat, real) Drive option" where
  "new_drive = Drive_new exact proportional 24 5 10000 1000"

lemma new_drive:
  obtains d where "new_drive = Some d" "runner_listens d" "onAlignmentDone (alignmentService d) = None" "pwmStarted (inverter d) = None"
    "currentSampleIndex (alignmentService d) = 0"
  by (simp add: new_drive_def Drive_new_def FocSpeedImpl_new_def FocWithSpeedLoop_new_def Runner_new_def runner_listens_def
      MotorAlignmentImpl_init_def)

theorem samples_lost_after_calibration_witness:
  "\<exists>d d' es. new_drive = Some d \<and>
     drive_run exact proportional counting_rls
       [MeasureResistance \<lparr>testVoltagePercent = 15, settleTime = 2, windingConfig = Wye\<rparr> 1, ControllerStart, Sample no_current (0, 0)] d = Some (d', es) \<and>
     onPhaseCurrentsReady (inverter d') \<noteq> Some RunnerLoop \<and>
     speedController d' = Speed_Enable exact proportional (speedController d)"
proof -
  obtain d where d: "new_drive = Some d" by (rule new_drive)
  let ?evs = "[ControllerStart, Sample no_current (0, 0)]" and ?c = "\<lparr>testVoltagePercent = 15, settleTime = 2, windingConfig = Wye\<rparr>"
  obtain d' es where run: "drive_run exact proportional counting_rls (MeasureResistance ?c 1 # ?evs) d = Some (d', es)"
    by (simp add: drive_step_def drive_sample_def EstimateResistanceAndInductance_def Runner_Enable_def)
  from samples_lost_after_calibration [OF run] d run show ?thesis by auto
qed

lemma enabled_after_alignment_is_stopped_witness:
  "\<exists>d d1 d2 es1 es2. new_drive = Some d \<and>
     drive_run exact proportional counting_rls
       [Align 7 \<lparr>alignVoltagePercent = 20, alignSamplingFrequency = 1000, maxSamples = 10, settledThreshold = 1, settledCount = 1\<rparr> 2 0,
        Sample no_current (0, 0)] d = Some (d1, es1) \<and> service_answers es1 = [(2, OffsetIs (Some 0))] \<and>
     drive_run exact proportional counting_rls [ControllerStart, Sample no_current (0, 0)] d1 = Some (d2, es2) \<and>
     pwmStarted (inverter d2) = None \<and> speedController d2 = Speed_Enable exact proportional (speedController d1)"
proof -
  obtain d where d: "new_drive = Some d" "onAlignmentDone (alignmentService d) = None" by (rule new_drive)
  let ?c = "\<lparr>alignVoltagePercent = 20, alignSamplingFrequency = 1000, maxSamples = 10, settledThreshold = 1, settledCount = 1\<rparr>"
  obtain duty where "VoltageAtAngle exact 20 0 = Some duty" by (rule exact_order.VoltageAtAngle_ok)
  then obtain dA where dA: "drive_step exact proportional counting_rls (Align 7 ?c 2 0) d =
      Some (dA, [DriverStop, ThreePhasePwmOutput duty, PhaseCurrentsReady 1000 AlignmentSampling])"
      "onPhaseCurrentsReady (inverter dA) = Some AlignmentSampling"
      "alignmentService dA = (alignmentService d)\<lparr>alignPolePairs := 7, alignmentConfig := ?c, onAlignmentDone := Some 2,
        currentSampleIndex := 0, consecutiveSettledSamples := 0, alignPreviousPosition := 0\<rparr>"
    using d(2) by (simp add: drive_step_def ForceAlignment_def ApplyAlignmentVoltage_def Let_def)
  obtain d1 where d1: "drive_step exact proportional counting_rls (Sample no_current (0, 0)) dA =
      Some (d1, [DriverStop, ServiceDone 2 (OffsetIs (Some 0))])"
    using dA(2,3) by (simp add: drive_step_def drive_sample_def AlignmentSample_def ProcessPosition_def CalculateAlignmentOffset_def)
  from enabled_after_alignment_is_stopped [OF dA(2) d1, of 0 no_current 0] dA(3) obtain d2 where
    "drive_run exact proportional counting_rls [ControllerStart, Sample no_current (0, 0)] d1 = Some (d2, [DriverStart, DriverStop])"
    "pwmStarted (inverter d2) = None" "speedController d2 = Speed_Enable exact proportional (speedController d1)" by auto
  with d(1) dA(1) d1 show ?thesis
    by (intro exI [of _ d] exI [of _ d1] exI [of _ d2]) simp
qed

theorem mechanical_identification_witness:
  "\<exists>d d' es. new_drive = Some d \<and>
     drive_run exact proportional counting_rls
       (MeasureFriction 1 7 (MechanicalConfig_default exact) 5 0 # replicate 4 (Sample no_current (0, 0)) @ [TimeoutTimer]) d = Some (d', es) \<and>
     service_answers es = [(5, FrictionAndInertiaIs (Some (2, 1)))] \<and> pwmStarted (inverter d') = None"
proof -
  obtain d where d: "new_drive = Some d" "pwmStarted (inverter d) = None" by (rule new_drive)
  let ?evs = "replicate 4 (Sample no_current (0, 0)) @ [TimeoutTimer]"
  have evs: "\<forall>ev\<in>set ?evs. observed_by exact (fofint exact (int 7)) ev" by (auto simp: Sine_zero)
  have out: "friction_outcome exact counting_rls 1 (fofint exact (int 7)) T 0 (flit exact 0 1)
      (rlsNew counting_rls (flit exact 10000 1) (forgettingFactor (MechanicalConfig_default exact))) ?evs = Some (Some (2, 1))" for T
    by (simp add: counting_rls_def eval_nat_numeral Let_def)
  show ?thesis
    using mechanical_identification [OF evs refl, where R = counting_rls and kt = 1 and d = d and ?p0.0 = 0
      and config = "MechanicalConfig_default exact" and P = proportional and cb = 5] d
    unfolding out by (auto simp: friction_answer_def)
qed

end
