(* ===== verification/Fault_Handler.thy ===== *)
theory Fault_Handler
  imports Foc_Prelude
begin

text \<open>
  The fault record that survives a reset (\<open>PersistentFaultData.cpp\<close>), the part of the hard-fault
  handler in C++ (\<open>FaultHandler.cpp\<close>), and the report at the next boot
  (\<open>PlatformFactoryImpl::PlatformFactoryImpl\<close>). The handler is the list of its stores in program order,
  so that it can be interrupted after any of them.
\<close>

section \<open>The record\<close>

record PersistentFaultData =
  fdMagic :: u32
  fdR0 :: u32
  fdR1 :: u32
  fdR2 :: u32
  fdR3 :: u32
  fdR12 :: u32
  fdLr :: u32
  fdPc :: u32
  fdPsr :: u32
  fdCfsr :: u32
  fdMmfar :: u32
  fdBfar :: u32
  stackTraceCount :: u32
  stackTrace :: "u32 list"

definition kMagicValid :: u32 where "kMagicValid = 0xDEADBEEF"
definition kMaxStackTraceEntries :: nat where "kMaxStackTraceEntries = 243"

definition IsValid :: "PersistentFaultData \<Rightarrow> bool" where
  "IsValid d \<longleftrightarrow> fdMagic d = kMagicValid"

definition Invalidate :: "PersistentFaultData \<Rightarrow> PersistentFaultData" where
  "Invalidate d = d\<lparr>fdMagic := 0\<rparr>"

section \<open>The handler\<close>

datatype fault_store =
    StoreMagic u32
  | StoreR0 u32 | StoreR1 u32 | StoreR2 u32 | StoreR3 u32 | StoreR12 u32 | StoreLr u32 | StorePc u32 | StorePsr u32
  | StoreCfsr u32 | StoreMmfar u32 | StoreBfar u32
  | StoreTrace nat u32
  | StoreCount u32

fun apply_store :: "fault_store \<Rightarrow> PersistentFaultData \<Rightarrow> PersistentFaultData" where
  "apply_store (StoreMagic v) d = d\<lparr>fdMagic := v\<rparr>"
| "apply_store (StoreR0 v) d = d\<lparr>fdR0 := v\<rparr>"
| "apply_store (StoreR1 v) d = d\<lparr>fdR1 := v\<rparr>"
| "apply_store (StoreR2 v) d = d\<lparr>fdR2 := v\<rparr>"
| "apply_store (StoreR3 v) d = d\<lparr>fdR3 := v\<rparr>"
| "apply_store (StoreR12 v) d = d\<lparr>fdR12 := v\<rparr>"
| "apply_store (StoreLr v) d = d\<lparr>fdLr := v\<rparr>"
| "apply_store (StorePc v) d = d\<lparr>fdPc := v\<rparr>"
| "apply_store (StorePsr v) d = d\<lparr>fdPsr := v\<rparr>"
| "apply_store (StoreCfsr v) d = d\<lparr>fdCfsr := v\<rparr>"
| "apply_store (StoreMmfar v) d = d\<lparr>fdMmfar := v\<rparr>"
| "apply_store (StoreBfar v) d = d\<lparr>fdBfar := v\<rparr>"
| "apply_store (StoreTrace i v) d = d\<lparr>stackTrace := (stackTrace d)[i := v]\<rparr>"
| "apply_store (StoreCount v) d = d\<lparr>stackTraceCount := v\<rparr>"

text \<open>The stack is a map from word offsets: \<open>stack\<close> is at 0 and \<open>_estack\<close> at \<open>stackTop\<close>.\<close>

definition code_address :: "u32 \<Rightarrow> u32 \<Rightarrow> u32 \<Rightarrow> bool" where
  "code_address textStart textEnd w \<longleftrightarrow> (let addr = w AND 0xFFFFFFFE in textStart \<le> addr \<and> addr < textEnd)"

function scan_stack :: "u32 \<Rightarrow> u32 \<Rightarrow> (nat \<Rightarrow> u32) \<Rightarrow> nat \<Rightarrow> nat \<Rightarrow> nat \<Rightarrow> fault_store list \<times> nat" where
  "scan_stack textStart textEnd stack stackTop sp count =
     (if sp < stackTop \<and> count < kMaxStackTraceEntries
      then if code_address textStart textEnd (stack sp)
           then let (es, n) = scan_stack textStart textEnd stack stackTop (sp + 1) (count + 1)
                in (StoreTrace count (stack sp) # es, n)
           else scan_stack textStart textEnd stack stackTop (sp + 1) count
      else ([], count))"
  by pat_completeness auto
termination by (relation "measure (\<lambda>(_, _, _, stackTop, sp, _). stackTop - sp)") auto

declare scan_stack.simps [simp del]

record fault_status =
  scbCfsr :: u32
  scbMmfar :: u32
  scbBfar :: u32

definition HardFault_Handler_C :: "u32 \<Rightarrow> u32 \<Rightarrow> fault_status \<Rightarrow> (nat \<Rightarrow> u32) \<Rightarrow> nat \<Rightarrow> fault_store list" where
  "HardFault_Handler_C textStart textEnd scb stack stackTop =
     (let (trace, count) = scan_stack textStart textEnd stack stackTop 8 0
      in [StoreMagic 0,
          StoreR0 (stack 0), StoreR1 (stack 1), StoreR2 (stack 2), StoreR3 (stack 3), StoreR12 (stack 4),
          StoreLr (stack 5), StorePc (stack 6), StorePsr (stack 7),
          StoreCfsr (scbCfsr scb), StoreMmfar (scbMmfar scb), StoreBfar (scbBfar scb)]
         @ trace @ [StoreCount (word_of_nat count), StoreMagic kMagicValid])"

section \<open>The report\<close>

text \<open>What is inserted into the output stream, in order: a text, a number in hexadecimal, and a number in
  hexadecimal with eight digits. Formatting and truncation are the stream's.\<close>

datatype fault_text = Text string | Hex u32 | Hex8 u32

definition newline :: string where "newline = [CHR 0x0D, CHR 0x0A]"
definition tab :: string where "tab = [CHR 0x09]"

definition field_text :: "string \<Rightarrow> u32 \<Rightarrow> fault_text list" where
  "field_text name v = [Text (tab @ tab @ name @ '': 0x''), Hex v, Text newline]"

definition FormatFaultData :: "PersistentFaultData \<Rightarrow> fault_text list" where
  "FormatFaultData d =
     [Text (newline @ tab @ ''Stack frame:'' @ newline)] @
     field_text ''R0  '' (fdR0 d) @ field_text ''R1  '' (fdR1 d) @ field_text ''R2  '' (fdR2 d) @ field_text ''R3  '' (fdR3 d) @
     field_text ''R12 '' (fdR12 d) @ field_text ''LR  '' (fdLr d) @ field_text ''PC  '' (fdPc d) @ field_text ''PSR '' (fdPsr d) @
     [Text (tab @ ''FSR/FAR:'' @ newline)] @
     field_text ''CFSR '' (fdCfsr d) @ field_text ''MMFAR'' (fdMmfar d) @ field_text ''BFAR '' (fdBfar d) @
     (if 0 < stackTraceCount d
      then let count = (if stackTraceCount d < word_of_nat kMaxStackTraceEntries then unat (stackTraceCount d) else kMaxStackTraceEntries)
           in [Text (tab @ ''Backtrace:'' @ newline @ tab @ tab)] @
              concat (map (\<lambda>i. [Text '' 0x'', Hex8 (stackTrace d ! i)]) [0..<count]) @ [Text newline]
      else [])"

definition report_at_boot :: "PersistentFaultData \<Rightarrow> fault_text list option \<times> PersistentFaultData" where
  "report_at_boot d = (if IsValid d then (Some (FormatFaultData d), Invalidate d) else (None, d))"

section \<open>The trace is a filter\<close>

definition return_addresses :: "u32 \<Rightarrow> u32 \<Rightarrow> (nat \<Rightarrow> u32) \<Rightarrow> nat \<Rightarrow> nat \<Rightarrow> u32 list" where
  "return_addresses textStart textEnd stack sp stackTop = filter (code_address textStart textEnd) (map stack [sp..<stackTop])"

lemma scan_stack_filter:
  assumes "count \<le> kMaxStackTraceEntries"
  shows "scan_stack t e stack stackTop sp count =
    (let ws = take (kMaxStackTraceEntries - count) (return_addresses t e stack sp stackTop)
     in (map (\<lambda>(i, w). StoreTrace i w) (zip [count..<count + length ws] ws), count + length ws))"
  using assms
proof (induction t e stack stackTop sp count rule: scan_stack.induct)
  case (1 t e stack stackTop sp count)
  show ?case
  proof (cases "sp < stackTop \<and> count < kMaxStackTraceEntries")
    case False
    then have "take (kMaxStackTraceEntries - count) (return_addresses t e stack sp stackTop) = []"
      using 1(3) by (auto simp: return_addresses_def)
    moreover have "scan_stack t e stack stackTop sp count = ([], count)" using False by (subst scan_stack.simps) auto
    ultimately show ?thesis by (simp only: Let_def) simp
  next
    case True
    then have cons: "return_addresses t e stack sp stackTop =
        (if code_address t e (stack sp) then stack sp # return_addresses t e stack (Suc sp) stackTop
         else return_addresses t e stack (Suc sp) stackTop)"
      by (simp add: return_addresses_def upt_conv_Cons)
    show ?thesis
    proof (cases "code_address t e (stack sp)")
      case code: True
      have suc: "kMaxStackTraceEntries - count = Suc (kMaxStackTraceEntries - Suc count)" using True by linarith
      define ws where "ws = take (kMaxStackTraceEntries - Suc count) (return_addresses t e stack (Suc sp) stackTop)"
      have "scan_stack t e stack stackTop (sp + 1) (count + 1) =
          (map (\<lambda>(i, w). StoreTrace i w) (zip [Suc count..<Suc count + length ws] ws), Suc count + length ws)"
        using 1(1) True code by (simp add: ws_def Let_def)
      then have "scan_stack t e stack stackTop sp count =
          (StoreTrace count (stack sp) # map (\<lambda>(i, w). StoreTrace i w) (zip [Suc count..<Suc count + length ws] ws), Suc count + length ws)"
        using True code by (subst scan_stack.simps) simp
      moreover have "[count..<count + length (stack sp # ws)] = count # [Suc count..<Suc count + length ws]"
        by (simp add: upt_conv_Cons del: upt_Suc)
      moreover have "take (kMaxStackTraceEntries - count) (return_addresses t e stack sp stackTop) = stack sp # ws"
        unfolding cons suc ws_def using code by simp
      ultimately show ?thesis by (simp only: Let_def) simp
    next
      case False
      show ?thesis using True False 1 unfolding scan_stack.simps [of t e stack stackTop sp count] cons by (simp add: Let_def)
    qed
  qed
qed

lemma fold_trace:
  assumes "length ws \<le> length (stackTrace d)"
  shows "fold apply_store (map (\<lambda>(i, w). StoreTrace i w) (zip [0..<length ws] ws)) d =
    d\<lparr>stackTrace := ws @ drop (length ws) (stackTrace d)\<rparr>"
  using assms
proof (induction ws rule: rev_induct)
  case (snoc w ws)
  have "zip [0..<length (ws @ [w])] (ws @ [w]) = zip [0..<length ws] ws @ [(length ws, w)]" by simp
  moreover have "(ws @ drop (length ws) (stackTrace d))[length ws := w] = (ws @ [w]) @ drop (length (ws @ [w])) (stackTrace d)"
    using snoc.prems by (simp add: list_update_append Cons_nth_drop_Suc [symmetric])
  ultimately show ?case using snoc by simp
qed simp

text \<open>No store but the last makes the record valid.\<close>

lemma magic_kept:
  "(\<And>v. StoreMagic v \<notin> set es) \<Longrightarrow> fdMagic (fold apply_store es d) = fdMagic d"
proof (induction es arbitrary: d)
  case (Cons e es)
  then show ?case by (cases e) auto
qed simp

lemma take_butlast_fault:
  assumes "es = StoreMagic 0 # fs @ [StoreMagic v]" and "\<And>v. StoreMagic v \<notin> set fs" and "0 < k" "k < length es"
  shows "fdMagic (fold apply_store (take k es) d) = 0"
proof -
  obtain j where j: "k = Suc j" using assms(3) gr0_implies_Suc by blast
  with assms(1,4) have "take k es = StoreMagic 0 # take j fs" by simp
  moreover have "\<And>v. StoreMagic v \<notin> set (take j fs)" using assms(2) by (meson in_set_takeD)
  ultimately show ?thesis by (simp add: magic_kept)
qed



end
