(* ===== verification/Can_Client.thy ===== *)
theory Can_Client
  imports Foc_Float
begin

text \<open>
  The CAN commander: the command client (\<open>CanCommandClient.cpp\<close>) and what its main window does with it
  (\<open>MainWindow.cpp\<close>: the command buttons, the timeout timer and the notifications). Whether the CAN
  library took a request, and its scale factors, are parameters.
\<close>

section \<open>The client\<close>

text \<open>Requests to the category of the CAN library, and notifications of the observer.\<close>

datatype can_request =
    ReqStart u16 | ReqStop u16 | ReqEmergencyStop u16
  | ReqSelectControlMode u16 u8
  | ReqSetTorqueSetpoint u16 "16 word" | ReqSetSpeedSetpoint u16 "16 word" | ReqSetPositionSetpoint u16 "16 word"
  | ReqSetPidCurrent u16 "16 word list" | ReqSetPidSpeed u16 "16 word list" | ReqSetPidPosition u16 "16 word list"
  | ReqRequestTelemetry u16

datatype 'f client_notice =
    BusyChanged bool
  | CommandTimeout
  | ConnectionChanged bool
  | MotorStatusReceived u8 u8
  | SpeedPositionReceived 'f 'f
  | FaultEventReceived u8
  | CurrentMeasurementReceived 'f 'f
  | BusVoltageReceived 'f
  | ControlModeAcknowledged u8
  | CommandAcknowledged u8 u8 u8
  | FrameLogged bool u32 "u8 list"
  | AdapterError string

datatype 'f client_effect = SendRequest can_request | Notify "'f client_notice"

record 'f foc_scales =
  focCurrentScale :: 'f
  focSpeedScale :: 'f
  focPositionScale :: 'f
  focVoltageScale :: 'f
  focPidScale :: 'f
  faultNone :: u8

record CanCommandClient =
  nodeId :: u16
  clientBusy :: bool

definition CanCommandClient_init :: CanCommandClient where
  "CanCommandClient_init = \<lparr>nodeId = 1, clientBusy = False\<rparr>"

type_synonym 'f client_result = "CanCommandClient \<times> 'f client_effect list"

definition SetNodeId :: "u16 \<Rightarrow> CanCommandClient \<Rightarrow> CanCommandClient" where
  "SetNodeId i c = c\<lparr>nodeId := i\<rparr>"

definition SetBusy :: "bool \<Rightarrow> CanCommandClient \<Rightarrow> 'f client_result" where
  "SetBusy newBusy c = (if clientBusy c \<noteq> newBusy then (c\<lparr>clientBusy := newBusy\<rparr>, [Notify (BusyChanged newBusy)]) else (c, []))"

text \<open>The shape of every command: busy, the request, and not busy again when the library took it.\<close>

definition send_command :: "bool \<Rightarrow> can_request \<Rightarrow> CanCommandClient \<Rightarrow> 'f client_result" where
  "send_command sent request c =
     (let (c, es) = SetBusy True c; (c, fs) = (if sent then SetBusy False c else (c, [])) in (c, es @ [SendRequest request] @ fs))"

definition SendStartMotor :: "bool \<Rightarrow> CanCommandClient \<Rightarrow> 'f client_result" where
  "SendStartMotor sent c = send_command sent (ReqStart (nodeId c)) c"

definition SendStopMotor :: "bool \<Rightarrow> CanCommandClient \<Rightarrow> 'f client_result" where
  "SendStopMotor sent c = send_command sent (ReqStop (nodeId c)) c"

definition SendEmergencyStop :: "bool \<Rightarrow> CanCommandClient \<Rightarrow> 'f client_result" where
  "SendEmergencyStop sent c = send_command sent (ReqEmergencyStop (nodeId c)) c"

definition SendSetControlMode :: "bool \<Rightarrow> u8 \<Rightarrow> CanCommandClient \<Rightarrow> 'f client_result" where
  "SendSetControlMode sent mode c = send_command sent (ReqSelectControlMode (nodeId c) mode) c"

text \<open>Set points saturate at the limits of 16 bits, after a conversion to 32 bits that does not. Gains are
  converted to 16 bits directly.\<close>

definition scaled_setpoint :: "'f float_arith \<Rightarrow> 'f \<Rightarrow> 'f \<Rightarrow> 16 word option" where
  "scaled_setpoint A x scale = map_option (\<lambda>n. word_of_int (max (- 32768) (min n 32767))) (cast_int32 A (ftimes A x scale))"

definition scaled_gain :: "'f float_arith \<Rightarrow> 'f \<Rightarrow> 'f \<Rightarrow> 16 word option" where
  "scaled_gain A x scale = map_option word_of_int (cast_int A (- 32768) 32767 (ftimes A x scale))"

definition scaled_gains :: "'f float_arith \<Rightarrow> 'f \<Rightarrow> 'f \<times> 'f \<times> 'f \<Rightarrow> 16 word list option" where
  "scaled_gains A scale = (\<lambda>(kp, ki, kd). do {
     p \<leftarrow> scaled_gain A kp scale; i \<leftarrow> scaled_gain A ki scale; d \<leftarrow> scaled_gain A kd scale; Some [p, i, d] })"

definition SendSetTorqueSetpoint :: "'f float_arith \<Rightarrow> 'f foc_scales \<Rightarrow> bool \<Rightarrow> 'f \<Rightarrow> CanCommandClient \<Rightarrow> 'f client_result option" where
  "SendSetTorqueSetpoint A K sent iqCurrent c =
     map_option (\<lambda>v. send_command sent (ReqSetTorqueSetpoint (nodeId c) v) c) (scaled_setpoint A iqCurrent (focCurrentScale K))"

definition SendSetSpeedSetpoint :: "'f float_arith \<Rightarrow> 'f foc_scales \<Rightarrow> bool \<Rightarrow> 'f \<Rightarrow> CanCommandClient \<Rightarrow> 'f client_result option" where
  "SendSetSpeedSetpoint A K sent speedRadPerSec c =
     map_option (\<lambda>v. send_command sent (ReqSetSpeedSetpoint (nodeId c) v) c) (scaled_setpoint A speedRadPerSec (focSpeedScale K))"

definition SendSetPositionSetpoint :: "'f float_arith \<Rightarrow> 'f foc_scales \<Rightarrow> bool \<Rightarrow> 'f \<Rightarrow> CanCommandClient \<Rightarrow> 'f client_result option" where
  "SendSetPositionSetpoint A K sent positionRad c =
     map_option (\<lambda>v. send_command sent (ReqSetPositionSetpoint (nodeId c) v) c) (scaled_setpoint A positionRad (focPositionScale K))"

definition SendSetCurrentIdPid :: "'f float_arith \<Rightarrow> 'f foc_scales \<Rightarrow> bool \<Rightarrow> 'f \<times> 'f \<times> 'f \<Rightarrow> CanCommandClient \<Rightarrow> 'f client_result option" where
  "SendSetCurrentIdPid A K sent gains c =
     map_option (\<lambda>g. send_command sent (ReqSetPidCurrent (nodeId c) g) c) (scaled_gains A (focPidScale K) gains)"

definition SendSetCurrentIqPid :: "'f float_arith \<Rightarrow> 'f foc_scales \<Rightarrow> bool \<Rightarrow> 'f \<times> 'f \<times> 'f \<Rightarrow> CanCommandClient \<Rightarrow> 'f client_result option" where
  "SendSetCurrentIqPid A K sent gains c = SendSetCurrentIdPid A K sent gains c"

definition SendSetSpeedPid :: "'f float_arith \<Rightarrow> 'f foc_scales \<Rightarrow> bool \<Rightarrow> 'f \<times> 'f \<times> 'f \<Rightarrow> CanCommandClient \<Rightarrow> 'f client_result option" where
  "SendSetSpeedPid A K sent gains c =
     map_option (\<lambda>g. send_command sent (ReqSetPidSpeed (nodeId c) g) c) (scaled_gains A (focPidScale K) gains)"

definition SendSetPositionPid :: "'f float_arith \<Rightarrow> 'f foc_scales \<Rightarrow> bool \<Rightarrow> 'f \<times> 'f \<times> 'f \<Rightarrow> CanCommandClient \<Rightarrow> 'f client_result option" where
  "SendSetPositionPid A K sent gains c =
     map_option (\<lambda>g. send_command sent (ReqSetPidPosition (nodeId c) g) c) (scaled_gains A (focPidScale K) gains)"

definition RequestData :: "CanCommandClient \<Rightarrow> 'f client_effect list" where
  "RequestData c = [SendRequest (ReqRequestTelemetry (nodeId c))]"

definition HandleTimeout :: "CanCommandClient \<Rightarrow> 'f client_result" where
  "HandleTimeout c = (let (c, es) = SetBusy False c in (c, es @ [Notify CommandTimeout]))"

section \<open>Notifications of the CAN library and the adapter\<close>

definition OnServerOnline :: "'f client_effect list" where "OnServerOnline = [Notify (ConnectionChanged True)]"
definition OnServerOffline :: "'f client_effect list" where "OnServerOffline = [Notify (ConnectionChanged False)]"

record FocTelemetryStatus =
  statusState :: u8
  statusFault :: u8
  statusSpeed :: int
  statusPosition :: int

record FocTelemetryElectrical =
  telemetryVoltage :: int
  telemetryIq :: int
  telemetryId :: int

definition from_wire :: "'f float_arith \<Rightarrow> 'f \<Rightarrow> int \<Rightarrow> 'f" where
  "from_wire A scale v = fdiv A (fofint A v) scale"

definition OnTelemetryStatusResponse :: "'f float_arith \<Rightarrow> 'f foc_scales \<Rightarrow> FocTelemetryStatus \<Rightarrow> 'f client_effect list" where
  "OnTelemetryStatusResponse A K status =
     [Notify (MotorStatusReceived (statusState status) (statusFault status)),
      Notify (SpeedPositionReceived (from_wire A (focSpeedScale K) (statusSpeed status))
        (from_wire A (focPositionScale K) (statusPosition status)))] @
     (if statusFault status \<noteq> faultNone K then [Notify (FaultEventReceived (statusFault status))] else [])"

definition OnTelemetryElectricalResponse :: "'f float_arith \<Rightarrow> 'f foc_scales \<Rightarrow> FocTelemetryElectrical \<Rightarrow> 'f client_effect list" where
  "OnTelemetryElectricalResponse A K telemetry =
     [Notify (CurrentMeasurementReceived (from_wire A (focCurrentScale K) (telemetryId telemetry))
        (from_wire A (focCurrentScale K) (telemetryIq telemetry))),
      Notify (BusVoltageReceived (from_wire A (focVoltageScale K) (telemetryVoltage telemetry)))]"

definition OnSelectControlModeResponse :: "u8 \<Rightarrow> CanCommandClient \<Rightarrow> 'f client_result" where
  "OnSelectControlModeResponse activeMode c =
     (let (c, es) = SetBusy False c in (c, es @ [Notify (ControlModeAcknowledged activeMode)]))"

definition HandleCommandAck :: "u8 \<Rightarrow> u8 \<Rightarrow> u8 \<Rightarrow> CanCommandClient \<Rightarrow> 'f client_result" where
  "HandleCommandAck categoryId commandType status c =
     (let (c, es) = SetBusy False c in (c, es @ [Notify (CommandAcknowledged categoryId commandType status)]))"

definition Client_OnFrameLog :: "bool \<Rightarrow> u32 \<Rightarrow> u8 list \<Rightarrow> 'f client_effect list" where
  "Client_OnFrameLog transmitted i bytes = [Notify (FrameLogged transmitted i bytes)]"

definition Client_OnError :: "string \<Rightarrow> 'f client_effect list" where
  "Client_OnError message = [Notify (AdapterError message)]"

definition Client_OnConnectionChanged :: "bool \<Rightarrow> 'f client_effect list" where
  "Client_OnConnectionChanged isConnected = [Notify (ConnectionChanged isConnected)]"

section \<open>The main window\<close>

datatype 'f button =
    StartMotorRequested | StopMotorRequested | EmergencyStopRequested
  | SetControlModeRequested u8
  | SetTorqueSetpointRequested 'f | SetSpeedSetpointRequested 'f | SetPositionSetpointRequested 'f
  | SetCurrentIdPidRequested "'f \<times> 'f \<times> 'f" | SetSpeedPidRequested "'f \<times> 'f \<times> 'f" | SetPositionPidRequested "'f \<times> 'f \<times> 'f"

datatype log_line = TimeoutLine | ErrorLine string | ModeLine u8 | AckLine u8 u8 u8

record MainWindow =
  windowClient :: CanCommandClient
  adapterConnected :: bool
  commandsEnabled :: bool
  timeoutTimer :: bool
  logView :: "log_line list"

text \<open>A notification of the client. Frames and measurements only change what is displayed elsewhere.\<close>

fun window_notice :: "'f client_notice \<Rightarrow> MainWindow \<Rightarrow> MainWindow" where
  "window_notice (BusyChanged busy) w =
     (let w = w\<lparr>commandsEnabled := \<not> busy \<and> adapterConnected w\<rparr> in if busy then w else w\<lparr>timeoutTimer := False\<rparr>)"
| "window_notice CommandTimeout w = w\<lparr>logView := logView w @ [TimeoutLine]\<rparr>"
| "window_notice (ConnectionChanged isConnected) w = w\<lparr>commandsEnabled := isConnected\<rparr>"
| "window_notice (AdapterError message) w = w\<lparr>logView := logView w @ [ErrorLine message]\<rparr>"
| "window_notice (ControlModeAcknowledged mode) w = w\<lparr>logView := logView w @ [ModeLine mode]\<rparr>"
| "window_notice (CommandAcknowledged cat cmd st) w = w\<lparr>logView := logView w @ [AckLine cat cmd st]\<rparr>"
| "window_notice _ w = w"

fun window_effect :: "'f client_effect \<Rightarrow> MainWindow \<Rightarrow> MainWindow" where
  "window_effect (Notify n) w = window_notice n w"
| "window_effect (SendRequest r) w = w"

definition with_client :: "'f client_result \<Rightarrow> MainWindow \<Rightarrow> MainWindow" where
  "with_client r w = fold window_effect (snd r) (w\<lparr>windowClient := fst r\<rparr>)"

fun client_command ::
    "'f float_arith \<Rightarrow> 'f foc_scales \<Rightarrow> bool \<Rightarrow> 'f button \<Rightarrow> CanCommandClient \<Rightarrow> 'f client_result option" where
  "client_command A K sent StartMotorRequested c = Some (SendStartMotor sent c)"
| "client_command A K sent StopMotorRequested c = Some (SendStopMotor sent c)"
| "client_command A K sent EmergencyStopRequested c = Some (SendEmergencyStop sent c)"
| "client_command A K sent (SetControlModeRequested mode) c = Some (SendSetControlMode sent mode c)"
| "client_command A K sent (SetTorqueSetpointRequested iq) c = SendSetTorqueSetpoint A K sent iq c"
| "client_command A K sent (SetSpeedSetpointRequested speed) c = SendSetSpeedSetpoint A K sent speed c"
| "client_command A K sent (SetPositionSetpointRequested pos) c = SendSetPositionSetpoint A K sent pos c"
| "client_command A K sent (SetCurrentIdPidRequested gains) c = SendSetCurrentIdPid A K sent gains c"
| "client_command A K sent (SetSpeedPidRequested gains) c = SendSetSpeedPid A K sent gains c"
| "client_command A K sent (SetPositionPidRequested gains) c = SendSetPositionPid A K sent gains c"

text \<open>Every button sends its command and then starts the timer.\<close>

definition window_button ::
    "'f float_arith \<Rightarrow> 'f foc_scales \<Rightarrow> bool \<Rightarrow> 'f button \<Rightarrow> MainWindow \<Rightarrow> MainWindow option" where
  "window_button A K sent b w =
     map_option (\<lambda>r. (with_client r w)\<lparr>timeoutTimer := True\<rparr>) (client_command A K sent b (windowClient w))"

definition window_ack :: "u8 \<Rightarrow> u8 \<Rightarrow> u8 \<Rightarrow> MainWindow \<Rightarrow> MainWindow" where
  "window_ack cat cmd st w = with_client (HandleCommandAck cat cmd st (windowClient w) :: unit client_result) w"

definition window_mode_response :: "u8 \<Rightarrow> MainWindow \<Rightarrow> MainWindow" where
  "window_mode_response mode w = with_client (OnSelectControlModeResponse mode (windowClient w) :: unit client_result) w"

definition window_timer :: "MainWindow \<Rightarrow> MainWindow" where
  "window_timer w = (if timeoutTimer w
     then with_client (HandleTimeout (windowClient w) :: unit client_result) (w\<lparr>timeoutTimer := False\<rparr>) else w)"

section \<open>Set points end to end\<close>

text \<open>The bridge on the motor divides the received integer by the same scale.\<close>

definition bridge_setpoint :: "'f float_arith \<Rightarrow> 'f \<Rightarrow> 16 word \<Rightarrow> 'f" where
  "bridge_setpoint A scale value = fdiv A (fofint A (sint value)) scale"

text \<open>\<open>y\<close> is \<open>x\<close> rounded towards zero to a multiple of \<open>1/s\<close>, within 16 bits.\<close>

definition transported :: "real \<Rightarrow> real \<Rightarrow> real \<Rightarrow> bool" where
  "transported s x y \<longleftrightarrow>
     (if 32768 \<le> x * s then y = 32767 / s else if x * s \<le> - 32769 then y = - 32768 / s
      else \<bar>y - x\<bar> < 1 / s \<and> \<bar>y\<bar> \<le> \<bar>x\<bar>)"

lemma sint_16: "- 32768 \<le> n \<Longrightarrow> n \<le> 32767 \<Longrightarrow> sint (word_of_int n :: 16 word) = n"
  by (simp add: signed_of_int signed_take_bit_int_eq_self)

lemma truncate_bounds:
  "\<bar>of_int (truncate_real z) - z\<bar> < 1 \<and> \<bar>of_int (truncate_real z) :: real\<bar> \<le> \<bar>z\<bar>"
proof (cases "z < 0")
  case True
  have "0 \<le> \<lfloor>- z\<rfloor>" using True by simp
  then show ?thesis using True by (simp add: truncate_real_def) linarith
next
  case False
  then have "0 \<le> \<lfloor>z\<rfloor>" by simp
  then show ?thesis using False by (simp add: truncate_real_def) linarith
qed

lemma setpoint_transported:
  assumes "0 < s" and "\<bar>x * s\<bar> < 2147483648"
  obtains v where "scaled_setpoint exact x s = Some v" "transported s x (bridge_setpoint exact s v)"
proof -
  let ?t = "truncate_real (x * s)"
  note tb = truncate_bounds [of "x * s"]
  have t32: "int_min \<le> ?t" "?t \<le> int_max" using tb assms(2) by (simp_all add: int_min_def int_max_def) linarith+
  let ?n = "max (- 32768) (min ?t 32767)" and ?v = "word_of_int (max (- 32768) (min (truncate_real (x * s)) 32767)) :: 16 word"
  have v: "sint ?v = ?n" by (rule sint_16) simp_all
  have "scaled_setpoint exact x s = Some ?v" using t32 by (simp add: scaled_setpoint_def cast_int_def)
  moreover have "transported s x (of_int ?n / s)"
  proof -
    consider "32768 \<le> x * s" | "x * s \<le> - 32769" | "- 32769 < x * s" "x * s < 32768" by linarith
    then show ?thesis
    proof cases
      case 1
      then have "32767 < ?t" using tb by linarith
      with 1 show ?thesis by (simp add: transported_def)
    next
      case 2
      then have "?t < - 32768" using tb by linarith
      with 2 show ?thesis by (simp add: transported_def)
    next
      case 3
      then have "- 32768 \<le> ?t" "?t \<le> 32767" using tb by linarith+
      then have n: "?n = ?t" by simp
      have "\<bar>of_int ?t / s - x\<bar> = \<bar>of_int ?t - x * s\<bar> / s"
        using assms(1) by (simp add: field_simps abs_div_pos [symmetric])
      moreover have "\<bar>of_int ?t / s\<bar> = \<bar>of_int ?t\<bar> / s" "\<bar>x\<bar> = \<bar>x * s\<bar> / s" using assms(1) by (simp_all add: abs_mult)
      ultimately show ?thesis using tb 3 assms(1) unfolding n transported_def by (simp add: divide_strict_right_mono divide_right_mono)
    qed
  qed
  moreover have "bridge_setpoint exact s ?v = of_int ?n / s" unfolding bridge_setpoint_def exact_simps v ..
  ultimately show ?thesis by (intro that [of ?v]) simp_all
qed

text \<open>The only request of a command.\<close>

fun can_requests :: "'f client_effect list \<Rightarrow> can_request list" where
  "can_requests [] = []"
| "can_requests (SendRequest r # es) = r # can_requests es"
| "can_requests (Notify n # es) = can_requests es"

lemma requests_append [simp]: "can_requests (es @ fs) = can_requests es @ can_requests fs"
  by (induction es rule: can_requests.induct) simp_all

lemma requests_send_command: "can_requests (snd (send_command sent r c)) = [r]"
  by (simp add: send_command_def SetBusy_def)

text \<open>Set points over CAN. A torque, speed or position set point whose scaled value fits 32 bits is sent
  in exactly one request, and the motor receives it rounded towards zero by less than one unit of the scale,
  or the limit of 16 bits when it is beyond it.\<close>

lemma setpoints_transported:
  assumes "0 < focCurrentScale K" "0 < focSpeedScale K" "0 < focPositionScale K"
    and "\<bar>x * focCurrentScale K\<bar> < 2147483648" "\<bar>x * focSpeedScale K\<bar> < 2147483648" "\<bar>x * focPositionScale K\<bar> < 2147483648"
  shows "\<exists>u v w r1 r2 r3.
    SendSetTorqueSetpoint exact K sent x c = Some r1 \<and> can_requests (snd r1) = [ReqSetTorqueSetpoint (nodeId c) u] \<and>
    transported (focCurrentScale K) x (bridge_setpoint exact (focCurrentScale K) u) \<and>
    SendSetSpeedSetpoint exact K sent x c = Some r2 \<and> can_requests (snd r2) = [ReqSetSpeedSetpoint (nodeId c) v] \<and>
    transported (focSpeedScale K) x (bridge_setpoint exact (focSpeedScale K) v) \<and>
    SendSetPositionSetpoint exact K sent x c = Some r3 \<and> can_requests (snd r3) = [ReqSetPositionSetpoint (nodeId c) w] \<and>
    transported (focPositionScale K) x (bridge_setpoint exact (focPositionScale K) w)"
proof -
  obtain u where u: "scaled_setpoint exact x (focCurrentScale K) = Some u" "transported (focCurrentScale K) x (bridge_setpoint exact (focCurrentScale K) u)"
    by (rule setpoint_transported [OF assms(1,4)])
  obtain v where v: "scaled_setpoint exact x (focSpeedScale K) = Some v" "transported (focSpeedScale K) x (bridge_setpoint exact (focSpeedScale K) v)"
    by (rule setpoint_transported [OF assms(2,5)])
  obtain w where w: "scaled_setpoint exact x (focPositionScale K) = Some w" "transported (focPositionScale K) x (bridge_setpoint exact (focPositionScale K) w)"
    by (rule setpoint_transported [OF assms(3,6)])
  show ?thesis
    using u v w
    by - (rule exI [of _ u], rule exI [of _ v], rule exI [of _ w],
      simp add: requests_send_command SendSetTorqueSetpoint_def SendSetSpeedSetpoint_def SendSetPositionSetpoint_def)
qed

definition example_scales :: "real foc_scales" where
  "example_scales = \<lparr>focCurrentScale = 100, focSpeedScale = 10, focPositionScale = 1000, focVoltageScale = 100, focPidScale = 100, faultNone = 0\<rparr>"

lemma setpoints_transported_witness:
  "\<exists>v r. SendSetSpeedSetpoint exact example_scales True (- 25 / 100) CanCommandClient_init = Some r \<and>
     can_requests (snd r) = [ReqSetSpeedSetpoint 1 v] \<and> \<bar>bridge_setpoint exact 10 v + 25 / 100\<bar> < 1 / 10"
  using setpoints_transported [of example_scales "- 25 / 100" True CanCommandClient_init]
  by (auto simp: example_scales_def transported_def CanCommandClient_init_def)

section \<open>The command timer\<close>

text \<open>Every button is one command of the client.\<close>

lemma client_command_shape:
  assumes "client_command A K sent b c = Some r"
  shows "\<exists>request. r = send_command sent request c"
  using assms
  by (cases b)
    (auto simp: SendStartMotor_def SendStopMotor_def SendEmergencyStop_def SendSetControlMode_def SendSetTorqueSetpoint_def
      SendSetSpeedSetpoint_def SendSetPositionSetpoint_def SendSetCurrentIdPid_def SendSetSpeedPid_def SendSetPositionPid_def)

lemma window_button_result:
  assumes "window_button A K sent b w = Some w1"
  shows "timeoutTimer w1 \<and> clientBusy (windowClient w1) = (\<not> sent) \<and> logView w1 = logView w \<and> adapterConnected w1 = adapterConnected w"
proof -
  obtain r where r: "client_command A K sent b (windowClient w) = Some r" "w1 = (with_client r w)\<lparr>timeoutTimer := True\<rparr>"
    using assms by (auto simp: window_button_def)
  from client_command_shape [OF r(1)] obtain request where "r = send_command sent request (windowClient w)" ..
  with r(2) show ?thesis by (simp add: send_command_def SetBusy_def with_client_def)
qed

text \<open>Command timer. A button starts the timer after its command. When the CAN library took the request
  the client is already free, so the acknowledgement does not stop the timer and an acknowledged command is
  reported as timed out; only when the library refused it does an acknowledgement stop the timer.\<close>

lemma acknowledged_command_times_out:
  assumes "window_button A K sent b w = Some w1"
  shows "logView (window_timer (window_ack cat cmd st w1)) =
    logView w @ [AckLine cat cmd st] @ (if sent then [TimeoutLine] else [])"
  using window_button_result [OF assms]
  by (simp add: window_ack_def window_timer_def with_client_def HandleCommandAck_def HandleTimeout_def SetBusy_def)

lemma acknowledged_command_times_out_witness:
  "\<exists>w. window_button exact example_scales True StartMotorRequested
      \<lparr>windowClient = CanCommandClient_init, adapterConnected = True, commandsEnabled = True, timeoutTimer = False, logView = []\<rparr> = Some w \<and>
     logView (window_timer (window_ack 1 2 0 w)) = [AckLine 1 2 0, TimeoutLine]"
proof -
  let ?w = "\<lparr>windowClient = CanCommandClient_init, adapterConnected = True, commandsEnabled = True, timeoutTimer = False, logView = []\<rparr>"
  obtain w where w: "window_button exact example_scales True StartMotorRequested ?w = Some w" by (simp add: window_button_def)
  from acknowledged_command_times_out [OF w] w show ?thesis by simp
qed

end
