(* ===== verification/Cli_Terminals.thy ===== *)
theory Cli_Terminals
  imports Mechanical_Ident Electrical_Ident
begin

text \<open>
  The command-line interface of the controllers (\<open>TerminalBase\<close>, \<open>TerminalTorque\<close>, \<open>TerminalSpeed\<close>,
  \<open>TerminalPosition\<close>) and of the calibration services (\<open>TerminalMotorAlignment\<close>,
  \<open>TerminalElectricalParametersIdentification\<close>, \<open>TerminalMechanicalParametersIdentification\<close>). The
  tokenizer and the number parsing of the stream library are the record \<open>text_library\<close>; a bound at
  infinity excludes only NaN, which the arithmetic leaves out.
\<close>

section \<open>Parsing\<close>

record 'f text_library =
  tokens :: "string \<Rightarrow> string list"
  stream_float :: "string \<Rightarrow> 'f option"
  stream_u32 :: "string \<Rightarrow> u32 option"
  stream_u8 :: "string \<Rightarrow> u8 option"

datatype StatusWithMessage = CliSuccess | CliError string

definition invalid_arguments :: StatusWithMessage where "invalid_arguments = CliError ''invalid number of arguments''"
definition invalid_arguments_dot :: StatusWithMessage where "invalid_arguments_dot = CliError ''invalid number of arguments.''"
definition not_a_float :: StatusWithMessage where "not_a_float = CliError ''invalid value. It should be a float.''"

definition ParseInput :: "'f text_library \<Rightarrow> string \<Rightarrow> 'f option" where
  "ParseInput L s = stream_float L s"

definition ParsePidTunings :: "'f text_library \<Rightarrow> string \<Rightarrow> StatusWithMessage + 'f PidTunings" where
  "ParsePidTunings L input =
     (let ts = tokens L input
      in if length ts \<noteq> 3 then Inl invalid_arguments
         else case ParseInput L (ts ! 0) of None \<Rightarrow> Inl not_a_float | Some kp \<Rightarrow>
              (case ParseInput L (ts ! 1) of None \<Rightarrow> Inl not_a_float | Some ki \<Rightarrow>
              (case ParseInput L (ts ! 2) of None \<Rightarrow> Inl not_a_float | Some kd \<Rightarrow>
                 Inr \<lparr>tuneKp = kp, tuneKi = ki, tuneKd = kd\<rparr>)))"

text \<open>One number as the only argument.\<close>

definition ParseOne :: "'f text_library \<Rightarrow> string \<Rightarrow> StatusWithMessage + 'f" where
  "ParseOne L input =
     (let ts = tokens L input
      in if length ts \<noteq> 1 then Inl invalid_arguments_dot
         else case ParseInput L (ts ! 0) of None \<Rightarrow> Inl not_a_float | Some x \<Rightarrow> Inr x)"

text \<open>A command reports an error without touching the controller, or success with its effect.\<close>

definition cli_apply :: "(StatusWithMessage + 'a) \<Rightarrow> ('a \<Rightarrow> 's \<Rightarrow> 's) \<Rightarrow> 's \<Rightarrow> StatusWithMessage \<times> 's" where
  "cli_apply r f foc = (case r of Inl e \<Rightarrow> (e, foc) | Inr x \<Rightarrow> (CliSuccess, f x foc))"

section \<open>The controllers\<close>

text \<open>\<open>SetFocPid\<close> over the interface \<open>FocBase\<close>: its operation \<open>SetCurrentTunings\<close> is an argument.\<close>

definition ParseFocPid :: "'f text_library \<Rightarrow> string \<Rightarrow> StatusWithMessage + ('f PidTunings \<times> 'f PidTunings)" where
  "ParseFocPid L input =
     (let ts = tokens L input
      in if length ts \<noteq> 6 then Inl invalid_arguments
         else case ParseInput L (ts ! 0) of None \<Rightarrow> Inl not_a_float | Some dkp \<Rightarrow>
              (case ParseInput L (ts ! 1) of None \<Rightarrow> Inl not_a_float | Some dki \<Rightarrow>
              (case ParseInput L (ts ! 2) of None \<Rightarrow> Inl not_a_float | Some dkd \<Rightarrow>
              (case ParseInput L (ts ! 3) of None \<Rightarrow> Inl not_a_float | Some qkp \<Rightarrow>
              (case ParseInput L (ts ! 4) of None \<Rightarrow> Inl not_a_float | Some qki \<Rightarrow>
              (case ParseInput L (ts ! 5) of None \<Rightarrow> Inl not_a_float | Some qkd \<Rightarrow>
                 Inr (\<lparr>tuneKp = dkp, tuneKi = dki, tuneKd = dkd\<rparr>, \<lparr>tuneKp = qkp, tuneKi = qki, tuneKd = qkd\<rparr>)))))))"

definition SetFocPid ::
    "'f text_library \<Rightarrow> ('f \<Rightarrow> 'f PidTunings \<times> 'f PidTunings \<Rightarrow> 's \<Rightarrow> 's) \<Rightarrow> 'f \<Rightarrow> string \<Rightarrow> 's \<Rightarrow> StatusWithMessage \<times> 's" where
  "SetFocPid L setCurrentTunings vdc input = cli_apply (ParseFocPid L input) (setCurrentTunings vdc)"

definition SetTorque ::
    "'f float_arith \<Rightarrow> 'f text_library \<Rightarrow> ('p, 'f) pid_class \<Rightarrow> string \<Rightarrow> ('p, 'f) FocTorqueImpl \<Rightarrow>
      StatusWithMessage \<times> ('p, 'f) FocTorqueImpl" where
  "SetTorque A L P input = cli_apply (ParseOne L input) (\<lambda>current. Torque_SetPoint P (current, flit A 0 1))"

definition Speed_SetSpeedPid ::
    "'f float_arith \<Rightarrow> 'f text_library \<Rightarrow> ('p, 'f) pid_class \<Rightarrow> string \<Rightarrow> ('p, 'f, 'z) speed_loop \<Rightarrow>
      StatusWithMessage \<times> ('p, 'f, 'z) speed_loop" where
  "Speed_SetSpeedPid A L P input = cli_apply (ParsePidTunings L input) (SetSpeedTuningsImpl A P)"

definition Speed_SetSpeed ::
    "'f float_arith \<Rightarrow> 'f text_library \<Rightarrow> ('p, 'f) pid_class \<Rightarrow> string \<Rightarrow> ('p, 'f) FocSpeedImpl \<Rightarrow>
      StatusWithMessage \<times> ('p, 'f) FocSpeedImpl" where
  "Speed_SetSpeed A L P input = cli_apply (ParseOne L input) (Speed_SetPoint A P)"

definition Position_SetSpeedPid ::
    "'f float_arith \<Rightarrow> 'f text_library \<Rightarrow> ('p, 'f) pid_class \<Rightarrow> string \<Rightarrow> ('p, 'f, 'z) speed_loop \<Rightarrow>
      StatusWithMessage \<times> ('p, 'f, 'z) speed_loop" where
  "Position_SetSpeedPid A L P input = cli_apply (ParsePidTunings L input) (SetSpeedTuningsImpl A P)"

definition Position_SetPositionPid ::
    "'f float_arith \<Rightarrow> 'f text_library \<Rightarrow> ('p, 'f) pid_class \<Rightarrow> string \<Rightarrow> ('p, 'f) FocPositionImpl \<Rightarrow> StatusWithMessage \<times> ('p, 'f) FocPositionImpl" where
  "Position_SetPositionPid A L P input = cli_apply (ParsePidTunings L input) (Position_SetPositionTunings A P)"

definition Position_SetPosition ::
    "'f float_arith \<Rightarrow> 'f text_library \<Rightarrow> ('p, 'f) pid_class \<Rightarrow> string \<Rightarrow> ('p, 'f) FocPositionImpl \<Rightarrow>
      StatusWithMessage \<times> ('p, 'f) FocPositionImpl" where
  "Position_SetPosition A L P input = cli_apply (ParseOne L input) (Position_SetPoint A P)"

text \<open>The commands of each terminal: long name and short name.\<close>

definition base_commands :: "(string \<times> string) list" where "base_commands = [(''set_dq_pid'', ''sdqpid'')]"
definition torque_commands :: "(string \<times> string) list" where "torque_commands = base_commands @ [(''set_torque'', ''st'')]"
definition speed_commands :: "(string \<times> string) list" where
  "speed_commands = base_commands @ [(''set_speed_pid'', ''sspid''), (''set_speed'', ''ss'')]"
definition position_commands :: "(string \<times> string) list" where
  "position_commands = base_commands @ [(''set_speed_pid'', ''sspid''), (''set_position_pid'', ''sppid''), (''set_position'', ''sp'')]"

section \<open>The calibration services\<close>

text \<open>What a completion writes to the trace.\<close>

datatype 'f trace_text = TraceText string | TraceFloat 'f | TraceInt int

definition alignment_trace :: "'f option \<Rightarrow> 'f trace_text list" where
  "alignment_trace r = (case r of
       Some x \<Rightarrow> [TraceText ''Motor aligned at position (rad): '', TraceFloat x]
     | None \<Rightarrow> [TraceText ''Motor alignment failed.''])"

definition Terminal_ForceAlignment ::
    "'f float_arith \<Rightarrow> 'f text_library \<Rightarrow> callback \<Rightarrow> string \<Rightarrow> 'f \<Rightarrow> 'f MotorAlignmentImpl \<Rightarrow>
      (StatusWithMessage \<times> 'f MotorAlignmentImpl \<times> 'f drive_effect list) option" where
  "Terminal_ForceAlignment A L trace input position m =
     (let ts = tokens L input
      in if length ts \<noteq> 1 then Some (invalid_arguments, m, [])
         else case stream_u32 L (ts ! 0) of
                None \<Rightarrow> Some (CliError ''invalid value. It should be an integer.'', m, [])
              | Some polePair \<Rightarrow> do {
                  (m, es) \<leftarrow> ForceAlignment A (unat polePair) (AlignmentConfig_default A) trace position m;
                  Some (CliSuccess, m, es) })"

fun ParseStringInput :: "string \<Rightarrow> WindingConfiguration option" where
  "ParseStringInput input =
     (if input = ''star'' \<or> input = ''wye'' then Some Wye else if input = ''delta'' then Some Delta else None)"

definition resistance_trace :: "('f \<times> 'f) option \<Rightarrow> 'f trace_text list" where
  "resistance_trace r = (case r of
       None \<Rightarrow> [TraceText ''Resistance estimation failed.'']
     | Some (resistance, inductance) \<Rightarrow>
         [TraceText ''Estimated Resistance: '', TraceFloat resistance, TraceText '' Ohms, Inductance: '', TraceFloat inductance, TraceText '' mH''])"

definition Terminal_EstimateResistanceAndInductance ::
    "'f text_library \<Rightarrow> callback \<Rightarrow> string \<Rightarrow> 'f ElectricalParametersIdentificationImpl \<Rightarrow>
      StatusWithMessage \<times> 'f ElectricalParametersIdentificationImpl \<times> 'f drive_effect list" where
  "Terminal_EstimateResistanceAndInductance L trace param s =
     (let ts = tokens L param
      in if length ts \<noteq> 1 then (invalid_arguments, s, [])
         else case ParseStringInput (ts ! 0) of
                None \<Rightarrow> (CliError ''invalid value. It should be an 'star', 'wye' or 'delta'.'', s, [])
              | Some winding \<Rightarrow>
                  (CliSuccess, EstimateResistanceAndInductance
                     \<lparr>testVoltagePercent = 15, settleTime = 2000000000, windingConfig = winding\<rparr> trace s))"

definition pole_pairs_trace :: "int option \<Rightarrow> 'f trace_text list" where
  "pole_pairs_trace r = (case r of
       None \<Rightarrow> [TraceText ''Pole pairs estimation failed.'']
     | Some n \<Rightarrow> [TraceText ''Estimated Pole Pairs: '', TraceInt n])"

text \<open>The parameters of the command are not used.\<close>

definition Terminal_EstimateNumberOfPolePairs ::
    "'f float_arith \<Rightarrow> callback \<Rightarrow> string \<Rightarrow> 'f \<Rightarrow> 'f ElectricalParametersIdentificationImpl \<Rightarrow>
      (StatusWithMessage \<times> 'f ElectricalParametersIdentificationImpl \<times> 'f drive_effect list) option" where
  "Terminal_EstimateNumberOfPolePairs A trace param position s = do {
     (s, es) \<leftarrow> EstimateNumberOfPolePairs_impl A
       \<lparr>ppVoltagePercent = 10, electricalRevolutions = 5, settleTimeBetweenSteps = 50000000\<rparr> trace position s;
     Some (CliSuccess, s, es) }"

definition ToRadiansPerSecond :: "'f float_arith \<Rightarrow> 'f \<Rightarrow> 'f" where
  "ToRadiansPerSecond A rpm = fdiv A (ftimes A (ftimes A rpm (flit A 20 1)) (fpi A)) (flit A 600 1)"

text \<open>The UTF-8 bytes of the middle dot and the superscript two.\<close>

definition middle_dot :: string where "middle_dot = [CHR 0xC2, CHR 0xB7]"
definition superscript_two :: string where "superscript_two = [CHR 0xC2, CHR 0xB2]"

definition friction_trace :: "('f \<times> 'f) option \<Rightarrow> 'f trace_text list list" where
  "friction_trace r = (case r of
       None \<Rightarrow> [[TraceText ''Friction and inertia estimation failed.'']]
     | Some (friction, inertia) \<Rightarrow>
         [[TraceText ''Estimated Friction (B): '', TraceFloat friction, TraceText ('' Nm'' @ middle_dot @ ''s/rad'')],
          [TraceText ''Estimated Inertia (J): '', TraceFloat inertia, TraceText ('' Nm'' @ middle_dot @ ''s'' @ superscript_two)]])"

definition Terminal_EstimateFrictionAndInertia ::
    "'f float_arith \<Rightarrow> ('r, 'm, 'f) rls_class \<Rightarrow> 'f text_library \<Rightarrow> callback \<Rightarrow> string \<Rightarrow> 'f \<Rightarrow>
      ('r, 'f) MechanicalParametersIdentificationImpl \<Rightarrow>
      StatusWithMessage \<times> ('f \<times> ('r, 'f) MechanicalParametersIdentificationImpl \<times> 'f drive_effect list) option" where
  "Terminal_EstimateFrictionAndInertia A R L trace param position s =
     (let ts = tokens L param
      in if length ts \<noteq> 3
         then (CliError ''invalid number of arguments. Usage: estmech <target_speed_rpm> <Kt_Nm_per_A> <number_of_pole_pairs>'', None)
         else case stream_float L (ts ! 0) of
                None \<Rightarrow> (CliError ''invalid target speed. Must be > 0 RPM'', None)
              | Some rpm \<Rightarrow>
                if \<not> flt A (flit A 0 1) rpm then (CliError ''invalid target speed. Must be > 0 RPM'', None)
                else (case stream_float L (ts ! 1) of
                    None \<Rightarrow> (CliError ''invalid torque constant. Must be > 0 Nm/A'', None)
                  | Some kt \<Rightarrow>
                    if \<not> flt A (flit A 0 1) kt then (CliError ''invalid torque constant. Must be > 0 Nm/A'', None)
                    else (case stream_u32 L (ts ! 2) of
                        None \<Rightarrow> (CliError ''invalid number of pole pairs. Must be > 0'', None)
                      | Some n \<Rightarrow>
                        (CliSuccess, Some (kt, EstimateFrictionAndInertia A R (unat n)
                           ((MechanicalConfig_default A)\<lparr>targetSpeed := ToRadiansPerSecond A rpm\<rparr>) trace position s)))))"

section \<open>What the commands do\<close>

text \<open>Torque command. The number of \<open>set_torque\<close> becomes the set point of the flux-producing axis, and
  the torque-producing axis is set to zero; a torque set point over CAN, \<open>(0, x)\<close>, does the opposite. So the
  two interfaces agree only for zero, and a motor commanded from the command line produces no torque.\<close>

lemma set_torque_sets_flux:
  assumes "tokens L input = [w]" and "stream_float L w = Some x"
  shows "\<exists>t'. SetTorque A L P input t = (CliSuccess, t') \<and>
    torqueD t' = pidSetPoint P x (torqueD t) \<and> torqueQ t' = pidSetPoint P (flit A 0 1) (torqueQ t) \<and>
    lastTorqueSetPoint t' = (x, flit A 0 1) \<and>
    (lastTorqueSetPoint t' = lastTorqueSetPoint (Torque_SetPoint P (flit A 0 1, x) t) \<longleftrightarrow> x = flit A 0 1)"
  using assms by (auto simp: SetTorque_def ParseOne_def ParseInput_def cli_apply_def Torque_SetPoint_def)

definition example_text :: "real text_library" where
  "example_text = \<lparr>tokens = \<lambda>s. [s], stream_float = \<lambda>s. if s = ''20.0'' then Some 20 else None, stream_u32 = \<lambda>_. None, stream_u8 = \<lambda>_. None\<rparr>"

lemma set_torque_sets_flux_witness:
  "\<exists>t'. SetTorque exact example_text proportional ''20.0'' (FocTorqueImpl_init exact proportional) = (CliSuccess, t') \<and>
     lastTorqueSetPoint t' = (20, 0) \<and> lastTorqueSetPoint t' \<noteq> (0, 20)"
  using set_torque_sets_flux [of example_text "''20.0''" "''20.0''" 20 exact proportional "FocTorqueImpl_init exact proportional"]
  by (auto simp: example_text_def)

text \<open>A command that is refused says so and leaves its target as it was.\<close>

lemma refused_commands_change_nothing:
  "SetTorque A L P input t = (CliError e, t') \<Longrightarrow> t' = t"
  "Speed_SetSpeed A L P input f = (CliError e, f') \<Longrightarrow> f' = f"
  "Position_SetPosition A L P input p = (CliError e, p') \<Longrightarrow> p' = p"
  "SetFocPid L g vdc input s = (CliError e, s') \<Longrightarrow> s' = s"
  by (auto simp: SetTorque_def Speed_SetSpeed_def Position_SetPosition_def SetFocPid_def cli_apply_def split: sum.splits)

text \<open>An alignment that is requested while one is running is dropped, and reported as success.\<close>

lemma dropped_alignment_reports_success:
  assumes "onAlignmentDone m = Some cb" and "tokens L input = [w]" "stream_u32 L w = Some n"
  shows "Terminal_ForceAlignment A L trace input position m = Some (CliSuccess, m, [])"
  using assms by (simp add: Terminal_ForceAlignment_def ForceAlignment_def)

text \<open>Zero pole pairs are accepted, against the message.\<close>

lemma zero_pole_pairs_accepted:
  assumes "tokens L input = [r, k, n]" "stream_float L r = Some rpm" "flt A (flit A 0 1) rpm"
    "stream_float L k = Some kt" "flt A (flit A 0 1) kt" "stream_u32 L n = Some 0"
  shows "fst (Terminal_EstimateFrictionAndInertia A R L trace input position s) = CliSuccess"
  using assms by (simp add: Terminal_EstimateFrictionAndInertia_def)

end
