(* ===== verification/Hardware_Terminal.thy ===== *)
theory Hardware_Terminal
  imports Cli_Terminals
begin

text \<open>
  The terminal of the hardware test (\<open>targets/hardware_test/components/Terminal.cpp\<close>): commands that
  configure and exercise the platform, sample phase currents into a queue, send CAN frames and read and
  write the EEPROM. Calls of the platform are effects, its answers arguments. A result \<open>None\<close> is a call of
  \<open>std::abort\<close>, undefined behaviour, or an insertion into a full container.
\<close>

section \<open>State and effects\<close>

datatype SampleAndHold = shortest | shorter | medium | longer | longest

fun ToSampleAndHold :: "string \<Rightarrow> SampleAndHold option" where
  "ToSampleAndHold value =
     (if value = ''shortest'' then Some shortest else if value = ''shorter'' then Some shorter
      else if value = ''medium'' then Some medium else if value = ''longer'' then Some longer
      else if value = ''longest'' then Some longest else None)"

definition acceptedAdcValues :: "string list" where
  "acceptedAdcValues = [''shortest'', ''shorter'', ''medium'', ''longer'', ''longest'']"

datatype 'f hardware_effect =
    SetEncoderResolution u32
  | ConfigureAdcAndPwm u32 nat SampleAndHold
  | RegisterPhaseCurrents u32
  | HardwareStop
  | HardwarePwmOutput PhasePwmDutyCycles
  | ConfigureCanBus u32 bool
  | SetCanErrorHandler
  | CanSendData bool u32 "u8 list"
  | CanReceiveData
  | WriteBuffer "u8 list" u32
  | ReadBuffer u32 u32
  | EraseEeprom
  | HardwareReset
  | HardFault
  | TracePhases "'f PhaseCurrents list"
  | TraceSimulation 'f "nat option" 'f "'f PhaseCurrents" "'f PidTunings" "'f PidTunings" PhasePwmDutyCycles u32
  | TraceLine "'f trace_text list"
  | ControllerEffect "'f loop_effect"
  | ProcessResult StatusWithMessage

record ('p, 'f) TerminalInteractor =
  currentPwmFrequency :: u32
  currentPwmDeadTime :: nat
  currentSah :: SampleAndHold
  adcActive :: bool
  canStarted :: bool
  queueOfPhaseCurrents :: "'f PhaseCurrents list"
  speedPidTunings :: "'f PidTunings"
  dqPidTunings :: "'f PidTunings"
  htPolePairs :: "nat option"
  htFoc :: "('p, 'f) FocSpeedImpl"
  eepromBuffer :: "u8 list"
  eepromCurrentReadSize :: u32

type_synonym ('p, 'f) ht_result = "('p, 'f) TerminalInteractor \<times> 'f hardware_effect list"

definition averageSampleSize :: nat where "averageSampleSize = 100"

section \<open>Sampling\<close>

definition StartAdc :: "SampleAndHold \<Rightarrow> ('p, 'f) TerminalInteractor \<Rightarrow> ('p, 'f) ht_result" where
  "StartAdc sampleAndHold t = (t\<lparr>currentSah := sampleAndHold, adcActive := True\<rparr>, [RegisterPhaseCurrents (currentPwmFrequency t)])"

definition ProcessAdcSamples :: "('p, 'f) TerminalInteractor \<Rightarrow> ('p, 'f) ht_result" where
  "ProcessAdcSamples t =
     (t\<lparr>adcActive := False, queueOfPhaseCurrents := []\<rparr>, [HardwareStop, TracePhases (queueOfPhaseCurrents t)])"

text \<open>The current callback that \<open>StartAdc\<close> registers.\<close>

definition ht_sample :: "'f PhaseCurrents \<Rightarrow> ('p, 'f) TerminalInteractor \<Rightarrow> ('p, 'f) ht_result" where
  "ht_sample phases t =
     (if \<not> adcActive t then (t, [])
      else if length (queueOfPhaseCurrents t) < averageSampleSize
      then (t\<lparr>queueOfPhaseCurrents := queueOfPhaseCurrents t @ [phases]\<rparr>, [])
      else ProcessAdcSamples t)"

fun ht_samples :: "'f PhaseCurrents list \<Rightarrow> ('p, 'f) TerminalInteractor \<Rightarrow> ('p, 'f) ht_result" where
  "ht_samples [] t = (t, [])"
| "ht_samples (p # ps) t = (let (t, es) = ht_sample p t; (t, fs) = ht_samples ps t in (t, es @ fs))"

definition TerminalInteractor_new ::
    "'f float_arith \<Rightarrow> ('p, 'f) pid_class \<Rightarrow> ('p, 'f) FocSpeedImpl \<Rightarrow> ('p, 'f) ht_result" where
  "TerminalInteractor_new A P foc =
     (let t = \<lparr>currentPwmFrequency = 10000, currentPwmDeadTime = 500, currentSah = shortest, adcActive = False, canStarted = False,
            queueOfPhaseCurrents = [], speedPidTunings = zero_tunings A, dqPidTunings = zero_tunings A, htPolePairs = Some 0,
            htFoc = foc, eepromBuffer = replicate 64 0, eepromCurrentReadSize = 0\<rparr>;
          (t, es) = StartAdc shortest t
      in (t, [SetEncoderResolution 4000, ConfigureAdcAndPwm 10000 500 shortest] @ es))"

section \<open>Arguments\<close>

text \<open>\<open>ParseInput\<close> of the hardware test: the empty token is refused before the stream sees it.\<close>

definition Ht_ParseFloat :: "'f float_arith \<Rightarrow> 'f text_library \<Rightarrow> string \<Rightarrow> 'f \<Rightarrow> 'f \<Rightarrow> 'f option" where
  "Ht_ParseFloat A L d lo hi =
     (if d = [] then None
      else do { v \<leftarrow> stream_float L d; if \<not> flt A v lo \<and> \<not> flt A hi v then Some v else None })"

definition Ht_ParseU32 :: "'f text_library \<Rightarrow> string \<Rightarrow> u32 \<Rightarrow> u32 \<Rightarrow> u32 option" where
  "Ht_ParseU32 L d lo hi = (if d = [] then None else do { v \<leftarrow> stream_u32 L d; if lo \<le> v \<and> v \<le> hi then Some v else None })"

definition Ht_ParseU8 :: "'f text_library \<Rightarrow> string \<Rightarrow> u8 \<Rightarrow> u8 \<Rightarrow> u8 option" where
  "Ht_ParseU8 L d lo hi = (if d = [] then None else do { v \<leftarrow> stream_u8 L d; if lo \<le> v \<and> v \<le> hi then Some v else None })"

definition Ht_ParseWord :: "string \<Rightarrow> string list \<Rightarrow> string option" where
  "Ht_ParseWord d acceptedValues = (if d = [] then None else find (\<lambda>value. d = value) acceptedValues)"

text \<open>A missing value is the command's error; otherwise go on.\<close>

definition require :: "'a option \<Rightarrow> string \<Rightarrow> ('a \<Rightarrow> StatusWithMessage + 'b) \<Rightarrow> StatusWithMessage + 'b" where
  "require v message k = (case v of None \<Rightarrow> Inl (CliError message) | Some x \<Rightarrow> k x)"

definition ht_finish :: "(StatusWithMessage + ('p, 'f) ht_result) \<Rightarrow> ('p, 'f) TerminalInteractor \<Rightarrow> ('p, 'f) ht_result" where
  "ht_finish r t = (case r of Inl e \<Rightarrow> (t, [ProcessResult e]) | Inr (t, es) \<Rightarrow> (t, es @ [ProcessResult CliSuccess]))"

section \<open>Configuration\<close>

definition ConfigurePwm :: "'f text_library \<Rightarrow> string \<Rightarrow> ('p, 'f) TerminalInteractor \<Rightarrow> ('p, 'f) ht_result" where
  "ConfigurePwm L param t = ht_finish
     (let ts = tokens L param
      in if length ts \<noteq> 2 then Inl invalid_arguments
         else require (Ht_ParseU32 L (ts ! 0) 500 2000) ''invalid value. It should be a float between 500 and 2000.'' (\<lambda>deadTime.
              require (Ht_ParseU32 L (ts ! 1) 10000 20000) ''invalid value. It should be a float between 10000 and 20000.'' (\<lambda>frequency.
                let t = t\<lparr>currentPwmDeadTime := unat deadTime, currentPwmFrequency := frequency, adcActive := False\<rparr>;
                    (t', es) = StartAdc (currentSah t) t
                in Inr (t', ConfigureAdcAndPwm frequency (unat deadTime) (currentSah t) # es)))) t"

definition ConfigureAdc :: "'f text_library \<Rightarrow> string \<Rightarrow> ('p, 'f) TerminalInteractor \<Rightarrow> ('p, 'f) ht_result option" where
  "ConfigureAdc L param t =
     (let ts = tokens L param
      in if length ts \<noteq> 1 then Some (t, [ProcessResult invalid_arguments])
         else case Ht_ParseWord (ts ! 0) acceptedAdcValues of
                None \<Rightarrow> Some (t, [ProcessResult (CliError ''invalid value. It should be one of: shortest, shorter, medium, longer, longest.'')])
              | Some word \<Rightarrow> do {
                  sah \<leftarrow> ToSampleAndHold word;
                  let t = t\<lparr>adcActive := False\<rparr>;
                  let (t', es) = StartAdc sah t;
                  Some (t', ConfigureAdcAndPwm (currentPwmFrequency t) (currentPwmDeadTime t) sah # es @ [ProcessResult CliSuccess]) })"

text \<open>The bounds of the gains are the smallest positive and the largest \<open>float\<close>: arguments.\<close>

definition ConfigurePid ::
    "'f float_arith \<Rightarrow> ('p, 'f) pid_class \<Rightarrow> 'f text_library \<Rightarrow> 'f \<Rightarrow> 'f \<Rightarrow> 'f \<Rightarrow> string \<Rightarrow> ('p, 'f) TerminalInteractor \<Rightarrow> ('p, 'f) ht_result" where
  "ConfigurePid A P L float_min float_max Vdc param t = ht_finish
     (let ts = tokens L param; gain = (\<lambda>i. Ht_ParseFloat A L (ts ! i) float_min float_max)
      in if length ts \<noteq> 6 then Inl invalid_arguments
         else require (gain 0) ''invalid value for Speed Kp'' (\<lambda>dKp. require (gain 1) ''invalid value for Speed Ki'' (\<lambda>dKi.
              require (gain 2) ''invalid value for Speed Kd'' (\<lambda>dKd. require (gain 3) ''invalid value for DQ-axis Kp'' (\<lambda>qKp.
              require (gain 4) ''invalid value for DQ-axis Ki'' (\<lambda>qKi. require (gain 5) ''invalid value for DQ-axis Kd'' (\<lambda>qKd.
                let speed = \<lparr>tuneKp = dKp, tuneKi = dKi, tuneKd = dKd\<rparr>; dq = \<lparr>tuneKp = qKp, tuneKi = qKi, tuneKd = qKd\<rparr>
                in Inr (t\<lparr>speedPidTunings := speed, dqPidTunings := dq,
                     htFoc := SetCurrentTuningsImpl A P Vdc (dq, dq) (SetSpeedTuningsImpl A P speed (htFoc t))\<rparr>, []))))))))
     t"

definition SetMotorParameters :: "'f float_arith \<Rightarrow> 'f text_library \<Rightarrow> string \<Rightarrow> ('p, 'f) TerminalInteractor \<Rightarrow> ('p, 'f) ht_result" where
  "SetMotorParameters A L param t = ht_finish
     (let ts = tokens L param
      in if length ts \<noteq> 1 then Inl invalid_arguments
         else require (Ht_ParseU8 L (ts ! 0) 2 16) ''invalid value for poles. It should be an integer between 2 and 16.'' (\<lambda>poles.
                let n = unat (poles div 2) in Inr (t\<lparr>htPolePairs := Some n, htFoc := SetPolePairsImpl A n (htFoc t)\<rparr>, []))) t"

definition SetPwmDuty :: "'f text_library \<Rightarrow> string \<Rightarrow> ('p, 'f) TerminalInteractor \<Rightarrow> ('p, 'f) ht_result" where
  "SetPwmDuty L param t = ht_finish
     (let ts = tokens L param
      in if length ts \<noteq> 3 then Inl invalid_arguments
         else require (Ht_ParseU8 L (ts ! 0) 1 99) ''invalid value for phase A. It should be a float between 1 and 99.'' (\<lambda>dutyA.
              require (Ht_ParseU8 L (ts ! 1) 1 99) ''invalid value for phase B. It should be a float between 1 and 99.'' (\<lambda>dutyB.
              require (Ht_ParseU8 L (ts ! 2) 1 99) ''invalid value for phase C. It should be a float between 1 and 99.'' (\<lambda>dutyC.
                Inr (t, [HardwarePwmOutput \<lparr>pwmA = dutyA, pwmB = dutyB, pwmC = dutyC\<rparr>]))))) t"

definition Ht_Stop :: "('p, 'f) TerminalInteractor \<Rightarrow> ('p, 'f) ht_result" where
  "Ht_Stop t = (t, [HardwareStop, ProcessResult CliSuccess])"

definition ReadEncoder :: "'f \<Rightarrow> ('p, 'f) TerminalInteractor \<Rightarrow> ('p, 'f) ht_result" where
  "ReadEncoder position t = (t, [TraceLine [TraceText ''  Encoder Readings:''],
     TraceLine [TraceText ''    Position:  '', TraceFloat position, TraceText '' radians''], ProcessResult CliSuccess])"

section \<open>Simulation\<close>

text \<open>\<open>duration\<close> is the answer of the performance timer. The angle is converted from degrees.\<close>

definition RunFocSimulation ::
    "'f float_arith \<Rightarrow> ('p, 'f) pid_class \<Rightarrow> 'f \<Rightarrow> u32 \<Rightarrow> 'f PhaseCurrents \<Rightarrow> 'f \<Rightarrow> ('p, 'f) TerminalInteractor \<Rightarrow> ('p, 'f) ht_result option" where
  "RunFocSimulation A P Vdc duration input angle t = do {
     (foc, duties, es) \<leftarrow> CalculateInnerLoop A P input angle (htFoc t);
     Some (t\<lparr>htFoc := foc\<rparr>, map ControllerEffect es @
       [TraceSimulation Vdc (htPolePairs t) angle input (speedPidTunings t) (dqPidTunings t) duties duration]) }"

definition SimulateFoc ::
    "'f float_arith \<Rightarrow> ('p, 'f) pid_class \<Rightarrow> 'f text_library \<Rightarrow> 'f \<Rightarrow> u32 \<Rightarrow> string \<Rightarrow> ('p, 'f) TerminalInteractor \<Rightarrow> ('p, 'f) ht_result option" where
  "SimulateFoc A P L Vdc duration param t =
     (let ts = tokens L param; current = (\<lambda>i. Ht_ParseFloat A L (ts ! i) (fneg A (flit A 10000 1)) (flit A 10000 1))
      in case (if length ts \<noteq> 4 then Inl invalid_arguments
               else require (Ht_ParseFloat A L (ts ! 0) (fneg A (flit A 3600 1)) (flit A 3600 1))
                      ''invalid value for angle. It should be a float between -360 and 360.'' (\<lambda>angle.
                    require (current 1) ''invalid value for phase A current. It should be a float between -1000 and 1000.'' (\<lambda>a.
                    require (current 2) ''invalid value for phase B current. It should be a float between -1000 and 1000.'' (\<lambda>b.
                    require (current 3) ''invalid value for phase C current. It should be a float between -1000 and 1000.'' (\<lambda>c.
                      Inr (\<lparr>currentA = a, currentB = b, currentC = c\<rparr>, ftimes A angle (fdiv A (fpi A) (flit A 1800 1))))))))
         of Inl e \<Rightarrow> Some (t, [ProcessResult e])
          | Inr (currents, angle) \<Rightarrow> do {
              (t, es) \<leftarrow> RunFocSimulation A P Vdc duration currents angle t;
              Some (t, es @ [ProcessResult CliSuccess]) })"

section \<open>CAN\<close>

definition CanStart :: "'f text_library \<Rightarrow> string \<Rightarrow> ('p, 'f) TerminalInteractor \<Rightarrow> ('p, 'f) ht_result" where
  "CanStart L param t = ht_finish
     (let ts = tokens L param
      in if length ts < 1 \<or> 2 < length ts then Inl invalid_arguments
         else require (Ht_ParseU32 L (ts ! 0) 100000 1000000) ''invalid bitrate. It should be between 100000 and 1000000.'' (\<lambda>bitRate.
           if length ts = 2 \<and> ts ! 1 \<noteq> ''test'' then Inl (CliError ''invalid option. Use 'test' for loopback mode.'')
           else let testMode = (length ts = 2)
                in Inr (t\<lparr>canStarted := True\<rparr>, [ConfigureCanBus bitRate testMode, SetCanErrorHandler,
                     TraceLine [TraceText ''  CAN started at '', TraceInt (uint bitRate), TraceText '' bps'',
                       TraceText (if testMode then '' (loopback)'' else [])]]))) t"

definition CanStop :: "('p, 'f) TerminalInteractor \<Rightarrow> ('p, 'f) ht_result" where
  "CanStop t = (t\<lparr>canStarted := False\<rparr>, [TraceLine [TraceText ''  CAN stopped''], ProcessResult CliSuccess])"

text \<open>The bytes of the message, as far as the first invalid token. The message holds eight.\<close>

fun can_bytes :: "'f text_library \<Rightarrow> string list \<Rightarrow> u8 list \<Rightarrow> (StatusWithMessage + u8 list) option" where
  "can_bytes L [] message = Some (Inr message)"
| "can_bytes L (tok # ts) message = (case Ht_ParseU32 L tok 0 255 of
       None \<Rightarrow> Some (Inl (CliError ''invalid data byte. It should be between 0 and 255.''))
     | Some byte \<Rightarrow> if length message < 8 then can_bytes L ts (message @ [ucast byte]) else None)"

definition CanSend :: "'f text_library \<Rightarrow> string \<Rightarrow> ('p, 'f) TerminalInteractor \<Rightarrow> ('p, 'f) ht_result option" where
  "CanSend L param t =
     (if \<not> canStarted t then Some (t, [ProcessResult (CliError ''CAN not started. Run 'can_start' first.'')])
      else let ts = tokens L param
           in if length ts < 2 \<or> 9 < length ts
              then Some (t, [ProcessResult (CliError ''invalid number of arguments. Usage: can_send <id> <b0> ... <b7>'')])
              else case Ht_ParseU32 L (ts ! 0) 0 0x1FFFFFFF of
                     None \<Rightarrow> Some (t, [ProcessResult (CliError ''invalid CAN ID. It should be between 0 and 0x1FFFFFFF.'')])
                   | Some canId \<Rightarrow> do {
                       r \<leftarrow> can_bytes L (tl ts) [];
                       case r of
                         Inl e \<Rightarrow> Some (t, [ProcessResult e])
                       | Inr message \<Rightarrow> Some (t, [CanSendData (0x7FF < canId) canId message, ProcessResult CliSuccess]) })"

definition CanListen :: "('p, 'f) TerminalInteractor \<Rightarrow> ('p, 'f) ht_result" where
  "CanListen t =
     (if \<not> canStarted t then (t, [ProcessResult (CliError ''CAN not started. Run 'can_start' first.'')])
      else (t, [CanReceiveData, TraceLine [TraceText ''  CAN listening for messages''], ProcessResult CliSuccess]))"

section \<open>EEPROM\<close>

text \<open>The bytes go into the buffer one by one, also those before an invalid one.\<close>

fun store_bytes :: "'f text_library \<Rightarrow> string list \<Rightarrow> nat \<Rightarrow> u8 list \<Rightarrow> bool \<times> u8 list" where
  "store_bytes L [] i buffer = (True, buffer)"
| "store_bytes L (tok # ts) i buffer = (case Ht_ParseU32 L tok 0 255 of
       None \<Rightarrow> (False, buffer)
     | Some byte \<Rightarrow> store_bytes L ts (i + 1) (buffer[i := ucast byte]))"

definition EepromWrite :: "'f text_library \<Rightarrow> u32 \<Rightarrow> string \<Rightarrow> ('p, 'f) TerminalInteractor \<Rightarrow> ('p, 'f) ht_result" where
  "EepromWrite L eepromSize param t =
     (let ts = tokens L param
      in if length ts < 2 then (t, [ProcessResult (CliError ''usage: eeprom_write <addr> <b0> [b1...]'')])
         else case Ht_ParseU32 L (ts ! 0) 0 65535 of
                None \<Rightarrow> (t, [ProcessResult (CliError ''invalid address'')])
              | Some addr \<Rightarrow>
                  let byteCount = length ts - 1
                  in if length (eepromBuffer t) < byteCount then (t, [ProcessResult (CliError ''too many bytes'')])
                     else let (valid, buffer) = store_bytes L (tl ts) 0 (eepromBuffer t); t = t\<lparr>eepromBuffer := buffer\<rparr>
                          in if \<not> valid then (t, [ProcessResult (CliError ''invalid byte value'')])
                             else if eepromSize < addr \<or> unat (eepromSize - addr) < byteCount
                             then (t, [ProcessResult (CliError ''address out of range'')])
                             else (t, [WriteBuffer (take byteCount buffer) addr,
                               TraceLine [TraceText ''  Writing to EEPROM at address '', TraceInt (uint addr), TraceText '' bytes: '',
                                 TraceInt (int byteCount), TraceText ''...'']]))"

definition EepromWritten :: "('p, 'f) TerminalInteractor \<Rightarrow> ('p, 'f) ht_result" where
  "EepromWritten t = (t, [TraceLine [TraceText ''  Written to EEPROM''], ProcessResult CliSuccess])"

definition EepromRead :: "'f text_library \<Rightarrow> u32 \<Rightarrow> string \<Rightarrow> ('p, 'f) TerminalInteractor \<Rightarrow> ('p, 'f) ht_result" where
  "EepromRead L eepromSize param t =
     (let ts = tokens L param
      in if length ts \<noteq> 2 then (t, [ProcessResult (CliError ''usage: eeprom_read <addr> <size>'')])
         else case Ht_ParseU32 L (ts ! 0) 0 65535 of
                None \<Rightarrow> (t, [ProcessResult (CliError ''invalid address'')])
              | Some addr \<Rightarrow> (case Ht_ParseU32 L (ts ! 1) 1 (word_of_nat (length (eepromBuffer t))) of
                    None \<Rightarrow> (t, [ProcessResult (CliError ''invalid size'')])
                  | Some bytes \<Rightarrow>
                      if eepromSize < addr \<or> eepromSize - addr < bytes
                      then (t, [ProcessResult (CliError ''address out of range'')])
                      else (t\<lparr>eepromCurrentReadSize := bytes\<rparr>, [ReadBuffer bytes addr])))"

text \<open>The completion of a read, which has filled the first bytes of the buffer.\<close>

definition EepromReadDone :: "u8 list \<Rightarrow> ('p, 'f) TerminalInteractor \<Rightarrow> ('p, 'f) ht_result" where
  "EepromReadDone data t =
     (let t = t\<lparr>eepromBuffer := data @ drop (length data) (eepromBuffer t)\<rparr>
      in (t, map (\<lambda>i. TraceLine [TraceText ''  ['', TraceInt (int i), TraceText ''] = '', TraceInt (uint (eepromBuffer t ! i))])
            [0..<unat (eepromCurrentReadSize t)] @ [ProcessResult CliSuccess]))"

definition EepromErase :: "('p, 'f) TerminalInteractor \<Rightarrow> ('p, 'f) ht_result" where
  "EepromErase t = (t, [EraseEeprom, TraceLine [TraceText ''  Erasing entire EEPROM...'']])"

definition EepromErased :: "('p, 'f) TerminalInteractor \<Rightarrow> ('p, 'f) ht_result" where
  "EepromErased t = (t, [TraceLine [TraceText ''  EEPROM erased''], ProcessResult CliSuccess])"

section \<open>Diagnostics\<close>

definition ResetDevice :: "('p, 'f) TerminalInteractor \<Rightarrow> ('p, 'f) ht_result" where
  "ResetDevice t = (t, [HardwareReset, ProcessResult CliSuccess])"

definition GetResetCauseStatus :: "string \<Rightarrow> ('p, 'f) TerminalInteractor \<Rightarrow> ('p, 'f) ht_result" where
  "GetResetCauseStatus cause t = (t, [TraceLine [TraceText cause], ProcessResult CliSuccess])"

definition GetFaultStatus :: "string \<Rightarrow> ('p, 'f) TerminalInteractor \<Rightarrow> ('p, 'f) ht_result" where
  "GetFaultStatus faultData t =
     (t, [TraceLine [TraceText (if faultData = [] then ''No fault data available.'' else faultData)], ProcessResult CliSuccess])"

definition ForceHardfault :: "('p, 'f) TerminalInteractor \<Rightarrow> ('p, 'f) ht_result" where
  "ForceHardfault t = (t, [TraceLine [TraceText ''Triggering HardFault...''], HardFault])"

end
