(* ===== verification/Hardware_Correct.thy ===== *)
theory Hardware_Correct
  imports Hardware_Terminal
begin

text \<open>
  The commands of the hardware test stay in range, and what the sampling reports.
\<close>

section \<open>Arguments in range\<close>

lemma Ht_ParseU32_range: "Ht_ParseU32 L d lo hi = Some v \<Longrightarrow> lo \<le> v \<and> v \<le> hi"
  by (auto simp: Ht_ParseU32_def split: if_splits bind_splits)

lemma Ht_ParseU8_range: "Ht_ParseU8 L d lo hi = Some v \<Longrightarrow> lo \<le> v \<and> v \<le> hi"
  by (auto simp: Ht_ParseU8_def split: if_splits bind_splits)

text \<open>The bytes that a list of tokens denotes.\<close>

fun byte_values :: "'f text_library \<Rightarrow> string list \<Rightarrow> u8 list option" where
  "byte_values L [] = Some []"
| "byte_values L (tok # ts) = do { v \<leftarrow> Ht_ParseU32 L tok 0 255; vs \<leftarrow> byte_values L ts; Some (ucast v # vs) }"

lemma byte_values_length: "byte_values L ts = Some vs \<Longrightarrow> length vs = length ts"
  by (induction ts arbitrary: vs) (auto split: bind_splits)

lemma store_bytes_length: "length (snd (store_bytes L ts i buffer)) = length buffer"
  by (induction L ts i buffer rule: store_bytes.induct) (auto split: option.splits)

lemma store_bytes_values:
  assumes "store_bytes L ts i buffer = (True, buffer')" and "i + length ts \<le> length buffer"
  shows "\<exists>vs. byte_values L ts = Some vs \<and> buffer' = take i buffer @ vs @ drop (i + length ts) buffer"
  using assms
proof (induction L ts i buffer rule: store_bytes.induct)
  case (2 L tok ts i buffer)
  from 2(2) obtain byte where byte: "Ht_ParseU32 L tok 0 255 = Some byte"
      "store_bytes L ts (i + 1) (buffer[i := ucast byte]) = (True, buffer')"
    by (auto split: option.splits)
  from 2(1) [OF byte] 2(3) obtain vs where vs: "byte_values L ts = Some vs"
      "buffer' = take (i + 1) (buffer[i := ucast byte]) @ vs @ drop (i + 1 + length ts) (buffer[i := ucast byte])" by auto
  have "take (i + 1) (buffer[i := ucast byte]) = take i buffer @ [ucast byte]" using 2(3) by (simp add: take_Suc_conv_app_nth)
  moreover have "drop (i + 1 + length ts) (buffer[i := ucast byte]) = drop (i + length (tok # ts)) buffer" by simp
  ultimately show ?case using byte(1) vs by (simp del: drop_append)
qed simp

lemma can_bytes_values:
  assumes "length message + length ts \<le> 8"
  shows "can_bytes L ts message \<noteq> None \<and>
    (\<forall>bytes. can_bytes L ts message = Some (Inr bytes) \<longrightarrow> (\<exists>vs. byte_values L ts = Some vs \<and> bytes = message @ vs))"
  using assms by (induction L ts message rule: can_bytes.induct) (auto split: option.splits)

lemma EepromWrite_in_range:
  assumes "length (eepromBuffer t) = 64" and "EepromWrite L eepromSize param t = (t', es)"
  shows "length (eepromBuffer t') = 64 \<and>
    (\<forall>bytes addr. WriteBuffer bytes addr \<in> set es \<longrightarrow>
       byte_values L (tl (tokens L param)) = Some bytes \<and> length bytes \<le> 64 \<and> unat addr + length bytes \<le> unat eepromSize)"
proof -
  let ?ts = "tokens L param"
  obtain valid buffer where sb: "store_bytes L (tl ?ts) 0 (eepromBuffer t) = (valid, buffer)" by fastforce
  have len: "length buffer = 64" using store_bytes_length [of L "tl ?ts" 0 "eepromBuffer t"] assms(1) sb by simp
  have stored: "byte_values L (tl ?ts) = Some (take (length ?ts - 1) buffer)"
    if v: "valid" and n: "length ?ts - 1 \<le> 64"
  proof -
    obtain vs where "byte_values L (tl ?ts) = Some vs" "buffer = vs @ drop (length (tl ?ts)) (eepromBuffer t)"
      using store_bytes_values [of L "tl ?ts" 0 "eepromBuffer t" buffer] sb v n assms(1) by auto
    then show ?thesis using byte_values_length [of L "tl ?ts" vs] by simp
  qed
  have range: "unat addr + n \<le> unat eepromSize" if "addr \<le> eepromSize" "n \<le> unat (eepromSize - addr)" for addr n
    using that unat_sub [OF that(1)] by (simp add: word_le_nat_alt)
  have range': "unat addr + length ?ts - Suc 0 \<le> unat eepromSize"
    if "addr \<le> eepromSize" "length ?ts - Suc 0 \<le> unat (eepromSize - addr)" "2 \<le> length ?ts" for addr
    using range [OF that(1,2)] that(3) by linarith
  show ?thesis
    using assms len
    by (auto simp: EepromWrite_def Let_def sb not_less stored range' split: if_splits option.splits)
qed

lemma EepromRead_in_range:
  assumes "length (eepromBuffer t) = 64" and "EepromRead L eepromSize param t = (t', es)" and "ReadBuffer n addr \<in> set es"
  shows "1 \<le> n \<and> n \<le> 64 \<and> unat addr + unat n \<le> unat eepromSize \<and> eepromCurrentReadSize t' = n"
proof -
  have range: "unat a + unat k \<le> unat eepromSize" if "a \<le> eepromSize" "k \<le> eepromSize - a" for a k
    using that unat_sub [OF that(1)] by (simp add: word_le_nat_alt)
  show ?thesis
    using assms
    by (auto simp: EepromRead_def Let_def not_less range dest: Ht_ParseU32_range split: if_splits option.splits)
qed

lemma CanSend_frame:
  "CanSend L param t \<noteq> None \<and>
   (\<forall>t' es x i bytes. CanSend L param t = Some (t', es) \<and> CanSendData x i bytes \<in> set es \<longrightarrow>
      canStarted t \<and> i \<le> 0x1FFFFFFF \<and> (x \<longleftrightarrow> 0x7FF < i) \<and> byte_values L (tl (tokens L param)) = Some bytes \<and> length bytes \<le> 8)"
proof -
  let ?ts = "tokens L param"
  show ?thesis
  proof (cases "length ?ts < 2 \<or> 9 < length ?ts")
    case True
    then show ?thesis by (auto simp: CanSend_def Let_def)
  next
    case False
    then have "length (tl ?ts) \<le> 8" by (simp, linarith)
    moreover from this have "length bytes \<le> 8" if "byte_values L (tl ?ts) = Some bytes" for bytes
      using byte_values_length [OF that] by simp
    ultimately show ?thesis using can_bytes_values [of "[]" "tl ?ts" L] False
      by (auto simp: CanSend_def Let_def dest: Ht_ParseU32_range split: bind_splits sum.splits option.splits if_splits)
  qed
qed

lemma SetPwmDuty_range:
  assumes "SetPwmDuty L param t = (t', es)" and "HardwarePwmOutput d \<in> set es"
  shows "pwmA d \<in> {1..99} \<and> pwmB d \<in> {1..99} \<and> pwmC d \<in> {1..99}"
  using assms
  by (auto simp: SetPwmDuty_def ht_finish_def require_def Let_def dest: Ht_ParseU8_range split: if_splits sum.splits option.splits)

text \<open>Hardware commands in range. Whatever is typed, an EEPROM access of the hardware test lies inside the
  memory and the 64-byte buffer and writes exactly the bytes that were given, a CAN frame has at most eight bytes,
  an identifier of 29 bits and the short form exactly when it fits 11, and a duty cycle is between 1 and 99 percent.\<close>

lemma hardware_commands_in_range:
  assumes "length (eepromBuffer t) = 64"
  shows "(\<forall>t' es bytes addr. EepromWrite L eepromSize param t = (t', es) \<and> WriteBuffer bytes addr \<in> set es \<longrightarrow>
      byte_values L (tl (tokens L param)) = Some bytes \<and> length bytes \<le> 64 \<and> unat addr + length bytes \<le> unat eepromSize) \<and>
    (\<forall>t' es n addr. EepromRead L eepromSize param t = (t', es) \<and> ReadBuffer n addr \<in> set es \<longrightarrow>
      1 \<le> n \<and> n \<le> 64 \<and> unat addr + unat n \<le> unat eepromSize \<and> eepromCurrentReadSize t' = n) \<and>
    CanSend L param t \<noteq> None \<and>
    (\<forall>t' es x i bytes. CanSend L param t = Some (t', es) \<and> CanSendData x i bytes \<in> set es \<longrightarrow>
      canStarted t \<and> i \<le> 0x1FFFFFFF \<and> (x \<longleftrightarrow> 0x7FF < i) \<and> byte_values L (tl (tokens L param)) = Some bytes \<and> length bytes \<le> 8) \<and>
    (\<forall>t' es d. SetPwmDuty L param t = (t', es) \<and> HardwarePwmOutput d \<in> set es \<longrightarrow>
      pwmA d \<in> {1..99} \<and> pwmB d \<in> {1..99} \<and> pwmC d \<in> {1..99})"
proof (intro conjI)
  show "\<forall>t' es bytes addr. EepromWrite L eepromSize param t = (t', es) \<and> WriteBuffer bytes addr \<in> set es \<longrightarrow>
      byte_values L (tl (tokens L param)) = Some bytes \<and> length bytes \<le> 64 \<and> unat addr + length bytes \<le> unat eepromSize"
    using EepromWrite_in_range [OF assms] by blast
  show "\<forall>t' es n addr. EepromRead L eepromSize param t = (t', es) \<and> ReadBuffer n addr \<in> set es \<longrightarrow>
      1 \<le> n \<and> n \<le> 64 \<and> unat addr + unat n \<le> unat eepromSize \<and> eepromCurrentReadSize t' = n"
    using EepromRead_in_range [OF assms] by blast
  show "\<forall>t' es d. SetPwmDuty L param t = (t', es) \<and> HardwarePwmOutput d \<in> set es \<longrightarrow>
      pwmA d \<in> {1..99} \<and> pwmB d \<in> {1..99} \<and> pwmC d \<in> {1..99}"
    using SetPwmDuty_range by blast
qed (use CanSend_frame [of L param t] in blast)+

definition two_words :: "real text_library" where
  "two_words = \<lparr>tokens = \<lambda>_. [''4'', ''255''], stream_float = \<lambda>_. None,
     stream_u32 = \<lambda>s. Some (if s = ''4'' then 4 else 255), stream_u8 = \<lambda>_. None\<rparr>"

definition hardware_terminal :: "(real, real) TerminalInteractor option" where
  "hardware_terminal = map_option (\<lambda>foc. fst (TerminalInteractor_new exact proportional foc)) (FocSpeedImpl_new exact proportional 5 10000 1000)"

lemma hardware_terminal:
  obtains t where "hardware_terminal = Some t" "eepromBuffer t = replicate 64 0" "queueOfPhaseCurrents t = []"
  by (simp add: hardware_terminal_def FocSpeedImpl_new_def FocWithSpeedLoop_new_def TerminalInteractor_new_def StartAdc_def Let_def)

lemma hardware_commands_in_range_witness:
  "\<exists>t t' es. hardware_terminal = Some t \<and> EepromWrite two_words 5 ''4 255'' t = (t', es) \<and> WriteBuffer [255] 4 \<in> set es \<and>
     unat (4 :: u32) + length [255 :: u8] \<le> unat (5 :: u32)"
proof -
  obtain t where t: "hardware_terminal = Some t" "eepromBuffer t = replicate 64 0" by (rule hardware_terminal)
  obtain t' es where w: "EepromWrite two_words 5 ''4 255'' t = (t', es)" "WriteBuffer [255] 4 \<in> set es"
    using t(2) replicate_Suc [of 63 "0 :: u8"] by (simp add: EepromWrite_def Let_def two_words_def Ht_ParseU32_def word_le_def word_less_def)
  have "length (eepromBuffer t) = 64" using t(2) by simp
  from hardware_commands_in_range [OF this, of two_words 5 "''4 255''"] w t(1) show ?thesis by blast
qed

section \<open>Sampling\<close>

lemma ht_samples_idle: "\<not> adcActive t \<Longrightarrow> ht_samples ps t = (t, [])"
  by (induction ps) (simp_all add: ht_sample_def)

lemma ht_samples_report:
  assumes "adcActive t" and "length (queueOfPhaseCurrents t) \<le> 100"
  shows "ht_samples ps t =
    (if length (queueOfPhaseCurrents t) + length ps \<le> 100
     then (t\<lparr>queueOfPhaseCurrents := queueOfPhaseCurrents t @ ps\<rparr>, [])
     else (t\<lparr>adcActive := False, queueOfPhaseCurrents := []\<rparr>, [HardwareStop, TracePhases (take 100 (queueOfPhaseCurrents t @ ps))]))"
  using assms
proof (induction ps arbitrary: t)
  case (Cons p ps)
  show ?case
  proof (cases "length (queueOfPhaseCurrents t) < 100")
    case True
    then have "ht_sample p t = (t\<lparr>queueOfPhaseCurrents := queueOfPhaseCurrents t @ [p]\<rparr>, [])"
      using Cons.prems(1) by (simp add: ht_sample_def averageSampleSize_def)
    with Cons.IH [of "t\<lparr>queueOfPhaseCurrents := queueOfPhaseCurrents t @ [p]\<rparr>"] True Cons.prems(1) show ?thesis by simp
  next
    case False
    then have "ht_sample p t = (t\<lparr>adcActive := False, queueOfPhaseCurrents := []\<rparr>, [HardwareStop, TracePhases (queueOfPhaseCurrents t)])"
      using Cons.prems(1) by (simp add: ht_sample_def averageSampleSize_def ProcessAdcSamples_def)
    with False Cons.prems(2) show ?thesis by (simp add: ht_samples_idle)
  qed
qed simp

text \<open>Sampling. A sampling run reports once, at the 101st current sample in its queue: the first hundred in
  order; it stops the PWM and ignores every sample after it. The sample that triggers the report is lost, and
  a run that is started before the previous one reported goes on with the samples of the previous one.\<close>

lemma sampling_report:
  assumes "length (queueOfPhaseCurrents t) \<le> 100" and "StartAdc sampleAndHold t = (t1, es)"
  shows "ht_samples ps t1 =
    (if length (queueOfPhaseCurrents t) + length ps \<le> 100
     then (t1\<lparr>queueOfPhaseCurrents := queueOfPhaseCurrents t @ ps\<rparr>, [])
     else (t1\<lparr>adcActive := False, queueOfPhaseCurrents := []\<rparr>, [HardwareStop, TracePhases (take 100 (queueOfPhaseCurrents t @ ps))]))"
proof -
  have "adcActive t1" "queueOfPhaseCurrents t1 = queueOfPhaseCurrents t" using assms(2) by (auto simp: StartAdc_def)
  with ht_samples_report [of t1 ps] assms(1) show ?thesis by simp
qed

lemma sampling_report_witness:
  "\<exists>t t1 t2 es. hardware_terminal = Some t \<and> StartAdc shortest t = (t1, es) \<and>
     ht_samples (replicate 101 no_current) t1 = (t2, [HardwareStop, TracePhases (replicate 100 no_current)]) \<and> \<not> adcActive t2"
proof -
  obtain t where t: "hardware_terminal = Some t" "queueOfPhaseCurrents t = []" by (rule hardware_terminal)
  obtain t1 es where t1: "StartAdc shortest t = (t1, es)" by fastforce
  have "length (queueOfPhaseCurrents t) \<le> 100" using t(2) by simp
  from sampling_report [OF this t1, of "replicate 101 no_current"] t t1 show ?thesis
    by - (rule exI [of _ t], rule exI [of _ t1], rule exI [of _ "t1\<lparr>adcActive := False, queueOfPhaseCurrents := []\<rparr>"], rule exI [of _ es], simp)
qed

section \<open>Gains\<close>

text \<open>The lower bound of the gains is the smallest positive number: a gain that is zero or negative is refused,
  the example of the help text among them.\<close>

lemma zero_gain_refused:
  assumes "length (tokens L param) = 6" and "i < 6" "stream_float L (tokens L param ! i) = Some g" and "g < float_min"
  shows "\<exists>e. ConfigurePid exact P L float_min float_max Vdc param t = (t, [ProcessResult (CliError e)])"
proof -
  have none: "Ht_ParseFloat exact L (tokens L param ! i) float_min float_max = None"
    using assms(3,4) by (simp add: Ht_ParseFloat_def)
  have "i = 0 \<or> i = 1 \<or> i = 2 \<or> i = 3 \<or> i = 4 \<or> i = 5" using assms(2) by linarith
  with none assms(1) show ?thesis
    by (auto simp: ConfigurePid_def ht_finish_def require_def Let_def split: option.splits sum.splits)
qed

end
