(* ===== verification/Motor_Model.thy ===== *)
theory Motor_Model
  imports Foc_Kernels Foc_Runner
begin

text \<open>
  The simulated motor (\<open>Model.cpp\<close> of the simulator): an inverter and an encoder around the electrical,
  thermal and mechanical equations, driven by its own action in the event dispatcher. What the current
  callback does is an argument (\<open>react\<close>). The observers of the simulator only display and estimate;
  their notifications are effects.
\<close>

section \<open>State\<close>

record 'f MotorParameters =
  phaseResistance :: 'f
  inductanceLd :: 'f
  inductanceLq :: 'f
  fluxLinkage :: 'f
  motorPolePairs :: u8
  rotorInertia :: 'f
  viscousFriction :: 'f

record 'f NoiseConfig =
  sigmaAmpere :: 'f
  biasAmpereA :: 'f
  biasAmpereB :: 'f
  biasAmpereC :: 'f

record 'f ThermalConfig =
  ambientCelsius :: 'f
  thermalResistance :: 'f
  thermalCapacitance :: 'f
  copperTempCoeff :: 'f
  ironInductanceCoeff :: 'f

record 'f EncoderNoiseConfig =
  sigmaRadians :: 'f
  biasRadians :: 'f

record 'f MotorState =
  stateIa :: 'f
  stateIb :: 'f
  stateIc :: 'f
  stateTheta :: 'f
  thetaMech :: 'f
  stateOmega :: 'f
  omegaMech :: 'f

text \<open>\<open>currentDraws\<close> and \<open>encoderDraws\<close> count the samples taken from the two random engines;
  \<open>scheduledCycles\<close> counts the model's actions in the event dispatcher.\<close>

record ('h, 'f) ThreePhaseMotorModel =
  parameters :: "'f MotorParameters"
  modelBaseFrequency :: u32
  powerSupplyVoltage :: 'f
  motorState :: "'f MotorState"
  onCurrentPhasesReady :: "'h option"
  running :: bool
  motorLoad :: "'f option"
  maxIterations :: "64 word option"
  iterationCounter :: "64 word option"
  noiseConfig :: "'f NoiseConfig"
  currentDraws :: nat
  lastCurrents :: "'f PhaseCurrents"
  thermalConfig :: "'f ThermalConfig"
  windingTempCelsius :: 'f
  encoderNoiseConfig :: "'f EncoderNoiseConfig"
  encoderDraws :: nat
  driving :: bool
  cycleScheduled :: bool
  pendingDuties :: PhasePwmDutyCycles
  scheduledCycles :: nat

text \<open>What the model takes from the standard library: \<open>std::fmod\<close>, and the normal distribution over
  each engine as the sequence of its samples.\<close>

record 'f model_env =
  fmodulo :: "'f \<Rightarrow> 'f \<Rightarrow> 'f"
  currentNoise :: "nat \<Rightarrow> 'f"
  encoderNoise :: "nat \<Rightarrow> 'f"

datatype ('h, 'f) model_effect =
    NotifyStarted
  | NotifyPhaseCurrents "'f PhaseCurrents" 'f 'f
  | NotifyStatorVoltages "'f ThreePhase" "'f TwoPhase"
  | CallbackCalled 'h "'f PhaseCurrents"
  | NotifyFinished

definition restDuties :: PhasePwmDutyCycles where
  "restDuties = \<lparr>pwmA = 50, pwmB = 50, pwmC = 50\<rparr>"

definition startDuties :: PhasePwmDutyCycles where
  "startDuties = \<lparr>pwmA = 50, pwmB = 49, pwmC = 51\<rparr>"

definition MotorState_zero :: "'f float_arith \<Rightarrow> 'f MotorState" where
  "MotorState_zero A = (let z = flit A 0 1 in \<lparr>stateIa = z, stateIb = z, stateIc = z, stateTheta = z, thetaMech = z, stateOmega = z, omegaMech = z\<rparr>)"

definition NoiseConfig_default :: "'f float_arith \<Rightarrow> 'f NoiseConfig" where
  "NoiseConfig_default A = (let z = flit A 0 1 in \<lparr>sigmaAmpere = z, biasAmpereA = z, biasAmpereB = z, biasAmpereC = z\<rparr>)"

definition ThermalConfig_default :: "'f float_arith \<Rightarrow> 'f ThermalConfig" where
  "ThermalConfig_default A = \<lparr>ambientCelsius = flit A 250 1, thermalResistance = flit A 20 1, thermalCapacitance = flit A 250 1,
     copperTempCoeff = flit A 393 5, ironInductanceCoeff = flit A 0 1\<rparr>"

definition EncoderNoiseConfig_default :: "'f float_arith \<Rightarrow> 'f EncoderNoiseConfig" where
  "EncoderNoiseConfig_default A = \<lparr>sigmaRadians = flit A 0 1, biasRadians = flit A 0 1\<rparr>"

definition ThreePhaseMotorModel_new ::
    "'f float_arith \<Rightarrow> 'f MotorParameters \<Rightarrow> 'f \<Rightarrow> u32 \<Rightarrow> 64 word option \<Rightarrow> ('h, 'f) ThreePhaseMotorModel" where
  "ThreePhaseMotorModel_new A params supplyVoltage pwmFrequency iterationLimit =
     \<lparr>parameters = params, modelBaseFrequency = pwmFrequency, powerSupplyVoltage = supplyVoltage, motorState = MotorState_zero A,
      onCurrentPhasesReady = None, running = False, motorLoad = None, maxIterations = iterationLimit, iterationCounter = None,
      noiseConfig = NoiseConfig_default A, currentDraws = 0,
      lastCurrents = \<lparr>currentA = flit A 0 1, currentB = flit A 0 1, currentC = flit A 0 1\<rparr>,
      thermalConfig = ThermalConfig_default A, windingTempCelsius = flit A 250 1,
      encoderNoiseConfig = EncoderNoiseConfig_default A, encoderDraws = 0,
      driving = False, cycleScheduled = False, pendingDuties = restDuties, scheduledCycles = 0\<rparr>"

definition JK42BLS01_X038ED :: "'f float_arith \<Rightarrow> 'f MotorParameters" where
  "JK42BLS01_X038ED A = \<lparr>phaseResistance = flit A 73 3, inductanceLd = flit A 5 4, inductanceLq = flit A 5 4, fluxLinkage = flit A 7 3,
     motorPolePairs = 4, rotorInertia = flit A 75 7, viscousFriction = flit A 2 5\<rparr>"

section \<open>Configuration\<close>

definition SetLoad :: "'f \<Rightarrow> ('h, 'f) ThreePhaseMotorModel \<Rightarrow> ('h, 'f) ThreePhaseMotorModel" where
  "SetLoad l m = m\<lparr>motorLoad := Some l\<rparr>"

definition SetAdcNoise :: "'f NoiseConfig \<Rightarrow> ('h, 'f) ThreePhaseMotorModel \<Rightarrow> ('h, 'f) ThreePhaseMotorModel" where
  "SetAdcNoise config m = m\<lparr>noiseConfig := config\<rparr>"

definition SetEncoderNoise :: "'f EncoderNoiseConfig \<Rightarrow> ('h, 'f) ThreePhaseMotorModel \<Rightarrow> ('h, 'f) ThreePhaseMotorModel" where
  "SetEncoderNoise config m = m\<lparr>encoderNoiseConfig := config\<rparr>"

definition SetThermalConfig :: "'f ThermalConfig \<Rightarrow> ('h, 'f) ThreePhaseMotorModel \<Rightarrow> ('h, 'f) ThreePhaseMotorModel" where
  "SetThermalConfig config m = m\<lparr>thermalConfig := config\<rparr>"

definition ResetTemperature :: "('h, 'f) ThreePhaseMotorModel \<Rightarrow> ('h, 'f) ThreePhaseMotorModel" where
  "ResetTemperature m = m\<lparr>windingTempCelsius := ambientCelsius (thermalConfig m)\<rparr>"

definition SetWindingTemperatureForTest :: "'f \<Rightarrow> ('h, 'f) ThreePhaseMotorModel \<Rightarrow> ('h, 'f) ThreePhaseMotorModel" where
  "SetWindingTemperatureForTest celsius m = m\<lparr>windingTempCelsius := celsius\<rparr>"

definition EffectiveResistance :: "'f float_arith \<Rightarrow> ('h, 'f) ThreePhaseMotorModel \<Rightarrow> 'f" where
  "EffectiveResistance A m =
     (let deltaT = fsub A (windingTempCelsius m) (ambientCelsius (thermalConfig m))
      in ftimes A (phaseResistance (parameters m)) (fadd A (flit A 10 1) (ftimes A (copperTempCoeff (thermalConfig m)) deltaT)))"

definition EffectiveInductanceD :: "'f float_arith \<Rightarrow> ('h, 'f) ThreePhaseMotorModel \<Rightarrow> 'f" where
  "EffectiveInductanceD A m =
     (let deltaT = fsub A (windingTempCelsius m) (ambientCelsius (thermalConfig m))
      in ftimes A (inductanceLd (parameters m)) (fsub A (flit A 10 1) (ftimes A (ironInductanceCoeff (thermalConfig m)) deltaT)))"

definition EffectiveInductanceQ :: "'f float_arith \<Rightarrow> ('h, 'f) ThreePhaseMotorModel \<Rightarrow> 'f" where
  "EffectiveInductanceQ A m =
     (let deltaT = fsub A (windingTempCelsius m) (ambientCelsius (thermalConfig m))
      in ftimes A (inductanceLq (parameters m)) (fsub A (flit A 10 1) (ftimes A (ironInductanceCoeff (thermalConfig m)) deltaT)))"

section \<open>The encoder\<close>

definition WrapAngle :: "'f float_arith \<Rightarrow> 'f model_env \<Rightarrow> 'f \<Rightarrow> 'f" where
  "WrapAngle A E angle =
     (let result = fmodulo E angle (two_pi A) in if flt A result (flit A 0 1) then fadd A result (two_pi A) else result)"

definition Model_Read :: "'f float_arith \<Rightarrow> 'f model_env \<Rightarrow> ('h, 'f) ThreePhaseMotorModel \<Rightarrow> 'f \<times> ('h, 'f) ThreePhaseMotorModel" where
  "Model_Read A E m =
     (let noise = ftimes A (sigmaRadians (encoderNoiseConfig m)) (encoderNoise E (encoderDraws m))
      in (WrapAngle A E (fadd A (fadd A (thetaMech (motorState m)) (biasRadians (encoderNoiseConfig m))) noise),
          m\<lparr>encoderDraws := encoderDraws m + 1\<rparr>))"

definition Model_Set :: "'f float_arith \<Rightarrow> 'f \<Rightarrow> ('h, 'f) ThreePhaseMotorModel \<Rightarrow> ('h, 'f) ThreePhaseMotorModel" where
  "Model_Set A v m = m\<lparr>motorState := (motorState m)\<lparr>thetaMech := v,
     stateTheta := ftimes A (fofint A (uint (motorPolePairs (parameters m)))) v\<rparr>\<rparr>"

definition Model_SetZero :: "'f float_arith \<Rightarrow> ('h, 'f) ThreePhaseMotorModel \<Rightarrow> ('h, 'f) ThreePhaseMotorModel" where
  "Model_SetZero A m = m\<lparr>motorState := (motorState m)\<lparr>thetaMech := flit A 0 1, stateTheta := flit A 0 1\<rparr>\<rparr>"

section \<open>The equations\<close>

definition fractionOf :: "'f float_arith \<Rightarrow> u8 \<Rightarrow> 'f" where
  "fractionOf A percent = fdiv A (fofint A (uint percent)) (flit A 1000 1)"

definition phaseVoltages :: "'f float_arith \<Rightarrow> PhasePwmDutyCycles \<Rightarrow> 'f \<Rightarrow> 'f ThreePhase" where
  "phaseVoltages A d v = \<lparr>phaseA = ftimes A (fsub A (fractionOf A (pwmA d)) (flit A 5 1)) v,
     phaseB = ftimes A (fsub A (fractionOf A (pwmB d)) (flit A 5 1)) v,
     phaseC = ftimes A (fsub A (fractionOf A (pwmC d)) (flit A 5 1)) v\<rparr>"

definition StepCurrents ::
    "'f float_arith \<Rightarrow> 'f \<Rightarrow> 'f RotatingFrame \<Rightarrow> 'f RotatingFrame \<Rightarrow> ('h, 'f) ThreePhaseMotorModel \<Rightarrow> 'f RotatingFrame" where
  "StepCurrents A dt v i m =
     (let r = EffectiveResistance A m; ld = EffectiveInductanceD A m; lq = EffectiveInductanceQ A m; w = stateOmega (motorState m);
          dId = fdiv A (fadd A (fsub A (dAxis v) (ftimes A r (dAxis i))) (ftimes A (ftimes A w lq) (qAxis i))) ld;
          dIq = fdiv A (fsub A (fsub A (fsub A (qAxis v) (ftimes A r (qAxis i))) (ftimes A (ftimes A w ld) (dAxis i)))
                          (ftimes A w (fluxLinkage (parameters m)))) lq
      in \<lparr>dAxis = fadd A (dAxis i) (ftimes A dId dt), qAxis = fadd A (qAxis i) (ftimes A dIq dt)\<rparr>)"

definition StepTemperature :: "'f float_arith \<Rightarrow> 'f \<Rightarrow> 'f ThreePhase \<Rightarrow> ('h, 'f) ThreePhaseMotorModel \<Rightarrow> 'f" where
  "StepTemperature A dt i m =
     (let a = phaseA i; b = phaseB i; c = phaseC i; t = windingTempCelsius m; config = thermalConfig m;
          pCu = ftimes A (EffectiveResistance A m) (fadd A (fadd A (ftimes A a a) (ftimes A b b)) (ftimes A c c))
      in fadd A t (fdiv A (ftimes A dt (fsub A pCu (fdiv A (fsub A t (ambientCelsius config)) (thermalResistance config))))
           (thermalCapacitance config)))"

definition StepSpeed :: "'f float_arith \<Rightarrow> 'f \<Rightarrow> 'f RotatingFrame \<Rightarrow> ('h, 'f) ThreePhaseMotorModel \<Rightarrow> 'f" where
  "StepSpeed A dt i m =
     (let p = parameters m; w = omegaMech (motorState m); l = (case motorLoad m of Some l \<Rightarrow> l | None \<Rightarrow> flit A 0 1);
          torqueElec = ftimes A (ftimes A (flit A 15 1) (fofint A (uint (motorPolePairs p))))
            (fadd A (ftimes A (fluxLinkage p) (qAxis i))
              (ftimes A (ftimes A (fsub A (EffectiveInductanceD A m) (EffectiveInductanceQ A m)) (dAxis i)) (qAxis i)));
          loadOpposing = (if fle A (flit A 0 1) w then l else fneg A l);
          acceleration = fdiv A (fsub A (fsub A torqueElec (ftimes A (viscousFriction p) w)) loadOpposing) (rotorInertia p)
      in fadd A w (ftimes A acceleration dt))"

definition Motor_Model ::
    "'f float_arith \<Rightarrow> 'f model_env \<Rightarrow> PhasePwmDutyCycles \<Rightarrow> ('h, 'f) ThreePhaseMotorModel \<Rightarrow> ('h, 'f) ThreePhaseMotorModel option" where
  "Motor_Model A E dutyPhases m = do {
     let s = motorState m;
     let dt = fdiv A (flit A 10 1) (fofint A (uint (modelBaseFrequency m)));
     cosTheta \<leftarrow> Cosine A (stateTheta s);
     sinTheta \<leftarrow> Sine A (stateTheta s);
     let v = ClarkePark_Forward A (phaseVoltages A dutyPhases (powerSupplyVoltage m)) cosTheta sinTheta;
     let i = ClarkePark_Forward A \<lparr>phaseA = stateIa s, phaseB = stateIb s, phaseC = stateIc s\<rparr> cosTheta sinTheta;
     let i' = StepCurrents A dt v i m;
     let abc = ClarkePark_Inverse A i' cosTheta sinTheta;
     let w = StepSpeed A dt i' m;
     let we = ftimes A (fofint A (uint (motorPolePairs (parameters m)))) w;
     Some (m\<lparr>windingTempCelsius := StepTemperature A dt abc m,
       motorState := \<lparr>stateIa = phaseA abc, stateIb = phaseB abc, stateIc = phaseC abc,
         stateTheta = WrapAngle A E (fadd A (stateTheta s) (ftimes A we dt)),
         thetaMech = WrapAngle A E (fadd A (thetaMech s) (ftimes A w dt)),
         stateOmega = we, omegaMech = w\<rparr>\<rparr>) }"

section \<open>Cycles\<close>

definition ScheduleNextCycle :: "('h, 'f) ThreePhaseMotorModel \<Rightarrow> ('h, 'f) ThreePhaseMotorModel" where
  "ScheduleNextCycle m = (if cycleScheduled m \<or> \<not> driving m then m
     else m\<lparr>cycleScheduled := True, scheduledCycles := scheduledCycles m + 1\<rparr>)"

definition EnableSelfDriving :: "('h, 'f) ThreePhaseMotorModel \<Rightarrow> ('h, 'f) ThreePhaseMotorModel" where
  "EnableSelfDriving m = (if driving m then m else ScheduleNextCycle (m\<lparr>driving := True\<rparr>))"

definition Model_PhaseCurrentsReady :: "u32 \<Rightarrow> 'h \<Rightarrow> ('h, 'f) ThreePhaseMotorModel \<Rightarrow> ('h, 'f) ThreePhaseMotorModel" where
  "Model_PhaseCurrentsReady frequency onDone m = m\<lparr>modelBaseFrequency := frequency, onCurrentPhasesReady := Some onDone\<rparr>"

definition Model_ThreePhasePwmOutput :: "PhasePwmDutyCycles \<Rightarrow> ('h, 'f) ThreePhaseMotorModel \<Rightarrow> ('h, 'f) ThreePhaseMotorModel" where
  "Model_ThreePhasePwmOutput dutyPhases m = EnableSelfDriving (m\<lparr>pendingDuties := dutyPhases\<rparr>)"

definition Model_Start :: "'f float_arith \<Rightarrow> ('h, 'f) ThreePhaseMotorModel \<Rightarrow> ('h, 'f) ThreePhaseMotorModel \<times> ('h, 'f) model_effect list" where
  "Model_Start A m = (if running m then (m, [])
     else (let m = ResetTemperature (m\<lparr>running := True, iterationCounter := maxIterations m, motorState := MotorState_zero A\<rparr>)
           in (EnableSelfDriving (m\<lparr>pendingDuties := startDuties\<rparr>), [NotifyStarted])))"

definition Model_Stop :: "'f float_arith \<Rightarrow> ('h, 'f) ThreePhaseMotorModel \<Rightarrow> ('h, 'f) ThreePhaseMotorModel" where
  "Model_Stop A m = m\<lparr>running := False, driving := False, iterationCounter := None,
     motorState := (motorState m)\<lparr>stateIa := flit A 0 1, stateIb := flit A 0 1, stateIc := flit A 0 1\<rparr>,
     pendingDuties := restDuties, onCurrentPhasesReady := None\<rparr>"

text \<open>The iteration counter is decremented as a \<open>size_t\<close>.\<close>

definition CountIteration :: "('h, 'f) ThreePhaseMotorModel \<Rightarrow> ('h, 'f) ThreePhaseMotorModel \<times> bool" where
  "CountIteration m = (case iterationCounter m of
       None \<Rightarrow> (m, False)
     | Some n \<Rightarrow> if n - 1 = 0 then (m\<lparr>iterationCounter := Some 0, running := False\<rparr>, True)
                 else (m\<lparr>iterationCounter := Some (n - 1)\<rparr>, False))"

definition SampleNoise :: "'f float_arith \<Rightarrow> 'f model_env \<Rightarrow> nat \<Rightarrow> ('h, 'f) ThreePhaseMotorModel \<Rightarrow> 'f" where
  "SampleNoise A E k m = ftimes A (sigmaAmpere (noiseConfig m)) (currentNoise E (currentDraws m + k))"

definition NoisyCurrents :: "'f float_arith \<Rightarrow> 'f model_env \<Rightarrow> ('h, 'f) ThreePhaseMotorModel \<Rightarrow> 'f PhaseCurrents" where
  "NoisyCurrents A E m =
     (let s = motorState m; c = noiseConfig m
      in \<lparr>currentA = fadd A (fadd A (stateIa s) (biasAmpereA c)) (SampleNoise A E 0 m),
          currentB = fadd A (fadd A (stateIb s) (biasAmpereB c)) (SampleNoise A E 1 m),
          currentC = fadd A (fadd A (stateIc s) (biasAmpereC c)) (SampleNoise A E 2 m)\<rparr>)"

type_synonym ('h, 's, 'f) reaction =
  "'h \<Rightarrow> 'f PhaseCurrents \<Rightarrow> 's \<times> ('h, 'f) ThreePhaseMotorModel \<Rightarrow> (('s \<times> ('h, 'f) ThreePhaseMotorModel) \<times> ('h, 'f) model_effect list) option"

definition RunOneCycle ::
    "'f float_arith \<Rightarrow> 'f model_env \<Rightarrow> ('h, 's, 'f) reaction \<Rightarrow> PhasePwmDutyCycles \<Rightarrow> 's \<times> ('h, 'f) ThreePhaseMotorModel \<Rightarrow>
      (('s \<times> ('h, 'f) ThreePhaseMotorModel) \<times> ('h, 'f) model_effect list) option" where
  "RunOneCycle A E react dutyPhases sm = do {
     m \<leftarrow> Motor_Model A E dutyPhases (snd sm);
     let (m, justFinished) = CountIteration m;
     let currents = NoisyCurrents A E m;
     let m = m\<lparr>currentDraws := currentDraws m + 3, lastCurrents := currents\<rparr>;
     let vAbc = phaseVoltages A dutyPhases (powerSupplyVoltage m);
     let es = [NotifyPhaseCurrents currents (thetaMech (motorState m)) (omegaMech (motorState m)),
               NotifyStatorVoltages vAbc (Clarke_Forward A vAbc)];
     if justFinished then Some ((fst sm, m\<lparr>driving := False\<rparr>), es @ [NotifyFinished])
     else (case onCurrentPhasesReady m of
         None \<Rightarrow> Some ((fst sm, m), es)
       | Some h \<Rightarrow> do {
           (sm, fs) \<leftarrow> react h currents (fst sm, m);
           Some (sm, es @ [CallbackCalled h currents] @ fs) }) }"

definition StepForTest ::
    "'f float_arith \<Rightarrow> 'f model_env \<Rightarrow> ('h, 's, 'f) reaction \<Rightarrow> PhasePwmDutyCycles \<Rightarrow> 's \<times> ('h, 'f) ThreePhaseMotorModel \<Rightarrow>
      (('s \<times> ('h, 'f) ThreePhaseMotorModel) \<times> ('h, 'f) model_effect list) option" where
  "StepForTest A E react dutyPhases sm = RunOneCycle A E react dutyPhases (fst sm, (snd sm)\<lparr>pendingDuties := dutyPhases\<rparr>)"

text \<open>The scheduled action. An empty dispatcher does nothing.\<close>

definition ScheduledCycle ::
    "'f float_arith \<Rightarrow> 'f model_env \<Rightarrow> ('h, 's, 'f) reaction \<Rightarrow> 's \<times> ('h, 'f) ThreePhaseMotorModel \<Rightarrow>
      (('s \<times> ('h, 'f) ThreePhaseMotorModel) \<times> ('h, 'f) model_effect list) option" where
  "ScheduledCycle A E react sm =
     (if scheduledCycles (snd sm) = 0 then Some (sm, [])
      else (let m = (snd sm)\<lparr>scheduledCycles := scheduledCycles (snd sm) - 1, cycleScheduled := False\<rparr>
            in if \<not> driving m then Some ((fst sm, m), [])
               else do {
                 (sm, es) \<leftarrow> RunOneCycle A E react (pendingDuties m) (fst sm, m);
                 Some ((fst sm, ScheduleNextCycle (snd sm)), es) }))"

section \<open>A controller on the simulated motor\<close>

text \<open>The calls of a runner; the model's callback is the runner's.\<close>

fun model_call ::
    "'f float_arith \<Rightarrow> 'e runner_effect \<Rightarrow> (unit, 'f) ThreePhaseMotorModel \<Rightarrow> (unit, 'f) ThreePhaseMotorModel \<times> (unit, 'f) model_effect list" where
  "model_call A (ReadyRegistered f) m = (Model_PhaseCurrentsReady f () m, [])"
| "model_call A InverterStarted m = Model_Start A m"
| "model_call A InverterStopped m = (Model_Stop A m, [])"
| "model_call A (PwmOutput d) m = (Model_ThreePhasePwmOutput d m, [])"
| "model_call A _ m = (m, [])"

fun model_calls ::
    "'f float_arith \<Rightarrow> 'e runner_effect list \<Rightarrow> (unit, 'f) ThreePhaseMotorModel \<Rightarrow> (unit, 'f) ThreePhaseMotorModel \<times> (unit, 'f) model_effect list" where
  "model_calls A [] m = (m, [])"
| "model_calls A (e # es) m = (let (m, fs) = model_call A e m; (m, gs) = model_calls A es m in (m, fs @ gs))"

definition runner_react ::
    "'f float_arith \<Rightarrow> 'f model_env \<Rightarrow> ('f PhaseCurrents \<Rightarrow> 'f \<Rightarrow> 's \<Rightarrow> ('s \<times> PhasePwmDutyCycles \<times> 'e list) option) \<Rightarrow> (unit, 's, 'f) reaction" where
  "runner_react A E calculate h currents sm = do {
     let (position, m) = Model_Read A E (snd sm);
     (foc, es) \<leftarrow> Runner_Currents calculate currents position (fst sm);
     let (m, fs) = model_calls A es m;
     Some ((foc, m), fs) }"

text \<open>What the main window and the event loop do. \<open>Tune\<close> is any change of the controller: a set point,
  a tuning.\<close>

datatype ('s, 'f) simulator_event =
    StartClicked
  | StopClicked
  | EventLoop
  | Tune "'s \<Rightarrow> 's"
  | LoadChanged 'f
  | NoiseChanged "'f NoiseConfig"
  | EncoderNoiseChanged "'f EncoderNoiseConfig"
  | ThermalChanged "'f ThermalConfig"
  | ThermalReset

fun simulator_step ::
    "'f float_arith \<Rightarrow> 'f model_env \<Rightarrow> ('f PhaseCurrents \<Rightarrow> 'f \<Rightarrow> 's \<Rightarrow> ('s \<times> PhasePwmDutyCycles \<times> 'e list) option) \<Rightarrow> ('s \<Rightarrow> 's) \<Rightarrow> ('s \<Rightarrow> 's) \<Rightarrow>
      ('s, 'f) simulator_event \<Rightarrow> 's \<times> (unit, 'f) ThreePhaseMotorModel \<Rightarrow>
      (('s \<times> (unit, 'f) ThreePhaseMotorModel) \<times> (unit, 'f) model_effect list) option" where
  "simulator_step A E calculate enable disable StartClicked (foc, m) =
     (let (foc, es) = Runner_Enable enable foc; (m, fs) = model_calls A (es :: 'e runner_effect list) m in Some ((foc, m), fs))"
| "simulator_step A E calculate enable disable StopClicked (foc, m) =
     (let (foc, es) = Runner_Disable disable foc; (m, fs) = model_calls A (es :: 'e runner_effect list) m in Some ((foc, m), fs))"
| "simulator_step A E calculate enable disable EventLoop sm = ScheduledCycle A E (runner_react A E calculate) sm"
| "simulator_step A E calculate enable disable (Tune f) (foc, m) = Some ((f foc, m), [])"
| "simulator_step A E calculate enable disable (LoadChanged l) (foc, m) = Some ((foc, SetLoad l m), [])"
| "simulator_step A E calculate enable disable (NoiseChanged c) (foc, m) = Some ((foc, SetAdcNoise c m), [])"
| "simulator_step A E calculate enable disable (EncoderNoiseChanged c) (foc, m) = Some ((foc, SetEncoderNoise c m), [])"
| "simulator_step A E calculate enable disable (ThermalChanged c) (foc, m) = Some ((foc, SetThermalConfig c m), [])"
| "simulator_step A E calculate enable disable ThermalReset (foc, m) = Some ((foc, ResetTemperature m), [])"

fun simulator_run ::
    "'f float_arith \<Rightarrow> 'f model_env \<Rightarrow> ('f PhaseCurrents \<Rightarrow> 'f \<Rightarrow> 's \<Rightarrow> ('s \<times> PhasePwmDutyCycles \<times> 'e list) option) \<Rightarrow> ('s \<Rightarrow> 's) \<Rightarrow> ('s \<Rightarrow> 's) \<Rightarrow>
      ('s, 'f) simulator_event list \<Rightarrow> 's \<times> (unit, 'f) ThreePhaseMotorModel \<Rightarrow>
      (('s \<times> (unit, 'f) ThreePhaseMotorModel) \<times> (unit, 'f) model_effect list) option" where
  "simulator_run A E calculate enable disable [] sm = Some (sm, [])"
| "simulator_run A E calculate enable disable (ev # evs) sm = do {
     (sm, es) \<leftarrow> simulator_step A E calculate enable disable ev sm;
     (sm, fs) \<leftarrow> simulator_run A E calculate enable disable evs sm;
     Some (sm, es @ fs) }"

text \<open>The construction of the simulator: the runner registers its callback.\<close>

definition Simulator_new ::
    "'f float_arith \<Rightarrow> 'f MotorParameters \<Rightarrow> 'f \<Rightarrow> u32 \<Rightarrow> 64 word option \<Rightarrow> 's \<Rightarrow> 's \<times> (unit, 'f) ThreePhaseMotorModel" where
  "Simulator_new A params vdc frequency limit foc =
     (let m = ThreePhaseMotorModel_new A params vdc frequency limit
      in (foc, fst (model_calls A (Runner_new (modelBaseFrequency m) :: unit runner_effect list) m)))"

end
