(* ===== verification/Simulator_Correct.thy ===== *)
theory Simulator_Correct
  imports Motor_Model
begin

text \<open>
  Correctness of the simulated motor and of a controller on it: at most one cycle is scheduled, a limited
  simulation ends, the simulated quantities stay in their physical ranges, and a stopped simulator has
  lost its controller.
\<close>

named_theorems model_simps

section \<open>Scheduling\<close>

definition queue_counted :: "('h, 'f) ThreePhaseMotorModel \<Rightarrow> bool" where
  "queue_counted m \<longleftrightarrow> scheduledCycles m = of_bool (cycleScheduled m)"

definition well_scheduled :: "('h, 'f) ThreePhaseMotorModel \<Rightarrow> bool" where
  "well_scheduled m \<longleftrightarrow> queue_counted m \<and> (driving m \<longrightarrow> cycleScheduled m)"

lemmas [model_simps] = queue_counted_def EnableSelfDriving_def ScheduleNextCycle_def Model_PhaseCurrentsReady_def
  Model_ThreePhasePwmOutput_def Model_Stop_def Model_Start_def ResetTemperature_def Model_Read_def Let_def

lemma schedule_establishes: "queue_counted m \<Longrightarrow> well_scheduled (ScheduleNextCycle m)"
  by (auto simp: well_scheduled_def model_simps)

lemma model_call_scheduled:
  "well_scheduled m \<Longrightarrow> well_scheduled (fst (model_call A e m))"
  "queue_counted m \<Longrightarrow> queue_counted (fst (model_call A e m))"
  by (cases e; auto simp: well_scheduled_def model_simps)+

lemma model_calls_scheduled: "well_scheduled m \<Longrightarrow> well_scheduled (fst (model_calls A es m))"
  by (induction es arbitrary: m) (auto simp: Let_def split_def dest: model_call_scheduled(1))

text \<open>What a scheduled action does, and a cycle.\<close>

abbreviation taken :: "('h, 'f) ThreePhaseMotorModel \<Rightarrow> ('h, 'f) ThreePhaseMotorModel" where
  "taken m \<equiv> m\<lparr>scheduledCycles := scheduledCycles m - 1, cycleScheduled := False\<rparr>"

lemma scheduled_cycle_cases:
  assumes "ScheduledCycle A E react (s, m) = Some ((s', m'), es)"
  obtains (idle) "scheduledCycles m = 0" "s' = s" "m' = m" "es = []"
    | (stopped) "scheduledCycles m \<noteq> 0" "\<not> driving m" "s' = s" "m' = taken m" "es = []"
    | (cycle) n where "scheduledCycles m \<noteq> 0" "driving m" "m' = ScheduleNextCycle n"
        "RunOneCycle A E react (pendingDuties m) (s, taken m) = Some ((s', n), es)"
  using assms unfolding ScheduledCycle_def by (auto simp: Let_def split: if_splits bind_splits)

abbreviation sampled :: "'f float_arith \<Rightarrow> 'f model_env \<Rightarrow> ('h, 'f) ThreePhaseMotorModel \<Rightarrow> ('h, 'f) ThreePhaseMotorModel" where
  "sampled A E m \<equiv> m\<lparr>currentDraws := currentDraws m + 3, lastCurrents := NoisyCurrents A E m\<rparr>"

definition cycle_notices ::
    "'f float_arith \<Rightarrow> 'f model_env \<Rightarrow> PhasePwmDutyCycles \<Rightarrow> ('h, 'f) ThreePhaseMotorModel \<Rightarrow> ('h, 'f) model_effect list" where
  "cycle_notices A E d m = [NotifyPhaseCurrents (NoisyCurrents A E m) (thetaMech (motorState m)) (omegaMech (motorState m)),
     NotifyStatorVoltages (phaseVoltages A d (powerSupplyVoltage m)) (Clarke_Forward A (phaseVoltages A d (powerSupplyVoltage m)))]"

lemma run_one_cycle_cases:
  assumes "RunOneCycle A E react d (s, m) = Some ((s', m'), es)"
  obtains (finished) n where "Motor_Model A E d m = Some n" "snd (CountIteration n)" "s' = s"
        "m' = (sampled A E (fst (CountIteration n)))\<lparr>driving := False\<rparr>"
        "es = cycle_notices A E d (fst (CountIteration n)) @ [NotifyFinished]"
    | (unheard) n where "Motor_Model A E d m = Some n" "\<not> snd (CountIteration n)" "s' = s"
        "onCurrentPhasesReady (fst (CountIteration n)) = None" "m' = sampled A E (fst (CountIteration n))"
        "es = cycle_notices A E d (fst (CountIteration n))"
    | (heard) n h fs where "Motor_Model A E d m = Some n" "\<not> snd (CountIteration n)"
        "onCurrentPhasesReady (fst (CountIteration n)) = Some h"
        "react h (NoisyCurrents A E (fst (CountIteration n))) (s, sampled A E (fst (CountIteration n))) = Some ((s', m'), fs)"
        "es = cycle_notices A E d (fst (CountIteration n)) @ [CallbackCalled h (NoisyCurrents A E (fst (CountIteration n)))] @ fs"
  using assms unfolding RunOneCycle_def fst_conv snd_conv
  by (auto simp: Let_def split_def cycle_notices_def split: if_splits bind_splits option.splits)

lemma count_iteration_frame [simp]:
  "onCurrentPhasesReady (fst (CountIteration m)) = onCurrentPhasesReady m"
  "pendingDuties (fst (CountIteration m)) = pendingDuties m"
  "powerSupplyVoltage (fst (CountIteration m)) = powerSupplyVoltage m"
  "driving (fst (CountIteration m)) = driving m"
  "cycleScheduled (fst (CountIteration m)) = cycleScheduled m"
  "scheduledCycles (fst (CountIteration m)) = scheduledCycles m"
  by (simp_all add: CountIteration_def split: option.split)

lemma motor_model_frame:
  assumes "Motor_Model A E d m = Some m'"
  obtains s t where "m' = m\<lparr>windingTempCelsius := t, motorState := s\<rparr>"
  using assms by (auto simp: Motor_Model_def Let_def split: bind_splits)

text \<open>A cycle relies on its callback to leave the count of the queue intact.\<close>

locale cycle_client =
  fixes react :: "('h, 's, 'f) reaction"
  assumes react_counted: "react h c (s, m) = Some ((s', m'), es) \<Longrightarrow> queue_counted m \<Longrightarrow> queue_counted m'"
begin

lemma cycle_counted:
  assumes "RunOneCycle A E react d (s, m) = Some ((s', m'), es)" and "queue_counted m"
  shows "queue_counted m'"
  using assms
  by (elim run_one_cycle_cases motor_model_frame) (auto simp: queue_counted_def dest!: react_counted)

lemma scheduled_cycle:
  assumes "ScheduledCycle A E react (s, m) = Some ((s', m'), es)" and "well_scheduled m"
  shows "well_scheduled m'"
  using assms(1)
proof (cases rule: scheduled_cycle_cases)
  case (cycle n)
  have "queue_counted (taken m)" using assms(2) by (simp add: well_scheduled_def queue_counted_def)
  with cycle show ?thesis using cycle_counted schedule_establishes by blast
qed (use assms(2) in \<open>auto simp: well_scheduled_def queue_counted_def\<close>)

end

section \<open>The runner as the callback\<close>

lemma model_calls_runner:
  "model_calls A ([EncoderRead] @ map LoopEffect es @ [PwmOutput d]) m = (Model_ThreePhasePwmOutput d m, [])"
  by (induction es) (simp_all add: Let_def split_def)

lemma runner_react_iff:
  "runner_react A E calculate h c (s, m) = Some ((s', m'), fs) \<longleftrightarrow>
     (\<exists>d es. calculate c (fst (Model_Read A E m)) s = Some (s', d, es) \<and>
       m' = Model_ThreePhasePwmOutput d (snd (Model_Read A E m)) \<and> fs = [])"
proof (cases "calculate c (fst (Model_Read A E m)) s")
  case None
  then show ?thesis by (simp add: runner_react_def Runner_Currents_def split_def)
next
  case (Some r)
  obtain t d es where r: "r = (t, d, es)" by (cases r)
  show ?thesis unfolding runner_react_def Runner_Currents_def Let_def
    by (simp only: Some r split_def fst_conv snd_conv bind.simps model_calls_runner option.inject prod.inject) auto
qed

lemma click_steps [simp]:
  "simulator_step A E calculate enable disable StartClicked (s, m) = Some ((enable s, fst (Model_Start A m)), snd (Model_Start A m))"
  "simulator_step A E calculate enable disable StopClicked (s, m) = Some ((disable s, Model_Stop A m), [])"
  by (simp_all add: Runner_Enable_def Runner_Disable_def split_def Let_def)

declare simulator_step.simps(1,2) [simp del]

interpretation runner_client: cycle_client "runner_react A E calculate" for A E calculate
proof
  fix h c s m s' m' es
  assume "runner_react A E calculate h c (s, m) = Some ((s', m'), es)" and counted: "queue_counted m"
  then obtain d where "m' = Model_ThreePhasePwmOutput d (snd (Model_Read A E m))" by (auto simp: runner_react_iff)
  with counted show "queue_counted m'" by (auto simp: model_simps)
qed

lemma simulator_step_scheduled:
  assumes "simulator_step A E calculate enable disable ev (s, m) = Some ((s', m'), es)" and "well_scheduled m"
  shows "well_scheduled m'"
proof (cases ev)
  case EventLoop
  then show ?thesis using assms by (auto intro: runner_client.scheduled_cycle)
qed (use assms in \<open>auto simp: well_scheduled_def model_simps SetLoad_def SetAdcNoise_def SetEncoderNoise_def SetThermalConfig_def split: if_splits\<close>)

lemma simulator_run_invariant:
  assumes "simulator_run A E calculate enable disable evs (s, m) = Some ((s', m'), es)" and "I s m"
    and "\<And>ev s m s' m' es. ev \<in> set evs \<Longrightarrow> simulator_step A E calculate enable disable ev (s, m) = Some ((s', m'), es) \<Longrightarrow> I s m \<Longrightarrow> I s' m'"
  shows "I s' m'"
  using assms
proof (induction evs arbitrary: s m es)
  case (Cons ev evs)
  then obtain t n es1 fs where "simulator_step A E calculate enable disable ev (s, m) = Some ((t, n), es1)"
      "simulator_run A E calculate enable disable evs (t, n) = Some ((s', m'), fs)"
    by (auto split: bind_splits)
  with Cons show ?case by (metis list.set_intros)
qed simp

lemma simulator_new_scheduled: "well_scheduled (snd (Simulator_new A params vdc frequency limit foc))"
  by (simp add: Simulator_new_def Runner_new_def ThreePhaseMotorModel_new_def well_scheduled_def model_simps)

lemma one_cycle_scheduled:
  assumes "simulator_run A E calculate enable disable evs (Simulator_new A params vdc frequency limit foc) = Some ((s, m), es)"
  shows "well_scheduled m"
  using simulator_run_invariant [where I = "\<lambda>_. well_scheduled" and s = "fst (Simulator_new A params vdc frequency limit foc)"
      and m = "snd (Simulator_new A params vdc frequency limit foc)"] assms simulator_new_scheduled simulator_step_scheduled
  by (metis prod.collapse)

section \<open>After a stop\<close>

fun delivered :: "('h, 'f) model_effect list \<Rightarrow> 'f PhaseCurrents list" where
  "delivered [] = []"
| "delivered (CallbackCalled h c # es) = c # delivered es"
| "delivered (e # es) = delivered es"

fun applied_voltages :: "('h, 'f) model_effect list \<Rightarrow> 'f ThreePhase list" where
  "applied_voltages [] = []"
| "applied_voltages (NotifyStatorVoltages v ab # es) = v # applied_voltages es"
| "applied_voltages (e # es) = applied_voltages es"

lemma effects_append [simp]:
  "delivered (es @ fs) = delivered es @ delivered fs"
  "applied_voltages (es @ fs) = applied_voltages es @ applied_voltages fs"
  by (induction es rule: delivered.induct) simp_all

fun controller_change :: "('s \<Rightarrow> 's) \<Rightarrow> ('s \<Rightarrow> 's) \<Rightarrow> ('s, 'f) simulator_event \<Rightarrow> 's \<Rightarrow> 's" where
  "controller_change enable disable StartClicked foc = enable foc"
| "controller_change enable disable StopClicked foc = disable foc"
| "controller_change enable disable (Tune f) foc = f foc"
| "controller_change enable disable _ foc = foc"

definition disconnected :: "'f \<Rightarrow> ('h, 'f) ThreePhaseMotorModel \<Rightarrow> bool" where
  "disconnected v m \<longleftrightarrow> onCurrentPhasesReady m = None \<and> (driving m \<longrightarrow> pendingDuties m = startDuties) \<and> powerSupplyVoltage m = v"

lemma disconnected_cycle:
  assumes "ScheduledCycle A E react (s, m) = Some ((s', m'), es)" and "disconnected v m"
  shows "disconnected v m' \<and> delivered es = [] \<and> s' = s \<and> set (applied_voltages es) \<subseteq> {phaseVoltages A startDuties v}"
  using assms(1)
proof (cases rule: scheduled_cycle_cases)
  case (cycle n)
  have m: "disconnected v (taken m)" "pendingDuties m = startDuties" using assms(2) cycle by (simp_all add: disconnected_def)
  from cycle(4) m have "disconnected v n \<and> delivered es = [] \<and> s' = s \<and> set (applied_voltages es) \<subseteq> {phaseVoltages A startDuties v}"
    by (elim run_one_cycle_cases motor_model_frame) (auto simp: disconnected_def cycle_notices_def)
  then show ?thesis unfolding cycle(3) by (auto simp: ScheduleNextCycle_def disconnected_def)
qed (use assms(2) in \<open>auto simp: disconnected_def\<close>)

lemma disconnected_step:
  assumes "simulator_step A E calculate enable disable ev (s, m) = Some ((s', m'), es)" and "disconnected v m"
  shows "disconnected v m' \<and> delivered es = [] \<and> s' = controller_change enable disable ev s \<and>
    set (applied_voltages es) \<subseteq> {phaseVoltages A startDuties v}"
proof (cases ev)
  case EventLoop
  then show ?thesis using disconnected_cycle [of A E "runner_react A E calculate" s m s' m' es v] assms by auto
qed (use assms in \<open>auto simp: disconnected_def model_simps SetLoad_def SetAdcNoise_def SetEncoderNoise_def SetThermalConfig_def split: if_splits\<close>)

lemma disconnected_run:
  assumes "simulator_run A E calculate enable disable evs (s, m) = Some ((s', m'), es)" and "disconnected v m"
  shows "delivered es = [] \<and> s' = fold (controller_change enable disable) evs s \<and>
    set (applied_voltages es) \<subseteq> {phaseVoltages A startDuties v}"
  using assms
proof (induction evs arbitrary: s m es)
  case (Cons ev evs)
  then obtain t n es1 fs where step: "simulator_step A E calculate enable disable ev (s, m) = Some ((t, n), es1)"
      and rest: "simulator_run A E calculate enable disable evs (t, n) = Some ((s', m'), fs)" and es: "es = es1 @ fs"
    by (auto split: bind_splits)
  from disconnected_step [OF step Cons.prems(2)] have n: "disconnected v n" "delivered es1 = []"
      "t = controller_change enable disable ev s" "set (applied_voltages es1) \<subseteq> {phaseVoltages A startDuties v}" by auto
  with Cons.IH [OF rest n(1)] es show ?case by auto
qed simp


section \<open>The equations in exact arithmetic\<close>

definition exact_env :: "(nat \<Rightarrow> real) \<Rightarrow> (nat \<Rightarrow> real) \<Rightarrow> real model_env" where
  "exact_env current angle = \<lparr>fmodulo = (\<lambda>x y. x - y * of_int (truncate_real (x / y))), currentNoise = current, encoderNoise = angle\<rparr>"

lemma wrap_angle_bounds: "0 \<le> WrapAngle exact (exact_env cn en) x \<and> WrapAngle exact (exact_env cn en) x < 2 * pi"
proof -
  define q where "q = x / (2 * pi)"
  have x: "x = 2 * pi * q" by (simp add: q_def)
  have "\<bar>q - of_int (truncate_real q)\<bar> < 1" "0 \<le> q \<Longrightarrow> 0 \<le> q - of_int (truncate_real q)"
    by (auto simp: truncate_real_def abs_if) linarith+
  then have "\<bar>2 * pi * (q - of_int (truncate_real q))\<bar> < 2 * pi"
    by (simp add: abs_mult)
  moreover have "WrapAngle exact (exact_env cn en) x =
      (let r = 2 * pi * (q - of_int (truncate_real q)) in if r < 0 then r + 2 * pi else r)"
    by (simp add: WrapAngle_def exact_env_def two_pi_def q_def [symmetric] right_diff_distrib Let_def) (simp add: x)
  ultimately show ?thesis by (auto simp: Let_def abs_less_iff)
qed

definition wrapped :: "('h, real) ThreePhaseMotorModel \<Rightarrow> bool" where
  "wrapped m \<longleftrightarrow> 0 \<le> stateTheta (motorState m) \<and> stateTheta (motorState m) < 2 * pi \<and>
     0 \<le> thetaMech (motorState m) \<and> thetaMech (motorState m) < 2 * pi"

lemma motor_model_wrapped: "Motor_Model exact (exact_env cn en) d m = Some m' \<Longrightarrow> wrapped m'"
  using wrap_angle_bounds by (auto simp: Motor_Model_def wrapped_def Let_def split: bind_splits)

lemma motor_model_defined:
  assumes "wrapped m"
  obtains m' where "Motor_Model exact E d m = Some m'"
proof -
  have "\<bar>stateTheta (motorState m)\<bar> \<le> 26000000" using assms pi_less_4 by (simp add: wrapped_def abs_le_iff)
  then obtain s c where "Sine exact (stateTheta (motorState m)) = Some s" "Cosine exact (stateTheta (motorState m)) = Some c"
    by (rule sine_and_cosine)
  then show ?thesis by (intro that) (simp add: Motor_Model_def Let_def)
qed

section \<open>Physical ranges\<close>

text \<open>The three currents sum to zero, the angles are wrapped, the winding is not colder than its
  surroundings.\<close>

definition physical :: "('h, real) ThreePhaseMotorModel \<Rightarrow> bool" where
  "physical m \<longleftrightarrow> stateIa (motorState m) + stateIb (motorState m) + stateIc (motorState m) = 0 \<and> wrapped m \<and>
     ambientCelsius (thermalConfig m) \<le> windingTempCelsius m"

lemma inverse_transform_balanced:
  "phaseA (ClarkePark_Inverse exact i c s) + phaseB (ClarkePark_Inverse exact i c s) + phaseC (ClarkePark_Inverse exact i c s) = 0"
  by (simp add: ClarkePark_Inverse_def Clarke_Inverse_def Let_def oneHalf_def)

lemma temperature_above_ambient:
  assumes "ambientCelsius (thermalConfig m) \<le> windingTempCelsius m" "0 \<le> phaseResistance (parameters m)"
    "0 \<le> copperTempCoeff (thermalConfig m)" "0 < thermalResistance (thermalConfig m)" "0 < thermalCapacitance (thermalConfig m)"
    "0 \<le> dt" "dt \<le> thermalResistance (thermalConfig m) * thermalCapacitance (thermalConfig m)"
  shows "ambientCelsius (thermalConfig m) \<le> StepTemperature exact dt i m"
proof -
  let ?r = "thermalResistance (thermalConfig m)" and ?c = "thermalCapacitance (thermalConfig m)"
  define x where "x = windingTempCelsius m - ambientCelsius (thermalConfig m)"
  define p where "p = EffectiveResistance exact m * (phaseA i * phaseA i + phaseB i * phaseB i + phaseC i * phaseC i)"
  have "0 \<le> EffectiveResistance exact m"
    using assms(1-3) by (simp add: EffectiveResistance_def Let_def)
  then have p: "0 \<le> p" by (simp add: p_def)
  have x: "0 \<le> x" using assms(1) by (simp add: x_def)
  have "dt * (x / ?r) / ?c = x * (dt / (?r * ?c))" by simp
  also have "\<dots> \<le> x * 1" using assms(4-7) x by (intro mult_left_mono) (simp_all add: divide_le_eq)
  finally have "dt * (x / ?r) / ?c \<le> x" by simp
  moreover have "0 \<le> dt * p / ?c" using p assms(5,6) by simp
  ultimately have "0 \<le> x + dt * (p - x / ?r) / ?c"
    by (simp add: right_diff_distrib diff_divide_distrib)
  then show ?thesis by (simp add: StepTemperature_def Let_def x_def p_def)
qed

text \<open>What the equations read and write.\<close>

definition plant :: "('h, 'f) ThreePhaseMotorModel \<Rightarrow> 'f MotorParameters \<times> u32 \<times> 'f MotorState \<times> 'f ThermalConfig \<times> 'f" where
  "plant m = (parameters m, modelBaseFrequency m, motorState m, thermalConfig m, windingTempCelsius m)"

lemma plant_frame [simp]:
  "plant (fst (CountIteration m)) = plant m" "plant (ScheduleNextCycle m) = plant m"
  "plant (taken m) = plant m" "plant (sampled A E m) = plant m" "plant (m\<lparr>driving := b\<rparr>) = plant m"
  "plant (Model_ThreePhasePwmOutput d m) = plant m" "plant (snd (Model_Read A E m)) = plant m"
  by (simp_all add: plant_def CountIteration_def model_simps split: option.split)

definition simulated_plant :: "real MotorParameters \<Rightarrow> u32 \<Rightarrow> ('h, real) ThreePhaseMotorModel \<Rightarrow> bool" where
  "simulated_plant params frequency m \<longleftrightarrow> physical m \<and> parameters m = params \<and> modelBaseFrequency m = frequency \<and>
     thermalConfig m = ThermalConfig_default exact \<and>
     stateOmega (motorState m) = of_int (uint (motorPolePairs params)) * omegaMech (motorState m)"

lemma simulated_plant_cong: "plant m = plant n \<Longrightarrow> simulated_plant params frequency m = simulated_plant params frequency n"
  by (auto simp: plant_def simulated_plant_def physical_def wrapped_def)

lemma motor_model_plant:
  assumes "Motor_Model exact (exact_env cn en) d m = Some m'" and "simulated_plant params frequency m"
    and "frequency \<noteq> 0" "0 \<le> phaseResistance params"
  shows "simulated_plant params frequency m'"
proof -
  let ?dt = "1 / of_int (uint (modelBaseFrequency m)) :: real"
  from assms(2,3) have "0 < uint (modelBaseFrequency m)" by (simp add: simulated_plant_def word_neq_0_conv word_less_def)
  then have "1 \<le> (of_int (uint (modelBaseFrequency m)) :: real)" by linarith
  then have dt: "0 \<le> ?dt" "?dt \<le> 50" by (simp_all add: divide_le_eq)
  from assms(2,4) have "ambientCelsius (thermalConfig m) \<le> StepTemperature exact ?dt i m" for i
    by (intro temperature_above_ambient) (use dt in \<open>auto simp: simulated_plant_def physical_def ThermalConfig_default_def\<close>)
  then show ?thesis using assms(1,2) motor_model_wrapped [OF assms(1)] inverse_transform_balanced
    by (auto simp: Motor_Model_def simulated_plant_def physical_def Let_def split: bind_splits)
qed

lemma runner_react_plant: "runner_react A E calculate h c (s, m) = Some ((s', m'), fs) \<Longrightarrow> plant m' = plant m"
  by (auto simp: runner_react_iff)

lemma cycle_plant:
  assumes "ScheduledCycle exact (exact_env cn en) (runner_react exact (exact_env cn en) calculate) (s, m) = Some ((s', m'), es)"
    and "simulated_plant params frequency m" and "frequency \<noteq> 0" "0 \<le> phaseResistance params"
  shows "simulated_plant params frequency m'"
  using assms(1)
proof (cases rule: scheduled_cycle_cases)
  case (cycle n)
  from cycle(4) obtain k where "Motor_Model exact (exact_env cn en) (pendingDuties m) (taken m) = Some k" "plant n = plant k"
    by (elim run_one_cycle_cases) (auto dest: runner_react_plant)
  moreover from this(1) have "simulated_plant params frequency k"
    using motor_model_plant assms(2-4) simulated_plant_cong [OF plant_frame(3)] by blast
  ultimately show ?thesis using simulated_plant_cong cycle(3) plant_frame(2) by metis
qed (use assms(2) simulated_plant_cong [OF plant_frame(3)] in auto)

lemma simulator_step_plant:
  assumes "simulator_step exact (exact_env cn en) calculate enable disable ev (s, m) = Some ((s', m'), es)"
    and "simulated_plant params frequency m" and "frequency \<noteq> 0" "0 \<le> phaseResistance params" and "\<And>c. ev \<noteq> ThermalChanged c"
  shows "simulated_plant params frequency m'"
proof (cases ev)
  case EventLoop
  then show ?thesis using assms cycle_plant by auto
qed (use assms in \<open>auto simp: simulated_plant_def physical_def wrapped_def MotorState_zero_def model_simps SetLoad_def SetAdcNoise_def
    SetEncoderNoise_def split: if_splits\<close>)

text \<open>The simulated motor. In exact arithmetic, from the construction of the simulator with the
  default thermal model, whatever is clicked: the phase currents sum to zero, both angles and what the
  encoder reads stay within one turn, the electrical speed is the mechanical one times the pole pairs,
  the winding is at least at ambient temperature, so that its resistance is at least the nominal one.\<close>

lemma simulated_motor_is_physical:
  assumes "simulator_run exact (exact_env cn en) calculate enable disable evs (Simulator_new exact params vdc frequency limit foc) = Some ((s, m), es)"
    and "frequency \<noteq> 0" "0 \<le> phaseResistance params" and "\<forall>c. ThermalChanged c \<notin> set evs"
  shows "stateIa (motorState m) + stateIb (motorState m) + stateIc (motorState m) = 0 \<and>
    0 \<le> stateTheta (motorState m) \<and> stateTheta (motorState m) < 2 * pi \<and>
    0 \<le> fst (Model_Read exact (exact_env cn en) m) \<and> fst (Model_Read exact (exact_env cn en) m) < 2 * pi \<and>
    stateOmega (motorState m) = of_int (uint (motorPolePairs params)) * omegaMech (motorState m) \<and>
    25 \<le> windingTempCelsius m \<and> phaseResistance params \<le> EffectiveResistance exact m"
proof -
  have "simulated_plant params frequency (snd (Simulator_new exact params vdc frequency limit foc))"
    by (simp add: Simulator_new_def Runner_new_def ThreePhaseMotorModel_new_def simulated_plant_def physical_def wrapped_def
        MotorState_zero_def ThermalConfig_default_def model_simps)
  then have "simulated_plant params frequency m"
    using simulator_run_invariant [where I = "\<lambda>_. simulated_plant params frequency" and s = "fst (Simulator_new exact params vdc frequency limit foc)"
        and m = "snd (Simulator_new exact params vdc frequency limit foc)"] assms simulator_step_plant
    by (metis prod.collapse)
  moreover from this have "1 \<le> 1 + copperTempCoeff (thermalConfig m) * (windingTempCelsius m - ambientCelsius (thermalConfig m))"
    by (auto simp: simulated_plant_def physical_def ThermalConfig_default_def)
  from mult_left_mono [OF this assms(3)] have "phaseResistance params \<le> EffectiveResistance exact m"
    using calculation by (simp add: EffectiveResistance_def simulated_plant_def)
  ultimately show ?thesis using wrap_angle_bounds
    by (auto simp: simulated_plant_def physical_def wrapped_def ThermalConfig_default_def Model_Read_def Let_def)
qed

section \<open>The simulation goes on\<close>

text \<open>In exact arithmetic only the controller could fail: the angle of the sine table is wrapped.\<close>

lemma wrapped_cong: "plant m = plant n \<Longrightarrow> wrapped m = wrapped n"
  by (auto simp: plant_def wrapped_def)

lemma run_one_cycle:
  assumes "Motor_Model A E d m = Some n" and "CountIteration n = (n', finished)"
  shows "RunOneCycle A E react d (s, m) =
    (if finished then Some ((s, (sampled A E n')\<lparr>driving := False\<rparr>), cycle_notices A E d n' @ [NotifyFinished])
     else case onCurrentPhasesReady n' of None \<Rightarrow> Some ((s, sampled A E n'), cycle_notices A E d n')
       | Some h \<Rightarrow> react h (NoisyCurrents A E n') (s, sampled A E n') \<bind>
           (\<lambda>(sm, fs). Some (sm, cycle_notices A E d n' @ [CallbackCalled h (NoisyCurrents A E n')] @ fs)))"
  by (simp add: RunOneCycle_def assms cycle_notices_def Let_def split: option.split)

lemma cycle_defined:
  assumes "wrapped m" and "\<And>c a s. calculate c a s \<noteq> None"
  obtains s' m' es where
    "RunOneCycle exact (exact_env cn en) (runner_react exact (exact_env cn en) calculate) d (s, m) = Some ((s', m'), es)" "wrapped m'"
proof -
  let ?E = "exact_env cn en"
  obtain n where n: "Motor_Model exact ?E d m = Some n" using assms(1) by (rule motor_model_defined)
  obtain n' finished where count: "CountIteration n = (n', finished)" by fastforce
  have "wrapped n'" using motor_model_wrapped [OF n] wrapped_cong [OF plant_frame(1) [of n]] count by simp
  then have w: "plant k = plant n' \<Longrightarrow> wrapped k" for k using wrapped_cong by blast
  let ?c = "NoisyCurrents exact ?E n'" and ?n = "sampled exact ?E n'"
  obtain foc e es where "calculate ?c (fst (Model_Read exact ?E ?n)) s = Some (foc, e, es)"
    using assms(2) by (metis not_None_eq prod.collapse)
  then have react: "runner_react exact ?E calculate () ?c (s, ?n) = Some ((foc, Model_ThreePhasePwmOutput e (snd (Model_Read exact ?E ?n))), [])"
    by (simp add: runner_react_iff)
  note run = run_one_cycle [OF n count, of "runner_react exact ?E calculate" s]
  consider (over) finished | (unheard) "\<not> finished" "onCurrentPhasesReady n' = None" | (heard) "\<not> finished" "onCurrentPhasesReady n' = Some ()"
    by (cases finished; cases "onCurrentPhasesReady n'") auto
  then show ?thesis
  proof cases
    case over
    with run show ?thesis by (intro that) (simp, simp add: w)
  next
    case unheard
    with run show ?thesis by (intro that) (simp, simp add: w)
  next
    case heard
    with run show ?thesis by (intro that) (simp add: react, simp add: w)
  qed
qed

lemma simulator_run_defined:
  assumes "wrapped m" and "\<And>c a s. calculate c a s \<noteq> None"
  shows "\<exists>s' m' es. simulator_run exact (exact_env cn en) calculate enable disable evs (s, m) = Some ((s', m'), es)"
  using assms(1)
proof (induction evs arbitrary: s m)
  case (Cons ev evs)
  let ?E = "exact_env cn en"
  have "\<exists>t n es. simulator_step exact ?E calculate enable disable ev (s, m) = Some ((t, n), es) \<and> wrapped n"
  proof (cases "ev = EventLoop \<and> scheduledCycles m \<noteq> 0 \<and> driving m")
    case True
    have "wrapped (taken m)" using Cons.prems by (simp add: wrapped_def)
    then obtain t n es where "RunOneCycle exact ?E (runner_react exact ?E calculate) (pendingDuties m) (s, taken m) = Some ((t, n), es)" "wrapped n"
      using assms(2) by (rule cycle_defined)
    then show ?thesis using True wrapped_cong [OF plant_frame(2)] by (auto simp: ScheduledCycle_def Let_def)
  next
    case False
    then show ?thesis using Cons.prems
      by (cases ev) (auto simp: ScheduledCycle_def wrapped_def MotorState_zero_def model_simps SetLoad_def SetAdcNoise_def SetEncoderNoise_def SetThermalConfig_def)
  qed
  then obtain t n es where "simulator_step exact ?E calculate enable disable ev (s, m) = Some ((t, n), es)" "wrapped n" by blast
  with Cons.IH [of n t] show ?case by auto
qed simp

section \<open>A limited simulation\<close>

lemma simulator_run_append:
  "simulator_run A E calculate enable disable (evs @ evs') sm =
     simulator_run A E calculate enable disable evs sm \<bind> (\<lambda>(sm', es).
       simulator_run A E calculate enable disable evs' sm' \<bind> (\<lambda>(sm'', fs). Some (sm'', es @ fs)))"
  by (induction evs arbitrary: sm) (auto split: prod.splits bind_splits)

lemma event_loop_idle:
  "scheduledCycles m = 0 \<Longrightarrow> simulator_run A E calculate enable disable (replicate j EventLoop) (s, m) = Some ((s, m), [])"
  by (induction j) (simp_all add: ScheduledCycle_def)

definition active :: "64 word \<Rightarrow> (unit, real) ThreePhaseMotorModel \<Rightarrow> bool" where
  "active c m \<longleftrightarrow> iterationCounter m = Some c \<and> driving m \<and> well_scheduled m \<and> onCurrentPhasesReady m = Some () \<and> wrapped m"

definition at_end :: "('h, 'f) ThreePhaseMotorModel \<Rightarrow> bool" where
  "at_end m \<longleftrightarrow> \<not> running m \<and> \<not> driving m \<and> scheduledCycles m = 0"

lemma scheduled_cycle_runs:
  assumes "scheduledCycles m \<noteq> 0" "driving m" and "RunOneCycle A E react (pendingDuties m) (s, taken m) = Some ((s', n), es)"
  shows "ScheduledCycle A E react (s, m) = Some ((s', ScheduleNextCycle n), es)"
  using assms by (simp add: ScheduledCycle_def Let_def)

lemma notices_counted [simp]:
  "delivered (cycle_notices A E d m) = []" "length (applied_voltages (cycle_notices A E d m)) = 1"
  "NotifyFinished \<notin> set (cycle_notices A E d m)"
  by (simp_all add: cycle_notices_def)

lemma active_cycle:
  assumes "active c m" and "\<And>c a s. calculate c a s \<noteq> None"
  shows "\<exists>s' m' es. ScheduledCycle exact (exact_env cn en) (runner_react exact (exact_env cn en) calculate) (s, m) = Some ((s', m'), es) \<and>
    length (applied_voltages es) = 1 \<and>
    (if c = 1 then at_end m' \<and> (\<exists>fs. es = fs @ [NotifyFinished] \<and> NotifyFinished \<notin> set fs \<and> delivered fs = [])
     else active (c - 1) m' \<and> length (delivered es) = 1 \<and> NotifyFinished \<notin> set es)"
proof -
  let ?E = "exact_env cn en"
  have m: "driving m" "scheduledCycles m = 1" "cycleScheduled m" "iterationCounter m = Some c" "onCurrentPhasesReady m = Some ()"
    using assms(1) by (auto simp: active_def well_scheduled_def queue_counted_def)
  have "wrapped (taken m)" using assms(1) by (simp add: active_def wrapped_def)
  then obtain n where n: "Motor_Model exact ?E (pendingDuties m) (taken m) = Some n" by (rule motor_model_defined)
  have "wrapped n" by (rule motor_model_wrapped [OF n])
  obtain t s' where frame: "n = (taken m)\<lparr>windingTempCelsius := t, motorState := s'\<rparr>" using n by (rule motor_model_frame)
  show ?thesis
  proof (cases "c = 1")
    case True
    then have count: "CountIteration n = (n\<lparr>iterationCounter := Some 0, running := False\<rparr>, True)" by (simp add: CountIteration_def frame m)
    from scheduled_cycle_runs [where A = exact and E = ?E and react = "runner_react exact ?E calculate" and m = m and s = s,
        OF _ m(1), unfolded run_one_cycle [OF n count]]
    show ?thesis using True m(2) by (simp add: at_end_def ScheduleNextCycle_def frame)
  next
    case False
    then have count: "CountIteration n = (n\<lparr>iterationCounter := Some (c - 1)\<rparr>, False)" by (simp add: CountIteration_def frame m)
    define n' where "n' = sampled exact ?E (n\<lparr>iterationCounter := Some (c - 1)\<rparr>)"
    obtain foc d es where calc: "calculate (NoisyCurrents exact ?E (n\<lparr>iterationCounter := Some (c - 1)\<rparr>)) (fst (Model_Read exact ?E n')) s = Some (foc, d, es)"
      using assms(2) by (metis not_None_eq prod.collapse)
    then have react: "runner_react exact ?E calculate () (NoisyCurrents exact ?E (n\<lparr>iterationCounter := Some (c - 1)\<rparr>)) (s, n') =
        Some ((foc, Model_ThreePhasePwmOutput d (snd (Model_Read exact ?E n'))), [])"
      by (simp add: runner_react_iff)
    have handler: "onCurrentPhasesReady (n\<lparr>iterationCounter := Some (c - 1)\<rparr>) = Some ()" by (simp add: frame m)
    have run: "RunOneCycle exact ?E (runner_react exact ?E calculate) (pendingDuties m) (s, taken m) =
        Some ((foc, Model_ThreePhasePwmOutput d (snd (Model_Read exact ?E n'))),
          cycle_notices exact ?E (pendingDuties m) (n\<lparr>iterationCounter := Some (c - 1)\<rparr>) @
          [CallbackCalled () (NoisyCurrents exact ?E (n\<lparr>iterationCounter := Some (c - 1)\<rparr>))])"
      unfolding run_one_cycle [OF n count] handler option.case n'_def react [unfolded n'_def] by simp
    have "active (c - 1) (ScheduleNextCycle (Model_ThreePhasePwmOutput d (snd (Model_Read exact ?E n'))))"
      using \<open>wrapped n\<close> m by (simp add: n'_def frame active_def well_scheduled_def wrapped_def model_simps)
    with False m scheduled_cycle_runs [OF _ m(1) run] show ?thesis by simp
  qed
qed

lemma limited_cycles:
  assumes "active c m" "unat c = Suc k" and total: "\<And>c a s. calculate c a s \<noteq> None"
  shows "\<exists>s' m' es. simulator_run exact (exact_env cn en) calculate enable disable (replicate (Suc k) EventLoop) (s, m) = Some ((s', m'), es @ [NotifyFinished]) \<and>
    NotifyFinished \<notin> set es \<and> length (delivered es) = k \<and> length (applied_voltages es) = Suc k \<and> at_end m'"
  using assms(1,2)
proof (induction k arbitrary: c m s)
  case 0
  then have "c = 1" by (simp add: word_unat_eq_iff)
  with active_cycle [where calculate = calculate and cn = cn and en = en and s = s, OF 0(1) total] obtain s' m' fs where
    "ScheduledCycle exact (exact_env cn en) (runner_react exact (exact_env cn en) calculate) (s, m) = Some ((s', m'), fs @ [NotifyFinished])"
    "length (applied_voltages (fs @ [NotifyFinished])) = 1" "at_end m'" "NotifyFinished \<notin> set fs" "delivered fs = []" by auto
  then show ?case by (intro exI [of _ s'] exI [of _ m'] exI [of _ fs]) simp
next
  case (Suc k)
  then have "c \<noteq> 0" by auto
  with Suc.prems(2) have c: "c \<noteq> 1" "unat (c - 1) = Suc k" by (auto simp: unat_minus_one)
  with active_cycle [where calculate = calculate and cn = cn and en = en and s = s, OF Suc.prems(1) total] obtain t n es where step:
    "ScheduledCycle exact (exact_env cn en) (runner_react exact (exact_env cn en) calculate) (s, m) = Some ((t, n), es)"
    "length (applied_voltages es) = 1" "active (c - 1) n" "length (delivered es) = 1" "NotifyFinished \<notin> set es" by auto
  from Suc.IH [OF step(3) c(2), of t] obtain s' m' fs where
    "simulator_run exact (exact_env cn en) calculate enable disable (replicate (Suc k) EventLoop) (t, n) = Some ((s', m'), fs @ [NotifyFinished])"
    "NotifyFinished \<notin> set fs" "length (delivered fs) = k" "length (applied_voltages fs) = Suc k" "at_end m'" by auto
  with step show ?case unfolding replicate_Suc [of "Suc k"]
    by (intro exI [of _ s'] exI [of _ m'] exI [of _ "es @ fs"]) (simp del: replicate.simps)
qed

text \<open>Limited simulation. In exact arithmetic, a simulator built with a limit of \<open>n > 0\<close> iterations and
  a controller without failures runs, once started, exactly \<open>n\<close> cycles, reports its end once and last,
  and leaves nothing in the dispatcher, however long the event loop goes on. The controller gets
  \<open>n - 1\<close> samples: the last cycle does not call it.\<close>

lemma limited_simulation_finishes:
  assumes "0 < n" and "\<And>c a s. calculate c a s \<noteq> None"
  shows "\<exists>s m es. simulator_run exact (exact_env cn en) calculate enable disable (StartClicked # replicate (unat n + j) EventLoop)
      (Simulator_new exact params vdc frequency (Some n) foc) = Some ((s, m), es @ [NotifyFinished]) \<and>
    NotifyFinished \<notin> set es \<and> length (applied_voltages es) = unat n \<and> length (delivered es) = unat n - 1 \<and>
    \<not> running m \<and> scheduledCycles m = 0"
proof -
  obtain k where k: "unat n = Suc k" using assms(1) by (metis gr0_implies_Suc unat_gt_0 word_neq_0_conv)
  define m0 where "m0 = snd (Simulator_new exact params vdc frequency (Some n) foc :: _ \<times> (unit, real) ThreePhaseMotorModel)"
  define m1 where "m1 = fst (Model_Start exact m0)"
  have "active n m1" "snd (Model_Start exact m0) = [NotifyStarted]"
    by (simp_all add: m1_def m0_def active_def well_scheduled_def wrapped_def MotorState_zero_def Simulator_new_def Runner_new_def
        ThreePhaseMotorModel_new_def model_simps)
  moreover from limited_cycles [where calculate = calculate and s = "enable foc", OF this(1) k assms(2)] obtain s m es where
    "simulator_run exact (exact_env cn en) calculate enable disable (replicate (Suc k) EventLoop) (enable foc, m1) = Some ((s, m), es @ [NotifyFinished])"
    "NotifyFinished \<notin> set es" "length (delivered es) = k" "length (applied_voltages es) = Suc k" "at_end m" by blast
  moreover have "Simulator_new exact params vdc frequency (Some n) foc = (foc, m0)" by (simp add: m0_def Simulator_new_def Let_def)
  ultimately show ?thesis unfolding replicate_add
    by (intro exI [of _ s] exI [of _ m] exI [of _ "NotifyStarted # es"])
      (simp add: k simulator_run_append event_loop_idle at_end_def m1_def del: replicate.simps)
qed

section \<open>Instances\<close>

text \<open>A controller that counts its samples.\<close>

definition counting_controller :: "real PhaseCurrents \<Rightarrow> real \<Rightarrow> nat \<Rightarrow> (nat \<times> PhasePwmDutyCycles \<times> unit list) option" where
  "counting_controller currents position n = Some (n + 1, \<lparr>pwmA = 40, pwmB = 50, pwmC = 60\<rparr>, [])"

lemma limited_simulation_finishes_witness:
  "\<exists>s m es. simulator_run exact (exact_env (\<lambda>_. 0) (\<lambda>_. 0)) counting_controller id id (StartClicked # replicate 7 EventLoop)
      (Simulator_new exact (JK42BLS01_X038ED exact) 24 10000 (Some 5) 0) = Some ((s, m), es @ [NotifyFinished]) \<and>
    NotifyFinished \<notin> set es \<and> length (applied_voltages es) = 5 \<and> length (delivered es) = 4 \<and> \<not> running m \<and> scheduledCycles m = 0"
  using limited_simulation_finishes [where n = 5 and j = 2 and calculate = counting_controller and enable = id and disable = id and foc = 0
      and cn = "\<lambda>_. 0" and en = "\<lambda>_. 0" and params = "JK42BLS01_X038ED exact" and vdc = 24 and frequency = 10000]
  by (simp add: counting_controller_def)

lemma some_run:
  "\<exists>s m es. simulator_run exact (exact_env (\<lambda>_. 0) (\<lambda>_. 0)) counting_controller id id evs
      (Simulator_new exact (JK42BLS01_X038ED exact) 24 10000 None 0) = Some ((s, m), es)"
proof -
  have "wrapped (snd (Simulator_new exact (JK42BLS01_X038ED exact) 24 10000 None (0 :: nat)))"
    by (simp add: Simulator_new_def Runner_new_def ThreePhaseMotorModel_new_def wrapped_def MotorState_zero_def model_simps)
  then have "\<exists>s m es. simulator_run exact (exact_env (\<lambda>_. 0) (\<lambda>_. 0)) counting_controller id id evs
      (fst (Simulator_new exact (JK42BLS01_X038ED exact) 24 10000 None (0 :: nat)),
       snd (Simulator_new exact (JK42BLS01_X038ED exact) 24 10000 None (0 :: nat))) = Some ((s, m), es)"
    by (rule simulator_run_defined) (simp add: counting_controller_def)
  then show ?thesis by simp
qed

lemma simulated_motor_is_physical_witness:
  "\<exists>s m es. simulator_run exact (exact_env (\<lambda>_. 0) (\<lambda>_. 0)) counting_controller id id [StartClicked, EventLoop, EventLoop, ThermalReset]
      (Simulator_new exact (JK42BLS01_X038ED exact) 24 10000 None 0) = Some ((s, m), es) \<and>
    stateIa (motorState m) + stateIb (motorState m) + stateIc (motorState m) = 0 \<and> 25 \<le> windingTempCelsius m"
proof -
  obtain s m es where run: "simulator_run exact (exact_env (\<lambda>_. 0) (\<lambda>_. 0)) counting_controller id id [StartClicked, EventLoop, EventLoop, ThermalReset]
      (Simulator_new exact (JK42BLS01_X038ED exact) 24 10000 None 0) = Some ((s, m), es)" using some_run by blast
  then have "stateIa (motorState m) + stateIb (motorState m) + stateIc (motorState m) = 0 \<and> 25 \<le> windingTempCelsius m"
    using simulated_motor_is_physical [OF run] by (simp add: JK42BLS01_X038ED_def)
  with run show ?thesis by blast
qed


end
