(* ===== verification/Can_Adapters.thy ===== *)
theory Can_Adapters
  imports Tcp_Client
begin

text \<open>
  The CAN adapters of the commander: SocketCAN on Linux (\<open>SocketCanAdapter.cpp\<close>) and PCAN, Kvaser and
  CANable on Windows (\<open>WindowsCanAdapter.cpp\<close>). What the operating system and the drivers answer is a
  parameter of each call. A CANable adapter speaks a line protocol on a serial port.
\<close>

section \<open>Numbers in text\<close>

text \<open>\<open>std::stoi\<close>, and \<open>std::stoul\<close> in base 16 with its optional sign and prefix; \<open>unsigned long\<close> has 32 bits
  on Windows. \<open>None\<close> is an exception.\<close>

definition char_code :: "char \<Rightarrow> int" where
  "char_code c = of_char c"

definition c_space :: "int \<Rightarrow> bool" where
  "c_space b \<longleftrightarrow> b = 32 \<or> 9 \<le> b \<and> b \<le> 13"

definition std_stoi :: "string \<Rightarrow> int option" where
  "std_stoi s =
     (let s = dropWhile c_space (map char_code s);
          negative = (case s of [] \<Rightarrow> False | c # _ \<Rightarrow> c = 45);
          s = (case s of [] \<Rightarrow> [] | c # t \<Rightarrow> if c = 45 \<or> c = 43 then t else s);
          ds = takeWhile (\<lambda>c. 48 \<le> c \<and> c \<le> 57) s;
          v = foldl (\<lambda>v c. 10 * v + (c - 48)) 0 ds
      in if ds = [] then None else chk_int (if negative then - v else v))"

definition hex_value :: "u8 \<Rightarrow> nat option" where
  "hex_value b = (if 0x30 \<le> b \<and> b \<le> 0x39 then Some (unat (b - 0x30))
     else if 0x41 \<le> b \<and> b \<le> 0x46 then Some (unat (b - 0x37))
     else if 0x61 \<le> b \<and> b \<le> 0x66 then Some (unat (b - 0x57)) else None)"

abbreviation is_hex :: "u8 \<Rightarrow> bool" where
  "is_hex b \<equiv> hex_value b \<noteq> None"

definition hex_number :: "u8 list \<Rightarrow> nat" where
  "hex_number ds = foldl (\<lambda>v d. 16 * v + the (hex_value d)) 0 ds"

definition std_stoul16 :: "u8 list \<Rightarrow> u32 option" where
  "std_stoul16 s =
     (let s = dropWhile (\<lambda>b. c_space (uint b)) s;
          negative = (case s of [] \<Rightarrow> False | c # _ \<Rightarrow> c = 0x2D);
          s = (case s of [] \<Rightarrow> [] | c # t \<Rightarrow> if c = 0x2D \<or> c = 0x2B then t else s);
          s = (case s of z # x # h # t \<Rightarrow> if z = 0x30 \<and> (x = 0x78 \<or> x = 0x58) \<and> is_hex h then h # t else s | _ \<Rightarrow> s);
          ds = takeWhile is_hex s; v = hex_number ds
      in if ds = [] \<or> 2 ^ 32 \<le> v then None else Some (if negative then - word_of_nat v else word_of_nat v))"

section \<open>The line protocol\<close>

definition SlcanBitrateCode :: "u32 \<Rightarrow> char" where
  "SlcanBitrateCode rate = (if 1000000 \<le> rate then CHR ''8'' else if 800000 \<le> rate then CHR ''7'' else if 500000 \<le> rate then CHR ''6''
     else if 250000 \<le> rate then CHR ''5'' else if 125000 \<le> rate then CHR ''4'' else if 100000 \<le> rate then CHR ''3''
     else if 50000 \<le> rate then CHR ''2'' else if 20000 \<le> rate then CHR ''1'' else CHR ''0'')"

text \<open>A line without its carriage return. The outputs are only used when the answer is true.\<close>

definition ParseSlcanFrame :: "u8 list \<Rightarrow> (u32 \<times> u8 list) option" where
  "ParseSlcanFrame ln =
     (if ln = [] then None
      else if hd ln \<noteq> 0x54 \<and> hd ln \<noteq> 0x74 then None
      else (let idLen = (if hd ln = 0x54 then 8 else 3) in
        if length ln < 1 + idLen + 1 then None
        else do {
          outId \<leftarrow> std_stoul16 (take idLen (drop 1 ln));
          let dlc = ln ! (1 + idLen) - 0x30;
          if 8 < dlc then None
          else if length ln < 1 + idLen + 1 + 2 * unat dlc then None
          else do {
            outData \<leftarrow> those (map (\<lambda>i. std_stoul16 (take 2 (drop (1 + idLen + 1 + 2 * i) ln))) [0..<unat dlc]);
            Some (outId, map ucast outData) } }))"

definition hex_digit :: "nat \<Rightarrow> u8" where
  "hex_digit n = (if n < 10 then 0x30 + word_of_nat n else 0x37 + word_of_nat n)"

text \<open>\<open>%0nX\<close>.\<close>

fun hex_digits :: "nat \<Rightarrow> nat \<Rightarrow> u8 list" where
  "hex_digits 0 v = []"
| "hex_digits (Suc n) v = hex_digits n (v div 16) @ [hex_digit (v mod 16)]"

definition SlcanFrame :: "u32 \<Rightarrow> u8 list \<Rightarrow> u8 list" where
  "SlcanFrame i data = [0x54] @ hex_digits 8 (unat i) @ hex_digits 1 (min (length data) 8) @
     concat (map (\<lambda>b. hex_digits 2 (unat b)) (take 8 data)) @ [0x0D]"

text \<open>One read of the port: what is available is appended, and one line is taken.\<close>

definition ReadCanable :: "u8 list \<Rightarrow> u8 list \<Rightarrow> u8 list \<times> (u32 \<times> u8 list) option" where
  "ReadCanable chunk slcanRxBuf =
     (let buf = slcanRxBuf @ chunk; ln = takeWhile (\<lambda>b. b \<noteq> 0x0D) buf
      in if length ln = length buf then (buf, None)
         else (drop (length ln + 1) buf, ParseSlcanFrame ln))"

section \<open>The Windows adapter\<close>

datatype WindowsCanBackend = NoBackend | Pcan | Kvaser | Canable

datatype adapter_event = FrameEvent u32 "u8 list" | ErrorEvent string

record WindowsCanAdapter =
  backend :: WindowsCanBackend
  pcanDll :: bool
  pcanChannel :: u16
  kvaserDll :: bool
  kvaserHandle :: int
  comHandle :: bool
  slcanRxBuf :: "u8 list"
  receiveThread :: bool
  adapterRunning :: bool
  eventQueue :: "adapter_event list"
  frameCallback :: "callback option"

definition WindowsCanAdapter_new :: WindowsCanAdapter where
  "WindowsCanAdapter_new = \<lparr>backend = NoBackend, pcanDll = False, pcanChannel = 0, kvaserDll = False, kvaserHandle = - 1,
     comHandle = False, slcanRxBuf = [], receiveThread = False, adapterRunning = False, eventQueue = [], frameCallback = None\<rparr>"

datatype adapter_effect =
    OnFrameLog bool u32 "u8 list"
  | OnError string
  | OnConnectionChanged bool
  | SendCompleted callback bool
  | FrameReceived callback u32 "u8 list"
  | PcanInitialize u16 u16
  | PcanUninitialize u16
  | PcanWrite u16 u32 "u8 list"
  | KvaserInitialize
  | KvaserOpen int
  | KvaserSetBus int int
  | KvaserBusOn int
  | KvaserBusOff int
  | KvaserClose int
  | KvaserWrite int u32 "u8 list"
  | FreeLibrary
  | OpenPort string
  | WritePort "u8 list"
  | ClosePort
  | SocketOpened
  | SocketClosed
  | ExecCommand "u8 list list"
  | SocketWrite u32 u8 "u8 list"

text \<open>What the system answers: which libraries load, which functions they export, and the status of the calls.\<close>

record windows =
  pcanLibrary :: bool
  pcanExports :: "string \<Rightarrow> bool"
  pcanInitStatus :: u32
  pcanWriteStatus :: u32
  kvaserLibrary :: bool
  kvaserExports :: "string \<Rightarrow> bool"
  kvaserOpened :: int
  kvaserBusOnStatus :: int
  kvaserWriteStatus :: int
  portOpens :: bool
  portWrites :: bool

type_synonym connect_result = "bool \<times> WindowsCanAdapter \<times> adapter_effect list"

definition PushError :: "string \<Rightarrow> WindowsCanAdapter \<Rightarrow> WindowsCanAdapter" where
  "PushError msg a = a\<lparr>eventQueue := eventQueue a @ [ErrorEvent msg]\<rparr>"

definition PushFrame :: "u32 \<Rightarrow> u8 list \<Rightarrow> WindowsCanAdapter \<Rightarrow> WindowsCanAdapter" where
  "PushFrame i data a = a\<lparr>eventQueue := eventQueue a @ [FrameEvent i data]\<rparr>"

definition PcanChannelHandle :: "int \<Rightarrow> u16 option" where
  "PcanChannelHandle oneBasedIndex = map_option (\<lambda>n. word_of_int (n - 1)) (chk_int (0x51 + oneBasedIndex))"

definition PcanBaudrateCode :: "u32 \<Rightarrow> u16" where
  "PcanBaudrateCode bitrate = (if 1000000 \<le> bitrate then 0x0014 else if 500000 \<le> bitrate then 0x001C
     else if 250000 \<le> bitrate then 0x011C else 0x031C)"

definition KvaserBitrate :: "u32 \<Rightarrow> int" where
  "KvaserBitrate bitrate = (if 1000000 \<le> bitrate then - 1 else if 500000 \<le> bitrate then - 2
     else if 250000 \<le> bitrate then - 3 else - 4)"

definition ConnectPcan :: "windows \<Rightarrow> int \<Rightarrow> u32 \<Rightarrow> WindowsCanAdapter \<Rightarrow> connect_result option" where
  "ConnectPcan W channelIndex bitrate a =
     (if \<not> pcanLibrary W then Some (False, PushError ''PCANBasic.dll not found'' (a\<lparr>pcanDll := False\<rparr>), [])
      else if \<not> pcanExports W ''CAN_Initialize'' then
        Some (False, (PushError ''CAN_Initialize not found in PCANBasic.dll'' a)\<lparr>pcanDll := False\<rparr>, [FreeLibrary])
      else do {
        channel \<leftarrow> PcanChannelHandle channelIndex;
        let a = a\<lparr>pcanDll := True, pcanChannel := channel\<rparr>;
        let es = [PcanInitialize channel (PcanBaudrateCode bitrate)];
        if pcanInitStatus W \<noteq> 0 then Some (False, PushError ''PCAN CAN_Initialize failed'' (a\<lparr>pcanDll := False\<rparr>), es @ [FreeLibrary])
        else Some (True, a\<lparr>backend := Pcan\<rparr>, es) })"

definition ConnectKvaser :: "windows \<Rightarrow> int \<Rightarrow> u32 \<Rightarrow> WindowsCanAdapter \<Rightarrow> connect_result" where
  "ConnectKvaser W channelIndex bitrate a =
     (if \<not> kvaserLibrary W then (False, PushError ''Kvaser canlib DLL not found'' (a\<lparr>kvaserDll := False\<rparr>), [])
      else (let es = (if kvaserExports W ''canInitializeLibrary'' then [KvaserInitialize] else []) in
        if \<not> kvaserExports W ''canOpenChannel'' \<or> \<not> kvaserExports W ''canSetBusParams'' \<or> \<not> kvaserExports W ''canBusOn'' then
          (False, (PushError ''Required Kvaser functions not found'' a)\<lparr>kvaserDll := False\<rparr>, es @ [FreeLibrary])
        else (let h = kvaserOpened W; a = a\<lparr>kvaserDll := True, kvaserHandle := h\<rparr>; es = es @ [KvaserOpen channelIndex] in
          if h < 0 then (False, (PushError ''Kvaser canOpenChannel failed'' a)\<lparr>kvaserDll := False\<rparr>, es @ [FreeLibrary])
          else (let es = es @ [KvaserSetBus h (KvaserBitrate bitrate), KvaserBusOn h] in
            if kvaserBusOnStatus W \<noteq> 0 then
              (False, (PushError ''Kvaser canBusOn failed'' a)\<lparr>kvaserDll := False, kvaserHandle := - 1\<rparr>,
                es @ (if kvaserExports W ''canClose'' then [KvaserClose h] else []) @ [FreeLibrary])
            else (True, a\<lparr>backend := Kvaser\<rparr>, es)))))"

text \<open>The settings of the serial port (115200 baud, 8N1, reads that do not wait) are part of \<open>OpenPort\<close>.\<close>

definition ascii :: "string \<Rightarrow> u8 list" where
  "ascii s = map of_char s"

definition ConnectCanable :: "windows \<Rightarrow> string \<Rightarrow> u32 \<Rightarrow> WindowsCanAdapter \<Rightarrow> connect_result" where
  "ConnectCanable W p bitrate a =
     (if \<not> portOpens W then (False, PushError (''Failed to open '' @ p) (a\<lparr>comHandle := False\<rparr>), [])
      else (True, a\<lparr>comHandle := True, slcanRxBuf := [], backend := Canable\<rparr>,
        [OpenPort p, WritePort (ascii [CHR ''S'', SlcanBitrateCode bitrate] @ [0x0D]), WritePort (ascii ''O'' @ [0x0D])]))"

definition IsConnected :: "WindowsCanAdapter \<Rightarrow> bool" where
  "IsConnected a \<longleftrightarrow> backend a \<noteq> NoBackend"

definition DisconnectCurrent :: "windows \<Rightarrow> WindowsCanAdapter \<Rightarrow> WindowsCanAdapter \<times> adapter_effect list" where
  "DisconnectCurrent W a =
     (let (a, es) =
        (if backend a = Pcan \<and> pcanDll a then
           (a\<lparr>pcanDll := False, pcanChannel := 0\<rparr>,
            (if pcanExports W ''CAN_Uninitialize'' then [PcanUninitialize (pcanChannel a)] else []) @ [FreeLibrary])
         else if backend a = Kvaser \<and> kvaserDll a then
           (a\<lparr>kvaserDll := False, kvaserHandle := - 1\<rparr>,
            (if kvaserExports W ''canBusOff'' \<and> 0 \<le> kvaserHandle a then [KvaserBusOff (kvaserHandle a)] else []) @
            (if kvaserExports W ''canClose'' \<and> 0 \<le> kvaserHandle a then [KvaserClose (kvaserHandle a)] else []) @ [FreeLibrary])
         else if backend a = Canable \<and> comHandle a then
           (a\<lparr>comHandle := False, slcanRxBuf := []\<rparr>, [WritePort (ascii ''C'' @ [0x0D]), ClosePort])
         else (a, []))
      in (a\<lparr>backend := NoBackend\<rparr>, es))"

definition Disconnect :: "windows \<Rightarrow> WindowsCanAdapter \<Rightarrow> WindowsCanAdapter \<times> adapter_effect list" where
  "Disconnect W a = (let (a, es) = DisconnectCurrent W (a\<lparr>adapterRunning := False, receiveThread := False\<rparr>)
     in (a, es @ [OnConnectionChanged False]))"

text \<open>\<open>Connect\<close> throws when the number of the interface is none (\<open>Threw\<close>); a channel index that overflows
  is undefined (\<open>None\<close>).\<close>

datatype connect_outcome = Answered bool | Threw

definition StartReceiving :: "connect_result \<Rightarrow> connect_outcome \<times> WindowsCanAdapter \<times> adapter_effect list" where
  "StartReceiving r = (case r of (ok, a, es) \<Rightarrow>
     if ok then (Answered True, a\<lparr>adapterRunning := True, receiveThread := True\<rparr>, es @ [OnConnectionChanged True])
     else (Answered False, a, es))"

definition has_prefix :: "string \<Rightarrow> string \<Rightarrow> bool" where
  "has_prefix p name \<longleftrightarrow> take (length p) name = p"

definition ConnectTo :: "windows \<Rightarrow> string \<Rightarrow> u32 \<Rightarrow> WindowsCanAdapter \<Rightarrow> (connect_outcome \<times> WindowsCanAdapter \<times> adapter_effect list) option" where
  "ConnectTo W name bitrate a =
     (if has_prefix ''PCAN:'' name then
        (case std_stoi (drop 5 name) of None \<Rightarrow> Some (Threw, a, []) | Some n \<Rightarrow> map_option StartReceiving (ConnectPcan W n bitrate a))
      else if has_prefix ''Kvaser:'' name then
        (case std_stoi (drop 7 name) of None \<Rightarrow> Some (Threw, a, []) | Some n \<Rightarrow> Some (StartReceiving (ConnectKvaser W n bitrate a)))
      else if has_prefix ''CANable:'' name then Some (StartReceiving (ConnectCanable W (drop 8 name) bitrate a))
      else Some (Answered False, PushError ''Unknown interface prefix. Use PCAN:N, Kvaser:N, or CANable:COMx'' a, []))"

definition Connect :: "windows \<Rightarrow> string \<Rightarrow> u32 \<Rightarrow> WindowsCanAdapter \<Rightarrow> (connect_outcome \<times> WindowsCanAdapter \<times> adapter_effect list) option" where
  "Connect W name bitrate a =
     (let (a, es) = (if IsConnected a then Disconnect W a else (a, []))
      in map_option (\<lambda>(r, a, fs). (r, a, es @ fs)) (ConnectTo W name bitrate a))"

text \<open>Sending. The identifier must have 29 bits: the library asserts it.\<close>

definition SendPcan :: "windows \<Rightarrow> u32 \<Rightarrow> u8 list \<Rightarrow> WindowsCanAdapter \<Rightarrow> bool \<times> adapter_effect list" where
  "SendPcan W i data a = (if \<not> pcanExports W ''CAN_Write'' then (False, [])
     else (pcanWriteStatus W = 0, [PcanWrite (pcanChannel a) i (take 8 data)]))"

definition SendKvaser :: "windows \<Rightarrow> u32 \<Rightarrow> u8 list \<Rightarrow> WindowsCanAdapter \<Rightarrow> bool \<times> adapter_effect list" where
  "SendKvaser W i data a = (if \<not> kvaserExports W ''canWrite'' then (False, [])
     else (kvaserWriteStatus W = 0, [KvaserWrite (kvaserHandle a) i (take 8 data)]))"

definition SendCanable :: "windows \<Rightarrow> u32 \<Rightarrow> u8 list \<Rightarrow> WindowsCanAdapter \<Rightarrow> bool \<times> adapter_effect list" where
  "SendCanable W i data a = (if \<not> comHandle a then (False, []) else (portWrites W, [WritePort (SlcanFrame i data)]))"

definition SendData :: "windows \<Rightarrow> CanId \<Rightarrow> u8 list \<Rightarrow> callback \<Rightarrow> WindowsCanAdapter \<Rightarrow> adapter_effect list option" where
  "SendData W cid data actionOnCompletion a =
     (if \<not> IsConnected a then Some [SendCompleted actionOnCompletion False]
      else if \<not> is29BitId cid then None
      else (let rawId = idBits cid;
                (success, es) = (case backend a of Pcan \<Rightarrow> SendPcan W rawId data a | Kvaser \<Rightarrow> SendKvaser W rawId data a
                  | Canable \<Rightarrow> SendCanable W rawId data a | NoBackend \<Rightarrow> (False, []))
            in Some (es @ (if success then [OnFrameLog True rawId data] else []) @ [SendCompleted actionOnCompletion success])))"

definition ReceiveData :: "callback \<Rightarrow> WindowsCanAdapter \<Rightarrow> WindowsCanAdapter" where
  "ReceiveData receivedAction a = a\<lparr>frameCallback := Some receivedAction\<rparr>"

text \<open>One turn of the receive thread, on what the driver has.\<close>

record driver_read =
  readStatus :: int
  readId :: u32
  readLength :: u8
  readBytes :: "u8 list"
  readChunk :: "u8 list"

definition ReadPcan :: "windows \<Rightarrow> driver_read \<Rightarrow> (u32 \<times> u8 list) option" where
  "ReadPcan W r = (if \<not> pcanExports W ''CAN_Read'' \<or> readStatus r \<noteq> 0 then None
     else Some (readId r, take (min (unat (readLength r)) 8) (readBytes r)))"

definition ReadKvaser :: "windows \<Rightarrow> driver_read \<Rightarrow> (u32 \<times> u8 list) option" where
  "ReadKvaser W r = (if \<not> kvaserExports W ''canRead'' \<or> readStatus r \<noteq> 0 then None
     else Some (readId r, take (min (unat (readLength r)) 8) (readBytes r)))"

definition ReceiveTurn :: "windows \<Rightarrow> driver_read \<Rightarrow> WindowsCanAdapter \<Rightarrow> WindowsCanAdapter" where
  "ReceiveTurn W r a =
     (if \<not> adapterRunning a then a
      else (let (a, got) = (case backend a of Pcan \<Rightarrow> (a, ReadPcan W r) | Kvaser \<Rightarrow> (a, ReadKvaser W r)
              | Canable \<Rightarrow> (case ReadCanable (readChunk r) (slcanRxBuf a) of (buf, f) \<Rightarrow> (a\<lparr>slcanRxBuf := buf\<rparr>, f))
              | NoBackend \<Rightarrow> (a, None))
            in case got of None \<Rightarrow> a | Some (i, data) \<Rightarrow> PushFrame i data a))"

fun dispatch_event :: "callback option \<Rightarrow> adapter_event \<Rightarrow> adapter_effect list" where
  "dispatch_event cb (FrameEvent i data) = OnFrameLog False i data # (case cb of Some f \<Rightarrow> [FrameReceived f i data] | None \<Rightarrow> [])"
| "dispatch_event cb (ErrorEvent msg) = [OnError msg]"

definition ProcessReadEvent :: "WindowsCanAdapter \<Rightarrow> WindowsCanAdapter \<times> adapter_effect list" where
  "ProcessReadEvent a = (a\<lparr>eventQueue := []\<rparr>, concat (map (dispatch_event (frameCallback a)) (eventQueue a)))"

section \<open>Interfaces on Windows\<close>

definition PcanInterfaces :: "bool \<Rightarrow> (u16 \<Rightarrow> u32 \<times> u32) option \<Rightarrow> u8 list list" where
  "PcanInterfaces loaded getval =
     (if \<not> loaded then []
      else case getval of None \<Rightarrow> []
      | Some g \<Rightarrow> [ascii ''PCAN:'' @ decimal i. i \<leftarrow> [1..<17],
          case g (0x50 + word_of_nat i) of (status, condition) \<Rightarrow> status = 0 \<and> (condition = 1 \<or> condition = 2)])"

definition KvaserInterfaces :: "bool \<Rightarrow> (int \<times> int) option \<Rightarrow> u8 list list" where
  "KvaserInterfaces loaded getCount =
     (if \<not> loaded then []
      else case getCount of None \<Rightarrow> []
      | Some (status, n) \<Rightarrow> if status = 0 then [ascii ''Kvaser:'' @ decimal i. i \<leftarrow> [0..<nat n]] else [])"

text \<open>The names of all devices, each ended by a zero, the list by another.\<close>

function CanableInterfaces :: "u8 list \<Rightarrow> u8 list list" where
  "CanableInterfaces names =
     (if names = [] \<or> hd names = 0 then []
      else (let name = takeWhile (\<lambda>c. c \<noteq> 0) names
            in (if take 3 name = ascii ''COM'' then [ascii ''CANable:'' @ name] else []) @
               CanableInterfaces (drop (length name + 1) names)))"
  by pat_completeness auto
termination
  by (relation "measure length") auto

declare CanableInterfaces.simps [simp del]

definition AvailableInterfaces :: "bool \<Rightarrow> (u16 \<Rightarrow> u32 \<times> u32) option \<Rightarrow> bool \<Rightarrow> (int \<times> int) option \<Rightarrow> u8 list \<Rightarrow> u8 list list" where
  "AvailableInterfaces pcan getval kvaser getCount names =
     PcanInterfaces pcan getval @ KvaserInterfaces kvaser getCount @ CanableInterfaces names"

text \<open>False stands for the exception.\<close>

definition ValidateDriverAvailability :: "bool \<Rightarrow> bool \<Rightarrow> u8 list \<Rightarrow> bool" where
  "ValidateDriverAvailability hasPcan hasKvaser names \<longleftrightarrow> hasPcan \<or> hasKvaser \<or> CanableInterfaces names \<noteq> []"

section \<open>The Linux adapter\<close>

record SocketCanAdapter =
  socketDescriptor :: int
  socketCallback :: "callback option"

definition SocketCanAdapter_new :: SocketCanAdapter where
  "SocketCanAdapter_new = \<lparr>socketDescriptor = - 1, socketCallback = None\<rparr>"

record sockets =
  newSocket :: int
  interfaceFound :: bool
  bindOk :: bool
  bytesWritten :: int

definition Socket_IsConnected :: "SocketCanAdapter \<Rightarrow> bool" where
  "Socket_IsConnected a \<longleftrightarrow> 0 \<le> socketDescriptor a"

definition Socket_Disconnect :: "SocketCanAdapter \<Rightarrow> SocketCanAdapter \<times> adapter_effect list" where
  "Socket_Disconnect a = (a\<lparr>socketDescriptor := (if 0 \<le> socketDescriptor a then - 1 else socketDescriptor a)\<rparr>,
     (if 0 \<le> socketDescriptor a then [SocketClosed] else []) @ [OnConnectionChanged False])"

definition ApplyBitrate :: "u8 list \<Rightarrow> u32 \<Rightarrow> adapter_effect list" where
  "ApplyBitrate iface bitrate =
     [ExecCommand (map ascii [''ip'', ''link'', ''set''] @ [iface] @ [ascii ''down'']),
      ExecCommand (map ascii [''ip'', ''link'', ''set''] @ [iface] @ map ascii [''type'', ''can'', ''bitrate''] @ [decimal (unat bitrate)]),
      ExecCommand (map ascii [''ip'', ''link'', ''set''] @ [iface] @ [ascii ''up''])]"

definition Socket_Connect :: "sockets \<Rightarrow> u8 list \<Rightarrow> u32 \<Rightarrow> SocketCanAdapter \<Rightarrow> bool \<times> SocketCanAdapter \<times> adapter_effect list" where
  "Socket_Connect S interfaceName bitrate a =
     (let (a, es) = (if Socket_IsConnected a then Socket_Disconnect a else (a, []));
          a = a\<lparr>socketDescriptor := newSocket S\<rparr>
      in if newSocket S < 0 then (False, a, es @ [OnError ''Failed to create CAN socket''])
         else (let es = es @ [SocketOpened] @ ApplyBitrate (take 15 interfaceName) bitrate
           in if \<not> interfaceFound S then (False, a\<lparr>socketDescriptor := - 1\<rparr>, es @ [SocketClosed, OnError ''CAN interface not found''])
              else if \<not> bindOk S then (False, a\<lparr>socketDescriptor := - 1\<rparr>, es @ [SocketClosed, OnError ''Failed to bind CAN socket''])
              else (True, a, es @ [OnConnectionChanged True])))"

definition Socket_SendData :: "sockets \<Rightarrow> CanId \<Rightarrow> u8 list \<Rightarrow> callback \<Rightarrow> SocketCanAdapter \<Rightarrow> adapter_effect list option" where
  "Socket_SendData S cid data actionOnCompletion a =
     (if \<not> Socket_IsConnected a then Some [SendCompleted actionOnCompletion False]
      else if \<not> is29BitId cid then None
      else (let n = min (length data) 8; success = (bytesWritten S = 16)
            in Some ([SocketWrite (idBits cid OR 0x80000000) (word_of_nat n) (take n data @ replicate (8 - n) 0),
                 if success then OnFrameLog True (idBits cid) data else OnError ''Failed to send CAN frame'',
                 SendCompleted actionOnCompletion success])))"

definition Socket_ReceiveData :: "callback \<Rightarrow> SocketCanAdapter \<Rightarrow> SocketCanAdapter" where
  "Socket_ReceiveData receivedAction a = a\<lparr>socketCallback := Some receivedAction\<rparr>"

definition FileDescriptor :: "SocketCanAdapter \<Rightarrow> int" where
  "FileDescriptor a = socketDescriptor a"

definition Socket_ProcessReadEvent :: "int \<Rightarrow> u32 \<Rightarrow> u8 \<Rightarrow> u8 list \<Rightarrow> SocketCanAdapter \<Rightarrow> adapter_effect list" where
  "Socket_ProcessReadEvent bytesRead canId dlc bytes a =
     (if bytesRead = 16 then
        (let rawId = canId AND 0x1FFFFFFF; data = take (min (unat dlc) 8) bytes
         in OnFrameLog False rawId data # (case socketCallback a of Some f \<Rightarrow> [FrameReceived f rawId data] | None \<Rightarrow> []))
      else [])"

text \<open>The entries of \<open>/sys/class/net\<close> with the number in their \<open>type\<close> file, when it has one.\<close>

definition Socket_AvailableInterfaces :: "('n \<times> int option) list \<Rightarrow> 'n list" where
  "Socket_AvailableInterfaces entries = map fst (filter (\<lambda>e. snd e = Some 280) entries)"

definition Socket_ValidateDriverAvailability :: "int \<Rightarrow> bool \<times> adapter_effect list" where
  "Socket_ValidateDriverAvailability fd = (if fd < 0 then (False, []) else (True, [SocketClosed]))"

end
