(* ===== verification/Can_Adapters_Correct.thy ===== *)
theory Can_Adapters_Correct
  imports Can_Adapters
begin

text \<open>
  Correctness of the CAN adapters: the line protocol of CANable adapters carries frames through any
  chunking, \<open>Connect\<close> leaves nothing half open, and every send is completed once on both systems.
\<close>

section \<open>Hexadecimal text\<close>

lemma hex_digit_facts:
  assumes "n < 16"
  shows "hex_value (hex_digit n) = Some n" "\<not> c_space (uint (hex_digit n))" "hex_digit n \<notin> {0x0D, 0x2B, 0x2D, 0x58, 0x78}"
proof -
  from assms have "n = 0 \<or> n = 1 \<or> n = 2 \<or> n = 3 \<or> n = 4 \<or> n = 5 \<or> n = 6 \<or> n = 7 \<or>
      n = 8 \<or> n = 9 \<or> n = 10 \<or> n = 11 \<or> n = 12 \<or> n = 13 \<or> n = 14 \<or> n = 15" by presburger
  then have "hex_value (hex_digit n) = Some n \<and> \<not> c_space (uint (hex_digit n)) \<and> hex_digit n \<notin> {0x0D, 0x2B, 0x2D, 0x58, 0x78}"
    by (elim disjE) (simp_all add: hex_digit_def hex_value_def c_space_def)
  then show "hex_value (hex_digit n) = Some n" "\<not> c_space (uint (hex_digit n))" "hex_digit n \<notin> {0x0D, 0x2B, 0x2D, 0x58, 0x78}" by auto
qed

lemma length_hex_digits [simp]: "length (hex_digits k v) = k"
  by (induction k arbitrary: v) simp_all

lemma hex_digits_set: "d \<in> set (hex_digits k v) \<Longrightarrow> \<exists>n < 16. d = hex_digit n"
  by (induction k arbitrary: v) (auto intro: exI [of _ "v mod 16" for v])

lemma hex_number_snoc: "hex_number (ds @ [d]) = 16 * hex_number ds + the (hex_value d)"
  by (simp add: hex_number_def)

lemma hex_number_digits: "hex_number (hex_digits k v) = v mod 16 ^ k"
proof (induction k arbitrary: v)
  case (Suc k)
  have "hex_number (hex_digits (Suc k) v) = 16 * (v div 16 mod 16 ^ k) + v mod 16"
    by (simp add: hex_number_snoc Suc hex_digit_facts(1))
  then show ?case by (simp add: mod_mult2_eq)
qed (simp add: hex_number_def)

lemma stoul_hex_digits:
  assumes "k \<noteq> 0" "k \<le> 8"
  shows "std_stoul16 (hex_digits k v) = Some (word_of_nat (v mod 16 ^ k))"
proof -
  let ?ds = "hex_digits k v"
  have digit: "is_hex d \<and> \<not> c_space (uint d) \<and> d \<notin> {0x0D, 0x2B, 0x2D, 0x58, 0x78}" if "d \<in> set ?ds" for d
    using hex_digits_set [OF that] hex_digit_facts by fastforce
  obtain d ds where ds: "?ds = d # ds" using assms(1) by (cases ?ds) (auto dest: arg_cong [of _ _ length])
  have space: "dropWhile (\<lambda>b. c_space (uint b)) ?ds = ?ds" using digit [of d] ds by simp
  have all: "takeWhile is_hex ?ds = ?ds" using digit by (simp add: takeWhile_eq_all_conv)
  have "v mod 16 ^ k < 16 ^ k" by simp
  also have "(16 :: nat) ^ k \<le> 16 ^ 8" using assms(2) by (intro power_increasing) simp_all
  finally have "hex_number ?ds < 2 ^ 32" by (simp add: hex_number_digits)
  moreover have "(case ?ds of [] \<Rightarrow> False | c # _ \<Rightarrow> c = 0x2D) = False" "(case ?ds of [] \<Rightarrow> [] | c # t \<Rightarrow> if c = 0x2D \<or> c = 0x2B then t else ?ds) = ?ds"
    using digit [of d] unfolding ds by auto
  moreover have "(case ?ds of z # x # h # t \<Rightarrow> if z = 0x30 \<and> (x = 0x78 \<or> x = 0x58) \<and> is_hex h then h # t else ?ds | _ \<Rightarrow> ?ds) = ?ds"
    using digit unfolding ds by (auto split: list.split)
  moreover have "?ds \<noteq> []" by (simp add: ds)
  ultimately show ?thesis unfolding std_stoul16_def Let_def space
    by (simp only: all if_False) (simp add: hex_number_digits)
qed

section \<open>Frames\<close>

lemma those_map_Some: "(\<And>x. x \<in> set xs \<Longrightarrow> f x = Some (g x)) \<Longrightarrow> those (map f xs) = Some (map g xs)"
  by (induction xs) simp_all

lemma ucast_up_down: "ucast (ucast (b :: u8) :: u32) = b"
  by transfer (simp add: take_bit_int_eq_self)

lemma chunk_of_concat:
  assumes "\<And>x. length (f x) = k" and "i < length xs"
  shows "take k (drop (k * i) (concat (map f xs))) = f (xs ! i)"
  using assms(2)
proof (induction xs arbitrary: i)
  case (Cons x xs)
  then show ?case using assms(1) by (cases i) simp_all
qed simp

definition SlcanLine :: "u32 \<times> u8 list \<Rightarrow> u8 list" where
  "SlcanLine f = butlast (SlcanFrame (fst f) (snd f))"

lemma SlcanFrame_line: "SlcanFrame i data = SlcanLine (i, data) @ [0x0D]"
  by (simp add: SlcanLine_def SlcanFrame_def butlast_append)

lemma SlcanLine_eq: "SlcanLine (i, data) = [0x54] @ hex_digits 8 (unat i) @ hex_digits 1 (min (length data) 8) @
    concat (map (\<lambda>b. hex_digits 2 (unat b)) (take 8 data))"
  by (simp add: SlcanLine_def SlcanFrame_def butlast_append)

lemma parse_line:
  assumes "length data \<le> 8"
  shows "ParseSlcanFrame (SlcanLine (i, data)) = Some (i, data)"
proof -
  let ?ln = "SlcanLine (i, data)" and ?body = "concat (map (\<lambda>b. hex_digits 2 (unat b)) data)"
  have body: "length ?body = 2 * length data" by (induction data) simp_all
  have ln: "?ln = 0x54 # hex_digits 8 (unat i) @ [hex_digit (length data)] @ ?body"
    using assms by (simp add: SlcanLine_eq)
  have "unat i < 16 ^ 8" by (rule order_less_le_trans [OF unsigned_less]) simp
  then have ident: "std_stoul16 (take 8 (drop 1 ?ln)) = Some i" by (simp add: ln stoul_hex_digits)
  have dlc: "?ln ! 9 - 0x30 = word_of_nat (length data)" using assms by (simp add: ln nth_append hex_digit_def)
  have small: "unat (word_of_nat (length data) :: u8) = length data" using assms by (simp add: unat_of_nat)
  then have n: "\<not> 8 < (word_of_nat (length data) :: u8)" using assms by (simp add: word_less_nat_alt)
  have byte: "std_stoul16 (take 2 (drop (10 + 2 * j) ?ln)) = Some (ucast (data ! j))" if "j < length data" for j
  proof -
    have "take 2 (drop (10 + 2 * j) ?ln) = hex_digits 2 (unat (data ! j))"
      using chunk_of_concat [of "\<lambda>b. hex_digits 2 (unat b)" 2 j data] that
      by (simp add: ln drop_append [of "10 + 2 * j" "0x54 # hex_digits 8 (unat i) @ [hex_digit (length data)]", simplified])
    moreover have "unat (data ! j) < 16 ^ 2" by (rule order_less_le_trans [OF unsigned_less]) simp
    ultimately show ?thesis by (simp add: stoul_hex_digits)
  qed
  have "those (map (\<lambda>j. std_stoul16 (take 2 (drop (10 + 2 * j) ?ln))) [0..<length data]) = Some (map (\<lambda>j. ucast (data ! j)) [0..<length data])"
    by (rule those_map_Some) (use byte in auto)
  moreover have "map ucast (map (\<lambda>j. ucast (data ! j) :: u32) [0..<length data]) = data"
    by (simp add: comp_def ucast_up_down map_nth)
  ultimately show ?thesis using ident dlc n small body
    by (simp add: ParseSlcanFrame_def ln)
qed

lemma line_no_return: "0x0D \<notin> set (SlcanLine (i, data))"
  using hex_digits_set hex_digit_facts(3) by (fastforce simp: SlcanLine_eq simp del: hex_digits.simps)

section \<open>The stream\<close>

fun read_all :: "u8 list \<Rightarrow> u8 list list \<Rightarrow> (u32 \<times> u8 list) list \<times> u8 list" where
  "read_all buf [] = ([], buf)"
| "read_all buf (c # cs) =
     (let (buf, f) = ReadCanable c buf; (fs, buf) = read_all buf cs
      in ((case f of None \<Rightarrow> fs | Some x \<Rightarrow> x # fs), buf))"

definition parsed :: "u8 list list \<Rightarrow> (u32 \<times> u8 list) list" where
  "parsed ls = concat (map (\<lambda>l. case ParseSlcanFrame l of None \<Rightarrow> [] | Some f \<Rightarrow> [f]) ls)"

definition unlines :: "u8 list list \<Rightarrow> u8 list" where
  "unlines ls = concat (map (\<lambda>l. l @ [0x0D]) ls)"

lemma takeWhile_line [simp]: "x \<notin> set l \<Longrightarrow> takeWhile (\<lambda>b. b \<noteq> x) (l @ x # r) = l" "x \<notin> set l \<Longrightarrow> takeWhile (\<lambda>b. b \<noteq> x) l = l"
  by (induction l) auto

lemma read_partial: "0x0D \<notin> set (buf @ c) \<Longrightarrow> ReadCanable c buf = (buf @ c, None)"
  by (simp add: ReadCanable_def Let_def del: set_append)

lemma read_line: "buf @ c = l @ 0x0D # rest \<Longrightarrow> 0x0D \<notin> set l \<Longrightarrow> ReadCanable c buf = (rest, ParseSlcanFrame l)"
  by (simp add: ReadCanable_def Let_def)

lemma first_line:
  assumes "xs @ ys = unlines ls" "0x0D \<in> set xs" "\<forall>l \<in> set ls. 0x0D \<notin> set l"
  obtains l rest ls' where "ls = l # ls'" "xs = l @ 0x0D # rest" "rest @ ys = unlines ls'"
proof -
  from assms(1,2) obtain l ls' where ls: "ls = l # ls'" by (cases ls) (auto simp: unlines_def)
  then have eq: "xs @ ys = l @ 0x0D # unlines ls'" using assms(1) by (simp add: unlines_def)
  from assms(2) obtain as rest where xs: "xs = as @ 0x0D # rest" "0x0D \<notin> set as" by (meson split_list_first)
  have "l = takeWhile (\<lambda>b. b \<noteq> 0x0D) (xs @ ys)" using assms(3) ls by (simp add: eq)
  also have "\<dots> = as" using xs by simp
  finally show ?thesis using that [OF ls, of rest] xs eq by simp
qed

lemma read_all_lines:
  assumes "buf @ concat cs = unlines ls" "\<forall>l \<in> set ls. 0x0D \<notin> set l" "length ls \<le> n"
  shows "read_all buf (cs @ replicate n []) = (parsed ls, [])"
  using assms
proof (induction cs arbitrary: buf ls n)
  case Nil
  then show ?case
  proof (induction n arbitrary: buf ls)
    case (Suc n)
    show ?case
    proof (cases ls)
      case Nil
      then have "buf = []" using Suc.prems by (simp add: unlines_def)
      then show ?thesis using Suc.IH [of "[]" "[]"] Nil by (simp add: read_partial parsed_def unlines_def)
    next
      case (Cons l ls')
      then have "ReadCanable [] buf = (unlines ls', ParseSlcanFrame l)" using Suc.prems by (intro read_line) (auto simp: unlines_def)
      then show ?thesis using Suc.IH [of "unlines ls'" ls'] Suc.prems Cons by (simp add: parsed_def split: option.split)
    qed
  qed (simp add: parsed_def unlines_def)
next
  case (Cons c cs)
  show ?case
  proof (cases "0x0D \<in> set (buf @ c)")
    case False
    then show ?thesis using Cons.IH [of "buf @ c" ls n] Cons.prems by (simp add: read_partial)
  next
    case True
    then obtain l rest ls' where l: "ls = l # ls'" "buf @ c = l @ 0x0D # rest" "rest @ concat cs = unlines ls'"
      using Cons.prems(1,2) by (elim first_line [where xs = "buf @ c" and ys = "concat cs", rotated 1]) auto
    then have "ReadCanable c buf = (rest, ParseSlcanFrame l)" using Cons.prems(2) by (intro read_line) auto
    then show ?thesis using Cons.IH [OF l(3), of n] Cons.prems l(1) by (simp add: parsed_def split: option.split)
  qed
qed

text \<open>What arrives on the port: answers of the adapter to its own commands, and frames.\<close>

datatype port_line = Answer "u8 list" | Frame u32 "u8 list"

fun line_of :: "port_line \<Rightarrow> u8 list" where
  "line_of (Answer l) = l"
| "line_of (Frame i data) = SlcanLine (i, data)"

fun line_ok :: "port_line \<Rightarrow> bool" where
  "line_ok (Answer l) \<longleftrightarrow> 0x0D \<notin> set l \<and> ParseSlcanFrame l = None"
| "line_ok (Frame i data) \<longleftrightarrow> length data \<le> 8"

fun frames_of :: "port_line list \<Rightarrow> (u32 \<times> u8 list) list" where
  "frames_of [] = []"
| "frames_of (Answer l # ps) = frames_of ps"
| "frames_of (Frame i data # ps) = (i, data) # frames_of ps"

lemma parsed_lines: "\<forall>p \<in> set ps. line_ok p \<Longrightarrow> parsed (map line_of ps) = frames_of ps"
  by (induction ps rule: frames_of.induct) (simp_all add: parsed_def parse_line)

lemma lines_no_return: "\<forall>p \<in> set ps. line_ok p \<Longrightarrow> \<forall>l \<in> set (map line_of ps). 0x0D \<notin> set l"
  using line_no_return by (auto elim!: line_ok.elims)

text \<open>C39 (CANable stream). The frames that \<open>SendCanable\<close> writes on a port are read back in order and
  unchanged, with the answers of the adapter between them skipped, however the bytes are cut into
  reads, once there were as many further reads as lines. Nothing is left in the buffer.\<close>

theorem slcan_stream_reassembled:
  assumes "concat chunks = concat (map (\<lambda>p. case p of Answer l \<Rightarrow> l @ [0x0D] | Frame i data \<Rightarrow> SlcanFrame i data) ps)"
    and "\<forall>p \<in> set ps. line_ok p" and "length ps \<le> n"
  shows "read_all [] (chunks @ replicate n []) = (frames_of ps, [])"
proof -
  have "(case p of Answer l \<Rightarrow> l @ [0x0D] | Frame i data \<Rightarrow> SlcanFrame i data) = line_of p @ [0x0D]" for p
    by (cases p) (simp_all add: SlcanFrame_line)
  then have "[] @ concat chunks = unlines (map line_of ps)" using assms(1) by (simp add: unlines_def comp_def)
  from read_all_lines [OF this lines_no_return [OF assms(2)], of n] show ?thesis
    using assms(2,3) by (simp add: parsed_lines)
qed

theorem slcan_stream_reassembled_witness:
  "read_all [] ([[0x7A, 0x0D, 0x54], drop 1 (SlcanFrame 0x123 [0xA5, 0x0F]), SlcanFrame 7 []] @ replicate 3 []) = ([(0x123, [0xA5, 0x0F]), (7, [])], [])"
proof -
  have "ParseSlcanFrame [0x7A] = None" by (simp add: ParseSlcanFrame_def)
  then show ?thesis
    using slcan_stream_reassembled [where ps = "[Answer [0x7A], Frame 0x123 [0xA5, 0x0F], Frame 7 []]" and n = 3
        and chunks = "[[0x7A, 0x0D, 0x54], drop 1 (SlcanFrame 0x123 [0xA5, 0x0F]), SlcanFrame 7 []]"]
    by (simp add: SlcanFrame_def)
qed

text \<open>The parser is more liberal than the protocol: \<open>stoul\<close> takes a sign, so that \<open>t-010\<close> is a frame.\<close>

lemma signed_identifier_accepted: "ParseSlcanFrame [0x74, 0x2D, 0x30, 0x31, 0x30] = Some (0xFFFFFFFF, [])"
  by (simp add: ParseSlcanFrame_def std_stoul16_def hex_number_def hex_value_def c_space_def Let_def)

section \<open>Connecting\<close>

text \<open>What is open belongs to the backend in use, and the receive thread runs exactly while connected.\<close>

definition adapter_ok :: "WindowsCanAdapter \<Rightarrow> bool" where
  "adapter_ok a \<longleftrightarrow> pcanDll a = (backend a = Pcan) \<and> kvaserDll a = (backend a = Kvaser) \<and> comHandle a = (backend a = Canable) \<and>
     (backend a = Kvaser \<longrightarrow> 0 \<le> kvaserHandle a) \<and> receiveThread a = IsConnected a \<and> adapterRunning a = IsConnected a"

lemma new_adapter_ok: "adapter_ok WindowsCanAdapter_new"
  by (simp add: adapter_ok_def WindowsCanAdapter_new_def IsConnected_def)

lemma disconnect_ok:
  assumes "adapter_ok a" and "Disconnect W a = (a', es)"
  shows "adapter_ok a' \<and> \<not> IsConnected a' \<and> eventQueue a' = eventQueue a \<and> (\<exists>fs. es = fs @ [OnConnectionChanged False])"
  using assms by (cases "backend a") (auto simp: adapter_ok_def Disconnect_def DisconnectCurrent_def IsConnected_def Let_def split: if_splits)

definition nothing_open :: "WindowsCanAdapter \<Rightarrow> bool" where
  "nothing_open a \<longleftrightarrow> backend a = NoBackend \<and> \<not> pcanDll a \<and> \<not> kvaserDll a \<and> \<not> comHandle a \<and> \<not> receiveThread a \<and> \<not> adapterRunning a"

lemma nothing_open_iff: "adapter_ok a \<and> \<not> IsConnected a \<longleftrightarrow> nothing_open a"
  by (auto simp: adapter_ok_def nothing_open_def IsConnected_def)

text \<open>What every backend promises when nothing is open.\<close>

definition opened_or_clean :: "WindowsCanAdapter \<Rightarrow> WindowsCanBackend \<Rightarrow> connect_result \<Rightarrow> bool" where
  "opened_or_clean a b r \<longleftrightarrow> (case r of (ok, a', es) \<Rightarrow>
     if ok then backend a' = b \<and> eventQueue a' = eventQueue a \<and> adapter_ok (a'\<lparr>adapterRunning := True, receiveThread := True\<rparr>)
     else nothing_open a' \<and> (\<exists>msg. eventQueue a' = eventQueue a @ [ErrorEvent msg]))"

lemma connect_pcan: "nothing_open a \<Longrightarrow> ConnectPcan W n bitrate a = Some r \<Longrightarrow> opened_or_clean a Pcan r"
  by (auto simp: ConnectPcan_def nothing_open_def opened_or_clean_def adapter_ok_def IsConnected_def PushError_def Let_def split: if_splits bind_splits)

lemma connect_kvaser: "nothing_open a \<Longrightarrow> opened_or_clean a Kvaser (ConnectKvaser W n bitrate a)"
  by (auto simp: ConnectKvaser_def nothing_open_def opened_or_clean_def adapter_ok_def IsConnected_def PushError_def Let_def)

lemma connect_canable: "nothing_open a \<Longrightarrow> opened_or_clean a Canable (ConnectCanable W p bitrate a)"
  by (auto simp: ConnectCanable_def nothing_open_def opened_or_clean_def adapter_ok_def IsConnected_def PushError_def Let_def)

definition backend_named :: "string \<Rightarrow> WindowsCanBackend" where
  "backend_named name = (if has_prefix ''PCAN:'' name then Pcan else if has_prefix ''Kvaser:'' name then Kvaser
     else if has_prefix ''CANable:'' name then Canable else NoBackend)"

definition outcome_ok :: "string \<Rightarrow> WindowsCanAdapter \<Rightarrow> connect_outcome \<Rightarrow> WindowsCanAdapter \<Rightarrow> adapter_effect list \<Rightarrow> bool" where
  "outcome_ok name a r a' es \<longleftrightarrow> (case r of
       Answered True \<Rightarrow> IsConnected a' \<and> backend a' = backend_named name \<and> eventQueue a' = eventQueue a \<and> last es = OnConnectionChanged True
     | Answered False \<Rightarrow> nothing_open a' \<and> (\<exists>msg. eventQueue a' = eventQueue a @ [ErrorEvent msg])
     | Threw \<Rightarrow> nothing_open a' \<and> eventQueue a' = eventQueue a)"

lemma start_receiving:
  assumes "opened_or_clean a b r" "b = backend_named name" "b \<noteq> NoBackend" "StartReceiving r = (oc, a', es)"
  shows "adapter_ok a' \<and> outcome_ok name a oc a' es"
  using assms nothing_open_iff [of a']
  by (auto simp: opened_or_clean_def StartReceiving_def outcome_ok_def IsConnected_def split: if_splits prod.splits)

lemma connect_to:
  assumes "nothing_open a" and "ConnectTo W name bitrate a = Some (oc, a', es)"
  shows "adapter_ok a' \<and> outcome_ok name a oc a' es"
proof -
  consider (pcan) "has_prefix ''PCAN:'' name" | (kvaser) "\<not> has_prefix ''PCAN:'' name" "has_prefix ''Kvaser:'' name"
    | (canable) "\<not> has_prefix ''PCAN:'' name" "\<not> has_prefix ''Kvaser:'' name" "has_prefix ''CANable:'' name"
    | (unknown) "\<not> has_prefix ''PCAN:'' name" "\<not> has_prefix ''Kvaser:'' name" "\<not> has_prefix ''CANable:'' name" by blast
  then show ?thesis
  proof cases
    case pcan
    show ?thesis
    proof (cases "std_stoi (drop 5 name)")
      case (Some n)
      with pcan assms(2) obtain r where r: "ConnectPcan W n bitrate a = Some r" "StartReceiving r = (oc, a', es)"
        by (auto simp: ConnectTo_def)
      show ?thesis by (rule start_receiving [OF connect_pcan [OF assms(1) r(1)] _ _ r(2)]) (simp_all add: backend_named_def pcan)
    qed (use pcan assms nothing_open_iff [of a] in \<open>auto simp: ConnectTo_def outcome_ok_def\<close>)
  next
    case kvaser
    show ?thesis
    proof (cases "std_stoi (drop 7 name)")
      case (Some n)
      with kvaser assms(2) have r: "StartReceiving (ConnectKvaser W n bitrate a) = (oc, a', es)" by (simp add: ConnectTo_def)
      show ?thesis by (rule start_receiving [OF connect_kvaser [OF assms(1)] _ _ r]) (simp_all add: backend_named_def kvaser)
    qed (use kvaser assms nothing_open_iff [of a] in \<open>auto simp: ConnectTo_def outcome_ok_def\<close>)
  next
    case canable
    with assms(2) have r: "StartReceiving (ConnectCanable W (drop 8 name) bitrate a) = (oc, a', es)" by (simp add: ConnectTo_def)
    show ?thesis by (rule start_receiving [OF connect_canable [OF assms(1)] _ _ r]) (simp_all add: backend_named_def canable)
  next
    case unknown
    then show ?thesis using assms nothing_open_iff [of a']
      by (auto simp: ConnectTo_def outcome_ok_def nothing_open_def PushError_def)
  qed
qed

text \<open>Connecting. From any consistent state \<open>Connect\<close> on Windows ends in a consistent state. It
  answers true when the backend of the name's prefix is open, its thread runs and the observer knows.
  When it answers false nothing is left open and exactly one error is queued. When it throws, which
  happens for a PCAN or Kvaser name whose number is none, nothing is left open and no error is queued.\<close>

lemma windows_connect_outcome:
  assumes "adapter_ok a" and "Connect W name bitrate a = Some (r, a', es)"
  shows "adapter_ok a' \<and> (case r of
       Answered True \<Rightarrow> IsConnected a' \<and> backend a' = backend_named name \<and> eventQueue a' = eventQueue a \<and> last es = OnConnectionChanged True
     | Answered False \<Rightarrow> nothing_open a' \<and> (\<exists>msg. eventQueue a' = eventQueue a @ [ErrorEvent msg])
     | Threw \<Rightarrow> nothing_open a' \<and> eventQueue a' = eventQueue a)"
proof -
  obtain b fs where b: "(if IsConnected a then Disconnect W a else (a, [])) = (b, fs)" by fastforce
  then have free: "nothing_open b" "eventQueue b = eventQueue a"
    using disconnect_ok [OF assms(1)] nothing_open_iff [of b] assms(1) by (auto split: if_splits)
  from assms(2) b obtain gs where gs: "ConnectTo W name bitrate b = Some (r, a', gs)" "es = fs @ gs" by (auto simp: Connect_def)
  from connect_to [OF free(1) gs(1)] have ok: "adapter_ok a'" "outcome_ok name b r a' gs" by auto
  moreover have "gs \<noteq> []" if "r = Answered True" using gs(1) that
    by (auto simp: ConnectTo_def StartReceiving_def split: if_splits option.splits prod.splits)
  ultimately show ?thesis using free(2) gs(2) by (auto simp: outcome_ok_def split: connect_outcome.splits bool.splits)
qed

definition example_windows :: windows where
  "example_windows = \<lparr>pcanLibrary = True, pcanExports = (\<lambda>_. True), pcanInitStatus = 0, pcanWriteStatus = 0, kvaserLibrary = False,
     kvaserExports = (\<lambda>_. True), kvaserOpened = 0, kvaserBusOnStatus = 0, kvaserWriteStatus = 0, portOpens = False, portWrites = False\<rparr>"

definition pcan_adapter :: WindowsCanAdapter where
  "pcan_adapter = WindowsCanAdapter_new\<lparr>backend := Pcan, pcanDll := True, pcanChannel := 0x52, receiveThread := True, adapterRunning := True\<rparr>"

lemma connect_examples:
  "Connect example_windows ''PCAN:2'' 500000 WindowsCanAdapter_new = Some (Answered True, pcan_adapter, [PcanInitialize 0x52 0x1C, OnConnectionChanged True])"
  "Connect example_windows ''PCAN:'' 500000 WindowsCanAdapter_new = Some (Threw, WindowsCanAdapter_new, [])"
  by (simp_all add: Connect_def IsConnected_def WindowsCanAdapter_new_def ConnectTo_def has_prefix_def std_stoi_def char_code_def c_space_def Let_def
      ConnectPcan_def PcanChannelHandle_def chk_int_def int_min_def int_max_def PcanBaudrateCode_def StartReceiving_def example_windows_def pcan_adapter_def)

lemma windows_connect_outcome_witness:
  "\<exists>r a' es. Connect example_windows ''PCAN:'' 500000 WindowsCanAdapter_new = Some (r, a', es) \<and> r = Threw \<and> nothing_open a' \<and> eventQueue a' = []"
proof -
  have "eventQueue WindowsCanAdapter_new = []" by (simp add: WindowsCanAdapter_new_def)
  with windows_connect_outcome [OF new_adapter_ok connect_examples(2)] show ?thesis by (simp add: connect_examples(2))
qed

section \<open>Sending\<close>

fun send_completions :: "adapter_effect list \<Rightarrow> (callback \<times> bool) list" where
  "send_completions [] = []"
| "send_completions (SendCompleted cb ok # es) = (cb, ok) # send_completions es"
| "send_completions (e # es) = send_completions es"

fun transmit_logs :: "adapter_effect list \<Rightarrow> (u32 \<times> u8 list) list" where
  "transmit_logs [] = []"
| "transmit_logs (OnFrameLog True i data # es) = (i, data) # transmit_logs es"
| "transmit_logs (e # es) = transmit_logs es"

lemma completions_append [simp]: "send_completions (es @ fs) = send_completions es @ send_completions fs"
  by (induction es rule: send_completions.induct) simp_all

lemma transmit_logs_append [simp]: "transmit_logs (es @ fs) = transmit_logs es @ transmit_logs fs"
  by (induction es rule: transmit_logs.induct) simp_all

text \<open>The contract of a CAN adapter towards its client: one completion for every send, and a log of exactly
  what was sent.\<close>

locale can_adapter =
  fixes send :: "'w \<Rightarrow> CanId \<Rightarrow> u8 list \<Rightarrow> callback \<Rightarrow> 'a \<Rightarrow> adapter_effect list option"
  assumes send_defined: "is29BitId cid \<Longrightarrow> send w cid data cb a \<noteq> None"
    and send_completes: "send w cid data cb a = Some es \<Longrightarrow>
      \<exists>ok. send_completions es = [(cb, ok)] \<and> transmit_logs es = (if ok then [(idBits cid, data)] else [])"
begin

fun send_all :: "('w \<times> CanId \<times> u8 list \<times> callback \<times> 'a) list \<Rightarrow> adapter_effect list option" where
  "send_all [] = Some []"
| "send_all ((w, cid, data, cb, a) # rs) = do { es \<leftarrow> send w cid data cb a; fs \<leftarrow> send_all rs; Some (es @ fs) }"

lemma all_completed:
  assumes "send_all rs = Some es"
  shows "map fst (send_completions es) = map (\<lambda>(w, cid, data, cb, a). cb) rs \<and>
    transmit_logs es = map (\<lambda>((w, cid, data, cb, a), ok). (idBits cid, data)) (filter snd (zip rs (map snd (send_completions es))))"
  using assms
proof (induction rs arbitrary: es rule: send_all.induct)
  case (2 w cid data cb a rs)
  then obtain fs gs where fs: "send w cid data cb a = Some fs" and gs: "send_all rs = Some gs" and es: "es = fs @ gs"
    by (auto split: bind_splits)
  from send_completes [OF fs] obtain ok where "send_completions fs = [(cb, ok)]" "transmit_logs fs = (if ok then [(idBits cid, data)] else [])"
    by blast
  with "2.IH" [OF fs gs] es show ?case by simp
qed simp

end

lemma backend_effects:
  assumes "(case backend a of Pcan \<Rightarrow> SendPcan W i data a | Kvaser \<Rightarrow> SendKvaser W i data a | Canable \<Rightarrow> SendCanable W i data a
    | NoBackend \<Rightarrow> (False, [])) = (ok, es)"
  shows "send_completions es = [] \<and> transmit_logs es = [] \<and> (\<forall>msg. OnError msg \<notin> set es)"
  using assms by (auto simp: SendPcan_def SendKvaser_def SendCanable_def split: if_splits WindowsCanBackend.splits)

lemma windows_send:
  assumes "SendData W cid data cb a = Some es"
  shows "(\<exists>ok. send_completions es = [(cb, ok)] \<and> transmit_logs es = (if ok then [(idBits cid, data)] else [])) \<and> (\<forall>msg. OnError msg \<notin> set es)"
proof (cases "IsConnected a")
  case True
  obtain ok fs where b: "(case backend a of Pcan \<Rightarrow> SendPcan W (idBits cid) data a | Kvaser \<Rightarrow> SendKvaser W (idBits cid) data a
      | Canable \<Rightarrow> SendCanable W (idBits cid) data a | NoBackend \<Rightarrow> (False, [])) = (ok, fs)" by (rule prod.exhaust)
  with assms True have "es = fs @ (if ok then [OnFrameLog True (idBits cid) data] else []) @ [SendCompleted cb ok]"
    by (simp add: SendData_def Let_def split: if_splits)
  with backend_effects [OF b] show ?thesis by simp
next
  case False
  with assms have "es = [SendCompleted cb False]" by (simp add: SendData_def)
  then show ?thesis by (intro conjI exI [of _ False]) simp_all
qed

lemma socket_send:
  assumes "Socket_SendData S cid data cb s = Some es"
  shows "\<exists>ok. send_completions es = [(cb, ok)] \<and> transmit_logs es = (if ok then [(idBits cid, data)] else []) \<and>
    (Socket_IsConnected s \<and> \<not> ok \<longrightarrow> OnError ''Failed to send CAN frame'' \<in> set es)"
proof (cases "Socket_IsConnected s")
  case True
  have "is29BitId cid" using assms True by (intro ccontr [of "is29BitId cid"]) (simp add: Socket_SendData_def)
  with True have "Socket_SendData S cid data cb s = Some [SocketWrite (idBits cid OR 0x80000000) (word_of_nat (min (length data) 8)) (take (min (length data) 8) data @ replicate (8 - min (length data) 8) 0),
      if bytesWritten S = 16 then OnFrameLog True (idBits cid) data else OnError ''Failed to send CAN frame'', SendCompleted cb (bytesWritten S = 16)]"
    unfolding Socket_SendData_def Let_def by (simp only: if_False if_True not_True_eq_False)
  with assms have es: "es = [SocketWrite (idBits cid OR 0x80000000) (word_of_nat (min (length data) 8)) (take (min (length data) 8) data @ replicate (8 - min (length data) 8) 0),
      if bytesWritten S = 16 then OnFrameLog True (idBits cid) data else OnError ''Failed to send CAN frame'', SendCompleted cb (bytesWritten S = 16)]"
    by (simp only: option.inject)
  show ?thesis unfolding es by (cases "bytesWritten S = 16") (intro exI [of _ "bytesWritten S = 16"], simp)+
next
  case False
  with assms have "es = [SendCompleted cb False]" by (simp add: Socket_SendData_def)
  with False show ?thesis by (intro exI [of _ False]) simp
qed

interpretation windows_adapter: can_adapter SendData
proof
  fix cid W data cb a
  show "SendData W cid data cb a \<noteq> None" if "is29BitId cid" using that by (simp add: SendData_def split_def Let_def)
next
  fix W cid data cb a es
  assume "SendData W cid data cb a = Some es"
  then show "\<exists>ok. send_completions es = [(cb, ok)] \<and> transmit_logs es = (if ok then [(idBits cid, data)] else [])"
    by (rule windows_send [THEN conjunct1])
qed

interpretation socket_adapter: can_adapter Socket_SendData
proof
  fix cid S data cb a
  show "Socket_SendData S cid data cb a \<noteq> None" if "is29BitId cid" using that by (simp add: Socket_SendData_def Let_def)
next
  fix S cid data cb a es
  assume "Socket_SendData S cid data cb a = Some es"
  from socket_send [OF this] show "\<exists>ok. send_completions es = [(cb, ok)] \<and> transmit_logs es = (if ok then [(idBits cid, data)] else [])"
    by blast
qed

text \<open>Sends complete. On both systems every send is completed exactly once, and logged as transmitted
  exactly when its completion says so. SocketCAN reports a failed write to the observer, the Windows
  adapter does not.\<close>

lemma can_sends_complete:
  assumes "is29BitId cid"
  shows "\<exists>es ok fs ok'. SendData W cid data cb a = Some es \<and> send_completions es = [(cb, ok)] \<and> transmit_logs es = (if ok then [(idBits cid, data)] else []) \<and>
    (\<forall>msg. OnError msg \<notin> set es) \<and>
    Socket_SendData S cid data cb s = Some fs \<and> send_completions fs = [(cb, ok')] \<and> transmit_logs fs = (if ok' then [(idBits cid, data)] else []) \<and>
    (Socket_IsConnected s \<and> \<not> ok' \<longrightarrow> OnError ''Failed to send CAN frame'' \<in> set fs)"
proof -
  obtain es where es: "SendData W cid data cb a = Some es" using windows_adapter.send_defined [OF assms] by fast
  obtain fs where fs: "Socket_SendData S cid data cb s = Some fs" using socket_adapter.send_defined [OF assms] by fast
  from windows_send [OF es] socket_send [OF fs] es fs show ?thesis by metis
qed

lemma can_sends_complete_witness:
  "\<exists>es ok. SendData example_windows \<lparr>is29BitId = True, idBits = 5\<rparr> [1, 2] 9 pcan_adapter = Some es \<and> send_completions es = [(9, ok)]"
  using can_sends_complete [of "\<lparr>is29BitId = True, idBits = 5\<rparr>" example_windows "[1, 2]" 9 pcan_adapter] by fastforce

text \<open>A failed connection on Linux leaves no socket, unless the socket itself could not be created.\<close>

lemma socket_connect_outcome:
  assumes "Socket_Connect S name bitrate a = (ok, a', es)"
  shows "Socket_IsConnected a' = ok \<and> (ok \<longrightarrow> last es = OnConnectionChanged True) \<and>
    (\<not> ok \<longrightarrow> (\<exists>msg. last es = OnError msg))"
  using assms by (auto simp: Socket_Connect_def Socket_IsConnected_def Let_def split: if_splits prod.splits)

end
