(* ===== verification/Bridge_Window.thy ===== *)
theory Bridge_Window
  imports Tcp_Client Parse_IPv4
begin

text \<open>
  The hardware bridge client around its two connections: the headless program (\<open>bridge/Main.cpp\<close>), the
  controller of the window with its thread (\<open>BridgeController.cpp\<close>), the window (\<open>BridgeWindow.cpp\<close>) and
  the CAN panel (\<open>CanPanel.cpp\<close>). The two threads are interleaved event by event. The address lookup and
  the number parsers of Qt are parameters.
\<close>

section \<open>The headless client\<close>

record ConnectionTracker =
  connectedOnce :: bool
  trackerAlive :: bool

definition ConnectionTracker_new :: ConnectionTracker where
  "ConnectionTracker_new = \<lparr>connectedOnce = False, trackerAlive = False\<rparr>"

definition Tracker_Connected :: "ConnectionTracker \<Rightarrow> ConnectionTracker" where
  "Tracker_Connected t = t\<lparr>connectedOnce := True, trackerAlive := True\<rparr>"

definition Tracker_Disconnected :: "ConnectionTracker \<Rightarrow> ConnectionTracker" where
  "Tracker_Disconnected t = t\<lparr>trackerAlive := False\<rparr>"

definition Tracker_Failed :: "ConnectionTracker \<Rightarrow> bool" where
  "Tracker_Failed t \<longleftrightarrow> \<not> trackerAlive t \<and> \<not> connectedOnce t"

definition Tracker_Dropped :: "ConnectionTracker \<Rightarrow> bool" where
  "Tracker_Dropped t \<longleftrightarrow> connectedOnce t \<and> \<not> trackerAlive t"

datatype network_event = CanUp | CanDown | SerialUp | SerialDown

fun track :: "network_event \<Rightarrow> ConnectionTracker \<times> ConnectionTracker \<Rightarrow> ConnectionTracker \<times> ConnectionTracker" where
  "track CanUp (can, serial) = (Tracker_Connected can, serial)"
| "track CanDown (can, serial) = (Tracker_Disconnected can, serial)"
| "track SerialUp (can, serial) = (can, Tracker_Connected serial)"
| "track SerialDown (can, serial) = (can, Tracker_Disconnected serial)"

definition bridge_stops :: "ConnectionTracker \<times> ConnectionTracker \<Rightarrow> bool" where
  "bridge_stops ts \<longleftrightarrow> Tracker_Failed (fst ts) \<or> Tracker_Failed (snd ts) \<or> Tracker_Dropped (fst ts) \<or> Tracker_Dropped (snd ts)"

text \<open>\<open>ExecuteUntil\<close> handles events as long as its predicate is false; it waits when there are none.\<close>

fun execute_until :: "network_event list \<Rightarrow> ConnectionTracker \<times> ConnectionTracker \<Rightarrow> (ConnectionTracker \<times> ConnectionTracker) option" where
  "execute_until evs ts = (if bridge_stops ts then Some ts else case evs of [] \<Rightarrow> None | ev # evs' \<Rightarrow> execute_until evs' (track ev ts))"

declare execute_until.simps [simp del]

datatype arguments = HelpRequested | BadArguments | Arguments "u8 list" int int

datatype exit = ExitCode int | Waiting | Undefined

definition bridge_main :: "arguments \<Rightarrow> network_event list \<Rightarrow> exit" where
  "bridge_main args evs = (case args of
       HelpRequested \<Rightarrow> ExitCode 0
     | BadArguments \<Rightarrow> ExitCode 1
     | Arguments host canPort serialPort \<Rightarrow>
         if canPort \<le> 0 \<or> 65535 < canPort then ExitCode 1
         else if serialPort \<le> 0 \<or> 65535 < serialPort then ExitCode 1
         else (case ParseIPv4 host of
             None \<Rightarrow> Undefined
           | Some (Inl e) \<Rightarrow> ExitCode 1
           | Some (Inr ipv4) \<Rightarrow> (case execute_until evs (ConnectionTracker_new, ConnectionTracker_new) of
                 None \<Rightarrow> Waiting
               | Some (can, serial) \<Rightarrow>
                   if (Tracker_Failed can \<or> Tracker_Dropped can) \<or> (Tracker_Failed serial \<or> Tracker_Dropped serial)
                   then ExitCode 1 else ExitCode 0)))"

definition default_host :: "u8 list" where
  "default_host = map of_char ''host.docker.internal''"

section \<open>The controller\<close>

text \<open>\<open>ResolveToIPv4\<close>: the host as an address, else the first IPv4 address of a successful lookup. \<open>None\<close> is
  the exception.\<close>

definition ResolveToIPv4 :: "u8 list option \<Rightarrow> bool \<Rightarrow> (bool \<times> u8 list) list \<Rightarrow> u8 list option" where
  "ResolveToIPv4 directAddress lookupOk addresses =
     (case directAddress of
        Some a \<Rightarrow> Some a
      | None \<Rightarrow> if lookupOk then map_option snd (List.find fst addresses) else None)"

datatype infra_thread = NoThread | Resolving | Serving | Ended

datatype bridge_action = SendPendingSerial | SendPendingCan

datatype bridge_signal =
    SerialConnected | SerialDisconnected | SerialDataReceived "u8 list"
  | CanConnected | CanDisconnected | CanFrameReceived u32 bool "u8 list"
  | ConnectionError

datatype bridge_send = SerialSent "u8 list" | CanSent CanId "u8 list"

text \<open>\<open>guiQueue\<close> holds the signals that wait in the event queue of the window; \<open>infraQueue\<close> the actions in
  the dispatcher of the thread. The network owns the dispatcher.\<close>

record BridgeController =
  infraThread :: infra_thread
  stopRequested :: bool
  clientsUp :: bool
  pendingSerialSend :: "u8 list"
  pendingCanSend :: "(CanId \<times> u8 list) option"
  infraQueue :: "bridge_action list"
  guiQueue :: "bridge_signal list"

definition BridgeController_new :: BridgeController where
  "BridgeController_new = \<lparr>infraThread = NoThread, stopRequested = False, clientsUp = False, pendingSerialSend = [],
     pendingCanSend = None, infraQueue = [], guiQueue = []\<rparr>"

definition Bridge_Connect :: "BridgeController \<Rightarrow> BridgeController" where
  "Bridge_Connect c = (if infraThread c \<noteq> NoThread then c else c\<lparr>stopRequested := False, infraThread := Resolving\<rparr>)"

definition queue_signal :: "bridge_signal \<Rightarrow> BridgeController \<Rightarrow> BridgeController" where
  "queue_signal s c = c\<lparr>guiQueue := guiQueue c @ [s]\<rparr>"

text \<open>The end of the thread: observers, clients and network are destroyed.\<close>

definition thread_cleanup :: "BridgeController \<Rightarrow> BridgeController" where
  "thread_cleanup c = c\<lparr>infraThread := Ended, clientsUp := False, infraQueue := []\<rparr>"

text \<open>The thread up to its event loop. \<open>None\<close> is undefined behaviour of the address parser.\<close>

definition thread_start :: "u8 list option \<Rightarrow> bool \<Rightarrow> (bool \<times> u8 list) list \<Rightarrow> BridgeController \<Rightarrow> BridgeController option" where
  "thread_start directAddress lookupOk addresses c =
     (if infraThread c \<noteq> Resolving then Some c
      else case ResolveToIPv4 directAddress lookupOk addresses of
          None \<Rightarrow> Some (thread_cleanup (queue_signal ConnectionError c))
        | Some a \<Rightarrow> (case ParseIPv4 a of
              None \<Rightarrow> None
            | Some (Inl e) \<Rightarrow> Some (thread_cleanup (queue_signal ConnectionError c))
            | Some (Inr ip) \<Rightarrow> Some (c\<lparr>infraThread := Serving, clientsUp := True\<rparr>)))"

text \<open>The event loop: it leaves when a stop is requested, else it runs the first action.\<close>

text \<open>A moved-from \<open>std::string\<close> is empty. A moved-from \<open>std::optional\<close> still has its value, itself moved from:
  \<open>moved\<close> is what the move leaves of a message.\<close>

fun run_action :: "(u8 list \<Rightarrow> u8 list) \<Rightarrow> bridge_action \<Rightarrow> BridgeController \<Rightarrow> BridgeController \<times> bridge_send list" where
  "run_action moved SendPendingSerial c =
     (let toSend = pendingSerialSend c
      in (c\<lparr>pendingSerialSend := []\<rparr>, if clientsUp c \<and> toSend \<noteq> [] then [SerialSent toSend] else []))"
| "run_action moved SendPendingCan c =
     (case pendingCanSend c of
        None \<Rightarrow> (c, [])
      | Some (i, msg) \<Rightarrow> (c\<lparr>pendingCanSend := Some (i, moved msg)\<rparr>, if clientsUp c then [CanSent i msg] else []))"

definition thread_turn :: "(u8 list \<Rightarrow> u8 list) \<Rightarrow> BridgeController \<Rightarrow> BridgeController \<times> bridge_send list" where
  "thread_turn moved c =
     (if infraThread c \<noteq> Serving then (c, [])
      else if stopRequested c then (thread_cleanup c, [])
      else case infraQueue c of [] \<Rightarrow> (c, []) | a # as \<Rightarrow> run_action moved a (c\<lparr>infraQueue := as\<rparr>))"

text \<open>\<open>Disconnect\<close> waits for the thread; one that still resolves the address finishes that first.\<close>

type_synonym lookup = "u8 list option \<times> bool \<times> (bool \<times> u8 list) list"

definition Bridge_Disconnect :: "lookup \<Rightarrow> BridgeController \<Rightarrow> BridgeController option" where
  "Bridge_Disconnect l c = do {
     c \<leftarrow> thread_start (fst l) (fst (snd l)) (snd (snd l)) (c\<lparr>stopRequested := True\<rparr>);
     let c = (if infraThread c = Serving then thread_cleanup c else c);
     Some (c\<lparr>infraThread := NoThread, stopRequested := False\<rparr>) }"

definition SendSerial :: "u8 list \<Rightarrow> BridgeController \<Rightarrow> BridgeController" where
  "SendSerial data c = (if \<not> clientsUp c then c
     else c\<lparr>pendingSerialSend := data, infraQueue := infraQueue c @ [SendPendingSerial]\<rparr>)"

definition SendCan :: "u32 \<Rightarrow> bool \<Rightarrow> u8 list \<Rightarrow> BridgeController \<Rightarrow> BridgeController" where
  "SendCan i extended data c = (if \<not> clientsUp c then c
     else c\<lparr>pendingCanSend := Some (\<lparr>is29BitId = extended, idBits = i\<rparr>, take 8 data),
            infraQueue := infraQueue c @ [SendPendingCan]\<rparr>)"

text \<open>What the clients report while the thread serves.\<close>

fun client_signal :: "bridge_signal \<Rightarrow> BridgeController \<Rightarrow> BridgeController" where
  "client_signal ConnectionError c = c"
| "client_signal s c = (if infraThread c = Serving then queue_signal s c else c)"

section \<open>The window\<close>

datatype connection_status = ConnectedBoth | PartiallyConnected bool | DisconnectedStatus

record BridgeWindow =
  connectEnabled :: bool
  disconnectEnabled :: bool
  inputsEnabled :: bool
  serialConnected :: bool
  canConnected :: bool
  serialPanelEnabled :: bool
  canPanelEnabled :: bool
  statusLabel :: connection_status
  portWarnings :: nat
  errorWarnings :: nat

definition BridgeWindow_new :: BridgeWindow where
  "BridgeWindow_new = \<lparr>connectEnabled = True, disconnectEnabled = False, inputsEnabled = True, serialConnected = False, canConnected = False,
     serialPanelEnabled = False, canPanelEnabled = False, statusLabel = DisconnectedStatus, portWarnings = 0, errorWarnings = 0\<rparr>"

definition UpdateConnectionStatus :: "BridgeWindow \<Rightarrow> BridgeWindow" where
  "UpdateConnectionStatus w = w\<lparr>statusLabel :=
     (if serialConnected w \<and> canConnected w then ConnectedBoth
      else if serialConnected w \<or> canConnected w then PartiallyConnected (serialConnected w) else DisconnectedStatus)\<rparr>"

text \<open>The ports are the parsed texts.\<close>

definition OnConnectClicked :: "int option \<Rightarrow> int option \<Rightarrow> BridgeWindow \<times> BridgeController \<Rightarrow> BridgeWindow \<times> BridgeController" where
  "OnConnectClicked serialPort canPort wc =
     (case (serialPort, canPort) of
        (Some s, Some p) \<Rightarrow>
          if s \<le> 0 \<or> 65535 < s \<or> p \<le> 0 \<or> 65535 < p then ((fst wc)\<lparr>portWarnings := portWarnings (fst wc) + 1\<rparr>, snd wc)
          else ((fst wc)\<lparr>connectEnabled := False, disconnectEnabled := True, inputsEnabled := False\<rparr>, Bridge_Connect (snd wc))
      | _ \<Rightarrow> ((fst wc)\<lparr>portWarnings := portWarnings (fst wc) + 1\<rparr>, snd wc))"

definition OnDisconnectClicked :: "lookup \<Rightarrow> BridgeWindow \<times> BridgeController \<Rightarrow> (BridgeWindow \<times> BridgeController) option" where
  "OnDisconnectClicked l wc = map_option (\<lambda>c.
     (UpdateConnectionStatus ((fst wc)\<lparr>serialConnected := False, canConnected := False, serialPanelEnabled := False, canPanelEnabled := False,
        connectEnabled := True, disconnectEnabled := False, inputsEnabled := True\<rparr>), c)) (Bridge_Disconnect l (snd wc))"

definition OnSerialConnected :: "BridgeWindow \<Rightarrow> BridgeWindow" where
  "OnSerialConnected w = UpdateConnectionStatus (w\<lparr>serialConnected := True, serialPanelEnabled := True\<rparr>)"

definition OnSerialDisconnected :: "BridgeWindow \<Rightarrow> BridgeWindow" where
  "OnSerialDisconnected w = UpdateConnectionStatus (w\<lparr>serialConnected := False, serialPanelEnabled := False\<rparr>)"

definition OnCanConnected :: "BridgeWindow \<Rightarrow> BridgeWindow" where
  "OnCanConnected w = UpdateConnectionStatus (w\<lparr>canConnected := True, canPanelEnabled := True\<rparr>)"

definition OnCanDisconnected :: "BridgeWindow \<Rightarrow> BridgeWindow" where
  "OnCanDisconnected w = UpdateConnectionStatus (w\<lparr>canConnected := False, canPanelEnabled := False\<rparr>)"

definition OnConnectionError :: "lookup \<Rightarrow> BridgeWindow \<times> BridgeController \<Rightarrow> (BridgeWindow \<times> BridgeController) option" where
  "OnConnectionError l wc = OnDisconnectClicked l ((fst wc)\<lparr>errorWarnings := errorWarnings (fst wc) + 1\<rparr>, snd wc)"

text \<open>The data signals go to the panels.\<close>

fun on_signal :: "lookup \<Rightarrow> bridge_signal \<Rightarrow> BridgeWindow \<times> BridgeController \<Rightarrow> (BridgeWindow \<times> BridgeController) option" where
  "on_signal l SerialConnected (w, c) = Some (OnSerialConnected w, c)"
| "on_signal l SerialDisconnected (w, c) = Some (OnSerialDisconnected w, c)"
| "on_signal l CanConnected (w, c) = Some (OnCanConnected w, c)"
| "on_signal l CanDisconnected (w, c) = Some (OnCanDisconnected w, c)"
| "on_signal l ConnectionError (w, c) = OnConnectionError l (w, c)"
| "on_signal l (SerialDataReceived data) (w, c) = Some (w, c)"
| "on_signal l (CanFrameReceived i extended data) (w, c) = Some (w, c)"

section \<open>The CAN panel\<close>

text \<open>The identifier and each data byte are parsed by Qt, \<open>None\<close> for a failure; the first is \<open>None\<close> for an
  empty text.\<close>

datatype panel_result = PanelWarning | SendRequested u32 bool "u8 list"

fun panel_bytes :: "nat option list \<Rightarrow> u8 list option" where
  "panel_bytes [] = Some []"
| "panel_bytes (None # ts) = None"
| "panel_bytes (Some v # ts) = (if 255 < v then None else map_option ((#) (word_of_nat v)) (panel_bytes ts))"

definition OnSendClicked :: "nat option option \<Rightarrow> nat option list \<Rightarrow> panel_result" where
  "OnSendClicked idText tokens =
     (case idText of
        None \<Rightarrow> PanelWarning
      | Some None \<Rightarrow> PanelWarning
      | Some (Some v) \<Rightarrow>
          if 0x1FFFFFFF < v then PanelWarning
          else (let i = word_of_nat v :: u32; extended = (0x7FF < i)
                in case panel_bytes tokens of
                     None \<Rightarrow> PanelWarning
                   | Some payload \<Rightarrow> if 8 < length payload then PanelWarning else SendRequested i extended payload))"

section \<open>Both threads\<close>

datatype bridge_event =
    ConnectClicked "int option" "int option"
  | DisconnectClicked lookup
  | SerialTyped "u8 list"
  | CanSendClicked "nat option option" "nat option list"
  | DeliverSignal lookup
  | ThreadStarts lookup
  | ThreadTurn
  | ClientReports bridge_signal

text \<open>A click on a disabled button and input to a disabled panel do nothing.\<close>

fun bridge_step ::
    "(u8 list \<Rightarrow> u8 list) \<Rightarrow> bridge_event \<Rightarrow> BridgeWindow \<times> BridgeController \<Rightarrow> ((BridgeWindow \<times> BridgeController) \<times> bridge_send list) option" where
  "bridge_step moved (ConnectClicked s p) (w, c) = Some (if connectEnabled w then OnConnectClicked s p (w, c) else (w, c), [])"
| "bridge_step moved (DisconnectClicked l) (w, c) = map_option (\<lambda>wc. (wc, [])) (if disconnectEnabled w then OnDisconnectClicked l (w, c) else Some (w, c))"
| "bridge_step moved (SerialTyped data) (w, c) = Some ((w, if serialPanelEnabled w then SendSerial data c else c), [])"
| "bridge_step moved (CanSendClicked i ts) (w, c) = Some ((w, if canPanelEnabled w then
     (case OnSendClicked i ts of SendRequested i extended data \<Rightarrow> SendCan i extended data c | PanelWarning \<Rightarrow> c) else c), [])"
| "bridge_step moved (DeliverSignal l) (w, c) = map_option (\<lambda>wc. (wc, []))
     (case guiQueue c of [] \<Rightarrow> Some (w, c) | s # ss \<Rightarrow> on_signal l s (w, c\<lparr>guiQueue := ss\<rparr>))"
| "bridge_step moved (ThreadStarts l) (w, c) = map_option (\<lambda>c. ((w, c), [])) (thread_start (fst l) (fst (snd l)) (snd (snd l)) c)"
| "bridge_step moved ThreadTurn (w, c) = (let (c, es) = thread_turn moved c in Some ((w, c), es))"
| "bridge_step moved (ClientReports s) (w, c) = Some ((w, client_signal s c), [])"

fun bridge_run ::
    "(u8 list \<Rightarrow> u8 list) \<Rightarrow> bridge_event list \<Rightarrow> BridgeWindow \<times> BridgeController \<Rightarrow> ((BridgeWindow \<times> BridgeController) \<times> bridge_send list) option" where
  "bridge_run moved [] wc = Some (wc, [])"
| "bridge_run moved (ev # evs) wc = do {
     (wc, es) \<leftarrow> bridge_step moved ev wc;
     (wc, fs) \<leftarrow> bridge_run moved evs wc;
     Some (wc, es @ fs) }"

section \<open>Properties\<close>

lemma default_host_is_no_address: "ParseIPv4 default_host = Some (Inl (BridgeArgumentException default_host))"
proof -
  have "scan_octets (Suc 3) (0x68 # t) = Some None" for t
    by (simp only: scan_octets.simps) (simp add: scan_unsigned_def is_space_def is_digit_def)
  then have octets: "scan_octets 4 (0x68 # t) = Some None" for t by simp
  obtain t where "takeWhile (\<lambda>b. b \<noteq> 0) default_host = 0x68 # t" by (simp add: default_host_def)
  then show ?thesis by (simp add: ParseIPv4_def octets)
qed

text \<open>Headless bridge. Whatever the network does, the headless client ends with exit code 1 before it
  handles a single event, unless it printed its help: its stop condition takes a connection that has not
  been made yet for one that failed.\<close>

lemma headless_bridge_never_serves:
  assumes "bridge_main args evs \<noteq> Undefined"
  shows "bridge_main args evs = ExitCode (if args = HelpRequested then 0 else 1) \<and> bridge_main args evs = bridge_main args []"
proof -
  have "execute_until es (ConnectionTracker_new, ConnectionTracker_new) = Some (ConnectionTracker_new, ConnectionTracker_new)" for es
    by (subst execute_until.simps) (simp add: bridge_stops_def Tracker_Failed_def ConnectionTracker_new_def)
  then show ?thesis using assms
    by (cases args) (auto simp: bridge_main_def Tracker_Failed_def ConnectionTracker_new_def split: option.splits sum.splits if_splits)
qed

lemma headless_bridge_never_serves_witness:
  "bridge_main (Arguments default_host 5001 5000) [CanUp, SerialUp] = ExitCode 1"
  using headless_bridge_never_serves [of "Arguments default_host 5001 5000" "[CanUp, SerialUp]"]
  by (simp add: bridge_main_def default_host_is_no_address)

subsection \<open>Bursts of sends\<close>

definition serving :: "BridgeController \<Rightarrow> bool" where
  "serving c \<longleftrightarrow> infraThread c = Serving \<and> \<not> stopRequested c \<and> clientsUp c"

fun turns :: "(u8 list \<Rightarrow> u8 list) \<Rightarrow> nat \<Rightarrow> BridgeController \<Rightarrow> BridgeController \<times> bridge_send list" where
  "turns moved 0 c = (c, [])"
| "turns moved (Suc n) c = (let (c, es) = thread_turn moved c; (c, fs) = turns moved n c in (c, es @ fs))"

lemma send_serial_serving: "serving c \<Longrightarrow> serving (SendSerial d c)"
  by (simp add: serving_def SendSerial_def)

lemma sends_serial:
  assumes "serving c" "ds \<noteq> []"
  shows "fold SendSerial ds c = c\<lparr>pendingSerialSend := last ds, infraQueue := infraQueue c @ replicate (length ds) SendPendingSerial\<rparr>"
  using assms
proof (induction ds arbitrary: c)
  case (Cons d ds)
  then show ?case using send_serial_serving [of c d] by (cases "ds = []") (simp_all add: SendSerial_def serving_def replicate_append_same)
qed simp

lemma sends_can:
  assumes "serving c" "fs \<noteq> []"
  shows "fold (\<lambda>(i, extended, data). SendCan i extended data) fs c =
    c\<lparr>pendingCanSend := (case last fs of (i, extended, data) \<Rightarrow> Some (\<lparr>is29BitId = extended, idBits = i\<rparr>, take 8 data)),
      infraQueue := infraQueue c @ replicate (length fs) SendPendingCan\<rparr>"
  using assms
proof (induction fs arbitrary: c)
  case (Cons f fs)
  then show ?case by (cases f; cases "fs = []") (simp_all add: SendCan_def serving_def replicate_append_same)
qed simp

lemma serial_turns_idle:
  assumes "serving c" "pendingSerialSend c = []" "infraQueue c = replicate n SendPendingSerial"
  shows "snd (turns moved n c) = []"
  using assms by (induction n arbitrary: c) (auto simp: thread_turn_def serving_def Let_def split_def)

lemma serial_turns:
  assumes "serving c" "infraQueue c = replicate (Suc n) SendPendingSerial" "pendingSerialSend c \<noteq> []"
  shows "snd (turns moved (Suc n) c) = [SerialSent (pendingSerialSend c)]"
  using assms serial_turns_idle [of "c\<lparr>infraQueue := replicate n SendPendingSerial, pendingSerialSend := []\<rparr>" n moved]
  by (simp add: thread_turn_def serving_def Let_def split_def)

lemma can_turns:
  assumes "serving c" "infraQueue c = replicate n SendPendingCan" "pendingCanSend c = Some (i, msg)"
  shows "snd (turns moved n c) = map (\<lambda>k. CanSent i ((moved ^^ k) msg)) [0..<n]"
  using assms
proof (induction n arbitrary: c msg)
  case (Suc n)
  have "snd (turns moved n (c\<lparr>infraQueue := replicate n SendPendingCan, pendingCanSend := Some (i, moved msg)\<rparr>)) =
      map (\<lambda>k. CanSent i ((moved ^^ k) (moved msg))) [0..<n]"
    using Suc.prems by (intro Suc.IH) (simp_all add: serving_def)
  moreover have "map (\<lambda>k. CanSent i ((moved ^^ k) msg)) [0..<Suc n] = CanSent i msg # map (\<lambda>k. CanSent i ((moved ^^ k) (moved msg))) [0..<n]"
    by (simp only: upt_conv_Cons zero_less_Suc list.map map_Suc_upt [symmetric] map_map)
      (simp add: funpow_swap1)
  ultimately show ?case using Suc.prems by (simp add: thread_turn_def serving_def Let_def split_def)
qed simp

text \<open>Bursts. Sends that the window makes before the thread turns share one mailbox. Of a burst of serial
  sends only the last is written, once. Of a burst of CAN sends only the last is written, and as many
  times as there were sends: the moved-from optional is still full.\<close>

lemma bridge_bursts:
  assumes "serving c" "infraQueue c = []"
  shows "(ds \<noteq> [] \<and> last ds \<noteq> [] \<longrightarrow> snd (turns moved (length ds) (fold SendSerial ds c)) = [SerialSent (last ds)]) \<and>
    (fs \<noteq> [] \<longrightarrow> snd (turns moved (length fs) (fold (\<lambda>(i, extended, data). SendCan i extended data) fs c)) =
      (case last fs of (i, extended, data) \<Rightarrow> map (\<lambda>k. CanSent \<lparr>is29BitId = extended, idBits = i\<rparr> ((moved ^^ k) (take 8 data))) [0..<length fs]))"
proof (intro conjI impI)
  assume "ds \<noteq> [] \<and> last ds \<noteq> []"
  then obtain n where "length ds = Suc n" by (cases ds) auto
  with \<open>ds \<noteq> [] \<and> last ds \<noteq> []\<close> serial_turns [of "fold SendSerial ds c" n moved] assms
  show "snd (turns moved (length ds) (fold SendSerial ds c)) = [SerialSent (last ds)]"
    by (simp add: sends_serial serving_def)
next
  assume "fs \<noteq> []"
  then show "snd (turns moved (length fs) (fold (\<lambda>(i, extended, data). SendCan i extended data) fs c)) =
      (case last fs of (i, extended, data) \<Rightarrow> map (\<lambda>k. CanSent \<lparr>is29BitId = extended, idBits = i\<rparr> ((moved ^^ k) (take 8 data))) [0..<length fs])"
    using assms by (auto simp: sends_can serving_def split: prod.split intro!: can_turns)
qed

definition serving_controller :: BridgeController where
  "serving_controller = BridgeController_new\<lparr>infraThread := Serving, clientsUp := True\<rparr>"

lemma bridge_bursts_witness:
  "snd (turns id 2 (fold (\<lambda>(i, extended, data). SendCan i extended data) [(1, False, [7]), (2, False, [8, 9])] serving_controller)) =
    [CanSent \<lparr>is29BitId = False, idBits = 2\<rparr> [8, 9], CanSent \<lparr>is29BitId = False, idBits = 2\<rparr> [8, 9]]"
  using bridge_bursts [THEN conjunct2, of serving_controller "[(1, False, [7]), (2, False, [8, 9])]" id]
  by (simp add: serving_controller_def serving_def BridgeController_new_def numeral_2_eq_2 del: turns.simps fold_simps)

subsection \<open>Buttons and status\<close>

definition buttons_ok :: "BridgeWindow \<times> BridgeController \<Rightarrow> bool" where
  "buttons_ok wc \<longleftrightarrow> connectEnabled (fst wc) = (infraThread (snd wc) = NoThread) \<and> disconnectEnabled (fst wc) = (\<not> connectEnabled (fst wc)) \<and>
     clientsUp (snd wc) = (infraThread (snd wc) = Serving)"

lemma thread_start_buttons:
  "thread_start a ok as c = Some c' \<Longrightarrow> clientsUp c = (infraThread c = Serving) \<Longrightarrow>
     clientsUp c' = (infraThread c' = Serving) \<and> (infraThread c' = NoThread) = (infraThread c = NoThread)"
  by (auto simp: thread_start_def thread_cleanup_def queue_signal_def split: if_splits option.splits sum.splits)

lemma disconnect_buttons:
  "OnDisconnectClicked l (w, c) = Some wc \<Longrightarrow> clientsUp c = (infraThread c = Serving) \<Longrightarrow> buttons_ok wc"
  by (auto simp: OnDisconnectClicked_def Bridge_Disconnect_def buttons_ok_def UpdateConnectionStatus_def thread_cleanup_def Let_def
      dest!: thread_start_buttons split: bind_splits if_splits)

lemma signal_buttons: "on_signal l s (w, c) = Some wc \<Longrightarrow> buttons_ok (w, c) \<Longrightarrow> buttons_ok wc"
  by (cases s) (auto simp: OnConnectionError_def buttons_ok_def OnSerialConnected_def OnSerialDisconnected_def OnCanConnected_def
      OnCanDisconnected_def UpdateConnectionStatus_def dest: disconnect_buttons [unfolded buttons_ok_def])

lemma buttons_step:
  assumes "bridge_step moved ev (w, c) = Some (wc', es)" and "buttons_ok (w, c)"
  shows "buttons_ok wc'"
proof (cases ev)
  case (DisconnectClicked l)
  have up: "clientsUp c = (infraThread c = Serving)" using assms(2) by (simp add: buttons_ok_def)
  from DisconnectClicked assms(1) have "if disconnectEnabled w then OnDisconnectClicked l (w, c) = Some wc' else wc' = (w, c)"
    by (auto split: if_splits)
  then show ?thesis using disconnect_buttons [OF _ up] assms(2) by (auto split: if_splits simp del: OnDisconnectClicked_def)
next
  case (DeliverSignal l)
  have "buttons_ok (w, c\<lparr>guiQueue := ss\<rparr>)" for ss using assms(2) by (simp add: buttons_ok_def)
  show ?thesis
  proof (cases "guiQueue c")
    case (Cons s ss)
    with DeliverSignal assms(1) have "on_signal l s (w, c\<lparr>guiQueue := ss\<rparr>) = Some wc'" by auto
    then show ?thesis by (rule signal_buttons) fact
  qed (use DeliverSignal assms in auto)
next
  case (ThreadStarts l)
  then show ?thesis using assms by (auto simp: buttons_ok_def dest!: thread_start_buttons)
next
  case ThreadTurn
  have "buttons_ok (w, fst (run_action moved a c'))" if "buttons_ok (w, c')" for a c'
    using that by (cases a) (auto simp: buttons_ok_def Let_def split: option.split)
  moreover have "buttons_ok (w, c\<lparr>infraQueue := q\<rparr>)" for q using assms(2) by (simp add: buttons_ok_def)
  ultimately have "buttons_ok (w, fst (thread_turn moved c))"
    using assms(2) by (auto simp: thread_turn_def thread_cleanup_def buttons_ok_def split: list.split)
  then show ?thesis using ThreadTurn assms(1) by (auto simp: split_def Let_def)
next
  case (ClientReports s)
  then show ?thesis using assms by (cases s) (auto simp: buttons_ok_def queue_signal_def)
qed (use assms in \<open>auto simp: buttons_ok_def OnConnectClicked_def Bridge_Connect_def SendSerial_def SendCan_def split: option.splits if_splits panel_result.splits\<close>)

lemma bridge_buttons:
  assumes "bridge_run moved evs (BridgeWindow_new, BridgeController_new) = Some (wc, es)"
  shows "buttons_ok wc"
proof -
  have "buttons_ok wc'" if "bridge_run moved evs wc = Some (wc', es)" "buttons_ok wc" for evs wc wc' es
    using that
  proof (induction evs arbitrary: wc es)
    case (Cons ev evs)
    then obtain wd fs gs where "bridge_step moved ev wc = Some (wd, fs)" "bridge_run moved evs wd = Some (wc', gs)" by (auto split: bind_splits)
    with Cons show ?case using buttons_step by (metis prod.collapse)
  qed simp
  with assms show ?thesis by (auto simp: buttons_ok_def BridgeWindow_new_def BridgeController_new_def)
qed

text \<open>A connection signal that was queued when the user disconnected is delivered afterwards: the window
  shows a connection and enables its panel, but nothing can be sent.\<close>

lemma stale_connection_shown:
  assumes "infraThread c = Serving" "clientsUp c" "guiQueue c = [SerialConnected]" "disconnectEnabled w"
  shows "\<exists>w' c'. bridge_run moved [DisconnectClicked l, DeliverSignal l] (w, c) = Some ((w', c'), []) \<and>
    statusLabel w' = PartiallyConnected True \<and> serialPanelEnabled w' \<and> connectEnabled w' \<and> infraThread c' = NoThread \<and>
    bridge_run moved [SerialTyped d] (w', c') = Some ((w', c'), [])"
  using assms by (auto simp: OnDisconnectClicked_def Bridge_Disconnect_def thread_start_def thread_cleanup_def OnSerialConnected_def
      UpdateConnectionStatus_def SendSerial_def Let_def)

text \<open>What the panel sends has a valid identifier, extended exactly when it needs to be, and at most eight bytes.\<close>

lemma panel_frames_valid:
  "OnSendClicked i ts = SendRequested v extended data \<Longrightarrow> v \<le> 0x1FFFFFFF \<and> (extended \<longleftrightarrow> 0x7FF < v) \<and> length data \<le> 8"
  by (auto simp: OnSendClicked_def Let_def word_le_nat_alt unat_of_nat split: option.splits if_splits)

end
