(* ===== verification/Terminal_View.thy ===== *)
theory Terminal_View
  imports Terminal_Correct
begin

text \<open>
  The terminal widget of the bridge window (\<open>AnsiTerminalWidget.cpp\<close>): the text and the formats it makes of
  the screen, the bytes it sends for keys, and the data it takes. The text document is a string and
  a list of formatted ranges; scrolling and fonts are not modelled.
\<close>

section \<open>Colours\<close>

type_synonym colour = "nat \<times> nat \<times> nat"

definition ansiColors :: "colour list" where
  "ansiColors = [(0x2D, 0x2D, 0x2D), (0xE7, 0x4C, 0x3C), (0x2E, 0xCC, 0x71), (0xF1, 0xC4, 0x0F), (0x34, 0x98, 0xDB),
     (0x9B, 0x59, 0xB6), (0x1A, 0xBC, 0x9C), (0xCC, 0xCC, 0xCC)]"

definition ansiBrightColors :: "colour list" where
  "ansiBrightColors = [(0x80, 0x80, 0x80), (0xFF, 0x79, 0x6B), (0x5F, 0xF9, 0x67), (0xFF, 0xFF, 0x2B), (0x6B, 0xC5, 0xFF),
     (0xFF, 0x92, 0xFF), (0x5F, 0xFF, 0xEA), (0xFF, 0xFF, 0xFF)]"

definition defaultFg :: colour where "defaultFg = (0xCC, 0xCC, 0xCC)"
definition defaultBg :: colour where "defaultBg = (0x1E, 0x1E, 0x1E)"

fun MapForeground :: "Color \<Rightarrow> colour" where
  "MapForeground DefaultColor = defaultFg"
| "MapForeground Black = ansiColors ! 0"
| "MapForeground Red = ansiColors ! 1"
| "MapForeground Green = ansiColors ! 2"
| "MapForeground Yellow = ansiColors ! 3"
| "MapForeground Blue = ansiColors ! 4"
| "MapForeground Magenta = ansiColors ! 5"
| "MapForeground Cyan = ansiColors ! 6"
| "MapForeground White = ansiColors ! 7"
| "MapForeground BrightBlack = ansiBrightColors ! 0"
| "MapForeground BrightRed = ansiBrightColors ! 1"
| "MapForeground BrightGreen = ansiBrightColors ! 2"
| "MapForeground BrightYellow = ansiBrightColors ! 3"
| "MapForeground BrightBlue = ansiBrightColors ! 4"
| "MapForeground BrightMagenta = ansiBrightColors ! 5"
| "MapForeground BrightCyan = ansiBrightColors ! 6"
| "MapForeground BrightWhite = ansiBrightColors ! 7"

definition MapBackground :: "Color \<Rightarrow> colour" where
  "MapBackground c = (if c = DefaultColor then defaultBg else MapForeground c)"

record RunFormat =
  formatForeground :: colour
  formatBackground :: colour
  formatBold :: bool
  formatItalic :: bool
  formatUnderline :: bool

definition run_format :: "Rendition \<Rightarrow> RunFormat" where
  "run_format r = \<lparr>formatForeground = MapForeground (if inverse_video r then background r else foreground r),
     formatBackground = MapBackground (if inverse_video r then foreground r else background r),
     formatBold = bold r, formatItalic = italic r, formatUnderline = underline r\<rparr>"

section \<open>Rendering\<close>

definition lastContentColumn :: "Cell list \<Rightarrow> nat" where
  "lastContentColumn row = length (dropWhile (\<lambda>c. codepoint c = 0x20) (rev row))"

text \<open>The scan of a row stops at the first cell that is not blank.\<close>

fun all_blank :: "Cell option list \<Rightarrow> bool option" where
  "all_blank [] = Some True"
| "all_blank (None # cs) = None"
| "all_blank (Some c # cs) = (if codepoint c \<noteq> 0x20 then Some False else all_blank cs)"

definition isBlank :: "TerminalScreen \<Rightarrow> int \<Rightarrow> bool option" where
  "isBlank s r = all_blank (map (At s r) [0..cols s - 1])"

text \<open>From the last row upwards.\<close>

fun last_row :: "TerminalScreen \<Rightarrow> nat \<Rightarrow> int \<Rightarrow> int option" where
  "last_row s 0 lastRow = Some lastRow"
| "last_row s (Suc r) lastRow = do {
     b \<leftarrow> isBlank s (int r);
     if \<not> b then Some (max lastRow (int r)) else last_row s r lastRow }"

definition shown_rows :: "TerminalScreen \<Rightarrow> Cell list list option" where
  "shown_rows s = do {
     lastRow \<leftarrow> last_row s (nat (rows s)) (cursorRow (cursor s));
     rs \<leftarrow> those (map (\<lambda>r. those (map (At s r) [0..cols s - 1])) [0..lastRow]);
     Some (history s @ rs) }"

text \<open>Only ASCII is shown, the rest as the replacement character.\<close>

definition shown_char :: "Cell \<Rightarrow> u32" where
  "shown_char c = (if codepoint c \<le> 0x7F then codepoint c else 0xFFFD)"

type_synonym 'r text_run = "nat \<times> nat \<times> 'r"

function row_runs :: "nat \<Rightarrow> Cell list \<Rightarrow> Rendition text_run list" where
  "row_runs start [] = []"
| "row_runs start (c # cs) =
     (let n = 1 + length (takeWhile (\<lambda>d. rendition d = rendition c) cs)
      in (start, n, rendition c) # row_runs (start + n) (drop n (c # cs)))"
  by pat_completeness auto
termination
  by (relation "measure (\<lambda>(start, cs). length cs)") auto

declare row_runs.simps(2) [simp del]

fun render_rows :: "bool \<Rightarrow> u32 list \<times> Rendition text_run list \<Rightarrow> Cell list list \<Rightarrow> u32 list \<times> Rendition text_run list" where
  "render_rows first acc [] = acc"
| "render_rows first (txt, runs) (row # rs) =
     (let txt = (if first then txt else txt @ [0x0A]); shown = take (lastContentColumn row) row
      in render_rows False (txt @ map shown_char shown, runs @ row_runs (length txt) shown) rs)"

definition Render :: "TerminalScreen \<Rightarrow> (u32 list \<times> RunFormat text_run list) option" where
  "Render s = do {
     rs \<leftarrow> shown_rows s;
     let (txt, runs) = render_rows True ([], []) rs;
     Some (txt, map (\<lambda>(start, n, r). (start, n, run_format r)) runs) }"

section \<open>Keys and data\<close>

datatype qt_key = KeyReturn | KeyEnter | KeyBackspace | KeyTab | KeyUp | KeyDown | KeyRight | KeyLeft | KeyHome | KeyEnd | KeyDelete
  | KeyLetter u8 | KeyOther

text \<open>A letter is its upper-case code. The text of a key is given by Qt.\<close>

definition key_bytes :: "bool \<Rightarrow> qt_key \<Rightarrow> u8 list \<Rightarrow> u8 list" where
  "key_bytes control key txt =
     (if control then (case key of KeyLetter k \<Rightarrow> if 0x41 \<le> k \<and> k \<le> 0x5A then [k - 0x41 + 1] else [] | _ \<Rightarrow> [])
      else (case key of KeyReturn \<Rightarrow> [0x0D] | KeyEnter \<Rightarrow> [0x0D] | KeyBackspace \<Rightarrow> [0x7F] | KeyTab \<Rightarrow> [0x09]
        | KeyUp \<Rightarrow> [0x1B, 0x5B, 0x41] | KeyDown \<Rightarrow> [0x1B, 0x5B, 0x42] | KeyRight \<Rightarrow> [0x1B, 0x5B, 0x43] | KeyLeft \<Rightarrow> [0x1B, 0x5B, 0x44]
        | KeyHome \<Rightarrow> [0x1B, 0x5B, 0x48] | KeyEnd \<Rightarrow> [0x1B, 0x5B, 0x46] | KeyDelete \<Rightarrow> [0x1B, 0x5B, 0x33, 0x7E]
        | _ \<Rightarrow> txt))"

record AnsiTerminalWidget =
  widgetTerminal :: Vt100Terminal
  inputEnabled :: bool
  document :: "u32 list \<times> RunFormat text_run list"

definition widget_render :: "AnsiTerminalWidget \<Rightarrow> AnsiTerminalWidget option" where
  "widget_render w = do { d \<leftarrow> Render (screen (widgetTerminal w)); Some (w\<lparr>document := d\<rparr>) }"

definition AnsiTerminalWidget_new :: "AnsiTerminalWidget option" where
  "AnsiTerminalWidget_new = do {
     t \<leftarrow> Vt100Terminal_new 24 100;
     widget_render \<lparr>widgetTerminal = t, inputEnabled = False, document = ([], [])\<rparr> }"

text \<open>The result and the data to send, if any.\<close>

definition AppendData :: "u8 list \<Rightarrow> AnsiTerminalWidget \<Rightarrow> (AnsiTerminalWidget \<times> u8 list option) option" where
  "AppendData bytes w = do {
     t \<leftarrow> Terminal_Feed bytes (widgetTerminal w);
     let (t, out) = TakeOutgoing t;
     w \<leftarrow> widget_render (w\<lparr>widgetTerminal := t\<rparr>);
     Some (w, if out = [] then None else Some out) }"

definition SetInputEnabled :: "bool \<Rightarrow> AnsiTerminalWidget \<Rightarrow> AnsiTerminalWidget" where
  "SetInputEnabled enabled w = w\<lparr>inputEnabled := enabled\<rparr>"

definition keyPressEvent :: "bool \<Rightarrow> qt_key \<Rightarrow> u8 list \<Rightarrow> AnsiTerminalWidget \<Rightarrow> u8 list option" where
  "keyPressEvent control key txt w =
     (if \<not> inputEnabled w then None
      else (let bytes = key_bytes control key txt in if bytes = [] then None else Some bytes))"

definition widget_Clear :: "AnsiTerminalWidget \<Rightarrow> AnsiTerminalWidget option" where
  "widget_Clear w = do {
     s \<leftarrow> Reset (screen (widgetTerminal w));
     widget_render (w\<lparr>widgetTerminal := (widgetTerminal w)\<lparr>screen := s\<rparr>\<rparr>) }"

section \<open>What is shown\<close>

text \<open>The format of a position: the last range that covers it.\<close>

definition format_at :: "'r text_run list \<Rightarrow> nat \<Rightarrow> 'r option" where
  "format_at runs k = map_option (\<lambda>(start, n, f). f) (List.find (\<lambda>(start, n, f). start \<le> k \<and> k < start + n) (rev runs))"

definition styled :: "u32 list \<times> 'r text_run list \<Rightarrow> (u32 \<times> 'r option) list" where
  "styled d = map (\<lambda>k. (fst d ! k, format_at (snd d) k)) [0..<length (fst d)]"

text \<open>The reference: each cell up to the last content of its row with its own format, rows separated by
  plain line ends.\<close>

definition row_view :: "(Rendition \<Rightarrow> 'r) \<Rightarrow> Cell list \<Rightarrow> (u32 \<times> 'r option) list" where
  "row_view f row = map (\<lambda>c. (shown_char c, Some (f (rendition c)))) (take (lastContentColumn row) row)"

fun rows_view :: "(Rendition \<Rightarrow> 'r) \<Rightarrow> Cell list list \<Rightarrow> (u32 \<times> 'r option) list" where
  "rows_view f [] = []"
| "rows_view f [row] = row_view f row"
| "rows_view f (row # rs) = row_view f row @ (0x0A, None) # rows_view f rs"

lemma find_append: "List.find P (xs @ ys) = (case List.find P xs of None \<Rightarrow> List.find P ys | Some x \<Rightarrow> Some x)"
  by (induction xs) simp_all

lemma find_map: "List.find P (map h xs) = map_option h (List.find (P \<circ> h) xs)"
  by (induction xs) simp_all

lemma format_at_append:
  "format_at (as @ bs) k = (case format_at bs k of None \<Rightarrow> format_at as k | Some f \<Rightarrow> Some f)"
  by (simp add: format_at_def find_append split: option.split)

lemma format_at_map: "format_at (map (\<lambda>(start, n, r). (start, n, f r)) runs) k = map_option f (format_at runs k)"
  by (simp add: format_at_def rev_map find_map option.map_comp comp_def split_def)

lemma format_at_nil [simp]: "format_at [] k = None"
  by (simp add: format_at_def)

lemma format_at_single: "format_at [(start, n, f)] k = (if start \<le> k \<and> k < start + n then Some f else None)"
  by (simp add: format_at_def)

lemma row_runs_format:
  "format_at (row_runs start cs) k = (if start \<le> k \<and> k < start + length cs then Some (rendition (cs ! (k - start))) else None)"
proof (induction start cs rule: row_runs.induct)
  case (2 start c cs)
  define n where "n = 1 + length (takeWhile (\<lambda>d. rendition d = rendition c) cs)"
  have n: "n \<le> length (c # cs)" by (simp add: n_def length_takeWhile_le)
  have same: "rendition ((c # cs) ! i) = rendition c" if "i < n" for i
    using that nth_mem [of "i - 1" "takeWhile (\<lambda>d. rendition d = rendition c) cs"]
    by (cases i) (auto simp: n_def takeWhile_nth dest: set_takeWhileD)
  have runs: "row_runs start (c # cs) = [(start, n, rendition c)] @ row_runs (start + n) (drop n (c # cs))"
    by (subst row_runs.simps(2)) (simp add: n_def Let_def)
  have IH: "format_at (row_runs (start + n) (drop n (c # cs))) k =
      (if start + n \<le> k \<and> k < start + n + (length (c # cs) - n) then Some (rendition (drop n (c # cs) ! (k - (start + n)))) else None)"
    using 2 [OF n_def] by simp
  show ?case unfolding runs format_at_append IH format_at_single
    using n same [of "k - start"] by (auto simp: nth_drop add.commute)
qed simp

definition runs_inside :: "u32 list \<times> 'r text_run list \<Rightarrow> bool" where
  "runs_inside d \<longleftrightarrow> (\<forall>k \<ge> length (fst d). format_at (snd d) k = None)"

lemma styled_append:
  assumes "runs_inside (t, rs)" and "\<And>k. k < length t \<Longrightarrow> format_at rs' k = None"
  shows "styled (t @ t', rs @ rs') = styled (t, rs) @ map (\<lambda>i. (t' ! i, format_at rs' (length t + i))) [0..<length t']"
  using assms
  by (intro nth_equalityI) (auto simp: styled_def runs_inside_def nth_append format_at_append not_less split: option.split)

lemma styled_line_end: "runs_inside (t, rs) \<Longrightarrow> styled (t @ [0x0A], rs) = styled (t, rs) @ [(0x0A, None)] \<and> runs_inside (t @ [0x0A], rs)"
  using styled_append [of t rs "[]" "[0x0A]"] by (simp add: runs_inside_def)

lemma styled_row:
  assumes "runs_inside (t, rs)"
  shows "styled (t @ map shown_char cs, rs @ row_runs (length t) cs) = styled (t, rs) @ map (\<lambda>c. (shown_char c, Some (rendition c))) cs \<and>
    runs_inside (t @ map shown_char cs, rs @ row_runs (length t) cs)"
proof
  have "map (\<lambda>i. (map shown_char cs ! i, format_at (row_runs (length t) cs) (length t + i))) [0..<length (map shown_char cs)] =
      map (\<lambda>c. (shown_char c, Some (rendition c))) cs"
    by (intro nth_equalityI) (simp_all add: row_runs_format)
  with styled_append [OF assms, of "row_runs (length t) cs" "map shown_char cs"]
  show "styled (t @ map shown_char cs, rs @ row_runs (length t) cs) = styled (t, rs) @ map (\<lambda>c. (shown_char c, Some (rendition c))) cs"
    by (simp add: row_runs_format)
  show "runs_inside (t @ map shown_char cs, rs @ row_runs (length t) cs)"
    using assms by (simp add: runs_inside_def format_at_append row_runs_format)
qed

lemma render_more_rows:
  "runs_inside acc \<Longrightarrow> styled (render_rows False acc rs) = styled acc @ concat (map (\<lambda>row. (0x0A, None) # row_view (\<lambda>r. r) row) rs)"
proof (induction rs arbitrary: acc)
  case (Cons row rs)
  obtain t runs where acc: "acc = (t, runs)" by (cases acc)
  note le = styled_line_end [OF Cons.prems [unfolded acc]]
  note row = styled_row [OF conjunct2 [OF le], of "take (lastContentColumn row) row"]
  from Cons.IH [OF conjunct2 [OF row]] le row show ?case
    by (simp add: acc Let_def row_view_def)
qed simp

lemma rows_view_Cons: "rows_view f (row # rs) = row_view f row @ concat (map (\<lambda>row. (0x0A, None) # row_view f row) rs)"
  by (induction rs arbitrary: row) simp_all

lemma styled_nil: "styled ([], []) = []"
  by (simp add: styled_def)

lemma render_rows_view: "styled (render_rows True ([], []) rs) = rows_view (\<lambda>r. r) rs"
proof (cases rs)
  case (Cons row rs')
  have "runs_inside ([], [] :: Rendition text_run list)" by (simp add: runs_inside_def)
  note row = styled_row [OF this, of "take (lastContentColumn row) row"]
  from render_more_rows [OF conjunct2 [OF row], of rs'] row show ?thesis
    unfolding Cons rows_view_Cons by (simp add: row_view_def styled_nil Let_def)
qed (simp add: styled_def)

lemma styled_map:
  "styled (t, map (\<lambda>(start, n, r). (start, n, f r)) runs) = map (\<lambda>(c, r). (c, map_option f r)) (styled (t, runs))"
  by (simp add: styled_def format_at_map)

lemma rows_view_map: "map (\<lambda>(c, r). (c, map_option f r)) (rows_view (\<lambda>r. r) rs) = rows_view f rs"
  by (induction "\<lambda>r :: Rendition. r" rs rule: rows_view.induct) (simp_all add: row_view_def)

section \<open>Which rows are shown\<close>

definition blank_line :: "Cell list \<Rightarrow> bool" where
  "blank_line row \<longleftrightarrow> (\<forall>c \<in> set row. codepoint c = 0x20)"

lemma row_cells:
  assumes "screen_wf s" "0 \<le> r" "r < rows s"
  shows "map (At s r) [0..cols s - 1] = map Some (grid s ! nat r)"
proof (rule nth_equalityI)
  have row: "length (grid s ! nat r) = nat (cols s)" "length (grid s) = nat (rows s)" using assms by (auto simp: wf_defs)
  then show "length (map (At s r) [0..cols s - 1]) = length (map Some (grid s ! nat r))" by simp
  fix i assume "i < length (map (At s r) [0..cols s - 1])"
  then show "map (At s r) [0..cols s - 1] ! i = map Some (grid s ! nat r) ! i"
    using row assms by (simp add: At_def vec_get_def)
qed

lemma all_blank_Some: "all_blank (map Some cs) = Some (blank_line cs)"
  by (induction cs) (auto simp: blank_line_def)

lemma those_Some: "those (map Some xs) = Some xs"
  by (induction xs) simp_all

lemma last_row_spec:
  assumes "screen_wf s" and "n \<le> nat (rows s)"
  shows "\<exists>l. last_row s n start = Some l \<and> start \<le> l \<and> (l = start \<or> l < int n \<and> 0 \<le> l \<and> \<not> blank_line (grid s ! nat l)) \<and>
    (\<forall>r < n. l < int r \<longrightarrow> blank_line (grid s ! r))"
  using assms(2)
proof (induction n)
  case (Suc n)
  have blank: "isBlank s (int n) = Some (blank_line (grid s ! n))"
    using Suc.prems row_cells [OF assms(1), of "int n"] by (simp add: isBlank_def all_blank_Some)
  show ?case
  proof (cases "blank_line (grid s ! n)")
    case True
    from Suc obtain l where "last_row s n start = Some l" "start \<le> l" "l = start \<or> l < int n \<and> 0 \<le> l \<and> \<not> blank_line (grid s ! nat l)"
        "\<forall>r < n. l < int r \<longrightarrow> blank_line (grid s ! r)" by auto
    then show ?thesis using True by (intro exI [of _ l]) (auto simp: blank less_Suc_eq)
  next
    case False
    then show ?thesis by (intro exI [of _ "max start (int n)"]) (auto simp: blank max_def less_Suc_eq)
  qed
qed simp

lemma shown_rows_spec:
  assumes "screen_wf s"
  obtains l where "shown_rows s = Some (history s @ take (nat l + 1) (grid s))" "cursorRow (cursor s) \<le> l" "l < rows s"
    "l = cursorRow (cursor s) \<or> \<not> blank_line (grid s ! nat l)" "\<forall>r < nat (rows s). l < int r \<longrightarrow> blank_line (grid s ! r)"
proof -
  obtain l where l: "last_row s (nat (rows s)) (cursorRow (cursor s)) = Some l" "cursorRow (cursor s) \<le> l"
      "l = cursorRow (cursor s) \<or> l < int (nat (rows s)) \<and> 0 \<le> l \<and> \<not> blank_line (grid s ! nat l)"
      "\<forall>r < nat (rows s). l < int r \<longrightarrow> blank_line (grid s ! r)"
    using last_row_spec [OF assms order_refl, of "cursorRow (cursor s)"] by blast
  have cur: "0 \<le> cursorRow (cursor s)" "cursorRow (cursor s) < rows s" "length (grid s) = nat (rows s)" using assms by (auto simp: wf_defs)
  then have bounds: "0 \<le> l" "l < rows s" using l(2,3) by auto
  have "map (\<lambda>r. those (map (At s r) [0..cols s - 1])) [0..l] = map Some (take (nat l + 1) (grid s))"
  proof (rule nth_equalityI)
    show "length (map (\<lambda>r. those (map (At s r) [0..cols s - 1])) [0..l]) = length (map Some (take (nat l + 1) (grid s)))"
      using bounds cur by simp
    fix i assume "i < length (map (\<lambda>r. those (map (At s r) [0..cols s - 1])) [0..l])"
    then show "map (\<lambda>r. those (map (At s r) [0..cols s - 1])) [0..l] ! i = map Some (take (nat l + 1) (grid s)) ! i"
      using bounds cur row_cells [OF assms, of "int i"] by (simp add: those_Some)
  qed
  then have "shown_rows s = Some (history s @ take (nat l + 1) (grid s))" by (simp add: shown_rows_def l(1) those_Some)
  then show ?thesis using that l bounds by blast
qed

section \<open>Correctness\<close>

definition view_of :: "TerminalScreen \<Rightarrow> int \<Rightarrow> (u32 \<times> RunFormat option) list" where
  "view_of s l = rows_view run_format (history s @ take (nat l + 1) (grid s))"

lemma Render_spec:
  assumes "screen_wf s"
  obtains d l where "Render s = Some d" "styled d = view_of s l" "cursorRow (cursor s) \<le> l" "l < rows s"
    "l = cursorRow (cursor s) \<or> \<not> blank_line (grid s ! nat l)" "\<forall>r < nat (rows s). l < int r \<longrightarrow> blank_line (grid s ! r)"
proof -
  obtain l where l: "shown_rows s = Some (history s @ take (nat l + 1) (grid s))" "cursorRow (cursor s) \<le> l" "l < rows s"
      "l = cursorRow (cursor s) \<or> \<not> blank_line (grid s ! nat l)" "\<forall>r < nat (rows s). l < int r \<longrightarrow> blank_line (grid s ! r)"
    by (rule shown_rows_spec [OF assms])
  obtain t runs where r: "render_rows True ([], []) (history s @ take (nat l + 1) (grid s)) = (t, runs)" by (rule prod.exhaust)
  then have "styled (t, map (\<lambda>(start, n, r). (start, n, run_format r)) runs) = view_of s l"
    using render_rows_view [of "history s @ take (nat l + 1) (grid s)"] by (simp add: styled_map rows_view_map view_of_def)
  then show ?thesis using that [of "(t, map (\<lambda>(start, n, r). (start, n, run_format r)) runs)" l] l by (simp add: Render_def r [simplified])
qed

text \<open>The document holds at most 2000 rows and never has to drop one, so the positions of the ranges stay.\<close>

lemma rows_kept:
  "screen_wf s \<Longrightarrow> rows s = 24 \<Longrightarrow> l < rows s \<Longrightarrow> length (history s @ take (nat l + 1) (grid s)) \<le> 2000"
proof -
  assume "screen_wf s" "rows s = 24" "l < rows s"
  then have "length (history s) \<le> 1000" "nat l < 24" by (auto simp: wf_defs maxHistory_def)
  then show ?thesis by simp
qed



text \<open>Reverse video of the default colours looks like no reverse video: the default is resolved after the
  colours are exchanged.\<close>

lemma reverse_default_invisible:
  "foreground r = DefaultColor \<Longrightarrow> background r = DefaultColor \<Longrightarrow> run_format (r\<lparr>inverse_video := b\<rparr>) = run_format r"
  by (simp add: run_format_def)

text \<open>Cursor keys are sent in their normal form, whatever mode the terminal was put in.\<close>

lemma cursor_keys_ignore_mode:
  "inputEnabled w \<Longrightarrow> keyPressEvent False KeyUp txt (w\<lparr>widgetTerminal := t\<rparr>) = Some [0x1B, 0x5B, 0x41]"
  by (simp add: keyPressEvent_def key_bytes_def)

end
