(* ===== verification/Scope_Widget.thy ===== *)
theory Scope_Widget
  imports Foc_Float
begin

text \<open>
  The oscilloscope of the simulator (\<open>ScopeWidget.cpp\<close>): its ring buffers, the trigger, and which samples
  with which vertical range are drawn. The painting itself is not modelled.
\<close>

section \<open>Ring buffers\<close>

record 'f RingBuffer =
  ringData :: "'f list"
  ringHead :: nat
  ringCount :: nat

definition Ring_Resize :: "'f float_arith \<Rightarrow> nat \<Rightarrow> 'f RingBuffer \<Rightarrow> 'f RingBuffer" where
  "Ring_Resize A capacity b = \<lparr>ringData = take capacity (ringData b) @ replicate (capacity - length (ringData b)) (flit A 0 1),
     ringHead = 0, ringCount = 0\<rparr>"

definition emptyRing :: "'f RingBuffer" where
  "emptyRing = \<lparr>ringData = [], ringHead = 0, ringCount = 0\<rparr>"

definition Ring_Push :: "'f \<Rightarrow> 'f RingBuffer \<Rightarrow> 'f RingBuffer" where
  "Ring_Push v b = b\<lparr>ringData := (ringData b)[ringHead b := v],
     ringHead := (ringHead b + 1) mod length (ringData b),
     ringCount := (if ringCount b < length (ringData b) then ringCount b + 1 else ringCount b)\<rparr>"

definition Ring_At :: "nat \<Rightarrow> 'f RingBuffer \<Rightarrow> 'f" where
  "Ring_At index b = (if ringCount b < length (ringData b) then ringData b ! index
     else ringData b ! ((ringHead b + index) mod length (ringData b)))"

section \<open>The widget\<close>

datatype trigger_mode = AutoTrigger | NormalTrigger | SingleTrigger

datatype trigger_edge = RisingEdge | FallingEdge

record 'f Scope =
  channelCount :: nat
  channelEnabled :: "bool list"
  ringBuffers :: "'f RingBuffer list"
  timePerDiv :: 'f
  samplePeriod :: 'f
  triggerChannel :: nat
  triggerLevel :: 'f
  triggerMode :: trigger_mode
  triggerEdge :: trigger_edge
  scopeRunning :: bool
  triggered :: bool
  singleShotDone :: bool
  lastTriggerPoint :: nat
  previousTriggerSample :: 'f

definition maxChannels :: nat where "maxChannels = 4"
definition horizontalDivisions :: nat where "horizontalDivisions = 10"
definition ringBufferCapacity :: nat where "ringBufferCapacity = 256 * 1024"
definition autoTriggerSearchLimit :: nat where "autoTriggerSearchLimit = 65536"

definition Scope_new :: "'f float_arith \<Rightarrow> 'f Scope" where
  "Scope_new A = \<lparr>channelCount = 0, channelEnabled = replicate maxChannels True,
     ringBuffers = replicate maxChannels (Ring_Resize A ringBufferCapacity emptyRing),
     timePerDiv = flit A 1 2, samplePeriod = flit A 1 5, triggerChannel = 0, triggerLevel = flit A 0 1, triggerMode = AutoTrigger,
     triggerEdge = RisingEdge, scopeRunning = True, triggered = False, singleShotDone = False, lastTriggerPoint = 0,
     previousTriggerSample = flit A 0 1\<rparr>"

definition SetChannelCount :: "nat \<Rightarrow> 'f Scope \<Rightarrow> 'f Scope" where
  "SetChannelCount n s = s\<lparr>channelCount := min n maxChannels\<rparr>"

definition SetChannelConfig :: "nat \<Rightarrow> bool \<Rightarrow> 'f Scope \<Rightarrow> 'f Scope" where
  "SetChannelConfig channel enabled s = (if channel < maxChannels then s\<lparr>channelEnabled := (channelEnabled s)[channel := enabled]\<rparr> else s)"

definition SetTimePerDivision :: "'f \<Rightarrow> 'f Scope \<Rightarrow> 'f Scope" where
  "SetTimePerDivision t s = s\<lparr>timePerDiv := t\<rparr>"

definition SetTriggerChannel :: "nat \<Rightarrow> 'f Scope \<Rightarrow> 'f Scope" where
  "SetTriggerChannel channel s = s\<lparr>triggerChannel := min channel (if 0 < channelCount s then channelCount s - 1 else 0)\<rparr>"

definition SetTriggerLevel :: "'f \<Rightarrow> 'f Scope \<Rightarrow> 'f Scope" where
  "SetTriggerLevel level s = s\<lparr>triggerLevel := level\<rparr>"

definition SetTriggerMode :: "trigger_mode \<Rightarrow> 'f Scope \<Rightarrow> 'f Scope" where
  "SetTriggerMode mode s = s\<lparr>triggerMode := mode, singleShotDone := False\<rparr>"

definition SetTriggerEdge :: "trigger_edge \<Rightarrow> 'f Scope \<Rightarrow> 'f Scope" where
  "SetTriggerEdge edge s = s\<lparr>triggerEdge := edge\<rparr>"

definition SetSamplePeriod :: "'f \<Rightarrow> 'f Scope \<Rightarrow> 'f Scope" where
  "SetSamplePeriod seconds s = s\<lparr>samplePeriod := seconds\<rparr>"

definition edge_between :: "'f float_arith \<Rightarrow> trigger_edge \<Rightarrow> 'f \<Rightarrow> 'f \<Rightarrow> 'f \<Rightarrow> bool" where
  "edge_between A edge level previous current = (case edge of
       RisingEdge \<Rightarrow> flt A previous level \<and> fle A level current
     | FallingEdge \<Rightarrow> flt A level previous \<and> fle A current level)"

definition push_channels :: "'f list \<Rightarrow> 'f Scope \<Rightarrow> 'f Scope" where
  "push_channels values s = s\<lparr>ringBuffers := map (\<lambda>i. if i < min (length values) (channelCount s)
     then Ring_Push (values ! i) (ringBuffers s ! i) else ringBuffers s ! i) [0..<length (ringBuffers s)]\<rparr>"

text \<open>The new scope and whether \<open>triggerFired\<close> is emitted. Reading the trigger channel beyond the values
  is undefined.\<close>

definition AddSample :: "'f float_arith \<Rightarrow> 'f list \<Rightarrow> 'f Scope \<Rightarrow> ('f Scope \<times> bool) option" where
  "AddSample A channelValues s =
     (if \<not> scopeRunning s then Some (s, False)
      else if triggerMode s = SingleTrigger \<and> singleShotDone s then Some (s, False)
      else (let s = push_channels channelValues s
        in if triggerChannel s < channelCount s \<and> 1 < ringCount (ringBuffers s ! triggerChannel s) then
             if length channelValues \<le> triggerChannel s then None
             else (let current = channelValues ! triggerChannel s;
                       edgeDetected = edge_between A (triggerEdge s) (triggerLevel s) (previousTriggerSample s) current;
                       s = (if edgeDetected then s\<lparr>triggered := True,
                              lastTriggerPoint := ringCount (ringBuffers s ! triggerChannel s) - 1,
                              singleShotDone := (if triggerMode s = SingleTrigger then True else singleShotDone s)\<rparr> else s)
                   in Some (s\<lparr>previousTriggerSample := current\<rparr>, edgeDetected))
           else Some (s, False)))"

definition Ring_Clear :: "'f float_arith \<Rightarrow> 'f RingBuffer \<Rightarrow> 'f RingBuffer" where
  "Ring_Clear A b = \<lparr>ringData = map (\<lambda>_. flit A 0 1) (ringData b), ringHead = 0, ringCount = 0\<rparr>"

definition Scope_Clear :: "'f float_arith \<Rightarrow> 'f Scope \<Rightarrow> 'f Scope" where
  "Scope_Clear A s = s\<lparr>ringBuffers := map (Ring_Clear A) (ringBuffers s), triggered := False, singleShotDone := False,
     lastTriggerPoint := 0, previousTriggerSample := flit A 0 1\<rparr>"

definition SetRunning :: "bool \<Rightarrow> 'f Scope \<Rightarrow> 'f Scope" where
  "SetRunning run s = s\<lparr>scopeRunning := run, singleShotDone := (if run then False else singleShotDone s)\<rparr>"

definition ForceTrigger :: "'f Scope \<Rightarrow> 'f Scope" where
  "ForceTrigger s = s\<lparr>triggered := True, lastTriggerPoint := ringCount (ringBuffers s ! triggerChannel s) - 1, singleShotDone := False\<rparr>"

section \<open>What is drawn\<close>

text \<open>The search goes backwards from \<open>i\<close> to the start of the search, not included.\<close>

fun search_edge :: "'f float_arith \<Rightarrow> 'f Scope \<Rightarrow> 'f RingBuffer \<Rightarrow> nat \<Rightarrow> nat \<Rightarrow> nat option" where
  "search_edge A s buf searchStart 0 = None"
| "search_edge A s buf searchStart (Suc i) =
     (if searchStart < Suc i then
        if edge_between A (triggerEdge s) (triggerLevel s) (Ring_At i buf) (Ring_At (Suc i) buf) then Some (Suc i)
        else search_edge A s buf searchStart i
      else None)"

definition FindTriggerPoint :: "'f float_arith \<Rightarrow> 'f Scope \<Rightarrow> nat" where
  "FindTriggerPoint A s =
     (if channelCount s \<le> triggerChannel s then 0
      else (let buf = ringBuffers s ! triggerChannel s
        in if ringCount buf < 2 then 0
           else (let searchStart = (if autoTriggerSearchLimit < ringCount buf then ringCount buf - autoTriggerSearchLimit else 0)
             in case search_edge A s buf searchStart (ringCount buf - 1) of Some i \<Rightarrow> i | None \<Rightarrow> ringCount buf - 1)))"

text \<open>The conversion to \<open>std::size_t\<close>.\<close>

definition total_samples :: "'f float_arith \<Rightarrow> 'f Scope \<Rightarrow> nat option" where
  "total_samples A s = map_option nat (cast_int A 0 (2 ^ 64 - 1)
     (fdiv A (ftimes A (timePerDiv s) (fofint A (int horizontalDivisions))) (samplePeriod s)))"

definition pre_trigger :: "'f float_arith \<Rightarrow> nat \<Rightarrow> nat option" where
  "pre_trigger A n = map_option nat (cast_int A 0 (2 ^ 64 - 1) (ftimes A (fofint A (int n)) (flit A 2 1)))"

text \<open>The first sample and the number of samples of a trace, \<open>Some None\<close> for no trace. The subtraction wraps
  in \<open>std::size_t\<close>.\<close>

definition TriggeredWindow :: "'f float_arith \<Rightarrow> nat \<Rightarrow> 'f Scope \<Rightarrow> (nat \<times> nat) option option" where
  "TriggeredWindow A channel s = do {
     totalSamples \<leftarrow> total_samples A s;
     let buf = ringBuffers s ! channel;
     if totalSamples < 2 \<or> ringCount buf < 2 then Some None
     else do {
       preTriggerSamples \<leftarrow> pre_trigger A totalSamples;
       let trigPoint = FindTriggerPoint A s;
       let startSample = (if preTriggerSamples < trigPoint then trigPoint - preTriggerSamples else 0);
       Some (Some (startSample, min totalSamples ((2 ^ 64 + ringCount buf - startSample) mod 2 ^ 64))) } }"

definition FreeRunningWindow :: "'f float_arith \<Rightarrow> nat \<Rightarrow> 'f Scope \<Rightarrow> (nat \<times> nat) option option" where
  "FreeRunningWindow A channel s = do {
     totalSamples \<leftarrow> total_samples A s;
     let buf = ringBuffers s ! channel;
     if totalSamples < 2 \<or> ringCount buf < 2 then Some None
     else (let samplesToShow = min totalSamples (ringCount buf) in Some (Some (ringCount buf - samplesToShow, samplesToShow))) }"

definition ChannelWindow :: "'f float_arith \<Rightarrow> nat \<Rightarrow> 'f Scope \<Rightarrow> (nat \<times> nat) option option" where
  "ChannelWindow A channel s =
     (if triggered s \<and> triggerMode s \<noteq> AutoTrigger then TriggeredWindow A channel s else FreeRunningWindow A channel s)"

text \<open>The samples of the trace; a read past the data is undefined.\<close>

definition trace_samples :: "'f RingBuffer \<Rightarrow> nat \<times> nat \<Rightarrow> 'f list option" where
  "trace_samples buf win =
     (if ringCount buf < length (ringData buf) \<and> length (ringData buf) < fst win + snd win then None
      else Some (map (\<lambda>i. Ring_At (fst win + i) buf) [0..<snd win]))"

text \<open>The range of the enabled channels; \<open>lo\<close> and \<open>hi\<close> are the limits of \<open>float\<close>.\<close>

definition ComputeVerticalRange :: "'f float_arith \<Rightarrow> 'f \<Rightarrow> 'f \<Rightarrow> nat \<Rightarrow> nat \<Rightarrow> 'f Scope \<Rightarrow> 'f \<times> 'f" where
  "ComputeVerticalRange A lo hi startSample sampleCount s =
     (let vs = concat (map (\<lambda>ch. if \<not> channelEnabled s ! ch then []
                else map (\<lambda>i. Ring_At i (ringBuffers s ! ch)) [startSample..<min ((startSample + sampleCount) mod 2 ^ 64) (ringCount (ringBuffers s ! ch))])
              [0..<channelCount s]);
          globalMin = fold (\<lambda>v m. min2 A m v) vs hi; globalMax = fold (\<lambda>v m. max2 A m v) vs lo;
          (globalMin, globalMax) = (if flt A globalMax globalMin then (fneg A (flit A 10 1), flit A 10 1) else (globalMin, globalMax));
          margin = ftimes A (fsub A globalMax globalMin) (flit A 1 1);
          margin = (if flt A margin (flit A 1 9) then ftimes A (flit A 10 1) (flit A 1 1) else margin)
      in (fsub A globalMin margin, fadd A globalMax margin))"

text \<open>The range of a trace, \<open>None\<close> where there is no trace.\<close>

definition trace_range :: "'f float_arith \<Rightarrow> 'f \<Rightarrow> 'f \<Rightarrow> nat \<Rightarrow> 'f Scope \<Rightarrow> ('f \<times> 'f) option option" where
  "trace_range A lo hi channel s = do {
     w \<leftarrow> ChannelWindow A channel s;
     Some (case w of None \<Rightarrow> None | Some (startSample, samplesToShow) \<Rightarrow>
       (let (vMin, vMax) = ComputeVerticalRange A lo hi startSample samplesToShow s
        in Some (if flt A (fsub A vMax vMin) (flit A 1 12) then (fsub A vMin (fdiv A (flit A 10 1) (flit A 20 1)), fadd A vMax (fdiv A (flit A 10 1) (flit A 20 1)))
                 else (vMin, vMax)))) }"

text \<open>The range in which the trigger line is drawn, \<open>None\<close> for no line.\<close>

definition DrawTriggerLine :: "'f float_arith \<Rightarrow> 'f \<Rightarrow> 'f \<Rightarrow> 'f Scope \<Rightarrow> ('f \<times> 'f) option option" where
  "DrawTriggerLine A lo hi s =
     (if channelCount s = 0 then Some None
      else do {
        totalSamples \<leftarrow> total_samples A s;
        let (vMin, vMax) = ComputeVerticalRange A lo hi 0 (min totalSamples (ringCount (ringBuffers s ! 0))) s;
        Some (if flt A (triggerLevel s) vMin \<or> flt A vMax (triggerLevel s) then None else Some (vMin, vMax)) })"

text \<open>The range of the labels of the vertical axis.\<close>

definition label_range :: "'f float_arith \<Rightarrow> 'f \<Rightarrow> 'f \<Rightarrow> 'f Scope \<Rightarrow> ('f \<times> 'f) option" where
  "label_range A lo hi s = do {
     totalSamples \<leftarrow> total_samples A s;
     let count = ringCount (ringBuffers s ! 0);
     let samplesToShow = min totalSamples count;
     startSample \<leftarrow> (if triggered s \<and> triggerMode s \<noteq> AutoTrigger then do {
         preTriggerSamples \<leftarrow> pre_trigger A totalSamples;
         let trigPoint = FindTriggerPoint A s;
         Some (if preTriggerSamples < trigPoint then trigPoint - preTriggerSamples else 0) }
       else Some (if samplesToShow < count then count - samplesToShow else 0));
     Some (ComputeVerticalRange A lo hi startSample samplesToShow s) }"

section \<open>The buffers keep the last samples\<close>

text \<open>The oldest first.\<close>

definition contents :: "'f RingBuffer \<Rightarrow> 'f list" where
  "contents b = map (\<lambda>i. Ring_At i b) [0..<ringCount b]"

definition ring_ok :: "nat \<Rightarrow> 'f RingBuffer \<Rightarrow> bool" where
  "ring_ok n b \<longleftrightarrow> 0 < n \<and> length (ringData b) = n \<and> ringHead b < n \<and> ringCount b \<le> n \<and> (ringCount b < n \<longrightarrow> ringHead b = ringCount b)"

text \<open>A bounded queue drops its oldest element when it is full.\<close>

definition enqueue :: "nat \<Rightarrow> 'a \<Rightarrow> 'a list \<Rightarrow> 'a list" where
  "enqueue n x xs = (if length xs < n then xs @ [x] else tl xs @ [x])"

lemma ring_new: "0 < n \<Longrightarrow> ring_ok n (Ring_Resize A n emptyRing) \<and> contents (Ring_Resize A n emptyRing) = []"
  by (simp add: ring_ok_def Ring_Resize_def emptyRing_def contents_def)

lemma ring_clear: "ring_ok n b \<Longrightarrow> ring_ok n (Ring_Clear A b) \<and> contents (Ring_Clear A b) = []"
  by (simp add: ring_ok_def Ring_Clear_def contents_def)

lemma ring_push:
  assumes "ring_ok n b"
  shows "ring_ok n (Ring_Push v b)" and "contents (Ring_Push v b) = enqueue n v (contents b)"
proof -
  show "ring_ok n (Ring_Push v b)" using assms by (auto simp: ring_ok_def Ring_Push_def)
  show "contents (Ring_Push v b) = enqueue n v (contents b)"
  proof (cases "ringCount b < n")
    case True
    then have part: "length (ringData b) = n" "ringHead b = ringCount b" using assms by (auto simp: ring_ok_def)
    show ?thesis
    proof (rule nth_equalityI)
      show "length (contents (Ring_Push v b)) = length (enqueue n v (contents b))"
        using part True by (simp add: contents_def Ring_Push_def enqueue_def)
      fix i assume "i < length (contents (Ring_Push v b))"
      then have i: "i \<le> ringCount b" using part True by (simp add: contents_def Ring_Push_def)
      have "Ring_At i (Ring_Push v b) = (ringData b)[ringCount b := v] ! i"
      proof (cases "Suc (ringCount b) < n")
        case False
        with True have "Suc (ringCount b) = n" by simp
        then show ?thesis using i part by (auto simp: Ring_At_def Ring_Push_def)
      qed (use part in \<open>simp add: Ring_At_def Ring_Push_def\<close>)
      then show "contents (Ring_Push v b) ! i = enqueue n v (contents b) ! i"
        using i True part
        by (cases "i = ringCount b") (simp_all add: contents_def enqueue_def Ring_At_def [of _ b] nth_append Ring_Push_def [of v b, THEN arg_cong [where f = ringCount]])
    qed
  next
    case False
    then have full: "ringCount b = n" "length (ringData b) = n" "ringHead b < n" "0 < n" using assms by (auto simp: ring_ok_def)
    show ?thesis
    proof (rule nth_equalityI)
      show "length (contents (Ring_Push v b)) = length (enqueue n v (contents b))"
        using full by (simp add: contents_def Ring_Push_def enqueue_def)
      fix i assume "i < length (contents (Ring_Push v b))"
      then have i: "i < n" using full by (simp add: contents_def Ring_Push_def)
      have idx: "((ringHead b + 1) mod n + i) mod n = (ringHead b + Suc i) mod n" by (simp add: mod_simps)
      show "contents (Ring_Push v b) ! i = enqueue n v (contents b) ! i"
      proof (cases "Suc i = n")
        case True
        then have "(ringHead b + Suc i) mod n = ringHead b" using full by simp
        then show ?thesis using full i True idx
          by (cases n) (simp_all add: contents_def Ring_Push_def enqueue_def Ring_At_def nth_append nth_tl)
      next
        case False
        then have "Suc i < n" using i by simp
        then have "(ringHead b + Suc i) mod n \<noteq> ringHead b"
          using full(3) by (cases "ringHead b + Suc i < n") (simp_all add: le_mod_geq)
        then show ?thesis using full i \<open>Suc i < n\<close> idx
          by (simp add: less_diff_conv contents_def Ring_Push_def enqueue_def Ring_At_def nth_append nth_tl)
      qed
    qed
  qed
qed

text \<open>The last \<open>n\<close> elements.\<close>

definition last_n :: "nat \<Rightarrow> 'a list \<Rightarrow> 'a list" where
  "last_n n xs = drop (length xs - n) xs"

lemma enqueue_last_n: "0 < n \<Longrightarrow> enqueue n x (last_n n xs) = last_n n (xs @ [x])"
  by (cases "length xs < n") (simp_all add: enqueue_def last_n_def drop_Suc [symmetric] tl_drop [symmetric] drop_tl [symmetric] Suc_diff_le)

section \<open>Adding samples\<close>

definition scope_ok :: "'f Scope \<Rightarrow> bool" where
  "scope_ok s \<longleftrightarrow> length (ringBuffers s) = maxChannels \<and> channelCount s \<le> maxChannels \<and> (\<forall>b \<in> set (ringBuffers s). ring_ok ringBufferCapacity b)"

lemma capacity_pos: "0 < ringBufferCapacity"
  by (simp add: ringBufferCapacity_def)

lemma Scope_new_ok: "scope_ok (Scope_new A)"
  by (simp add: scope_ok_def Scope_new_def ring_new [OF capacity_pos])

lemma push_channels_fields [simp]:
  "triggerChannel (push_channels vs s) = triggerChannel s" "channelCount (push_channels vs s) = channelCount s"
  "triggerMode (push_channels vs s) = triggerMode s" "scopeRunning (push_channels vs s) = scopeRunning s"
  "length (ringBuffers (push_channels vs s)) = length (ringBuffers s)"
  by (simp_all add: push_channels_def)

lemma push_channels_ring:
  "i < length (ringBuffers s) \<Longrightarrow> ringBuffers (push_channels vs s) ! i =
     (if i < length vs \<and> i < channelCount s then Ring_Push (vs ! i) (ringBuffers s ! i) else ringBuffers s ! i)"
  by (simp add: push_channels_def)

lemma push_channels_ok: "scope_ok s \<Longrightarrow> scope_ok (push_channels vs s)"
  by (auto simp: scope_ok_def push_channels_ring ring_push(1) all_set_conv_all_nth)

text \<open>A running scope that is not stopped by a single shot pushes the values, whatever the trigger does.\<close>

lemma AddSample_rings:
  assumes "scopeRunning s" and "triggerMode s \<noteq> SingleTrigger" and "channelCount s \<le> length vs"
  obtains s' fired where "AddSample A vs s = Some (s', fired)" "ringBuffers s' = ringBuffers (push_channels vs s)"
    "channelCount s' = channelCount s" "scopeRunning s'" "triggerMode s' = triggerMode s"
proof -
  have "\<exists>s' fired. AddSample A vs s = Some (s', fired) \<and> ringBuffers s' = ringBuffers (push_channels vs s) \<and>
      channelCount s' = channelCount s \<and> scopeRunning s' \<and> triggerMode s' = triggerMode s"
    using assms by (simp add: AddSample_def Let_def ex_bool_eq)
  then show ?thesis using that by blast
qed

fun add_samples :: "'f float_arith \<Rightarrow> 'f list list \<Rightarrow> 'f Scope \<Rightarrow> 'f Scope option" where
  "add_samples A [] s = Some s"
| "add_samples A (vs # vss) s = do { (s, fired) \<leftarrow> AddSample A vs s; add_samples A vss s }"

lemma add_samples_rings:
  assumes "scope_ok s" "scopeRunning s" "triggerMode s \<noteq> SingleTrigger" "\<forall>vs \<in> set vss. channelCount s \<le> length vs"
    and "\<forall>ch < channelCount s. contents (ringBuffers s ! ch) = last_n ringBufferCapacity (hist ch)"
  shows "\<exists>s'. add_samples A vss s = Some s' \<and> scope_ok s' \<and> channelCount s' = channelCount s \<and>
    (\<forall>ch < channelCount s. contents (ringBuffers s' ! ch) = last_n ringBufferCapacity (hist ch @ map (\<lambda>vs. vs ! ch) vss))"
  using assms
proof (induction vss arbitrary: s hist)
  case (Cons vs vss)
  obtain s' fired where a: "AddSample A vs s = Some (s', fired)" "ringBuffers s' = ringBuffers (push_channels vs s)"
      "channelCount s' = channelCount s" "scopeRunning s'" "triggerMode s' = triggerMode s"
    using Cons.prems by (auto elim: AddSample_rings [of s vs A])
  have ok: "scope_ok s'" using push_channels_ok [OF Cons.prems(1), of vs] a by (simp add: scope_ok_def)
  have new: "contents (ringBuffers s' ! ch) = last_n ringBufferCapacity (hist ch @ [vs ! ch])" if "ch < channelCount s" for ch
  proof -
    have "ring_ok ringBufferCapacity (ringBuffers s ! ch)" "ch < length (ringBuffers s)" "ch < length vs"
      using that Cons.prems(1,4) by (auto simp: scope_ok_def)
    then show ?thesis using that Cons.prems(5)
      by (simp add: a(2) push_channels_ring ring_push(2) enqueue_last_n capacity_pos)
  qed
  have "\<exists>s''. add_samples A vss s' = Some s'' \<and> scope_ok s'' \<and> channelCount s'' = channelCount s' \<and>
      (\<forall>ch < channelCount s'. contents (ringBuffers s'' ! ch) =
         last_n ringBufferCapacity ((hist ch @ [vs ! ch]) @ map (\<lambda>vs. vs ! ch) vss))"
    by (rule Cons.IH) (use ok a new Cons.prems in auto)
  then show ?case using a by simp
qed simp

text \<open>The free running trace is the end of what was added.\<close>

lemma free_running_trace:
  assumes "ring_ok n b" and "k \<le> ringCount b"
  shows "trace_samples b (ringCount b - k, k) = Some (last_n k (contents b))"
proof -
  have "map (\<lambda>i. Ring_At (ringCount b - k + i) b) [0..<k] = last_n k (contents b)"
  proof (rule nth_equalityI)
    fix i assume "i < length (map (\<lambda>i. Ring_At (ringCount b - k + i) b) [0..<k])"
    then have "i < k" "ringCount b - k + i < ringCount b" using assms(2) by auto
    then show "map (\<lambda>i. Ring_At (ringCount b - k + i) b) [0..<k] ! i = last_n k (contents b) ! i"
      by (simp add: last_n_def contents_def)
  qed (use assms(2) in \<open>simp add: last_n_def contents_def\<close>)
  then show ?thesis using assms by (auto simp: trace_samples_def ring_ok_def)
qed

section \<open>The trigger\<close>

text \<open>The search finds the latest edge after its start.\<close>

lemma search_edge_spec:
  "search_edge A s buf start n =
     (let edge = (\<lambda>i. start < i \<and> i \<le> n \<and> edge_between A (triggerEdge s) (triggerLevel s) (Ring_At (i - 1) buf) (Ring_At i buf))
      in if \<exists>i. edge i then Some (GREATEST i. edge i) else None)"
proof (induction n)
  case (Suc n)
  define edge where "edge n = (\<lambda>i. start < i \<and> i \<le> n \<and> edge_between A (triggerEdge s) (triggerLevel s) (Ring_At (i - 1) buf) (Ring_At i buf))" for n
  have step: "edge (Suc n) i \<longleftrightarrow> edge n i \<or> i = Suc n \<and> edge (Suc n) (Suc n)" for i
    by (auto simp: edge_def le_Suc_eq)
  have IH: "search_edge A s buf start n = (if \<exists>i. edge n i then Some (GREATEST i. edge n i) else None)"
    using Suc.IH by (simp only: edge_def Let_def)
  have "search_edge A s buf start (Suc n) = (if \<exists>i. edge (Suc n) i then Some (GREATEST i. edge (Suc n) i) else None)"
  proof (cases "edge (Suc n) (Suc n)")
    case True
    have "(GREATEST i. edge (Suc n) i) = Suc n" by (rule Greatest_equality) (use True in \<open>simp_all add: edge_def\<close>)
    moreover have "search_edge A s buf start (Suc n) = Some (Suc n)" using True by (simp add: edge_def)
    ultimately show ?thesis using True by auto
  next
    case False
    have same: "edge (Suc n) = edge n"
    proof
      show "edge (Suc n) i = edge n i" for i using step [of i] False by blast
    qed
    have "search_edge A s buf start (Suc n) = search_edge A s buf start n"
    proof (cases "start < Suc n")
      case False
      then have "\<not> edge n i" for i by (simp add: edge_def)
      then show ?thesis using False IH by simp
    qed (use False in \<open>simp add: edge_def\<close>)
    then show ?thesis unfolding same IH .
  qed
  then show ?case by (simp only: edge_def Let_def)
qed simp

text \<open>A shot in single mode is the last sample taken.\<close>

lemma single_shot_stops:
  assumes "scopeRunning s" and "triggerMode s = SingleTrigger" and "AddSample A vs s = Some (s', True)"
  shows "AddSample A vs' s' = Some (s', False)"
  using assms by (auto simp: AddSample_def Let_def split: if_splits)

text \<open>The second sample is compared with zero and not with the first, which may already be above the level.\<close>

lemma first_edge_against_zero:
  assumes "flt A (flit A 0 1) level" and "fle A level v1" and "fle A level v2"
  shows "\<exists>s1 s2. AddSample A [v1] (SetTriggerLevel level (SetChannelCount 1 (Scope_new A))) = Some (s1, False) \<and>
    AddSample A [v2] s1 = Some (s2, True)"
proof -
  let ?s = "SetTriggerLevel level (SetChannelCount 1 (Scope_new A))"
  have rings: "ring_ok ringBufferCapacity (ringBuffers ?s ! 0)" "contents (ringBuffers ?s ! 0) = []"
    by (simp_all add: SetTriggerLevel_def SetChannelCount_def Scope_new_def maxChannels_def ring_new [OF capacity_pos])
  have "1 < ringBufferCapacity" by (simp add: ringBufferCapacity_def)
  have fields: "scopeRunning ?s" "triggerMode ?s = AutoTrigger" "channelCount ?s = 1" "triggerChannel ?s = 0"
      "previousTriggerSample ?s = flit A 0 1" "triggerEdge ?s = RisingEdge" "triggerLevel ?s = level" "length (ringBuffers ?s) = 4"
    by (simp_all add: SetTriggerLevel_def SetChannelCount_def Scope_new_def maxChannels_def)
  let ?s1 = "push_channels [v1] ?s"
  have c0: "ringCount (ringBuffers ?s ! 0) = 0" "length (ringData (ringBuffers ?s ! 0)) = ringBufferCapacity"
    using rings by (simp_all add: contents_def ring_ok_def)
  have c1: "ringCount (ringBuffers ?s1 ! 0) = 1" "length (ringData (ringBuffers ?s1 ! 0)) = ringBufferCapacity"
    using c0 fields \<open>1 < ringBufferCapacity\<close> by (simp_all add: push_channels_ring Ring_Push_def)
  have "AddSample A [v1] ?s = Some (?s1, False)"
    using fields c1 by (simp add: AddSample_def)
  moreover have "ringCount (ringBuffers (push_channels [v2] ?s1) ! 0) = 2"
    using c1 fields \<open>1 < ringBufferCapacity\<close> by (simp add: push_channels_ring Ring_Push_def)
  then have "\<exists>s2. AddSample A [v2] ?s1 = Some (s2, True)"
    using fields assms by (simp add: AddSample_def edge_between_def push_channels_def Let_def)
  ultimately show ?thesis by blast
qed

text \<open>The trigger line is drawn in the range of the oldest samples: with a step from 0 to 5 off the left of the
  screen, the traces lie around 5 and the line is placed around 0, so a level of 5 has no line.\<close>

lemma trigger_line_other_range:
  assumes "channelCount s = 1" "channelEnabled s ! 0" "total_samples exact s = Some 2" "ringCount (ringBuffers s ! 0) = 4"
    "map (\<lambda>i. Ring_At i (ringBuffers s ! 0)) [0, 1, 2, 3] = [0, 0, 5, 5]" "triggerLevel s = 5" "\<not> triggered s"
    and "lo \<le> 0" "5 \<le> hi"
  shows "trace_range exact lo hi 0 s = Some (Some (49 / 10, 51 / 10))" and "DrawTriggerLine exact lo hi s = Some None"
proof -
  have at: "Ring_At 0 (ringBuffers s ! 0) = 0" "Ring_At 1 (ringBuffers s ! 0) = 0" "Ring_At 2 (ringBuffers s ! 0) = 5"
      "Ring_At 3 (ringBuffers s ! 0) = 5" using assms(5) by simp_all
  have upt: "[0..<2] = [0, 1::nat]" "[2..<4] = [2, 3::nat]" by (simp_all add: upt_rec)
  have "ComputeVerticalRange exact lo hi 2 2 s = (49 / 10, 51 / 10)"
    using assms at by (simp add: ComputeVerticalRange_def upt Let_def)
  moreover have "ComputeVerticalRange exact lo hi 0 2 s = (- (1 / 10), 1 / 10)"
    using assms at by (simp add: ComputeVerticalRange_def upt Let_def)
  ultimately show "trace_range exact lo hi 0 s = Some (Some (49 / 10, 51 / 10))" "DrawTriggerLine exact lo hi s = Some None"
    using assms by (simp_all add: trace_range_def ChannelWindow_def FreeRunningWindow_def DrawTriggerLine_def)
qed

text \<open>The scope shows the latest samples. On a scope of up to four channels that runs and is in a repeating
  trigger mode, every series of samples is accepted; each channel then holds the latest \<open>256 * 1024\<close> of its
  values in order, and a free running trace shows the latest of them, as many as the screen is wide.\<close>

lemma scope_shows_latest:
  assumes "n \<le> 4" and "mode \<noteq> SingleTrigger" and "\<forall>vs \<in> set vss. n \<le> length vs"
  shows "\<exists>s. add_samples A vss (SetTriggerMode mode (SetChannelCount n (Scope_new A))) = Some s \<and>
    (\<forall>ch < n. contents (ringBuffers s ! ch) = last_n (256 * 1024) (map (\<lambda>vs. vs ! ch) vss) \<and>
      (\<forall>start k. FreeRunningWindow A ch s = Some (Some (start, k)) \<longrightarrow>
         trace_samples (ringBuffers s ! ch) (start, k) = Some (last_n k (contents (ringBuffers s ! ch))) \<and>
         total_samples A s \<noteq> None \<and> k = min (the (total_samples A s)) (min (256 * 1024) (length vss))))"
proof -
  let ?s = "SetTriggerMode mode (SetChannelCount n (Scope_new A))"
  have s: "scope_ok ?s" "scopeRunning ?s" "triggerMode ?s = mode" "channelCount ?s = n"
    using Scope_new_ok [of A] assms(1) by (auto simp: scope_ok_def SetTriggerMode_def SetChannelCount_def maxChannels_def Scope_new_def)
  have empty: "contents (ringBuffers ?s ! ch) = last_n ringBufferCapacity []" if "ch < n" for ch
    using that assms(1) by (simp add: SetTriggerMode_def SetChannelCount_def Scope_new_def maxChannels_def ring_new [OF capacity_pos] last_n_def)
  obtain s' where s': "add_samples A vss ?s = Some s'" "scope_ok s'" "channelCount s' = n"
      "\<forall>ch < n. contents (ringBuffers s' ! ch) = last_n ringBufferCapacity (map (\<lambda>vs. vs ! ch) vss)"
    using add_samples_rings [OF s(1,2), of vss "\<lambda>_. []" A] s assms empty by auto
  have "trace_samples (ringBuffers s' ! ch) (start, k) = Some (last_n k (contents (ringBuffers s' ! ch))) \<and>
      total_samples A s' \<noteq> None \<and> k = min (the (total_samples A s')) (min ringBufferCapacity (length vss))"
    if "ch < n" and win: "FreeRunningWindow A ch s' = Some (Some (start, k))" for ch start k
  proof -
    have ok: "ring_ok ringBufferCapacity (ringBuffers s' ! ch)" using s'(2,3) that(1) by (simp add: scope_ok_def)
    have "length (contents (ringBuffers s' ! ch)) = min ringBufferCapacity (length vss)"
      using s'(4) that(1) by (simp add: last_n_def)
    then have len: "ringCount (ringBuffers s' ! ch) = min ringBufferCapacity (length vss)" by (simp add: contents_def)
    obtain t where "total_samples A s' = Some t" "k = min t (ringCount (ringBuffers s' ! ch))" "start = ringCount (ringBuffers s' ! ch) - k"
      using win by (cases "total_samples A s'") (auto simp: FreeRunningWindow_def Let_def split: if_splits)
    moreover from this have "k \<le> ringCount (ringBuffers s' ! ch)" by simp
    ultimately show ?thesis using free_running_trace [OF ok, of k] len by simp
  qed
  then show ?thesis using s' by (auto simp: ringBufferCapacity_def)
qed

lemma scope_shows_latest_witness:
  "\<exists>s. add_samples exact [[1, 2], [3, 4]] (SetTriggerMode NormalTrigger (SetChannelCount 2 (Scope_new exact))) = Some s \<and>
    contents (ringBuffers s ! 1) = [2, 4]"
proof -
  obtain s where "add_samples exact [[1, 2], [3, 4]] (SetTriggerMode NormalTrigger (SetChannelCount 2 (Scope_new exact))) = Some s"
      "contents (ringBuffers s ! 1) = last_n (256 * 1024) (map (\<lambda>vs. vs ! 1) [[1, 2], [3, 4]])"
    using scope_shows_latest [of 2 NormalTrigger "[[1, 2], [3, 4]]" exact] by auto
  then show ?thesis by (simp add: last_n_def)
qed

end
