(* ===== verification/Platform.thy ===== *)
theory Platform
  imports Fault_Handler Drive_Model
begin

text \<open>
  The platform: the thin classes of \<open>core/platform_abstraction\<close> over the hal library, the numbers of the motor
  board, and the factories of the TI targets, of the ST targets and of the host. A class of the hal library is
  its construction and its calls (effects) and the values it reads (arguments). Reading an empty
  \<open>std::optional\<close> is undefined (\<open>None\<close>).
\<close>

section \<open>Reset causes\<close>

datatype ResetCause = PowerUpReset | BrownOutReset | SoftwareReset | HardwareReset | WatchdogReset

fun reset_cause_text :: "ResetCause \<Rightarrow> string" where
  "reset_cause_text PowerUpReset = ''PowerUp''"
| "reset_cause_text BrownOutReset = ''BrownOut''"
| "reset_cause_text SoftwareReset = ''Software''"
| "reset_cause_text HardwareReset = ''Hardware''"
| "reset_cause_text WatchdogReset = ''Watchdog''"

definition sysctlRescExt :: u32 where "sysctlRescExt = 0x00000001"
definition sysctlRescBor :: u32 where "sysctlRescBor = 0x00000004"
definition sysctlRescWdt0 :: u32 where "sysctlRescWdt0 = 0x00000008"
definition sysctlRescSw :: u32 where "sysctlRescSw = 0x00000010"
definition sysctlRescWdt1 :: u32 where "sysctlRescWdt1 = 0x00000020"

unbundle bit_operations_syntax

text \<open>The cause and the register afterwards.\<close>

definition Ti_ReadAndClearResetCause :: "u32 \<Rightarrow> ResetCause \<times> u32" where
  "Ti_ReadAndClearResetCause resc =
     (if resc AND sysctlRescSw \<noteq> 0 then SoftwareReset
      else if resc AND sysctlRescWdt0 \<noteq> 0 then WatchdogReset
      else if resc AND sysctlRescWdt1 \<noteq> 0 then WatchdogReset
      else if resc AND sysctlRescBor \<noteq> 0 then BrownOutReset
      else if resc AND sysctlRescExt \<noteq> 0 then HardwareReset
      else PowerUpReset, 0)"

text \<open>The flags of the ST devices are macros of the device header.\<close>

record rcc_flags =
  rccSftRst :: u32
  rccIwdgRst :: u32
  rccWwdgRst :: u32
  rccBorRst :: u32
  rccPinRst :: u32
  rccRmvf :: u32

definition St_ReadAndClearResetCause :: "rcc_flags \<Rightarrow> u32 \<Rightarrow> ResetCause \<times> u32" where
  "St_ReadAndClearResetCause f rst =
     (if rst AND rccSftRst f \<noteq> 0 then SoftwareReset
      else if rst AND (rccIwdgRst f OR rccWwdgRst f) \<noteq> 0 then WatchdogReset
      else if rst AND rccBorRst f \<noteq> 0 then BrownOutReset
      else if rst AND rccPinRst f \<noteq> 0 then HardwareReset
      else PowerUpReset, rst OR rccRmvf f)"

section \<open>The motor board\<close>

definition voltageToVolts :: "'f float_arith \<Rightarrow> 'f" where "voltageToVolts A = flit A 18433 3"
definition overvoltageThresholdVolts :: "'f float_arith \<Rightarrow> 'f" where "overvoltageThresholdVolts A = flit A 580 1"
definition voltageToCurrent :: "'f float_arith \<Rightarrow> 'f" where "voltageToCurrent A = flit A 50 1"
definition maxCurrentAmps :: "'f float_arith \<Rightarrow> 'f" where "maxCurrentAmps A = flit A 150 1"
definition overcurrentThresholdAmps :: "'f float_arith \<Rightarrow> 'f" where "overcurrentThresholdAmps A = flit A 120 1"

definition AdcToVoltsFactor :: "'f float_arith \<Rightarrow> 'f \<Rightarrow> 'f \<Rightarrow> 'f" where
  "AdcToVoltsFactor A reference resolution = ftimes A (fdiv A reference resolution) (voltageToVolts A)"

definition AdcToAmpereSlope :: "'f float_arith \<Rightarrow> 'f \<Rightarrow> 'f \<Rightarrow> 'f" where
  "AdcToAmpereSlope A reference resolution = ftimes A (fdiv A reference resolution) (voltageToCurrent A)"

definition AdcToAmpereOffset :: "'f float_arith \<Rightarrow> 'f \<Rightarrow> 'f" where
  "AdcToAmpereOffset A reference = ftimes A (fneg A (fdiv A reference (flit A 20 1))) (voltageToCurrent A)"

definition OvervoltageThresholdCounts :: "'f float_arith \<Rightarrow> 'f \<Rightarrow> 'f \<Rightarrow> int option" where
  "OvervoltageThresholdCounts A reference resolution = cast_int A 0 65535
     (ftimes A (fdiv A (overvoltageThresholdVolts A) (ftimes A reference (voltageToVolts A))) (fsub A resolution (flit A 10 1)))"

definition OvercurrentThresholdCounts :: "'f float_arith \<Rightarrow> 'f \<Rightarrow> int option" where
  "OvercurrentThresholdCounts A resolution = cast_int A 0 65535
     (ftimes A (fdiv A (overcurrentThresholdAmps A) (maxCurrentAmps A)) (fsub A resolution (flit A 10 1)))"

definition adcReferenceVoltage :: "'f float_arith \<Rightarrow> 'f" where "adcReferenceVoltage A = flit A 33 1"
definition adcResolution :: "'f float_arith \<Rightarrow> 'f" where "adcResolution A = flit A 40960 1"

section \<open>Thin classes over the hal\<close>

text \<open>The position and the resolution that the encoder of the hal reports.\<close>

type_synonym encoder_counts = "u32 \<times> u32"

definition Decorator_Read :: "'f float_arith \<Rightarrow> encoder_counts \<Rightarrow> 'f" where
  "Decorator_Read A enc =
     (let twoPi = ftimes A (flit A 20 1) (fpi A);
          count = fofint A (uint (fst enc)); resolution = fofint A (uint (snd enc));
          angle = fdiv A (ftimes A count twoPi) resolution;
          angle_plus_pi = fadd A angle (fpi A)
      in fsub A angle (ftimes A twoPi (ffloor A (fdiv A angle_plus_pi twoPi))))"

record 'f AdcPhaseCurrentMeasurement =
  adcSlope :: 'f
  adcOffset :: 'f

text \<open>What the callback of \<open>Measure\<close> is given for the samples of the converter.\<close>

definition Adc_Measured :: "'f float_arith \<Rightarrow> 'f AdcPhaseCurrentMeasurement \<Rightarrow> u16 list \<Rightarrow> ('f \<times> 'f \<times> 'f) option" where
  "Adc_Measured A m samples = do {
     let amps = (\<lambda>n. fadd A (ftimes A (fofint A (uint n)) (adcSlope m)) (adcOffset m));
     a \<leftarrow> vec_get samples 0;
     b \<leftarrow> vec_get samples 1;
     c \<leftarrow> vec_get samples 2;
     Some (amps a, amps b, amps c) }"

datatype CanError = BusOff | ErrorPassive | ErrorWarning | MessageLost | RxBufferOverflow | AckError | StuffError | FormError
  | CrcError | Bit0Error | Bit1Error | OtherCanError

fun can_error_text :: "CanError \<Rightarrow> string" where
  "can_error_text BusOff = ''bus off''"
| "can_error_text ErrorPassive = ''error passive''"
| "can_error_text ErrorWarning = ''error warning''"
| "can_error_text MessageLost = ''message lost''"
| "can_error_text RxBufferOverflow = ''rx buffer overflow''"
| "can_error_text AckError = ''ack error''"
| "can_error_text StuffError = ''stuff error''"
| "can_error_text FormError = ''form error''"
| "can_error_text CrcError = ''crc error''"
| "can_error_text Bit0Error = ''bit0 error''"
| "can_error_text Bit1Error = ''bit1 error''"
| "can_error_text OtherCanError = ''unknown''"

text \<open>The errors of the TI driver that the source names, and any other.\<close>

datatype tiva_error = TivaBusOff | TivaErrorPassive | TivaErrorWarning | TivaMessageLost | TivaAckError | TivaStuffError
  | TivaFormError | TivaCrcError | TivaBit0Error | TivaBit1Error | TivaOther

fun ToAdapterError :: "tiva_error \<Rightarrow> CanError" where
  "ToAdapterError TivaBusOff = BusOff"
| "ToAdapterError TivaErrorPassive = ErrorPassive"
| "ToAdapterError TivaErrorWarning = ErrorWarning"
| "ToAdapterError TivaMessageLost = MessageLost"
| "ToAdapterError TivaAckError = AckError"
| "ToAdapterError TivaStuffError = StuffError"
| "ToAdapterError TivaFormError = FormError"
| "ToAdapterError TivaCrcError = CrcError"
| "ToAdapterError TivaBit0Error = Bit0Error"
| "ToAdapterError TivaBit1Error = Bit1Error"
| "ToAdapterError TivaOther = OtherCanError"

datatype BoardProtectionReason = OverCurrent | OverVoltage | OverTemperature

datatype SampleHold = Shortest | Shorter | Medium | Longer | Longest

fun toSampleAndHold :: "SampleHold \<Rightarrow> nat" where
  "toSampleAndHold Shortest = 4"
| "toSampleAndHold Shorter = 16"
| "toSampleAndHold Medium = 32"
| "toSampleAndHold Longer = 64"
| "toSampleAndHold Longest = 256"

datatype 'f platform_effect =
  ClocksInitialized
| ApplicationInitialized
| AdcConstructed nat bool
| PwmConstructed u32
| PwmFrequency u32
| AdcMeasure
| EncoderConstructed u32
| CanConstructed u32 bool
| CanErrorReported callback CanError
| ProtectionReported callback BoardProtectionReason
| PendSvSet
| LowPriorityHandler callback
| CycleCounterStart
| CycleCounterStop
| PerformancePin bool
| SystemReset
| CurrentsReported current_handler 'f 'f 'f
| CanSent callback bool
| ProgramExit

section \<open>The TI factory\<close>

text \<open>\<open>hasFaultComparators\<close> is a constant of the board: true on EK-TM4C1294XL, which drives the asynchronous PWM.\<close>

datatype ti_board = EK_TM4C123GXL | EK_TM4C1294XL

definition hasFaultComparators :: "ti_board \<Rightarrow> bool" where
  "hasFaultComparators b \<longleftrightarrow> b = EK_TM4C1294XL"

record 'f TiPlatform =
  tiBoard :: ti_board
  tiInverter :: Inverter
  tiBaseFrequency :: u32
  tiResetCause :: ResetCause
  tiFaultStatus :: "fault_text list option"
  tiAdc :: "'f AdcPhaseCurrentMeasurement option"
  tiPwm :: bool
  tiEncoder :: "u32 option"
  tiCan :: bool
  tiCanOnError :: "callback option"
  encoderOffset :: 'f
  onFaultCallback :: "callback option"
  onLowPriorityInterrupt :: "callback option"

definition Ti_new :: "'f float_arith \<Rightarrow> ti_board \<Rightarrow> u32 \<Rightarrow> PersistentFaultData \<Rightarrow> 'f TiPlatform \<times> 'f platform_effect list" where
  "Ti_new A board resc d =
     (\<lparr>tiBoard = board, tiInverter = \<lparr>onPhaseCurrentsReady = None, pwmGeneratorFrequency = 10000, pwmStarted = None\<rparr>, tiBaseFrequency = 10000,
       tiResetCause = fst (Ti_ReadAndClearResetCause resc), tiFaultStatus = fst (report_at_boot d), tiAdc = None, tiPwm = False,
       tiEncoder = None, tiCan = False, tiCanOnError = None, encoderOffset = flit A 0 1, onFaultCallback = None,
       onLowPriorityInterrupt = None\<rparr>,
      [ClocksInitialized, ApplicationInitialized])"

definition Ti_PowerSupplyVoltage :: "'f float_arith \<Rightarrow> u16 list \<Rightarrow> 'f option" where
  "Ti_PowerSupplyVoltage A samples = do {
     n \<leftarrow> vec_get samples 0;
     Some (ftimes A (fofint A (uint n)) (AdcToVoltsFactor A (adcReferenceVoltage A) (adcResolution A))) }"

definition Ti_MaxCurrentSupported :: "'f float_arith \<Rightarrow> 'f" where
  "Ti_MaxCurrentSupported A = flit A 150 1"

text \<open>Both kinds of PWM are destroyed before one of them is built.\<close>

definition Ti_ConfigureAdcAndPwm ::
  "'f float_arith \<Rightarrow> u32 \<Rightarrow> u32 \<Rightarrow> SampleHold \<Rightarrow> 'f TiPlatform \<Rightarrow> 'f TiPlatform \<times> 'f platform_effect list" where
  "Ti_ConfigureAdcAndPwm A baseFrequency deadTime sampleAndHold p =
     (p\<lparr>tiAdc := Some \<lparr>adcSlope = AdcToAmpereSlope A (adcReferenceVoltage A) (adcResolution A),
          adcOffset = AdcToAmpereOffset A (adcReferenceVoltage A)\<rparr>,
        tiPwm := True, tiInverter := (tiInverter p)\<lparr>pwmGeneratorFrequency := baseFrequency, pwmStarted := None\<rparr>,
        tiBaseFrequency := baseFrequency\<rparr>,
      [AdcConstructed (toSampleAndHold sampleAndHold) (hasFaultComparators (tiBoard p)), PwmConstructed deadTime, PwmFrequency baseFrequency])"

text \<open>The fault interrupt of the asynchronous PWM; \<open>c0\<close> and \<open>c1\<close> are the bits of the two comparators. The
  pins are switched off by the hardware.\<close>

definition Ti_FaultEvent :: "u8 \<Rightarrow> u8 \<Rightarrow> u8 list \<Rightarrow> 'f TiPlatform \<Rightarrow> 'f platform_effect list option" where
  "Ti_FaultEvent c0 c1 comparatorInputsByGenerator p =
     (case onFaultCallback p of None \<Rightarrow> Some []
      | Some cb \<Rightarrow> do {
          bits \<leftarrow> vec_get comparatorInputsByGenerator 1;
          Some ((if bits AND c0 \<noteq> 0 then [ProtectionReported cb OverCurrent] else []) @
                (if bits AND c1 \<noteq> 0 then [ProtectionReported cb OverVoltage] else [])) })"

definition Ti_RegisterBoardProtection :: "callback \<Rightarrow> 'f TiPlatform \<Rightarrow> 'f TiPlatform" where
  "Ti_RegisterBoardProtection onProtection p = p\<lparr>onFaultCallback := Some onProtection\<rparr>"

definition Ti_SetEncoderResolution :: "u32 \<Rightarrow> 'f TiPlatform \<Rightarrow> 'f TiPlatform \<times> 'f platform_effect list" where
  "Ti_SetEncoderResolution resolution p = (p\<lparr>tiEncoder := Some resolution\<rparr>, [EncoderConstructed resolution])"

definition Ti_ConfigureCanBus :: "u32 \<Rightarrow> bool \<Rightarrow> 'f TiPlatform \<Rightarrow> 'f TiPlatform \<times> 'f platform_effect list" where
  "Ti_ConfigureCanBus bitRate testMode p = (p\<lparr>tiCan := True, tiCanOnError := None\<rparr>, [CanConstructed bitRate testMode])"

text \<open>\<open>CanBusAdapterImpl\<close> keeps one handler.\<close>

definition Can_SetOnError :: "callback \<Rightarrow> 'f TiPlatform \<Rightarrow> 'f TiPlatform option" where
  "Can_SetOnError handler p = (if tiCan p then Some (p\<lparr>tiCanOnError := Some handler\<rparr>) else None)"

definition InvokeErrorHandler :: "CanError \<Rightarrow> callback option \<Rightarrow> 'f platform_effect list" where
  "InvokeErrorHandler e onError = (case onError of None \<Rightarrow> [] | Some h \<Rightarrow> [CanErrorReported h e])"

definition Ti_CanErrorEvent :: "tiva_error \<Rightarrow> 'f TiPlatform \<Rightarrow> 'f platform_effect list option" where
  "Ti_CanErrorEvent e p = (if tiCan p then Some (InvokeErrorHandler (ToAdapterError e) (tiCanOnError p)) else None)"

definition Ti_PhaseCurrentsReady :: "u32 \<Rightarrow> current_handler \<Rightarrow> 'f TiPlatform \<Rightarrow> ('f TiPlatform \<times> 'f platform_effect list) option" where
  "Ti_PhaseCurrentsReady frequency onDone p =
     (if \<not> tiPwm p \<or> tiAdc p = None then None
      else Some (p\<lparr>tiInverter := Inverter_PhaseCurrentsReady frequency onDone (tiInverter p)\<rparr>, [PwmFrequency frequency, AdcMeasure]))"

text \<open>The samples of one conversion, given to the last handler.\<close>

definition Ti_SamplesReady :: "'f float_arith \<Rightarrow> u16 list \<Rightarrow> 'f TiPlatform \<Rightarrow> 'f platform_effect list option" where
  "Ti_SamplesReady A samples p = do {
     m \<leftarrow> tiAdc p;
     (a, b, c) \<leftarrow> Adc_Measured A m samples;
     h \<leftarrow> onPhaseCurrentsReady (tiInverter p);
     Some [CurrentsReported h a b c] }"

definition Ti_ThreePhasePwmOutput :: "PhasePwmDutyCycles \<Rightarrow> 'f TiPlatform \<Rightarrow> 'f TiPlatform option" where
  "Ti_ThreePhasePwmOutput d p = (if tiPwm p then Some (p\<lparr>tiInverter := Inverter_ThreePhasePwmOutput d (tiInverter p)\<rparr>) else None)"

definition Ti_Start :: "'f TiPlatform \<Rightarrow> 'f TiPlatform option" where
  "Ti_Start p = (if tiPwm p then Some (p\<lparr>tiInverter := Inverter_Start (tiInverter p)\<rparr>) else None)"

definition Ti_Stop :: "'f TiPlatform \<Rightarrow> 'f TiPlatform option" where
  "Ti_Stop p = (if tiPwm p then Some (p\<lparr>tiInverter := Inverter_Stop (tiInverter p)\<rparr>) else None)"

definition Ti_Read :: "'f float_arith \<Rightarrow> encoder_counts \<Rightarrow> 'f TiPlatform \<Rightarrow> 'f option" where
  "Ti_Read A enc p = (if tiEncoder p = None then None else Some (fsub A (Decorator_Read A enc) (encoderOffset p)))"

definition Ti_Set :: "'f float_arith \<Rightarrow> encoder_counts \<Rightarrow> 'f \<Rightarrow> 'f TiPlatform \<Rightarrow> 'f TiPlatform option" where
  "Ti_Set A enc v p = (if tiEncoder p = None then None else Some (p\<lparr>encoderOffset := fsub A (Decorator_Read A enc) v\<rparr>))"

definition Ti_SetZero :: "'f float_arith \<Rightarrow> encoder_counts \<Rightarrow> 'f TiPlatform \<Rightarrow> 'f TiPlatform option" where
  "Ti_SetZero A enc p = (if tiEncoder p = None then None else Some (p\<lparr>encoderOffset := Decorator_Read A enc\<rparr>))"

text \<open>The low-priority interrupt. The handler runs when the processor has nothing more urgent to do.\<close>

definition PendSv_Trigger :: "'f platform_effect list" where
  "PendSv_Trigger = [PendSvSet]"

definition PendSv_Register :: "callback \<Rightarrow> 'f TiPlatform \<Rightarrow> 'f TiPlatform" where
  "PendSv_Register handler p = p\<lparr>onLowPriorityInterrupt := Some handler\<rparr>"

definition PendSV_Handler :: "'f TiPlatform \<Rightarrow> 'f platform_effect list" where
  "PendSV_Handler p = (case onLowPriorityInterrupt p of None \<Rightarrow> [] | Some h \<Rightarrow> [LowPriorityHandler h])"

definition PerformanceTracker_Start :: "'f platform_effect list" where
  "PerformanceTracker_Start = [CycleCounterStart, PerformancePin True]"

definition PerformanceTracker_ElapsedCycles :: "u32 \<Rightarrow> 'f platform_effect list \<times> u32" where
  "PerformanceTracker_ElapsedCycles cycles = ([PerformancePin False, CycleCounterStop], cycles)"

definition Ti_Reset :: "'f platform_effect list" where
  "Ti_Reset = [SystemReset]"

section \<open>The ST and host factories\<close>

text \<open>Both are built on stubs of the peripherals. They differ in the scale of the converter, in the check of the
  current callback and in the low-priority interrupt.\<close>

record 'f StubPlatform =
  stubResetCause :: ResetCause
  stubFaultStatus :: "fault_text list option"
  stubAdc :: "'f AdcPhaseCurrentMeasurement option"
  stubPwm :: bool
  stubPwmBaseFrequency :: u32
  stubEncoder :: "u32 option"
  stubCan :: bool
  stubEncoderOffset :: 'f
  stubOnPhaseCurrentsReady :: "current_handler option"
  stubOnLowPriorityInterrupt :: "callback option"

definition St_new :: "'f float_arith \<Rightarrow> rcc_flags \<Rightarrow> u32 \<Rightarrow> PersistentFaultData \<Rightarrow> 'f StubPlatform \<times> 'f platform_effect list" where
  "St_new A f rst d =
     (\<lparr>stubResetCause = fst (St_ReadAndClearResetCause f rst), stubFaultStatus = fst (report_at_boot d), stubAdc = None, stubPwm = False,
       stubPwmBaseFrequency = 10000, stubEncoder = None, stubCan = False, stubEncoderOffset = flit A 0 1, stubOnPhaseCurrentsReady = None,
       stubOnLowPriorityInterrupt = None\<rparr>, [ClocksInitialized])"

definition Host_new :: "'f float_arith \<Rightarrow> 'f StubPlatform \<times> 'f platform_effect list" where
  "Host_new A =
     (\<lparr>stubResetCause = PowerUpReset, stubFaultStatus = None, stubAdc = None, stubPwm = False, stubPwmBaseFrequency = 10000,
       stubEncoder = None, stubCan = False, stubEncoderOffset = flit A 0 1, stubOnPhaseCurrentsReady = None,
       stubOnLowPriorityInterrupt = None\<rparr>, [])"

definition St_ConfigureAdcAndPwm :: "'f float_arith \<Rightarrow> u32 \<Rightarrow> 'f StubPlatform \<Rightarrow> 'f StubPlatform" where
  "St_ConfigureAdcAndPwm A baseFrequency p =
     p\<lparr>stubAdc := Some \<lparr>adcSlope = flit A 0 1, adcOffset = flit A 0 1\<rparr>, stubPwm := True, stubPwmBaseFrequency := baseFrequency\<rparr>"

definition Host_ConfigureAdcAndPwm :: "'f float_arith \<Rightarrow> u32 \<Rightarrow> 'f StubPlatform \<Rightarrow> 'f StubPlatform" where
  "Host_ConfigureAdcAndPwm A baseFrequency p =
     p\<lparr>stubAdc := Some \<lparr>adcSlope = flit A 10 1, adcOffset = flit A 0 1\<rparr>, stubPwm := True, stubPwmBaseFrequency := baseFrequency\<rparr>"

definition Stub_PowerSupplyVoltage :: "'f float_arith \<Rightarrow> 'f" where "Stub_PowerSupplyVoltage A = flit A 480 1"
definition St_MaxCurrentSupported :: "'f float_arith \<Rightarrow> 'f" where "St_MaxCurrentSupported A = flit A 150 1"
definition Host_MaxCurrentSupported :: "'f float_arith \<Rightarrow> 'f" where "Host_MaxCurrentSupported A = flit A 50 1"
definition Stub_BaseFrequency :: "'f StubPlatform \<Rightarrow> u32" where "Stub_BaseFrequency p = stubPwmBaseFrequency p"
definition Stub_ElapsedCycles :: u32 where "Stub_ElapsedCycles = 0"

definition Stub_SetEncoderResolution :: "u32 \<Rightarrow> 'f StubPlatform \<Rightarrow> 'f StubPlatform" where
  "Stub_SetEncoderResolution resolution p = p\<lparr>stubEncoder := Some resolution\<rparr>"

definition Stub_ConfigureCanBus :: "'f StubPlatform \<Rightarrow> 'f StubPlatform" where
  "Stub_ConfigureCanBus p = p\<lparr>stubCan := True\<rparr>"

text \<open>The stub of the converter answers at once, with a default-constructed \<open>Samples\<close> of the hal (\<open>noSamples\<close>).\<close>

definition Stub_PhaseCurrentsReady ::
  "'f float_arith \<Rightarrow> u16 list \<Rightarrow> current_handler \<Rightarrow> 'f StubPlatform \<Rightarrow> ('f StubPlatform \<times> 'f platform_effect list) option" where
  "Stub_PhaseCurrentsReady A noSamples onDone p = do {
     let p = p\<lparr>stubOnPhaseCurrentsReady := Some onDone\<rparr>;
     m \<leftarrow> stubAdc p;
     (a, b, c) \<leftarrow> Adc_Measured A m noSamples;
     Some (p, [CurrentsReported onDone a b c]) }"

text \<open>The encoder of the hal is a stub that reports zero for its position and for its resolution.\<close>

definition stubCounts :: encoder_counts where "stubCounts = (0, 0)"

definition Stub_Read :: "'f float_arith \<Rightarrow> 'f StubPlatform \<Rightarrow> 'f" where
  "Stub_Read A p = (if stubEncoder p = None then flit A 0 1 else fsub A (Decorator_Read A stubCounts) (stubEncoderOffset p))"

definition Stub_Set :: "'f float_arith \<Rightarrow> 'f \<Rightarrow> 'f StubPlatform \<Rightarrow> 'f StubPlatform" where
  "Stub_Set A v p = (if stubEncoder p = None then p else p\<lparr>stubEncoderOffset := fsub A (Decorator_Read A stubCounts) v\<rparr>)"

definition Stub_SetZero :: "'f float_arith \<Rightarrow> 'f StubPlatform \<Rightarrow> 'f StubPlatform" where
  "Stub_SetZero A p = (if stubEncoder p = None then p else p\<lparr>stubEncoderOffset := Decorator_Read A stubCounts\<rparr>)"

definition Stub_Register :: "callback \<Rightarrow> 'f StubPlatform \<Rightarrow> 'f StubPlatform" where
  "Stub_Register handler p = p\<lparr>stubOnLowPriorityInterrupt := Some handler\<rparr>"

text \<open>On the host the low-priority handler runs inside the trigger.\<close>

definition Host_Trigger :: "'f StubPlatform \<Rightarrow> 'f platform_effect list" where
  "Host_Trigger p = (case stubOnLowPriorityInterrupt p of None \<Rightarrow> [] | Some h \<Rightarrow> [LowPriorityHandler h])"

definition CanStub_SendData :: "callback \<Rightarrow> 'f platform_effect list" where
  "CanStub_SendData actionOnCompletion = [CanSent actionOnCompletion True]"

definition Host_Reset :: "'f platform_effect list" where
  "Host_Reset = [ProgramExit]"

section \<open>The encoder\<close>

lemma wrap_floor:
  fixes x :: real
  obtains k :: int where "x - 2 * pi * of_int \<lfloor>(x + pi) / (2 * pi)\<rfloor> = x - 2 * pi * of_int k"
    "- pi \<le> x - 2 * pi * of_int k" "x - 2 * pi * of_int k < pi"
proof -
  define k where "k = \<lfloor>(x + pi) / (2 * pi)\<rfloor>"
  have "of_int k \<le> (x + pi) / (2 * pi)" "(x + pi) / (2 * pi) < of_int k + 1" by (simp_all add: k_def)
  then have "of_int k * (2 * pi) \<le> x + pi" "x + pi < (of_int k + 1) * (2 * pi)"
    by (simp_all add: pos_le_divide_eq pos_divide_less_eq)
  then have "- pi \<le> x - 2 * pi * of_int k" "x - 2 * pi * of_int k < pi" by (simp_all add: algebra_simps)
  then show ?thesis using that [of k] by (simp add: k_def)
qed

text \<open>The decorator reports the angle of the count in the half-open turn around zero.\<close>

lemma Decorator_Read_exact:
  obtains k :: int where "Decorator_Read exact (c, r) = 2 * pi * uint c / uint r - 2 * pi * of_int k"
    "- pi \<le> Decorator_Read exact (c, r)" "Decorator_Read exact (c, r) < pi"
proof (rule wrap_floor [of "uint c * (2 * pi) / uint r"])
  fix k :: int
  assume "uint c * (2 * pi) / uint r - 2 * pi * of_int \<lfloor>(uint c * (2 * pi) / uint r + pi) / (2 * pi)\<rfloor> = uint c * (2 * pi) / uint r - 2 * pi * of_int k"
    "- pi \<le> uint c * (2 * pi) / uint r - 2 * pi * of_int k" "uint c * (2 * pi) / uint r - 2 * pi * of_int k < pi"
  then show ?thesis using that [of k] by (simp add: Decorator_Read_def Let_def mult.commute)
qed

text \<open>C27 (the encoder counts rotation). After the encoder of the TI factory was set to a value, it reads that
  value while the shaft does not move, and after any movement the value plus the rotation, up to whole turns;
  a reading never differs from the value by a full turn.\<close>

theorem encoder_reads_rotation:
  assumes "tiEncoder p = Some resolution"
  shows "\<exists>p'. Ti_Set exact (c, r) v p = Some p' \<and> Ti_Read exact (c, r) p' = Some v \<and>
    (\<forall>c'. \<exists>a k. Ti_Read exact (c', r) p' = Some a \<and> a = v + 2 * pi * (of_int (uint c' - uint c)) / of_int (uint r) + 2 * pi * of_int k \<and> \<bar>a - v\<bar> < 2 * pi)"
proof -
  obtain k where k: "Decorator_Read exact (c, r) = 2 * pi * uint c / uint r - 2 * pi * of_int k"
    "- pi \<le> Decorator_Read exact (c, r)" "Decorator_Read exact (c, r) < pi" by (rule Decorator_Read_exact)
  have moved: "\<exists>a j. Ti_Read exact (c', r) (p\<lparr>encoderOffset := Decorator_Read exact (c, r) - v\<rparr>) = Some a \<and>
      a = v + 2 * pi * (of_int (uint c' - uint c)) / of_int (uint r) + 2 * pi * of_int j \<and> \<bar>a - v\<bar> < 2 * pi" for c'
  proof -
    obtain k' where k': "Decorator_Read exact (c', r) = 2 * pi * uint c' / uint r - 2 * pi * of_int k'"
      "- pi \<le> Decorator_Read exact (c', r)" "Decorator_Read exact (c', r) < pi" by (rule Decorator_Read_exact)
    let ?a = "Decorator_Read exact (c', r) - (Decorator_Read exact (c, r) - v)"
    have "?a = v + 2 * pi * (of_int (uint c' - uint c)) / of_int (uint r) + 2 * pi * of_int (k - k')"
      using k(1) k'(1) by (simp add: algebra_simps diff_divide_distrib)
    moreover have "\<bar>?a - v\<bar> < 2 * pi" using k(2,3) k'(2,3) by linarith
    ultimately show ?thesis using assms by (intro exI [of _ ?a] exI [of _ "k - k'"]) (simp add: Ti_Read_def)
  qed
  show ?thesis using assms moved by (simp add: Ti_Set_def Ti_Read_def)
qed

theorem encoder_reads_rotation_witness:
  "\<forall>d. \<exists>p' a (k::int). Ti_Set exact (100, 4000) 1 (fst (Ti_SetEncoderResolution 4000 (fst (Ti_new exact EK_TM4C1294XL 1 d)))) = Some p' \<and>
    Ti_Read exact (1100, 4000) p' = Some a \<and> a = 1 + pi / 2 + 2 * pi * of_int k"
proof
  fix d
  have "tiEncoder (fst (Ti_SetEncoderResolution 4000 (fst (Ti_new exact EK_TM4C1294XL 1 d)))) = Some 4000"
    by (simp add: Ti_SetEncoderResolution_def)
  from encoder_reads_rotation [OF this, of 100 4000 1]
  show "\<exists>p' a (k::int). Ti_Set exact (100, 4000) 1 (fst (Ti_SetEncoderResolution 4000 (fst (Ti_new exact EK_TM4C1294XL 1 d)))) = Some p' \<and>
      Ti_Read exact (1100, 4000) p' = Some a \<and> a = 1 + pi / 2 + 2 * pi * of_int k"
    by (auto dest!: spec [of _ 1100])
qed

section \<open>The range of the current measurement\<close>

lemma measured_current:
  assumes "tiAdc p = Some \<lparr>adcSlope = AdcToAmpereSlope exact (adcReferenceVoltage exact) (adcResolution exact),
      adcOffset = AdcToAmpereOffset exact (adcReferenceVoltage exact)\<rparr>"
    and "onPhaseCurrentsReady (tiInverter p) = Some h" and "na < 4096" "nb < 4096" "nc < 4096"
  obtains a b c where "Ti_SamplesReady exact [na, nb, nc] p = Some [CurrentsReported h a b c]"
    "\<bar>a\<bar> \<le> 825 / 100" "\<bar>b\<bar> \<le> 825 / 100" "\<bar>c\<bar> \<le> 825 / 100"
proof -
  define amps :: "u16 \<Rightarrow> real" where "amps n = uint n * (33 / 10 / 4096 * 5) - 825 / 100" for n
  have "\<bar>amps n\<bar> \<le> 825 / 100" if "n < 4096" for n
  proof -
    have "0 \<le> uint n" "uint n < 4096" using that by (simp_all add: word_less_def)
    then have "0 \<le> real_of_int (uint n)" "real_of_int (uint n) \<le> 4096" by linarith+
    then show ?thesis unfolding amps_def abs_le_iff by (intro conjI) linarith+
  qed
  moreover have "Ti_SamplesReady exact [na, nb, nc] p = Some [CurrentsReported h (amps na) (amps nb) (amps nc)]"
    using assms(1,2) by (simp add: Ti_SamplesReady_def Adc_Measured_def vec_get_def amps_def AdcToAmpereSlope_def AdcToAmpereOffset_def
      adcReferenceVoltage_def adcResolution_def voltageToCurrent_def)
  ultimately show ?thesis using that assms(3-5) by blast
qed

text \<open>The converter is constructed with these numbers, and the limits lie outside of what it can measure: the
  supported 15 A and the trip current of 12 A are beyond 8.25 A, and the count at which the overcurrent
  comparator trips is, on the scale of the phase currents, below 5 A.\<close>

lemma board_thresholds:
  "OvervoltageThresholdCounts exact (adcReferenceVoltage exact) (adcResolution exact) = Some 3904"
  "OvercurrentThresholdCounts exact (adcResolution exact) = Some 3276"
  by (simp_all add: OvervoltageThresholdCounts_def OvercurrentThresholdCounts_def adcReferenceVoltage_def adcResolution_def
    overvoltageThresholdVolts_def voltageToVolts_def overcurrentThresholdAmps_def maxCurrentAmps_def cast_int_def truncate_real_def floor_eq_iff)

lemma trip_current_on_phase_scale:
  "3276 * AdcToAmpereSlope exact (adcReferenceVoltage exact) (adcResolution exact) + AdcToAmpereOffset exact (adcReferenceVoltage exact) < 5"
  "825 / 100 < overcurrentThresholdAmps exact" "825 / 100 < Ti_MaxCurrentSupported exact"
  by (simp_all add: AdcToAmpereSlope_def AdcToAmpereOffset_def adcReferenceVoltage_def adcResolution_def voltageToCurrent_def
    overcurrentThresholdAmps_def Ti_MaxCurrentSupported_def)

text \<open>The reset register: a software reset wins over every other flag, and no flag means power up.\<close>

lemma reset_causes:
  "resc AND 0x10 \<noteq> 0 \<Longrightarrow> fst (Ti_ReadAndClearResetCause resc) = SoftwareReset"
  "resc AND 0x3D = 0 \<Longrightarrow> fst (Ti_ReadAndClearResetCause resc) = PowerUpReset"
proof -
  show "resc AND 0x10 \<noteq> 0 \<Longrightarrow> fst (Ti_ReadAndClearResetCause resc) = SoftwareReset"
    by (simp add: Ti_ReadAndClearResetCause_def sysctlRescSw_def)
  assume none: "resc AND 0x3D = 0"
  have "resc AND m = 0" if "0x3D AND m = m" for m
  proof -
    have "resc AND m = (resc AND 0x3D) AND m" using that by (simp add: and.assoc)
    then show ?thesis using none by simp
  qed
  then show "fst (Ti_ReadAndClearResetCause resc) = PowerUpReset"
    by (simp add: Ti_ReadAndClearResetCause_def sysctlRescSw_def sysctlRescWdt0_def sysctlRescWdt1_def sysctlRescBor_def sysctlRescExt_def)
qed

text \<open>An overflow of the receive buffer is reported as an unknown error.\<close>

lemma overflow_is_unknown: "ToAdapterError e \<noteq> RxBufferOverflow"
  by (cases e) simp_all

end
