(* ===== verification/Application.thy ===== *)
theory Application
  imports Platform Mode_Properties Nvm_Properties
begin

text \<open>
  The application of the sensored motor control (\<open>targets/sync_foc_sensored\<close>): \<open>main\<close>, and the construction of
  \<open>Logic\<close> on the TI factory. It loads the configuration, configures encoder and CAN with it, and builds the
  control mode, whose machine then asks the memory service for its calibration.
\<close>

section \<open>Logic\<close>

text \<open>The fields that differ from one run to another; the services are built with their defaults.\<close>

record Application =
  appPlatform :: "f32 TiPlatform"
  appVdc :: f32
  appConfig :: ConfigData
  appCanNode :: "u16 option"
  appControl :: "ControlModeStateMachine option"

datatype app_effect = Hw "f32 platform_effect" | Ctl cm_effect | LoadConfigReq | CanTransportBuilt u16 | BridgeBuilt

definition controlLoopFrequencyHz :: u32 where "controlLoopFrequencyHz = 10000"
definition pwmDeadTimeNs :: u32 where "pwmDeadTimeNs = 500"

text \<open>The default torque constant \<open>0.1f\<close> of \<open>CalibrationServices\<close>, as a bit pattern.\<close>

definition defaultTorqueConstant :: f32 where "defaultTorqueConstant = 0x3DCCCCCD"

definition Logic_new :: "f32 float_arith \<Rightarrow> u16 list \<Rightarrow> f32 TiPlatform \<Rightarrow> (Application \<times> app_effect list) option" where
  "Logic_new A samples hardware = do {
     v \<leftarrow> Ti_PowerSupplyVoltage A samples;
     let (p, es) = Ti_ConfigureAdcAndPwm A controlLoopFrequencyHz pwmDeadTimeNs Shorter hardware;
     Some (\<lparr>appPlatform = p, appVdc = v, appConfig = MakeDefaultConfigData, appCanNode = None, appControl = None\<rparr>,
           map Hw es @ [LoadConfigReq]) }"

text \<open>The completion of the load. The fault notifier drops every registration.\<close>

definition Logic_OnConfigLoaded :: "NvmStatus \<Rightarrow> Application \<Rightarrow> Application \<times> app_effect list" where
  "Logic_OnConfigLoaded status a =
     (let cfg = (if status \<noteq> Ok then MakeDefaultConfigData else appConfig a);
          (p, es) = Ti_SetEncoderResolution (encoderResolution cfg) (appPlatform a);
          (p, fs) = Ti_ConfigureCanBus (canBaudrate cfg) False p;
          node = ucast (canNodeId cfg);
          (c, cs) = ControlModeStateMachine_new cfg False (appVdc a) (tiBaseFrequency p) defaultTorqueConstant
      in (a\<lparr>appPlatform := p, appConfig := cfg, appCanNode := Some node, appControl := Some c\<rparr>,
          map Hw (es @ fs) @ [CanTransportBuilt node] @ map Ctl cs @ [BridgeBuilt]))"

text \<open>What the machines ask of the encoder reaches the platform; \<open>enc\<close> is the count at that time.\<close>

fun encoder_calls :: "f32 float_arith \<Rightarrow> encoder_counts \<Rightarrow> cm_effect list \<Rightarrow> f32 TiPlatform \<Rightarrow> f32 TiPlatform option" where
  "encoder_calls A enc [] p = Some p"
| "encoder_calls A enc (Machine g (EncoderSet v) # es) p = do { p \<leftarrow> Ti_Set A enc v p; encoder_calls A enc es p }"
| "encoder_calls A enc (_ # es) p = encoder_calls A enc es p"

definition Logic_OnResponse ::
  "(f32 \<Rightarrow> f32 \<Rightarrow> f32) \<Rightarrow> f32 float_arith \<Rightarrow> encoder_counts \<Rightarrow> nat \<Rightarrow> sm_response \<Rightarrow> Application \<Rightarrow> (Application \<times> app_effect list) option" where
  "Logic_OnResponse fmul A enc g r a = do {
     c \<leftarrow> appControl a;
     (c, es) \<leftarrow> OnMachineResponse fmul g r c;
     p \<leftarrow> encoder_calls A enc es (appPlatform a);
     Some (a\<lparr>appControl := Some c, appPlatform := p\<rparr>, map Ctl es) }"

fun Logic_responses ::
  "(f32 \<Rightarrow> f32 \<Rightarrow> f32) \<Rightarrow> f32 float_arith \<Rightarrow> encoder_counts \<Rightarrow> nat \<Rightarrow> sm_response list \<Rightarrow> Application \<Rightarrow> (Application \<times> app_effect list) option" where
  "Logic_responses fmul A enc g [] a = Some (a, [])"
| "Logic_responses fmul A enc g (r # rs) a = do {
     (a, es) \<leftarrow> Logic_OnResponse fmul A enc g r a;
     (a, fs) \<leftarrow> Logic_responses fmul A enc g rs a;
     Some (a, es @ fs) }"

section \<open>Boot\<close>

text \<open>Boot over the service: the check, and the load when the check succeeds, each run to completion.\<close>

definition boot_responses ::
  "(u8 list \<Rightarrow> u32) \<Rightarrow> NonVolatileMemoryImpl \<Rightarrow> u8 list \<Rightarrow> sm_response list option" where
  "boot_responses crc n m =
     do { (n1, m1, es) \<leftarrow> perform crc calibrationRegion configRegion (IsCalibrationValid 0 n) m;
          case es of
            [ValidDone _ True] \<Rightarrow>
              do { (n2, m2, fs) \<leftarrow> perform crc calibrationRegion configRegion (LoadCalibration 0 1 n1) m1;
                   case fs of
                     [StoreCalibration _ d, StatusDone _ st] \<Rightarrow> Some [ValidityDone True, LoadDone (Some d) st]
                   | [StatusDone _ st] \<Rightarrow> Some [ValidityDone True, LoadDone None st]
                   | _ \<Rightarrow> None }
          | [ValidDone _ False] \<Rightarrow> Some [ValidityDone False]
          | _ \<Rightarrow> None }"

text \<open>From the construction of \<open>Logic\<close> to the last answer of the memory service.\<close>

definition application_boot ::
  "(f32 \<Rightarrow> f32 \<Rightarrow> f32) \<Rightarrow> f32 float_arith \<Rightarrow> (u8 list \<Rightarrow> u32) \<Rightarrow> u16 list \<Rightarrow> encoder_counts \<Rightarrow> u8 list \<Rightarrow> f32 TiPlatform \<Rightarrow>
     (Application \<times> app_effect list) option" where
  "application_boot fmul A crc samples enc m hardware = do {
     (a, es) \<leftarrow> Logic_new A samples hardware;
     (n1, m1, cs) \<leftarrow> perform crc calibrationRegion configRegion (LoadConfig 0 0 NonVolatileMemoryImpl_init) m;
     case cs of
       [StoreConfig _ cfg, StatusDone _ st] \<Rightarrow> do {
         let (a, fs) = Logic_OnConfigLoaded st (a\<lparr>appConfig := cfg\<rparr>);
         rs \<leftarrow> boot_responses crc n1 m1;
         (a, gs) \<leftarrow> Logic_responses fmul A enc 1 rs a;
         Some (a, es @ fs @ gs) }
     | _ \<Rightarrow> None }"

section \<open>main\<close>

text \<open>\<open>main\<close> builds the platform, whose constructor builds \<open>Logic\<close> through \<open>onInitialized\<close>, and runs it. \<open>Run\<close> of the
  TI factory is the event loop; \<open>Run\<close> of the stubs is empty, and a return from it reaches \<open>__builtin_unreachable\<close>
  (\<open>None\<close>). The result is whether \<open>Logic\<close> was built.\<close>

definition Ti_Run_returns :: bool where "Ti_Run_returns = False"
definition Stub_Run_returns :: bool where "Stub_Run_returns = True"

definition application_main :: "'f platform_effect list \<Rightarrow> bool \<Rightarrow> bool option" where
  "application_main construction run_returns = (if run_returns then None else Some (ApplicationInitialized \<in> set construction))"

lemma main_on_platforms:
  "application_main (snd (Ti_new A board resc d)) Ti_Run_returns = Some True"
  "application_main (snd (St_new A f rst d)) Stub_Run_returns = None" "ApplicationInitialized \<notin> set (snd (St_new A f rst d))"
  "application_main (snd (Host_new A)) Stub_Run_returns = None" "ApplicationInitialized \<notin> set (snd (Host_new A))"
  by (simp_all add: application_main_def Ti_new_def St_new_def Host_new_def Ti_Run_returns_def Stub_Run_returns_def)

section \<open>What the memory answers\<close>

context nvm_store
begin

lemma load_config_keeps:
  assumes "ok m" and "nvm_wf n" and "onConfigDone n = None" and "regRead GR m 29 = Some bs"
  shows "\<exists>n'. perform crc CR GR (LoadConfig out cb n) m =
      Some (n', m, [StoreConfig out (case config_verdict crc bs of None \<Rightarrow> MakeDefaultConfigData | Some d \<Rightarrow> d), StatusDone cb Ok]) \<and>
    nvm_wf n' \<and> onCalibrationDone n' = onCalibrationDone n \<and> onIsCalibrationValidDone n' = onIsCalibrationValidDone n"
proof -
  have "length bs = 29" using B.reg_read [OF assms(1) config_fits] assms(4) by auto
  with assms show ?thesis
    by (auto simp: run_simps LoadConfig_def OnConfigReadForLoad_def deliverConfig_def fireConfig_def config_verdict_def nvm_wf_def Let_def)
qed

end

text \<open>A valid image is loaded, any other content ends the check.\<close>

lemma boot_of_content:
  assumes "stub_ok m" and "nvm_wf n" and "onIsCalibrationValidDone n = None" and "onCalibrationDone n = None"
    and bs: "regRead calibrationRegion m 69 = Some bs"
  shows "boot_responses crc n m =
    Some (case calibration_verdict crc bs of Inl _ \<Rightarrow> [ValidityDone False] | Inr d \<Rightarrow> [ValidityDone True, LoadDone (Some d) Ok])"
proof -
  obtain n1 where 1: "perform crc calibrationRegion configRegion (IsCalibrationValid 0 n) m =
      Some (n1, m, [ValidDone 0 (\<exists>d. calibration_verdict crc bs = Inr d)])" "nvm_wf n1" "onCalibrationDone n1 = None"
    using logic_store.calibration_validity [OF assms(1-3) bs, of crc 0] assms(4) by auto
  show ?thesis
  proof (cases "calibration_verdict crc bs")
    case (Inr d)
    obtain n2 where 2: "perform crc calibrationRegion configRegion (LoadCalibration 0 1 n1) m = Some (n2, m, [StoreCalibration 0 d, StatusDone 1 Ok])"
      using logic_store.load_calibration [OF assms(1) 1(2,3) bs, of crc 0 1] Inr by auto
    show ?thesis unfolding boot_responses_def using 1(1) by (simp add: Inr 2 del: One_nat_def)
  qed (use 1(1) in \<open>simp add: boot_responses_def\<close>)
qed

lemma boot_of_image:
  assumes "stub_ok m" and "regRead calibrationRegion m 69 = Some (calibration_image crc d)"
  shows "boot_responses crc NonVolatileMemoryImpl_init m = Some [ValidityDone True, LoadDone (Some d) Ok]"
  using boot_of_content [OF assms(1) nvm_wf_init _ _ assms(2), of crc] by simp

section \<open>The booted application\<close>

lemma new_control_mode:
  "ControlModeStateMachine_new cfg False v f kt =
     (\<lparr>cmConfig = cfg, pendingSelectMode = ModeTorque, pendingSelectCallback = None, previousDefaultControlMode = 0,
       activeSm = Some (FocStateMachine_init (kind_of False (ControlModeFromRaw (defaultControlMode cfg))) v f kt), machineId = 1,
       mechIdentOverride = False, hwVdc = v, hwBaseFrequency = f, calTorqueConstant = kt\<rparr>, [Machine 1 (Ask NvmIsValid)])"
  by (simp add: ControlModeStateMachine_new_def Activate_def new_machine_def CheckNvmOnBoot_def Let_def)

text \<open>The answers of the memory service end in a ready machine that has set the encoder, or leave it idle.\<close>

lemma responses_without_calibration:
  assumes "appControl a = Some c" and "activeSm c = Some (FocStateMachine_init k v f kt)" and "machineId c = g"
  shows "Logic_responses fmul A enc g [ValidityDone False] a =
    Some (a, [Ctl (Machine g (Trace ''[SM] NVM invalid, starting in Idle''))])"
  using assms by (cases a; cases c) (simp add: Logic_OnResponse_def OnMachineResponse_def ToActive_def FocStateMachine_init_def OnBootValidity_def)

lemma responses_with_calibration:
  assumes "appControl a = Some c" and "activeSm c = Some (FocStateMachine_init k v f kt)" and "machineId c = g"
    and "tiEncoder (appPlatform a) = Some r"
  obtains sm es where "Logic_responses fmul A enc g [ValidityDone True, LoadDone (Some d) Ok] a =
      Some (a\<lparr>appControl := Some (c\<lparr>activeSm := Some sm\<rparr>),
              appPlatform := (appPlatform a)\<lparr>encoderOffset := fsub A (Decorator_Read A enc) (encoderZeroOffset d)\<rparr>\<rparr>, es)"
    "smKind sm = k" "currentState sm = Ready d"
proof -
  let ?s = "FocStateMachine_init k v f kt"
  have skip: "encoder_calls A enc (map (Machine g) (ApplyModeSpecificCalibration s d @ [Trace t])) p = Some p" for s t p
    by (simp add: ApplyModeSpecificCalibration_def)
  have "\<exists>sm es. Logic_responses fmul A enc g [ValidityDone True, LoadDone (Some d) Ok] a =
      Some (a\<lparr>appControl := Some (c\<lparr>activeSm := Some sm\<rparr>),
              appPlatform := (appPlatform a)\<lparr>encoderOffset := fsub A (Decorator_Read A enc) (encoderZeroOffset d)\<rparr>\<rparr>, es) \<and>
      smKind sm = k \<and> currentState sm = Ready d"
    using assms skip
    by (cases a; cases c)
      (simp add: Logic_OnResponse_def OnMachineResponse_def ToActive_def FocStateMachine_init_def OnBootValidity_def OnBootLoaded_def
        EnterReady_def ApplyCalibration_def ApplyModeSpecificCalibration_def Ti_Set_def Let_def)
  then show ?thesis using that by blast
qed



end
