(* ===== verification/Commander_Panels.thy ===== *)
theory Commander_Panels
  imports Can_Client
begin

text \<open>
  The panels of the CAN commander (\<open>CommandPanel.cpp\<close>, \<open>ConnectionPanel.cpp\<close>, \<open>TelemetryPanel.cpp\<close>) and the rest
  of its main window (\<open>MainWindow.cpp\<close>): connections, the source of read events, and what the panels show.
  Widgets are the values they hold; layout is not modelled.
\<close>

section \<open>The command panel\<close>

text \<open>The pages of the set point and gain stacks, and the mode label; a mode is its number.\<close>

record CommandPanel =
  setpointPage :: nat
  pidPage :: nat
  modeLabel :: string

definition CommandPanel_new :: CommandPanel where
  "CommandPanel_new = \<lparr>setpointPage = 0, pidPage = 0, modeLabel = ''Active: Unknown''\<rparr>"

text \<open>\<open>setCurrentIndex\<close> beyond the three pages changes nothing.\<close>

definition show_page :: "nat \<Rightarrow> nat \<Rightarrow> nat" where
  "show_page index page = (if index < 3 then index else page)"

definition SetActiveControlMode :: "u8 \<Rightarrow> CommandPanel \<Rightarrow> CommandPanel" where
  "SetActiveControlMode mode p =
     (let index = unat mode
      in p\<lparr>setpointPage := show_page index (setpointPage p), pidPage := show_page index (pidPage p),
           modeLabel := (if index \<le> 2 then ''Active: '' @ [''Torque'', ''Speed'', ''Position''] ! index else modeLabel p)\<rparr>)"

text \<open>A spin box holds a number of its range.\<close>

definition iqSpin :: "'f float_arith \<Rightarrow> 'f \<Rightarrow> 'f" where "iqSpin A v = clamp A v (fneg A (flit A 320 1)) (flit A 320 1)"
definition speedSpin :: "'f float_arith \<Rightarrow> 'f \<Rightarrow> 'f" where "speedSpin A v = clamp A v (fneg A (flit A 327670 1)) (flit A 327670 1)"
definition posSpin :: "'f float_arith \<Rightarrow> 'f \<Rightarrow> 'f" where "posSpin A v = clamp A v (fneg A (flit A 32767 2)) (flit A 32767 2)"
definition gainSpin :: "'f float_arith \<Rightarrow> 'f \<Rightarrow> 'f" where "gainSpin A v = clamp A v (flit A 0 1) (flit A 320 1)"

definition gain_spins :: "'f float_arith \<Rightarrow> 'f \<times> 'f \<times> 'f \<Rightarrow> 'f \<times> 'f \<times> 'f" where
  "gain_spins A g = (case g of (kp, ki, kd) \<Rightarrow> (gainSpin A kp, gainSpin A ki, gainSpin A kd))"

text \<open>What a button emits for the values that were typed.\<close>

fun panel_button :: "'f float_arith \<Rightarrow> 'f button \<Rightarrow> 'f button" where
  "panel_button A (SetTorqueSetpointRequested v) = SetTorqueSetpointRequested (iqSpin A v)"
| "panel_button A (SetSpeedSetpointRequested v) = SetSpeedSetpointRequested (speedSpin A v)"
| "panel_button A (SetPositionSetpointRequested v) = SetPositionSetpointRequested (posSpin A v)"
| "panel_button A (SetCurrentIdPidRequested g) = SetCurrentIdPidRequested (gain_spins A g)"
| "panel_button A (SetSpeedPidRequested g) = SetSpeedPidRequested (gain_spins A g)"
| "panel_button A (SetPositionPidRequested g) = SetPositionPidRequested (gain_spins A g)"
| "panel_button A b = b"

section \<open>The connection panel\<close>

record ConnectionPanel =
  interfaceCombo :: "string list"
  interfaceText :: string
  bitrateCombo :: nat
  connectButton :: bool
  disconnectButton :: bool
  interfaceEnabled :: bool
  refreshButton :: bool
  bitrateEnabled :: bool
  connectionLabel :: string

text \<open>The text that was chosen is kept if it is still offered.\<close>

definition RefreshInterfaces :: "string list \<Rightarrow> ConnectionPanel \<Rightarrow> ConnectionPanel" where
  "RefreshInterfaces available p =
     (let items = (if available = [] then [''can0''] else available)
      in p\<lparr>interfaceCombo := items, interfaceText := (if interfaceText p \<in> set items then interfaceText p else hd items)\<rparr>)"

definition ConnectionPanel_new :: "string list \<Rightarrow> ConnectionPanel" where
  "ConnectionPanel_new available = RefreshInterfaces available
     \<lparr>interfaceCombo = [], interfaceText = [], bitrateCombo = 3, connectButton = True, disconnectButton = False,
      interfaceEnabled = True, refreshButton = True, bitrateEnabled = True, connectionLabel = ''Disconnected''\<rparr>"

definition InterfaceName :: "ConnectionPanel \<Rightarrow> string" where
  "InterfaceName p = interfaceText p"

definition Bitrate :: "ConnectionPanel \<Rightarrow> u32" where
  "Bitrate p = [125000, 250000, 500000, 1000000] ! bitrateCombo p"

definition Panel_OnConnectionChanged :: "bool \<Rightarrow> ConnectionPanel \<Rightarrow> ConnectionPanel" where
  "Panel_OnConnectionChanged isConnected p =
     p\<lparr>connectButton := \<not> isConnected, disconnectButton := isConnected, interfaceEnabled := \<not> isConnected,
       refreshButton := \<not> isConnected, bitrateEnabled := \<not> isConnected,
       connectionLabel := (if isConnected then ''Connected'' else ''Disconnected'')\<rparr>"

section \<open>The telemetry panel\<close>

text \<open>The enumerators of the CAN library that the source names, and any other.\<close>

datatype FocMotorState = MotorIdle | MotorRunning | MotorFault | MotorCalibrating | MotorOther

datatype FocFaultCode = FaultNone | FaultOverCurrent | FaultOverVoltage | FaultUnderVoltage | FaultOverTemperature | FaultSensor | FaultOther

fun MotorStateName :: "FocMotorState \<Rightarrow> string" where
  "MotorStateName MotorIdle = ''Idle''"
| "MotorStateName MotorRunning = ''Running''"
| "MotorStateName MotorFault = ''Fault''"
| "MotorStateName MotorCalibrating = ''Calibrating''"
| "MotorStateName MotorOther = ''Unknown''"

fun FaultCodeName :: "FocFaultCode \<Rightarrow> string" where
  "FaultCodeName FaultNone = ''None''"
| "FaultCodeName FaultOverCurrent = ''Over Current''"
| "FaultCodeName FaultOverVoltage = ''Over Voltage''"
| "FaultCodeName FaultUnderVoltage = ''Under Voltage''"
| "FaultCodeName FaultOverTemperature = ''Over Temperature''"
| "FaultCodeName FaultSensor = ''Sensor Fault''"
| "FaultCodeName FaultOther = ''Unknown''"

text \<open>A number on a label is the value; its decimals are formatting.\<close>

record 'f TelemetryPanel =
  motorStateLabel :: string
  faultLabel :: string
  faultRed :: bool
  idCurrentLabel :: "'f option"
  iqCurrentLabel :: "'f option"
  speedLabel :: "'f option"
  positionLabel :: "'f option"
  busVoltageLabel :: "'f option"

definition TelemetryPanel_new :: "'f TelemetryPanel" where
  "TelemetryPanel_new = \<lparr>motorStateLabel = ''---'', faultLabel = ''---'', faultRed = False, idCurrentLabel = None,
     iqCurrentLabel = None, speedLabel = None, positionLabel = None, busVoltageLabel = None\<rparr>"

definition OnMotorStatus :: "FocMotorState \<Rightarrow> FocFaultCode \<Rightarrow> 'f TelemetryPanel \<Rightarrow> 'f TelemetryPanel" where
  "OnMotorStatus state fault p = p\<lparr>motorStateLabel := MotorStateName state, faultLabel := FaultCodeName fault\<rparr>"

definition OnCurrentMeasurement :: "'f \<Rightarrow> 'f \<Rightarrow> 'f TelemetryPanel \<Rightarrow> 'f TelemetryPanel" where
  "OnCurrentMeasurement i q p = p\<lparr>idCurrentLabel := Some i, iqCurrentLabel := Some q\<rparr>"

definition OnSpeedPosition :: "'f \<Rightarrow> 'f \<Rightarrow> 'f TelemetryPanel \<Rightarrow> 'f TelemetryPanel" where
  "OnSpeedPosition speed position p = p\<lparr>speedLabel := Some speed, positionLabel := Some position\<rparr>"

definition OnBusVoltage :: "'f \<Rightarrow> 'f TelemetryPanel \<Rightarrow> 'f TelemetryPanel" where
  "OnBusVoltage voltage p = p\<lparr>busVoltageLabel := Some voltage\<rparr>"

definition OnFaultEvent :: "FocFaultCode \<Rightarrow> 'f TelemetryPanel \<Rightarrow> 'f TelemetryPanel" where
  "OnFaultEvent fault p = p\<lparr>faultLabel := FaultCodeName fault, faultRed := True\<rparr>"

section \<open>The window\<close>

text \<open>\<open>liveNotifiers\<close> counts the socket notifiers that exist; only the last one is pointed to. \<open>fd\<close> is the
  descriptor of the adapter, negative when it has none.\<close>

record 'f CommanderWindow =
  cwMain :: MainWindow
  commandPanel :: CommandPanel
  connectionPanel :: ConnectionPanel
  telemetryPanel :: "'f TelemetryPanel"
  liveNotifiers :: nat
  socketNotifier :: bool
  rxPollTimer :: bool

definition CommanderWindow_new :: "string list \<Rightarrow> 'f CommanderWindow" where
  "CommanderWindow_new available =
     \<lparr>cwMain = \<lparr>windowClient = CanCommandClient_init, adapterConnected = False, commandsEnabled = False, timeoutTimer = False, logView = []\<rparr>,
      commandPanel = CommandPanel_new, connectionPanel = ConnectionPanel_new available, telemetryPanel = TelemetryPanel_new,
      liveNotifiers = 0, socketNotifier = False, rxPollTimer = False\<rparr>"

definition SetupSocketNotifier :: "int \<Rightarrow> 'f CommanderWindow \<Rightarrow> 'f CommanderWindow" where
  "SetupSocketNotifier fd w =
     (if 0 \<le> fd then w\<lparr>liveNotifiers := liveNotifiers w + 1, socketNotifier := True\<rparr> else w\<lparr>rxPollTimer := True\<rparr>)"

definition TeardownSocketNotifier :: "'f CommanderWindow \<Rightarrow> 'f CommanderWindow" where
  "TeardownSocketNotifier w =
     w\<lparr>rxPollTimer := False, liveNotifiers := (if socketNotifier w then liveNotifiers w - 1 else liveNotifiers w), socketNotifier := False\<rparr>"

text \<open>Read events come from a notifier or from the poll timer.\<close>

definition reads_adapter :: "'f CommanderWindow \<Rightarrow> bool" where
  "reads_adapter w \<longleftrightarrow> 0 < liveNotifiers w \<or> rxPollTimer w"

text \<open>The window and the requests it sends.\<close>

definition Window_OnConnectionChanged :: "int \<Rightarrow> bool \<Rightarrow> 'f CommanderWindow \<Rightarrow> 'f CommanderWindow \<times> can_request list" where
  "Window_OnConnectionChanged fd isConnected w =
     (let w = w\<lparr>connectionPanel := Panel_OnConnectionChanged isConnected (connectionPanel w),
                cwMain := window_notice (ConnectionChanged isConnected :: unit client_notice) (cwMain w)\<rparr>
      in if isConnected then (SetupSocketNotifier fd w, [ReqRequestTelemetry (nodeId (windowClient (cwMain w)))])
         else (TeardownSocketNotifier w, []))"

text \<open>The decoders of the CAN library.\<close>

record can_names =
  motorStateOf :: "u8 \<Rightarrow> FocMotorState"
  faultCodeOf :: "u8 \<Rightarrow> FocFaultCode"

fun commander_notice :: "can_names \<Rightarrow> int \<Rightarrow> 'f client_notice \<Rightarrow> 'f CommanderWindow \<Rightarrow> 'f CommanderWindow \<times> can_request list" where
  "commander_notice D fd (ConnectionChanged b) w = Window_OnConnectionChanged fd b w"
| "commander_notice D fd (MotorStatusReceived s f) w =
     (w\<lparr>telemetryPanel := OnMotorStatus (motorStateOf D s) (faultCodeOf D f) (telemetryPanel w)\<rparr>, [])"
| "commander_notice D fd (SpeedPositionReceived v p) w = (w\<lparr>telemetryPanel := OnSpeedPosition v p (telemetryPanel w)\<rparr>, [])"
| "commander_notice D fd (FaultEventReceived f) w = (w\<lparr>telemetryPanel := OnFaultEvent (faultCodeOf D f) (telemetryPanel w)\<rparr>, [])"
| "commander_notice D fd (CurrentMeasurementReceived i q) w = (w\<lparr>telemetryPanel := OnCurrentMeasurement i q (telemetryPanel w)\<rparr>, [])"
| "commander_notice D fd (BusVoltageReceived v) w = (w\<lparr>telemetryPanel := OnBusVoltage v (telemetryPanel w)\<rparr>, [])"
| "commander_notice D fd n w = (w\<lparr>cwMain := window_notice n (cwMain w)\<rparr>, [])"

fun commander_effects :: "can_names \<Rightarrow> int \<Rightarrow> 'f client_effect list \<Rightarrow> 'f CommanderWindow \<Rightarrow> 'f CommanderWindow \<times> can_request list" where
  "commander_effects D fd [] w = (w, [])"
| "commander_effects D fd (SendRequest r # es) w = (let (w, rs) = commander_effects D fd es w in (w, r # rs))"
| "commander_effects D fd (Notify n # es) w =
     (let (w, qs) = commander_notice D fd n w; (w, rs) = commander_effects D fd es w in (w, qs @ rs))"

section \<open>Events\<close>

text \<open>What a read from the adapter can bring. The node of an online message is not looked at.\<close>

datatype can_input =
  InOnline | InAck u8 u8 u8 | InModeResponse u8 | InStatus FocTelemetryStatus | InElectrical FocTelemetryElectrical

fun input_effects :: "'f float_arith \<Rightarrow> 'f foc_scales \<Rightarrow> can_input \<Rightarrow> CanCommandClient \<Rightarrow> 'f client_result" where
  "input_effects A K InOnline c = (c, OnServerOnline)"
| "input_effects A K (InAck cat cmd st) c = HandleCommandAck cat cmd st c"
| "input_effects A K (InModeResponse m) c = OnSelectControlModeResponse m c"
| "input_effects A K (InStatus s) c = (c, OnTelemetryStatusResponse A K s)"
| "input_effects A K (InElectrical e) c = (c, OnTelemetryElectricalResponse A K e)"

text \<open>\<open>ClickConnect\<close> and \<open>ClickDisconnect\<close> carry the notifications that the adapter makes. A node is found offline
  by a timer of the CAN library.\<close>

datatype 'f commander_event =
  ClickCommand "'f button" bool
| ClickQuery
| ClickConnect "bool list"
| ClickDisconnect "bool list"
| ClickRefresh "string list"
| NodeChanged u16
| CommandTimerExpires
| NodeOffline
| ReadEvent can_input

definition client_turn :: "can_names \<Rightarrow> int \<Rightarrow> 'f client_result \<Rightarrow> 'f CommanderWindow \<Rightarrow> 'f CommanderWindow \<times> can_request list" where
  "client_turn D fd r w = commander_effects D fd (snd r) (w\<lparr>cwMain := (cwMain w)\<lparr>windowClient := fst r\<rparr>\<rparr>)"

fun adapter_notifies :: "int \<Rightarrow> bool list \<Rightarrow> 'f CommanderWindow \<Rightarrow> 'f CommanderWindow \<times> can_request list" where
  "adapter_notifies fd [] w = (w, [])"
| "adapter_notifies fd (b # bs) w =
     (let (w, qs) = Window_OnConnectionChanged fd b (w\<lparr>cwMain := (cwMain w)\<lparr>adapterConnected := b\<rparr>\<rparr>);
          (w, rs) = adapter_notifies fd bs w in (w, qs @ rs))"

fun mode_clicked :: "'f button \<Rightarrow> CommandPanel \<Rightarrow> CommandPanel" where
  "mode_clicked (SetControlModeRequested m) p = SetActiveControlMode m p"
| "mode_clicked _ p = p"

fun commander_step ::
  "'f float_arith \<Rightarrow> 'f foc_scales \<Rightarrow> can_names \<Rightarrow> int \<Rightarrow> 'f commander_event \<Rightarrow> 'f CommanderWindow \<Rightarrow> ('f CommanderWindow \<times> can_request list) option" where
  "commander_step A K D fd (ClickCommand b sent) w =
     (if \<not> commandsEnabled (cwMain w) then Some (w, [])
      else do {
        r \<leftarrow> client_command A K sent (panel_button A b) (windowClient (cwMain w));
        let (w, rs) = client_turn D fd r w;
        Some (w\<lparr>commandPanel := mode_clicked b (commandPanel w), cwMain := (cwMain w)\<lparr>timeoutTimer := True\<rparr>\<rparr>, rs) })"
| "commander_step A K D fd ClickQuery w =
     Some (if \<not> commandsEnabled (cwMain w) then (w, []) else client_turn D fd (windowClient (cwMain w), RequestData (windowClient (cwMain w))) w)"
| "commander_step A K D fd (ClickConnect notes) w =
     Some (if \<not> connectButton (connectionPanel w) then (w, []) else adapter_notifies fd notes w)"
| "commander_step A K D fd (ClickDisconnect notes) w =
     Some (if \<not> disconnectButton (connectionPanel w) then (w, []) else adapter_notifies fd notes (TeardownSocketNotifier w))"
| "commander_step A K D fd (ClickRefresh available) w =
     Some (if \<not> refreshButton (connectionPanel w) then (w, []) else (w\<lparr>connectionPanel := RefreshInterfaces available (connectionPanel w)\<rparr>, []))"
| "commander_step A K D fd (NodeChanged i) w =
     Some (w\<lparr>cwMain := (cwMain w)\<lparr>windowClient := SetNodeId i (windowClient (cwMain w))\<rparr>\<rparr>, [])"
| "commander_step A K D fd CommandTimerExpires w =
     Some (if \<not> timeoutTimer (cwMain w) then (w, [])
           else client_turn D fd (HandleTimeout (windowClient (cwMain w))) (w\<lparr>cwMain := (cwMain w)\<lparr>timeoutTimer := False\<rparr>\<rparr>))"
| "commander_step A K D fd NodeOffline w = Some (client_turn D fd (windowClient (cwMain w), OnServerOffline) w)"
| "commander_step A K D fd (ReadEvent i) w =
     Some (if \<not> reads_adapter w then (w, []) else client_turn D fd (input_effects A K i (windowClient (cwMain w))) w)"

fun commander_run ::
  "'f float_arith \<Rightarrow> 'f foc_scales \<Rightarrow> can_names \<Rightarrow> int \<Rightarrow> 'f commander_event list \<Rightarrow> 'f CommanderWindow \<Rightarrow> ('f CommanderWindow \<times> can_request list) option" where
  "commander_run A K D fd [] w = Some (w, [])"
| "commander_run A K D fd (ev # evs) w = do {
     (w, qs) \<leftarrow> commander_step A K D fd ev w;
     (w, rs) \<leftarrow> commander_run A K D fd evs w;
     Some (w, qs @ rs) }"

section \<open>A node that went offline\<close>

text \<open>Notices other than a change of the connection and telemetry do not touch the reading of the adapter.\<close>

fun quiet_notice :: "'f client_notice \<Rightarrow> bool" where
  "quiet_notice (BusyChanged b) = True"
| "quiet_notice CommandTimeout = True"
| "quiet_notice (ControlModeAcknowledged m) = True"
| "quiet_notice (CommandAcknowledged a b c) = True"
| "quiet_notice _ = False"

fun quiet_effect :: "'f client_effect \<Rightarrow> bool" where
  "quiet_effect (SendRequest r) = True"
| "quiet_effect (Notify n) = quiet_notice n"

text \<open>What does not change while nothing reads the adapter.\<close>

definition deaf_as :: "'f CommanderWindow \<Rightarrow> 'f CommanderWindow \<Rightarrow> bool" where
  "deaf_as w v \<longleftrightarrow> \<not> reads_adapter v \<and> \<not> disconnectButton (connectionPanel v) \<and> connectionLabel (connectionPanel v) = ''Disconnected'' \<and>
     telemetryPanel v = telemetryPanel w \<and> adapterConnected (cwMain v) = adapterConnected (cwMain w)"

lemma quiet_notice_step:
  "quiet_notice n \<Longrightarrow> deaf_as w v \<Longrightarrow> deaf_as w (fst (commander_notice D fd n v))"
  by (cases n) (auto simp: deaf_as_def reads_adapter_def Let_def)

lemma quiet_effects:
  "list_all quiet_effect es \<Longrightarrow> deaf_as w v \<Longrightarrow> deaf_as w (fst (commander_effects D fd es v))"
proof (induction es arbitrary: v)
  case (Cons e es)
  then show ?case by (cases e) (auto simp: split_def Let_def intro: Cons.IH quiet_notice_step)
qed simp

lemma quiet_turn:
  "list_all quiet_effect (snd r) \<Longrightarrow> deaf_as w v \<Longrightarrow> deaf_as w (fst (client_turn D fd r v))"
  unfolding client_turn_def by (rule quiet_effects) (simp_all add: deaf_as_def reads_adapter_def)

lemma quiet_send: "list_all quiet_effect (snd (send_command sent r c))"
  by (simp add: send_command_def SetBusy_def Let_def)

lemma deaf_update:
  "deaf_as w v \<Longrightarrow> deaf_as w (v\<lparr>commandPanel := p, cwMain := (cwMain v)\<lparr>timeoutTimer := t\<rparr>\<rparr>)"
  "deaf_as w v \<Longrightarrow> deaf_as w (v\<lparr>cwMain := (cwMain v)\<lparr>timeoutTimer := t\<rparr>\<rparr>)"
  "deaf_as w v \<Longrightarrow> deaf_as w (v\<lparr>cwMain := (cwMain v)\<lparr>windowClient := c\<rparr>\<rparr>)"
  "deaf_as w v \<Longrightarrow> deaf_as w (v\<lparr>connectionPanel := RefreshInterfaces a (connectionPanel v)\<rparr>)"
  by (simp_all add: deaf_as_def reads_adapter_def RefreshInterfaces_def Let_def)

fun clicks_connect :: "'f commander_event \<Rightarrow> bool" where
  "clicks_connect (ClickConnect notes) = True"
| "clicks_connect _ = False"

lemma offline_again: "deaf_as w v \<Longrightarrow> deaf_as w (fst (client_turn D fd (windowClient (cwMain v), OnServerOffline) v))"
  by (simp add: client_turn_def OnServerOffline_def Window_OnConnectionChanged_def TeardownSocketNotifier_def
      Panel_OnConnectionChanged_def deaf_as_def reads_adapter_def Let_def)

lemma deaf_step:
  assumes "commander_step A K D fd ev v = Some (v', rs)" "\<not> clicks_connect ev" "deaf_as w v"
  shows "deaf_as w v'"
proof (cases ev)
  case (ClickCommand b sent)
  show ?thesis
  proof (cases "commandsEnabled (cwMain v)")
    case True
    with assms(1) ClickCommand obtain r where r: "client_command A K sent (panel_button A b) (windowClient (cwMain v)) = Some r"
      "v' = (let u = fst (client_turn D fd r v) in u\<lparr>commandPanel := mode_clicked b (commandPanel u), cwMain := (cwMain u)\<lparr>timeoutTimer := True\<rparr>\<rparr>)"
      by (auto simp: split_def Let_def split: bind_splits)
    from client_command_shape [OF r(1)] obtain q where "r = send_command sent q (windowClient (cwMain v))" ..
    then have "deaf_as w (fst (client_turn D fd r v))" using assms(3) by (simp add: quiet_turn quiet_send)
    then show ?thesis unfolding r(2) Let_def by (rule deaf_update(1))
  qed (use assms ClickCommand in simp)
next
  case ClickQuery
  have "deaf_as w (fst (client_turn D fd (windowClient (cwMain v), RequestData (windowClient (cwMain v))) v))"
    using assms(3) by (intro quiet_turn) (simp_all add: RequestData_def)
  with assms ClickQuery show ?thesis by (auto split: if_splits)
next
  case CommandTimerExpires
  have "deaf_as w (fst (client_turn D fd (HandleTimeout (windowClient (cwMain v))) (v\<lparr>cwMain := (cwMain v)\<lparr>timeoutTimer := False\<rparr>\<rparr>)))"
    using assms(3) by (intro quiet_turn deaf_update) (simp_all add: HandleTimeout_def SetBusy_def Let_def)
  with assms CommandTimerExpires show ?thesis by (auto split: if_splits)
next
  case NodeOffline
  with assms offline_again [of w v D fd] show ?thesis by auto
next
  case (ReadEvent i)
  with assms show ?thesis by (auto simp: deaf_as_def)
next
  case (ClickRefresh a)
  with assms show ?thesis by (auto intro: deaf_update split: if_splits)
next
  case (ClickDisconnect changes)
  with assms show ?thesis by (auto simp: deaf_as_def)
qed (use assms in \<open>auto intro: deaf_update\<close>)

lemma deaf_run:
  "commander_run A K D fd evs v = Some (v', rs) \<Longrightarrow> \<not> list_ex clicks_connect evs \<Longrightarrow> deaf_as w v \<Longrightarrow> deaf_as w v'"
proof (induction evs arbitrary: v rs)
  case (Cons ev evs)
  from Cons.prems(1) obtain u qs where "commander_step A K D fd ev v = Some (u, qs)"
    and u: "\<exists>rs. commander_run A K D fd evs u = Some (v', rs)" by (auto split: bind_splits prod.splits)
  with Cons.prems have "deaf_as w u" by (auto intro: deaf_step)
  with Cons.IH Cons.prems(2) u show ?case by auto
qed simp

lemma offline_deafens:
  assumes "liveNotifiers w = (if socketNotifier w then 1 else 0)"
  shows "deaf_as w (fst (client_turn D fd (windowClient (cwMain w), OnServerOffline) w))"
  using assms
  by (simp add: client_turn_def OnServerOffline_def Window_OnConnectionChanged_def TeardownSocketNotifier_def
      Panel_OnConnectionChanged_def deaf_as_def reads_adapter_def Let_def)


text \<open>A window on a Linux adapter that was connected, and decoders for examples.\<close>

definition connected_window :: "real CommanderWindow" where
  "connected_window = fst (adapter_notifies 5 [True] (CommanderWindow_new [''can1'']))"

definition example_names :: can_names where
  "example_names = \<lparr>motorStateOf = (\<lambda>n. if n = 1 then MotorRunning else MotorIdle), faultCodeOf = (\<lambda>n. if n = 1 then FaultOverCurrent else FaultNone)\<rparr>"

text \<open>A burst of events with a command, its timeout and the node that is back.\<close>

definition after_offline :: "real commander_event list" where
  "after_offline = [ReadEvent InOnline, CommandTimerExpires, ClickCommand EmergencyStopRequested True,
     ReadEvent (InStatus \<lparr>statusState = 1, statusFault = 1, statusSpeed = 5, statusPosition = 7\<rparr>)]"

lemmas commander_defs = connected_window_def CommanderWindow_new_def CommandPanel_new_def ConnectionPanel_new_def TelemetryPanel_new_def
  CanCommandClient_init_def RefreshInterfaces_def Window_OnConnectionChanged_def Panel_OnConnectionChanged_def SetupSocketNotifier_def
  TeardownSocketNotifier_def reads_adapter_def client_turn_def OnServerOffline_def OnServerOnline_def HandleTimeout_def SetBusy_def Let_def


section \<open>Further behaviour of the window\<close>

text \<open>On Linux each online message makes another notifier, and one offline message removes one of them.\<close>

lemma online_leaks_notifier:
  assumes "0 \<le> fd" "reads_adapter w"
  shows "\<exists>w' rs. commander_step A K D fd (ReadEvent InOnline) w = Some (w', rs) \<and>
     liveNotifiers w' = liveNotifiers w + 1 \<and> socketNotifier w'"
  using assms by (simp add: client_turn_def OnServerOnline_def Window_OnConnectionChanged_def SetupSocketNotifier_def Let_def)

lemma offline_keeps_leaked:
  assumes "1 < liveNotifiers w"
  shows "\<exists>w' rs. commander_step A K D fd NodeOffline w = Some (w', rs) \<and> reads_adapter w' \<and> connectionLabel (connectionPanel w') = ''Disconnected''"
  using assms by (simp add: client_turn_def OnServerOffline_def Window_OnConnectionChanged_def TeardownSocketNotifier_def
      Panel_OnConnectionChanged_def reads_adapter_def Let_def)

text \<open>A command that the library refused disables every button, the emergency stop included, until an answer or the timer.\<close>

lemma refused_command_disables_stop:
  assumes "commander_step A K D fd (ClickCommand b False) w = Some (w', rs)" "commandsEnabled (cwMain w)" "\<not> clientBusy (windowClient (cwMain w))"
  shows "commander_step A K D fd (ClickCommand EmergencyStopRequested sent) w' = Some (w', []) \<and> timeoutTimer (cwMain w')"
proof -
  from assms obtain r where r: "client_command A K False (panel_button A b) (windowClient (cwMain w)) = Some r"
    "w' = (let u = fst (client_turn D fd r w) in u\<lparr>commandPanel := mode_clicked b (commandPanel u), cwMain := (cwMain u)\<lparr>timeoutTimer := True\<rparr>\<rparr>)"
    by (auto simp: split_def Let_def split: bind_splits)
  from client_command_shape [OF r(1)] obtain q where "r = send_command False q (windowClient (cwMain w))" ..
  with r(2) assms(3) show ?thesis by (simp add: send_command_def SetBusy_def client_turn_def Let_def)
qed

text \<open>The mode is shown as active when it is requested; its response only writes to the log.\<close>

lemma mode_shown_before_response:
  assumes "commandsEnabled (cwMain w)" "unat m \<le> 2"
  shows "\<exists>w' rs. commander_step A K D fd (ClickCommand (SetControlModeRequested m) sent) w = Some (w', rs) \<and>
     modeLabel (commandPanel w') = ''Active: '' @ [''Torque'', ''Speed'', ''Position''] ! unat m"
  using assms by (simp add: split_def Let_def SetActiveControlMode_def)

text \<open>Once a fault was shown the label stays red, also when the motor reports no fault.\<close>

lemma fault_stays_red: "faultRed (OnMotorStatus st FaultNone (OnFaultEvent f p)) \<and> faultLabel (OnMotorStatus st FaultNone (OnFaultEvent f p)) = ''None''"
  by (simp add: OnMotorStatus_def OnFaultEvent_def)

text \<open>A refresh always offers at least one interface and shows one that is offered.\<close>

lemma refresh_offers: "InterfaceName (RefreshInterfaces av p) \<in> set (interfaceCombo (RefreshInterfaces av p))"
  by (auto simp: RefreshInterfaces_def InterfaceName_def Let_def)

end
