(* ===== verification/Hexagon_Widget.thy ===== *)
theory Hexagon_Widget
  imports Foc_Float
begin

text \<open>
  The voltage plane of the simulator (\<open>HexagonWidget.cpp\<close>): the modulation hexagon, its inscribed circle, the
  phase voltages and the resulting vector as the shapes that are drawn, and the sector that is reported. Pens,
  fonts and the text boxes are not modelled.
\<close>

section \<open>State\<close>

text \<open>Functions of the standard library: \<open>std::hypot\<close>, \<open>std::atan2\<close>, \<open>std::log10\<close> and \<open>std::pow(10, x)\<close>.\<close>

record 'f math_lib =
  hypotenuse :: "'f \<Rightarrow> 'f \<Rightarrow> 'f"
  arctangent2 :: "'f \<Rightarrow> 'f \<Rightarrow> 'f"
  logarithm10 :: "'f \<Rightarrow> 'f"
  power10 :: "'f \<Rightarrow> 'f"

record 'f HexagonWidget =
  vdcVolts :: 'f
  vaSample :: 'f
  vbSample :: 'f
  vcSample :: 'f
  vAlphaSample :: 'f
  vBetaSample :: 'f
  peakMagnitude :: 'f

definition HexagonWidget_new :: "'f float_arith \<Rightarrow> 'f HexagonWidget" where
  "HexagonWidget_new A = (let z = flit A 0 1 in \<lparr>vdcVolts = flit A 240 1, vaSample = z, vbSample = z, vcSample = z,
     vAlphaSample = z, vBetaSample = z, peakMagnitude = z\<rparr>)"

definition Hex_SetDcLink :: "'f \<Rightarrow> 'f HexagonWidget \<Rightarrow> 'f HexagonWidget" where
  "Hex_SetDcLink v w = w\<lparr>vdcVolts := v\<rparr>"

definition Hex_SetSample :: "'f float_arith \<Rightarrow> 'f math_lib \<Rightarrow> 'f \<times> 'f \<times> 'f \<Rightarrow> 'f \<times> 'f \<Rightarrow> 'f HexagonWidget \<Rightarrow> 'f HexagonWidget" where
  "Hex_SetSample A M abc ab w =
     (let magnitude = hypotenuse M (fst ab) (snd ab);
          factor = (if flt A (peakMagnitude w) magnitude then flit A 30 2 else flit A 15 4)
      in w\<lparr>vaSample := fst abc, vbSample := fst (snd abc), vcSample := snd (snd abc), vAlphaSample := fst ab, vBetaSample := snd ab,
           peakMagnitude := fadd A (peakMagnitude w) (ftimes A factor (fsub A magnitude (peakMagnitude w)))\<rparr>)"

definition Hex_Clear :: "'f float_arith \<Rightarrow> 'f HexagonWidget \<Rightarrow> 'f HexagonWidget" where
  "Hex_Clear A w = (let z = flit A 0 1 in w\<lparr>vaSample := z, vbSample := z, vcSample := z, vAlphaSample := z, vBetaSample := z, peakMagnitude := z\<rparr>)"

section \<open>Geometry\<close>

definition plotMargin :: int where "plotMargin = 40"
definition hexTwoThirds :: "'f float_arith \<Rightarrow> 'f" where "hexTwoThirds A = fdiv A (flit A 20 1) (flit A 30 1)"
definition pi_over_3 :: "'f float_arith \<Rightarrow> 'f" where "pi_over_3 A = fdiv A (fpi A) (flit A 30 1)"
definition twoPi_over_3 :: "'f float_arith \<Rightarrow> 'f" where "twoPi_over_3 A = fdiv A (ftimes A (flit A 20 1) (fpi A)) (flit A 30 1)"

definition phaseAngles :: "'f float_arith \<Rightarrow> 'f list" where
  "phaseAngles A = [flit A 0 1, twoPi_over_3 A, fneg A (twoPi_over_3 A)]"

type_synonym 'f point = "'f \<times> 'f"

definition point_plus :: "'f float_arith \<Rightarrow> 'f point \<Rightarrow> 'f point \<Rightarrow> 'f point" where
  "point_plus A p q = (fadd A (fst p) (fst q), fadd A (snd p) (snd q))"

definition VertexFor :: "'f float_arith \<Rightarrow> nat \<Rightarrow> 'f \<Rightarrow> 'f point" where
  "VertexFor A k radiusPixels =
     (let angle = ftimes A (fofint A (int k)) (pi_over_3 A)
      in (ftimes A radiusPixels (fcos A angle), ftimes A (fneg A radiusPixels) (fsin A angle)))"

definition ToScreen :: "'f float_arith \<Rightarrow> 'f point \<Rightarrow> 'f \<Rightarrow> 'f \<Rightarrow> 'f \<Rightarrow> 'f point" where
  "ToScreen A center vx vy scale = (fadd A (fst center) (ftimes A vx scale), fsub A (snd center) (ftimes A vy scale))"

text \<open>The conversion to \<open>int\<close> truncates.\<close>

definition SectorOf :: "'f float_arith \<Rightarrow> 'f math_lib \<Rightarrow> 'f \<Rightarrow> 'f \<Rightarrow> int option" where
  "SectorOf A M vAlpha vBeta =
     (if flt A (hypotenuse M vAlpha vBeta) (flit A 1 6) then Some 0
      else do {
        let angle = arctangent2 M vBeta vAlpha;
        let angle = (if flt A angle (flit A 0 1) then fadd A angle (ftimes A (flit A 20 1) (fpi A)) else angle);
        n \<leftarrow> cast_int32 A (fdiv A angle (pi_over_3 A));
        chk_int (n + 1) })"

section \<open>What is drawn\<close>

datatype 'f shape = Line "'f point" "'f point" | Polygon "'f point list" | Circle "'f point" 'f | Label "'f point" 'f

text \<open>The plot area is a square: its centre and its side.\<close>

record 'f plot =
  plotCenter :: "'f point"
  plotSide :: 'f
  plotScale :: 'f

definition axis_half_range :: "'f float_arith \<Rightarrow> 'f HexagonWidget \<Rightarrow> 'f" where
  "axis_half_range A w = (if flt A (flit A 0 1) (vdcVolts w) then ftimes A (hexTwoThirds A) (vdcVolts w) else flit A 10 1)"

definition plot_area :: "'f float_arith \<Rightarrow> int \<Rightarrow> int \<Rightarrow> 'f HexagonWidget \<Rightarrow> 'f plot option" where
  "plot_area A width height w =
     (let side = min width height - 2 * plotMargin
      in if side \<le> 0 then None
         else Some \<lparr>plotCenter = (fdiv A (fofint A width) (flit A 20 1), fdiv A (fofint A height) (flit A 20 1)), plotSide = fofint A side,
                     plotScale = fdiv A (fofint A side) (ftimes A (flit A 20 1) (axis_half_range A w))\<rparr>)"

definition DrawHexagon :: "'f float_arith \<Rightarrow> 'f plot \<Rightarrow> 'f HexagonWidget \<Rightarrow> 'f shape list" where
  "DrawHexagon A p w =
     (let radius = ftimes A (ftimes A (hexTwoThirds A) (vdcVolts w)) (plotScale p);
          corners = map (\<lambda>k. point_plus A (plotCenter p) (VertexFor A k radius)) [0..<6]
      in [Polygon corners] @ map (Line (plotCenter p)) corners @ map (\<lambda>c. Circle c (flit A 50 1)) corners)"

definition DrawInscribedCircle :: "'f float_arith \<Rightarrow> 'f plot \<Rightarrow> 'f HexagonWidget \<Rightarrow> 'f shape list" where
  "DrawInscribedCircle A p w = [Circle (plotCenter p) (ftimes A (ftimes A (finv_sqrt3 A) (vdcVolts w)) (plotScale p))]"

definition circle_radius :: "'f float_arith \<Rightarrow> 'f HexagonWidget \<Rightarrow> 'f" where
  "circle_radius A w = (if flt A (flit A 0 1) (vdcVolts w) then ftimes A (finv_sqrt3 A) (vdcVolts w) else flit A 10 1)"

text \<open>The largest phase voltage reaches the circle.\<close>

definition DrawPhasePhasors :: "'f float_arith \<Rightarrow> 'f plot \<Rightarrow> 'f HexagonWidget \<Rightarrow> 'f shape list" where
  "DrawPhasePhasors A p w =
     (let magnitudes = [vaSample w, vbSample w, vcSample w];
          peak = fold (\<lambda>m v. max2 A v m) [float_abs A (vbSample w), float_abs A (vcSample w), flit A 1 6] (float_abs A (vaSample w))
      in concat (map (\<lambda>i. (let normalized = ftimes A (fdiv A (magnitudes ! i) peak) (circle_radius A w);
                              angle = phaseAngles A ! i;
                              tip = ToScreen A (plotCenter p) (ftimes A normalized (fcos A angle)) (ftimes A normalized (fsin A angle)) (plotScale p)
                          in [Line (plotCenter p) tip, Circle tip (flit A 40 1)])) [0..<3]))"

text \<open>The vector always reaches the circle.\<close>

definition DrawResultantVector :: "'f float_arith \<Rightarrow> 'f math_lib \<Rightarrow> 'f plot \<Rightarrow> 'f HexagonWidget \<Rightarrow> 'f shape list" where
  "DrawResultantVector A M p w =
     (let magnitude = hypotenuse M (vAlphaSample w) (vBetaSample w)
      in if flt A magnitude (flit A 1 9) then []
         else (let scaleFactor = fdiv A (circle_radius A w) magnitude;
                   tip = ToScreen A (plotCenter p) (ftimes A (vAlphaSample w) scaleFactor) (ftimes A (vBetaSample w) scaleFactor) (plotScale p);
                   angle = arctangent2 M (vBetaSample w) (vAlphaSample w);
                   headLen = flit A 140 1; headHalfAngle = flit A 45 2;
                   wing = (\<lambda>a. (fsub A (fst tip) (ftimes A headLen (fcos A a)), fadd A (snd tip) (ftimes A headLen (fsin A a))))
               in [Line (plotCenter p) tip, Polygon [tip, wing (fsub A angle headHalfAngle), wing (fadd A angle headHalfAngle)]]))"

text \<open>The step of the grid in volts.\<close>

definition step_volts :: "'f float_arith \<Rightarrow> 'f math_lib \<Rightarrow> 'f \<Rightarrow> 'f" where
  "step_volts A M axisHalfRange =
     (let rawStep = fdiv A axisHalfRange (flit A 60 1);
          pow10 = power10 M (ffloor A (logarithm10 M rawStep));
          normalized = fdiv A rawStep pow10;
          niceMantissa = (if fle A (flit A 50 1) normalized then flit A 50 1 else if fle A (flit A 20 1) normalized then flit A 20 1 else flit A 10 1)
      in ftimes A niceMantissa pow10)"

definition grid_line :: "'f float_arith \<Rightarrow> 'f plot \<Rightarrow> 'f \<Rightarrow> 'f shape list" where
  "grid_line A p v =
     (let half = fdiv A (plotSide p) (flit A 20 1); c = plotCenter p;
          left = fsub A (fst c) half; right = fadd A (fst c) half; upper = fsub A (snd c) half; lower = fadd A (snd c) half;
          x = fadd A (fst c) (ftimes A v (plotScale p)); y = fsub A (snd c) (ftimes A v (plotScale p))
      in [Line (x, upper) (x, lower), Line (left, y) (right, y),
          Label (fsub A x (flit A 120 1), fadd A lower (flit A 140 1)) v, Label (fsub A left (flit A 340 1), fadd A y (flit A 40 1)) v])"

definition DrawAxes :: "'f float_arith \<Rightarrow> 'f math_lib \<Rightarrow> 'f plot \<Rightarrow> 'f shape list option" where
  "DrawAxes A M p = do {
     let axisHalfRange = fdiv A (fdiv A (plotSide p) (flit A 20 1)) (plotScale p);
     let stepVolts = step_volts A M axisHalfRange;
     firstTick \<leftarrow> cast_int32 A (ffloor A (fdiv A (fneg A axisHalfRange) stepVolts));
     firstTick \<leftarrow> chk_int (firstTick + 1);
     lastTick \<leftarrow> cast_int32 A (ffloor A (fdiv A axisHalfRange stepVolts));
     let half = fdiv A (plotSide p) (flit A 20 1);
     let c = plotCenter p;
     Some (concat (map (\<lambda>k. if k = 0 then [] else grid_line A p (ftimes A (fofint A k) stepVolts)) [firstTick..lastTick]) @
           [Line (fsub A (fst c) half, snd c) (fadd A (fst c) half, snd c), Line (fst c, fsub A (snd c) half) (fst c, fadd A (snd c) half)]) }"

text \<open>What the overlay reports: the voltage, its magnitude and its sector, \<open>None\<close> for the dash.\<close>

definition DrawInfoOverlay :: "'f float_arith \<Rightarrow> 'f math_lib \<Rightarrow> 'f HexagonWidget \<Rightarrow> ('f \<times> 'f \<times> 'f \<times> int option) option" where
  "DrawInfoOverlay A M w = do {
     n \<leftarrow> SectorOf A M (vAlphaSample w) (vBetaSample w);
     Some (vAlphaSample w, vBetaSample w, hypotenuse M (vAlphaSample w) (vBetaSample w), if n = 0 then None else Some n) }"

definition Hex_paint :: "'f float_arith \<Rightarrow> 'f math_lib \<Rightarrow> int \<Rightarrow> int \<Rightarrow> 'f HexagonWidget \<Rightarrow> ('f shape list \<times> ('f \<times> 'f \<times> 'f \<times> int option) option) option" where
  "Hex_paint A M width height w = (case plot_area A width height w of
       None \<Rightarrow> Some ([], None)
     | Some p \<Rightarrow> do {
         axes \<leftarrow> DrawAxes A M p;
         info \<leftarrow> DrawInfoOverlay A M w;
         Some (axes @ DrawHexagon A p w @ DrawInscribedCircle A p w @ DrawPhasePhasors A p w @ DrawResultantVector A M p w, Some info) })"

section \<open>Exact arithmetic\<close>

definition exact_atan2 :: "real \<Rightarrow> real \<Rightarrow> real" where
  "exact_atan2 y x =
     (if 0 < x then arctan (y / x) else if x < 0 then (if 0 \<le> y then arctan (y / x) + pi else arctan (y / x) - pi)
      else if 0 < y then pi / 2 else if y < 0 then - pi / 2 else 0)"

definition exact_math :: "real math_lib" where
  "exact_math = \<lparr>hypotenuse = (\<lambda>x y. sqrt (x\<^sup>2 + y\<^sup>2)), arctangent2 = exact_atan2, logarithm10 = log 10, power10 = (\<lambda>x. 10 powr x)\<rparr>"

lemma exact_math_simps [simp]:
  "hypotenuse exact_math x y = sqrt (x\<^sup>2 + y\<^sup>2)" "arctangent2 exact_math = exact_atan2"
  by (simp_all add: exact_math_def)

lemma hypotenuse_ratio: "x \<noteq> 0 \<Longrightarrow> sqrt (x\<^sup>2 + y\<^sup>2) = \<bar>x\<bar> * sqrt (1 + (y / x)\<^sup>2)" for x y :: real
proof -
  assume "x \<noteq> 0"
  then have "x\<^sup>2 + y\<^sup>2 = x\<^sup>2 * (1 + (y / x)\<^sup>2)" by (simp add: field_simps power2_eq_square)
  then show ?thesis by (simp add: real_sqrt_mult)
qed

lemma atan2_polar:
  shows "x = sqrt (x\<^sup>2 + y\<^sup>2) * cos (exact_atan2 y x)" and "y = sqrt (x\<^sup>2 + y\<^sup>2) * sin (exact_atan2 y x)"
    and "- pi < exact_atan2 y x" and "exact_atan2 y x \<le> pi"
proof -
  have pos: "0 < sqrt (1 + (y / x)\<^sup>2)" by (simp add: add_pos_nonneg)
  show "x = sqrt (x\<^sup>2 + y\<^sup>2) * cos (exact_atan2 y x)" "y = sqrt (x\<^sup>2 + y\<^sup>2) * sin (exact_atan2 y x)"
    using pos by (auto simp: exact_atan2_def hypotenuse_ratio cos_arctan sin_arctan cos_add sin_add cos_diff sin_diff)
  show "- pi < exact_atan2 y x" "exact_atan2 y x \<le> pi"
    using arctan_lbound [of "y / x"] arctan_ubound [of "y / x"] pi_gt_zero arctan_le_zero_iff [of "y / x"] zero_le_arctan_iff [of "y / x"]
      arctan_less_zero_iff [of "y / x"] zero_less_arctan_iff [of "y / x"]
    by (auto simp: exact_atan2_def divide_le_0_iff zero_less_divide_iff)
qed

text \<open>The sector is the sixth of the turn that holds the angle.\<close>

lemma sector_of_angle:
  assumes "1 / 10 ^ 6 \<le> sqrt (a\<^sup>2 + b\<^sup>2)"
  obtains n \<theta> where "SectorOf exact exact_math a b = Some n" "1 \<le> n" "n \<le> 6"
    "of_int (n - 1) * (pi / 3) \<le> \<theta>" "\<theta> < of_int n * (pi / 3)"
    "a = sqrt (a\<^sup>2 + b\<^sup>2) * cos \<theta>" "b = sqrt (a\<^sup>2 + b\<^sup>2) * sin \<theta>"
proof -
  define \<theta> where "\<theta> = (if exact_atan2 b a < 0 then exact_atan2 b a + 2 * pi else exact_atan2 b a)"
  define m where "m = \<lfloor>\<theta> / (pi / 3)\<rfloor>"
  have bounds: "0 \<le> \<theta>" "\<theta> < 2 * pi" using atan2_polar(3,4) [of b a] pi_gt_zero by (auto simp: \<theta>_def)
  have polar: "a = sqrt (a\<^sup>2 + b\<^sup>2) * cos \<theta>" "b = sqrt (a\<^sup>2 + b\<^sup>2) * sin \<theta>"
    using atan2_polar(1,2) [of a b] atan2_polar(2) [of b a] by (auto simp: \<theta>_def add.commute)
  have q: "0 \<le> \<theta> / (pi / 3)" "\<theta> / (pi / 3) < 6" using bounds by (simp_all add: field_simps)
  then have m: "0 \<le> m" "m \<le> 5" by (auto simp: m_def floor_le_iff)
  have "of_int m \<le> \<theta> / (pi / 3)" "\<theta> / (pi / 3) < of_int m + 1" by (simp_all add: m_def)
  then have in_sector: "of_int m * (pi / 3) \<le> \<theta>" "\<theta> < (of_int m + 1) * (pi / 3)"
    using pi_gt_zero by (simp_all add: pos_le_divide_eq pos_divide_less_eq)
  have "truncate_real (\<theta> / (pi / 3)) = m" using q(1) by (simp add: truncate_real_def m_def)
  then have "SectorOf exact exact_math a b = Some (m + 1)"
    using assms m by (auto simp: SectorOf_def cast_int_def pi_over_3_def \<theta>_def int_min_def int_max_def)
  then show ?thesis using that [of "m + 1" \<theta>] m in_sector polar by simp
qed

text \<open>The middle of an edge of a regular hexagon.\<close>

lemma edge_middle:
  fixes r t :: real
  shows "sqrt (((r * cos t + r * cos (t + pi / 3)) / 2)\<^sup>2 + ((r * sin t + r * sin (t + pi / 3)) / 2)\<^sup>2) = \<bar>r\<bar> * sqrt 3 / 2"
proof -
  have square: "((r * c + r * d) / 2)\<^sup>2 + ((r * u + r * v) / 2)\<^sup>2 = r\<^sup>2 * (c\<^sup>2 + u\<^sup>2 + (d\<^sup>2 + v\<^sup>2) + 2 * (d * c + v * u)) / 4" for c d u v :: real
    by (simp add: power2_eq_square field_simps)
  have "((r * cos t + r * cos (t + pi / 3)) / 2)\<^sup>2 + ((r * sin t + r * sin (t + pi / 3)) / 2)\<^sup>2 =
      r\<^sup>2 * ((cos t)\<^sup>2 + (sin t)\<^sup>2 + ((cos (t + pi / 3))\<^sup>2 + (sin (t + pi / 3))\<^sup>2) +
        2 * (cos (t + pi / 3) * cos t + sin (t + pi / 3) * sin t)) / 4"
    by (rule square)
  also have "cos (t + pi / 3) * cos t + sin (t + pi / 3) * sin t = cos (t + pi / 3 - t)" by (simp only: cos_diff)
  also have "r\<^sup>2 * ((cos t)\<^sup>2 + (sin t)\<^sup>2 + ((cos (t + pi / 3))\<^sup>2 + (sin (t + pi / 3))\<^sup>2) + 2 * cos (t + pi / 3 - t)) / 4 = (\<bar>r\<bar> * sqrt 3 / 2)\<^sup>2"
    by (simp add: cos_60 power_mult_distrib power_divide)
  finally show ?thesis by simp
qed

definition distance :: "real point \<Rightarrow> real point \<Rightarrow> real" where
  "distance p q = sqrt ((fst p - fst q)\<^sup>2 + (snd p - snd q)\<^sup>2)"

definition middle :: "real point \<Rightarrow> real point \<Rightarrow> real point" where
  "middle p q = ((fst p + fst q) / 2, (snd p + snd q) / 2)"

lemma next_vertex:
  assumes "k < 6"
  shows "VertexFor exact ((k + 1) mod 6) R = (R * cos (of_nat k * (pi / 3) + pi / 3), - R * sin (of_nat k * (pi / 3) + pi / 3))"
proof (cases "k = 5")
  case True
  have "of_nat k * (pi / 3) + pi / 3 = 2 * pi" using True by simp
  then show ?thesis using True by (simp add: VertexFor_def pi_over_3_def)
next
  case False
  then have "(k + 1) mod 6 = k + 1" using assms by simp
  then show ?thesis by (simp add: VertexFor_def pi_over_3_def Let_def algebra_simps add_divide_distrib)
qed

lemma vertex: "VertexFor exact k R = (R * cos (of_nat k * (pi / 3)), - R * sin (of_nat k * (pi / 3)))"
  by (simp add: VertexFor_def pi_over_3_def Let_def)

lemma middle_distance:
  "distance c (middle (point_plus exact c p) (point_plus exact c q)) = sqrt (((fst p + fst q) / 2)\<^sup>2 + ((snd p + snd q) / 2)\<^sup>2)"
proof -
  have "fst c - (fst c + fst p + (fst c + fst q)) / 2 = - ((fst p + fst q) / 2)"
    "snd c - (snd c + snd p + (snd c + snd q)) / 2 = - ((snd p + snd q) / 2)" by (simp_all add: field_simps)
  then show ?thesis by (simp only: distance_def middle_def point_plus_def fst_conv snd_conv exact_simps power2_minus)
qed

lemma edge_distance:
  assumes "k < 6" "0 \<le> R"
  shows "distance c (middle (point_plus exact c (VertexFor exact k R)) (point_plus exact c (VertexFor exact ((k + 1) mod 6) R))) = R * sqrt 3 / 2"
proof -
  have neg: "((- x + - y) / 2)\<^sup>2 = ((x + y) / 2)\<^sup>2" for x y :: real by (simp add: power2_eq_square field_simps)
  show ?thesis
    unfolding middle_distance next_vertex [OF assms(1)]
    unfolding vertex fst_conv snd_conv mult_minus_left neg edge_middle
    using assms(2) by simp
qed

text \<open>The voltage plane. For a voltage that is not zero the overlay reports the sixth of the turn that holds its
  angle, the vector is drawn at that angle up to the inscribed circle, and this circle touches every edge of the
  hexagon, which fills the plot.\<close>

lemma hexagon_shows_voltage:
  assumes "0 < vdcVolts w" and "plot_area exact width height w = Some p"
    and "1 / 10 ^ 6 \<le> sqrt ((vAlphaSample w)\<^sup>2 + (vBetaSample w)\<^sup>2)"
  shows "\<exists>n \<theta> \<rho> tip wings corners rest.
    DrawInfoOverlay exact exact_math w = Some (vAlphaSample w, vBetaSample w, sqrt ((vAlphaSample w)\<^sup>2 + (vBetaSample w)\<^sup>2), Some n) \<and>
    1 \<le> n \<and> n \<le> 6 \<and> of_int (n - 1) * (pi / 3) \<le> \<theta> \<and> \<theta> < of_int n * (pi / 3) \<and>
    vAlphaSample w = sqrt ((vAlphaSample w)\<^sup>2 + (vBetaSample w)\<^sup>2) * cos \<theta> \<and>
    vBetaSample w = sqrt ((vAlphaSample w)\<^sup>2 + (vBetaSample w)\<^sup>2) * sin \<theta> \<and>
    DrawResultantVector exact exact_math p w = [Line (plotCenter p) tip, Polygon (tip # wings)] \<and>
    tip = (fst (plotCenter p) + \<rho> * cos \<theta>, snd (plotCenter p) - \<rho> * sin \<theta>) \<and>
    DrawInscribedCircle exact p w = [Circle (plotCenter p) \<rho>] \<and> 0 < \<rho> \<and>
    DrawHexagon exact p w = Polygon corners # rest \<and> length corners = 6 \<and>
    (\<forall>k < 6. distance (plotCenter p) (corners ! k) = plotSide p / 2 \<and>
      distance (plotCenter p) (middle (corners ! k) (corners ! ((k + 1) mod 6))) = \<rho>)"
proof -
  define a b m where abm: "a = vAlphaSample w" "b = vBetaSample w" "m = sqrt (a\<^sup>2 + b\<^sup>2)"
  define \<rho> where "\<rho> = 1 / sqrt 3 * vdcVolts w * plotScale p"
  define R where "R = 2 / 3 * vdcVolts w * plotScale p"
  from assms(2) have p: "plotSide p = 4 / 3 * vdcVolts w * plotScale p" "0 < plotScale p"
    using assms(1) by (auto simp: plot_area_def axis_half_range_def hexTwoThirds_def Let_def split: if_splits)
  then have R: "R = plotSide p / 2" "0 < R" "R * sqrt 3 / 2 = \<rho>" "0 < \<rho>"
    using assms(1) by (simp_all add: R_def \<rho>_def real_div_sqrt field_simps)
  obtain n \<theta> where s: "SectorOf exact exact_math a b = Some n" "1 \<le> n" "n \<le> 6" "of_int (n - 1) * (pi / 3) \<le> \<theta>" "\<theta> < of_int n * (pi / 3)"
    "a = m * cos \<theta>" "b = m * sin \<theta>" unfolding abm(3) by (rule sector_of_angle [of a b]) (use assms(3) abm in auto)
  have m: "1 / 10 ^ 6 \<le> m" "m \<noteq> 0" using assms(3) abm by auto
  define tip where "tip = (fst (plotCenter p) + \<rho> * cos \<theta>, snd (plotCenter p) - \<rho> * sin \<theta>)"
  have "a * (1 / sqrt 3 * vdcVolts w / m) * plotScale p = \<rho> * cos \<theta>" "b * (1 / sqrt 3 * vdcVolts w / m) * plotScale p = \<rho> * sin \<theta>"
    using m(2) by (simp_all add: s(6,7) \<rho>_def)
  then have "\<exists>wings. DrawResultantVector exact exact_math p w = [Line (plotCenter p) tip, Polygon (tip # wings)]"
    using m assms(1) by (simp add: DrawResultantVector_def ToScreen_def circle_radius_def abm [symmetric] tip_def Let_def)
  then obtain wings where wings: "DrawResultantVector exact exact_math p w = [Line (plotCenter p) tip, Polygon (tip # wings)]" ..
  let ?corners = "map (\<lambda>k. point_plus exact (plotCenter p) (VertexFor exact k R)) [0..<6]"
  obtain rest where hex: "DrawHexagon exact p w = Polygon ?corners # rest" by (simp add: DrawHexagon_def hexTwoThirds_def R_def Let_def)
  have corner: "distance (plotCenter p) (point_plus exact (plotCenter p) (VertexFor exact k R)) = R" for k
    using R(2) unfolding vertex distance_def point_plus_def
    by (simp add: power_mult_distrib distrib_left [symmetric])
  have "DrawInscribedCircle exact p w = [Circle (plotCenter p) \<rho>]" by (simp add: DrawInscribedCircle_def \<rho>_def)
  moreover have "DrawInfoOverlay exact exact_math w = Some (a, b, m, Some n)"
    using s(1,2) by (simp add: DrawInfoOverlay_def abm)
  moreover have "\<forall>k < 6. distance (plotCenter p) (?corners ! k) = plotSide p / 2 \<and>
      distance (plotCenter p) (middle (?corners ! k) (?corners ! ((k + 1) mod 6))) = \<rho>"
  proof (intro allI impI)
    fix k :: nat assume k: "k < 6"
    then have nth: "?corners ! k = point_plus exact (plotCenter p) (VertexFor exact k R)"
      "?corners ! ((k + 1) mod 6) = point_plus exact (plotCenter p) (VertexFor exact ((k + 1) mod 6) R)" by simp_all
    show "distance (plotCenter p) (?corners ! k) = plotSide p / 2 \<and>
        distance (plotCenter p) (middle (?corners ! k) (?corners ! ((k + 1) mod 6))) = \<rho>"
      unfolding nth edge_distance [OF k less_imp_le [OF R(2)]] corner R(3) using R(1) by blast
  qed
  ultimately show ?thesis
    using s wings hex R(4) unfolding abm [symmetric] tip_def [symmetric]
    by (intro exI [of _ n] exI [of _ \<theta>] exI [of _ \<rho>] exI [of _ tip] exI [of _ wings] exI [of _ ?corners] exI [of _ rest])
      (simp add: tip_def)
qed

lemma hexagon_shows_voltage_witness:
  "\<exists>n \<theta> p. plot_area exact 520 520 ((HexagonWidget_new exact)\<lparr>vBetaSample := 12\<rparr>) = Some p \<and>
    DrawInfoOverlay exact exact_math ((HexagonWidget_new exact)\<lparr>vBetaSample := 12\<rparr>) = Some (0, 12, 12, Some n) \<and>
    12 = 12 * sin \<theta> \<and> of_int (n - 1) * (pi / 3) \<le> \<theta> \<and> \<theta> < of_int n * (pi / 3)"
proof -
  let ?w = "(HexagonWidget_new exact)\<lparr>vBetaSample := 12\<rparr>"
  obtain p where p: "plot_area exact 520 520 ?w = Some p" by (simp add: plot_area_def plotMargin_def)
  have "0 < vdcVolts ?w" "vAlphaSample ?w = 0" "vBetaSample ?w = 12" by (simp_all add: HexagonWidget_new_def)
  with hexagon_shows_voltage [OF _ p] p show ?thesis by auto
qed

text \<open>No drawing reads the smoothed magnitude.\<close>

lemma peak_is_not_drawn: "Hex_paint A M width height (w\<lparr>peakMagnitude := x\<rparr>) = Hex_paint A M width height w"
proof -
  let ?v = "w\<lparr>peakMagnitude := x\<rparr>"
  have half: "axis_half_range A ?v = axis_half_range A w" and radius: "circle_radius A ?v = circle_radius A w"
    by (simp_all add: axis_half_range_def circle_radius_def)
  have fields: "vdcVolts ?v = vdcVolts w" "vaSample ?v = vaSample w" "vbSample ?v = vbSample w" "vcSample ?v = vcSample w"
    "vAlphaSample ?v = vAlphaSample w" "vBetaSample ?v = vBetaSample w" by simp_all
  have "plot_area A width height ?v = plot_area A width height w" by (simp only: plot_area_def half)
  moreover have "DrawHexagon A p ?v = DrawHexagon A p w" "DrawInscribedCircle A p ?v = DrawInscribedCircle A p w"
    "DrawPhasePhasors A p ?v = DrawPhasePhasors A p w" "DrawResultantVector A M p ?v = DrawResultantVector A M p w"
    "DrawInfoOverlay A M ?v = DrawInfoOverlay A M w" for p
    unfolding DrawHexagon_def DrawInscribedCircle_def DrawPhasePhasors_def DrawResultantVector_def DrawInfoOverlay_def radius fields
    by (rule refl)+
  ultimately show ?thesis by (simp only: Hex_paint_def)
qed

end
