(* ===== verification/Simulator_Panels.thy ===== *)
theory Simulator_Panels
  imports Scope_Widget Hexagon_Widget Motor_Model Mechanical_Ident Sm_Model
begin

text \<open>
  The panels of the simulator: \<open>ControlPanel.cpp\<close>, \<open>ParametersPanel.cpp\<close>, \<open>ScopesPanel.cpp\<close>, \<open>ScopeToolbar.cpp\<close>, and
  \<open>Gui.cpp\<close>, which connects them. Widgets are the values they hold and whether they are enabled; a label of a
  number holds the number. A click on a widget that is disabled does nothing, and an edit that does not change the
  value emits nothing. The rounding of a spin box to its decimals is left out.
\<close>

section \<open>The control panel\<close>

record SetpointConfig =
  spLabel :: string
  spUnit :: string
  spMin :: int
  spMax :: int
  spTickInterval :: int
  spDefault :: int

datatype panel_mode = PanelIdle | PanelRunning | PanelCalibrating

record 'f ControlPanel =
  panelMode :: panel_mode
  alignButton :: bool
  identifyElectricalButton :: bool
  identifyMechanicalButton :: bool
  startButton :: bool
  stopButton :: bool
  panelStatus :: string
  setpointSlider :: int
  setpointRange :: "int \<times> int"
  loadSpinBox :: 'f
  alignmentAvailable :: bool
  electricalIdentAvailable :: bool
  mechanicalIdentAvailable :: bool

datatype 'f panel_signal =
  StartSignal | StopSignal | SetpointSignal int | LoadSignal 'f | AlignSignal | IdentifyElectricalSignal | IdentifyMechanicalSignal
| StatusSignal string

type_synonym 'f control_result = "'f ControlPanel \<times> 'f panel_signal list"

fun Panel_SetMode :: "panel_mode \<Rightarrow> 'f ControlPanel \<Rightarrow> 'f control_result" where
  "Panel_SetMode PanelIdle p =
     (p\<lparr>panelMode := PanelIdle, alignButton := alignmentAvailable p, identifyElectricalButton := electricalIdentAvailable p,
        identifyMechanicalButton := mechanicalIdentAvailable p, startButton := True, stopButton := False, panelStatus := ''Idle''\<rparr>,
      [StatusSignal ''Idle''])"
| "Panel_SetMode PanelRunning p =
     (p\<lparr>panelMode := PanelRunning, alignButton := False, identifyElectricalButton := False, identifyMechanicalButton := False,
        startButton := False, stopButton := True, panelStatus := ''Running''\<rparr>, [StatusSignal ''Running''])"
| "Panel_SetMode PanelCalibrating p =
     (p\<lparr>panelMode := PanelCalibrating, alignButton := False, identifyElectricalButton := False, identifyMechanicalButton := False,
        startButton := False, stopButton := False\<rparr>, [])"

definition Panel_SetStatus :: "string \<Rightarrow> 'f ControlPanel \<Rightarrow> 'f control_result" where
  "Panel_SetStatus status p = (p\<lparr>panelStatus := status\<rparr>, [StatusSignal status])"

definition Panel_DisableMechanicalIdent :: "'f ControlPanel \<Rightarrow> 'f ControlPanel" where
  "Panel_DisableMechanicalIdent p = p\<lparr>mechanicalIdentAvailable := False, identifyMechanicalButton := False\<rparr>"

definition Panel_DisableElectricalIdent :: "'f ControlPanel \<Rightarrow> 'f ControlPanel" where
  "Panel_DisableElectricalIdent p = p\<lparr>electricalIdentAvailable := False, identifyElectricalButton := False\<rparr>"

definition Panel_DisableAlignment :: "'f ControlPanel \<Rightarrow> 'f ControlPanel" where
  "Panel_DisableAlignment p = p\<lparr>alignmentAvailable := False, alignButton := False\<rparr>"

definition Panel_CalibrationFinished :: "'f ControlPanel \<Rightarrow> 'f control_result" where
  "Panel_CalibrationFinished p = Panel_SetMode PanelIdle p"

definition ControlPanel_new :: "'f float_arith \<Rightarrow> SetpointConfig \<Rightarrow> 'f ControlPanel" where
  "ControlPanel_new A config = fst (Panel_SetMode PanelIdle
     \<lparr>panelMode = PanelIdle, alignButton = True, identifyElectricalButton = True, identifyMechanicalButton = True, startButton = True,
      stopButton = False, panelStatus = ''Idle'', setpointSlider = spDefault config, setpointRange = (spMin config, spMax config),
      loadSpinBox = flit A 2 2, alignmentAvailable = True, electricalIdentAvailable = True, mechanicalIdentAvailable = True\<rparr>)"

datatype 'f panel_input =
  ClickStart | ClickStop | MoveSlider int | EditLoad 'f | ClickAlign | ClickIdentifyElectrical | ClickIdentifyMechanical

definition calibrate_click :: "string \<Rightarrow> 'f panel_signal \<Rightarrow> 'f ControlPanel \<Rightarrow> 'f control_result" where
  "calibrate_click status signal p =
     (let (p, es) = Panel_SetMode PanelCalibrating p in (p\<lparr>panelStatus := status\<rparr>, es @ [StatusSignal status, signal]))"

fun panel_click :: "'f float_arith \<Rightarrow> 'f panel_input \<Rightarrow> 'f ControlPanel \<Rightarrow> 'f control_result" where
  "panel_click A ClickStart p =
     (if startButton p then (let (p, es) = Panel_SetMode PanelRunning p in (p, es @ [StartSignal])) else (p, []))"
| "panel_click A ClickStop p =
     (if stopButton p \<and> panelMode p = PanelRunning then (let (p, es) = Panel_SetMode PanelIdle p in (p, es @ [StopSignal])) else (p, []))"
| "panel_click A (MoveSlider v) p =
     (let v = max (fst (setpointRange p)) (min v (snd (setpointRange p)))
      in if v = setpointSlider p then (p, []) else (p\<lparr>setpointSlider := v\<rparr>, [SetpointSignal v]))"
| "panel_click A (EditLoad v) p =
     (let v = clamp A v (flit A 0 1) (flit A 10 1)
      in if v = loadSpinBox p then (p, []) else (p\<lparr>loadSpinBox := v\<rparr>, [LoadSignal v]))"
| "panel_click A ClickAlign p = (if alignButton p then calibrate_click ''Aligning...'' AlignSignal p else (p, []))"
| "panel_click A ClickIdentifyElectrical p =
     (if identifyElectricalButton p then calibrate_click ''Identifying electrical...'' IdentifyElectricalSignal p else (p, []))"
| "panel_click A ClickIdentifyMechanical p =
     (if identifyMechanicalButton p then calibrate_click ''Identifying mechanical...'' IdentifyMechanicalSignal p else (p, []))"

section \<open>The parameters panel\<close>

type_synonym 'f LoopPid = "'f \<times> 'f \<times> 'f"

record 'f PidParameters =
  pidCurrent :: "'f LoopPid"
  pidSpeed :: "'f LoopPid option"
  pidPosition :: "'f LoopPid option"

text \<open>A group of labels that is not built is \<open>None\<close>; a label without a number is \<open>None\<close> too.\<close>

record 'f ParametersPanel =
  resistanceLabel :: 'f
  inductanceLabel :: 'f
  frictionLabel :: 'f
  inertiaLabel :: 'f
  polePairsLabel :: nat
  alignmentOffsetLabel :: "'f option"
  currentGainLabels :: "'f \<times> 'f"
  speedGainLabels :: "'f LoopPid option option"
  positionGainLabels :: "'f LoopPid option option"
  noiseSpins :: "'f NoiseConfig"
  thermalSpins :: "'f ThermalConfig"
  encoderNoiseSpins :: "'f EncoderNoiseConfig"
  liveThermalLabels :: "('f \<times> 'f \<times> 'f) option"

definition thousand :: "'f float_arith \<Rightarrow> 'f" where "thousand A = flit A 10000 1"

definition update_gains :: "'f LoopPid option \<Rightarrow> 'f LoopPid option option \<Rightarrow> 'f LoopPid option option" where
  "update_gains gains labels = (case labels of None \<Rightarrow> None | Some l \<Rightarrow> Some (case gains of None \<Rightarrow> l | Some g \<Rightarrow> Some g))"

definition UpdatePidParameters :: "'f PidParameters \<Rightarrow> 'f ParametersPanel \<Rightarrow> 'f ParametersPanel" where
  "UpdatePidParameters pid p =
     p\<lparr>currentGainLabels := (fst (pidCurrent pid), fst (snd (pidCurrent pid))),
       speedGainLabels := update_gains (pidSpeed pid) (speedGainLabels p),
       positionGainLabels := update_gains (pidPosition pid) (positionGainLabels p)\<rparr>"

text \<open>The noise is edited in milliamperes and milliradians.\<close>

definition ParametersPanel_new :: "'f float_arith \<Rightarrow> 'f MotorParameters \<Rightarrow> 'f PidParameters \<Rightarrow> 'f ParametersPanel" where
  "ParametersPanel_new A params pid = UpdatePidParameters pid
     \<lparr>resistanceLabel = phaseResistance params, inductanceLabel = ftimes A (inductanceLd params) (thousand A),
      frictionLabel = viscousFriction params, inertiaLabel = rotorInertia params, polePairsLabel = unat (motorPolePairs params),
      alignmentOffsetLabel = None, currentGainLabels = (flit A 0 1, flit A 0 1),
      speedGainLabels = (if pidSpeed pid = None then None else Some None), positionGainLabels = (if pidPosition pid = None then None else Some None),
      noiseSpins = NoiseConfig_default A, thermalSpins = ThermalConfig_default A, encoderNoiseSpins = EncoderNoiseConfig_default A,
      liveThermalLabels = None\<rparr>"

definition UpdateResistance :: "'f \<Rightarrow> 'f ParametersPanel \<Rightarrow> 'f ParametersPanel" where "UpdateResistance v p = p\<lparr>resistanceLabel := v\<rparr>"
definition UpdateInductance :: "'f \<Rightarrow> 'f ParametersPanel \<Rightarrow> 'f ParametersPanel" where "UpdateInductance v p = p\<lparr>inductanceLabel := v\<rparr>"
definition UpdateFriction :: "'f \<Rightarrow> 'f ParametersPanel \<Rightarrow> 'f ParametersPanel" where "UpdateFriction v p = p\<lparr>frictionLabel := v\<rparr>"
definition UpdateInertia :: "'f \<Rightarrow> 'f ParametersPanel \<Rightarrow> 'f ParametersPanel" where "UpdateInertia v p = p\<lparr>inertiaLabel := v\<rparr>"
definition UpdatePolePairs :: "nat \<Rightarrow> 'f ParametersPanel \<Rightarrow> 'f ParametersPanel" where "UpdatePolePairs n p = p\<lparr>polePairsLabel := n\<rparr>"
definition UpdateAlignmentOffset :: "'f \<Rightarrow> 'f ParametersPanel \<Rightarrow> 'f ParametersPanel" where
  "UpdateAlignmentOffset v p = p\<lparr>alignmentOffsetLabel := Some v\<rparr>"

definition UpdateLiveThermal :: "'f float_arith \<Rightarrow> 'f \<Rightarrow> 'f \<Rightarrow> 'f \<Rightarrow> 'f ParametersPanel \<Rightarrow> 'f ParametersPanel" where
  "UpdateLiveThermal A temperature rEff lEff p = p\<lparr>liveThermalLabels := Some (temperature, rEff, ftimes A lEff (thousand A))\<rparr>"

definition EmitNoiseConfig :: "'f float_arith \<Rightarrow> 'f ParametersPanel \<Rightarrow> 'f NoiseConfig" where
  "EmitNoiseConfig A p = (let s = noiseSpins p in
     \<lparr>sigmaAmpere = fdiv A (sigmaAmpere s) (thousand A), biasAmpereA = fdiv A (biasAmpereA s) (thousand A),
      biasAmpereB = fdiv A (biasAmpereB s) (thousand A), biasAmpereC = fdiv A (biasAmpereC s) (thousand A)\<rparr>)"

definition EmitEncoderNoiseConfig :: "'f float_arith \<Rightarrow> 'f ParametersPanel \<Rightarrow> 'f EncoderNoiseConfig" where
  "EmitEncoderNoiseConfig A p = (let s = encoderNoiseSpins p in
     \<lparr>sigmaRadians = fdiv A (sigmaRadians s) (thousand A), biasRadians = fdiv A (biasRadians s) (thousand A)\<rparr>)"

definition EmitThermalConfig :: "'f ParametersPanel \<Rightarrow> 'f ThermalConfig" where
  "EmitThermalConfig p = thermalSpins p"

datatype 'f parameter_input =
  EditSigma 'f | EditBiasA 'f | EditBiasB 'f | EditBiasC 'f
| EditAmbient 'f | EditResistance 'f | EditCapacitance 'f | EditCopper 'f | EditIron 'f
| EditEncoderSigma 'f | EditEncoderBias 'f | ClickResetTemperature

datatype 'f parameter_signal =
  NoiseSignal "'f NoiseConfig" | ThermalSignal "'f ThermalConfig" | EncoderNoiseSignal "'f EncoderNoiseConfig" | ThermalResetSignal

type_synonym 'f parameter_result = "'f ParametersPanel \<times> 'f parameter_signal list"

definition edit_noise :: "'f float_arith \<Rightarrow> ('f NoiseConfig \<Rightarrow> 'f NoiseConfig) \<Rightarrow> 'f ParametersPanel \<Rightarrow> 'f parameter_result" where
  "edit_noise A f p = (let q = p\<lparr>noiseSpins := f (noiseSpins p)\<rparr> in if q = p then (p, []) else (q, [NoiseSignal (EmitNoiseConfig A q)]))"

definition edit_thermal :: "('f ThermalConfig \<Rightarrow> 'f ThermalConfig) \<Rightarrow> 'f ParametersPanel \<Rightarrow> 'f parameter_result" where
  "edit_thermal f p = (let q = p\<lparr>thermalSpins := f (thermalSpins p)\<rparr> in if q = p then (p, []) else (q, [ThermalSignal (EmitThermalConfig q)]))"

definition edit_encoder :: "'f float_arith \<Rightarrow> ('f EncoderNoiseConfig \<Rightarrow> 'f EncoderNoiseConfig) \<Rightarrow> 'f ParametersPanel \<Rightarrow> 'f parameter_result" where
  "edit_encoder A f p = (let q = p\<lparr>encoderNoiseSpins := f (encoderNoiseSpins p)\<rparr>
     in if q = p then (p, []) else (q, [EncoderNoiseSignal (EmitEncoderNoiseConfig A q)]))"

text \<open>Every spin box holds a number of its range.\<close>

fun parameter_edit :: "'f float_arith \<Rightarrow> 'f parameter_input \<Rightarrow> 'f ParametersPanel \<Rightarrow> 'f parameter_result" where
  "parameter_edit A (EditSigma v) p = edit_noise A (\<lambda>c. c\<lparr>sigmaAmpere := clamp A v (flit A 0 1) (flit A 5000 1)\<rparr>) p"
| "parameter_edit A (EditBiasA v) p = edit_noise A (\<lambda>c. c\<lparr>biasAmpereA := clamp A v (fneg A (flit A 5000 1)) (flit A 5000 1)\<rparr>) p"
| "parameter_edit A (EditBiasB v) p = edit_noise A (\<lambda>c. c\<lparr>biasAmpereB := clamp A v (fneg A (flit A 5000 1)) (flit A 5000 1)\<rparr>) p"
| "parameter_edit A (EditBiasC v) p = edit_noise A (\<lambda>c. c\<lparr>biasAmpereC := clamp A v (fneg A (flit A 5000 1)) (flit A 5000 1)\<rparr>) p"
| "parameter_edit A (EditAmbient v) p = edit_thermal (\<lambda>c. c\<lparr>ambientCelsius := clamp A v (fneg A (flit A 400 1)) (flit A 1500 1)\<rparr>) p"
| "parameter_edit A (EditResistance v) p = edit_thermal (\<lambda>c. c\<lparr>thermalResistance := clamp A v (flit A 1 2) (flit A 1000 1)\<rparr>) p"
| "parameter_edit A (EditCapacitance v) p = edit_thermal (\<lambda>c. c\<lparr>thermalCapacitance := clamp A v (flit A 1 1) (flit A 10000 1)\<rparr>) p"
| "parameter_edit A (EditCopper v) p = edit_thermal (\<lambda>c. c\<lparr>copperTempCoeff := clamp A v (flit A 0 1) (flit A 1 2)\<rparr>) p"
| "parameter_edit A (EditIron v) p = edit_thermal (\<lambda>c. c\<lparr>ironInductanceCoeff := clamp A v (fneg A (flit A 1 3)) (flit A 1 3)\<rparr>) p"
| "parameter_edit A (EditEncoderSigma v) p = edit_encoder A (\<lambda>c. c\<lparr>sigmaRadians := clamp A v (flit A 0 1) (flit A 10000 1)\<rparr>) p"
| "parameter_edit A (EditEncoderBias v) p =
     edit_encoder A (\<lambda>c. c\<lparr>biasRadians := clamp A v (fneg A (flit A 314159 2)) (flit A 314159 2)\<rparr>) p"
| "parameter_edit A ClickResetTemperature p = (p, [ThermalResetSignal])"

section \<open>The scopes\<close>

definition timeDivOptions :: "'f float_arith \<Rightarrow> 'f list" where
  "timeDivOptions A = [flit A 1 5, flit A 2 5, flit A 5 5, flit A 1 4, flit A 2 4, flit A 5 4, flit A 1 3, flit A 2 3, flit A 5 3,
     flit A 1 2, flit A 2 2, flit A 5 2, flit A 1 1, flit A 2 1, flit A 5 1, flit A 10 1]"

text \<open>The items of a combo box are as many as were added to it: none to that of the channels.\<close>

record 'f ScopeToolbar =
  timeDivCombo :: nat
  triggerModeCombo :: nat
  triggerEdgeCombo :: nat
  triggerLevelSpin :: 'f
  triggerChannelItems :: nat
  runStopStops :: bool

definition ScopeToolbar_new :: "'f float_arith \<Rightarrow> 'f ScopeToolbar" where
  "ScopeToolbar_new A = \<lparr>timeDivCombo = 9, triggerModeCombo = 0, triggerEdgeCombo = 0, triggerLevelSpin = flit A 0 1,
     triggerChannelItems = 0, runStopStops = True\<rparr>"

datatype 'f toolbar_input =
  ChooseTimeDiv nat | EditTriggerLevel 'f | ChooseTriggerMode nat | ChooseTriggerEdge nat | ChooseTriggerChannel nat
| ClickRunStop | ClickSingle | ClickForce

definition triggerModes :: "trigger_mode list" where "triggerModes = [AutoTrigger, NormalTrigger, SingleTrigger]"
definition triggerEdges :: "trigger_edge list" where "triggerEdges = [RisingEdge, FallingEdge]"

fun toolbar_event :: "'f float_arith \<Rightarrow> 'f toolbar_input \<Rightarrow> 'f ScopeToolbar \<times> 'f Scope \<Rightarrow> 'f ScopeToolbar \<times> 'f Scope" where
  "toolbar_event A (ChooseTimeDiv i) (t, s) =
     (if i < length (timeDivOptions A) \<and> i \<noteq> timeDivCombo t
      then (t\<lparr>timeDivCombo := i\<rparr>, SetTimePerDivision (timeDivOptions A ! i) s) else (t, s))"
| "toolbar_event A (EditTriggerLevel v) (t, s) =
     (let v = clamp A v (fneg A (flit A 1000 1)) (flit A 1000 1)
      in if v = triggerLevelSpin t then (t, s) else (t\<lparr>triggerLevelSpin := v\<rparr>, SetTriggerLevel v s))"
| "toolbar_event A (ChooseTriggerMode i) (t, s) =
     (if i < length triggerModes \<and> i \<noteq> triggerModeCombo t then (t\<lparr>triggerModeCombo := i\<rparr>, SetTriggerMode (triggerModes ! i) s) else (t, s))"
| "toolbar_event A (ChooseTriggerEdge i) (t, s) =
     (if i < length triggerEdges \<and> i \<noteq> triggerEdgeCombo t then (t\<lparr>triggerEdgeCombo := i\<rparr>, SetTriggerEdge (triggerEdges ! i) s) else (t, s))"
| "toolbar_event A (ChooseTriggerChannel i) (t, s) = (if i < triggerChannelItems t then (t, SetTriggerChannel i s) else (t, s))"
| "toolbar_event A ClickRunStop (t, s) = (let nowRunning = (\<not> scopeRunning s) in (t\<lparr>runStopStops := nowRunning\<rparr>, SetRunning nowRunning s))"
| "toolbar_event A ClickSingle (t, s) =
     (let s = SetRunning True (SetTriggerMode SingleTrigger s);
          s = (if triggerModeCombo t = 2 then s else SetTriggerMode (triggerModes ! 2) s)
      in (t\<lparr>triggerModeCombo := 2, runStopStops := True\<rparr>, s))"
| "toolbar_event A ClickForce (t, s) = (t, ForceTrigger s)"

record 'f ScopesPanel =
  scopesModeLabel :: string
  currentScope :: "'f Scope"
  currentToolbar :: "'f ScopeToolbar"
  voltageScope :: "'f Scope"
  voltageToolbar :: "'f ScopeToolbar"
  electricalRlsScope :: "'f Scope"
  mechanicalRlsScope :: "'f Scope"
  hexagonWidget :: "'f HexagonWidget"

definition channels :: "'f float_arith \<Rightarrow> nat \<Rightarrow> 'f Scope" where
  "channels A n = fold (\<lambda>i. SetChannelConfig i True) [0..<n] (SetChannelCount n (Scope_new A))"

definition ScopesPanel_new :: "'f float_arith \<Rightarrow> 'f ScopesPanel" where
  "ScopesPanel_new A = \<lparr>scopesModeLabel = ''Idle'', currentScope = channels A 3, currentToolbar = ScopeToolbar_new A,
     voltageScope = channels A 3, voltageToolbar = ScopeToolbar_new A, electricalRlsScope = channels A 2,
     mechanicalRlsScope = channels A 2, hexagonWidget = HexagonWidget_new A\<rparr>"

definition AddCurrentSample :: "'f float_arith \<Rightarrow> 'f list \<Rightarrow> 'f ScopesPanel \<Rightarrow> 'f ScopesPanel option" where
  "AddCurrentSample A vs p = map_option (\<lambda>r. p\<lparr>currentScope := fst r\<rparr>) (AddSample A vs (currentScope p))"

definition AddVoltageSample :: "'f float_arith \<Rightarrow> 'f list \<Rightarrow> 'f ScopesPanel \<Rightarrow> 'f ScopesPanel option" where
  "AddVoltageSample A vs p = map_option (\<lambda>r. p\<lparr>voltageScope := fst r\<rparr>) (AddSample A vs (voltageScope p))"

definition AddElectricalRlsSample :: "'f float_arith \<Rightarrow> 'f \<Rightarrow> 'f \<Rightarrow> 'f ScopesPanel \<Rightarrow> 'f ScopesPanel option" where
  "AddElectricalRlsSample A Rhat Lhat p =
     map_option (\<lambda>r. p\<lparr>electricalRlsScope := fst r\<rparr>) (AddSample A [Rhat, ftimes A Lhat (thousand A)] (electricalRlsScope p))"

definition AddMechanicalRlsSample :: "'f float_arith \<Rightarrow> 'f \<Rightarrow> 'f \<Rightarrow> 'f ScopesPanel \<Rightarrow> 'f ScopesPanel option" where
  "AddMechanicalRlsSample A Bhat Jhat p =
     map_option (\<lambda>r. p\<lparr>mechanicalRlsScope := fst r\<rparr>)
       (AddSample A [ftimes A Bhat (flit A 10000000 1), ftimes A Jhat (flit A 10000000 1)] (mechanicalRlsScope p))"

definition SetHexagonSample :: "'f float_arith \<Rightarrow> 'f math_lib \<Rightarrow> 'f ThreePhase \<Rightarrow> 'f TwoPhase \<Rightarrow> 'f ScopesPanel \<Rightarrow> 'f ScopesPanel" where
  "SetHexagonSample A M v ab p =
     p\<lparr>hexagonWidget := Hex_SetSample A M (phaseA v, phaseB v, phaseC v) (alphaAxis ab, betaAxis ab) (hexagonWidget p)\<rparr>"

definition Scopes_SetDcLink :: "'f \<Rightarrow> 'f ScopesPanel \<Rightarrow> 'f ScopesPanel" where
  "Scopes_SetDcLink v p = p\<lparr>hexagonWidget := Hex_SetDcLink v (hexagonWidget p)\<rparr>"

definition Scopes_SetMode :: "string \<Rightarrow> 'f ScopesPanel \<Rightarrow> 'f ScopesPanel" where
  "Scopes_SetMode label p = p\<lparr>scopesModeLabel := label\<rparr>"

definition Scopes_Clear :: "'f float_arith \<Rightarrow> 'f ScopesPanel \<Rightarrow> 'f ScopesPanel" where
  "Scopes_Clear A p = p\<lparr>currentScope := Scope_Clear A (currentScope p), voltageScope := Scope_Clear A (voltageScope p),
     hexagonWidget := Hex_Clear A (hexagonWidget p), electricalRlsScope := Scope_Clear A (electricalRlsScope p),
     mechanicalRlsScope := Scope_Clear A (mechanicalRlsScope p)\<rparr>"

end
