(* ===== verification/Simulator_App.thy ===== *)
theory Simulator_App
  imports Simulator_Panels
begin

text \<open>
  The window of the simulator (\<open>Gui.cpp\<close>), the observers that estimate the motor's parameters while it runs
  (\<open>OnlineElectricalRls.cpp\<close>, \<open>OnlineMechanicalRls.cpp\<close>), and the three simulators
  (\<open>RunTorque.cpp\<close>, \<open>RunSpeed.cpp\<close>, \<open>RunPosition.cpp\<close>, \<open>CalibrationsWiring.hpp\<close>) that connect the window to a
  controller and to the calibration services. Motor and services are outside: their notifications and answers
  are events, the requests to them outputs.
\<close>

section \<open>The window\<close>

record 'f Gui =
  guiControl :: "'f ControlPanel"
  guiParameters :: "'f ParametersPanel"
  guiScopes :: "'f ScopesPanel"

datatype 'f gui_effect =
  ControllerStart | ControllerStop | SetpointRequested int | ModelLoad 'f
| ModelNoise "'f NoiseConfig" | ModelEncoderNoise "'f EncoderNoiseConfig" | ModelThermal "'f ThermalConfig" | ModelResetTemperature
| AlignRequested | IdentifyElectricalRequested | IdentifyMechanicalRequested

fun gui_signal :: "'f panel_signal \<Rightarrow> 'f Gui \<Rightarrow> 'f Gui \<times> 'f gui_effect list" where
  "gui_signal (StatusSignal status) g = (g\<lparr>guiScopes := Scopes_SetMode status (guiScopes g)\<rparr>, [])"
| "gui_signal StartSignal g = (g, [ControllerStart])"
| "gui_signal StopSignal g = (g, [ControllerStop])"
| "gui_signal (SetpointSignal v) g = (g, [SetpointRequested v])"
| "gui_signal (LoadSignal v) g = (g, [ModelLoad v])"
| "gui_signal AlignSignal g = (g, [AlignRequested])"
| "gui_signal IdentifyElectricalSignal g = (g, [IdentifyElectricalRequested])"
| "gui_signal IdentifyMechanicalSignal g = (g, [IdentifyMechanicalRequested])"

fun gui_signals :: "'f panel_signal list \<Rightarrow> 'f Gui \<Rightarrow> 'f Gui \<times> 'f gui_effect list" where
  "gui_signals [] g = (g, [])"
| "gui_signals (e # es) g = (let (g, xs) = gui_signal e g; (g, ys) = gui_signals es g in (g, xs @ ys))"

definition gui_panel :: "'f control_result \<Rightarrow> 'f Gui \<Rightarrow> 'f Gui \<times> 'f gui_effect list" where
  "gui_panel r g = gui_signals (snd r) (g\<lparr>guiControl := fst r\<rparr>)"

fun gui_parameter :: "'f parameter_signal \<Rightarrow> 'f gui_effect" where
  "gui_parameter (NoiseSignal c) = ModelNoise c"
| "gui_parameter (ThermalSignal c) = ModelThermal c"
| "gui_parameter (EncoderNoiseSignal c) = ModelEncoderNoise c"
| "gui_parameter ThermalResetSignal = ModelResetTemperature"

definition Gui_new :: "'f float_arith \<Rightarrow> 'f MotorParameters \<Rightarrow> 'f PidParameters \<Rightarrow> SetpointConfig \<Rightarrow> 'f \<Rightarrow> 'f Gui" where
  "Gui_new A params pid config supply = \<lparr>guiControl = ControlPanel_new A config, guiParameters = ParametersPanel_new A params pid,
     guiScopes = Scopes_SetDcLink supply (ScopesPanel_new A)\<rparr>"

text \<open>The other operations only emit the status.\<close>

definition Gui_SetStatus :: "string \<Rightarrow> 'f Gui \<Rightarrow> 'f Gui" where
  "Gui_SetStatus status g = fst (gui_panel (Panel_SetStatus status (guiControl g)) g)"

definition Gui_SetMode :: "panel_mode \<Rightarrow> 'f Gui \<Rightarrow> 'f Gui" where
  "Gui_SetMode mode g = fst (gui_panel (Panel_SetMode mode (guiControl g)) g)"

text \<open>The bytes at the end of these labels are three characters: the literals are UTF-16.\<close>

definition label_end :: string where "label_end = [CHR 0xE2, CHR 0x80, CHR 0xA6]"

fun LabelFor :: "State \<Rightarrow> string" where
  "LabelFor Idle = ''Idle''"
| "LabelFor (Calibrating step d) = (case step of
       StepPolePairs \<Rightarrow> ''Calibrating: pole pairs'' @ label_end
     | StepResistanceAndInductance \<Rightarrow> ''Calibrating: R/L'' @ label_end
     | StepAlignment \<Rightarrow> ''Calibrating: alignment'' @ label_end
     | StepFrictionAndInertia \<Rightarrow> ''Calibrating: B/J'' @ label_end)"
| "LabelFor (Ready d) = ''Ready''"
| "LabelFor Enabled = ''Running''"
| "LabelFor (Fault f) = ''Fault''"

definition Gui_SetState :: "State \<Rightarrow> 'f Gui \<Rightarrow> 'f Gui" where
  "Gui_SetState state g = Gui_SetMode (case state of Calibrating step d \<Rightarrow> PanelCalibrating | Enabled \<Rightarrow> PanelRunning | _ \<Rightarrow> PanelIdle)
     (Gui_SetStatus (LabelFor state) g)"

definition Gui_CalibrationFinished :: "'f Gui \<Rightarrow> 'f Gui" where
  "Gui_CalibrationFinished g = fst (gui_panel (Panel_CalibrationFinished (guiControl g)) g)"

definition Gui_DisableMechanicalIdent :: "'f Gui \<Rightarrow> 'f Gui" where
  "Gui_DisableMechanicalIdent g = g\<lparr>guiControl := Panel_DisableMechanicalIdent (guiControl g)\<rparr>"

definition Gui_UpdatePidParameters :: "'f PidParameters \<Rightarrow> 'f Gui \<Rightarrow> 'f Gui" where
  "Gui_UpdatePidParameters pid g = g\<lparr>guiParameters := UpdatePidParameters pid (guiParameters g)\<rparr>"

definition SetIdentifiedElectrical :: "'f \<Rightarrow> 'f \<Rightarrow> 'f Gui \<Rightarrow> 'f Gui" where
  "SetIdentifiedElectrical resistance inductance g =
     g\<lparr>guiParameters := UpdateInductance inductance (UpdateResistance resistance (guiParameters g))\<rparr>"

definition SetIdentifiedPolePairs :: "nat \<Rightarrow> 'f Gui \<Rightarrow> 'f Gui" where
  "SetIdentifiedPolePairs n g = g\<lparr>guiParameters := UpdatePolePairs n (guiParameters g)\<rparr>"

definition SetIdentifiedMechanical :: "'f \<Rightarrow> 'f \<Rightarrow> 'f Gui \<Rightarrow> 'f Gui" where
  "SetIdentifiedMechanical b j g = g\<lparr>guiParameters := UpdateInertia j (UpdateFriction b (guiParameters g))\<rparr>"

definition SetAlignmentOffset :: "'f \<Rightarrow> 'f Gui \<Rightarrow> 'f Gui" where
  "SetAlignmentOffset offset g = g\<lparr>guiParameters := UpdateAlignmentOffset offset (guiParameters g)\<rparr>"

definition Gui_Started :: "'f float_arith \<Rightarrow> 'f Gui \<Rightarrow> 'f Gui" where
  "Gui_Started A g = (let g = Gui_SetStatus ''Running'' g in g\<lparr>guiScopes := Scopes_Clear A (guiScopes g)\<rparr>)"

definition Gui_PhaseCurrents :: "'f float_arith \<Rightarrow> 'f PhaseCurrents \<Rightarrow> 'f Gui \<Rightarrow> 'f Gui option" where
  "Gui_PhaseCurrents A c g =
     map_option (\<lambda>p. g\<lparr>guiScopes := p\<rparr>) (AddCurrentSample A [currentA c, currentB c, currentC c] (guiScopes g))"

definition Gui_StatorVoltages :: "'f float_arith \<Rightarrow> 'f math_lib \<Rightarrow> 'f ThreePhase \<Rightarrow> 'f TwoPhase \<Rightarrow> 'f Gui \<Rightarrow> 'f Gui option" where
  "Gui_StatorVoltages A M v ab g =
     map_option (\<lambda>p. g\<lparr>guiScopes := SetHexagonSample A M v ab p\<rparr>) (AddVoltageSample A [phaseA v, phaseB v, phaseC v] (guiScopes g))"

definition Gui_Finished :: "'f Gui \<Rightarrow> 'f Gui" where
  "Gui_Finished g = Gui_SetMode PanelIdle g"

definition OnElectricalRlsUpdate :: "'f float_arith \<Rightarrow> 'f \<times> 'f \<Rightarrow> 'f Gui \<Rightarrow> 'f Gui option" where
  "OnElectricalRlsUpdate A e g = map_option (\<lambda>p. g\<lparr>guiScopes := p\<rparr>) (AddElectricalRlsSample A (fst e) (snd e) (guiScopes g))"

definition OnMechanicalRlsUpdate :: "'f float_arith \<Rightarrow> 'f \<times> 'f \<Rightarrow> 'f Gui \<Rightarrow> 'f Gui option" where
  "OnMechanicalRlsUpdate A e g = map_option (\<lambda>p. g\<lparr>guiScopes := p\<rparr>) (AddMechanicalRlsSample A (fst e) (snd e) (guiScopes g))"

section \<open>Estimates while the motor runs\<close>

record ('r, 'f) OnlineElectricalRls =
  rlsPolePairs :: u8
  rlsEstimator :: "('r, 'f) RealTimeResistanceAndInductanceEstimator"
  lastVAlphaBeta :: "'f TwoPhase"

record ('r, 'f) OnlineMechanicalRls =
  mechRlsPolePairs :: u8
  mechRlsEstimator :: "('r, 'f) RealTimeFrictionAndInertiaEstimator"

definition OnlineElectricalRls_new :: "'f float_arith \<Rightarrow> ('r, 'm, 'f) rls_class \<Rightarrow> u8 \<Rightarrow> u32 \<Rightarrow> ('r, 'f) OnlineElectricalRls" where
  "OnlineElectricalRls_new A R pairs frequency = \<lparr>rlsPolePairs = pairs, rlsEstimator = ElecEstimator_new A R (flit A 998 3) frequency,
     lastVAlphaBeta = \<lparr>alphaAxis = flit A 0 1, betaAxis = flit A 0 1\<rparr>\<rparr>"

definition OnlineMechanicalRls_new :: "'f float_arith \<Rightarrow> ('r, 'm, 'f) rls_class \<Rightarrow> u8 \<Rightarrow> 'f \<Rightarrow> u32 \<Rightarrow> ('r, 'f) OnlineMechanicalRls" where
  "OnlineMechanicalRls_new A R pairs kt frequency = \<lparr>mechRlsPolePairs = pairs,
     mechRlsEstimator = MechEstimator_SetTorqueConstant kt (MechEstimator_new A R (flit A 995 3) frequency)\<rparr>"

text \<open>The observer and the estimates that it emits.\<close>

definition ElectricalRls_Currents ::
  "'f float_arith \<Rightarrow> ('r, 'm, 'f) rls_class \<Rightarrow> 'f PhaseCurrents \<Rightarrow> 'f \<Rightarrow> 'f \<Rightarrow> ('r, 'f) OnlineElectricalRls \<Rightarrow>
     (('r, 'f) OnlineElectricalRls \<times> 'f \<times> 'f) option" where
  "ElectricalRls_Currents A R currents theta omega o1 = do {
     let p = fofint A (uint (rlsPolePairs o1));
     let thetaElec = ftimes A p theta;
     cosTheta \<leftarrow> Cosine A thetaElec;
     sinTheta \<leftarrow> Sine A thetaElec;
     let idq = Park_Forward A (Clarke_Forward A \<lparr>phaseA = currentA currents, phaseB = currentB currents, phaseC = currentC currents\<rparr>) cosTheta sinTheta;
     let vdq = Park_Forward A (lastVAlphaBeta o1) cosTheta sinTheta;
     let e = ElecEstimator_Update A R (dAxis vdq) (dAxis idq) (qAxis idq) (ftimes A p omega) (rlsEstimator o1);
     Some (o1\<lparr>rlsEstimator := e\<rparr>, currentResistance e, ftimes A (currentInductance e) (flit A 1 3)) }"

definition ElectricalRls_Voltages :: "'f TwoPhase \<Rightarrow> ('r, 'f) OnlineElectricalRls \<Rightarrow> ('r, 'f) OnlineElectricalRls" where
  "ElectricalRls_Voltages ab o1 = o1\<lparr>lastVAlphaBeta := ab\<rparr>"

definition MechanicalRls_Currents ::
  "'f float_arith \<Rightarrow> ('r, 'm, 'f) rls_class \<Rightarrow> 'f PhaseCurrents \<Rightarrow> 'f \<Rightarrow> 'f \<Rightarrow> ('r, 'f) OnlineMechanicalRls \<Rightarrow>
     (('r, 'f) OnlineMechanicalRls \<times> 'f \<times> 'f) option" where
  "MechanicalRls_Currents A R currents theta omega o1 = do {
     e \<leftarrow> MechEstimator_Update A R currents omega (ftimes A (fofint A (uint (mechRlsPolePairs o1))) theta) (mechRlsEstimator o1);
     Some (o1\<lparr>mechRlsEstimator := e\<rparr>, currentFriction e, currentInertia e) }"

section \<open>The three simulators\<close>

datatype ControllerKind = TorqueKind | SpeedKind | PositionKind

definition simPowerSupply :: "'f float_arith \<Rightarrow> 'f" where "simPowerSupply A = flit A 240 1"
definition simTimeStep :: int where "simTimeStep = 10"
definition simBaseFrequency :: u32 where "simBaseFrequency = word_of_int (1000000 div simTimeStep)"
definition rpmToRadPerSec :: "'f float_arith \<Rightarrow> 'f" where "rpmToRadPerSec A = fdiv A (fpi A) (flit A 300 1)"
definition degreesToRadians :: "'f float_arith \<Rightarrow> 'f" where "degreesToRadians A = fdiv A (fpi A) (flit A 1800 1)"

fun setpoint_config :: "ControllerKind \<Rightarrow> SetpointConfig" where
  "setpoint_config TorqueKind = \<lparr>spLabel = ''Current Setpoint:'', spUnit = ''A'', spMin = - 15, spMax = 15, spTickInterval = 1, spDefault = 0\<rparr>"
| "setpoint_config SpeedKind = \<lparr>spLabel = ''Speed Setpoint:'', spUnit = ''RPM'', spMin = - 3000, spMax = 3000, spTickInterval = 500, spDefault = 0\<rparr>"
| "setpoint_config PositionKind = \<lparr>spLabel = ''Position Setpoint:'', spUnit = [CHR 0xB0], spMin = - 360, spMax = 360, spTickInterval = 45, spDefault = 0\<rparr>"

fun setpoint_value :: "'f float_arith \<Rightarrow> ControllerKind \<Rightarrow> int \<Rightarrow> 'f" where
  "setpoint_value A TorqueKind amps = fofint A amps"
| "setpoint_value A SpeedKind rpm = ftimes A (fofint A rpm) (rpmToRadPerSec A)"
| "setpoint_value A PositionKind degrees = ftimes A (fofint A degrees) (degreesToRadians A)"

definition default_gains :: "'f float_arith \<Rightarrow> ControllerKind \<Rightarrow> 'f PidParameters" where
  "default_gains A k = \<lparr>pidCurrent = (flit A 150 1, flit A 20000 1, flit A 0 1),
     pidSpeed = (if k = TorqueKind then None else Some (flit A 1 1, flit A 50 1, flit A 0 1)),
     pidPosition = (if k = PositionKind then Some (flit A 100 1, flit A 5 1, flit A 0 1) else None)\<rparr>"

text \<open>The services, and the request that is not answered yet. The code keeps no such record: an answer does the same
  whether it is awaited or not.\<close>

datatype calibration_service = AlignmentService | ResistanceService | PolePairsService | MechanicalService

datatype 'f calibration_answer =
  OffsetAnswer "'f option" | ResistanceAnswer "'f option" "'f option" | PolePairsAnswer "nat option" | MechanicalAnswer "'f option" "'f option"

fun service_of :: "'f calibration_answer \<Rightarrow> calibration_service" where
  "service_of (OffsetAnswer a) = AlignmentService"
| "service_of (ResistanceAnswer r l) = ResistanceService"
| "service_of (PolePairsAnswer n) = PolePairsService"
| "service_of (MechanicalAnswer b j) = MechanicalService"

record ('r, 'f) SimulatorApp =
  simController :: ControllerKind
  simGui :: "'f Gui"
  electricalRls :: "('r, 'f) OnlineElectricalRls"
  mechanicalRls :: "('r, 'f) OnlineMechanicalRls option"
  pendingService :: "calibration_service option"

datatype 'f sim_output = Forward "'f gui_effect" | SetpointGiven 'f | Requested calibration_service | Answered calibration_service

definition SimulatorApp_new :: "'f float_arith \<Rightarrow> ('r, 'm, 'f) rls_class \<Rightarrow> ControllerKind \<Rightarrow> ('r, 'f) SimulatorApp" where
  "SimulatorApp_new A R k =
     (let motor = JK42BLS01_X038ED A;
          gui = Gui_new A motor (default_gains A k) (setpoint_config k) (simPowerSupply A);
          torqueConstant = ftimes A (ftimes A (flit A 15 1) (fofint A (uint (motorPolePairs motor)))) (fluxLinkage motor)
      in \<lparr>simController = k, simGui = (if k = SpeedKind then gui else Gui_DisableMechanicalIdent gui),
          electricalRls = OnlineElectricalRls_new A R (motorPolePairs motor) simBaseFrequency,
          mechanicalRls = (if k = SpeedKind then Some (OnlineMechanicalRls_new A R (motorPolePairs motor) torqueConstant simBaseFrequency) else None),
          pendingService = None\<rparr>)"

definition start_calibration :: "CalibrationStep \<Rightarrow> calibration_service \<Rightarrow> ('r, 'f) SimulatorApp \<Rightarrow> ('r, 'f) SimulatorApp \<times> 'f sim_output list" where
  "start_calibration step service s =
     (s\<lparr>simGui := Gui_SetState (Calibrating step CalibrationData_init) (simGui s), pendingService := Some service\<rparr>,
      [Forward ControllerStop, Requested service])"

fun wire :: "'f float_arith \<Rightarrow> 'f gui_effect \<Rightarrow> ('r, 'f) SimulatorApp \<Rightarrow> ('r, 'f) SimulatorApp \<times> 'f sim_output list" where
  "wire A AlignRequested s = start_calibration StepAlignment AlignmentService s"
| "wire A IdentifyElectricalRequested s = start_calibration StepResistanceAndInductance ResistanceService s"
| "wire A IdentifyMechanicalRequested s =
     (if simController s = SpeedKind then start_calibration StepFrictionAndInertia MechanicalService s else (s, []))"
| "wire A (SetpointRequested n) s = (s, [SetpointGiven (setpoint_value A (simController s) n)])"
| "wire A e s = (s, [Forward e])"

fun wires :: "'f float_arith \<Rightarrow> 'f gui_effect list \<Rightarrow> ('r, 'f) SimulatorApp \<Rightarrow> ('r, 'f) SimulatorApp \<times> 'f sim_output list" where
  "wires A [] s = (s, [])"
| "wires A (e # es) s = (let (s, xs) = wire A e s; (s, ys) = wires A es s in (s, xs @ ys))"

definition finish_calibration :: "'f Gui \<Rightarrow> 'f Gui" where
  "finish_calibration g = Gui_SetState (Ready CalibrationData_init) (Gui_CalibrationFinished g)"

fun calibration_answered :: "'f calibration_answer \<Rightarrow> ('r, 'f) SimulatorApp \<Rightarrow> ('r, 'f) SimulatorApp \<times> 'f sim_output list" where
  "calibration_answered (OffsetAnswer a) s =
     (let g = (case a of None \<Rightarrow> simGui s | Some v \<Rightarrow> SetAlignmentOffset v (simGui s))
      in (s\<lparr>simGui := finish_calibration g, pendingService := None\<rparr>, [Answered AlignmentService]))"
| "calibration_answered (ResistanceAnswer r l) s =
     (let g = (if r \<noteq> None \<and> l \<noteq> None then Gui_SetState (Calibrating StepPolePairs CalibrationData_init) (simGui s) else simGui s)
      in (s\<lparr>simGui := g, pendingService := Some PolePairsService\<rparr>, [Answered ResistanceService, Requested PolePairsService]))"
| "calibration_answered (PolePairsAnswer n) s =
     (let g = (case n of None \<Rightarrow> simGui s | Some n \<Rightarrow> SetIdentifiedPolePairs n (simGui s))
      in (s\<lparr>simGui := finish_calibration g, pendingService := None\<rparr>, [Answered PolePairsService]))"
| "calibration_answered (MechanicalAnswer b j) s =
     (let g = (case (b, j) of (Some b, Some j) \<Rightarrow> SetIdentifiedMechanical b j (simGui s) | _ \<Rightarrow> simGui s)
      in (s\<lparr>simGui := finish_calibration g, pendingService := None\<rparr>, [Answered MechanicalService]))"

section \<open>Events\<close>

datatype 'f sim_event =
  PanelInput "'f panel_input" | ParameterInput "'f parameter_input" | CurrentToolbar "'f toolbar_input" | VoltageToolbar "'f toolbar_input"
| ModelNotice "(unit, 'f) model_effect" | ServiceAnswer "'f calibration_answer" | ThermalTimer 'f 'f 'f

text \<open>The window is told first, then the estimators.\<close>

fun sim_notice ::
  "'f float_arith \<Rightarrow> 'f math_lib \<Rightarrow> ('r, 'm, 'f) rls_class \<Rightarrow> (unit, 'f) model_effect \<Rightarrow> ('r, 'f) SimulatorApp \<Rightarrow> ('r, 'f) SimulatorApp option" where
  "sim_notice A M R NotifyStarted s = Some (s\<lparr>simGui := Gui_Started A (simGui s)\<rparr>)"
| "sim_notice A M R (NotifyPhaseCurrents c theta omega) s = do {
     g \<leftarrow> Gui_PhaseCurrents A c (simGui s);
     (e, est) \<leftarrow> ElectricalRls_Currents A R c theta omega (electricalRls s);
     g \<leftarrow> OnElectricalRlsUpdate A est g;
     case mechanicalRls s of
       None \<Rightarrow> Some (s\<lparr>simGui := g, electricalRls := e\<rparr>)
     | Some m \<Rightarrow> do {
         (m, est) \<leftarrow> MechanicalRls_Currents A R c theta omega m;
         g \<leftarrow> OnMechanicalRlsUpdate A est g;
         Some (s\<lparr>simGui := g, electricalRls := e, mechanicalRls := Some m\<rparr>) } }"
| "sim_notice A M R (NotifyStatorVoltages v ab) s = do {
     g \<leftarrow> Gui_StatorVoltages A M v ab (simGui s);
     Some (s\<lparr>simGui := g, electricalRls := ElectricalRls_Voltages ab (electricalRls s)\<rparr>) }"
| "sim_notice A M R NotifyFinished s = Some (s\<lparr>simGui := Gui_Finished (simGui s)\<rparr>)"
| "sim_notice A M R (CallbackCalled h c) s = Some s"

definition edit_scopes :: "('f ScopesPanel \<Rightarrow> 'f ScopesPanel) \<Rightarrow> ('r, 'f) SimulatorApp \<Rightarrow> ('r, 'f) SimulatorApp" where
  "edit_scopes f s = s\<lparr>simGui := (simGui s)\<lparr>guiScopes := f (guiScopes (simGui s))\<rparr>\<rparr>"

fun sim_step ::
  "'f float_arith \<Rightarrow> 'f math_lib \<Rightarrow> ('r, 'm, 'f) rls_class \<Rightarrow> 'f sim_event \<Rightarrow> ('r, 'f) SimulatorApp \<Rightarrow> (('r, 'f) SimulatorApp \<times> 'f sim_output list) option" where
  "sim_step A M R (PanelInput i) s =
     (let (g, es) = gui_panel (panel_click A i (guiControl (simGui s))) (simGui s) in Some (wires A es (s\<lparr>simGui := g\<rparr>)))"
| "sim_step A M R (ParameterInput i) s =
     (let (p, es) = parameter_edit A i (guiParameters (simGui s))
      in Some (wires A (map gui_parameter es) (s\<lparr>simGui := (simGui s)\<lparr>guiParameters := p\<rparr>\<rparr>)))"
| "sim_step A M R (CurrentToolbar i) s =
     Some (edit_scopes (\<lambda>p. (let (t, c) = toolbar_event A i (currentToolbar p, currentScope p) in p\<lparr>currentToolbar := t, currentScope := c\<rparr>)) s, [])"
| "sim_step A M R (VoltageToolbar i) s =
     Some (edit_scopes (\<lambda>p. (let (t, c) = toolbar_event A i (voltageToolbar p, voltageScope p) in p\<lparr>voltageToolbar := t, voltageScope := c\<rparr>)) s, [])"
| "sim_step A M R (ModelNotice e) s = map_option (\<lambda>s. (s, [])) (sim_notice A M R e s)"
| "sim_step A M R (ServiceAnswer a) s = Some (calibration_answered a s)"
| "sim_step A M R (ThermalTimer temperature rEff lEff) s =
     Some (s\<lparr>simGui := (simGui s)\<lparr>guiParameters := UpdateLiveThermal A temperature rEff lEff (guiParameters (simGui s))\<rparr>\<rparr>, [])"

fun sim_run ::
  "'f float_arith \<Rightarrow> 'f math_lib \<Rightarrow> ('r, 'm, 'f) rls_class \<Rightarrow> 'f sim_event list \<Rightarrow> ('r, 'f) SimulatorApp \<Rightarrow> (('r, 'f) SimulatorApp \<times> 'f sim_output list) option" where
  "sim_run A M R [] s = Some (s, [])"
| "sim_run A M R (ev # evs) s = do {
     (s, xs) \<leftarrow> sim_step A M R ev s;
     (s, ys) \<leftarrow> sim_run A M R evs s;
     Some (s, xs @ ys) }"

end
