(* ===== verification/Simulator_View.thy ===== *)
theory Simulator_View
  imports Simulator_App
begin

text \<open>
  Properties of the simulator's window: calibrations exclude each other and the motor's start and stop, the
  scope shows the currents since the last start, and what the labels and the estimators miss.
\<close>

section \<open>Calibrations\<close>

text \<open>The buttons follow the mode.\<close>

definition panel_ok :: "'f ControlPanel \<Rightarrow> bool" where
  "panel_ok p \<longleftrightarrow>
     alignButton p = (panelMode p = PanelIdle \<and> alignmentAvailable p) \<and>
     identifyElectricalButton p = (panelMode p = PanelIdle \<and> electricalIdentAvailable p) \<and>
     identifyMechanicalButton p = (panelMode p = PanelIdle \<and> mechanicalIdentAvailable p) \<and>
     startButton p = (panelMode p = PanelIdle) \<and> stopButton p = (panelMode p = PanelRunning)"

definition app_ok :: "('r, 'f) SimulatorApp \<Rightarrow> bool" where
  "app_ok s \<longleftrightarrow> panel_ok (guiControl (simGui s)) \<and> (panelMode (guiControl (simGui s)) = PanelCalibrating \<longleftrightarrow> pendingService s \<noteq> None) \<and>
     (mechanicalIdentAvailable (guiControl (simGui s)) \<longrightarrow> simController s = SpeedKind)"

text \<open>Requests and answers alternate, and the controller is started and stopped only when no request is pending.\<close>

fun exclusive :: "calibration_service option \<Rightarrow> 'f sim_output list \<Rightarrow> bool" where
  "exclusive p [] = True"
| "exclusive p (Requested v # os) = (p = None \<and> exclusive (Some v) os)"
| "exclusive p (Answered v # os) = (p = Some v \<and> exclusive None os)"
| "exclusive p (Forward e # os) = ((e = ControllerStart \<or> e = ControllerStop \<longrightarrow> p = None) \<and> exclusive p os)"
| "exclusive p (SetpointGiven v # os) = exclusive p os"

fun pending_after :: "calibration_service option \<Rightarrow> 'f sim_output list \<Rightarrow> calibration_service option" where
  "pending_after p [] = p"
| "pending_after p (Requested v # os) = pending_after (Some v) os"
| "pending_after p (Answered v # os) = pending_after None os"
| "pending_after p (Forward e # os) = pending_after p os"
| "pending_after p (SetpointGiven v # os) = pending_after p os"

lemma exclusive_append: "exclusive p (xs @ ys) = (exclusive p xs \<and> exclusive (pending_after p xs) ys)"
  by (induction p xs rule: exclusive.induct) auto

lemma pending_append: "pending_after p (xs @ ys) = pending_after (pending_after p xs) ys"
  by (induction p xs rule: pending_after.induct) auto

lemma signal_control: "guiControl (fst (gui_signal e g)) = guiControl g"
  by (cases e) simp_all

lemma signals_control: "guiControl (fst (gui_signals es g)) = guiControl g"
  by (induction es arbitrary: g) (simp_all add: split_def Let_def signal_control)

lemma panel_control [simp]: "guiControl (fst (gui_panel r g)) = fst r"
  by (simp add: gui_panel_def signals_control)

lemmas gui_control_simps = Gui_SetStatus_def Gui_SetMode_def Gui_SetState_def Gui_CalibrationFinished_def finish_calibration_def
  Panel_SetStatus_def Panel_CalibrationFinished_def Gui_Started_def Gui_Finished_def

text \<open>The parameters of the motor, the scopes and the services do not touch the control panel.\<close>

lemma identified_control [simp]:
  "guiControl (SetAlignmentOffset v g) = guiControl g" "guiControl (SetIdentifiedPolePairs n g) = guiControl g"
  "guiControl (SetIdentifiedMechanical b j g) = guiControl g"
  by (simp_all add: SetAlignmentOffset_def SetIdentifiedPolePairs_def SetIdentifiedMechanical_def)

lemma finished_ok:
  assumes "mechanicalIdentAvailable (guiControl g) \<longrightarrow> simController s = SpeedKind"
  shows "app_ok (s\<lparr>simGui := finish_calibration g, pendingService := None\<rparr>)"
  using assms by (simp add: app_ok_def panel_ok_def gui_control_simps)

lemma calibrating_ok:
  assumes "mechanicalIdentAvailable (guiControl (simGui s)) \<longrightarrow> simController s = SpeedKind"
  shows "app_ok (fst (start_calibration step v s))"
  using assms by (simp add: app_ok_def panel_ok_def start_calibration_def gui_control_simps)

definition step_ok :: "calibration_service option \<Rightarrow> ('r, 'f) SimulatorApp \<times> 'f sim_output list \<Rightarrow> bool" where
  "step_ok p r \<longleftrightarrow> app_ok (fst r) \<and> exclusive p (snd r) \<and> pending_after p (snd r) = pendingService (fst r)"

lemma sim_step_panel:
  "sim_step A M R (PanelInput i) s =
     (let r = panel_click A i (guiControl (simGui s)) in Some (wires A (snd (gui_panel r (simGui s))) (s\<lparr>simGui := fst (gui_panel r (simGui s))\<rparr>)))"
  by (simp add: split_def Let_def)

text \<open>What the signals of a click become.\<close>

lemma panel_effects:
  "snd (gui_panel (p, []) g) = []" "snd (gui_panel (p, [SetpointSignal v]) g) = [SetpointRequested v]" "snd (gui_panel (p, [LoadSignal l]) g) = [ModelLoad l]"
  "snd (gui_panel (p, [StatusSignal t, StartSignal]) g) = [ControllerStart]" "snd (gui_panel (p, [StatusSignal t, StopSignal]) g) = [ControllerStop]"
  "snd (gui_panel (p, [StatusSignal t, AlignSignal]) g) = [AlignRequested]"
  "snd (gui_panel (p, [StatusSignal t, IdentifyElectricalSignal]) g) = [IdentifyElectricalRequested]"
  "snd (gui_panel (p, [StatusSignal t, IdentifyMechanicalSignal]) g) = [IdentifyMechanicalRequested]"
  by (simp_all add: gui_panel_def)

lemma step_ok_calibration:
  assumes "mechanicalIdentAvailable (guiControl (simGui s)) \<longrightarrow> simController s = SpeedKind"
  shows "step_ok None (start_calibration step v s)"
  using calibrating_ok [OF assms, of step v] by (simp add: step_ok_def start_calibration_def)

lemma panel_step:
  assumes "app_ok s" "sim_step A M R (PanelInput i) s = Some r"
  shows "step_ok (pendingService s) r"
proof -
  let ?p = "guiControl (simGui s)" and ?c = "panel_click A i (guiControl (simGui s))"
  let ?g = "fst (gui_panel ?c (simGui s))"
  have r: "r = wires A (snd (gui_panel ?c (simGui s))) (s\<lparr>simGui := ?g\<rparr>)" using assms(2) by (simp only: sim_step_panel Let_def option.inject)
  have ok: "panel_ok ?p" "panelMode ?p = PanelCalibrating \<longleftrightarrow> pendingService s \<noteq> None" "mechanicalIdentAvailable ?p \<longrightarrow> simController s = SpeedKind"
    using assms(1) by (simp_all add: app_ok_def Let_def)
  have same: "step_ok (pendingService s) (s\<lparr>simGui := g\<rparr>, [])" if "guiControl g = ?p" for g
    using assms(1) that by (simp add: step_ok_def app_ok_def)
  have start: "step_ok (pendingService s) r"
    if "?c = calibrate_click t sig ?p" and "pendingService s = None"
      and "wires A (snd (gui_panel ?c (simGui s))) (s\<lparr>simGui := ?g\<rparr>) = start_calibration step v (s\<lparr>simGui := ?g\<rparr>)" for t sig step v
    using that ok(3) step_ok_calibration [of "s\<lparr>simGui := ?g\<rparr>" step v] by (simp add: r calibrate_click_def)
  have pair: "(let (s, xs) = c in (s, xs)) = c" for c :: "('a, 'b) SimulatorApp \<times> 'b sim_output list" by simp
  show ?thesis
  proof (cases i)
    case ClickStart
    then show ?thesis using ok same [of ?g] by (cases "startButton ?p") (simp_all add: r panel_effects step_ok_def app_ok_def panel_ok_def)
  next
    case ClickStop
    then show ?thesis using ok same [of ?g]
      by (cases "stopButton ?p \<and> panelMode ?p = PanelRunning") (auto simp: r panel_effects step_ok_def app_ok_def panel_ok_def)
  next
    case (MoveSlider v)
    then show ?thesis using ok same [of ?g]
      by (cases "max (fst (setpointRange ?p)) (min v (snd (setpointRange ?p))) = setpointSlider ?p")
        (simp_all add: r panel_effects step_ok_def app_ok_def panel_ok_def Let_def)
  next
    case (EditLoad v)
    then show ?thesis using ok same [of ?g]
      by (cases "clamp A v (flit A 0 1) (flit A 10 1) = loadSpinBox ?p") (simp_all add: r panel_effects step_ok_def app_ok_def panel_ok_def Let_def)
  next
    case ClickAlign
    show ?thesis
    proof (cases "alignButton ?p")
      case True
      then show ?thesis using ok ClickAlign
        by (intro start [of "''Aligning...''" AlignSignal StepAlignment AlignmentService])
          (auto simp: panel_effects calibrate_click_def panel_ok_def pair split_def Let_def)
    qed (use ok same [of ?g] ClickAlign in \<open>simp add: r panel_effects\<close>)
  next
    case ClickIdentifyElectrical
    show ?thesis
    proof (cases "identifyElectricalButton ?p")
      case True
      then show ?thesis using ok ClickIdentifyElectrical
        by (intro start [of "''Identifying electrical...''" IdentifyElectricalSignal StepResistanceAndInductance ResistanceService])
          (auto simp: panel_effects calibrate_click_def panel_ok_def pair split_def Let_def)
    qed (use ok same [of ?g] ClickIdentifyElectrical in \<open>simp add: r panel_effects\<close>)
  next
    case ClickIdentifyMechanical
    show ?thesis
    proof (cases "identifyMechanicalButton ?p")
      case True
      then show ?thesis using ok ClickIdentifyMechanical
        by (intro start [of "''Identifying mechanical...''" IdentifyMechanicalSignal StepFrictionAndInertia MechanicalService])
          (auto simp: panel_effects calibrate_click_def panel_ok_def pair split_def Let_def)
    qed (use ok same [of ?g] ClickIdentifyMechanical in \<open>simp add: r panel_effects\<close>)
  qed
qed

text \<open>Everything else that is not a notice of the end leaves the control panel and the pending request alone.\<close>

lemma app_ok_cong:
  assumes "app_ok s" "guiControl (simGui t) = guiControl (simGui s)" "pendingService t = pendingService s" "simController t = simController s"
  shows "app_ok t"
  using assms by (simp add: app_ok_def)

lemma parameter_wires:
  "wires A (map gui_parameter es) s = (s, map (\<lambda>e. Forward (gui_parameter e)) es)"
proof (induction es)
  case (Cons e es)
  then show ?case by (cases e) simp_all
qed simp

lemma parameter_outputs: "exclusive p (map (\<lambda>e. Forward (gui_parameter e)) es) \<and> pending_after p (map (\<lambda>e. Forward (gui_parameter e)) es) = p"
proof (induction es)
  case (Cons e es)
  then show ?case by (cases e) simp_all
qed simp

lemma scopes_control:
  "Gui_PhaseCurrents A c g = Some g' \<Longrightarrow> guiControl g' = guiControl g"
  "Gui_StatorVoltages A M v ab g = Some g' \<Longrightarrow> guiControl g' = guiControl g"
  "OnElectricalRlsUpdate A e g = Some g' \<Longrightarrow> guiControl g' = guiControl g"
  "OnMechanicalRlsUpdate A e g = Some g' \<Longrightarrow> guiControl g' = guiControl g"
  by (auto simp: Gui_PhaseCurrents_def Gui_StatorVoltages_def OnElectricalRlsUpdate_def OnMechanicalRlsUpdate_def)

lemma started_control: "guiControl (Gui_Started A g) = (guiControl g)\<lparr>panelStatus := ''Running''\<rparr>"
  by (simp add: Gui_Started_def Gui_SetStatus_def Panel_SetStatus_def Let_def)

lemma notice_ok:
  assumes "app_ok s" "sim_notice A M R e s = Some s'" "e \<noteq> NotifyFinished"
  shows "app_ok s' \<and> pendingService s' = pendingService s"
proof (cases e)
  case NotifyStarted
  with assms(2) have "s' = s\<lparr>simGui := Gui_Started A (simGui s)\<rparr>" by simp
  with assms(1) show ?thesis by (simp add: app_ok_def panel_ok_def started_control)
next
  case (NotifyPhaseCurrents c theta omega)
  with assms(2) have "guiControl (simGui s') = guiControl (simGui s) \<and> pendingService s' = pendingService s \<and> simController s' = simController s"
    by (auto dest!: scopes_control split: bind_splits option.splits)
  with assms(1) show ?thesis using app_ok_cong [of s s'] by blast
next
  case (NotifyStatorVoltages v ab)
  with assms(2) have "guiControl (simGui s') = guiControl (simGui s) \<and> pendingService s' = pendingService s \<and> simController s' = simController s"
    by (auto dest!: scopes_control split: bind_splits)
  with assms(1) show ?thesis using app_ok_cong [of s s'] by blast
qed (use assms in auto)

lemma answer_ok:
  assumes "app_ok s" "pendingService s = Some (service_of a)"
  shows "step_ok (pendingService s) (calibration_answered a s)"
proof -
  have avail: "mechanicalIdentAvailable (guiControl (simGui s)) \<longrightarrow> simController s = SpeedKind" using assms(1) by (simp add: app_ok_def Let_def)
  have finished: "step_ok (pendingService s) (s\<lparr>simGui := finish_calibration g, pendingService := None\<rparr>, [Answered (service_of a)])"
    if "guiControl g = guiControl (simGui s)" for g
    using finished_ok [of g s] that avail assms(2) by (simp add: step_ok_def)
  show ?thesis
  proof (cases a)
    case (ResistanceAnswer r l)
    have same: "app_ok (s\<lparr>pendingService := Some PolePairsService\<rparr>)" using assms by (simp add: app_ok_def)
    have next_step: "app_ok (s\<lparr>simGui := Gui_SetState (Calibrating StepPolePairs CalibrationData_init) (simGui s), pendingService := Some PolePairsService\<rparr>)"
      using calibrating_ok [OF avail, of StepPolePairs PolePairsService] by (simp add: start_calibration_def)
    show ?thesis using same next_step assms ResistanceAnswer by (simp add: step_ok_def)
  qed (use finished in \<open>auto simp: Let_def split: option.splits\<close>)
qed

lemma scopes_edit: "app_ok s \<Longrightarrow> app_ok (edit_scopes f s) \<and> pendingService (edit_scopes f s) = pendingService s"
  by (simp add: edit_scopes_def app_ok_def)

text \<open>The model reports no end, and a service answers only when it was asked.\<close>

fun expected :: "'f sim_event \<Rightarrow> ('r, 'f) SimulatorApp \<Rightarrow> bool" where
  "expected (ServiceAnswer a) s = (pendingService s = Some (service_of a))"
| "expected (ModelNotice e) s = (e \<noteq> NotifyFinished)"
| "expected ev s = True"

fun orderly :: "'f float_arith \<Rightarrow> 'f math_lib \<Rightarrow> ('r, 'm, 'f) rls_class \<Rightarrow> 'f sim_event list \<Rightarrow> ('r, 'f) SimulatorApp \<Rightarrow> bool" where
  "orderly A M R [] s = True"
| "orderly A M R (ev # evs) s =
     (expected ev s \<and> (case sim_step A M R ev s of None \<Rightarrow> True | Some (s', os) \<Rightarrow> orderly A M R evs s'))"

lemma sim_step_ok:
  assumes "app_ok s" "sim_step A M R ev s = Some r" "expected ev s"
  shows "step_ok (pendingService s) r"
proof (cases ev)
  case (PanelInput i)
  with assms panel_step show ?thesis by blast
next
  case (ParameterInput i)
  with assms show ?thesis
    by (cases "parameter_edit A i (guiParameters (simGui s))") (auto simp: parameter_wires parameter_outputs step_ok_def app_ok_def)
next
  case (ModelNotice e)
  with assms(2) obtain s' where s': "sim_notice A M R e s = Some s'" "r = (s', [])" by auto
  show ?thesis using notice_ok [OF assms(1) s'(1)] assms(3) s'(2) ModelNotice by (simp add: step_ok_def)
next
  case (ServiceAnswer a)
  with assms show ?thesis using answer_ok [OF assms(1), of a] by simp
next
  case (ThermalTimer t r' l)
  with assms show ?thesis by (auto simp: step_ok_def app_ok_def)
qed (use assms in \<open>auto simp: step_ok_def scopes_edit\<close>)

lemma sim_run_ok:
  assumes "app_ok s" "sim_run A M R evs s = Some r" "orderly A M R evs s"
  shows "step_ok (pendingService s) r"
  using assms
proof (induction evs arbitrary: s r)
  case (Cons ev evs)
  from Cons.prems(2) obtain s1 xs s2 ys where s1: "sim_step A M R ev s = Some (s1, xs)" and s2: "sim_run A M R evs s1 = Some (s2, ys)"
    and r: "r = (s2, xs @ ys)" by (auto split: bind_splits)
  have "expected ev s" "orderly A M R evs s1" using Cons.prems(3) s1 by auto
  from sim_step_ok [OF Cons.prems(1) s1 this(1)] have step: "step_ok (pendingService s) (s1, xs)" .
  moreover have "step_ok (pendingService s1) (s2, ys)"
    using step \<open>orderly A M R evs s1\<close> by (intro Cons.IH [OF _ s2]) (auto simp: step_ok_def)
  ultimately show ?case by (simp add: r step_ok_def exclusive_append pending_append)
qed (auto simp: step_ok_def)

lemma new_app_ok: "app_ok (SimulatorApp_new A R k)"
  by (simp add: SimulatorApp_new_def app_ok_def panel_ok_def Gui_new_def Gui_DisableMechanicalIdent_def Panel_DisableMechanicalIdent_def
      ControlPanel_new_def Let_def)

text \<open>C24 (calibrations exclude each other, and the motor's start and stop). However the user clicks and edits and whatever
  the model reports but its end, as long as a service answers only while its request is pending: a service is asked
  only when no other request is, and the controller is started and stopped by the window only between calibrations.
  The panel shows the calibrating mode exactly while a request is pending, and its buttons follow the mode.\<close>

theorem calibrations_are_exclusive:
  assumes "sim_run A M R evs (SimulatorApp_new A R k) = Some (s, os)" and "orderly A M R evs (SimulatorApp_new A R k)"
  shows "exclusive None os \<and> pending_after None os = pendingService s \<and> panel_ok (guiControl (simGui s)) \<and>
    (panelMode (guiControl (simGui s)) = PanelCalibrating \<longleftrightarrow> pendingService s \<noteq> None)"
  using sim_run_ok [OF new_app_ok assms] by (simp add: step_ok_def app_ok_def SimulatorApp_new_def Let_def)

theorem calibrations_are_exclusive_witness:
  "\<forall>M R. \<exists>s. sim_run exact M R [PanelInput ClickAlign, PanelInput ClickStart, ServiceAnswer (OffsetAnswer None), PanelInput ClickStart]
      (SimulatorApp_new exact R TorqueKind) = Some (s, [Forward ControllerStop, Requested AlignmentService, Answered AlignmentService, Forward ControllerStart]) \<and>
    panelMode (guiControl (simGui s)) = PanelRunning \<and> pendingService s = None"
proof (intro allI)
  fix M R
  let ?evs = "[PanelInput ClickAlign, PanelInput ClickStart, ServiceAnswer (OffsetAnswer None), PanelInput ClickStart]"
  let ?os = "[Forward ControllerStop, Requested AlignmentService, Answered AlignmentService, Forward ControllerStart]"
  let ?s = "SimulatorApp_new exact R TorqueKind"
  obtain s where s: "sim_run exact M R ?evs ?s = Some (s, ?os)"
      "panelMode (guiControl (simGui s)) = PanelRunning"
    by (simp add: SimulatorApp_new_def Gui_new_def Gui_DisableMechanicalIdent_def Panel_DisableMechanicalIdent_def ControlPanel_new_def
        Let_def gui_panel_def calibrate_click_def start_calibration_def gui_control_simps)
  have "orderly exact M R ?evs ?s"
    by (simp add: SimulatorApp_new_def Gui_new_def Gui_DisableMechanicalIdent_def Panel_DisableMechanicalIdent_def ControlPanel_new_def
        Let_def gui_panel_def calibrate_click_def start_calibration_def gui_control_simps)
  with calibrations_are_exclusive [OF s(1)] s show "\<exists>s. sim_run exact M R ?evs ?s = Some (s, ?os) \<and>
      panelMode (guiControl (simGui s)) = PanelRunning \<and> pendingService s = None" by auto
qed

text \<open>An answer that nobody awaits would end the running mode: the window does not check for it.\<close>

lemma late_answer_ends_running:
  "panelMode (guiControl (simGui (fst (calibration_answered (OffsetAnswer a) s)))) = PanelIdle \<and>
   \<not> stopButton (guiControl (simGui (fst (calibration_answered (OffsetAnswer a) s))))"
  by (simp add: Let_def gui_control_simps)

section \<open>What the scopes show\<close>

lemma AddSample_total:
  assumes "channelCount s \<le> length vs"
  shows "\<exists>s' fired. AddSample A vs s = Some (s', fired)"
  using assms by (auto simp: AddSample_def Let_def)

lemma AddSample_ok:
  assumes "AddSample A vs s = Some (s', fired)"
  shows "channelCount s' = channelCount s \<and> (scope_ok s \<longrightarrow> scope_ok s')"
  using assms push_channels_ok [of s vs] by (auto simp: AddSample_def Let_def scope_ok_def split: if_splits)

lemma clear_ok: "scope_ok s \<Longrightarrow> scope_ok (Scope_Clear A s)" "channelCount (Scope_Clear A s) = channelCount s"
  by (auto simp: Scope_Clear_def scope_ok_def ring_clear)

lemma channels_ok: "n \<le> maxChannels \<Longrightarrow> scope_ok (channels A n) \<and> channelCount (channels A n) = n \<and>
    ringBuffers (channels A n) = ringBuffers (Scope_new A) \<and> scopeRunning (channels A n) \<and> triggerMode (channels A n) = AutoTrigger"
proof -
  have fields: "channelCount (fold (\<lambda>i. SetChannelConfig i True) is s) = channelCount s \<and> ringBuffers (fold (\<lambda>i. SetChannelConfig i True) is s) = ringBuffers s \<and>
      scopeRunning (fold (\<lambda>i. SetChannelConfig i True) is s) = scopeRunning s \<and> triggerMode (fold (\<lambda>i. SetChannelConfig i True) is s) = triggerMode s"
    for "is" :: "nat list" and s :: "'a Scope"
    by (induction "is" arbitrary: s) (simp_all add: SetChannelConfig_def)
  assume "n \<le> maxChannels"
  then show ?thesis using Scope_new_ok [of A] fields [of "[0..<n]" "SetChannelCount n (Scope_new A)"]
    by (simp add: channels_def SetChannelCount_def scope_ok_def Scope_new_def)
qed

text \<open>The toolbar reaches the trigger and the time base, not the samples; three of its inputs can stop the scope.\<close>

fun keeps_running :: "'f toolbar_input \<Rightarrow> bool" where
  "keeps_running ClickRunStop = False"
| "keeps_running ClickSingle = False"
| "keeps_running (ChooseTriggerMode i) = (i \<noteq> 2)"
| "keeps_running i = True"

lemmas scope_setters = SetTimePerDivision_def SetTriggerLevel_def SetTriggerMode_def SetTriggerEdge_def SetTriggerChannel_def SetRunning_def ForceTrigger_def

lemma toolbar_samples:
  "ringBuffers (snd (toolbar_event A i (t, c))) = ringBuffers c \<and> channelCount (snd (toolbar_event A i (t, c))) = channelCount c"
  by (cases i) (simp_all add: scope_setters Let_def)

lemma toolbar_running:
  assumes "keeps_running i" "scopeRunning c" "triggerMode c \<noteq> SingleTrigger"
  shows "scopeRunning (snd (toolbar_event A i (t, c))) \<and> triggerMode (snd (toolbar_event A i (t, c))) \<noteq> SingleTrigger"
proof (cases i)
  case (ChooseTriggerMode n)
  with assms show ?thesis by (cases n) (auto simp: scope_setters triggerModes_def less_Suc_eq nth_Cons')
qed (use assms in \<open>simp_all add: scope_setters Let_def\<close>)

text \<open>The channels of a toolbar cannot be chosen: nothing fills its list.\<close>

lemma toolbar_channel:
  assumes "triggerChannelItems t = 0"
  shows "triggerChannel (snd (toolbar_event A i (t, c))) = triggerChannel c \<and> triggerChannelItems (fst (toolbar_event A i (t, c))) = 0"
  using assms by (cases i) (simp_all add: scope_setters Let_def)

text \<open>The scopes take every notice, and the scope of the currents holds the latest of them.\<close>

definition traces :: "'f list list \<Rightarrow> 'f Scope \<Rightarrow> bool" where
  "traces hist c \<longleftrightarrow> scope_ok c \<and> channelCount c = 3 \<and> scopeRunning c \<and> triggerMode c \<noteq> SingleTrigger \<and>
     (\<forall>ch < 3. contents (ringBuffers c ! ch) = last_n ringBufferCapacity (map (\<lambda>vs. vs ! ch) hist))"

definition scopes_good :: "'f list list \<Rightarrow> 'f ScopesPanel \<Rightarrow> bool" where
  "scopes_good hist p \<longleftrightarrow> traces hist (currentScope p) \<and> channelCount (voltageScope p) = 3 \<and> channelCount (electricalRlsScope p) = 2 \<and>
     channelCount (mechanicalRlsScope p) = 2"

definition estimators_good :: "('r, 'f) SimulatorApp \<Rightarrow> bool" where
  "estimators_good s \<longleftrightarrow> rlsPolePairs (electricalRls s) = 4 \<and>
     (case mechanicalRls s of None \<Rightarrow> True | Some m \<Rightarrow> mechRlsPolePairs m = 4 \<and> mechEstRls (mechRlsEstimator m) \<noteq> None)"

definition window_good :: "'f list list \<Rightarrow> ('r, 'f) SimulatorApp \<Rightarrow> bool" where
  "window_good hist s \<longleftrightarrow> scopes_good hist (guiScopes (simGui s)) \<and> estimators_good s"

fun currents_after :: "'f list list \<Rightarrow> 'f sim_event \<Rightarrow> 'f list list" where
  "currents_after hist (ModelNotice NotifyStarted) = []"
| "currents_after hist (ModelNotice (NotifyPhaseCurrents c theta omega)) = hist @ [[currentA c, currentB c, currentC c]]"
| "currents_after hist ev = hist"

fun currents_since_start :: "'f list list \<Rightarrow> 'f sim_event list \<Rightarrow> 'f list list" where
  "currents_since_start hist [] = hist"
| "currents_since_start hist (ev # evs) = currents_since_start (currents_after hist ev) evs"

text \<open>The events that leave the scope running, with angles that the fast trigonometry takes.\<close>

fun steady :: "'f float_arith \<Rightarrow> 'f sim_event \<Rightarrow> bool" where
  "steady A (CurrentToolbar i) = keeps_running i"
| "steady A (ModelNotice (NotifyPhaseCurrents c theta omega)) =
     (Cosine A (ftimes A (fofint A 4) theta) \<noteq> None \<and> Sine A (ftimes A (fofint A 4) theta) \<noteq> None)"
| "steady A ev = True"

lemma traces_sample:
  assumes "traces hist c" "length vs = 3"
  shows "\<exists>c' fired. AddSample A vs c = Some (c', fired) \<and> traces (hist @ [vs]) c'"
proof -
  have c: "scope_ok c" "channelCount c = 3" "scopeRunning c" "triggerMode c \<noteq> SingleTrigger"
    "\<forall>ch < channelCount c. contents (ringBuffers c ! ch) = last_n ringBufferCapacity (map (\<lambda>vs. vs ! ch) hist)"
    using assms(1) by (auto simp: traces_def)
  obtain c' fired where c': "AddSample A vs c = Some (c', fired)" "ringBuffers c' = ringBuffers (push_channels vs c)"
      "channelCount c' = channelCount c" "scopeRunning c'" "triggerMode c' = triggerMode c"
    using AddSample_rings [of c vs A] c assms(2) by (metis order_refl)
  moreover have "scope_ok c'" using AddSample_ok [OF c'(1)] c(1) by simp
  moreover have "contents (ringBuffers c' ! ch) = last_n ringBufferCapacity (map (\<lambda>vs. vs ! ch) (hist @ [vs]))" if "ch < 3" for ch
  proof -
    have "ring_ok ringBufferCapacity (ringBuffers c ! ch)" "ch < length (ringBuffers c)"
      using that c(1) by (auto simp: scope_ok_def maxChannels_def)
    then show ?thesis using that c assms(2)
      by (simp add: c'(2) push_channels_ring ring_push(2) enqueue_last_n capacity_pos)
  qed
  ultimately show ?thesis using c by (auto simp: traces_def)
qed

lemma traces_cleared:
  assumes "traces hist c"
  shows "traces [] (Scope_Clear A c)"
proof -
  have "contents (ringBuffers (Scope_Clear A c) ! ch) = []" if "ch < 3" for ch
    using assms that ring_clear [of ringBufferCapacity "ringBuffers c ! ch" A] by (simp add: traces_def scope_ok_def Scope_Clear_def maxChannels_def)
  moreover have "scope_ok (Scope_Clear A c)" using assms clear_ok(1) [of c A] by (simp add: traces_def)
  ultimately show ?thesis using assms by (simp add: traces_def Scope_Clear_def last_n_def)
qed

lemma traces_toolbar: "traces hist c \<Longrightarrow> keeps_running i \<Longrightarrow> traces hist (snd (toolbar_event A i (t, c)))"
  using toolbar_samples [of A i t c] toolbar_running [of i c A t] by (simp add: traces_def scope_ok_def)

lemma scopes_mode [simp]: "scopes_good hist (Scopes_SetMode l p) = scopes_good hist p"
  by (simp add: scopes_good_def Scopes_SetMode_def)

lemma gui_signals_good [simp]: "scopes_good hist (guiScopes (fst (gui_signals es g))) = scopes_good hist (guiScopes g)"
proof (induction es arbitrary: g)
  case (Cons e es)
  then show ?case by (cases e) (simp_all add: split_def Let_def)
qed simp

lemma gui_panel_good [simp]: "scopes_good hist (guiScopes (fst (gui_panel r g))) = scopes_good hist (guiScopes g)"
  by (simp add: gui_panel_def)

lemma gui_status_good [simp]:
  "scopes_good hist (guiScopes (Gui_SetStatus t g)) = scopes_good hist (guiScopes g)"
  "scopes_good hist (guiScopes (Gui_SetState st g)) = scopes_good hist (guiScopes g)"
  "scopes_good hist (guiScopes (finish_calibration g)) = scopes_good hist (guiScopes g)"
  "scopes_good hist (guiScopes (Gui_Finished g)) = scopes_good hist (guiScopes g)"
  by (simp_all add: Gui_SetStatus_def Gui_SetState_def Gui_SetMode_def finish_calibration_def Gui_CalibrationFinished_def Gui_Finished_def)

lemma identified_scopes [simp]:
  "guiScopes (SetAlignmentOffset v g) = guiScopes g" "guiScopes (SetIdentifiedPolePairs n g) = guiScopes g"
  "guiScopes (SetIdentifiedMechanical b j g) = guiScopes g"
  by (simp_all add: SetAlignmentOffset_def SetIdentifiedPolePairs_def SetIdentifiedMechanical_def)

lemma start_good [simp]: "window_good hist (fst (start_calibration step v s)) = window_good hist s"
  by (simp add: window_good_def estimators_good_def start_calibration_def)

lemma wires_good [simp]: "window_good hist (fst (wires A es s)) = window_good hist s"
proof (induction es arbitrary: s)
  case (Cons e es)
  have "window_good hist (fst (wire A e s)) = window_good hist s" by (cases e) simp_all
  with Cons show ?case by (simp add: split_def Let_def)
qed simp

lemma answered_good: "window_good hist (fst (calibration_answered a s)) = window_good hist s"
  by (cases a) (auto simp: window_good_def estimators_good_def Let_def split: option.splits)

text \<open>The estimators take every current whose angle the fast trigonometry takes.\<close>

lemma estimators_take:
  assumes "estimators_good s" "Cosine A (ftimes A (fofint A 4) theta) \<noteq> None" "Sine A (ftimes A (fofint A 4) theta) \<noteq> None"
  shows "\<exists>e est. ElectricalRls_Currents A R c theta omega (electricalRls s) = Some (e, est) \<and> rlsPolePairs e = 4"
    and "mechanicalRls s = Some m \<Longrightarrow> \<exists>m' est. MechanicalRls_Currents A R c theta omega m = Some (m', est) \<and>
      mechRlsPolePairs m' = 4 \<and> mechEstRls (mechRlsEstimator m') \<noteq> None"
  using assms by (auto simp: estimators_good_def ElectricalRls_Currents_def MechanicalRls_Currents_def MechEstimator_Update_def
      MechEstimator_UpdateWith_def Let_def split_def)

lemma scopes_take:
  assumes "scopes_good hist (guiScopes g)"
  shows "\<exists>g'. Gui_PhaseCurrents A c g = Some g' \<and> scopes_good (hist @ [[currentA c, currentB c, currentC c]]) (guiScopes g')"
    and "\<exists>g'. Gui_StatorVoltages A M v ab g = Some g' \<and> scopes_good hist (guiScopes g')"
    and "\<exists>g'. OnElectricalRlsUpdate A est g = Some g' \<and> scopes_good hist (guiScopes g')"
    and "\<exists>g'. OnMechanicalRlsUpdate A est g = Some g' \<and> scopes_good hist (guiScopes g')"
proof -
  let ?p = "guiScopes g"
  have s: "traces hist (currentScope ?p)" and n: "channelCount (voltageScope ?p) = 3" "channelCount (electricalRlsScope ?p) = 2" "channelCount (mechanicalRlsScope ?p) = 2"
    using assms by (simp_all add: scopes_good_def)
  have add: "\<exists>c' fired. AddSample A vs c0 = Some (c', fired) \<and> channelCount c' = channelCount c0" if "channelCount c0 \<le> length vs" for vs c0
    using AddSample_total [OF that, of A] AddSample_ok [of A vs c0] by blast
  show "\<exists>g'. Gui_PhaseCurrents A c g = Some g' \<and> scopes_good (hist @ [[currentA c, currentB c, currentC c]]) (guiScopes g')"
    using traces_sample [OF s, of "[currentA c, currentB c, currentC c]" A] n
    by (auto simp: Gui_PhaseCurrents_def AddCurrentSample_def scopes_good_def)
  show "\<exists>g'. Gui_StatorVoltages A M v ab g = Some g' \<and> scopes_good hist (guiScopes g')"
    using add [of "voltageScope ?p" "[phaseA v, phaseB v, phaseC v]"] s n
    by (auto simp: Gui_StatorVoltages_def AddVoltageSample_def SetHexagonSample_def scopes_good_def)
  show "\<exists>g'. OnElectricalRlsUpdate A est g = Some g' \<and> scopes_good hist (guiScopes g')"
    using add [of "electricalRlsScope ?p" "[fst est, ftimes A (snd est) (thousand A)]"] s n
    by (auto simp: OnElectricalRlsUpdate_def AddElectricalRlsSample_def scopes_good_def)
  show "\<exists>g'. OnMechanicalRlsUpdate A est g = Some g' \<and> scopes_good hist (guiScopes g')"
    using add [of "mechanicalRlsScope ?p" "[ftimes A (fst est) (flit A 10000000 1), ftimes A (snd est) (flit A 10000000 1)]"] s n
    by (auto simp: OnMechanicalRlsUpdate_def AddMechanicalRlsSample_def scopes_good_def)
qed

lemma notice_good:
  assumes "window_good hist s" "steady A (ModelNotice e)"
  shows "\<exists>s'. sim_notice A M R e s = Some s' \<and> window_good (currents_after hist (ModelNotice e)) s'"
proof -
  have good: "scopes_good hist (guiScopes (simGui s))" and est: "estimators_good s" using assms(1) by (simp_all add: window_good_def)
  show ?thesis
  proof (cases e)
    case NotifyStarted
    have "scopes_good hist (guiScopes (Gui_SetStatus ''Running'' (simGui s)))" using good by simp
    then have "scopes_good [] (guiScopes (Gui_Started A (simGui s)))"
      using traces_cleared [of hist "currentScope (guiScopes (Gui_SetStatus ''Running'' (simGui s)))" A] clear_ok(2) [of A]
      by (simp add: Gui_Started_def Let_def scopes_good_def Scopes_Clear_def)
    then show ?thesis using NotifyStarted est by (simp add: window_good_def estimators_good_def)
  next
    case (NotifyStatorVoltages v ab)
    obtain g' where "Gui_StatorVoltages A M v ab (simGui s) = Some g'" "scopes_good hist (guiScopes g')" using scopes_take(2) [OF good] by blast
    then show ?thesis using NotifyStatorVoltages est by (simp add: window_good_def estimators_good_def ElectricalRls_Voltages_def)
  next
    case NotifyFinished
    then show ?thesis using good est by (simp add: window_good_def estimators_good_def)
  next
    case (CallbackCalled h c)
    then show ?thesis using assms by simp
  next
    case (NotifyPhaseCurrents c theta omega)
    let ?hist = "hist @ [[currentA c, currentB c, currentC c]]"
    have trig: "Cosine A (ftimes A (fofint A 4) theta) \<noteq> None" "Sine A (ftimes A (fofint A 4) theta) \<noteq> None"
      using assms(2) NotifyPhaseCurrents by simp_all
    obtain g1 where g1: "Gui_PhaseCurrents A c (simGui s) = Some g1" "scopes_good ?hist (guiScopes g1)" using scopes_take(1) [OF good] by blast
    obtain e1 x where e1: "ElectricalRls_Currents A R c theta omega (electricalRls s) = Some (e1, x)" "rlsPolePairs e1 = 4"
      using estimators_take(1) [OF est trig] by blast
    obtain g2 where g2: "OnElectricalRlsUpdate A x g1 = Some g2" "scopes_good ?hist (guiScopes g2)" using scopes_take(3) [OF g1(2)] by blast
    show ?thesis
    proof (cases "mechanicalRls s")
      case None
      then show ?thesis using NotifyPhaseCurrents g1 e1 g2 by (simp add: window_good_def estimators_good_def)
    next
      case (Some m)
      obtain m1 y where m1: "MechanicalRls_Currents A R c theta omega m = Some (m1, y)" "mechRlsPolePairs m1 = 4" "mechEstRls (mechRlsEstimator m1) \<noteq> None"
        using estimators_take(2) [OF est trig Some] by blast
      obtain g3 where "OnMechanicalRlsUpdate A y g2 = Some g3" "scopes_good ?hist (guiScopes g3)" using scopes_take(4) [OF g2(2)] by blast
      then show ?thesis using NotifyPhaseCurrents g1 e1 g2 Some m1 by (simp add: window_good_def estimators_good_def)
    qed
  qed
qed

lemma toolbar_good:
  assumes "window_good hist s" "steady A (CurrentToolbar i)"
  shows "\<exists>s'. sim_step A M R (CurrentToolbar i) s = Some (s', []) \<and> window_good hist s'"
    and "\<exists>s'. sim_step A M R (VoltageToolbar j) s = Some (s', []) \<and> window_good hist s'"
proof -
  let ?p = "guiScopes (simGui s)"
  obtain t c t' c' where e: "toolbar_event A i (currentToolbar ?p, currentScope ?p) = (t, c)" "toolbar_event A j (voltageToolbar ?p, voltageScope ?p) = (t', c')"
    by fastforce
  have "traces hist c" "channelCount c' = channelCount (voltageScope ?p)"
    using traces_toolbar [of hist "currentScope ?p" i A "currentToolbar ?p"] toolbar_samples [of A j "voltageToolbar ?p" "voltageScope ?p"] assms e
    by (simp_all add: window_good_def scopes_good_def)
  with e assms show "\<exists>s'. sim_step A M R (CurrentToolbar i) s = Some (s', []) \<and> window_good hist s'"
    and "\<exists>s'. sim_step A M R (VoltageToolbar j) s = Some (s', []) \<and> window_good hist s'"
    by (simp_all add: edit_scopes_def window_good_def scopes_good_def estimators_good_def)
qed

lemma step_good:
  assumes "window_good hist s" "steady A ev"
  shows "\<exists>s' os. sim_step A M R ev s = Some (s', os) \<and> window_good (currents_after hist ev) s'"
proof (cases ev)
  case (PanelInput i)
  let ?r = "gui_panel (panel_click A i (guiControl (simGui s))) (simGui s)"
  have "window_good hist (s\<lparr>simGui := fst ?r\<rparr>)" using assms(1) by (simp add: window_good_def estimators_good_def)
  then have "window_good hist (fst (wires A (snd ?r) (s\<lparr>simGui := fst ?r\<rparr>)))" by simp
  then show ?thesis using PanelInput
    by (cases "wires A (snd ?r) (s\<lparr>simGui := fst ?r\<rparr>)") (simp only: sim_step_panel Let_def currents_after.simps fst_conv option.inject, blast)
next
  case (ParameterInput i)
  with assms(1) show ?thesis
    by (cases "parameter_edit A i (guiParameters (simGui s))") (simp add: parameter_wires window_good_def estimators_good_def)
next
  case (CurrentToolbar i)
  with assms toolbar_good(1) [OF assms(1), of A i M R] show ?thesis by auto
next
  case (VoltageToolbar i)
  with assms toolbar_good(2) [OF assms(1), of A ClickForce M R i] show ?thesis by auto
next
  case (ModelNotice e)
  with notice_good [OF assms(1), of A e M R] assms(2) show ?thesis by auto
next
  case (ServiceAnswer a)
  with assms(1) answered_good [of hist a s] show ?thesis by (cases "calibration_answered a s") simp
next
  case (ThermalTimer t r l)
  with assms show ?thesis by (simp add: window_good_def estimators_good_def)
qed

lemma window_run_good:
  assumes "window_good hist s" "\<forall>ev \<in> set evs. steady A ev"
  shows "\<exists>s' os. sim_run A M R evs s = Some (s', os) \<and> window_good (currents_since_start hist evs) s'"
  using assms
proof (induction evs arbitrary: s hist)
  case (Cons ev evs)
  obtain s1 xs where s1: "sim_step A M R ev s = Some (s1, xs)" "window_good (currents_after hist ev) s1"
    using step_good [of hist s A ev M R] Cons.prems by auto
  obtain s2 ys where "sim_run A M R evs s1 = Some (s2, ys)" "window_good (currents_since_start (currents_after hist ev) evs) s2"
    using Cons.IH [OF s1(2)] Cons.prems by auto
  with s1 show ?case by simp
qed simp

lemma new_window_good: "window_good [] (SimulatorApp_new A R k)"
proof -
  have "traces [] (channels A 3)"
    using channels_ok [of 3 A] by (simp add: traces_def maxChannels_def Scope_new_def last_n_def ring_new [OF capacity_pos])
  then have "scopes_good [] (Scopes_SetDcLink v (ScopesPanel_new A))" for v
    using channels_ok [of 3 A] channels_ok [of 2 A] by (simp add: scopes_good_def Scopes_SetDcLink_def ScopesPanel_new_def maxChannels_def)
  then show ?thesis
    by (simp add: window_good_def SimulatorApp_new_def Gui_new_def Gui_DisableMechanicalIdent_def estimators_good_def OnlineElectricalRls_new_def
        OnlineMechanicalRls_new_def MechEstimator_new_def MechEstimator_SetTorqueConstant_def JK42BLS01_X038ED_def Let_def)
qed

lemma free_window_end:
  assumes "FreeRunningWindow A ch c = Some (Some (start, k))"
  shows "k \<le> ringCount (ringBuffers c ! ch) \<and> start = ringCount (ringBuffers c ! ch) - k"
  using assms by (cases "total_samples A c") (auto simp: FreeRunningWindow_def Let_def split: if_splits)



section \<open>What the window does not show\<close>

text \<open>The status that announces the end of a calibration is overwritten, and the measured resistance and inductance are not
  put on their labels.\<close>

lemma calibration_ends_idle: "panelStatus (guiControl (finish_calibration g)) = ''Idle''"
  by (simp add: gui_control_simps)

lemma gui_parameters_kept [simp]: "guiParameters (fst (gui_panel r g)) = guiParameters g"
proof -
  have "guiParameters (fst (gui_signals es g)) = guiParameters g" for es :: "'a panel_signal list" and g
  proof (induction es arbitrary: g)
    case (Cons e es)
    then show ?case by (cases e) (simp_all add: split_def Let_def)
  qed simp
  then show ?thesis by (simp add: gui_panel_def)
qed

lemma identified_electrical_not_shown:
  "resistanceLabel (guiParameters (simGui (fst (calibration_answered a s)))) = resistanceLabel (guiParameters (simGui s)) \<and>
   inductanceLabel (guiParameters (simGui (fst (calibration_answered a s)))) = inductanceLabel (guiParameters (simGui s))"
  by (cases a) (auto simp: finish_calibration_def Gui_SetState_def Gui_SetMode_def Gui_SetStatus_def Gui_CalibrationFinished_def Let_def
      SetAlignmentOffset_def UpdateAlignmentOffset_def SetIdentifiedPolePairs_def UpdatePolePairs_def SetIdentifiedMechanical_def
      UpdateInertia_def UpdateFriction_def split: option.splits)

end
