(* ===== verification/Hil_Logger.thy ===== *)
theory Hil_Logger
  imports Can_Adapters
begin

text \<open>
  The transcript of the hardware-in-the-loop tests (\<open>SerialLogger.cpp\<close>): one file for the session and one for each
  scenario. Whether directories and files can be made is an argument, and so is the time since the start of the
  session in microseconds. A file is the text written to it.
\<close>

section \<open>Text\<close>

definition hexDigits :: "u8 list" where
  "hexDigits = ascii ''0123456789ABCDEF''"

definition escape_byte :: "u8 \<Rightarrow> u8 list" where
  "escape_byte ch =
     (if ch = 0x5C then [0x5C, 0x5C] else if ch = 0x0D then [0x5C, 0x72] else if ch = 0x0A then [0x5C, 0x6E]
      else if ch = 0x09 then [0x5C, 0x74] else if ch = 0x22 then [0x5C, 0x22]
      else if 0x20 \<le> ch \<and> ch < 0x7F then [ch]
      else [0x5C, 0x78, hexDigits ! unat (drop_bit 4 ch AND 0x0F), hexDigits ! unat (ch AND 0x0F)])"

definition EscapeBytes :: "u8 list \<Rightarrow> u8 list" where
  "EscapeBytes bytes = concat (map escape_byte bytes)"

text \<open>\<open>std::setw\<close> with a fill character.\<close>

definition set_width :: "nat \<Rightarrow> u8 \<Rightarrow> u8 list \<Rightarrow> u8 list" where
  "set_width n c xs = replicate (n - length xs) c @ xs"

definition TimestampPrefix :: "nat \<Rightarrow> u8 list" where
  "TimestampPrefix delta = ascii ''[t+'' @ set_width 4 0x20 (decimal (delta div 1000000)) @ [0x2E]
     @ set_width 6 0x30 (decimal (delta mod 1000000)) @ ascii ''s]''"

section \<open>State\<close>

record SerialLogger =
  logConfigured :: bool
  logEnabled :: bool
  configuredRoot :: "u8 list"
  sessionDir :: "u8 list"
  sessionFile :: "u8 list"
  sessionFileOpen :: bool
  scenarioFiles :: "(u8 list \<times> u8 list) list"
  scenarioFileOpen :: bool
  scenarioIndex :: nat
  inScenario :: bool

definition SerialLogger_new :: SerialLogger where
  "SerialLogger_new = \<lparr>logConfigured = False, logEnabled = True, configuredRoot = [], sessionDir = [], sessionFile = [],
     sessionFileOpen = False, scenarioFiles = [], scenarioFileOpen = False, scenarioIndex = 0, inScenario = False\<rparr>"

definition DefaultLogRoot :: "u8 list" where
  "DefaultLogRoot = ascii ''build/host/integration_tests/hardware_in_the_loop/logs''"

definition Logger_Configure :: "u8 list \<Rightarrow> bool \<Rightarrow> SerialLogger \<Rightarrow> SerialLogger" where
  "Logger_Configure root disabled l = l\<lparr>logConfigured := True, logEnabled := \<not> disabled, configuredRoot := root\<rparr>"

text \<open>The time of day is the name of the directory.\<close>

definition OpenSession :: "bool \<Rightarrow> bool \<Rightarrow> u8 list \<Rightarrow> SerialLogger \<Rightarrow> SerialLogger" where
  "OpenSession created opened stamp l =
     (let l = (if logConfigured l then l else Logger_Configure DefaultLogRoot False l)
      in if \<not> logEnabled l then l
         else let root = (if configuredRoot l = [] then DefaultLogRoot else configuredRoot l);
                  l = l\<lparr>sessionDir := root @ [0x2F] @ stamp\<rparr>
           in if \<not> created then l\<lparr>logEnabled := False\<rparr>
              else if \<not> opened then l\<lparr>logEnabled := False\<rparr>
              else l\<lparr>sessionFileOpen := True,
                     sessionFile := ascii ''===== HIL serial transcript ('' @ sessionDir l @ ascii '') ====='' @ [0x0A]\<rparr>)"

definition append_file :: "u8 list \<Rightarrow> (u8 list \<times> u8 list) list \<Rightarrow> (u8 list \<times> u8 list) list" where
  "append_file txt fs = (case fs of [] \<Rightarrow> [] | (n, c) # fs \<Rightarrow> (n, c @ txt) # fs)"

definition Write_log :: "nat \<Rightarrow> u8 list \<Rightarrow> u8 list \<Rightarrow> SerialLogger \<Rightarrow> SerialLogger" where
  "Write_log now category payload l =
     (if \<not> logEnabled l then l
      else let formatted = TimestampPrefix now @ [0x20] @ category @ (if payload = [] then [] else [0x20] @ payload) @ [0x0A];
               l = (if sessionFileOpen l then l\<lparr>sessionFile := sessionFile l @ formatted\<rparr> else l)
        in if inScenario l \<and> scenarioFileOpen l then l\<lparr>scenarioFiles := append_file formatted (scenarioFiles l)\<rparr> else l)"

text \<open>The newest scenario file is the first of the list.\<close>

definition BeginScenario :: "bool \<Rightarrow> nat \<Rightarrow> SerialLogger \<Rightarrow> SerialLogger" where
  "BeginScenario opened now l =
     (if \<not> logEnabled l then l
      else let l = l\<lparr>scenarioIndex := scenarioIndex l + 1\<rparr>;
               name = ascii ''scenario-'' @ set_width 3 0x30 (decimal (scenarioIndex l)) @ ascii ''.log'';
               l = (if opened then l\<lparr>scenarioFiles := (name, []) # scenarioFiles l\<rparr> else l);
               l = l\<lparr>scenarioFileOpen := opened, inScenario := opened\<rparr>
        in Write_log now (ascii ''HOOK'') (ascii ''===== Scenario #'' @ decimal (scenarioIndex l) @ ascii '' begin ====='') l)"

definition EndScenario :: "bool \<Rightarrow> nat \<Rightarrow> SerialLogger \<Rightarrow> SerialLogger" where
  "EndScenario passed now l =
     (if \<not> logEnabled l then l
      else (Write_log now (ascii ''HOOK'') (ascii ''===== Scenario #'' @ decimal (scenarioIndex l) @ ascii '' end (''
              @ (if passed then ascii ''PASS'' else ascii ''FAIL'') @ ascii '') ====='') l)\<lparr>scenarioFileOpen := False, inScenario := False\<rparr>)"

definition CloseSession :: "SerialLogger \<Rightarrow> SerialLogger" where
  "CloseSession l = l\<lparr>scenarioFileOpen := False, sessionFileOpen := False\<rparr>"

definition RxBytes :: "nat \<Rightarrow> u8 list \<Rightarrow> SerialLogger \<Rightarrow> SerialLogger" where
  "RxBytes now data l = (if \<not> logEnabled l \<or> data = [] then l else Write_log now (ascii ''RX'') (EscapeBytes data) l)"

definition TxBytes :: "nat \<Rightarrow> u8 list \<Rightarrow> SerialLogger \<Rightarrow> SerialLogger" where
  "TxBytes now data l = (if \<not> logEnabled l \<or> data = [] then l else Write_log now (ascii ''TX'') (EscapeBytes data) l)"

definition Log_Line :: "nat \<Rightarrow> u8 list \<Rightarrow> SerialLogger \<Rightarrow> SerialLogger" where
  "Log_Line now content l = (if \<not> logEnabled l then l else Write_log now (ascii ''LINE'') ([0x22] @ EscapeBytes content @ [0x22]) l)"

definition Log_Prompt :: "nat \<Rightarrow> SerialLogger \<Rightarrow> SerialLogger" where
  "Log_Prompt now l = (if \<not> logEnabled l then l else Write_log now (ascii ''PROMPT'') [] l)"

definition ApiCall :: "nat \<Rightarrow> u8 list \<Rightarrow> SerialLogger \<Rightarrow> SerialLogger" where
  "ApiCall now summary l = (if \<not> logEnabled l then l else Write_log now (ascii ''API>'') summary l)"

definition ApiResult :: "nat \<Rightarrow> u8 list \<Rightarrow> SerialLogger \<Rightarrow> SerialLogger" where
  "ApiResult now summary l = (if \<not> logEnabled l then l else Write_log now (ascii ''API<'') summary l)"

definition Log_Note :: "nat \<Rightarrow> u8 list \<Rightarrow> u8 list \<Rightarrow> SerialLogger \<Rightarrow> SerialLogger" where
  "Log_Note now category message l = (if \<not> logEnabled l then l else Write_log now category message l)"

section \<open>The text reads back\<close>

definition nibble_value :: "u8 \<Rightarrow> u8" where
  "nibble_value h = (if h \<le> 0x39 then h - 0x30 else h - 0x37)"

text \<open>One escaped byte and the rest.\<close>

fun unescape_byte :: "u8 list \<Rightarrow> (u8 \<times> u8 list) option" where
  "unescape_byte [] = None"
| "unescape_byte (b # bs) =
     (if b \<noteq> 0x5C then Some (b, bs)
      else case bs of
        [] \<Rightarrow> None
      | c # cs \<Rightarrow>
          if c = 0x78 then (case cs of h # d # ds \<Rightarrow> Some (push_bit 4 (nibble_value h) OR nibble_value d, ds) | _ \<Rightarrow> None)
          else Some (if c = 0x72 then 0x0D else if c = 0x6E then 0x0A else if c = 0x74 then 0x09 else c, cs))"

fun unescape :: "nat \<Rightarrow> u8 list \<Rightarrow> u8 list option" where
  "unescape 0 bs = (if bs = [] then Some [] else None)"
| "unescape (Suc n) bs = (if bs = [] then Some [] else do { (b, bs) \<leftarrow> unescape_byte bs; r \<leftarrow> unescape n bs; Some (b # r) })"

lemma nibble_value_digit:
  assumes "n < 16"
  shows "nibble_value (hexDigits ! n) = word_of_nat n \<and> 0x20 \<le> hexDigits ! n \<and> hexDigits ! n < 0x7F"
proof -
  have "n = 0 \<or> n = 1 \<or> n = 2 \<or> n = 3 \<or> n = 4 \<or> n = 5 \<or> n = 6 \<or> n = 7 \<or> n = 8 \<or> n = 9 \<or> n = 10 \<or> n = 11 \<or> n = 12 \<or>
      n = 13 \<or> n = 14 \<or> n = 15"
    using assms by presburger
  then show ?thesis by (elim disjE) (simp_all add: hexDigits_def nibble_value_def ascii_def)
qed

lemma low_nibble: "(x AND 0x0F :: u8) = take_bit 4 x"
  by (simp add: take_bit_eq_mask mask_eq_exp_minus_1)

lemma nibble: "unat (take_bit 4 x :: u8) < 16" "word_of_nat (unat (take_bit 4 x :: u8)) = take_bit 4 x"
proof -
  have "unat (take_bit 4 x) = unat x mod 16" by (simp only: unsigned_take_bit_eq) (simp add: take_bit_eq_mod)
  then show "unat (take_bit 4 x) < 16" by simp
qed simp

lemma nibbles: "push_bit 4 (take_bit 4 (drop_bit 4 b)) OR take_bit 4 b = (b :: u8)"
  by (rule bit_word_eqI) (auto simp: bit_simps)

lemma unescape_escaped: "unescape_byte (escape_byte b @ bs) = Some (b, bs)"
  using nibble_value_digit [OF nibble(1), of b] nibble_value_digit [OF nibble(1), of "drop_bit 4 b"] nibbles [of b]
  by (simp add: escape_byte_def low_nibble nibble(2))

lemma escape_byte_printable: "\<forall>c \<in> set (escape_byte b). 0x20 \<le> c \<and> c < 0x7F"
  using nibble_value_digit [OF nibble(1), of b] nibble_value_digit [OF nibble(1), of "drop_bit 4 b"]
  by (auto simp: escape_byte_def low_nibble)

lemma escape_byte_nonempty: "escape_byte b \<noteq> []"
  by (simp add: escape_byte_def)

text \<open>A transcript loses nothing: the bytes are read back from their line, which is printable text.\<close>

lemma escaped_bytes_read_back:
  "unescape (length bs) (EscapeBytes bs) = Some bs \<and> (\<forall>c \<in> set (EscapeBytes bs). 0x20 \<le> c \<and> c < 0x7F)"
proof -
  have "unescape (length bs) (EscapeBytes bs) = Some bs"
    by (induction bs) (simp_all add: EscapeBytes_def unescape_escaped escape_byte_nonempty)
  then show ?thesis using escape_byte_printable by (auto simp: EscapeBytes_def)
qed

section \<open>The file of a scenario\<close>

text \<open>What is noted between the begin and the end of a scenario.\<close>

datatype log_note = NoteRx "u8 list" | NoteTx "u8 list" | NoteLine "u8 list" | NotePrompt | NoteCall "u8 list" | NoteResult "u8 list" | NoteOther "u8 list" "u8 list"

fun write_note :: "nat \<Rightarrow> log_note \<Rightarrow> SerialLogger \<Rightarrow> SerialLogger" where
  "write_note now (NoteRx d) l = RxBytes now d l"
| "write_note now (NoteTx d) l = TxBytes now d l"
| "write_note now (NoteLine c) l = Log_Line now c l"
| "write_note now NotePrompt l = Log_Prompt now l"
| "write_note now (NoteCall c) l = ApiCall now c l"
| "write_note now (NoteResult c) l = ApiResult now c l"
| "write_note now (NoteOther k c) l = Log_Note now k c l"

definition log_notes :: "(nat \<times> log_note) list \<Rightarrow> SerialLogger \<Rightarrow> SerialLogger" where
  "log_notes ns l = fold (\<lambda>(now, n). write_note now n) ns l"

definition in_step :: "u8 list \<Rightarrow> u8 list \<Rightarrow> (u8 list \<times> u8 list) list \<Rightarrow> SerialLogger \<Rightarrow> bool" where
  "in_step name text0 older l \<longleftrightarrow> logEnabled l \<and> sessionFileOpen l \<and> inScenario l \<and> scenarioFileOpen l \<and>
     (\<exists>txt. sessionFile l = text0 @ txt \<and> scenarioFiles l = (name, txt) # older)"

lemma write_in_step: "in_step name text0 older l \<Longrightarrow> in_step name text0 older (Write_log now k p l)"
  by (auto simp: in_step_def Write_log_def append_file_def Let_def)

lemma note_in_step: "in_step name text0 older l \<Longrightarrow> in_step name text0 older (write_note now n l)"
  by (cases n) (simp_all add: write_in_step RxBytes_def TxBytes_def Log_Line_def Log_Prompt_def ApiCall_def ApiResult_def Log_Note_def)

lemma notes_in_step: "in_step name text0 older l \<Longrightarrow> in_step name text0 older (log_notes ns l)"
  unfolding log_notes_def by (induction ns arbitrary: l) (auto simp: note_in_step)

text \<open>The file of a scenario is the part of the session's file from its begin to its end.\<close>

lemma scenario_is_part_of_session:
  assumes "logEnabled l" "sessionFileOpen l"
  shows "\<exists>name txt. sessionFile (EndScenario passed t2 (log_notes ns (BeginScenario True t1 l))) = sessionFile l @ txt \<and>
    scenarioFiles (EndScenario passed t2 (log_notes ns (BeginScenario True t1 l))) = (name, txt) # scenarioFiles l"
proof -
  have "\<exists>name. in_step name (sessionFile l) (scenarioFiles l) (BeginScenario True t1 l)"
    using assms by (simp add: BeginScenario_def Let_def, intro exI write_in_step) (simp add: in_step_def)
  then obtain name where noted: "in_step name (sessionFile l) (scenarioFiles l) (log_notes ns (BeginScenario True t1 l))"
    using notes_in_step by blast
  let ?l = "log_notes ns (BeginScenario True t1 l)"
  obtain k p where "EndScenario passed t2 ?l = (Write_log t2 k p ?l)\<lparr>scenarioFileOpen := False, inScenario := False\<rparr>"
    using noted by (auto simp: EndScenario_def in_step_def)
  with write_in_step [OF noted, of t2 k p] show ?thesis by (auto simp: in_step_def)
qed

end
