(* ===== verification/Hil_Session.thy ===== *)
theory Hil_Session
  imports Can_Adapters Parse_IPv4 "HOL-Library.Sublist"
begin

text \<open>
  The session of the hardware-in-the-loop tests: \<open>BridgeSession.cpp\<close>, \<open>TypingTransmitter.cpp\<close> and \<open>HilFixture.cpp\<close>
  (\<open>integration_tests/hardware_in_the_loop/support\<close>). The network is a schedule: what arrives, and when, in
  milliseconds; \<open>ExecuteUntil\<close> of the network library looks at its predicate before every event and at the end of
  the time. A completion that arrives after its operation has returned writes to a variable that is gone: no result.
  The calls of the transcript are left out (\<open>Hil_Logger\<close>).
\<close>

section \<open>Times\<close>

definition idleWindow :: nat where "idleWindow = 75"
definition preDrain :: nat where "preDrain = 30"
definition typingInterCharDelay :: nat where "typingInterCharDelay = 5"

section \<open>State\<close>

record CanFrame =
  frameId :: CanId
  frameMessage :: "u8 list"
  frameArrival :: nat

datatype hil_event =
  SerialBytes "u8 list" | CanArrives CanId "u8 list" | SerialConnected | SerialDisconnected | CanConnected | CanDisconnected
| SendCompleted nat bool

datatype hil_call = SerialWrite u8 nat | CanWrite CanId "u8 list" nat

text \<open>The connected flags of the two trackers, and the local variables that completions of running operations set.\<close>

record BridgeSession =
  sessionClock :: nat
  sessionSchedule :: "(nat \<times> hil_event) list"
  sessionCalls :: "hil_call list"
  serialAlive :: bool
  canAlive :: bool
  serialBuffer :: "u8 list"
  serialLines :: "u8 list list"
  lastSerialLine :: "u8 list"
  promptSeen :: bool
  lastSerialDuration :: nat
  canQueue :: "CanFrame list"
  sendFlags :: "nat \<Rightarrow> bool option option"
  nextSend :: nat

datatype hil_error = SerialBridgeDisconnected | CanBridgeDisconnected | CannotResolve | FailedToConnect

section \<open>Lines\<close>

definition EmitSerialLine :: "u8 list \<Rightarrow> BridgeSession \<Rightarrow> BridgeSession" where
  "EmitSerialLine ln s = (if ln = [] then s else s\<lparr>lastSerialLine := ln, serialLines := serialLines s @ [ln]\<rparr>)"

definition strip_return :: "u8 list \<Rightarrow> u8 list" where
  "strip_return ln = (if ln \<noteq> [] \<and> last ln = 0x0D then butlast ln else ln)"

definition AppendSerialByte :: "u8 \<Rightarrow> BridgeSession \<Rightarrow> BridgeSession" where
  "AppendSerialByte ch s =
     (if ch = 0x0A then (EmitSerialLine (strip_return (serialBuffer s)) s)\<lparr>serialBuffer := []\<rparr>
      else let buf = serialBuffer s @ [ch]; n = length buf
        in if 2 \<le> n \<and> buf ! (n - 2) = 0x3E \<and> buf ! (n - 1) = 0x20
           then (EmitSerialLine (strip_return (take (n - 2) buf)) s)\<lparr>promptSeen := True, serialBuffer := []\<rparr>
           else s\<lparr>serialBuffer := buf\<rparr>)"

definition OnSerialBytes :: "u8 list \<Rightarrow> BridgeSession \<Rightarrow> BridgeSession" where
  "OnSerialBytes bs s = fold AppendSerialByte bs s"

definition OnCanFrame :: "CanId \<Rightarrow> u8 list \<Rightarrow> BridgeSession \<Rightarrow> BridgeSession" where
  "OnCanFrame i m s = s\<lparr>canQueue := canQueue s @ [\<lparr>frameId = i, frameMessage = m, frameArrival = sessionClock s\<rparr>]\<rparr>"

section \<open>The network\<close>

fun hil_network_event :: "hil_event \<Rightarrow> BridgeSession \<Rightarrow> BridgeSession option" where
  "hil_network_event (SerialBytes bs) s = Some (OnSerialBytes bs s)"
| "hil_network_event (CanArrives i m) s = Some (OnCanFrame i m s)"
| "hil_network_event SerialConnected s = Some (s\<lparr>serialAlive := True\<rparr>)"
| "hil_network_event SerialDisconnected s = Some (s\<lparr>serialAlive := False\<rparr>)"
| "hil_network_event CanConnected s = Some (s\<lparr>canAlive := True\<rparr>)"
| "hil_network_event CanDisconnected s = Some (s\<lparr>canAlive := False\<rparr>)"
| "hil_network_event (SendCompleted k ok) s =
     (case sendFlags s k of None \<Rightarrow> None | Some f \<Rightarrow> Some (s\<lparr>sendFlags := (sendFlags s)(k := Some (Some ok))\<rparr>))"

text \<open>A predicate may change the session and keep a value of its own.\<close>

fun run_network ::
  "('x \<Rightarrow> BridgeSession \<Rightarrow> bool \<times> 'x \<times> BridgeSession) \<Rightarrow> nat \<Rightarrow> (nat \<times> hil_event) list \<Rightarrow> 'x \<Rightarrow> BridgeSession \<Rightarrow> ('x \<times> BridgeSession) option" where
  "run_network P deadline [] x s =
     (let (stop, x, s) = P x s in Some (x, if stop then s\<lparr>sessionSchedule := []\<rparr> else s\<lparr>sessionSchedule := [], sessionClock := max (sessionClock s) deadline\<rparr>))"
| "run_network P deadline ((t, e) # es) x s =
     (let (stop, x, s) = P x s
      in if stop then Some (x, s\<lparr>sessionSchedule := (t, e) # es\<rparr>)
         else if deadline \<le> max t (sessionClock s)
              then Some (x, s\<lparr>sessionSchedule := (t, e) # es, sessionClock := max (sessionClock s) deadline\<rparr>)
         else do { s \<leftarrow> hil_network_event e (s\<lparr>sessionClock := max t (sessionClock s)\<rparr>); run_network P deadline es x s })"

definition RunUntil ::
  "('x \<Rightarrow> BridgeSession \<Rightarrow> bool \<times> 'x \<times> BridgeSession) \<Rightarrow> nat \<Rightarrow> 'x \<Rightarrow> BridgeSession \<Rightarrow> ('x \<times> BridgeSession) option" where
  "RunUntil P timeout x s = run_network P (sessionClock s + timeout) (sessionSchedule s) x s"

definition wait_until :: "(BridgeSession \<Rightarrow> bool) \<Rightarrow> nat \<Rightarrow> BridgeSession \<Rightarrow> BridgeSession option" where
  "wait_until P timeout s = map_option snd (RunUntil (\<lambda>x s. (P s, x, s)) timeout () s)"

abbreviation run_for :: "nat \<Rightarrow> BridgeSession \<Rightarrow> BridgeSession option" where
  "run_for \<equiv> wait_until (\<lambda>s. False)"

section \<open>Typing\<close>

fun await_sent :: "nat \<Rightarrow> nat \<Rightarrow> BridgeSession \<Rightarrow> BridgeSession option" where
  "await_sent 0 k s = Some s"
| "await_sent (Suc n) k s = (if sendFlags s k \<noteq> Some None then Some s else do { s \<leftarrow> run_for typingInterCharDelay s; await_sent n k s })"

definition open_flag :: "(nat \<Rightarrow> hil_call) \<Rightarrow> BridgeSession \<Rightarrow> BridgeSession" where
  "open_flag call s = s\<lparr>sendFlags := (sendFlags s)(nextSend s := Some None), nextSend := nextSend s + 1, sessionCalls := sessionCalls s @ [call (nextSend s)]\<rparr>"

definition close_flag :: "nat \<Rightarrow> BridgeSession \<Rightarrow> BridgeSession" where
  "close_flag k s = s\<lparr>sendFlags := (sendFlags s)(k := None)\<rparr>"

definition SendOne :: "u8 \<Rightarrow> BridgeSession \<Rightarrow> BridgeSession option" where
  "SendOne byte s = do {
     let k = nextSend s;
     s \<leftarrow> run_for typingInterCharDelay (open_flag (SerialWrite byte) s);
     s \<leftarrow> await_sent 20 k s;
     Some (close_flag k s) }"

fun Typing_Send :: "u8 list \<Rightarrow> BridgeSession \<Rightarrow> BridgeSession option" where
  "Typing_Send [] s = Some s"
| "Typing_Send [b] s = SendOne b s"
| "Typing_Send (b # c # bs) s = do {
     s \<leftarrow> SendOne b s;
     s \<leftarrow> (if 0 < typingInterCharDelay then run_for typingInterCharDelay s else Some s);
     Typing_Send (c # bs) s }"

section \<open>Waiting for silence\<close>

definition unchanged :: "BridgeSession \<Rightarrow> BridgeSession \<Rightarrow> bool" where
  "unchanged s s' \<longleftrightarrow> length (serialLines s') = length (serialLines s) \<and> length (serialBuffer s') = length (serialBuffer s) \<and>
     promptSeen s' = promptSeen s"

lemma append_byte_clock [simp]: "sessionClock (AppendSerialByte b s) = sessionClock s"
  by (simp add: AppendSerialByte_def EmitSerialLine_def Let_def)

lemma serial_bytes_clock [simp]: "sessionClock (OnSerialBytes bs s) = sessionClock s"
  unfolding OnSerialBytes_def by (induction bs arbitrary: s) simp_all

lemma hil_network_event_clock: "hil_network_event e s = Some s' \<Longrightarrow> sessionClock s' = sessionClock s"
  by (cases e) (auto simp: OnCanFrame_def split: option.splits)

lemma run_network_clock:
  assumes "run_network P deadline es x s = Some (x', s')" and "\<And>x s. sessionClock (snd (snd (P x s))) = sessionClock s"
  shows "sessionClock s \<le> sessionClock s' \<and> sessionClock s' \<le> max (sessionClock s) deadline \<and>
    ((\<forall>x s. \<not> fst (P x s)) \<longrightarrow> sessionClock s' = max (sessionClock s) deadline)"
  using assms(1)
proof (induction es arbitrary: x s)
  case Nil
  obtain stop x1 s1 where P: "P x s = (stop, x1, s1)" by (metis prod_cases3)
  have "sessionClock s1 = sessionClock s" "stop \<Longrightarrow> \<exists>x s. fst (P x s)" using assms(2) [of x s] P by (simp, metis fst_conv)
  with Nil P show ?case by (cases stop) auto
next
  case (Cons te es)
  obtain t e stop x1 s1 where te: "te = (t, e)" and P: "P x s = (stop, x1, s1)" by (metis prod_cases3 surj_pair)
  have clock: "sessionClock s1 = sessionClock s" using assms(2) [of x s] P by simp
  have fst: "stop \<Longrightarrow> \<exists>x s. fst (P x s)" using P by (metis fst_conv)
  show ?case
  proof (cases "stop \<or> deadline \<le> max t (sessionClock s1)")
    case True
    then show ?thesis using Cons.prems te P clock fst by (cases stop) auto
  next
    case False
    then obtain s2 where s2: "hil_network_event e (s1\<lparr>sessionClock := max t (sessionClock s1)\<rparr>) = Some s2" "run_network P deadline es x1 s2 = Some (x', s')"
      using Cons.prems te P by (auto split: bind_splits)
    then have m: "sessionClock s2 = max t (sessionClock s)" using hil_network_event_clock [OF s2(1)] clock by simp
    then have "max (sessionClock s2) deadline = deadline" "max (sessionClock s) deadline = deadline" "sessionClock s \<le> sessionClock s2"
      using False clock by auto
    with Cons.IH [OF s2(2)] show ?thesis by auto
  qed
qed

lemma wait_until_clock:
  assumes "wait_until P timeout s = Some s'"
  shows "sessionClock s \<le> sessionClock s' \<and> sessionClock s' \<le> sessionClock s + timeout"
  using assms run_network_clock [of "\<lambda>x s. (P s, x, s)" "sessionClock s + timeout" "sessionSchedule s" "()" s]
  by (auto simp: wait_until_def RunUntil_def)

lemma run_for_clock: "run_for timeout s = Some s' \<Longrightarrow> sessionClock s' = sessionClock s + timeout"
  using run_network_clock [of "\<lambda>x s. (False, x, s)" "sessionClock s + timeout" "sessionSchedule s" "()" s]
  by (auto simp: wait_until_def RunUntil_def)

function drain_loop :: "nat \<Rightarrow> BridgeSession \<Rightarrow> BridgeSession option" where
  "drain_loop deadline s =
     (if sessionClock s < deadline
      then (case run_for idleWindow s of None \<Rightarrow> None | Some s' \<Rightarrow> if unchanged s s' then Some s' else drain_loop deadline s')
      else Some s)"
  by pat_completeness auto
termination
  by (relation "measure (\<lambda>(deadline, s). deadline - sessionClock s)") (auto dest!: run_for_clock simp: idleWindow_def)

declare drain_loop.simps [simp del]

definition DrainUntilQuiet :: "nat \<Rightarrow> BridgeSession \<Rightarrow> BridgeSession option" where
  "DrainUntilQuiet budget s = drain_loop (sessionClock s + budget) s"

section \<open>Operations\<close>

definition ClearSerialLines :: "BridgeSession \<Rightarrow> BridgeSession" where
  "ClearSerialLines s = s\<lparr>serialLines := [], lastSerialLine := [], serialBuffer := [], promptSeen := False, lastSerialDuration := 0\<rparr>"

definition drop_echo :: "u8 list \<Rightarrow> u8 list list \<Rightarrow> u8 list list" where
  "drop_echo command lns = (if lns \<noteq> [] \<and> hd lns = command then tl lns else lns)"

definition last_answer :: "u8 list list \<Rightarrow> u8 list" where
  "last_answer lns = (case filter (\<lambda>ln. ln \<noteq> [] \<and> ln \<noteq> [0x3E, 0x20]) (rev lns) of [] \<Rightarrow> [] | ln # _ \<Rightarrow> ln)"

definition Session_SendSerial :: "u8 list \<Rightarrow> nat \<Rightarrow> BridgeSession \<Rightarrow> ((hil_error + bool) \<times> BridgeSession) option" where
  "Session_SendSerial command timeout s =
     (if \<not> serialAlive s then Some (Inl SerialBridgeDisconnected, s)
      else do {
        s \<leftarrow> run_for preDrain s;
        let s = ClearSerialLines s;
        let sendStart = sessionClock s;
        s \<leftarrow> Typing_Send (command @ [0x0D, 0x0A]) s;
        s \<leftarrow> wait_until (\<lambda>s. serialLines s \<noteq> [] \<or> promptSeen s) timeout s;
        s \<leftarrow> DrainUntilQuiet timeout s;
        let s = s\<lparr>serialLines := drop_echo command (serialLines s)\<rparr>;
        let s = s\<lparr>lastSerialLine := last_answer (serialLines s), lastSerialDuration := sessionClock s - sendStart\<rparr>;
        Some (Inr (promptSeen s \<or> serialLines s \<noteq> [] \<or> lastSerialLine s \<noteq> []), s) })"

definition WaitForPrompt :: "nat \<Rightarrow> BridgeSession \<Rightarrow> (bool \<times> BridgeSession) option" where
  "WaitForPrompt timeout s =
     (if \<not> serialAlive s then Some (False, s)
      else do {
        s \<leftarrow> Typing_Send [0x0D, 0x0A] (ClearSerialLines s);
        s \<leftarrow> wait_until promptSeen timeout s;
        s \<leftarrow> DrainUntilQuiet timeout s;
        Some (promptSeen s, ClearSerialLines s) })"

definition FlushAndAccumulate :: "nat \<Rightarrow> BridgeSession \<Rightarrow> (bool \<times> BridgeSession) option" where
  "FlushAndAccumulate timeout s =
     (if \<not> serialAlive s then Some (False, s)
      else do {
        s \<leftarrow> Typing_Send [0x0D, 0x0A] (s\<lparr>promptSeen := False\<rparr>);
        s \<leftarrow> wait_until promptSeen timeout s;
        s \<leftarrow> DrainUntilQuiet timeout s;
        Some (promptSeen s, s) })"

definition DrainSerial :: "nat \<Rightarrow> BridgeSession \<Rightarrow> ((hil_error + bool) \<times> BridgeSession) option" where
  "DrainSerial timeout s =
     (if \<not> serialAlive s then Some (Inl SerialBridgeDisconnected, s)
      else do {
        s \<leftarrow> run_for timeout (ClearSerialLines s);
        Some (Inr (serialLines s \<noteq> []), s) })"

definition ClearCanFrames :: "BridgeSession \<Rightarrow> BridgeSession" where
  "ClearCanFrames s = s\<lparr>canQueue := []\<rparr>"

definition SendCanFrame :: "CanId \<Rightarrow> u8 list \<Rightarrow> nat \<Rightarrow> BridgeSession \<Rightarrow> ((hil_error + bool) \<times> BridgeSession) option" where
  "SendCanFrame i m timeout s =
     (if \<not> canAlive s then Some (Inl CanBridgeDisconnected, s)
      else do {
        let k = nextSend s;
        s \<leftarrow> wait_until (\<lambda>s. sendFlags s k \<noteq> Some None) timeout (open_flag (CanWrite i m) s);
        Some (Inr (sendFlags s k = Some (Some True)), close_flag k s) })"

text \<open>Identifiers match when they are of one kind and their value of that kind is the same.\<close>

definition id_matches :: "CanId \<Rightarrow> CanFrame \<Rightarrow> bool" where
  "id_matches expected f = (if is29BitId (frameId f) \<noteq> is29BitId expected then False else idBits (frameId f) = idBits expected)"

fun pop_match :: "(CanFrame \<Rightarrow> bool) \<Rightarrow> CanFrame list \<Rightarrow> CanFrame option \<times> CanFrame list" where
  "pop_match m [] = (None, [])"
| "pop_match m (f # fs) = (if m f then (Some f, fs) else pop_match m fs)"

definition take_frame :: "CanId \<Rightarrow> BridgeSession \<Rightarrow> CanFrame option \<times> BridgeSession" where
  "take_frame expected s = (let (f, q) = pop_match (id_matches expected) (canQueue s) in (f, s\<lparr>canQueue := q\<rparr>))"

text \<open>The time since the reference; a reference of zero was never set.\<close>

definition frame_elapsed :: "nat \<Rightarrow> CanFrame \<Rightarrow> int" where
  "frame_elapsed reference f = (let ref = (if reference \<noteq> 0 then reference else frameArrival f) in int (frameArrival f) - int ref)"

definition WaitForCanFrame ::
  "CanId \<Rightarrow> nat \<Rightarrow> nat \<Rightarrow> BridgeSession \<Rightarrow> ((hil_error + CanFrame option \<times> int) \<times> BridgeSession) option" where
  "WaitForCanFrame expected timeout reference s =
     (if \<not> canAlive s then Some (Inl CanBridgeDisconnected, s)
      else let (f, s) = take_frame expected s
        in case f of
             Some f \<Rightarrow> Some (Inr (Some f, frame_elapsed reference f), s)
           | None \<Rightarrow> do {
               (f, s) \<leftarrow> RunUntil (\<lambda>x s. let (f, s) = take_frame expected s in (f \<noteq> None, f, s)) timeout None s;
               case f of
                 None \<Rightarrow> Some (Inr (None, int timeout), s)
               | Some f \<Rightarrow> Some (Inr (Some f, frame_elapsed reference f), s) })"

section \<open>Connecting\<close>

text \<open>The address of a host: its text, or the answer of the resolver, with its octets in network order.\<close>

definition octets_of :: "u32 \<Rightarrow> u8 list" where
  "octets_of a = [ucast (drop_bit 24 a AND 0xFF), ucast (drop_bit 16 a AND 0xFF), ucast (drop_bit 8 a AND 0xFF), ucast (a AND 0xFF)]"

definition ResolveHost :: "(u8 list \<Rightarrow> u32 option) \<Rightarrow> u8 list \<Rightarrow> (hil_error + u8 list) option" where
  "ResolveHost resolver host = do {
     parsed \<leftarrow> ParseIPv4 host;
     Some (case parsed of
         Inr a \<Rightarrow> Inr a
       | Inl e \<Rightarrow> (case resolver host of None \<Rightarrow> Inl CannotResolve | Some a \<Rightarrow> Inr (octets_of a))) }"

definition BridgeSession_new :: "(nat \<times> hil_event) list \<Rightarrow> BridgeSession" where
  "BridgeSession_new es = \<lparr>sessionClock = 0, sessionSchedule = es, sessionCalls = [], serialAlive = False, canAlive = False,
     serialBuffer = [], serialLines = [], lastSerialLine = [], promptSeen = False, lastSerialDuration = 0, canQueue = [],
     sendFlags = (\<lambda>k. None), nextSend = 0\<rparr>"

definition Session_Connect ::
  "(u8 list \<Rightarrow> u32 option) \<Rightarrow> u8 list \<Rightarrow> nat \<Rightarrow> BridgeSession \<Rightarrow> ((hil_error + u8 list) \<times> BridgeSession) option" where
  "Session_Connect resolver host connectTimeout s = do {
     resolved \<leftarrow> ResolveHost resolver host;
     case resolved of
       Inl e \<Rightarrow> Some (Inl e, s)
     | Inr a \<Rightarrow> do {
         s \<leftarrow> wait_until (\<lambda>s. serialAlive s \<and> canAlive s) connectTimeout s;
         Some (if serialAlive s \<and> canAlive s then Inr a else Inl FailedToConnect, s) } }"

section \<open>The fixture of a scenario\<close>

record HilFixture =
  lastResponse :: "u8 list"
  allLines :: "u8 list list"
  lastCommandDuration :: nat
  canReference :: nat

definition read_session :: "BridgeSession \<Rightarrow> HilFixture \<Rightarrow> HilFixture" where
  "read_session s f = f\<lparr>allLines := serialLines s, lastResponse := lastSerialLine s, lastCommandDuration := lastSerialDuration s\<rparr>"

definition SendCommand :: "u8 list \<Rightarrow> nat \<Rightarrow> HilFixture \<times> BridgeSession \<Rightarrow> ((hil_error + bool) \<times> HilFixture \<times> BridgeSession) option" where
  "SendCommand command timeout = (\<lambda>(f, s). do {
     (r, s) \<leftarrow> Session_SendSerial command timeout s;
     Some (r, (case r of Inl e \<Rightarrow> f | Inr ok \<Rightarrow> read_session s f), s) })"

definition DrainLines :: "nat \<Rightarrow> HilFixture \<times> BridgeSession \<Rightarrow> ((hil_error + bool) \<times> HilFixture \<times> BridgeSession) option" where
  "DrainLines timeout = (\<lambda>(f, s). do {
     (r, s) \<leftarrow> DrainSerial timeout s;
     Some (r, (case r of Inl e \<Rightarrow> f | Inr ok \<Rightarrow> read_session s f), s) })"

definition FlushPartialLines :: "nat \<Rightarrow> HilFixture \<times> BridgeSession \<Rightarrow> (bool \<times> HilFixture \<times> BridgeSession) option" where
  "FlushPartialLines timeout = (\<lambda>(f, s). do { (ok, s) \<leftarrow> FlushAndAccumulate timeout s; Some (ok, read_session s f, s) })"

definition Fixture_WaitForPrompt :: "nat \<Rightarrow> HilFixture \<times> BridgeSession \<Rightarrow> (bool \<times> HilFixture \<times> BridgeSession) option" where
  "Fixture_WaitForPrompt timeout = (\<lambda>(f, s). do { (ok, s) \<leftarrow> WaitForPrompt timeout s; Some (ok, read_session s f, s) })"

definition StartCanCapture :: "HilFixture \<times> BridgeSession \<Rightarrow> HilFixture \<times> BridgeSession" where
  "StartCanCapture = (\<lambda>(f, s). (f\<lparr>canReference := 0\<rparr>, ClearCanFrames s))"

definition MarkCanReference :: "HilFixture \<times> BridgeSession \<Rightarrow> HilFixture \<times> BridgeSession" where
  "MarkCanReference = (\<lambda>(f, s). (f\<lparr>canReference := sessionClock s\<rparr>, s))"

definition Fixture_WaitForCanFrame ::
  "CanId \<Rightarrow> nat \<Rightarrow> HilFixture \<times> BridgeSession \<Rightarrow> ((hil_error + u8 list option \<times> int) \<times> HilFixture \<times> BridgeSession) option" where
  "Fixture_WaitForCanFrame expected timeout = (\<lambda>(f, s). do {
     (r, s) \<leftarrow> WaitForCanFrame expected timeout (canReference f) s;
     Some (case r of Inl e \<Rightarrow> Inl e | Inr (fr, elapsed) \<Rightarrow> Inr (map_option frameMessage fr, elapsed), f, s) })"

section \<open>The steps on the CAN bus\<close>

text \<open>The commands are sent and the reference is taken once they are answered; then the frame must be there within
  ten milliseconds.\<close>

definition can_step_transmit :: "HilFixture \<times> BridgeSession \<Rightarrow> (bool \<times> HilFixture \<times> BridgeSession) option" where
  "can_step_transmit fs = do {
     (r, fs) \<leftarrow> SendCommand (ascii ''can_start 500000'') 500 (StartCanCapture fs);
     if r \<noteq> Inr True then Some (False, fs) else do {
       (r, fs) \<leftarrow> SendCommand (ascii ''can_send 256 1 2 3'') 500 fs;
       if r \<noteq> Inr True then Some (False, fs) else do {
         (ok, fs) \<leftarrow> FlushPartialLines 500 (MarkCanReference fs);
         Some (\<exists>ln \<in> set (allLines (fst fs)). sublist (ascii ''CAN frame sent'') ln, fs) } } }"

definition can_step_received :: "HilFixture \<times> BridgeSession \<Rightarrow> (bool \<times> HilFixture \<times> BridgeSession) option" where
  "can_step_received fs = do {
     (r, fs) \<leftarrow> Fixture_WaitForCanFrame \<lparr>is29BitId = False, idBits = 256\<rparr> 10 fs;
     Some (case r of Inr (Some m, elapsed) \<Rightarrow> m = [1, 2, 3] \<and> elapsed \<le> 10 | _ \<Rightarrow> False, fs) }"

section \<open>Every scenario\<close>

text \<open>The target answers to a probe, with a second try; a thrown error ends the scenario.\<close>

definition step_responding :: "HilFixture \<times> BridgeSession \<Rightarrow> (bool \<times> HilFixture \<times> BridgeSession) option" where
  "step_responding fs = do {
     (p, fs) \<leftarrow> Fixture_WaitForPrompt 1000 fs;
     (r, fs) \<leftarrow> SendCommand (ascii ''enc'') 500 fs;
     case r of
       Inl e \<Rightarrow> Some (False, fs)
     | Inr responded \<Rightarrow>
         if \<not> responded \<or> lastResponse (fst fs) = [] then do {
           (p, fs) \<leftarrow> Fixture_WaitForPrompt 1000 fs;
           (r, fs) \<leftarrow> SendCommand (ascii ''enc'') 500 fs;
           Some (r = Inr True \<and> lastResponse (fst fs) \<noteq> [], fs) }
         else Some (True, fs) }"

text \<open>Before a scenario motor and bus are stopped; the answers are not looked at.\<close>

definition hook_before_scenario :: "BridgeSession \<Rightarrow> ((hil_error + unit) \<times> BridgeSession) option" where
  "hook_before_scenario s = do {
     (p, s) \<leftarrow> WaitForPrompt 500 s;
     (r, s) \<leftarrow> Session_SendSerial (ascii ''stop'') 200 s;
     case r of
       Inl e \<Rightarrow> Some (Inl e, s)
     | Inr ok \<Rightarrow> do {
         (r, s) \<leftarrow> Session_SendSerial (ascii ''can_stop'') 200 s;
         case r of
           Inl e \<Rightarrow> Some (Inl e, s)
         | Inr ok \<Rightarrow> do { (p, s) \<leftarrow> WaitForPrompt 200 s; Some (Inr (), s) } } }"

text \<open>After it the session is drained; the last value is what the transcript reports of the scenario, a constant.\<close>

definition hook_after_scenario :: "BridgeSession \<Rightarrow> ((hil_error + bool) \<times> BridgeSession) option" where
  "hook_after_scenario s = do {
     (r, s) \<leftarrow> DrainSerial 200 s;
     case r of
       Inl e \<Rightarrow> Some (Inl e, s)
     | Inr ok \<Rightarrow> do { (p, s) \<leftarrow> WaitForPrompt 500 s; Some (Inr True, s) } }"

section \<open>Flashing\<close>

record BridgeConfig =
  bridgeHost :: "u8 list"
  bridgeSerialPort :: u16
  bridgeCanPort :: u16
  connectTimeout :: nat
  gdbExe :: "u8 list"
  gdbTarget :: "u8 list"
  firmwareElf :: "u8 list"
  skipFlash :: bool
  postFlashDelay :: nat

definition BuildScript :: "BridgeConfig \<Rightarrow> u8 list" where
  "BuildScript cfg = concat (map (\<lambda>ln. ln @ [0x0A])
     [ascii ''set pagination off'', ascii ''set confirm off'', ascii ''set print thread-events off'',
      ascii ''target extended-remote '' @ gdbTarget cfg, ascii ''monitor reset'', ascii ''monitor halt'', ascii ''load'',
      ascii ''compare-sections'', ascii ''monitor reset'', ascii ''monitor go'', ascii ''disconnect'', ascii ''quit''])"

datatype flash_error = FlashNotConfigured | FileNotWritten | FlashFailed int

text \<open>The file of the script and the exit code of a command are the answers of the system; what is run is a script and a
  command line.\<close>

definition Flash :: "u8 list \<Rightarrow> bool \<Rightarrow> (u8 list \<Rightarrow> u8 list \<Rightarrow> int) \<Rightarrow> BridgeConfig \<Rightarrow> flash_error + (u8 list \<times> u8 list) option" where
  "Flash path saved exit_code cfg =
     (if skipFlash cfg then Inr None
      else if gdbExe cfg = [] \<or> gdbTarget cfg = [] \<or> firmwareElf cfg = [] then Inl FlashNotConfigured
      else if \<not> saved then Inl FileNotWritten
      else let command = gdbExe cfg @ ascii '' --batch --nx'' @ ascii '' -x '' @ path @ ascii '' '' @ firmwareElf cfg @ ascii '' 2>&1''
        in if exit_code (BuildScript cfg) command \<noteq> 0 then Inl (FlashFailed (exit_code (BuildScript cfg) command))
           else Inr (Some (BuildScript cfg, command)))"

end
