(* ===== verification/Hil_Correct.thy ===== *)
theory Hil_Correct
  imports Hil_Session
begin

text \<open>
  What the session of the hardware tests reads: lines and prompts from the bytes, only what arrives while a command
  waits, in bounded time; and what its CAN steps do not test.
\<close>

section \<open>Lines and prompts\<close>

definition no_prompt :: "u8 list \<Rightarrow> bool" where
  "no_prompt bs \<longleftrightarrow> (\<forall>i. Suc i < length bs \<longrightarrow> \<not> (bs ! i = 0x3E \<and> bs ! Suc i = 0x20))"

lemma no_prompt_prefix:
  assumes "no_prompt (xs @ ys)"
  shows "no_prompt xs"
  unfolding no_prompt_def
proof (intro allI impI)
  fix i assume i: "Suc i < length xs"
  then have "\<not> ((xs @ ys) ! i = 0x3E \<and> (xs @ ys) ! Suc i = 0x20)" using assms unfolding no_prompt_def by (metis length_append trans_less_add1)
  then show "\<not> (xs ! i = 0x3E \<and> xs ! Suc i = 0x20)" using i by (simp add: nth_append)
qed

lemma append_plain:
  assumes "ch \<noteq> 0x0A" "no_prompt (serialBuffer s @ [ch])"
  shows "AppendSerialByte ch s = s\<lparr>serialBuffer := serialBuffer s @ [ch]\<rparr>"
proof -
  let ?buf = "serialBuffer s @ [ch]"
  have "\<not> (2 \<le> length ?buf \<and> ?buf ! (length ?buf - 2) = 0x3E \<and> ?buf ! (length ?buf - 1) = 0x20)"
  proof
    assume two: "2 \<le> length ?buf \<and> ?buf ! (length ?buf - 2) = 0x3E \<and> ?buf ! (length ?buf - 1) = 0x20"
    then have "2 \<le> length ?buf" by blast
    then have eq: "Suc (length ?buf - 2) = length ?buf - 1" by linarith
    then have "Suc (length ?buf - 2) < length ?buf" using \<open>2 \<le> length ?buf\<close> by linarith
    then have "\<not> (?buf ! (length ?buf - 2) = 0x3E \<and> ?buf ! Suc (length ?buf - 2) = 0x20)" using assms(2) unfolding no_prompt_def by blast
    then show False using two unfolding eq by blast
  qed
  then show ?thesis using assms(1) unfolding AppendSerialByte_def Let_def by (simp only: if_False)
qed

lemma append_plains:
  assumes "0x0A \<notin> set bs" "no_prompt (serialBuffer s @ bs)"
  shows "OnSerialBytes bs s = s\<lparr>serialBuffer := serialBuffer s @ bs\<rparr>"
  using assms
proof (induction bs arbitrary: s)
  case (Cons b bs)
  have "AppendSerialByte b s = s\<lparr>serialBuffer := serialBuffer s @ [b]\<rparr>"
    using Cons.prems no_prompt_prefix [of "serialBuffer s @ [b]" bs] by (intro append_plain) auto
  with Cons show ?case by (simp add: OnSerialBytes_def)
qed (simp add: OnSerialBytes_def)

lemma serial_bytes_append: "OnSerialBytes (xs @ ys) s = OnSerialBytes ys (OnSerialBytes xs s)"
  by (simp add: OnSerialBytes_def)

definition plain_line :: "u8 list \<Rightarrow> bool" where
  "plain_line ln \<longleftrightarrow> 0x0A \<notin> set ln \<and> no_prompt ln"

lemma append_line:
  assumes "plain_line ln" "serialBuffer s = []"
  shows "OnSerialBytes (ln @ [0x0D, 0x0A]) s = (EmitSerialLine ln s)\<lparr>serialBuffer := []\<rparr>"
proof -
  have "no_prompt (ln @ [0x0D])" using assms(1) by (auto simp: plain_line_def no_prompt_def nth_append less_Suc_eq)
  then have "OnSerialBytes (ln @ [0x0D]) s = s\<lparr>serialBuffer := ln @ [0x0D]\<rparr>"
    using assms append_plains [of "ln @ [0x0D]" s] by (simp add: plain_line_def)
  then have "OnSerialBytes ((ln @ [0x0D]) @ [0x0A]) s = AppendSerialByte 0x0A (s\<lparr>serialBuffer := ln @ [0x0D]\<rparr>)"
    by (simp only: serial_bytes_append) (simp add: OnSerialBytes_def)
  then show ?thesis by (simp add: AppendSerialByte_def strip_return_def EmitSerialLine_def)
qed

text \<open>An answer of the device: its lines, and the prompt.\<close>

definition answer_text :: "u8 list list \<Rightarrow> u8 list" where
  "answer_text lns = concat (map (\<lambda>ln. ln @ [0x0D, 0x0A]) lns) @ [0x3E, 0x20]"

lemma append_lines:
  assumes "\<forall>ln \<in> set lns. plain_line ln" "serialBuffer s = []"
  shows "\<exists>l. OnSerialBytes (concat (map (\<lambda>ln. ln @ [0x0D, 0x0A]) lns)) s =
    s\<lparr>serialBuffer := [], serialLines := serialLines s @ filter (\<lambda>ln. ln \<noteq> []) lns, lastSerialLine := l\<rparr>"
  using assms
proof (induction lns arbitrary: s)
  case Nil
  then have "s = s\<lparr>serialBuffer := [], serialLines := serialLines s, lastSerialLine := lastSerialLine s\<rparr>" by (cases s) simp
  then show ?case unfolding OnSerialBytes_def by (intro exI [of _ "lastSerialLine s"]) simp
next
  case (Cons ln lns)
  let ?s = "(EmitSerialLine ln s)\<lparr>serialBuffer := []\<rparr>"
  obtain l where l: "OnSerialBytes (concat (map (\<lambda>ln. ln @ [0x0D, 0x0A]) lns)) ?s =
      ?s\<lparr>serialBuffer := [], serialLines := serialLines ?s @ filter (\<lambda>ln. ln \<noteq> []) lns, lastSerialLine := l\<rparr>"
    using Cons.IH [of ?s] Cons.prems by auto
  have "OnSerialBytes (concat (map (\<lambda>ln. ln @ [0x0D, 0x0A]) (ln # lns))) s =
      OnSerialBytes (concat (map (\<lambda>ln. ln @ [0x0D, 0x0A]) lns)) (OnSerialBytes (ln @ [0x0D, 0x0A]) s)"
    by (simp add: serial_bytes_append [symmetric])
  also have "\<dots> = OnSerialBytes (concat (map (\<lambda>ln. ln @ [0x0D, 0x0A]) lns)) ?s" using append_line [of ln s] Cons.prems by simp
  finally show ?case using l by (intro exI [of _ l]) (simp add: EmitSerialLine_def)
qed

lemma answer_is_read:
  assumes "\<forall>ln \<in> set lns. plain_line ln" "serialBuffer s = []"
  shows "\<exists>l. OnSerialBytes (answer_text lns) s =
    s\<lparr>serialBuffer := [], serialLines := serialLines s @ filter (\<lambda>ln. ln \<noteq> []) lns, lastSerialLine := l, promptSeen := True\<rparr>"
proof -
  have "OnSerialBytes [0x3E, 0x20] t = t\<lparr>serialBuffer := [], promptSeen := True\<rparr>" if "serialBuffer t = []" for t
    using that by (simp add: OnSerialBytes_def AppendSerialByte_def EmitSerialLine_def strip_return_def Let_def)
  moreover obtain l where "OnSerialBytes (concat (map (\<lambda>ln. ln @ [0x0D, 0x0A]) lns)) s =
      s\<lparr>serialBuffer := [], serialLines := serialLines s @ filter (\<lambda>ln. ln \<noteq> []) lns, lastSerialLine := l\<rparr>"
    using append_lines [OF assms] by blast
  ultimately show ?thesis by (intro exI [of _ l]) (simp add: answer_text_def serial_bytes_append)
qed

text \<open>The end of a prompt inside a line cuts the line in two and is taken for the prompt.\<close>

lemma greater_than_is_prompt:
  "serialBuffer s = [] \<Longrightarrow> serialLines s = [] \<Longrightarrow>
   serialLines (OnSerialBytes (ascii ''3 > 2'' @ [0x0D, 0x0A]) s) = [ascii ''3 '', ascii ''2''] \<and>
   promptSeen (OnSerialBytes (ascii ''3 > 2'' @ [0x0D, 0x0A]) s)"
  by (simp add: OnSerialBytes_def AppendSerialByte_def EmitSerialLine_def strip_return_def ascii_def Let_def)

section \<open>What arrives while a command waits\<close>

fun serial_bytes :: "(nat \<times> hil_event) list \<Rightarrow> u8 list" where
  "serial_bytes [] = []"
| "serial_bytes ((t, SerialBytes bs) # es) = bs @ serial_bytes es"
| "serial_bytes (_ # es) = serial_bytes es"

lemma serial_bytes_split: "serial_bytes (xs @ ys) = serial_bytes xs @ serial_bytes ys"
  by (induction xs rule: serial_bytes.induct) simp_all

definition same_serial :: "BridgeSession \<Rightarrow> BridgeSession \<Rightarrow> bool" where
  "same_serial s t \<longleftrightarrow> serialBuffer t = serialBuffer s \<and> serialLines t = serialLines s \<and> lastSerialLine t = lastSerialLine s \<and> promptSeen t = promptSeen s"

lemma same_serial_byte: "same_serial s t \<Longrightarrow> same_serial (AppendSerialByte b s) (AppendSerialByte b t)"
  by (auto simp: same_serial_def AppendSerialByte_def EmitSerialLine_def Let_def)

lemma same_serial_bytes: "same_serial s t \<Longrightarrow> same_serial (OnSerialBytes bs s) (OnSerialBytes bs t)"
  unfolding OnSerialBytes_def by (induction bs arbitrary: s t) (simp_all add: same_serial_byte)

lemma same_serial_trans: "same_serial s t \<Longrightarrow> same_serial t u \<Longrightarrow> same_serial s u"
  by (simp add: same_serial_def)

text \<open>The events between two states, and nothing but their bytes on the serial line.\<close>

definition reads :: "BridgeSession \<Rightarrow> BridgeSession \<Rightarrow> bool" where
  "reads s t \<longleftrightarrow> (\<exists>es. sessionSchedule s = es @ sessionSchedule t \<and> same_serial (OnSerialBytes (serial_bytes es) s) t)"

lemma reads_refl: "sessionSchedule t = sessionSchedule s \<Longrightarrow> same_serial s t \<Longrightarrow> reads s t"
  unfolding reads_def by (intro exI [of _ "[]"]) (simp add: OnSerialBytes_def)

lemma reads_trans: "reads s t \<Longrightarrow> reads t u \<Longrightarrow> reads s u"
proof -
  assume "reads s t" "reads t u"
  then obtain es fs where e: "sessionSchedule s = es @ sessionSchedule t" "same_serial (OnSerialBytes (serial_bytes es) s) t"
    and f: "sessionSchedule t = fs @ sessionSchedule u" "same_serial (OnSerialBytes (serial_bytes fs) t) u"
    by (auto simp: reads_def)
  have "same_serial (OnSerialBytes (serial_bytes (es @ fs)) s) u"
    using same_serial_trans [OF same_serial_bytes [OF e(2)] f(2)] by (simp add: serial_bytes_split serial_bytes_append)
  then show ?thesis using e(1) f(1) unfolding reads_def by (intro exI [of _ "es @ fs"]) simp
qed

lemma hil_network_event_serial:
  assumes "hil_network_event e s = Some s'"
  shows "same_serial (OnSerialBytes (serial_bytes [(t, e)]) s) s' \<and> sessionSchedule s' = sessionSchedule s"
proof -
  have schedule: "sessionSchedule (AppendSerialByte b s) = sessionSchedule s" for b s
    by (simp add: AppendSerialByte_def EmitSerialLine_def Let_def)
  have "sessionSchedule (OnSerialBytes bs s) = sessionSchedule s" for bs s
    unfolding OnSerialBytes_def by (induction bs arbitrary: s) (simp_all add: schedule)
  moreover have "OnSerialBytes [] s = s" by (simp add: OnSerialBytes_def)
  ultimately show ?thesis using assms by (cases e) (auto simp: same_serial_def OnCanFrame_def split: option.splits)
qed

lemma run_network_reads:
  assumes "run_network P deadline es x s = Some (x', s')" and "\<And>x s. same_serial s (snd (snd (P x s)))"
  shows "\<exists>fs. es = fs @ sessionSchedule s' \<and> same_serial (OnSerialBytes (serial_bytes fs) s) s'"
  using assms(1)
proof (induction es arbitrary: x s)
  case Nil
  obtain stop x1 s1 where P: "P x s = (stop, x1, s1)" by (metis prod_cases3)
  then have "same_serial s s1" using assms(2) [of s x] by simp
  with P Nil show ?case by (auto simp: same_serial_def OnSerialBytes_def split: if_splits)
next
  case (Cons te es)
  obtain t e stop x1 s1 where te: "te = (t, e)" and P: "P x s = (stop, x1, s1)" by (metis prod_cases3 surj_pair)
  have same: "same_serial s s1" using assms(2) [of s x] P by simp
  show ?case
  proof (cases "stop \<or> deadline \<le> max t (sessionClock s1)")
    case True
    then have "same_serial s s' \<and> sessionSchedule s' = te # es" using Cons.prems te P same by (cases stop) (auto simp: same_serial_def)
    then show ?thesis by (intro exI [of _ "[]"]) (simp add: OnSerialBytes_def)
  next
    case False
    let ?s1 = "s1\<lparr>sessionClock := max t (sessionClock s1)\<rparr>"
    obtain s2 where s2: "hil_network_event e ?s1 = Some s2" "run_network P deadline es x1 s2 = Some (x', s')"
      using False Cons.prems te P by (auto split: bind_splits)
    obtain fs where fs: "es = fs @ sessionSchedule s'" "same_serial (OnSerialBytes (serial_bytes fs) s2) s'" using Cons.IH [OF s2(2)] by blast
    have "same_serial s ?s1" using same by (simp add: same_serial_def)
    from same_serial_bytes [OF this] hil_network_event_serial [OF s2(1), of t]
    have "same_serial (OnSerialBytes (serial_bytes [(t, e)]) s) s2" by (blast intro: same_serial_trans)
    from same_serial_trans [OF same_serial_bytes [OF this] fs(2)]
    have "same_serial (OnSerialBytes (serial_bytes ((t, e) # fs)) s) s'"
      using serial_bytes_split [of "[(t, e)]" fs] by (simp add: serial_bytes_append)
    then show ?thesis using fs(1) te by (intro exI [of _ "(t, e) # fs"]) simp
  qed
qed

lemma wait_reads: "wait_until P timeout s = Some s' \<Longrightarrow> reads s s'"
  using run_network_reads [of "\<lambda>x s. (P s, x, s)" "sessionClock s + timeout" "sessionSchedule s" "()" s]
  by (auto simp: wait_until_def RunUntil_def reads_def same_serial_def)

lemma await_reads: "await_sent n k s = Some s' \<Longrightarrow> reads s s'"
proof (induction n arbitrary: s)
  case (Suc n)
  then show ?case by (auto intro: reads_refl reads_trans dest: wait_reads simp: same_serial_def split: if_splits bind_splits)
qed (simp add: reads_refl same_serial_def)

lemma send_one_reads: "SendOne b s = Some s' \<Longrightarrow> reads s s'"
proof -
  assume "SendOne b s = Some s'"
  then obtain s1 s2 where s1: "run_for typingInterCharDelay (open_flag (SerialWrite b) s) = Some s1" "await_sent 20 (nextSend s) s1 = Some s2"
      "s' = close_flag (nextSend s) s2"
    by (auto simp: SendOne_def Let_def split: bind_splits)
  have "reads s (open_flag (SerialWrite b) s)" "reads s2 s'" by (simp_all add: reads_refl same_serial_def open_flag_def close_flag_def s1(3))
  with wait_reads [OF s1(1)] await_reads [OF s1(2)] show ?thesis by (blast intro: reads_trans)
qed

lemma typing_reads: "Typing_Send bs s = Some s' \<Longrightarrow> reads s s'"
proof (induction bs s arbitrary: s' rule: Typing_Send.induct)
  case (3 b c bs s)
  then obtain s1 s2 where "SendOne b s = Some s1" "run_for typingInterCharDelay s1 = Some s2" "Typing_Send (c # bs) s2 = Some s'"
    by (auto simp: typingInterCharDelay_def split: bind_splits)
  with 3 show ?case by (metis reads_trans send_one_reads wait_reads typingInterCharDelay_def zero_less_numeral)
qed (auto simp: reads_refl same_serial_def send_one_reads)

lemma drain_reads: "drain_loop deadline s = Some s' \<Longrightarrow> reads s s'"
proof (induction deadline s arbitrary: s' rule: drain_loop.induct)
  case (1 deadline s)
  then show ?case
    by (subst (asm) (2) drain_loop.simps)
      (auto intro: reads_refl reads_trans wait_reads simp: same_serial_def split: if_splits option.splits)
qed

section \<open>Time\<close>

lemma await_clock: "await_sent n k s = Some s' \<Longrightarrow> sessionClock s' \<le> sessionClock s + n * typingInterCharDelay"
proof (induction n arbitrary: s)
  case (Suc n)
  then show ?case by (fastforce dest: run_for_clock split: if_splits bind_splits)
qed simp

lemma send_one_clock: "SendOne b s = Some s' \<Longrightarrow> sessionClock s' \<le> sessionClock s + 21 * typingInterCharDelay"
  by (auto simp: SendOne_def Let_def open_flag_def close_flag_def dest!: run_for_clock await_clock split: bind_splits)

lemma typing_clock: "Typing_Send bs s = Some s' \<Longrightarrow> sessionClock s' \<le> sessionClock s + 22 * length bs * typingInterCharDelay"
proof (induction bs s arbitrary: s' rule: Typing_Send.induct)
  case (3 b c bs s)
  then obtain s1 s2 where s1: "SendOne b s = Some s1" and s2: "run_for typingInterCharDelay s1 = Some s2" and rest: "Typing_Send (c # bs) s2 = Some s'"
    by (auto simp: typingInterCharDelay_def split: bind_splits)
  have "sessionClock s' \<le> sessionClock s2 + 22 * length (c # bs) * typingInterCharDelay"
    by (rule "3.IH" [OF s1 _ rest]) (simp add: s2, simp add: typingInterCharDelay_def)
  with send_one_clock [OF s1] run_for_clock [OF s2] show ?case by (simp add: typingInterCharDelay_def)
next
  case (2 b s)
  then show ?case using send_one_clock [of b s s'] by (simp add: typingInterCharDelay_def)
qed simp

lemma drain_clock: "drain_loop deadline s = Some s' \<Longrightarrow> sessionClock s' \<le> max (sessionClock s) (deadline + idleWindow)"
proof (induction deadline s arbitrary: s' rule: drain_loop.induct)
  case (1 deadline s)
  show ?case
  proof (cases "sessionClock s < deadline")
    case True
    with "1.prems" obtain s1 where s1: "run_for idleWindow s = Some s1" "unchanged s s1 \<and> s' = s1 \<or> \<not> unchanged s s1 \<and> drain_loop deadline s1 = Some s'"
      by (subst (asm) drain_loop.simps) (auto split: option.splits if_splits)
    then show ?thesis using run_for_clock [OF s1(1)] "1.IH" [OF True s1(1)] True by fastforce
  next
    case False
    with "1.prems" show ?thesis by (subst (asm) drain_loop.simps) simp
  qed
qed

section \<open>A command\<close>

lemma send_serial_parts:
  assumes "Session_SendSerial command timeout s = Some (Inr ok, s')"
  obtains s1 s4 where "run_for preDrain s = Some s1" "reads (ClearSerialLines s1) s4"
    "s' = s4\<lparr>serialLines := drop_echo command (serialLines s4), lastSerialLine := last_answer (drop_echo command (serialLines s4)),
       lastSerialDuration := sessionClock s4 - sessionClock s1\<rparr>"
    "ok = (promptSeen s4 \<or> serialLines s' \<noteq> [] \<or> lastSerialLine s' \<noteq> [])"
    "sessionClock s4 \<le> sessionClock s1 + 22 * (length command + 2) * typingInterCharDelay + 2 * timeout + idleWindow"
proof -
  from assms obtain s1 s2 s3 s4 where s1: "run_for preDrain s = Some s1"
      and s2: "Typing_Send (command @ [0x0D, 0x0A]) (ClearSerialLines s1) = Some s2"
      and s3: "wait_until (\<lambda>s. serialLines s \<noteq> [] \<or> promptSeen s) timeout s2 = Some s3" and s4: "DrainUntilQuiet timeout s3 = Some s4"
      and s': "s' = s4\<lparr>serialLines := drop_echo command (serialLines s4), lastSerialLine := last_answer (drop_echo command (serialLines s4)),
          lastSerialDuration := sessionClock s4 - sessionClock s1\<rparr>"
      and ok: "ok = (promptSeen s4 \<or> serialLines s' \<noteq> [] \<or> lastSerialLine s' \<noteq> [])"
    by (auto simp: Session_SendSerial_def ClearSerialLines_def Let_def split: if_splits bind_splits)
  have "reads (ClearSerialLines s1) s4"
    using typing_reads [OF s2] wait_reads [OF s3] drain_reads [of "sessionClock s3 + timeout" s3 s4] s4
    by (auto intro: reads_trans simp: DrainUntilQuiet_def)
  moreover have "sessionClock s4 \<le> sessionClock s1 + 22 * (length command + 2) * typingInterCharDelay + 2 * timeout + idleWindow"
    using typing_clock [OF s2] wait_until_clock [OF s3] drain_clock [of "sessionClock s3 + timeout" s3 s4] s4
    by (simp add: DrainUntilQuiet_def ClearSerialLines_def)
  ultimately show ?thesis using that s1 s' ok by blast
qed

text \<open>A command reads what arrives while it waits and nothing else: when that is its echo, the lines of an answer and the
  prompt, it returns exactly these lines. It takes at most 0.11 seconds for each of its bytes, twice its time limit, and
  0.105 seconds.\<close>

lemma command_reads_its_answer:
  assumes "Session_SendSerial command timeout s = Some (Inr ok, s')"
  shows "\<exists>before during. sessionSchedule s = before @ during @ sessionSchedule s' \<and>
    sessionClock s' \<le> sessionClock s + 110 * (length command + 2) + 2 * timeout + 105 \<and>
    (\<forall>lns. serial_bytes during = answer_text (command # lns) \<and> command \<noteq> [] \<and> (\<forall>ln \<in> set (command # lns). plain_line ln) \<longrightarrow>
       ok \<and> serialLines s' = filter (\<lambda>ln. ln \<noteq> []) lns \<and> lastSerialLine s' = last_answer lns)"
proof -
  obtain s1 s4 where s1: "run_for preDrain s = Some s1" and s4: "reads (ClearSerialLines s1) s4"
      and s': "s' = s4\<lparr>serialLines := drop_echo command (serialLines s4), lastSerialLine := last_answer (drop_echo command (serialLines s4)),
          lastSerialDuration := sessionClock s4 - sessionClock s1\<rparr>"
      and ok: "ok = (promptSeen s4 \<or> serialLines s' \<noteq> [] \<or> lastSerialLine s' \<noteq> [])"
      and time: "sessionClock s4 \<le> sessionClock s1 + 22 * (length command + 2) * typingInterCharDelay + 2 * timeout + idleWindow"
    by (rule send_serial_parts [OF assms])
  obtain before where before: "sessionSchedule s = before @ sessionSchedule s1" using wait_reads [OF s1] by (auto simp: reads_def)
  obtain during where during: "sessionSchedule s1 = during @ sessionSchedule s4" "same_serial (OnSerialBytes (serial_bytes during) (ClearSerialLines s1)) s4"
    using s4 by (auto simp: reads_def ClearSerialLines_def)
  have "ok \<and> serialLines s' = filter (\<lambda>ln. ln \<noteq> []) lns \<and> lastSerialLine s' = last_answer lns"
    if a: "serial_bytes during = answer_text (command # lns)" "command \<noteq> []" "\<forall>ln \<in> set (command # lns). plain_line ln" for lns
  proof -
    have "serialLines s4 = command # filter (\<lambda>ln. ln \<noteq> []) lns" "promptSeen s4"
      using answer_is_read [OF a(3), of "ClearSerialLines s1"] during(2) a(1,2) by (auto simp: same_serial_def ClearSerialLines_def)
    moreover have "last_answer (filter (\<lambda>ln. ln \<noteq> []) lns) = last_answer lns" by (simp add: last_answer_def rev_filter conj_commute)
    ultimately show ?thesis by (simp add: s' ok drop_echo_def)
  qed
  moreover have "sessionClock s' \<le> sessionClock s + 110 * (length command + 2) + 2 * timeout + 105"
    using time run_for_clock [OF s1] by (simp add: s' typingInterCharDelay_def idleWindow_def preDrain_def)
  moreover have "sessionSchedule s = before @ during @ sessionSchedule s'" using before during(1) by (simp add: s')
  ultimately show ?thesis by blast
qed

section \<open>What the tests miss\<close>

text \<open>The reference of the CAN steps is taken when the command has been answered. A frame that is there by then has a
  latency below zero, so the limit of ten milliseconds holds however late the frame was.\<close>

lemma captured_frame_is_never_late:
  assumes "canAlive s" "pop_match (id_matches \<lparr>is29BitId = False, idBits = 256\<rparr>) (canQueue s) = (Some fr, q)"
    and "frameArrival fr \<le> canReference f" "0 < canReference f"
  shows "can_step_received (f, s) = Some (frameMessage fr = [1, 2, 3], f, s\<lparr>canQueue := q\<rparr>)"
  using assms by (simp add: can_step_received_def Fixture_WaitForCanFrame_def WaitForCanFrame_def take_frame_def frame_elapsed_def Let_def)

text \<open>A frame whose sending is completed after its time limit: the completion writes to a variable of a call that has
  returned.\<close>

lemma late_completion_is_undefined:
  assumes "canAlive s" "sessionSchedule s = (sessionClock s + 150, SendCompleted (nextSend s) True) # es"
  shows "\<exists>s'. SendCanFrame i m 100 s = Some (Inr False, s') \<and> run_for 100 s' = None"
  using assms
  by (simp add: SendCanFrame_def wait_until_def RunUntil_def open_flag_def close_flag_def Let_def)

text \<open>The transcript reports every scenario as passed.\<close>

lemma every_scenario_is_reported_passed: "hook_after_scenario s = Some (Inr passed, s') \<Longrightarrow> passed"
  by (auto simp: hook_after_scenario_def split: bind_splits sum.splits)

end
