(* ===== verification/Spec2Isabelle.thy ===== *)
theory Spec2Isabelle
  imports Nvm_Properties Sm_Properties Bridge_Properties Terminal_Effects Tcp_Properties Foc_Kernels Foc_Loop_Properties Alignment_Correct Electrical_Correct Resistance_Correct Drive_Correct Fault_Handler Can_Client Hardware_Correct Simulator_Correct Can_Adapters_Correct Bridge_Window Terminal_View Scope_Widget Application Commander_Panels Simulator_View Hil_Logger Hil_Correct
begin

text \<open>
  Verification library of the motor-control firmware e-foc and its host tools.

  The program. The firmware drives a three-phase motor. An inverter delivers phase currents to one
  callback; the runner (\<open>core/foc/implementations/Runner.cpp\<close>) gives them to a torque, speed or position
  controller and the duty cycles back to the inverter. A state machine (\<open>core/state_machine\<close>) enables the
  controller once it is calibrated, runs the calibration services (\<open>core/services\<close>: pole pairs,
  resistance and inductance, alignment, friction and inertia) and keeps their results in the non-volatile
  memory. The control mode chooses between machines, and a bridge takes CAN commands to it. The host
  tools (\<open>tools\<close>) talk to the motor over CAN and TCP and show its serial terminal.

  Theories and the code they model.
  \<^item> \<open>Foc_Prelude\<close>: machine words, checked integers and element access, counted loops, byte images.
  \<^item> \<open>Nvm_Records\<close>, \<open>Nvm_Region\<close>, \<open>Nvm_Impl\<close>: \<open>core/services/non_volatile_memory\<close>: the records and
    their images, regions on an EEPROM, and the service with its asynchronous region requests.
    \<open>Nvm_Correct\<close>: which images load. \<open>Nvm_Schedule\<close>: every schedule of calls and completions.
    \<open>Nvm_Properties\<close>: save and load, torn writes, answers.
  \<^item> \<open>Sm_Model\<close>: \<open>FocStateMachineImpl\<close> and its three kinds. \<open>Sm_Correct\<close>, \<open>Sm_Invariants\<close>,
    \<open>Sm_Properties\<close>: totality, the graph of states, stops, answers, configuration.
  \<^item> \<open>Control_Mode\<close>, \<open>Can_Bridge\<close>: \<open>ControlModeStateMachine\<close>, \<open>FocMotorCanBridge\<close>;
    \<open>Mode_Correct\<close>, \<open>Mode_Properties\<close>, \<open>Bridge_Properties\<close>: selections, commands, emergency stop.
  \<^item> \<open>Foc_Float\<close>: the arithmetic of the control code as a parameter. \<open>Foc_Transforms\<close>: Clarke and Park
    transforms, space vector modulation, the sine table. \<open>Foc_Loop\<close>: the controllers. \<open>Foc_Runner\<close>: the
    runner over the interface \<open>FocBase\<close>. \<open>Foc_Sine\<close>, \<open>Foc_Kernels\<close>, \<open>Foc_Modulation\<close>,
    \<open>Foc_Outer_Loop\<close>, \<open>Foc_Loop_Properties\<close>: accuracy, linearity, rates, preemption, supervision.
  \<^item> \<open>Motor_Alignment\<close>, \<open>Electrical_Ident\<close>, \<open>Mechanical_Ident\<close>: the calibration services and the
    online estimators. \<open>Alignment_Correct\<close>, \<open>Electrical_Correct\<close>, \<open>Resistance_Correct\<close>: what they
    answer and when. \<open>Drive_Model\<close>, \<open>Drive_Correct\<close>: the controller and the services on one inverter.
  \<^item> \<open>Cli_Terminals\<close>: the command line of controllers and services. \<open>Hardware_Terminal\<close>,
    \<open>Hardware_Correct\<close>: the terminal of the hardware test. \<open>Fault_Handler\<close>: the fault record of a hard
    fault and its report after the reset.
  \<^item> \<open>Platform\<close>: \<open>core/platform_abstraction\<close>, the motor board, and the factories of the TI and ST targets and
    of the host. \<open>Application\<close>: \<open>targets/sync_foc_sensored\<close>, the boot of the firmware over memory service,
    control mode and platform.
  \<^item> \<open>Can_Client\<close>: \<open>tools/can_commander\<close>, the command client and the main window's use of it.
    \<open>Commander_Panels\<close>: its panels and the window with its events.
    \<open>Can_Adapters\<close>, \<open>Can_Adapters_Correct\<close>: its CAN adapters; streams, connecting, completions.
  \<^item> \<open>Motor_Model\<close>: \<open>tools/simulator/model\<close>, the simulated motor and its cycles in the event dispatcher,
    with a controller on it. \<open>Simulator_Correct\<close>: scheduling, physical ranges, limited runs, restarts.
    \<open>Scope_Widget\<close>: the oscilloscope's buffers, trigger and windows. \<open>Hexagon_Widget\<close>: the plane of the
    voltages. \<open>Simulator_Panels\<close>, \<open>Simulator_App\<close>: \<open>tools/simulator/view\<close> and \<open>tools/simulator/app\<close>, the panels,
    the window and the wiring of the three simulators. \<open>Simulator_View\<close>: calibrations exclude each other, the
    scope shows the currents of the run.
  \<^item> \<open>Tcp_Client\<close>, \<open>Tcp_Canbus\<close>, \<open>Tcp_Serial\<close>, \<open>Parse_IPv4\<close>: \<open>tools/hardware_bridge/client\<close>;
    \<open>Tcp_Canbus_Correct\<close>, \<open>Tcp_Properties\<close>: frames, streams, completions. \<open>Bridge_Window\<close>: the headless
    program, the controller thread and the window around the two connections.
  \<^item> \<open>Vt100_Parser\<close>, \<open>Terminal_Screen\<close>, \<open>Vt100_Terminal\<close>: the terminal emulation of the bridge;
    \<open>Screen_Correct\<close>, \<open>Screen_Operations\<close>, \<open>Terminal_Correct\<close>, \<open>Terminal_Properties\<close>,
    \<open>Terminal_Effects\<close>: bounds, parsing, effects. \<open>Terminal_View\<close>: the widget that shows the screen.
  \<^item> \<open>Hil_Session\<close>, \<open>Hil_Logger\<close>: \<open>integration_tests/hardware_in_the_loop\<close>, the session with the device over the
    bridge and its transcript. \<open>Hil_Correct\<close>: a command reads exactly its answer, in bounded time.
  \<^item> This theory: a calibration from the state machine through the memory service and a power cycle back.

  Conventions. A class is a record of its fields, an operation a function from the state to the new state
  and the list of its calls of other objects (its effects), in program order. A result \<open>None\<close> is a failed
  assertion, undefined behaviour or the call of an empty function. A callback is a number; an
  \<open>infra::AutoResetFunction\<close> is an option that the call resets. A call of another object that calls back
  at once is an effect followed by the operation it causes; deeper re-entrance is not modelled.
  Names that clash have the class as a prefix or a short suffix.

  Parameters. Code outside \<open>src\<close> is an argument: the CRC (\<open>crc\<close>), \<open>float\<close> arithmetic
  (\<open>float_arith\<close>; the locale \<open>float_order\<close> states the order laws that rounding keeps, \<open>exact\<close> is the
  arithmetic without rounding, and there are no infinities and no NaN), the incremental PID
  (\<open>pid_class\<close>), recursive least squares (\<open>rls_class\<close>), the tokenizer and number parsing
  (\<open>text_library\<close>), samples of noise and \<open>fmod\<close> (\<open>model_env\<close>), the answers of CAN drivers (\<open>windows\<close>,
  \<open>sockets\<close>), the CAN library's codes and scales (\<open>can_library\<close>, \<open>foc_scales\<close>), connections,
  timers, streams and peripherals (events and effects). Multi-byte fields are little-endian.

  Interfaces are locales: the region store of the memory service, the base of a controller
  (\<open>foc_base\<close>), the arithmetic (\<open>float_order\<close>), the clients of the inverter (\<open>drive_client\<close>,
  \<open>passive_client\<close>) and of the simulated one (\<open>cycle_client\<close>), and the CAN adapters (\<open>can_adapter\<close>), each
  interpreted on the model's own definitions.

  Bounds. An operation of the memory service needs at most three completions (fuel 3). Screens have at most
  1000000000 rows and columns and digit runs at most nine digits, below the overflow of \<open>int\<close>. The fast
  sine is within 21/1000000 for angles up to 26000000 radians, below the overflow of its index. The pole
  pair measurement allows 1000000000 revolutions, below the overflow of its step count.

  Not modelled: layout, colours and number formatting of the Qt tools, the launch dialog, the serial panel and the
  folding box, register set-up inside the hal, entry points that only construct modelled objects, output of banners,
  the other test code, and the submodules.
\<close>

section \<open>The state machine on the non-volatile memory service\<close>



text \<open>Dropped invalidation. The state machine relies on every memory request being answered, and
  the service drops requests while it is busy. After an emergency stop while the calibration is
  still being saved, a clear-calibration command is accepted by the machine, its invalidation is
  dropped by the service, and when the save completes nothing happens: the command stays pending,
  the service owes nothing, and every later calibration is rejected.\<close>

lemma clear_during_save_hangs:
  "\<exists>s d log n. sm_reach fmul anything s [NvmSave d, NvmInvalidate] [1, 2] log \<and> pendingCommandCallback s = Some 2 \<and>
     nvm_reach crc n [EraseReq CalibrationRegion AtCalibrationErased] [8] [] \<and>
     call crc (OpInvalidateCalibration 9) n = (n, []) \<and>
     (\<forall>st. handle fmul (Response (SaveDone st)) s = Some (s, [])) \<and>
     (\<forall>cb. handle fmul (Calibrate cb) s = Some (s, [CmdDone cb Rejected]))"
proof -
  let ?d = "measured_electrical 7 5 6 8"
  obtain s log where p: "play fmul anything
      [Complete 0 (ValidityDone False), Do (Calibrate 1), Complete 0 (PolePairsDone (Some 7)),
       Complete 0 (ResistanceAndInductanceDone (Some 5) (Some 6)), Complete 0 (AlignmentDone (Some 8)),
       Do EmergencyStop, Do (ClearCalibration 2)] (boot_state TorqueStateMachine)
      = Some (s, [NvmSave ?d, NvmInvalidate], [1, 2], log)"
    and s: "pendingCommandCallback s = Some 2" "currentState s = Idle"
    by (simp add: play_defs measured_electrical_def)
  from s have later: "\<forall>st. handle fmul (Response (SaveDone st)) s = Some (s, [])"
      "\<forall>cb. handle fmul (Calibrate cb) s = Some (s, [CmdDone cb Rejected])"
    by (simp_all add: OnCalibrationSaved_def CmdCalibrate_def HasPendingCommand_def)
  obtain n where n: "call crc (OpSaveCalibration ?d 8) NonVolatileMemoryImpl_init =
      (n, [Request (EraseReq CalibrationRegion AtCalibrationErased)])" "onCalibrationDone n = Some 8"
    by (simp add: SaveCalibration_def)
  have "nvm_reach crc n [EraseReq CalibrationRegion AtCalibrationErased] [8] []"
    using nvm_reach.client [OF nvm_reach.start n(1)] by (simp add: accepted_def)
  moreover have "call crc (OpInvalidateCalibration 9) n = (n, [])"
    using n(2) by (simp add: InvalidateCalibration_def)
  ultimately show ?thesis using play_boot [OF p] s(1) later by blast
qed

end
